(* ===== verification/Base.thy ===== *)
theory Base
  imports Main "HOL-Library.Multiset"
begin

text \<open>
  Shared vocabulary of the development: identifiers and instants, the
  collections of facts that the component theories extend, table operations
  (what a Prisma \<open>updateMany\<close>, \<open>count\<close>, \<open>aggregate\<close> or \<open>findFirst\<close> does to a
  list of rows), and transactions.  A transaction is a function from a store to
  an error or a result with the new store; \<open>run_tx\<close> commits on success and
  keeps the old store when the transaction throws, as Prisma's
  \<open>$transaction\<close> does.
\<close>

type_synonym uuid = nat
  \<comment> \<open>a row identifier; the order of identifiers is the order of the numbers\<close>
type_synonym instant = int
  \<comment> \<open>milliseconds since the epoch, what \<open>Date.getTime()\<close> returns\<close>
type_synonym money = int
  \<comment> \<open>a \<open>Decimal(_, 2)\<close> column in hundredths\<close>

named_theorems tx_defs \<open>primitive transactions, unfolded\<close>
named_theorems tx_iff \<open>when a composed transaction succeeds\<close>
named_theorems tx_run \<open>one step of a composed transaction\<close>
named_theorems table_simps \<open>how table operations act on each other\<close>
named_theorems frame_simps \<open>which tables an operation leaves alone\<close>

section \<open>Tables\<close>

text \<open>\<open>updateMany({ where, data })\<close>: every row that satisfies the filter is changed.\<close>

definition update_where :: "('r \<Rightarrow> bool) \<Rightarrow> ('r \<Rightarrow> 'r) \<Rightarrow> 'r list \<Rightarrow> 'r list" where
  "update_where P f rows = map (\<lambda>r. if P r then f r else r) rows"

definition count_where :: "('r \<Rightarrow> bool) \<Rightarrow> 'r list \<Rightarrow> nat" where
  "count_where P rows = length (filter P rows)"

text \<open>\<open>aggregate({ where, _sum })\<close> with \<open>?? 0\<close> for the empty selection.\<close>

definition sum_where :: "('r \<Rightarrow> bool) \<Rightarrow> ('r \<Rightarrow> int) \<Rightarrow> 'r list \<Rightarrow> int" where
  "sum_where P q rows = sum_list (map q (filter P rows))"

definition any_row :: "('r \<Rightarrow> bool) \<Rightarrow> 'r list \<Rightarrow> bool" where
  "any_row P rows = list_ex P rows"

text \<open>\<open>findFirst\<close> with an \<open>orderBy\<close>: the first selected row in the order of a key.\<close>

definition find_sorted :: "('r \<Rightarrow> 'k::linorder) \<Rightarrow> ('r \<Rightarrow> bool) \<Rightarrow> 'r list \<Rightarrow> 'r option" where
  "find_sorted k P rows = (case sort_key k (filter P rows) of [] \<Rightarrow> None | r # _ \<Rightarrow> Some r)"

lemma update_where_Nil [simp]: "update_where P f [] = []"
  by (simp add: update_where_def)

lemma update_where_Cons [simp]:
  "update_where P f (r # rows) = (if P r then f r else r) # update_where P f rows"
  by (simp add: update_where_def)

lemma length_update_where [simp]: "length (update_where P f rows) = length rows"
  by (simp add: update_where_def)

lemma update_where_append [table_simps]:
  "update_where P f (xs @ ys) = update_where P f xs @ update_where P f ys"
  by (simp add: update_where_def)

lemma map_update_where:
  assumes "\<And>r. P r \<Longrightarrow> k (f r) = k r"
  shows "map k (update_where P f rows) = map k rows"
  using assms by (induction rows) auto

lemma set_update_where:
  "set (update_where P f rows) = (\<lambda>r. if P r then f r else r) ` set rows"
  by (simp add: update_where_def)

lemma filter_update_where_keep:
  assumes "\<And>r. P r \<Longrightarrow> Q (f r) = Q r" and "\<And>r. P r \<Longrightarrow> Q r \<Longrightarrow> f r = r"
  shows "filter Q (update_where P f rows) = filter Q rows"
  using assms by (induction rows) auto

lemma filter_update_where_other:
  assumes "\<And>r. P r \<Longrightarrow> \<not> Q r" and "\<And>r. P r \<Longrightarrow> \<not> Q (f r)"
  shows "filter Q (update_where P f rows) = filter Q rows"
  using assms by (induction rows) auto

lemma filter_update_where_push:
  assumes "\<And>r. P r \<Longrightarrow> Q (f r) = Q r"
  shows "filter Q (update_where P f rows) = update_where P f (filter Q rows)"
  using assms by (induction rows) auto

lemma update_where_id:
  assumes "\<And>r. r \<in> set rows \<Longrightarrow> P r \<Longrightarrow> f r = r"
  shows "update_where P f rows = rows"
  using assms by (induction rows) auto

lemma update_where_none:
  assumes "\<And>r. r \<in> set rows \<Longrightarrow> \<not> P r"
  shows "update_where P f rows = rows"
  using assms by (induction rows) auto

lemma sum_where_Nil [simp]: "sum_where P q [] = 0"
  by (simp add: sum_where_def)

lemma sum_where_Cons [simp]:
  "sum_where P q (r # rows) = (if P r then q r else 0) + sum_where P q rows"
  by (simp add: sum_where_def)

lemma sum_where_append [simp]:
  "sum_where P q (xs @ ys) = sum_where P q xs + sum_where P q ys"
  by (simp add: sum_where_def)

lemma sum_where_cong:
  assumes "\<And>r. r \<in> set rows \<Longrightarrow> P r = P' r" and "\<And>r. r \<in> set rows \<Longrightarrow> P r \<Longrightarrow> q r = q' r"
  shows "sum_where P q rows = sum_where P' q' rows"
  using assms by (induction rows) auto

lemma sum_where_nonneg:
  assumes "\<And>r. r \<in> set rows \<Longrightarrow> P r \<Longrightarrow> 0 \<le> q r"
  shows "0 \<le> sum_where P q rows"
  using assms by (induction rows) auto

lemma sum_where_zero:
  assumes "\<And>r. r \<in> set rows \<Longrightarrow> \<not> P r"
  shows "sum_where P q rows = 0"
  using assms by (induction rows) auto

lemma sum_where_mono:
  assumes "\<And>r. r \<in> set rows \<Longrightarrow> P r \<Longrightarrow> P' r"
    and "\<And>r. r \<in> set rows \<Longrightarrow> P' r \<Longrightarrow> 0 \<le> q r"
  shows "sum_where P q rows \<le> sum_where P' q rows"
  using assms by (induction rows) (auto intro: add_increasing)

lemma sum_where_split:
  "sum_where P q rows = sum_where (\<lambda>r. P r \<and> S r) q rows + sum_where (\<lambda>r. P r \<and> \<not> S r) q rows"
  by (induction rows) auto

lemma sum_where_update:
  "sum_where Q q (update_where P f rows) =
     sum_where (\<lambda>r. P r \<and> Q (f r)) (\<lambda>r. q (f r)) rows + sum_where (\<lambda>r. \<not> P r \<and> Q r) q rows"
  by (induction rows) auto

lemma sum_where_update_off:
  assumes "\<And>r. P r \<Longrightarrow> \<not> Q (f r)"
  shows "sum_where Q q (update_where P f rows) = sum_where (\<lambda>r. Q r \<and> \<not> P r) q rows"
  using assms by (induction rows) auto

lemma sum_where_update_same:
  assumes "\<And>r. P r \<Longrightarrow> Q (f r) = Q r" and "\<And>r. P r \<Longrightarrow> q (f r) = q r"
  shows "sum_where Q q (update_where P f rows) = sum_where Q q rows"
  using assms by (induction rows) auto

lemma sum_where_filter: "sum_where Q q (filter S rows) = sum_where (\<lambda>r. S r \<and> Q r) q rows"
  by (induction rows) auto

lemma sum_where_pick:
  assumes "distinct (map k rows)" and "r0 \<in> set rows" and "P r0"
  shows "sum_where (\<lambda>r. P r \<and> k r = k r0) q rows = q r0"
  using assms
proof (induction rows)
  case (Cons a rows)
  show ?case
  proof (cases "a = r0")
    case True
    then have "sum_where (\<lambda>r. P r \<and> k r = k r0) q rows = 0"
      using Cons.prems by (intro sum_where_zero) (auto simp: image_iff)
    then show ?thesis using True Cons.prems by simp
  next
    case False
    then have "k a \<noteq> k r0" using Cons.prems by (auto simp: image_iff)
    then show ?thesis using False Cons by simp
  qed
qed simp

lemma sum_where_one:
  assumes "distinct (map k rows)" and "r0 \<in> set rows" and "k r0 = v"
  shows "sum_where (\<lambda>r. k r = v) q rows = q r0"
  using sum_where_pick[OF assms(1,2), of "\<lambda>_. True" q] assms(3) by simp

lemma count_where_Nil [simp]: "count_where P [] = 0"
  by (simp add: count_where_def)

lemma count_where_Cons [simp]:
  "count_where P (r # rows) = (if P r then Suc (count_where P rows) else count_where P rows)"
  by (simp add: count_where_def)

lemma count_where_0_iff: "count_where P rows = 0 \<longleftrightarrow> (\<forall>r\<in>set rows. \<not> P r)"
  by (simp add: count_where_def filter_empty_conv)

lemma any_row_iff [simp]: "any_row P rows \<longleftrightarrow> (\<exists>r\<in>set rows. P r)"
  by (simp add: any_row_def list_ex_iff)

lemma find_some_set: "List.find P xs = Some x \<Longrightarrow> x \<in> set xs"
  by (auto simp: find_Some_iff)

lemma find_some_prop: "List.find P xs = Some x \<Longrightarrow> P x"
  by (auto simp: find_Some_iff)

lemma find_distinct_key:
  assumes "distinct (map k xs)" and "x \<in> set xs" and "P x" and key: "\<And>y. P y \<Longrightarrow> k y = k x"
  shows "List.find P xs = Some x"
  using assms(1-3)
proof (induction xs)
  case (Cons a xs)
  show ?case
  proof (cases "P a")
    case True
    then have "k a = k x" by (rule key)
    moreover have "k x \<in> k ` set xs" if "x \<in> set xs" using that by (rule imageI)
    ultimately have "a = x" using Cons.prems(1,2) by auto
    then show ?thesis using True by simp
  next
    case False
    then have "x \<in> set xs" using Cons.prems(2,3) by auto
    then have "List.find P xs = Some x"
      using Cons.prems by (intro Cons.IH) auto
    then show ?thesis using False by simp
  qed
qed simp

lemma find_sorted_set: "find_sorted k P rows = Some r \<Longrightarrow> r \<in> set rows \<and> P r"
proof -
  assume "find_sorted k P rows = Some r"
  then obtain rs where "sort_key k (filter P rows) = r # rs"
    by (auto simp: find_sorted_def split: list.splits)
  then have "r \<in> set (sort_key k (filter P rows))" by simp
  then show ?thesis by simp
qed

lemma find_sorted_None: "find_sorted k P rows = None \<longleftrightarrow> (\<forall>r\<in>set rows. \<not> P r)"
proof -
  have "find_sorted k P rows = None \<longleftrightarrow> sort_key k (filter P rows) = []"
    by (simp add: find_sorted_def split: list.splits)
  also have "\<dots> \<longleftrightarrow> set (sort_key k (filter P rows)) = {}" by (simp del: set_sort)
  also have "\<dots> \<longleftrightarrow> (\<forall>r\<in>set rows. \<not> P r)" by auto
  finally show ?thesis .
qed

section \<open>Insertion-ordered maps\<close>

text \<open>A JavaScript \<open>Map\<close> read as its entries in insertion order; setting an
  existing key keeps its position.\<close>

fun jsmap_set :: "'k \<Rightarrow> 'v \<Rightarrow> ('k \<times> 'v) list \<Rightarrow> ('k \<times> 'v) list" where
  "jsmap_set k v [] = [(k, v)]"
| "jsmap_set k v ((k', v') # m) = (if k' = k then (k, v) # m else (k', v') # jsmap_set k v m)"

lemma map_of_jsmap_set [simp]: "map_of (jsmap_set k v m) = (map_of m)(k \<mapsto> v)"
  by (induction k v m rule: jsmap_set.induct) auto

lemma fst_set_jsmap_set: "fst ` set (jsmap_set k v m) = insert k (fst ` set m)"
  by (induction k v m rule: jsmap_set.induct) auto

lemma distinct_jsmap_set:
  assumes "distinct (map fst m)"
  shows "distinct (map fst (jsmap_set k v m))"
  using assms
proof (induction k v m rule: jsmap_set.induct)
  case (2 k v k' v' m)
  then show ?case by (cases "k' = k") (simp_all add: fst_set_jsmap_set)
qed simp

section \<open>Transactions\<close>

type_synonym ('s, 'e, 'a) tx = "'s \<Rightarrow> 'e + ('a \<times> 's)"

definition tx_return :: "'a \<Rightarrow> ('s, 'e, 'a) tx" where
  [tx_defs]: "tx_return a = (\<lambda>s. Inr (a, s))"

definition tx_throw :: "'e \<Rightarrow> ('s, 'e, 'a) tx" where
  [tx_defs]: "tx_throw e = (\<lambda>s. Inl e)"

definition tx_read :: "('s \<Rightarrow> 'a) \<Rightarrow> ('s, 'e, 'a) tx" where
  [tx_defs]: "tx_read f = (\<lambda>s. Inr (f s, s))"

definition tx_write :: "('s \<Rightarrow> 's) \<Rightarrow> ('s, 'e, unit) tx" where
  [tx_defs]: "tx_write f = (\<lambda>s. Inr ((), f s))"

definition tx_when :: "bool \<Rightarrow> 'e \<Rightarrow> ('s, 'e, unit) tx" where
  [tx_defs]: "tx_when b e = (\<lambda>s. if b then Inl e else Inr ((), s))"
  \<comment> \<open>\<open>if (b) throw e\<close>\<close>

definition tx_bind :: "('s, 'e, 'a) tx \<Rightarrow> ('a \<Rightarrow> ('s, 'e, 'b) tx) \<Rightarrow> ('s, 'e, 'b) tx" where
  "tx_bind m f = (\<lambda>s. case m s of Inl e \<Rightarrow> Inl e | Inr (a, s') \<Rightarrow> f a s')"

definition tx_seq :: "('s, 'e, unit) tx \<Rightarrow> ('s, 'e, 'b) tx \<Rightarrow> ('s, 'e, 'b) tx" where
  "tx_seq m n = tx_bind m (\<lambda>_. n)"

text \<open>\<open>prisma.$transaction\<close>: commit the new store, or roll back and rethrow.\<close>

definition run_tx :: "('s, 'e, 'a) tx \<Rightarrow> 's \<Rightarrow> ('e + 'a) \<times> 's" where
  "run_tx m s = (case m s of Inl e \<Rightarrow> (Inl e, s) | Inr (a, s') \<Rightarrow> (Inr a, s'))"

text \<open>Service methods run several transactions in a row: what an earlier one
  committed stays when a later one throws.\<close>

type_synonym ('s, 'e, 'a) service = "'s \<Rightarrow> ('e + 'a) \<times> 's"

definition svc_bind :: "('s, 'e, 'a) service \<Rightarrow> ('a \<Rightarrow> ('s, 'e, 'b) service) \<Rightarrow> ('s, 'e, 'b) service" where
  "svc_bind m f = (\<lambda>s. case m s of (Inl e, s') \<Rightarrow> (Inl e, s') | (Inr a, s') \<Rightarrow> f a s')"

definition svc_return :: "'a \<Rightarrow> ('s, 'e, 'a) service" where
  "svc_return a = (\<lambda>s. (Inr a, s))"

definition svc_throw :: "'e \<Rightarrow> ('s, 'e, 'a) service" where
  "svc_throw e = (\<lambda>s. (Inl e, s))"

text \<open>\<open>try { m } catch (e) { handler(e) }\<close>.\<close>

definition svc_try :: "('s, 'e, 'a) service \<Rightarrow> ('e \<Rightarrow> ('s, 'e, 'a) service) \<Rightarrow> ('s, 'e, 'a) service" where
  "svc_try m handler = (\<lambda>s. case m s of (Inl e, s') \<Rightarrow> handler e s' | (Inr a, s') \<Rightarrow> (Inr a, s'))"

lemma tx_bind_Inr [tx_iff]:
  "tx_bind m f s = Inr r \<longleftrightarrow> (\<exists>a s'. m s = Inr (a, s') \<and> f a s' = Inr r)"
  by (auto simp: tx_bind_def split: sum.splits prod.splits)

lemma tx_seq_Inr [tx_iff]:
  "tx_seq m n s = Inr r \<longleftrightarrow> (\<exists>s'. m s = Inr ((), s') \<and> n s' = Inr r)"
  by (auto simp: tx_seq_def tx_bind_def split: sum.splits prod.splits)

lemma tx_bind_Inl [tx_iff]:
  "tx_bind m f s = Inl e \<longleftrightarrow> m s = Inl e \<or> (\<exists>a s'. m s = Inr (a, s') \<and> f a s' = Inl e)"
  by (auto simp: tx_bind_def split: sum.splits prod.splits)

lemma tx_seq_Inl [tx_iff]:
  "tx_seq m n s = Inl e \<longleftrightarrow> m s = Inl e \<or> (\<exists>s'. m s = Inr ((), s') \<and> n s' = Inl e)"
  by (auto simp: tx_seq_def tx_bind_def split: sum.splits prod.splits)

lemma tx_return_Inr [simp]: "tx_return a s = Inr r \<longleftrightarrow> r = (a, s)"
  by (auto simp: tx_defs)

lemma tx_return_Inl [simp]: "tx_return a s \<noteq> Inl e"
  by (simp add: tx_defs)

lemma tx_throw_Inl [simp]: "tx_throw e s = Inl e' \<longleftrightarrow> e' = e"
  by (auto simp: tx_defs)

lemma tx_throw_Inr [simp]: "tx_throw e s \<noteq> Inr r"
  by (simp add: tx_defs)

lemma tx_read_Inr [simp]: "tx_read f s = Inr r \<longleftrightarrow> r = (f s, s)"
  by (auto simp: tx_defs)

lemma tx_read_Inl [simp]: "tx_read f s \<noteq> Inl e"
  by (simp add: tx_defs)

lemma tx_write_Inr [simp]: "tx_write f s = Inr r \<longleftrightarrow> r = ((), f s)"
  by (auto simp: tx_defs)

lemma tx_write_Inl [simp]: "tx_write f s \<noteq> Inl e"
  by (simp add: tx_defs)

lemma tx_when_Inr [simp]: "tx_when b e s = Inr r \<longleftrightarrow> \<not> b \<and> r = ((), s)"
  by (auto simp: tx_defs)

lemma tx_when_Inl [simp]: "tx_when b e s = Inl e' \<longleftrightarrow> b \<and> e' = e"
  by (auto simp: tx_defs)

lemma tx_run_steps [tx_run]:
  "tx_bind (tx_read g) f s = f (g s) s"
  "tx_bind (tx_return a) f s = f a s"
  "tx_bind (tx_throw e) f s = Inl e"
  "tx_seq (tx_write w) n s = n (w s)"
  "tx_seq (tx_when b e) n s = (if b then Inl e else n s)"
  "tx_seq (tx_return ()) n s = n s"
  "tx_seq (tx_throw e) n s = Inl e"
  "tx_read g s = Inr (g s, s)"
  "tx_return a s = Inr (a, s)"
  "tx_throw e s = Inl e"
  "tx_write w s = Inr ((), w s)"
  "tx_when b e s = (if b then Inl e else Inr ((), s))"
  by (simp_all add: tx_bind_def tx_seq_def tx_defs)

lemma tx_bind_assoc [tx_run]:
  "tx_bind (tx_seq m n) f s = tx_seq m (tx_bind n f) s"
  "tx_bind (tx_bind m g) f s = tx_bind m (\<lambda>a. tx_bind (g a) f) s"
  "tx_seq (tx_seq m n') n s = tx_seq m (tx_seq n' n) s"
  by (auto simp: tx_bind_def tx_seq_def split: sum.splits prod.splits)

lemma tx_run_branches [tx_run]:
  "(case x of None \<Rightarrow> m | Some y \<Rightarrow> f y) s = (case x of None \<Rightarrow> m s | Some y \<Rightarrow> f y s)"
  "(case p of (a, b) \<Rightarrow> g a b) s = (case p of (a, b) \<Rightarrow> g a b s)"
  "(if c then m else m') s = (if c then m s else m' s)"
  "(let z = v in h z) s = (let z = v in h z s)"
  by (simp_all add: Let_def split: option.splits prod.splits)

lemma case_sum_if [tx_run]:
  "(case (if b then x else y) of Inl e \<Rightarrow> g e | Inr r \<Rightarrow> h r) =
     (if b then (case x of Inl e \<Rightarrow> g e | Inr r \<Rightarrow> h r) else (case y of Inl e \<Rightarrow> g e | Inr r \<Rightarrow> h r))"
  by simp

lemma tx_bind_cases:
  "tx_bind m f s = (case m s of Inl e \<Rightarrow> Inl e | Inr (a, s') \<Rightarrow> f a s')"
  "tx_seq m' n s = (case m' s of Inl e \<Rightarrow> Inl e | Inr (_, s') \<Rightarrow> n s')"
  by (auto simp: tx_bind_def tx_seq_def split: sum.splits prod.splits)

lemma run_tx_cases:
  obtains (rollback) e where "m s = Inl e" and "run_tx m s = (Inl e, s)"
  | (commit) a s' where "m s = Inr (a, s')" and "run_tx m s = (Inr a, s')"
  by (cases "m s") (auto simp: run_tx_def)

lemma run_tx_Inr_iff [simp]: "run_tx m s = (Inr a, s') \<longleftrightarrow> m s = Inr (a, s')"
  by (auto simp: run_tx_def split: sum.splits)

lemma run_tx_Inl_iff [simp]: "run_tx m s = (Inl e, s') \<longleftrightarrow> m s = Inl e \<and> s' = s"
  by (auto simp: run_tx_def split: sum.splits)

lemma run_tx_invariant:
  assumes "I s" and "\<And>a s'. m s = Inr (a, s') \<Longrightarrow> I s'"
  shows "I (snd (run_tx m s))"
proof (cases "m s")
  case (Inl e)
  then show ?thesis using assms(1) by (simp add: run_tx_def)
next
  case (Inr r)
  then show ?thesis using assms(2) by (cases r) (simp add: run_tx_def)
qed

end
