(* ===== verification/Store.thy ===== *)
theory Store
  imports Base Complex_Main "HOL-Library.List_Lexorder" "HOL-Library.Char_ord"
begin

text \<open>
  The relational store: the enumerations of \<open>packages/contracts\<close> and of the
  Prisma schema as datatypes, one record per table with the columns that the
  modelled code reads or writes, and the store itself, a record of tables.
  Rows are lists in the order of insertion; \<open>wf_store\<close> states the primary keys
  and unique indexes of the schema.  \<open>tenant_slice\<close> is what a store holds of
  one tenant.
\<close>

section \<open>Enumerations\<close>

datatype order_status =
  AI_PROCESSING | AI_FAILED | NEEDS_REVIEW | AUTO_APPROVED | APPROVED | CANCELLED

datatype procurement_status =
  UNASSESSED | IN_STOCK | TO_ORDER | SENDING | ORDERED | SUPPLIER_CONFIRMED
| RECEIVED | UNAVAILABLE

datatype procurement_summary =
  S_UNASSESSED | S_READY | S_PARTIALLY_READY | S_NEEDS_ORDER | S_SENDING
| S_AWAITING_SUPPLIER | S_BLOCKED | S_HANDED_OFF

datatype decision_source = AUTO | MANUAL

datatype reservation_status = ACTIVE | CONSUMED | RELEASED

datatype procurement_reason =
  STOCK_AVAILABLE | STOCK_INSUFFICIENT | STOCK_UNKNOWN | PRODUCT_UNMATCHED
| RESERVATION_CONFLICT | MANUAL_IN_STOCK | MANUAL_TO_ORDER | DELIVERY_FAILED

datatype mutation_surface =
  META_INBOUND | TELEGRAM_INBOUND | ORDER_RECOGNITION | CONVERSATION_REPLY
| CONVERSATION_TRIAGE | ORDER_MUTATION | COMMERCIAL_TERMS | PAYMENT | PROCUREMENT
| CATALOGUE | DELIVERY | SUPPLIER_SEND | SHEETS_EXPORT | NOTIFICATION_SEND
| ACCOUNT_ADMINISTRATION

datatype lifecycle_kind = EXPORT | DELETE

datatype lifecycle_status =
  LC_REQUESTED | LC_EXPORTING | LC_EXPORT_READY | LC_FAILED | LC_CANCELLED

datatype pricing_status = PRICING_READY | PRICING_NEEDS_REVIEW

datatype commercial_issue = ITEM_PRICE_MISSING | ITEM_CURRENCY_MISSING | MIXED_CURRENCIES

datatype payment_method = BANK_TRANSFER | CASH | CASH_ON_DELIVERY | OTHER

datatype export_status = EXP_PENDING | EXP_PROCESSING | EXP_SUCCEEDED | EXP_FAILED

datatype telegram_purpose = TG_TEST | SUPPLIER_ORDER | PERSONAL_ALERT

datatype telegram_status = TG_PENDING | TG_PROCESSING | TG_SUCCEEDED | TG_RETRYABLE | TG_FAILED

datatype workflow_status = WF_ACTIVE | WF_INACTIVE | WF_CLOSED

datatype attachment_type = IMAGE | VIDEO | LINK | UNSUPPORTED

datatype copy_status = CP_PENDING | CP_COPIED | CP_NOT_REQUIRED | CP_RETRYABLE | CP_FAILED

datatype shipment_status =
  SH_DRAFT | SH_CREATING | SH_CREATED | SH_ACCEPTED | SH_IN_TRANSIT | SH_DELIVERED
| SH_RETURNING | SH_RETURNED | SH_CANCELLED | SH_FAILED

datatype social_channel = INSTAGRAM | FACEBOOK | TIKTOK

datatype direction = INBOUND | OUTBOUND

datatype outbound_status = OD_PENDING | OD_SENDING | OD_SENT | OD_FAILED | OD_UNKNOWN

datatype intent_mode = PHRASE_ONLY | AI_SUGGESTION | AI_AUTOMATION

datatype intent_reason =
  R_PHRASE_ONLY | NO_EXPLICIT_PURCHASE_INTENT | NO_USABLE_PRODUCT | MANAGER_REVIEW_MODE
| INCOMPLETE_ORDER | LOW_CONFIDENCE | COMPLETE_HIGH_CONFIDENCE

datatype evaluation_status = EV_PROCESSING | EV_IGNORED | EV_PROPOSED | EV_AUTO_CREATED | EV_FAILED

datatype approval_mode = ALWAYS | NEVER | ON_LOW_CONFIDENCE

datatype chat_route = BUSINESS | BOT

datatype alert_type = ORDER_NEEDS_REVIEW | ORDER_AUTO_APPROVED | SUPPLIER_DELIVERY_FAILED

datatype instagram_status = IG_LEGACY | IG_ACTIVE | IG_REAUTH_REQUIRED | IG_ERROR | IG_DISCONNECTED

datatype tiktok_status = TK_ACTIVE | TK_INBOUND_ONLY | TK_REAUTH_REQUIRED | TK_ERROR | TK_DISCONNECTED

datatype delivery_provider = NOVA_POSHTA | MEEST | UKRPOSHTA

datatype delivery_connection_status = DC_ACTIVE | DC_NEEDS_ATTENTION | DC_DISCONNECTED

datatype attempt_status = AT_PENDING | AT_PROCESSING | AT_SUCCEEDED | AT_RETRYABLE | AT_UNKNOWN | AT_FAILED

datatype attempt_operation = OP_CREATE | OP_STATUS_SYNC | OP_CANCEL

section \<open>Errors\<close>

text \<open>What the modelled code throws.  The first group are the error classes of
  \<open>packages/database\<close>, the second the HTTP exceptions of the API with their
  message, the third the errors of the database client by their code.\<close>

datatype app_error =
  TenantLifecycleFrozen mutation_surface
| ProcurementOrderNotApproved
| ProcurementItemNotFound
| InvalidProcurementTransition procurement_status procurement_status
| ProcurementOrderNotReady
| NotFound string
| BadRequest string
| Conflict string
| TooManyRequests string
| Plain string
| RecordNotFound        \<comment> \<open>P2025, an \<open>update\<close> whose \<open>where\<close> selects no row\<close>
| UniqueViolation       \<comment> \<open>P2002\<close>
| WriteConflict         \<comment> \<open>P2034, a serializable transaction that has to be retried\<close>
| CheckViolation        \<comment> \<open>a CHECK constraint of the schema\<close>
| TransactionAborted    \<comment> \<open>25P02, a statement after one that failed in the same transaction\<close>

section \<open>Rows\<close>

record product =
  pr_id :: uuid
  pr_tenant :: uuid
  pr_sku :: string
  pr_name :: string
  pr_price :: "money option"
  pr_currency :: "string option"
  pr_stock :: "int option"
  pr_active :: bool
  pr_aliases :: "string list"
  pr_description :: "string option"
  pr_category :: "string option"
  pr_brand :: "string option"
  pr_color :: "string option"
  pr_size :: "string option"
  pr_images :: "string list"
  pr_attributes :: string
  pr_source :: "uuid option"
  pr_row_key :: "string option"
  pr_updated :: instant

text \<open>The catalogue: sources, mappings of columns to targets, and runs of an import.  A key of a run
  is one of the three texts that the code builds.\<close>

datatype target = T_SKU | T_NAME | T_DESCRIPTION | T_PRICE | T_CURRENCY | T_STOCK | T_CATEGORY | T_BRAND | T_ALIASES
  | T_COLOR | T_SIZE | T_IMAGES | T_ACTIVE | T_ATTRIBUTES | T_IGNORE

datatype source_type = XLSX_UPLOAD | CSV_UPLOAD | GOOGLE_SHEETS

datatype source_status = SRC_PENDING | SRC_ACTIVE | SRC_PAUSED | SRC_ERROR | SRC_DISCONNECTED

datatype import_status = IM_UPLOADED | IM_MAPPING | IM_MAPPING_REVIEW | IM_PREVIEW_READY | IM_CONFIRMED | IM_PROCESSING
  | IM_COMPLETED | IM_FAILED | IM_CANCELLED

datatype import_key = UploadKey string | MappingKey uuid string nat | ReviewKey uuid string

record catalogue_source =
  cs_id :: uuid
  cs_tenant :: uuid
  cs_type :: source_type
  cs_status :: source_status
  cs_object :: "string option"
  cs_schedule :: "string option"
  cs_fingerprint :: "string option"
  cs_synced :: "instant option"
  cs_next_sync :: "instant option"
  cs_error :: "string option"
  cs_lease :: "uuid option"
  cs_lease_expires :: "instant option"
  cs_version :: nat

record catalogue_mapping =
  cm_id :: uuid
  cm_tenant :: uuid
  cm_source :: uuid
  cm_version :: nat
  cm_fingerprint :: string
  cm_columns :: "(string \<times> target) list"
  cm_clear :: "target list"
  cm_confirmed :: "instant option"

record import_run =
  ru_id :: uuid
  ru_tenant :: uuid
  ru_source :: uuid
  ru_mapping :: "uuid option"
  ru_requested_by :: "uuid option"
  ru_status :: import_status
  ru_key :: import_key
  ru_revision :: "string option"
  ru_snapshot :: "string option"
  ru_sync_version :: "nat option"
  ru_total :: nat
  ru_valid :: nat
  ru_created :: nat
  ru_updated :: nat
  ru_skipped :: nat
  ru_failed :: nat
  ru_errors :: "(nat option \<times> string list) list"
  ru_started :: "instant option"
  ru_completed :: "instant option"

text \<open>The JSON of \<open>Order.extraction\<close>: the fields that the services read.\<close>

record extraction =
  ex_is_order :: "bool option"
  ex_name :: "string option"
  ex_phone :: "string option"
  ex_instagram :: "string option"
  ex_city :: "string option"
  ex_address :: "string option"
  ex_branch :: "string option"

record conversation =
  cv_id :: uuid
  cv_tenant :: uuid
  cv_channel :: social_channel
  cv_external :: string
  cv_participant :: string
  cv_display_name :: "string option"
  cv_profile :: "uuid option"
  cv_last_message :: instant
  cv_workflow :: workflow_status
  cv_status_version :: nat
  cv_status_changed :: "instant option"
  cv_status_by :: "uuid option"

text \<open>What the recognition has stored of the answer of the model: the identifier of the
  response, the model, the tokens of input and output.\<close>

type_synonym ai_metadata = "string \<times> string \<times> int \<times> int"

record order =
  o_id :: uuid
  o_tenant :: uuid
  o_public :: string
  o_conversation :: uuid
  o_trigger :: uuid
  o_prompt :: string
  o_confidence :: "rat option"
  o_ai :: "ai_metadata option"
  o_status :: order_status
  o_extraction :: "extraction option"
  o_issues :: "string list"
  o_sort_product :: string
  o_sort_customer :: string
  o_sort_procurement :: procurement_summary
  o_approved_at :: "instant option"
  o_approved_by :: "string option"
  o_handed_off_at :: "instant option"
  o_handed_off_by :: "string option"
  o_dispatch_version :: nat
  o_created_at :: instant

record order_item =
  it_id :: uuid
  it_tenant :: uuid
  it_order :: uuid
  it_catalog :: "string option"
  it_text :: string
  it_quantity :: int
  it_color :: "string option"
  it_size :: "string option"
  it_confidence :: rat
  it_unit_price :: "money option"
  it_currency :: "string option"
  it_line_total :: "money option"
  it_price_sku :: "string option"
  it_status :: procurement_status
  it_source :: "decision_source option"
  it_reason :: "procurement_reason option"
  it_stock_at :: "int option"
  it_available_at :: "int option"
  it_updated_at :: "instant option"
  it_created_at :: instant

record reservation =
  rs_id :: uuid
  rs_tenant :: uuid
  rs_product :: uuid
  rs_item :: uuid
  rs_quantity :: int
  rs_status :: reservation_status
  rs_consumed_at :: "instant option"
  rs_released_at :: "instant option"

text \<open>\<open>AuditLog.action\<close> together with its \<open>changes\<close> object.\<close>

datatype audit_event =
  PROCUREMENT_ASSESSED procurement_summary
    "(uuid \<times> procurement_status \<times> procurement_reason \<times> int) list"
| PROCUREMENT_RESERVATIONS_RELEASED nat
| PROCUREMENT_STATUS_CHANGED uuid procurement_status procurement_status
| ORDER_HANDED_OFF nat
| ORDER_STATUS_CHANGED order_status order_status
| ORDER_CORRECTED
| ORDER_COMMERCIAL_TERMS_INITIALIZED "uuid option" "uuid option"
| ORDER_COMMERCIAL_TERMS_UPDATED "uuid option" "uuid option"
| ORDER_PAYMENT_RECORDED uuid money string payment_method "uuid option" "string option"
| ORDER_PAYMENT_CANCELLED uuid
| SUPPLIER_ORDER_QUEUED uuid

record audit =
  au_tenant :: uuid
  au_order :: uuid
  au_actor :: string
  au_event :: audit_event

record lifecycle_request =
  lr_id :: uuid
  lr_tenant :: uuid
  lr_kind :: lifecycle_kind
  lr_status :: lifecycle_status
  lr_frozen_at :: "instant option"
  lr_reason :: string
  lr_key :: uuid
  lr_hash :: string
  lr_artifact :: "string option"
  lr_sha :: "string option"
  lr_size :: "nat option"
  lr_manifest :: "nat option"
  lr_ready_at :: "instant option"
  lr_expires_at :: "instant option"
  lr_lease :: "uuid option"
  lr_lease_expires :: "instant option"
  lr_attempts :: nat
  lr_next :: instant
  lr_error :: "string option"
  lr_cancelled_at :: "instant option"
  lr_requested_at :: instant

record payment =
  pay_id :: uuid
  pay_tenant :: uuid
  pay_order :: uuid
  pay_amount :: money
  pay_currency :: string
  pay_method :: payment_method
  pay_received_at :: instant
  pay_bank_account :: "uuid option"
  pay_carrier :: "string option"
  pay_note :: "string option"
  pay_created_by :: string
  pay_key :: uuid
  pay_hash :: string
  pay_cancelled_at :: "instant option"
  pay_cancelled_by :: "string option"
  pay_cancel_reason :: "string option"
  pay_cancel_key :: "uuid option"
  pay_cancel_hash :: "string option"
  pay_created_at :: instant

record legal_entity =
  le_id :: uuid
  le_tenant :: uuid
  le_display_name :: string
  le_legal_name :: string
  le_type :: string
  le_registration :: "string option"
  le_active :: bool
  le_default :: bool
  le_created_at :: instant

record bank_account =
  ba_id :: uuid
  ba_tenant :: uuid
  ba_entity :: uuid
  ba_label :: string
  ba_iban :: string
  ba_bank_name :: "string option"
  ba_currency :: string
  ba_active :: bool
  ba_default :: bool
  ba_created_at :: instant

text \<open>The JSON snapshots of the chosen legal entity and bank account: display
  name, legal name, type and registration; label, IBAN, currency, bank name.\<close>

type_synonym entity_snapshot = "string \<times> string \<times> string \<times> string option"
type_synonym account_snapshot = "string \<times> string \<times> string \<times> string option"

record commercial_terms =
  ct_id :: uuid
  ct_tenant :: uuid
  ct_order :: uuid
  ct_entity :: "uuid option"
  ct_account :: "uuid option"
  ct_currency :: "string option"
  ct_subtotal :: "money option"
  ct_discount :: money
  ct_delivery :: money
  ct_total :: "money option"
  ct_pricing :: pricing_status
  ct_issues :: "commercial_issue list"
  ct_entity_snapshot :: "entity_snapshot option"
  ct_account_snapshot :: "account_snapshot option"
  ct_version :: nat
  ct_updated_by :: string

record sheets_destination =
  gd_id :: uuid
  gd_tenant :: uuid
  gd_active :: bool        \<comment> \<open>\<open>status === 'ACTIVE'\<close>\<close>
  gd_spreadsheet :: string
  gd_sheet :: string
  gd_credential :: "uuid option"
  gd_headers :: "string list"

record order_export =
  oe_id :: uuid
  oe_tenant :: uuid
  oe_order :: uuid
  oe_destination :: uuid
  oe_status :: export_status
  oe_attempts :: nat
  oe_error :: "string option"
  oe_created :: instant
  oe_row :: "nat option"
  oe_last_attempt :: "instant option"
  oe_last_synced :: "instant option"

record telegram_delivery =
  td_id :: uuid
  td_tenant :: uuid
  td_destination :: uuid
  td_order :: "uuid option"
  td_source :: "uuid option"
  td_purpose :: telegram_purpose
  td_status :: telegram_status
  td_key :: string
  td_text :: string
  td_provider_message :: "string option"
  td_attempts :: nat
  td_next_attempt :: instant
  td_last_attempt :: "instant option"
  td_lease :: "uuid option"
  td_lease_expires :: "instant option"
  td_error :: "string option"
  td_completed :: "instant option"
  td_created :: instant

record delivery_item =
  di_tenant :: uuid
  di_delivery :: uuid
  di_item :: uuid

record delivery_connection =
  dc_id :: uuid
  dc_tenant :: uuid
  dc_provider :: delivery_provider
  dc_status :: delivery_connection_status
  dc_credential :: string
  dc_generation :: uuid

text \<open>The JSON of a draft (sender, recipient, destination, parcels, payer, amounts,
  description) is a text; so is the price.\<close>

record shipment =
  sh_id :: uuid
  sh_tenant :: uuid
  sh_order :: uuid
  sh_connection :: uuid
  sh_provider :: delivery_provider
  sh_status :: shipment_status
  sh_draft :: string
  sh_document :: "string option"
  sh_tracking :: "string option"
  sh_cost :: "string option"
  sh_version :: nat
  sh_key :: string
  sh_hash :: string
  sh_created_by :: "uuid option"
  sh_last_code :: "string option"
  sh_error :: "string option"
  sh_next_check :: "instant option"
  sh_last_checked :: "instant option"
  sh_provider_created :: "instant option"
  sh_delivered :: "instant option"
  sh_cancelled :: "instant option"
  sh_created :: instant

record shipment_attempt =
  sa_id :: uuid
  sa_tenant :: uuid
  sa_shipment :: uuid
  sa_version :: nat
  sa_operation :: attempt_operation
  sa_status :: attempt_status
  sa_key :: string
  sa_hash :: string
  sa_attempts :: nat
  sa_next :: instant
  sa_last :: "instant option"
  sa_lease :: "uuid option"
  sa_lease_expires :: "instant option"
  sa_error :: "string option"
  sa_completed :: "instant option"

record status_event =
  se_tenant :: uuid
  se_shipment :: uuid
  se_status :: "shipment_status option"
  se_code :: string
  se_at :: instant

record message =
  m_id :: uuid
  m_tenant :: uuid
  m_conversation :: uuid
  m_channel :: social_channel
  m_direction :: direction
  m_text :: "string option"
  m_source_at :: instant
  m_sent_by :: "uuid option"
  m_provider_message :: "string option"
  m_status :: "outbound_status option"
  m_attempts :: nat
  m_lease :: "uuid option"
  m_lease_expires :: "instant option"
  m_next_attempt :: "instant option"
  m_last_attempt :: "instant option"
  m_error :: "string option"
  m_generation :: "uuid option"
  m_created :: instant
  m_event :: "uuid option"
  m_external :: string
  m_sender :: string
  m_client_key :: "uuid option"

text \<open>The profile of a customer on Instagram: display name and user name.\<close>

record customer_profile =
  pf_id :: uuid
  pf_tenant :: uuid
  pf_participant :: string
  pf_names :: "string option \<times> string option"

record attachment =
  at_id :: uuid
  at_message :: uuid
  at_type :: attachment_type
  at_url :: string
  at_key :: "string option"
  at_checksum :: "string option"
  at_copy :: copy_status
  at_failure :: "string option"

record webhook_event =
  we_id :: uuid
  we_tenant :: uuid
  we_payload :: string
  we_received :: instant
  we_processed :: "instant option"
    \<comment> \<open>with the status \<open>PROCESSED\<close>\<close>

record intent_evaluation =
  iv_id :: uuid
  iv_tenant :: uuid
  iv_conversation :: uuid
  iv_anchor :: uuid
  iv_order :: "uuid option"
  iv_mode :: intent_mode
  iv_status :: evaluation_status
  iv_reason :: "intent_reason option"
  iv_attempts :: nat
  iv_ai :: "ai_metadata option"
  iv_lease_expires :: "instant option"
  iv_error :: "string option"
  iv_completed :: "instant option"

record tenant_settings =
  ts_tenant :: uuid
  ts_intent_mode :: intent_mode
  ts_approval_mode :: approval_mode
  ts_threshold :: rat
  ts_prompt :: string
  ts_phrases :: "string list"

record telegram_chat =
  tc_id :: uuid
  tc_tenant :: uuid
  tc_external :: string
  tc_type :: string
  tc_title :: "string option"
  tc_route :: chat_route
  tc_business :: "string option"
  tc_observed :: instant

record supplier_setting =
  ss_tenant :: uuid
  ss_destination :: uuid
  ss_auto :: bool

record business_connection =
  bc_tenant :: uuid
  bc_external :: string
  bc_enabled :: bool

text \<open>A draft of a reply; its sources are products and the time each was updated.\<close>

datatype draft_status = RD_QUEUED | RD_PROCESSING | RD_READY | RD_USED | RD_STALE | RD_BLOCKED | RD_FAILED

datatype draft_outcome = ANSWER | CLARIFY | HANDOFF

datatype draft_trigger = TR_MANUAL | TR_AUTOMATIC

record reply_draft =
  rd_id :: uuid
  rd_tenant :: uuid
  rd_conversation :: uuid
  rd_anchor :: uuid
  rd_creator :: "uuid option"
  rd_key :: uuid
  rd_trigger :: draft_trigger
  rd_available :: instant
  rd_status :: draft_status
  rd_outcome :: "draft_outcome option"
  rd_text :: "string option"
  rd_final :: "string option"
  rd_sources :: "(uuid \<times> instant) list option"
  rd_lease :: "uuid option"
  rd_lease_expires :: "instant option"
  rd_model_started :: "instant option"
  rd_attempts :: nat
  rd_error :: "string option"
  rd_outbound :: "uuid option"
  rd_created :: instant
  rd_used :: "instant option"

record reply_style =
  ry_tenant :: uuid
  ry_enabled :: bool
  ry_company :: string
  ry_tone :: string
  ry_address :: string
  ry_guidance :: string

datatype run_status = RUN_REQUESTED | RUN_PROCESSING | RUN_COMPLETED | RUN_FAILED

text \<open>A dry run of the retention: the summary is, for each category, the cutoff, the number
  of candidates and the oldest one, when there is a policy.\<close>

record retention_run =
  rr_id :: uuid
  rr_tenant :: uuid
  rr_status :: run_status
  rr_key :: uuid
  rr_hash :: string
  rr_summary :: "(string \<times> (instant \<times> nat \<times> instant option) option) list option"
  rr_lease :: "uuid option"
  rr_lease_expires :: "instant option"
  rr_next :: instant
  rr_error :: "string option"
  rr_completed :: "instant option"
  rr_requested :: instant

text \<open>A membership is active when both it and its user are.\<close>

record membership =
  mb_tenant :: uuid
  mb_user :: uuid
  mb_active :: bool

record user_binding =
  tb_tenant :: uuid
  tb_user :: uuid
  tb_chat :: string
  tb_revoked :: "instant option"

record preference =
  tp_tenant :: uuid
  tp_user :: uuid
  tp_event :: alert_type
  tp_enabled :: bool

record notification =
  un_id :: uuid
  un_tenant :: uuid
  un_user :: uuid
  un_category :: alert_type
  un_order :: uuid
  un_key :: string

record instagram_connection =
  ic_id :: uuid
  ic_tenant :: uuid
  ic_account :: string
  ic_status :: instagram_status
  ic_token :: "string option"
  ic_generation :: "uuid option"
  ic_expires :: "instant option"
  ic_verified :: "instant option"
  ic_error :: "string option"

text \<open>Of the capabilities the code reads whether text may be sent.\<close>

record tiktok_connection =
  tk_tenant :: uuid
  tk_account :: string
  tk_status :: tiktok_status
  tk_send_text :: bool
  tk_access :: "string option"
  tk_refresh :: "string option"
  tk_refresh_expires :: "instant option"
  tk_generation :: "uuid option"
  tk_verified :: "instant option"
  tk_error :: "string option"
  tk_refresh_lease :: "uuid option"

record tenant =
  tn_id :: uuid
  tn_name :: string
  tn_active :: bool

section \<open>The store\<close>

record db =
  products :: "product list"
  conversations :: "conversation list"
  orders :: "order list"
  order_items :: "order_item list"
  reservations :: "reservation list"
  audit_logs :: "audit list"
  lifecycle_requests :: "lifecycle_request list"
  payments :: "payment list"
  legal_entities :: "legal_entity list"
  bank_accounts :: "bank_account list"
  terms_rows :: "commercial_terms list"
  destinations :: "sheets_destination list"
  order_exports :: "order_export list"
  telegram_deliveries :: "telegram_delivery list"
  delivery_items :: "delivery_item list"
  shipments :: "shipment list"
  messages :: "message list"
  evaluations :: "intent_evaluation list"
  settings :: "tenant_settings list"
  telegram_chats :: "telegram_chat list"
  supplier_settings :: "supplier_setting list"
  tenants :: "tenant list"
  attempts_rows :: "shipment_attempt list"
  status_events :: "status_event list"
  delivery_connections :: "delivery_connection list"
  business_connections :: "business_connection list"
  memberships :: "membership list"
  user_bindings :: "user_binding list"
  preferences :: "preference list"
  notifications :: "notification list"
  instagram_connections :: "instagram_connection list"
  tiktok_connections :: "tiktok_connection list"
  profiles :: "customer_profile list"
  attachments :: "attachment list"
  webhook_events :: "webhook_event list"
  catalogue_sources :: "catalogue_source list"
  catalogue_mappings :: "catalogue_mapping list"
  import_runs :: "import_run list"
  reply_drafts :: "reply_draft list"
  reply_styles :: "reply_style list"
  retention_runs :: "retention_run list"
  next_id :: uuid
    \<comment> \<open>the next identifier \<open>@default(uuid())\<close> will hand out\<close>

definition empty_db :: db where
  "empty_db = \<lparr>products = [], conversations = [], orders = [], order_items = [],
     reservations = [], audit_logs = [], lifecycle_requests = [], payments = [],
     legal_entities = [], bank_accounts = [], terms_rows = [], destinations = [],
     order_exports = [], telegram_deliveries = [], delivery_items = [], shipments = [],
     messages = [], evaluations = [], settings = [], telegram_chats = [], supplier_settings = [], tenants = [],
     attempts_rows = [], status_events = [], delivery_connections = [], business_connections = [],
     memberships = [], user_bindings = [], preferences = [], notifications = [],
     instagram_connections = [], tiktok_connections = [], profiles = [], attachments = [], webhook_events = [],
     catalogue_sources = [], catalogue_mappings = [], import_runs = [], reply_drafts = [], reply_styles = [], retention_runs = [],
     next_id = 1\<rparr>"

type_synonym 'a dbtx = "(db, app_error, 'a) tx"
type_synonym 'a dbservice = "(db, app_error, 'a) service"

section \<open>Keys\<close>

definition wf_store :: "db \<Rightarrow> bool" where
  "wf_store d \<longleftrightarrow>
     distinct (map pr_id (products d)) \<and>
     distinct (map (\<lambda>p. (pr_tenant p, pr_sku p)) (products d)) \<and>
     distinct (map o_id (orders d)) \<and>
     distinct (map it_id (order_items d)) \<and>
     distinct (map rs_id (reservations d)) \<and>
     distinct (map (\<lambda>r. (rs_tenant r, rs_item r)) (reservations d)) \<and>
     (\<forall>r\<in>set (reservations d). 0 < rs_quantity r) \<and>
     (\<forall>r\<in>set (reservations d). rs_id r < next_id d)"

section \<open>Statements\<close>

text \<open>\<open>findFirst({ where: { id, tenantId } })\<close> on orders.\<close>

definition find_order :: "uuid \<Rightarrow> uuid \<Rightarrow> db \<Rightarrow> order option" where
  "find_order t oid d = List.find (\<lambda>r. o_id r = oid \<and> o_tenant r = t) (orders d)"

text \<open>The relation \<open>order.items\<close>, ordered by the identifier where the code says so.\<close>

definition items_of :: "uuid \<Rightarrow> uuid \<Rightarrow> db \<Rightarrow> order_item list" where
  "items_of t oid d = filter (\<lambda>i. it_tenant i = t \<and> it_order i = oid) (order_items d)"

definition items_by_id :: "uuid \<Rightarrow> uuid \<Rightarrow> db \<Rightarrow> order_item list" where
  "items_by_id t oid d = sort_key it_id (items_of t oid d)"

definition items_by_creation :: "uuid \<Rightarrow> uuid \<Rightarrow> db \<Rightarrow> order_item list" where
  "items_by_creation t oid d = sort_key it_created_at (items_of t oid d)"

definition reservation_of :: "uuid \<Rightarrow> uuid \<Rightarrow> db \<Rightarrow> reservation option" where
  "reservation_of t iid d =
     List.find (\<lambda>r. rs_tenant r = t \<and> rs_item r = iid) (reservations d)"

definition terms_of :: "uuid \<Rightarrow> uuid \<Rightarrow> db \<Rightarrow> commercial_terms option" where
  "terms_of t oid d = List.find (\<lambda>c. ct_tenant c = t \<and> ct_order c = oid) (terms_rows d)"

text \<open>\<open>update({ where: { tenantId, id }, data })\<close> on orders: P2025 without a row.\<close>

definition update_order :: "uuid \<Rightarrow> uuid \<Rightarrow> (order \<Rightarrow> order) \<Rightarrow> unit dbtx" where
  "update_order t oid f = (\<lambda>d.
     if any_row (\<lambda>r. o_id r = oid \<and> o_tenant r = t) (orders d)
     then Inr ((), d\<lparr>orders := update_where (\<lambda>r. o_id r = oid \<and> o_tenant r = t) f (orders d)\<rparr>)
     else Inl RecordNotFound)"

text \<open>\<open>update({ where: { id }, data })\<close> on order items.\<close>

definition update_item :: "uuid \<Rightarrow> (order_item \<Rightarrow> order_item) \<Rightarrow> unit dbtx" where
  "update_item iid f = (\<lambda>d.
     if any_row (\<lambda>i. it_id i = iid) (order_items d)
     then Inr ((), d\<lparr>order_items := update_where (\<lambda>i. it_id i = iid) f (order_items d)\<rparr>)
     else Inl RecordNotFound)"

definition create_audit :: "uuid \<Rightarrow> uuid \<Rightarrow> string \<Rightarrow> audit_event \<Rightarrow> unit dbtx" where
  "create_audit t oid actor ev = tx_write (\<lambda>d. d\<lparr>audit_logs := audit_logs d @
     [\<lparr>au_tenant = t, au_order = oid, au_actor = actor, au_event = ev\<rparr>]\<rparr>)"

text \<open>The \<open>upsert\<close> of \<open>inventoryReservation\<close> at its unique index
  \<open>(tenantId, orderItemId)\<close>; the column has the constraint \<open>quantity > 0\<close>.\<close>

definition reactivate :: "uuid \<Rightarrow> int \<Rightarrow> reservation \<Rightarrow> reservation" where
  "reactivate pid q r = r\<lparr>rs_product := pid, rs_quantity := q, rs_status := ACTIVE,
     rs_released_at := None, rs_consumed_at := None\<rparr>"

definition new_reservation :: "uuid \<Rightarrow> uuid \<Rightarrow> uuid \<Rightarrow> uuid \<Rightarrow> int \<Rightarrow> reservation" where
  "new_reservation rid t pid iid q = \<lparr>rs_id = rid, rs_tenant = t, rs_product = pid, rs_item = iid,
     rs_quantity = q, rs_status = ACTIVE, rs_consumed_at = None, rs_released_at = None\<rparr>"

definition upsert_reservation :: "uuid \<Rightarrow> uuid \<Rightarrow> uuid \<Rightarrow> int \<Rightarrow> unit dbtx" where
  "upsert_reservation t pid iid q = (\<lambda>d.
     if q \<le> 0 then Inl CheckViolation
     else if any_row (\<lambda>r. rs_tenant r = t \<and> rs_item r = iid) (reservations d)
     then Inr ((), d\<lparr>reservations := update_where (\<lambda>r. rs_tenant r = t \<and> rs_item r = iid)
            (reactivate pid q) (reservations d)\<rparr>)
     else Inr ((), d\<lparr>reservations := reservations d @ [new_reservation (next_id d) t pid iid q],
                    next_id := next_id d + 1\<rparr>))"

section \<open>Tenant slices\<close>

definition tenant_slice :: "uuid \<Rightarrow> db \<Rightarrow> db" where
  "tenant_slice t d = d\<lparr>
     products := filter (\<lambda>r. pr_tenant r = t) (products d),
     conversations := filter (\<lambda>r. cv_tenant r = t) (conversations d),
     orders := filter (\<lambda>r. o_tenant r = t) (orders d),
     order_items := filter (\<lambda>r. it_tenant r = t) (order_items d),
     reservations := filter (\<lambda>r. rs_tenant r = t) (reservations d),
     audit_logs := filter (\<lambda>r. au_tenant r = t) (audit_logs d),
     lifecycle_requests := filter (\<lambda>r. lr_tenant r = t) (lifecycle_requests d),
     payments := filter (\<lambda>r. pay_tenant r = t) (payments d),
     legal_entities := filter (\<lambda>r. le_tenant r = t) (legal_entities d),
     bank_accounts := filter (\<lambda>r. ba_tenant r = t) (bank_accounts d),
     terms_rows := filter (\<lambda>r. ct_tenant r = t) (terms_rows d),
     destinations := filter (\<lambda>r. gd_tenant r = t) (destinations d),
     order_exports := filter (\<lambda>r. oe_tenant r = t) (order_exports d),
     telegram_deliveries := filter (\<lambda>r. td_tenant r = t) (telegram_deliveries d),
     delivery_items := filter (\<lambda>r. di_tenant r = t) (delivery_items d),
     shipments := filter (\<lambda>r. sh_tenant r = t) (shipments d),
     messages := filter (\<lambda>r. m_tenant r = t) (messages d),
     evaluations := filter (\<lambda>r. iv_tenant r = t) (evaluations d),
     settings := filter (\<lambda>r. ts_tenant r = t) (settings d),
     telegram_chats := filter (\<lambda>r. tc_tenant r = t) (telegram_chats d),
     supplier_settings := filter (\<lambda>r. ss_tenant r = t) (supplier_settings d),
     tenants := filter (\<lambda>r. tn_id r = t) (tenants d),
     attempts_rows := filter (\<lambda>r. sa_tenant r = t) (attempts_rows d),
     status_events := filter (\<lambda>r. se_tenant r = t) (status_events d),
     delivery_connections := filter (\<lambda>r. dc_tenant r = t) (delivery_connections d),
     business_connections := filter (\<lambda>r. bc_tenant r = t) (business_connections d),
     memberships := filter (\<lambda>r. mb_tenant r = t) (memberships d),
     user_bindings := filter (\<lambda>r. tb_tenant r = t) (user_bindings d),
     preferences := filter (\<lambda>r. tp_tenant r = t) (preferences d),
     notifications := filter (\<lambda>r. un_tenant r = t) (notifications d),
     instagram_connections := filter (\<lambda>r. ic_tenant r = t) (instagram_connections d),
     tiktok_connections := filter (\<lambda>r. tk_tenant r = t) (tiktok_connections d),
     profiles := filter (\<lambda>r. pf_tenant r = t) (profiles d),
     attachments := filter (\<lambda>r. any_row (\<lambda>m. m_id m = at_message r \<and> m_tenant m = t) (messages d)) (attachments d),
     webhook_events := filter (\<lambda>r. we_tenant r = t) (webhook_events d),
     catalogue_sources := filter (\<lambda>r. cs_tenant r = t) (catalogue_sources d),
     reply_drafts := filter (\<lambda>r. rd_tenant r = t) (reply_drafts d),
     reply_styles := filter (\<lambda>r. ry_tenant r = t) (reply_styles d),
     retention_runs := filter (\<lambda>r. rr_tenant r = t) (retention_runs d),
     next_id := 0\<rparr>"

definition others_unchanged :: "uuid \<Rightarrow> db \<Rightarrow> db \<Rightarrow> bool" where
  "others_unchanged t d d' \<longleftrightarrow> (\<forall>t'. t' \<noteq> t \<longrightarrow> tenant_slice t' d' = tenant_slice t' d)"

section \<open>Facts about the statements\<close>

lemma others_unchanged_refl [simp]: "others_unchanged t d d"
  by (simp add: others_unchanged_def)

lemma others_unchanged_trans:
  "others_unchanged t d d' \<Longrightarrow> others_unchanged t d' d'' \<Longrightarrow> others_unchanged t d d''"
  by (simp add: others_unchanged_def)

lemma find_orderD: "find_order t oid d = Some r \<Longrightarrow> r \<in> set (orders d) \<and> o_id r = oid \<and> o_tenant r = t"
  unfolding find_order_def by (auto simp: find_Some_iff)

lemma find_order_None: "find_order t oid d = None \<longleftrightarrow> (\<forall>r\<in>set (orders d). \<not> (o_id r = oid \<and> o_tenant r = t))"
  unfolding find_order_def by (auto simp: find_None_iff)

lemma items_of_iff: "i \<in> set (items_of t oid d) \<longleftrightarrow> i \<in> set (order_items d) \<and> it_tenant i = t \<and> it_order i = oid"
  by (auto simp: items_of_def)

lemma items_by_id_set [simp]: "set (items_by_id t oid d) = set (items_of t oid d)"
  by (simp add: items_by_id_def)

lemma items_by_creation_set [simp]: "set (items_by_creation t oid d) = set (items_of t oid d)"
  by (simp add: items_by_creation_def)

lemma distinct_map_filter: "distinct (map k xs) \<Longrightarrow> distinct (map k (filter P xs))"
  by (induction xs) auto

lemma mset_map_sort_key: "mset (map g (sort_key k xs)) = mset (map g xs)"
  by simp

lemma distinct_map_sort_key [simp]: "distinct (map g (sort_key k xs)) \<longleftrightarrow> distinct (map g xs)"
  using mset_map_sort_key[of g k xs] by (metis mset_eq_imp_distinct_iff)

lemma distinct_items_by_id:
  "wf_store d \<Longrightarrow> distinct (map it_id (items_by_id t oid d))"
  by (simp add: items_by_id_def items_of_def wf_store_def distinct_map_filter)

lemma items_by_id_cong:
  "order_items d' = order_items d \<Longrightarrow> items_by_id t oid d' = items_by_id t oid d"
  by (simp add: items_by_id_def items_of_def)

lemma wf_item_unique:
  assumes "wf_store d" and "i \<in> set (order_items d)" and "j \<in> set (order_items d)"
    and "it_id i = it_id j"
  shows "i = j"
  using assms unfolding wf_store_def by (auto simp: distinct_map inj_on_def)

lemma wf_reservation_unique:
  assumes "wf_store d" and "r \<in> set (reservations d)" and "q \<in> set (reservations d)"
    and "rs_tenant r = rs_tenant q" and "rs_item r = rs_item q"
  shows "r = q"
  using assms unfolding wf_store_def by (auto simp: distinct_map inj_on_def)

lemma wf_order_unique:
  assumes "wf_store d" and "r \<in> set (orders d)" and "q \<in> set (orders d)"
    and "o_id r = o_id q"
  shows "r = q"
  using assms unfolding wf_store_def by (auto simp: distinct_map inj_on_def)

lemma wf_product_unique:
  assumes "wf_store d" and "p \<in> set (products d)" and "q \<in> set (products d)"
    and "pr_id p = pr_id q"
  shows "p = q"
  using assms unfolding wf_store_def by (auto simp: distinct_map inj_on_def)

lemma update_order_Inr [tx_iff]:
  "update_order t oid f d = Inr r \<longleftrightarrow>
     (\<exists>o'\<in>set (orders d). o_id o' = oid \<and> o_tenant o' = t) \<and>
     r = ((), d\<lparr>orders := update_where (\<lambda>r. o_id r = oid \<and> o_tenant r = t) f (orders d)\<rparr>)"
  by (auto simp: update_order_def)

lemma update_item_Inr [tx_iff]:
  "update_item iid f d = Inr r \<longleftrightarrow>
     (\<exists>i\<in>set (order_items d). it_id i = iid) \<and>
     r = ((), d\<lparr>order_items := update_where (\<lambda>i. it_id i = iid) f (order_items d)\<rparr>)"
  by (auto simp: update_item_def)

lemma create_audit_Inr [tx_iff]:
  "create_audit t oid actor ev d = Inr r \<longleftrightarrow>
     r = ((), d\<lparr>audit_logs := audit_logs d @
       [\<lparr>au_tenant = t, au_order = oid, au_actor = actor, au_event = ev\<rparr>]\<rparr>)"
  by (simp add: create_audit_def)

lemma store_run [tx_run]:
  "tx_seq (create_audit t oid actor ev) n d = n (d\<lparr>audit_logs := audit_logs d @
     [\<lparr>au_tenant = t, au_order = oid, au_actor = actor, au_event = ev\<rparr>]\<rparr>)"
  "tx_seq (update_order t oid f) n d =
     (if \<exists>o'\<in>set (orders d). o_id o' = oid \<and> o_tenant o' = t
      then n (d\<lparr>orders := update_where (\<lambda>r. o_id r = oid \<and> o_tenant r = t) f (orders d)\<rparr>)
      else Inl RecordNotFound)"
  "tx_seq (update_item iid g) n d =
     (if \<exists>i\<in>set (order_items d). it_id i = iid
      then n (d\<lparr>order_items := update_where (\<lambda>i. it_id i = iid) g (order_items d)\<rparr>)
      else Inl RecordNotFound)"
  by (auto simp: tx_seq_def tx_bind_def create_audit_def tx_defs update_order_def update_item_def)

lemma create_audit_Inl [simp]: "create_audit t oid actor ev d \<noteq> Inl e"
  by (simp add: create_audit_def)

lemma reactivate_simps [simp]:
  "rs_id (reactivate pid q r) = rs_id r" "rs_tenant (reactivate pid q r) = rs_tenant r"
  "rs_item (reactivate pid q r) = rs_item r" "rs_product (reactivate pid q r) = pid"
  "rs_quantity (reactivate pid q r) = q" "rs_status (reactivate pid q r) = ACTIVE"
  by (simp_all add: reactivate_def)

lemma new_reservation_simps [simp]:
  "rs_id (new_reservation rid t pid iid q) = rid" "rs_tenant (new_reservation rid t pid iid q) = t"
  "rs_item (new_reservation rid t pid iid q) = iid" "rs_product (new_reservation rid t pid iid q) = pid"
  "rs_quantity (new_reservation rid t pid iid q) = q" "rs_status (new_reservation rid t pid iid q) = ACTIVE"
  by (simp_all add: new_reservation_def)

lemma upsert_cases:
  assumes "upsert_reservation t pid iid q d = Inr ((), d')"
  obtains (existing) r0 where "0 < q" "r0 \<in> set (reservations d)" "rs_tenant r0 = t" "rs_item r0 = iid"
      "d' = d\<lparr>reservations := update_where (\<lambda>r. rs_tenant r = t \<and> rs_item r = iid)
              (reactivate pid q) (reservations d)\<rparr>"
    | (fresh) "0 < q" "\<And>r. r \<in> set (reservations d) \<Longrightarrow> rs_tenant r = t \<Longrightarrow> rs_item r \<noteq> iid"
      "d' = d\<lparr>reservations := reservations d @ [new_reservation (next_id d) t pid iid q],
              next_id := next_id d + 1\<rparr>"
  using assms by (auto simp: upsert_reservation_def split: if_splits)

lemma upsert_frame:
  assumes "upsert_reservation t pid iid q d = Inr ((), d')"
  shows "d' = d\<lparr>reservations := reservations d', next_id := next_id d'\<rparr>"
  using assms by (cases rule: upsert_cases) simp_all

lemma wf_update_orders:
  assumes "\<And>r. o_id (f r) = o_id r"
  shows "wf_store (d\<lparr>orders := update_where P f (orders d)\<rparr>) \<longleftrightarrow> wf_store d"
  using assms by (simp add: wf_store_def map_update_where)

lemma wf_update_items:
  assumes "\<And>r. it_id (f r) = it_id r"
  shows "wf_store (d\<lparr>order_items := update_where P f (order_items d)\<rparr>) \<longleftrightarrow> wf_store d"
  using assms by (simp add: wf_store_def map_update_where)

lemma wf_audit_logs [simp]: "wf_store (d\<lparr>audit_logs := a\<rparr>) \<longleftrightarrow> wf_store d"
  by (simp add: wf_store_def)

lemma wf_update_reservations:
  assumes "wf_store d" and "\<And>r. rs_id (f r) = rs_id r" and "\<And>r. rs_tenant (f r) = rs_tenant r"
    and "\<And>r. rs_item (f r) = rs_item r" and "\<And>r. 0 < rs_quantity r \<Longrightarrow> 0 < rs_quantity (f r)"
  shows "wf_store (d\<lparr>reservations := update_where P f (reservations d)\<rparr>)"
  using assms by (auto simp: wf_store_def map_update_where set_update_where)

lemma wf_update_products:
  assumes "\<And>r. pr_id (f r) = pr_id r" and "\<And>r. pr_tenant (f r) = pr_tenant r"
    and "\<And>r. pr_sku (f r) = pr_sku r"
  shows "wf_store (d\<lparr>products := update_where P f (products d)\<rparr>) \<longleftrightarrow> wf_store d"
  using assms by (simp add: wf_store_def map_update_where)

lemma wf_upsert_reservation:
  assumes "wf_store d" and "upsert_reservation t pid iid q d = Inr ((), d')"
  shows "wf_store d'"
  using assms(2)
proof (cases rule: upsert_cases)
  case (existing r0)
  then show ?thesis using assms(1) by (auto intro: wf_update_reservations)
next
  case fresh
  then show ?thesis using assms(1) by (fastforce simp: wf_store_def)
qed

lemma others_update_orders:
  assumes "\<And>r. P r \<Longrightarrow> o_tenant r = t" and "\<And>r. o_tenant (f r) = o_tenant r"
  shows "others_unchanged t d (d\<lparr>orders := update_where P f (orders d)\<rparr>)"
proof -
  have "filter (\<lambda>r. o_tenant r = t') (update_where P f (orders d)) = filter (\<lambda>r. o_tenant r = t') (orders d)"
    if "t' \<noteq> t" for t'
    using assms that by (intro filter_update_where_other) auto
  then show ?thesis by (simp add: others_unchanged_def tenant_slice_def)
qed

lemma others_update_reservations:
  assumes "\<And>r. P r \<Longrightarrow> rs_tenant r = t" and "\<And>r. rs_tenant (f r) = rs_tenant r"
  shows "others_unchanged t d (d\<lparr>reservations := update_where P f (reservations d)\<rparr>)"
proof -
  have "filter (\<lambda>r. rs_tenant r = t') (update_where P f (reservations d)) = filter (\<lambda>r. rs_tenant r = t') (reservations d)"
    if "t' \<noteq> t" for t'
    using assms that by (intro filter_update_where_other) auto
  then show ?thesis by (simp add: others_unchanged_def tenant_slice_def)
qed

lemma others_update_products:
  assumes "\<And>r. P r \<Longrightarrow> pr_tenant r = t" and "\<And>r. pr_tenant (f r) = pr_tenant r"
  shows "others_unchanged t d (d\<lparr>products := update_where P f (products d)\<rparr>)"
proof -
  have "filter (\<lambda>r. pr_tenant r = t') (update_where P f (products d)) = filter (\<lambda>r. pr_tenant r = t') (products d)"
    if "t' \<noteq> t" for t'
    using assms that by (intro filter_update_where_other) auto
  then show ?thesis by (simp add: others_unchanged_def tenant_slice_def)
qed

text \<open>An update of items by primary key only: the tenant is that of the row.\<close>

lemma others_update_items:
  assumes "\<And>r. r \<in> set (order_items d) \<Longrightarrow> P r \<Longrightarrow> it_tenant r = t"
    and "\<And>r. it_tenant (f r) = it_tenant r"
  shows "others_unchanged t d (d\<lparr>order_items := update_where P f (order_items d)\<rparr>)"
proof -
  have "filter (\<lambda>r. it_tenant r = t') (update_where P f rows) = filter (\<lambda>r. it_tenant r = t') rows"
    if "t' \<noteq> t" and "set rows \<subseteq> set (order_items d)" for t' rows
    using that(2) assms \<open>t' \<noteq> t\<close> by (induction rows) auto
  then show ?thesis by (simp add: others_unchanged_def tenant_slice_def)
qed

lemma others_audit: "au_tenant a = t \<Longrightarrow> others_unchanged t d (d\<lparr>audit_logs := audit_logs d @ [a]\<rparr>)"
  by (auto simp: others_unchanged_def tenant_slice_def)

lemma others_upsert_reservation:
  assumes "upsert_reservation t pid iid q d = Inr ((), d')"
  shows "others_unchanged t d d'"
  using assms
proof (cases rule: upsert_cases)
  case (existing r0)
  then show ?thesis by (auto intro: others_update_reservations)
next
  case fresh
  then show ?thesis by (simp add: others_unchanged_def tenant_slice_def)
qed

end
