(* ===== verification/Tenancy.thy ===== *)
theory Tenancy
  imports Store
begin

text \<open>
  Tenants: the tenant context of a transaction (\<open>tenant-transaction.ts\<close>), the
  lifecycle of a tenant's export and deletion requests with the freeze of
  mutations while a deletion is pending (\<open>tenant-lifecycle.ts\<close>), and the
  platform switch of a messaging channel (\<open>platform-channel-gate.ts\<close>).
  The locale \<open>status_machine\<close> is the contract of a table of allowed
  transitions, the locale \<open>tenant_commands\<close> the contract of a family of
  commands that run in a tenant's transaction and guard themselves with
  \<open>assertTenantAcceptingMutations\<close>; the components interpret both.
\<close>

section \<open>Tenant context\<close>

definition lower_char :: "char \<Rightarrow> char" where
  "lower_char c = (if CHR ''A'' \<le> c \<and> c \<le> CHR ''Z'' then char_of (of_char c + (32::nat)) else c)"

definition hex_digit :: "char \<Rightarrow> bool" where
  "hex_digit c \<longleftrightarrow> lower_char c \<in> set ''0123456789abcdef''"

text \<open>\<open>UUID_PATTERN\<close>, position by position: hyphens, the version digit, the
  variant digit, hexadecimal digits elsewhere; case is ignored.\<close>

definition uuid_position :: "nat \<Rightarrow> char \<Rightarrow> bool" where
  "uuid_position k c =
     (if k \<in> {8, 13, 18, 23} then c = CHR ''-''
      else if k = 14 then c \<in> set ''12345''
      else if k = 19 then lower_char c \<in> set ''89ab''
      else hex_digit c)"

definition uuid_pattern :: "string \<Rightarrow> bool" where
  "uuid_pattern s \<longleftrightarrow> length s = 36 \<and> list_all (\<lambda>(k, c). uuid_position k c) (zip [0..<36] s)"

definition setTenantContext :: "string \<Rightarrow> (db, app_error, unit) tx" where
  "setTenantContext tenantId =
     tx_when (\<not> uuid_pattern tenantId) (Plain ''A valid tenant identifier is required'')"

definition withTenantTransaction :: "string \<Rightarrow> 'a dbtx \<Rightarrow> 'a dbservice" where
  "withTenantTransaction tenantId operation =
     run_tx (tx_seq (setTenantContext tenantId) operation)"

section \<open>Lifecycle of a tenant request\<close>

fun lifecycle_next :: "lifecycle_status \<Rightarrow> lifecycle_status list" where
  "lifecycle_next LC_REQUESTED = [LC_EXPORTING, LC_CANCELLED]"
| "lifecycle_next LC_EXPORTING = [LC_EXPORT_READY, LC_FAILED]"
| "lifecycle_next LC_FAILED = [LC_EXPORTING, LC_CANCELLED]"
| "lifecycle_next LC_EXPORT_READY = [LC_CANCELLED]"
| "lifecycle_next LC_CANCELLED = []"

datatype lifecycle_target = Target lifecycle_status | DELETING

definition assertLifecycleTransition :: "lifecycle_status \<Rightarrow> lifecycle_target \<Rightarrow> app_error + unit" where
  "assertLifecycleTransition from to =
     (case to of
        DELETING \<Rightarrow> Inl (Plain ''DESTRUCTIVE_PHASE_DISABLED'')
      | Target s \<Rightarrow> if s \<notin> set (lifecycle_next from)
          then Inl (Plain ''INVALID_TENANT_LIFECYCLE_TRANSITION'') else Inr ())"

definition tenant_frozen :: "uuid \<Rightarrow> db \<Rightarrow> bool" where
  "tenant_frozen t d = any_row (\<lambda>r. lr_tenant r = t \<and> lr_kind r = DELETE \<and> lr_frozen_at r \<noteq> None
     \<and> lr_status r \<in> {LC_REQUESTED, LC_EXPORTING, LC_EXPORT_READY, LC_FAILED}) (lifecycle_requests d)"

definition assertTenantAcceptingMutations :: "uuid \<Rightarrow> mutation_surface \<Rightarrow> unit dbtx" where
  "assertTenantAcceptingMutations t surface =
     (\<lambda>d. if tenant_frozen t d then Inl (TenantLifecycleFrozen surface) else Inr ((), d))"

text \<open>\<open>try { await assert...; rest } catch (TenantLifecycleFrozenError) { other }\<close>.\<close>

definition when_accepting :: "uuid \<Rightarrow> mutation_surface \<Rightarrow> 'a dbtx \<Rightarrow> 'a dbtx \<Rightarrow> 'a dbtx" where
  "when_accepting t surface rest other =
     (\<lambda>d. case assertTenantAcceptingMutations t surface d of
         Inr (_, d') \<Rightarrow> rest d'
       | Inl (TenantLifecycleFrozen _) \<Rightarrow> other d
       | Inl e \<Rightarrow> Inl e)"

section \<open>Platform channel gate\<close>

datatype channel_key = FACEBOOK_MESSENGER | TIKTOK_BUSINESS_MESSAGING

datatype channel_state = DEPLOYMENT_UNAVAILABLE | CHANNEL_ACTIVE | ADMIN_DISABLED

record channel_control =
  cc_key :: channel_key
  cc_deployment_available :: bool
  cc_runtime_enabled :: bool
  cc_effective_enabled :: bool
  cc_state :: channel_state
  cc_updated_at :: "instant option"

definition platform_channel_keys :: "channel_key list" where
  "platform_channel_keys = [FACEBOOK_MESSENGER, TIKTOK_BUSINESS_MESSAGING]"

text \<open>A feature flag row is its key with \<open>enabled\<close> and \<open>updatedAt\<close>.\<close>

definition toPlatformChannelControl :: "channel_key \<Rightarrow> bool \<Rightarrow> (bool \<times> instant) option \<Rightarrow> channel_control" where
  "toPlatformChannelControl key deployed row =
     (let runtime = (case row of Some (enabled, _) \<Rightarrow> enabled | None \<Rightarrow> False);
          effective = deployed \<and> runtime
      in \<lparr>cc_key = key, cc_deployment_available = deployed, cc_runtime_enabled = runtime,
          cc_effective_enabled = effective,
          cc_state = (if \<not> deployed then DEPLOYMENT_UNAVAILABLE
                      else if effective then CHANNEL_ACTIVE else ADMIN_DISABLED),
          cc_updated_at = map_option snd row\<rparr>)"

definition getControl :: "(channel_key \<Rightarrow> bool) \<Rightarrow> (channel_key \<times> bool \<times> instant) list \<Rightarrow> channel_key \<Rightarrow> channel_control" where
  "getControl deployment flags key = toPlatformChannelControl key (deployment key) (map_of flags key)"

definition listControls :: "(channel_key \<Rightarrow> bool) \<Rightarrow> (channel_key \<times> bool \<times> instant) list \<Rightarrow> channel_control list" where
  "listControls deployment flags = map (getControl deployment flags) platform_channel_keys"

datatype channel_error = PlatformChannelDisabled channel_key | PlatformChannelDeploymentUnavailable channel_key

definition assertEnabled :: "(channel_key \<Rightarrow> bool) \<Rightarrow> (channel_key \<times> bool \<times> instant) list \<Rightarrow> channel_key \<Rightarrow> channel_error + unit" where
  "assertEnabled deployment flags key =
     (let control = getControl deployment flags key in
      if cc_effective_enabled control then Inr ()
      else if \<not> cc_deployment_available control then Inl (PlatformChannelDeploymentUnavailable key)
      else Inl (PlatformChannelDisabled key))"

definition isEnabled :: "(channel_key \<Rightarrow> bool) \<Rightarrow> (channel_key \<times> bool \<times> instant) list \<Rightarrow> channel_key \<Rightarrow> bool" where
  "isEnabled deployment flags key = cc_effective_enabled (getControl deployment flags key)"

section \<open>Contracts\<close>

text \<open>A table of transitions with final states.\<close>

locale status_machine =
  fixes allowed :: "'s \<Rightarrow> 's list"
    and final :: "'s \<Rightarrow> bool"
  assumes final_stuck: "final s \<Longrightarrow> allowed s = []"
begin

definition moves :: "'s \<Rightarrow> 's \<Rightarrow> bool" where
  "moves s s' \<longleftrightarrow> s' \<in> set (allowed s)"

lemma path_from_final:
  assumes "moves\<^sup>*\<^sup>* s s'" and "final s"
  shows "s' = s"
  using assms by (induction rule: rtranclp_induct) (auto simp: moves_def final_stuck)

lemma path_closed:
  assumes "moves\<^sup>*\<^sup>* s s'" and "s \<in> A" and "\<And>x y. x \<in> A \<Longrightarrow> y \<in> set (allowed x) \<Longrightarrow> y \<in> A"
  shows "s' \<in> A"
  using assms by (induction rule: rtranclp_induct) (auto simp: moves_def)

end

text \<open>Commands of one tenant.  \<open>ok\<close> is an invariant of the store, \<open>frozen\<close> the
  condition under which the tenant takes no mutation.  A command that runs in a
  frozen tenant throws; one that commits keeps the invariant and the rows of
  every other tenant.\<close>

locale tenant_commands =
  fixes run :: "uuid \<Rightarrow> 'c \<Rightarrow> 'a dbtx"
    and ok :: "db \<Rightarrow> bool"
  assumes frozen_refused: "tenant_frozen t d \<Longrightarrow> \<exists>e. run t c d = Inl e"
    and ok_kept: "ok d \<Longrightarrow> run t c d = Inr (a, d') \<Longrightarrow> ok d'"
    and others_kept: "ok d \<Longrightarrow> run t c d = Inr (a, d') \<Longrightarrow> others_unchanged t d d'"
begin

definition exec :: "(uuid \<times> 'c) list \<Rightarrow> db \<Rightarrow> db" where
  "exec cs d = fold (\<lambda>(t, c) s. snd (run_tx (run t c) s)) cs d"

lemma exec_Nil: "exec [] d = d"
  by (simp add: exec_def)

lemma exec_Cons: "exec ((t, c) # cs) d = exec cs (snd (run_tx (run t c) d))"
  by (simp add: exec_def)

lemma step_ok: "ok d \<Longrightarrow> ok (snd (run_tx (run t c) d))"
  by (rule run_tx_invariant) (auto intro: ok_kept)

lemma step_others: "ok d \<Longrightarrow> others_unchanged t d (snd (run_tx (run t c) d))"
  by (rule run_tx_invariant) (auto intro: others_kept)

lemma exec_ok: "ok d \<Longrightarrow> ok (exec cs d)"
  by (induction cs arbitrary: d) (auto simp: exec_Nil exec_Cons step_ok)

lemma exec_isolated:
  assumes "ok d" and "\<And>c. (t, c) \<notin> set cs"
  shows "tenant_slice t (exec cs d) = tenant_slice t d"
  using assms
proof (induction cs arbitrary: d)
  case (Cons tc cs)
  obtain t' c where tc: "tc = (t', c)" by (cases tc)
  let ?d = "snd (run_tx (run t' c) d)"
  have "t' \<noteq> t" using Cons.prems(2)[of c] tc by auto
  then have "tenant_slice t ?d = tenant_slice t d"
    using step_others[OF Cons.prems(1), of t' c] by (auto simp: others_unchanged_def)
  moreover have "tenant_slice t (exec cs ?d) = tenant_slice t ?d"
    using Cons.prems by (intro Cons.IH step_ok) auto
  ultimately show ?case by (simp add: tc exec_Cons)
qed (simp add: exec_Nil)

lemma frozen_inert:
  assumes "tenant_frozen t d"
  shows "exec (map (Pair t) cs) d = d"
proof (induction cs)
  case (Cons c cs)
  obtain e where "run t c d = Inl e" using frozen_refused[OF assms] by blast
  then have "snd (run_tx (run t c) d) = d" by (simp add: run_tx_def)
  then show ?case using Cons by (simp add: exec_Cons)
qed (simp add: exec_Nil)

end

section \<open>Facts\<close>

lemma accepting_Inr [tx_iff]:
  "assertTenantAcceptingMutations t s d = Inr r \<longleftrightarrow> \<not> tenant_frozen t d \<and> r = ((), d)"
  by (auto simp: assertTenantAcceptingMutations_def)

lemma accepting_Inl [tx_iff]:
  "assertTenantAcceptingMutations t s d = Inl e \<longleftrightarrow> tenant_frozen t d \<and> e = TenantLifecycleFrozen s"
  by (auto simp: assertTenantAcceptingMutations_def)

lemma accepting_run [tx_run]:
  "tx_seq (assertTenantAcceptingMutations t s) n d =
     (if tenant_frozen t d then Inl (TenantLifecycleFrozen s) else n d)"
  by (simp add: tx_seq_def tx_bind_def assertTenantAcceptingMutations_def)

lemma when_accepting_run [tx_run]:
  "when_accepting t s rest other d = (if tenant_frozen t d then other d else rest d)"
  by (simp add: when_accepting_def assertTenantAcceptingMutations_def)

text \<open>A transaction that starts with the guard is refused in a frozen tenant.\<close>

lemma guarded_frozen:
  "tenant_frozen t d \<Longrightarrow> tx_seq (assertTenantAcceptingMutations t s) m d = Inl (TenantLifecycleFrozen s)"
  by (simp add: tx_seq_def tx_bind_def assertTenantAcceptingMutations_def)

lemma guarded_open:
  "\<not> tenant_frozen t d \<Longrightarrow> tx_seq (assertTenantAcceptingMutations t s) m d = m d"
  by (simp add: tx_seq_def tx_bind_def assertTenantAcceptingMutations_def)

lemma tenant_frozen_cong:
  "lifecycle_requests d' = lifecycle_requests d \<Longrightarrow> tenant_frozen t d' = tenant_frozen t d"
  by (simp add: tenant_frozen_def)

interpretation lifecycle: status_machine lifecycle_next "\<lambda>s. s = LC_CANCELLED"
  by unfold_locales simp

end
