(* ===== verification/Procurement.thy ===== *)
theory Procurement
  imports Tenancy
begin

text \<open>
  Procurement of approved orders: \<open>procurementSummaryFor\<close>
  (\<open>packages/contracts/src/procurement.ts\<close>) and \<open>ProcurementStore\<close>
  (\<open>packages/database/src/procurement-store.ts\<close>).  An assessment reserves stock
  for the items it can serve, a manager moves single items along
  \<open>allowedTransitions\<close>, a hand-off consumes the reservations.  Every operation
  is one transaction; the rows it locks with \<open>FOR UPDATE\<close> are read in the same
  step that writes them.  Clock readings are arguments.
\<close>

section \<open>Summary of the item statuses\<close>

definition procurementSummaryFor :: "procurement_status list \<Rightarrow> bool \<Rightarrow> procurement_summary" where
  "procurementSummaryFor statuses handedOff =
     (if handedOff then S_HANDED_OFF
      else if statuses = [] \<or> UNASSESSED \<in> set statuses then S_UNASSESSED
      else if UNAVAILABLE \<in> set statuses then S_BLOCKED
      else if SENDING \<in> set statuses then S_SENDING
      else
        let ready = length (filter (\<lambda>s. s = IN_STOCK \<or> s = RECEIVED) statuses);
            toOrder = length (filter (\<lambda>s. s = TO_ORDER) statuses);
            awaitingSupplier = length (filter (\<lambda>s. s = ORDERED \<or> s = SUPPLIER_CONFIRMED) statuses)
        in if ready = length statuses then S_READY
           else if ready > 0 then S_PARTIALLY_READY
           else if toOrder = length statuses then S_NEEDS_ORDER
           else if awaitingSupplier = length statuses then S_AWAITING_SUPPLIER
           else if awaitingSupplier > 0 \<and> toOrder = 0 then S_AWAITING_SUPPLIER
           else S_PARTIALLY_READY)"

fun allowedTransitions :: "procurement_status \<Rightarrow> procurement_status list" where
  "allowedTransitions UNASSESSED = [IN_STOCK, TO_ORDER, UNAVAILABLE]"
| "allowedTransitions IN_STOCK = [TO_ORDER, UNAVAILABLE]"
| "allowedTransitions TO_ORDER = [IN_STOCK, UNAVAILABLE]"
| "allowedTransitions SENDING = []"
| "allowedTransitions ORDERED = [SUPPLIER_CONFIRMED, UNAVAILABLE]"
| "allowedTransitions SUPPLIER_CONFIRMED = [RECEIVED, UNAVAILABLE]"
| "allowedTransitions RECEIVED = []"
| "allowedTransitions UNAVAILABLE = [TO_ORDER, IN_STOCK]"

section \<open>Assessment\<close>

record assessed_item =
  as_id :: uuid
  as_status :: procurement_status
  as_reason :: procurement_reason
  as_stock :: "int option"
  as_available :: "int option"
  as_reserved :: int

text \<open>The empty string is no SKU: the code tests \<open>item.catalogId\<close> for truth.\<close>

definition item_sku :: "order_item \<Rightarrow> string option" where
  "item_sku i = (case it_catalog i of Some s \<Rightarrow> if s = [] then None else Some s | None \<Rightarrow> None)"

definition order_skus :: "order_item list \<Rightarrow> string list" where
  "order_skus items = remdups (List.map_filter item_sku items)"

text \<open>\<open>SELECT ... FROM products ... FOR UPDATE\<close>, ordered by identifier.\<close>

definition locked_products :: "uuid \<Rightarrow> string list \<Rightarrow> db \<Rightarrow> product list" where
  "locked_products t skus d =
     sort_key pr_id (filter (\<lambda>p. pr_tenant p = t \<and> pr_sku p \<in> set skus \<and> pr_active p) (products d))"

definition product_for :: "product list \<Rightarrow> order_item \<Rightarrow> product option" where
  "product_for ps i =
     (case item_sku i of None \<Rightarrow> None | Some sku \<Rightarrow> map_of (rev (map (\<lambda>p. (pr_sku p, p)) ps)) sku)"

text \<open>The sum of the active reservations of a product.\<close>

definition active_sum :: "uuid \<Rightarrow> uuid \<Rightarrow> db \<Rightarrow> int" where
  "active_sum t pid d = sum_where
     (\<lambda>r. rs_tenant r = t \<and> rs_product r = pid \<and> rs_status r = ACTIVE) rs_quantity (reservations d)"

text \<open>The decision for one item, given what is reserved of each product.\<close>

definition decide :: "product list \<Rightarrow> (uuid \<Rightarrow> int) \<Rightarrow> order_item \<Rightarrow> assessed_item" where
  "decide ps reserved i =
     (case product_for ps i of
        None \<Rightarrow> \<lparr>as_id = it_id i, as_status = TO_ORDER, as_reason = PRODUCT_UNMATCHED,
                 as_stock = None, as_available = None, as_reserved = 0\<rparr>
      | Some p \<Rightarrow>
         (case pr_stock p of
            None \<Rightarrow> \<lparr>as_id = it_id i, as_status = TO_ORDER, as_reason = STOCK_UNKNOWN,
                     as_stock = None, as_available = None, as_reserved = 0\<rparr>
          | Some stock \<Rightarrow>
              let available = max 0 (stock - reserved (pr_id p)) in
              if it_quantity i \<le> available
              then \<lparr>as_id = it_id i, as_status = IN_STOCK, as_reason = STOCK_AVAILABLE,
                    as_stock = Some stock, as_available = Some available,
                    as_reserved = it_quantity i\<rparr>
              else \<lparr>as_id = it_id i, as_status = TO_ORDER,
                    as_reason = (if it_quantity i \<le> stock then RESERVATION_CONFLICT
                                 else STOCK_INSUFFICIENT),
                    as_stock = Some stock, as_available = Some available, as_reserved = 0\<rparr>))"

definition reserve_decided :: "uuid \<Rightarrow> product list \<Rightarrow> order_item \<Rightarrow> assessed_item \<Rightarrow> unit dbtx" where
  "reserve_decided t ps i a =
     (case product_for ps i of
        Some p \<Rightarrow> if as_status a = IN_STOCK
          then upsert_reservation t (pr_id p) (it_id i) (it_quantity i) else tx_return ()
      | None \<Rightarrow> tx_return ())"

definition count_decided :: "product list \<Rightarrow> order_item \<Rightarrow> assessed_item \<Rightarrow> (uuid \<Rightarrow> int) \<Rightarrow> uuid \<Rightarrow> int" where
  "count_decided ps i a reserved =
     (case product_for ps i of
        Some p \<Rightarrow> if as_status a = IN_STOCK
          then reserved(pr_id p := reserved (pr_id p) + it_quantity i) else reserved
      | None \<Rightarrow> reserved)"

definition write_assessment :: "instant \<Rightarrow> assessed_item \<Rightarrow> order_item \<Rightarrow> order_item" where
  "write_assessment now a i = i\<lparr>it_status := as_status a, it_source := Some AUTO,
     it_reason := Some (as_reason a), it_stock_at := as_stock a,
     it_available_at := as_available a, it_updated_at := Some now\<rparr>"

fun assess_items :: "uuid \<Rightarrow> instant \<Rightarrow> product list \<Rightarrow> order_item list \<Rightarrow> (uuid \<Rightarrow> int) \<Rightarrow> assessed_item list dbtx" where
  "assess_items t now ps [] reserved = tx_return []"
| "assess_items t now ps (i # is) reserved =
     (let a = decide ps reserved i in
      tx_seq (reserve_decided t ps i a)
     (tx_seq (update_item (it_id i) (write_assessment now a))
     (tx_bind (assess_items t now ps is (count_decided ps i a reserved))
        (\<lambda>as. tx_return (a # as)))))"

text \<open>\<open>updateMany\<close> on the active reservations of some items.\<close>

definition active_of_items :: "uuid \<Rightarrow> uuid list \<Rightarrow> reservation \<Rightarrow> bool" where
  "active_of_items t iids r \<longleftrightarrow> rs_tenant r = t \<and> rs_item r \<in> set iids \<and> rs_status r = ACTIVE"

definition release_reassessed :: "uuid \<Rightarrow> uuid list \<Rightarrow> instant \<Rightarrow> unit dbtx" where
  "release_reassessed t iids now = tx_write (\<lambda>d. d\<lparr>reservations := update_where (active_of_items t iids)
     (\<lambda>r. r\<lparr>rs_status := RELEASED, rs_released_at := Some now, rs_consumed_at := None\<rparr>) (reservations d)\<rparr>)"

definition release_active :: "uuid \<Rightarrow> uuid list \<Rightarrow> instant \<Rightarrow> unit dbtx" where
  "release_active t iids now = tx_write (\<lambda>d. d\<lparr>reservations := update_where (active_of_items t iids)
     (\<lambda>r. r\<lparr>rs_status := RELEASED, rs_released_at := Some now\<rparr>) (reservations d)\<rparr>)"

record assessment =
  am_order :: uuid
  am_summary :: procurement_summary
  am_items :: "assessed_item list"

definition assessApprovedOrder :: "uuid \<Rightarrow> uuid \<Rightarrow> string \<Rightarrow> instant \<Rightarrow> instant \<Rightarrow> assessment dbtx" where
  "assessApprovedOrder t oid actor releasedAt now =
     tx_seq (assertTenantAcceptingMutations t PROCUREMENT)
    (tx_bind (tx_read (find_order t oid)) (\<lambda>found.
       case found of
         None \<Rightarrow> tx_throw ProcurementOrderNotApproved
       | Some ord \<Rightarrow>
           tx_seq (tx_when (o_status ord \<notin> {APPROVED, AUTO_APPROVED}) ProcurementOrderNotApproved)
          (tx_bind (tx_read (items_by_id t oid)) (\<lambda>items.
           tx_bind (tx_read (locked_products t (order_skus items))) (\<lambda>ps.
           tx_seq (release_reassessed t (map it_id items) releasedAt)
          (tx_bind (tx_read (\<lambda>d pid. active_sum t pid d)) (\<lambda>reserved.
           tx_bind (assess_items t now ps items reserved) (\<lambda>as.
             let summary = procurementSummaryFor (map as_status as) False in
             tx_seq (update_order t oid (\<lambda>r. r\<lparr>o_sort_procurement := summary\<rparr>))
            (tx_seq (create_audit t oid actor (PROCUREMENT_ASSESSED summary
                (map (\<lambda>a. (as_id a, as_status a, as_reason a, as_reserved a)) as)))
              (tx_return \<lparr>am_order = oid, am_summary = summary, am_items = as\<rparr>))))))))))"

section \<open>Release\<close>

definition releaseOrderReservations :: "uuid \<Rightarrow> uuid \<Rightarrow> string \<Rightarrow> instant \<Rightarrow> unit dbtx" where
  "releaseOrderReservations t oid actor now =
     tx_seq (assertTenantAcceptingMutations t PROCUREMENT)
    (tx_bind (tx_read (find_order t oid)) (\<lambda>found.
       case found of
         None \<Rightarrow> tx_return ()
       | Some ord \<Rightarrow>
           tx_bind (tx_read (\<lambda>d. map it_id (items_of t oid d))) (\<lambda>iids.
           tx_bind (tx_read (\<lambda>d. count_where (active_of_items t iids) (reservations d))) (\<lambda>released.
           tx_seq (release_active t iids now)
             (if released > 0
              then create_audit t oid actor (PROCUREMENT_RESERVATIONS_RELEASED released)
              else tx_return ())))))"

section \<open>Manual status of one item\<close>

definition find_item :: "uuid \<Rightarrow> uuid \<Rightarrow> uuid \<Rightarrow> db \<Rightarrow> order_item option" where
  "find_item t oid iid d =
     List.find (\<lambda>i. it_id i = iid \<and> it_order i = oid \<and> it_tenant i = t) (order_items d)"

definition locked_product :: "uuid \<Rightarrow> string \<Rightarrow> db \<Rightarrow> product option" where
  "locked_product t sku d =
     List.find (\<lambda>p. pr_tenant p = t \<and> pr_sku p = sku \<and> pr_active p) (products d)"

text \<open>What the other items hold of a product.\<close>

definition active_sum_others :: "uuid \<Rightarrow> uuid \<Rightarrow> uuid \<Rightarrow> db \<Rightarrow> int" where
  "active_sum_others t pid iid d = sum_where
     (\<lambda>r. rs_tenant r = t \<and> rs_product r = pid \<and> rs_status r = ACTIVE \<and> rs_item r \<noteq> iid)
     rs_quantity (reservations d)"

text \<open>The branch \<open>nextStatus === 'IN_STOCK'\<close>: reserve by hand; the result is the
  reason with the stock and the availability of the decision.\<close>

type_synonym decision = "procurement_reason option \<times> int option \<times> int option"

definition reserve_manually :: "uuid \<Rightarrow> order_item \<Rightarrow> decision dbtx" where
  "reserve_manually t i =
     tx_bind (tx_read (\<lambda>d. case item_sku i of None \<Rightarrow> None | Some sku \<Rightarrow> locked_product t sku d)) (\<lambda>found.
       case found of
         None \<Rightarrow> tx_throw ProcurementOrderNotReady
       | Some p \<Rightarrow>
          (case pr_stock p of
             None \<Rightarrow> tx_throw ProcurementOrderNotReady
           | Some stock \<Rightarrow>
               tx_bind (tx_read (active_sum_others t (pr_id p) (it_id i))) (\<lambda>alreadyReserved.
                 let available = max 0 (stock - alreadyReserved) in
                 tx_seq (tx_when (available < it_quantity i) ProcurementOrderNotReady)
                (tx_seq (upsert_reservation t (pr_id p) (it_id i) (it_quantity i))
                  (tx_return (Some MANUAL_IN_STOCK, Some stock, Some available))))))"

definition decide_manually :: "uuid \<Rightarrow> order_item \<Rightarrow> procurement_status \<Rightarrow> instant \<Rightarrow> decision dbtx" where
  "decide_manually t i nextStatus now =
     (if nextStatus = IN_STOCK then reserve_manually t i
      else if nextStatus = TO_ORDER \<or> nextStatus = UNAVAILABLE
      then tx_seq (release_active t [it_id i] now)
             (tx_return (if nextStatus = TO_ORDER then Some MANUAL_TO_ORDER else it_reason i,
                         it_stock_at i, it_available_at i))
      else tx_return (it_reason i, it_stock_at i, it_available_at i))"

definition write_decision :: "procurement_status \<Rightarrow> decision \<Rightarrow> instant \<Rightarrow> order_item \<Rightarrow> order_item" where
  "write_decision nextStatus dec now i =
     (case dec of (reason, stockAt, availableAt) \<Rightarrow>
        i\<lparr>it_status := nextStatus, it_source := Some MANUAL, it_reason := reason,
          it_stock_at := stockAt, it_available_at := availableAt, it_updated_at := Some now\<rparr>)"

definition setItemStatus :: "uuid \<Rightarrow> uuid \<Rightarrow> uuid \<Rightarrow> procurement_status \<Rightarrow> string \<Rightarrow> instant \<Rightarrow> instant \<Rightarrow>
    (uuid \<times> procurement_summary) dbtx" where
  "setItemStatus t oid iid nextStatus actor releasedAt now =
     tx_seq (assertTenantAcceptingMutations t PROCUREMENT)
    (tx_bind (tx_read (find_item t oid iid)) (\<lambda>found.
       case found of
         None \<Rightarrow> tx_throw ProcurementItemNotFound
       | Some i \<Rightarrow>
           tx_seq (tx_when (it_status i \<noteq> nextStatus \<and> nextStatus \<notin> set (allowedTransitions (it_status i)))
                     (InvalidProcurementTransition (it_status i) nextStatus))
          (tx_bind (decide_manually t i nextStatus releasedAt) (\<lambda>dec.
           tx_seq (update_item (it_id i) (write_decision nextStatus dec now))
          (tx_seq (create_audit t oid actor (PROCUREMENT_STATUS_CHANGED iid (it_status i) nextStatus))
          (tx_bind (tx_read (\<lambda>d. (find_order t oid d, map it_status (items_of t oid d)))) (\<lambda>(ord, statuses).
             case ord of
               None \<Rightarrow> tx_throw RecordNotFound
             | Some r \<Rightarrow>
                 let summary = procurementSummaryFor statuses (o_handed_off_at r \<noteq> None) in
                 tx_seq (update_order t oid (\<lambda>r. r\<lparr>o_sort_procurement := summary\<rparr>))
                   (tx_return (oid, summary)))))))))"

section \<open>Hand-off\<close>

text \<open>The active reservations of the items, in the order of the items.\<close>

definition active_reservations :: "uuid \<Rightarrow> order_item list \<Rightarrow> db \<Rightarrow> reservation list" where
  "active_reservations t items d = List.map_filter (\<lambda>i.
     case reservation_of t (it_id i) d of
       Some r \<Rightarrow> if rs_status r = ACTIVE then Some r else None
     | None \<Rightarrow> None) items"

fun quantity_by_product :: "reservation list \<Rightarrow> (uuid \<times> int) list \<Rightarrow> (uuid \<times> int) list" where
  "quantity_by_product [] m = m"
| "quantity_by_product (r # rs) m = quantity_by_product rs
     (jsmap_set (rs_product r)
        ((case map_of m (rs_product r) of Some q \<Rightarrow> q | None \<Rightarrow> 0) + rs_quantity r) m)"

text \<open>\<open>product.update({ where, data: { stockQuantity: { decrement } } })\<close>: an unknown
  stock stays unknown.\<close>

definition decrement_stock :: "uuid \<Rightarrow> instant \<Rightarrow> uuid \<Rightarrow> int \<Rightarrow> unit dbtx" where
  "decrement_stock t now pid q = (\<lambda>d.
     if any_row (\<lambda>p. pr_tenant p = t \<and> pr_id p = pid) (products d)
     then Inr ((), d\<lparr>products := update_where (\<lambda>p. pr_tenant p = t \<and> pr_id p = pid)
            (\<lambda>p. p\<lparr>pr_stock := map_option (\<lambda>s. s - q) (pr_stock p), pr_updated := now\<rparr>) (products d)\<rparr>)
     else Inl RecordNotFound)"

fun decrement_all :: "uuid \<Rightarrow> instant \<Rightarrow> (uuid \<times> int) list \<Rightarrow> unit dbtx" where
  "decrement_all t now [] = tx_return ()"
| "decrement_all t now ((pid, q) # m) = tx_seq (decrement_stock t now pid q) (decrement_all t now m)"

definition consume_reservations :: "uuid \<Rightarrow> uuid list \<Rightarrow> instant \<Rightarrow> unit dbtx" where
  "consume_reservations t rids now = tx_write (\<lambda>d. d\<lparr>reservations := update_where
     (\<lambda>r. rs_tenant r = t \<and> rs_id r \<in> set rids \<and> rs_status r = ACTIVE)
     (\<lambda>r. r\<lparr>rs_status := CONSUMED, rs_consumed_at := Some now\<rparr>) (reservations d)\<rparr>)"

definition handOffOrder :: "uuid \<Rightarrow> uuid \<Rightarrow> string \<Rightarrow> instant \<Rightarrow> (uuid \<times> procurement_summary \<times> instant) dbtx" where
  "handOffOrder t oid actor handedOffAt =
     tx_seq (assertTenantAcceptingMutations t PROCUREMENT)
    (tx_bind (tx_read (find_order t oid)) (\<lambda>found.
       case found of
         None \<Rightarrow> tx_throw ProcurementItemNotFound
       | Some ord \<Rightarrow>
          (case o_handed_off_at ord of
             Some ts \<Rightarrow> tx_return (oid, S_HANDED_OFF, ts)
           | None \<Rightarrow>
               tx_bind (tx_read (items_by_id t oid)) (\<lambda>items.
               tx_seq (tx_when (procurementSummaryFor (map it_status items) False \<noteq> S_READY)
                         ProcurementOrderNotReady)
              (tx_bind (tx_read (active_reservations t items)) (\<lambda>active.
               tx_seq (decrement_all t handedOffAt (quantity_by_product active []))
              (tx_seq (consume_reservations t (map rs_id active) handedOffAt)
              (tx_seq (update_order t oid (\<lambda>r. r\<lparr>o_handed_off_at := Some handedOffAt,
                         o_handed_off_by := Some actor, o_sort_procurement := S_HANDED_OFF\<rparr>))
              (tx_seq (create_audit t oid actor (ORDER_HANDED_OFF (length active)))
                 (tx_return (oid, S_HANDED_OFF, handedOffAt)))))))))))"

section \<open>Commands\<close>

datatype procurement_command =
  AssessOrder uuid string instant instant
| ReleaseReservations uuid string instant
| SetItemStatus uuid uuid procurement_status string instant instant
| HandOffOrder uuid string instant

fun run_procurement :: "uuid \<Rightarrow> procurement_command \<Rightarrow> unit dbtx" where
  "run_procurement t (AssessOrder oid actor releasedAt now) =
     tx_bind (assessApprovedOrder t oid actor releasedAt now) (\<lambda>_. tx_return ())"
| "run_procurement t (ReleaseReservations oid actor now) = releaseOrderReservations t oid actor now"
| "run_procurement t (SetItemStatus oid iid status actor releasedAt now) =
     tx_bind (setItemStatus t oid iid status actor releasedAt now) (\<lambda>_. tx_return ())"
| "run_procurement t (HandOffOrder oid actor now) =
     tx_bind (handOffOrder t oid actor now) (\<lambda>_. tx_return ())"

definition exec_procurement :: "(uuid \<times> procurement_command) list \<Rightarrow> db \<Rightarrow> db" where
  "exec_procurement cs d = fold (\<lambda>(t, c) s. snd (run_tx (run_procurement t c) s)) cs d"

end
