(* ===== verification/Procurement_Facts.thy ===== *)
theory Procurement_Facts
  imports Procurement
begin

text \<open>
  The lemmas about procurement: how the sums of active reservations move, what the
  assessment loop keeps and achieves, one elimination rule per operation (what a
  committed run did), preservation of the keys, of the other tenants' rows and of
  \<open>no_oversell\<close>, and the two interpretations of \<open>tenant_commands\<close> on the
  procurement commands.
\<close>

subsection \<open>Sums of reservations\<close>

definition no_oversell :: "db \<Rightarrow> bool" where
  "no_oversell d \<longleftrightarrow> (\<forall>p\<in>set (products d). \<forall>stock. pr_stock p = Some stock \<longrightarrow>
     active_sum (pr_tenant p) (pr_id p) d \<le> max 0 stock)"

lemma active_sum_cong: "reservations d' = reservations d \<Longrightarrow> active_sum t p d' = active_sum t p d"
  by (simp add: active_sum_def)

lemma active_sum_nonneg: "wf_store d \<Longrightarrow> 0 \<le> active_sum t p d"
  unfolding active_sum_def by (rule sum_where_nonneg) (auto simp: wf_store_def intro: less_imp_le)

text \<open>An update that ends activity can only lower the sums.\<close>

lemma active_sum_deactivate_le:
  assumes "wf_store d" and "\<And>r. P r \<Longrightarrow> rs_status (f r) \<noteq> ACTIVE"
    and "reservations d' = update_where P f (reservations d)"
  shows "active_sum t p d' \<le> active_sum t p d"
proof -
  have "active_sum t p d' = sum_where (\<lambda>r. (rs_tenant r = t \<and> rs_product r = p \<and> rs_status r = ACTIVE) \<and> \<not> P r)
           rs_quantity (reservations d)"
    unfolding active_sum_def assms(3) using assms(2) by (intro sum_where_update_off) auto
  also have "\<dots> \<le> active_sum t p d"
    unfolding active_sum_def using assms(1)
    by (intro sum_where_mono) (auto simp: wf_store_def intro: less_imp_le)
  finally show ?thesis .
qed

lemma upsert_active_sum:
  assumes wf: "wf_store d" and up: "upsert_reservation t pid iid q d = Inr ((), d')"
    and inactive: "\<And>r. r \<in> set (reservations d) \<Longrightarrow> rs_tenant r = t \<Longrightarrow> rs_item r = iid \<Longrightarrow> rs_status r \<noteq> ACTIVE"
  shows "active_sum t' p d' = active_sum t' p d + (if t' = t \<and> p = pid then q else 0)"
  using up
proof (cases rule: upsert_cases)
  case (existing r0)
  let ?P = "\<lambda>r. rs_tenant r = t \<and> rs_item r = iid"
  let ?Q = "\<lambda>r. rs_tenant r = t' \<and> rs_product r = p \<and> rs_status r = ACTIVE"
  let ?f = "reactivate pid q"
  let ?rows = "reservations d"
  have "active_sum t' p d' = sum_where (\<lambda>r. ?P r \<and> ?Q (?f r)) (\<lambda>r. rs_quantity (?f r)) ?rows
      + sum_where (\<lambda>r. \<not> ?P r \<and> ?Q r) rs_quantity ?rows"
    unfolding active_sum_def existing by (simp add: sum_where_update)
  also have "sum_where (\<lambda>r. \<not> ?P r \<and> ?Q r) rs_quantity ?rows = active_sum t' p d"
    unfolding active_sum_def using inactive by (intro sum_where_cong) auto
  also have "sum_where (\<lambda>r. ?P r \<and> ?Q (?f r)) (\<lambda>r. rs_quantity (?f r)) ?rows
     = (if t' = t \<and> p = pid then q else 0)"
  proof (cases "t' = t \<and> p = pid")
    case True
    have "sum_where (\<lambda>r. ?P r \<and> ?Q (?f r)) (\<lambda>r. rs_quantity (?f r)) ?rows
       = sum_where (\<lambda>r. (rs_tenant r, rs_item r) = (t, iid)) (\<lambda>_. q) ?rows"
      using True by (intro sum_where_cong) auto
    also have "\<dots> = q"
      using wf existing by (intro sum_where_one[where k = "\<lambda>r. (rs_tenant r, rs_item r)" and ?r0.0 = r0]) (auto simp: wf_store_def)
    finally show ?thesis using True by simp
  next
    case False
    then show ?thesis by (auto intro!: sum_where_zero)
  qed
  finally show ?thesis by simp
qed (auto simp: active_sum_def)

lemma upsert_present:
  assumes "upsert_reservation t pid iid q d = Inr ((), d')"
  shows "\<exists>r\<in>set (reservations d'). rs_tenant r = t \<and> rs_item r = iid \<and> rs_product r = pid
     \<and> rs_quantity r = q \<and> rs_status r = ACTIVE"
  using assms
proof (cases rule: upsert_cases)
  case (existing r0)
  then have "reactivate pid q r0 \<in> set (reservations d')" by (force simp: set_update_where)
  then show ?thesis by (intro bexI[of _ "reactivate pid q r0"]) (auto simp: existing)
qed simp

lemma upsert_other_rows:
  assumes "upsert_reservation t pid iid q d = Inr ((), d')" and "\<not> (rs_tenant r = t \<and> rs_item r = iid)"
  shows "r \<in> set (reservations d') \<longleftrightarrow> r \<in> set (reservations d)"
  using assms(1)
proof (cases rule: upsert_cases)
  case (existing r0)
  then show ?thesis using assms(2) by (auto simp: set_update_where image_iff)
qed (use assms(2) in auto)


text \<open>The rows of a tenant's other items are those that an operation on some items
  has to leave alone.\<close>

definition other_rows :: "uuid \<Rightarrow> uuid list \<Rightarrow> db \<Rightarrow> reservation list" where
  "other_rows t iids d = filter (\<lambda>r. \<not> (rs_tenant r = t \<and> rs_item r \<in> set iids)) (reservations d)"

lemma other_rows_upsert:
  assumes "upsert_reservation t pid iid q d = Inr ((), d')" and "iid \<in> set iids"
  shows "other_rows t iids d' = other_rows t iids d"
  using assms(1)
proof (cases rule: upsert_cases)
  case (existing r0)
  then show ?thesis using assms(2)
    by (auto simp: other_rows_def intro!: filter_update_where_other)
next
  case fresh
  then show ?thesis using assms(2) by (simp add: other_rows_def)
qed

lemma other_rows_active_sum:
  assumes "\<And>r. r \<in> set (reservations d) \<Longrightarrow> rs_tenant r = t \<Longrightarrow> rs_item r \<in> set iids \<Longrightarrow> rs_status r \<noteq> ACTIVE"
  shows "active_sum t' p d = sum_where (\<lambda>r. rs_tenant r = t' \<and> rs_product r = p \<and> rs_status r = ACTIVE)
    rs_quantity (other_rows t iids d)"
  unfolding active_sum_def other_rows_def sum_where_filter
  using assms by (intro sum_where_cong) auto

subsection \<open>The assessment loop\<close>

fun decide_all :: "product list \<Rightarrow> (uuid \<Rightarrow> int) \<Rightarrow> order_item list \<Rightarrow> assessed_item list" where
  "decide_all ps reserved [] = []"
| "decide_all ps reserved (i # is) =
     (let a = decide ps reserved i in a # decide_all ps (count_decided ps i a reserved) is)"

lemma decide_id [simp]: "as_id (decide ps reserved i) = it_id i"
  by (simp add: decide_def Let_def split: option.splits)

lemma map_as_id_decide_all [simp]: "map as_id (decide_all ps reserved is) = map it_id is"
  by (induction ps reserved "is" rule: decide_all.induct) (simp_all add: Let_def)

lemma product_for_member:
  assumes "product_for ps i = Some p"
  shows "p \<in> set ps" and "item_sku i = Some (pr_sku p)"
  using assms by (auto simp: product_for_def split: option.splits dest!: map_of_SomeD)

lemma decide_in_stockE:
  assumes "as_status (decide ps reserved i) = IN_STOCK"
  obtains p stock where "product_for ps i = Some p" "pr_stock p = Some stock"
    "it_quantity i \<le> max 0 (stock - reserved (pr_id p))"
  using assms by (auto simp: decide_def Let_def split: option.splits if_splits)

lemma decide_status: "as_status (decide ps reserved i) = IN_STOCK \<or> as_status (decide ps reserved i) = TO_ORDER"
  by (simp add: decide_def Let_def split: option.splits)

lemma reserve_decided_cases:
  assumes "reserve_decided t ps i (decide ps reserved i) d = Inr ((), d')"
  obtains (reserves) p stock where "product_for ps i = Some p" "pr_stock p = Some stock"
      "it_quantity i \<le> stock - reserved (pr_id p)" "0 < it_quantity i"
      "as_status (decide ps reserved i) = IN_STOCK"
      "upsert_reservation t (pr_id p) (it_id i) (it_quantity i) d = Inr ((), d')"
      "count_decided ps i (decide ps reserved i) reserved = reserved(pr_id p := reserved (pr_id p) + it_quantity i)"
    | (orders) "d' = d" "as_status (decide ps reserved i) = TO_ORDER"
      "count_decided ps i (decide ps reserved i) reserved = reserved"
proof (cases "as_status (decide ps reserved i) = IN_STOCK")
  case True
  then obtain p stock where p: "product_for ps i = Some p" "pr_stock p = Some stock"
      "it_quantity i \<le> max 0 (stock - reserved (pr_id p))" by (rule decide_in_stockE)
  then have up: "upsert_reservation t (pr_id p) (it_id i) (it_quantity i) d = Inr ((), d')"
    using assms True by (simp add: reserve_decided_def)
  then have "0 < it_quantity i" by (cases rule: upsert_cases) auto
  then show ?thesis using p up True by (intro reserves[of p stock]) (auto simp: count_decided_def)
next
  case False
  moreover have "as_status (decide ps reserved i) = TO_ORDER" using False decide_status by metis
  moreover have "d' = d" using assms False
    by (auto simp: reserve_decided_def split: option.splits)
  ultimately show ?thesis by (intro orders) (auto simp: count_decided_def split: option.splits)
qed

lemma assess_items_Cons:
  "assess_items t now ps (i # is) reserved d = Inr (as, d') \<longleftrightarrow>
     (\<exists>d1 as'. reserve_decided t ps i (decide ps reserved i) d = Inr ((), d1) \<and>
        (\<exists>j\<in>set (order_items d1). it_id j = it_id i) \<and>
        assess_items t now ps is (count_decided ps i (decide ps reserved i) reserved)
          (d1\<lparr>order_items := update_where (\<lambda>j. it_id j = it_id i)
                (write_assessment now (decide ps reserved i)) (order_items d1)\<rparr>) = Inr (as', d') \<and>
        as = decide ps reserved i # as')"
  by (auto simp: Let_def tx_iff simp del: fun_upd_apply)

lemma assess_items_result:
  "assess_items t now ps is reserved d = Inr (as, d') \<Longrightarrow> as = decide_all ps reserved is"
proof (induction t now ps "is" reserved arbitrary: d as d' rule: assess_items.induct)
  case (2 t now ps i "is" reserved)
  then show ?case by (auto simp: assess_items_Cons Let_def simp del: assess_items.simps(2))
qed simp

lemma reserve_decided_frame:
  assumes "reserve_decided t ps i (decide ps reserved i) d = Inr ((), d')"
  shows "d' = d\<lparr>reservations := reservations d', next_id := next_id d'\<rparr>"
  using assms by (cases rule: reserve_decided_cases) (simp_all add: upsert_frame)

lemma write_assessment_simps [simp]:
  "it_id (write_assessment now a i) = it_id i" "it_tenant (write_assessment now a i) = it_tenant i"
  "it_order (write_assessment now a i) = it_order i" "it_catalog (write_assessment now a i) = it_catalog i"
  "it_quantity (write_assessment now a i) = it_quantity i" "it_status (write_assessment now a i) = as_status a"
  by (simp_all add: write_assessment_def)

lemma assess_items_frame:
  "assess_items t now ps is reserved d = Inr (as, d') \<Longrightarrow>
     d' = d\<lparr>order_items := order_items d', reservations := reservations d', next_id := next_id d'\<rparr>"
proof (induction t now ps "is" reserved arbitrary: d as d' rule: assess_items.induct)
  case (2 t now ps i "is" reserved)
  let ?a = "decide ps reserved i"
  obtain d1 as' where s: "reserve_decided t ps i ?a d = Inr ((), d1)"
    "assess_items t now ps is (count_decided ps i ?a reserved)
          (d1\<lparr>order_items := update_where (\<lambda>j. it_id j = it_id i) (write_assessment now ?a) (order_items d1)\<rparr>) = Inr (as', d')"
    using 2(2) by (auto simp: assess_items_Cons simp del: assess_items.simps(2))
  have "d' = d1\<lparr>order_items := order_items d', reservations := reservations d', next_id := next_id d'\<rparr>"
    using 2(1)[OF refl s(2)] by simp
  moreover have "d1 = d\<lparr>reservations := reservations d1, next_id := next_id d1\<rparr>"
    by (rule reserve_decided_frame[OF s(1)])
  ultimately show ?case by (cases d; cases d1; cases d'; simp)
qed simp


text \<open>What the loop achieves for one item: a reserved item has its active
  reservation, an item to be ordered has none and could not have had one.\<close>

definition reserved_for :: "uuid \<Rightarrow> product list \<Rightarrow> db \<Rightarrow> order_item \<Rightarrow> bool" where
  "reserved_for t ps d i \<longleftrightarrow> (\<exists>p. product_for ps i = Some p \<and> pr_stock p \<noteq> None \<and>
     (\<exists>r\<in>set (reservations d). rs_tenant r = t \<and> rs_item r = it_id i \<and> rs_product r = pr_id p \<and>
        rs_quantity r = it_quantity i \<and> rs_status r = ACTIVE))"

definition unserved_for :: "uuid \<Rightarrow> product list \<Rightarrow> db \<Rightarrow> order_item \<Rightarrow> bool" where
  "unserved_for t ps d i \<longleftrightarrow>
     (\<forall>r\<in>set (reservations d). rs_tenant r = t \<longrightarrow> rs_item r = it_id i \<longrightarrow> rs_status r \<noteq> ACTIVE) \<and>
     (\<forall>p stock. product_for ps i = Some p \<longrightarrow> pr_stock p = Some stock \<longrightarrow>
        max 0 (stock - active_sum t (pr_id p) d) < it_quantity i)"

definition settled :: "uuid \<Rightarrow> product list \<Rightarrow> db \<Rightarrow> order_item \<Rightarrow> assessed_item \<Rightarrow> bool" where
  "settled t ps d i a \<longleftrightarrow>
     (as_status a = IN_STOCK \<and> reserved_for t ps d i) \<or> (as_status a = TO_ORDER \<and> unserved_for t ps d i)"

text \<open>How a step may move the sums: up, and above what was reserved only within
  the stock of a locked product.\<close>

definition sums_grow :: "uuid \<Rightarrow> product list \<Rightarrow> db \<Rightarrow> db \<Rightarrow> bool" where
  "sums_grow t ps d d' \<longleftrightarrow> (\<forall>t' p. active_sum t' p d \<le> active_sum t' p d' \<and>
     (active_sum t' p d' = active_sum t' p d \<or>
      (t' = t \<and> (\<exists>q\<in>set ps. pr_id q = p \<and> (\<exists>stock. pr_stock q = Some stock \<and> active_sum t p d' \<le> stock)))))"

lemma sums_grow_refl [simp]: "sums_grow t ps d d"
  by (simp add: sums_grow_def)

lemma sums_grow_trans:
  assumes "sums_grow t ps d d'" and "sums_grow t ps d' d''"
  shows "sums_grow t ps d d''"
  unfolding sums_grow_def
proof (intro allI)
  fix t' p
  note a = assms(1)[unfolded sums_grow_def, rule_format, of t' p]
  note b = assms(2)[unfolded sums_grow_def, rule_format, of t' p]
  show "active_sum t' p d \<le> active_sum t' p d'' \<and>
     (active_sum t' p d'' = active_sum t' p d \<or>
      (t' = t \<and> (\<exists>q\<in>set ps. pr_id q = p \<and> (\<exists>stock. pr_stock q = Some stock \<and> active_sum t p d'' \<le> stock))))"
    using a b by fastforce
qed

lemma sums_grow_cong:
  "reservations d' = reservations e' \<Longrightarrow> sums_grow t ps d d' = sums_grow t ps d e'"
  by (simp add: sums_grow_def active_sum_def)

lemma reserve_decided_step:
  assumes run: "reserve_decided t ps i (decide ps reserved i) d = Inr ((), d1)" and wf: "wf_store d"
    and sync: "\<And>p. p \<in> set ps \<Longrightarrow> reserved (pr_id p) = active_sum t (pr_id p) d"
    and idle: "\<And>r. r \<in> set (reservations d) \<Longrightarrow> rs_tenant r = t \<Longrightarrow> rs_item r = it_id i \<Longrightarrow> rs_status r \<noteq> ACTIVE"
  shows "wf_store d1" and "sums_grow t ps d d1" and "other_rows t [it_id i] d1 = other_rows t [it_id i] d"
    and "\<And>p. p \<in> set ps \<Longrightarrow> count_decided ps i (decide ps reserved i) reserved (pr_id p) = active_sum t (pr_id p) d1"
    and "settled t ps d1 i (decide ps reserved i)"
proof -
  have "wf_store d1 \<and> sums_grow t ps d d1 \<and> other_rows t [it_id i] d1 = other_rows t [it_id i] d \<and>
      (\<forall>p\<in>set ps. count_decided ps i (decide ps reserved i) reserved (pr_id p) = active_sum t (pr_id p) d1) \<and>
      settled t ps d1 i (decide ps reserved i)"
    using run
  proof (cases rule: reserve_decided_cases)
    case (reserves p stock)
    have sums: "active_sum t' q d1 = active_sum t' q d + (if t' = t \<and> q = pr_id p then it_quantity i else 0)" for t' q
      using wf idle by (intro upsert_active_sum[OF _ reserves(6)]) auto
    have p: "p \<in> set ps" using reserves(1) by (rule product_for_member)
    have "sums_grow t ps d d1"
      using p reserves(2,3,4) sync[OF p] by (fastforce simp: sums_grow_def sums)
    moreover have "reserved_for t ps d1 i"
      using upsert_present[OF reserves(6)] reserves(1,2) by (auto simp: reserved_for_def)
    moreover have "other_rows t [it_id i] d1 = other_rows t [it_id i] d"
      by (rule other_rows_upsert[OF reserves(6)]) simp
    ultimately show ?thesis
      using reserves wf sync sync[OF p] by (auto simp: sums settled_def wf_upsert_reservation)
  next
    case orders
    have "unserved_for t ps d i"
      unfolding unserved_for_def
    proof (intro conjI allI impI)
      fix p stock assume p: "product_for ps i = Some p" "pr_stock p = Some stock"
      have "reserved (pr_id p) = active_sum t (pr_id p) d"
        by (rule sync) (rule product_for_member[OF p(1)])
      then show "max 0 (stock - active_sum t (pr_id p) d) < it_quantity i"
        using orders(2) p by (auto simp: decide_def Let_def split: if_splits)
    qed (use idle in auto)
    then show ?thesis using orders wf sync by (auto simp: settled_def)
  qed
  then show "wf_store d1" and "sums_grow t ps d d1" and "other_rows t [it_id i] d1 = other_rows t [it_id i] d"
    and "\<And>p. p \<in> set ps \<Longrightarrow> count_decided ps i (decide ps reserved i) reserved (pr_id p) = active_sum t (pr_id p) d1"
    and "settled t ps d1 i (decide ps reserved i)" by auto
qed

lemma other_rows_eqD:
  assumes "other_rows t iids d' = other_rows t iids d" and "\<not> (rs_tenant r = t \<and> rs_item r \<in> set iids)"
  shows "r \<in> set (reservations d') \<longleftrightarrow> r \<in> set (reservations d)"
  using assms(2) arg_cong[OF assms(1), of "\<lambda>rs. r \<in> set rs"] by (auto simp: other_rows_def)

lemma other_rows_Cons:
  "other_rows t (iid # iids) d = filter (\<lambda>r. \<not> (rs_tenant r = t \<and> rs_item r = iid)) (other_rows t iids d)"
  "other_rows t (iid # iids) d = filter (\<lambda>r. \<not> (rs_tenant r = t \<and> rs_item r \<in> set iids)) (other_rows t [iid] d)"
  by (auto simp: other_rows_def intro!: filter_cong)

lemma settled_mono:
  assumes "settled t ps d i a" and "\<And>p. active_sum t p d \<le> active_sum t p d'"
    and "\<And>r. rs_tenant r = t \<Longrightarrow> rs_item r = it_id i \<Longrightarrow> r \<in> set (reservations d') \<longleftrightarrow> r \<in> set (reservations d)"
  shows "settled t ps d' i a"
proof -
  have "reserved_for t ps d i \<Longrightarrow> reserved_for t ps d' i"
    using assms(3) unfolding reserved_for_def by metis
  moreover have "unserved_for t ps d i \<Longrightarrow> unserved_for t ps d' i"
    using assms(2,3) unfolding unserved_for_def by (smt (verit, best))
  ultimately show ?thesis using assms(1) by (auto simp: settled_def)
qed

lemma assess_items_loop:
  assumes "assess_items t now ps is reserved d = Inr (as, d')" and "wf_store d"
    and "distinct (map it_id is)"
    and "\<And>p. p \<in> set ps \<Longrightarrow> reserved (pr_id p) = active_sum t (pr_id p) d"
    and "\<And>r. r \<in> set (reservations d) \<Longrightarrow> rs_tenant r = t \<Longrightarrow> rs_item r \<in> it_id ` set is \<Longrightarrow> rs_status r \<noteq> ACTIVE"
  shows "wf_store d' \<and> sums_grow t ps d d' \<and> other_rows t (map it_id is) d' = other_rows t (map it_id is) d
     \<and> list_all2 (settled t ps d') is as"
  using assms
proof (induction "is" arbitrary: reserved d as)
  case (Cons i "is")
  let ?a = "decide ps reserved i"
  let ?wr = "\<lambda>d1. d1\<lparr>order_items := update_where (\<lambda>j. it_id j = it_id i) (write_assessment now ?a) (order_items d1)\<rparr>"
  obtain d1 as' where s: "reserve_decided t ps i ?a d = Inr ((), d1)"
      "assess_items t now ps is (count_decided ps i ?a reserved) (?wr d1) = Inr (as', d')" "as = ?a # as'"
    using Cons.prems(1) by (auto simp: assess_items_Cons simp del: assess_items.simps(2))
  define d2 where "d2 = ?wr d1"
  have res2: "reservations d2 = reservations d1" by (simp add: d2_def)
  then have sum2: "active_sum t' p d2 = active_sum t' p d1" for t' p by (rule active_sum_cong)
  have idle: "rs_status r \<noteq> ACTIVE" if "r \<in> set (reservations d)" "rs_tenant r = t" "rs_item r = it_id i" for r
    using that Cons.prems(5) by auto
  have step: "wf_store d1" "sums_grow t ps d d1" "other_rows t [it_id i] d1 = other_rows t [it_id i] d"
      "\<And>p. p \<in> set ps \<Longrightarrow> count_decided ps i ?a reserved (pr_id p) = active_sum t (pr_id p) d1"
      "settled t ps d1 i ?a"
    using reserve_decided_step[OF s(1) Cons.prems(2) Cons.prems(4)] idle by blast+
  have fresh: "it_id i \<notin> it_id ` set is" using Cons.prems(3) by simp
  have IH: "wf_store d' \<and> sums_grow t ps d2 d' \<and> other_rows t (map it_id is) d' = other_rows t (map it_id is) d2
     \<and> list_all2 (settled t ps d') is as'"
  proof (rule Cons.IH[OF s(2)[folded d2_def]])
    show "wf_store d2" unfolding d2_def using step(1) by (subst wf_update_items) simp_all
    show "rs_status r \<noteq> ACTIVE" if "r \<in> set (reservations d2)" "rs_tenant r = t" "rs_item r \<in> it_id ` set is" for r
    proof -
      have "rs_item r \<noteq> it_id i" using that(3) fresh by metis
      then have "r \<in> set (reservations d)" using that(1) other_rows_eqD[OF step(3), of r] by (simp add: res2)
      then show ?thesis using that(2,3) Cons.prems(5)[of r] by simp
    qed
    show "count_decided ps i ?a reserved (pr_id p) = active_sum t (pr_id p) d2" if "p \<in> set ps" for p
      using step(4)[OF that] by (simp only: sum2)
  qed (use Cons.prems(3) in auto)
  have "settled t ps d' i ?a"
  proof (rule settled_mono[OF step(5)])
    show "active_sum t p d1 \<le> active_sum t p d'" for p using IH by (simp add: sums_grow_def sum2)
    show "r \<in> set (reservations d') \<longleftrightarrow> r \<in> set (reservations d1)"
      if "rs_tenant r = t" "rs_item r = it_id i" for r
      using other_rows_eqD[OF conjunct1[OF conjunct2[OF conjunct2[OF IH]]], of r] that fresh by (auto simp: res2)
  qed
  moreover have "other_rows t (map it_id (i # is)) d' = other_rows t (map it_id (i # is)) d"
  proof -
    have "other_rows t (map it_id (i # is)) d' = other_rows t (map it_id (i # is)) d2"
      using IH by (simp only: list.map other_rows_Cons(1)[of t "it_id i" "map it_id is"])
    also have "\<dots> = other_rows t (map it_id (i # is)) d1" by (simp add: other_rows_def res2)
    also have "\<dots> = other_rows t (map it_id (i # is)) d"
      by (simp only: list.map other_rows_Cons(2)[of t "it_id i" "map it_id is"] step(3))
    finally show ?thesis .
  qed
  moreover have "sums_grow t ps d d'"
    using step(2) IH sums_grow_trans sums_grow_cong[OF res2, of t ps d] by blast
  ultimately show ?case using IH s(3) by auto
qed simp

lemma assess_items_items:
  "assess_items t now ps is reserved d = Inr (as, d') \<Longrightarrow> distinct (map it_id is) \<Longrightarrow>
     order_items d' = map (\<lambda>j. case map_of (map (\<lambda>a. (as_id a, a)) as) (it_id j) of
        Some a \<Rightarrow> write_assessment now a j | None \<Rightarrow> j) (order_items d)"
proof (induction t now ps "is" reserved arbitrary: d as d' rule: assess_items.induct)
  case (2 t now ps i "is" reserved)
  let ?a = "decide ps reserved i"
  obtain d1 as' where s: "reserve_decided t ps i ?a d = Inr ((), d1)"
    "assess_items t now ps is (count_decided ps i ?a reserved)
       (d1\<lparr>order_items := update_where (\<lambda>j. it_id j = it_id i) (write_assessment now ?a) (order_items d1)\<rparr>) = Inr (as', d')"
    "as = ?a # as'"
    using 2(2) by (auto simp: assess_items_Cons simp del: assess_items.simps(2))
  have "order_items d1 = order_items d"
    using arg_cong[OF reserve_decided_frame[OF s(1)], of order_items] by simp
  moreover have "map_of (map (\<lambda>a. (as_id a, a)) as') (it_id i) = None"
  proof -
    have "fst ` set (map (\<lambda>a. (as_id a, a)) as') = set (map as_id as')" by (simp add: image_image)
    also have "\<dots> = set (map it_id is)" using assess_items_result[OF s(2)] by simp
    finally show ?thesis using 2(3) by (simp add: map_of_eq_None_iff)
  qed
  ultimately show ?case
    using 2(1)[OF refl s(2)] 2(3) s(3)
    by (auto simp: update_where_def comp_def split: option.splits)
qed simp

lemma assess_items_others:
  assumes "assess_items t now ps is reserved d = Inr (as, d')"
    and "\<And>i j. i \<in> set is \<Longrightarrow> j \<in> set (order_items d) \<Longrightarrow> it_id j = it_id i \<Longrightarrow> it_tenant j = t"
  shows "others_unchanged t d d'"
  using assms
proof (induction t now ps "is" reserved arbitrary: d as d' rule: assess_items.induct)
  case (2 t now ps i "is" reserved)
  let ?a = "decide ps reserved i"
  let ?wr = "\<lambda>d1. d1\<lparr>order_items := update_where (\<lambda>j. it_id j = it_id i) (write_assessment now ?a) (order_items d1)\<rparr>"
  obtain d1 as' where s: "reserve_decided t ps i ?a d = Inr ((), d1)"
    "assess_items t now ps is (count_decided ps i ?a reserved) (?wr d1) = Inr (as', d')"
    using 2(2) by (auto simp: assess_items_Cons simp del: assess_items.simps(2))
  have items: "order_items d1 = order_items d"
    using arg_cong[OF reserve_decided_frame[OF s(1)], of order_items] by simp
  have "others_unchanged t d d1"
    using s(1) by (cases rule: reserve_decided_cases) (auto intro: others_upsert_reservation)
  moreover have "others_unchanged t d1 (?wr d1)"
  proof (rule others_update_items)
    show "it_tenant r = t" if "r \<in> set (order_items d1)" "it_id r = it_id i" for r
      using 2(3)[of i r] that by (simp add: items)
  qed simp
  moreover have "others_unchanged t (?wr d1) d'"
  proof (rule 2(1)[OF refl s(2)])
    fix i' j assume *: "i' \<in> set is" "j \<in> set (order_items (?wr d1))" "it_id j = it_id i'"
    then obtain j0 where "j0 \<in> set (order_items d)" "it_id j0 = it_id j" "it_tenant j0 = it_tenant j"
      by (auto simp: items set_update_where split: if_splits)
    then show "it_tenant j = t" using 2(3)[of i' j0] * by simp
  qed
  ultimately show ?case using others_unchanged_trans by blast
qed simp

text \<open>A committed assessment, step by step.\<close>

definition after_release :: "uuid \<Rightarrow> uuid list \<Rightarrow> instant \<Rightarrow> db \<Rightarrow> db" where
  "after_release t iids now d = d\<lparr>reservations := update_where (active_of_items t iids)
     (\<lambda>r. r\<lparr>rs_status := RELEASED, rs_released_at := Some now, rs_consumed_at := None\<rparr>) (reservations d)\<rparr>"

definition assess_commit :: "uuid \<Rightarrow> uuid \<Rightarrow> string \<Rightarrow> assessed_item list \<Rightarrow> db \<Rightarrow> db" where
  "assess_commit t oid actor as d =
     (let summary = procurementSummaryFor (map as_status as) False in
      d\<lparr>orders := update_where (\<lambda>r. o_id r = oid \<and> o_tenant r = t)
              (\<lambda>r. r\<lparr>o_sort_procurement := summary\<rparr>) (orders d),
        audit_logs := audit_logs d @ [\<lparr>au_tenant = t, au_order = oid, au_actor = actor,
               au_event = PROCUREMENT_ASSESSED summary
                 (map (\<lambda>a. (as_id a, as_status a, as_reason a, as_reserved a)) as)\<rparr>]\<rparr>)"

lemma assess_unfold:
  "assessApprovedOrder t oid actor releasedAt now d =
     (if tenant_frozen t d then Inl (TenantLifecycleFrozen PROCUREMENT)
      else case find_order t oid d of
        None \<Rightarrow> Inl ProcurementOrderNotApproved
      | Some ord \<Rightarrow>
          if o_status ord \<notin> {APPROVED, AUTO_APPROVED} then Inl ProcurementOrderNotApproved
          else
            let items = items_by_id t oid d; d1 = after_release t (map it_id items) releasedAt d in
            case assess_items t now (locked_products t (order_skus items) d) items (\<lambda>p. active_sum t p d1) d1 of
              Inl e \<Rightarrow> Inl e
            | Inr (as, d2) \<Rightarrow>
                if \<exists>o'\<in>set (orders d2). o_id o' = oid \<and> o_tenant o' = t
                then Inr (\<lparr>am_order = oid, am_summary = procurementSummaryFor (map as_status as) False,
                           am_items = as\<rparr>, assess_commit t oid actor as d2)
                else Inl RecordNotFound)"
  unfolding assessApprovedOrder_def release_reassessed_def after_release_def assess_commit_def
  by (simp add: tx_run tx_bind_cases(1) Let_def cong: if_cong option.case_cong sum.case_cong)

lemma assessE:
  assumes "assessApprovedOrder t oid actor releasedAt now d = Inr (am, d')"
  obtains ord d2 where "\<not> tenant_frozen t d" "find_order t oid d = Some ord"
    "o_status ord = APPROVED \<or> o_status ord = AUTO_APPROVED"
    "assess_items t now (locked_products t (order_skus (items_by_id t oid d)) d) (items_by_id t oid d)
       (\<lambda>pid. active_sum t pid (after_release t (map it_id (items_by_id t oid d)) releasedAt d))
       (after_release t (map it_id (items_by_id t oid d)) releasedAt d) = Inr (am_items am, d2)"
    "am_order am = oid" "am_summary am = procurementSummaryFor (map as_status (am_items am)) False"
    "d' = assess_commit t oid actor (am_items am) d2"
  using assms by (auto simp: assess_unfold Let_def split: if_splits option.splits sum.splits prod.splits)

lemma update_where_member:
  assumes "r \<in> set (update_where P f rows)"
  obtains (changed) r0 where "r0 \<in> set rows" "P r0" "r = f r0" | (kept) "r \<in> set rows" "\<not> P r"
  using assms by (auto simp: set_update_where split: if_splits)

lemma after_release_idle:
  assumes "r \<in> set (reservations (after_release t iids now d))" and "rs_tenant r = t" and "rs_item r \<in> set iids"
  shows "rs_status r \<noteq> ACTIVE"
proof -
  have "r \<in> set (update_where (active_of_items t iids)
     (\<lambda>r. r\<lparr>rs_status := RELEASED, rs_released_at := Some now, rs_consumed_at := None\<rparr>) (reservations d))"
    using assms(1) by (simp add: after_release_def)
  then show ?thesis
    by (cases rule: update_where_member) (use assms(2,3) in \<open>simp_all add: active_of_items_def\<close>)
qed

lemma after_release_tables [simp]:
  "order_items (after_release t iids now d) = order_items d"
  "products (after_release t iids now d) = products d"
  "orders (after_release t iids now d) = orders d"
  "audit_logs (after_release t iids now d) = audit_logs d"
  "lifecycle_requests (after_release t iids now d) = lifecycle_requests d"
  by (simp_all add: after_release_def)

lemma wf_after_release: "wf_store d \<Longrightarrow> wf_store (after_release t iids now d)"
  unfolding after_release_def by (rule wf_update_reservations) auto

lemma other_rows_after_release:
  "other_rows t iids (after_release t iids now d) = other_rows t iids d"
  by (simp add: other_rows_def after_release_def, rule filter_update_where_other)
     (auto simp: active_of_items_def)

lemma after_release_sum:
  "active_sum t' p (after_release t iids now d) = sum_where
     (\<lambda>r. rs_tenant r = t' \<and> rs_product r = p \<and> rs_status r = ACTIVE) rs_quantity (other_rows t iids d)"
  using other_rows_active_sum[of "after_release t iids now d" t iids] after_release_idle
  by (simp add: other_rows_after_release)

lemma after_release_others: "others_unchanged t d (after_release t iids now d)"
  unfolding after_release_def by (rule others_update_reservations) (auto simp: active_of_items_def)

lemma after_release_le: "wf_store d \<Longrightarrow> active_sum t' p (after_release t iids now d) \<le> active_sum t' p d"
  by (rule active_sum_deactivate_le[where P = "active_of_items t iids"]) (auto simp: after_release_def)

text \<open>The loop as it runs inside an assessment.\<close>

lemma assess_loop:
  assumes "wf_store d"
    and "assess_items t now ps (items_by_id t oid d)
       (\<lambda>pid. active_sum t pid (after_release t (map it_id (items_by_id t oid d)) releasedAt d))
       (after_release t (map it_id (items_by_id t oid d)) releasedAt d) = Inr (as, d2)"
  shows "wf_store d2" and "sums_grow t ps (after_release t (map it_id (items_by_id t oid d)) releasedAt d) d2"
    and "other_rows t (map it_id (items_by_id t oid d)) d2 = other_rows t (map it_id (items_by_id t oid d)) d"
    and "list_all2 (settled t ps d2) (items_by_id t oid d) as"
  using assess_items_loop[OF assms(2) wf_after_release[OF assms(1)] distinct_items_by_id[OF assms(1)]]
    after_release_idle other_rows_after_release by fastforce+

lemma locked_products_set:
  "p \<in> set (locked_products t skus d) \<longleftrightarrow> p \<in> set (products d) \<and> pr_tenant p = t \<and> pr_sku p \<in> set skus \<and> pr_active p"
  by (auto simp: locked_products_def)

lemma no_oversell_grow:
  assumes "no_oversell d" and "wf_store d" and "sums_grow t ps e d'"
    and "\<And>t' p. active_sum t' p e \<le> active_sum t' p d"
    and "set ps \<subseteq> set (products d)" and "products d' = products d"
  shows "no_oversell d'"
  unfolding no_oversell_def
proof (intro ballI allI impI)
  fix p stock assume p: "p \<in> set (products d')" "pr_stock p = Some stock"
  consider "active_sum (pr_tenant p) (pr_id p) d' = active_sum (pr_tenant p) (pr_id p) e"
    | q s where "q \<in> set ps" "pr_id q = pr_id p" "pr_tenant p = t" "pr_stock q = Some s" "active_sum t (pr_id p) d' \<le> s"
    using assms(3) unfolding sums_grow_def by metis
  then show "active_sum (pr_tenant p) (pr_id p) d' \<le> max 0 stock"
  proof cases
    case 1
    then show ?thesis using assms(1,4,6) p unfolding no_oversell_def by (metis order_trans)
  next
    case 2
    then have "q = p" using wf_product_unique[OF assms(2)] assms(5,6) p by auto
    then show ?thesis using 2 p by auto
  qed
qed

lemma assess_commit_tables [simp]:
  "products (assess_commit t oid actor as d) = products d"
  "order_items (assess_commit t oid actor as d) = order_items d"
  "reservations (assess_commit t oid actor as d) = reservations d"
  "lifecycle_requests (assess_commit t oid actor as d) = lifecycle_requests d"
  by (simp_all add: assess_commit_def Let_def)

lemma wf_assess_commit [simp]: "wf_store (assess_commit t oid actor as d) = wf_store d"
  by (simp add: assess_commit_def wf_store_def map_update_where Let_def)

lemma others_assess_commit: "others_unchanged t d (assess_commit t oid actor as d)"
proof -
  have "filter (\<lambda>r. o_tenant r = t') (update_where (\<lambda>r. o_id r = oid \<and> o_tenant r = t) f (orders d))
      = filter (\<lambda>r. o_tenant r = t') (orders d)"
    if "t' \<noteq> t" and "\<And>r. o_tenant (f r) = o_tenant r" for t' f
    using that by (intro filter_update_where_other) auto
  then show ?thesis by (simp add: others_unchanged_def tenant_slice_def assess_commit_def Let_def)
qed

lemma assess_ok:
  assumes "assessApprovedOrder t oid actor releasedAt now d = Inr (am, d')" and "wf_store d"
  shows "wf_store d'" and "others_unchanged t d d'" and "no_oversell d \<Longrightarrow> no_oversell d'"
proof -
  obtain ord d2 where s: "find_order t oid d = Some ord"
    "assess_items t now (locked_products t (order_skus (items_by_id t oid d)) d) (items_by_id t oid d)
       (\<lambda>pid. active_sum t pid (after_release t (map it_id (items_by_id t oid d)) releasedAt d))
       (after_release t (map it_id (items_by_id t oid d)) releasedAt d) = Inr (am_items am, d2)"
    "d' = assess_commit t oid actor (am_items am) d2"
    using assms(1) by (rule assessE)
  note loop = assess_loop[OF assms(2) s(2)]
  show "wf_store d'" using loop(1) by (simp add: s(3))
  have tenant: "it_tenant j = t" if "i \<in> set (items_by_id t oid d)" "j \<in> set (order_items d)" "it_id j = it_id i" for i j
    using wf_item_unique[OF assms(2)] that by (auto simp: items_of_iff)
  have "others_unchanged t (after_release t (map it_id (items_by_id t oid d)) releasedAt d) d2"
    by (rule assess_items_others[OF s(2)]) (use tenant in auto)
  moreover have "others_unchanged t d2 d'" unfolding s(3) by (rule others_assess_commit)
  ultimately show "others_unchanged t d d'"
    using after_release_others others_unchanged_trans by blast
  have prod: "products d2 = products d"
    using arg_cong[OF assess_items_frame[OF s(2)], of products] by simp
  show "no_oversell d'" if "no_oversell d"
  proof -
    have "no_oversell d2"
      using prod after_release_le[OF assms(2)]
      by (intro no_oversell_grow[OF that assms(2) loop(2)]) (auto simp: locked_products_set)
    then show ?thesis by (simp add: no_oversell_def s(3) active_sum_def)
  qed
qed

subsection \<open>Release\<close>

definition release_rows :: "uuid \<Rightarrow> uuid list \<Rightarrow> instant \<Rightarrow> db \<Rightarrow> db" where
  "release_rows t iids now d = d\<lparr>reservations := update_where (active_of_items t iids)
     (\<lambda>r. r\<lparr>rs_status := RELEASED, rs_released_at := Some now\<rparr>) (reservations d)\<rparr>"

lemma release_unfold:
  "releaseOrderReservations t oid actor now d =
     (if tenant_frozen t d then Inl (TenantLifecycleFrozen PROCUREMENT)
      else case find_order t oid d of
        None \<Rightarrow> Inr ((), d)
      | Some ord \<Rightarrow>
          let iids = map it_id (items_of t oid d);
              released = count_where (active_of_items t iids) (reservations d);
              d1 = release_rows t iids now d
          in Inr ((), if released > 0 then d1\<lparr>audit_logs := audit_logs d @
               [\<lparr>au_tenant = t, au_order = oid, au_actor = actor,
                 au_event = PROCUREMENT_RESERVATIONS_RELEASED released\<rparr>]\<rparr> else d1))"
  unfolding releaseOrderReservations_def release_active_def release_rows_def
  by (simp add: tx_run create_audit_def Let_def cong: if_cong option.case_cong)

lemma release_rows_tables [simp]:
  "order_items (release_rows t iids now d) = order_items d"
  "products (release_rows t iids now d) = products d"
  "orders (release_rows t iids now d) = orders d"
  "lifecycle_requests (release_rows t iids now d) = lifecycle_requests d"
  by (simp_all add: release_rows_def)

lemma wf_release_rows: "wf_store d \<Longrightarrow> wf_store (release_rows t iids now d)"
  unfolding release_rows_def by (rule wf_update_reservations) auto

lemma release_rows_others: "others_unchanged t d (release_rows t iids now d)"
  unfolding release_rows_def by (rule others_update_reservations) (auto simp: active_of_items_def)

lemma release_rows_idle:
  assumes "r \<in> set (reservations (release_rows t iids now d))" and "rs_tenant r = t" and "rs_item r \<in> set iids"
  shows "rs_status r \<noteq> ACTIVE"
proof -
  have "r \<in> set (update_where (active_of_items t iids)
     (\<lambda>r. r\<lparr>rs_status := RELEASED, rs_released_at := Some now\<rparr>) (reservations d))"
    using assms(1) by (simp add: release_rows_def)
  then show ?thesis
    by (cases rule: update_where_member) (use assms(2,3) in \<open>simp_all add: active_of_items_def\<close>)
qed

lemma release_rows_le: "wf_store d \<Longrightarrow> active_sum t' p (release_rows t iids now d) \<le> active_sum t' p d"
  by (rule active_sum_deactivate_le[where P = "active_of_items t iids"]) (auto simp: release_rows_def)

lemma no_oversell_shrink:
  assumes "no_oversell d" and "products d' = products d" and "\<And>t' p. active_sum t' p d' \<le> active_sum t' p d"
  shows "no_oversell d'"
  using assms unfolding no_oversell_def by (metis order_trans)

lemma release_ok:
  assumes "releaseOrderReservations t oid actor now d = Inr (u, d')" and "wf_store d"
  shows "wf_store d'" and "others_unchanged t d d'" and "no_oversell d \<Longrightarrow> no_oversell d'"
proof -
  have "d' = d \<or> (\<exists>iids logs. d' = release_rows t iids now d \<or>
      d' = (release_rows t iids now d)\<lparr>audit_logs := audit_logs (release_rows t iids now d) @ [logs]\<rparr> \<and> au_tenant logs = t)"
    using assms(1) by (fastforce simp: release_unfold Let_def release_rows_def split: if_splits option.splits)
  then consider "d' = d" | iids where "d' = release_rows t iids now d"
    | iids l where "d' = (release_rows t iids now d)\<lparr>audit_logs := audit_logs (release_rows t iids now d) @ [l]\<rparr>" "au_tenant l = t"
    by blast
  note cases = this
  show "wf_store d'"
    by (cases rule: cases) (use assms(2) in \<open>simp_all add: wf_release_rows\<close>)
  show "others_unchanged t d d'"
  proof (cases rule: cases)
    case 3
    then show ?thesis using others_unchanged_trans[OF release_rows_others others_audit] by simp
  qed (simp_all add: release_rows_others)
  show "no_oversell d'" if "no_oversell d"
  proof (cases rule: cases)
    case 2
    then show ?thesis by (intro no_oversell_shrink[OF that]) (simp_all add: release_rows_le assms(2))
  next
    case 3
    have "active_sum t' p d' = active_sum t' p (release_rows t iids now d)" for t' p
      unfolding 3(1) by (rule active_sum_cong) simp
    then show ?thesis using release_rows_le[OF assms(2)]
      by (intro no_oversell_shrink[OF that]) (simp_all add: 3(1))
  qed (simp add: that)
qed

subsection \<open>Manual status\<close>

lemma reserve_manually_unfold:
  "reserve_manually t i d =
     (case (case item_sku i of None \<Rightarrow> None | Some sku \<Rightarrow> locked_product t sku d) of
        None \<Rightarrow> Inl ProcurementOrderNotReady
      | Some p \<Rightarrow> (case pr_stock p of
          None \<Rightarrow> Inl ProcurementOrderNotReady
        | Some stock \<Rightarrow>
            let available = max 0 (stock - active_sum_others t (pr_id p) (it_id i) d) in
            if available < it_quantity i then Inl ProcurementOrderNotReady
            else case upsert_reservation t (pr_id p) (it_id i) (it_quantity i) d of
              Inl e \<Rightarrow> Inl e
            | Inr (_, d1) \<Rightarrow> Inr ((Some MANUAL_IN_STOCK, Some stock, Some available), d1)))"
  unfolding reserve_manually_def
  by (simp add: tx_run tx_bind_cases Let_def cong: if_cong option.case_cong sum.case_cong)

lemma reserve_manuallyE:
  assumes "reserve_manually t i d = Inr (dec, d')"
  obtains sku p stock where "item_sku i = Some sku" "locked_product t sku d = Some p" "pr_stock p = Some stock"
    "it_quantity i \<le> max 0 (stock - active_sum_others t (pr_id p) (it_id i) d)"
    "upsert_reservation t (pr_id p) (it_id i) (it_quantity i) d = Inr ((), d')"
    "dec = (Some MANUAL_IN_STOCK, Some stock, Some (max 0 (stock - active_sum_others t (pr_id p) (it_id i) d)))"
  using assms by (auto simp: reserve_manually_unfold Let_def split: option.splits if_splits sum.splits prod.splits)

lemma decide_manually_cases:
  assumes "decide_manually t i nextStatus now d = Inr (dec, d')"
  obtains (reserve) "nextStatus = IN_STOCK" "reserve_manually t i d = Inr (dec, d')"
    | (release) "nextStatus = TO_ORDER \<or> nextStatus = UNAVAILABLE" "d' = release_rows t [it_id i] now d"
        "dec = (if nextStatus = TO_ORDER then Some MANUAL_TO_ORDER else it_reason i, it_stock_at i, it_available_at i)"
    | (mark) "nextStatus \<notin> {IN_STOCK, TO_ORDER, UNAVAILABLE}" "d' = d" "dec = (it_reason i, it_stock_at i, it_available_at i)"
  using assms by (auto simp: decide_manually_def release_active_def release_rows_def tx_run split: if_splits)

lemma upsert_replace_sum:
  assumes "wf_store d" and "upsert_reservation t pid iid q d = Inr ((), d')"
  shows "active_sum t' p d' \<le> max (active_sum t' p d)
     (if t' = t \<and> p = pid then active_sum_others t pid iid d + q else active_sum t' p d)"
  using assms(2)
proof (cases rule: upsert_cases)
  case (existing r0)
  let ?P = "\<lambda>r. rs_tenant r = t \<and> rs_item r = iid"
  let ?Q = "\<lambda>r. rs_tenant r = t' \<and> rs_product r = p \<and> rs_status r = ACTIVE"
  let ?f = "reactivate pid q"
  let ?rows = "reservations d"
  have sum: "active_sum t' p d' = sum_where (\<lambda>r. ?P r \<and> ?Q (?f r)) (\<lambda>r. rs_quantity (?f r)) ?rows
      + sum_where (\<lambda>r. \<not> ?P r \<and> ?Q r) rs_quantity ?rows"
    unfolding active_sum_def existing by (simp add: sum_where_update)
  have le: "sum_where (\<lambda>r. \<not> ?P r \<and> ?Q r) rs_quantity ?rows \<le> active_sum t' p d"
    unfolding active_sum_def using assms(1)
    by (intro sum_where_mono) (auto simp: wf_store_def intro: less_imp_le)
  show ?thesis
  proof (cases "t' = t \<and> p = pid")
    case True
    have "sum_where (\<lambda>r. ?P r \<and> ?Q (?f r)) (\<lambda>r. rs_quantity (?f r)) ?rows
       = sum_where (\<lambda>r. (rs_tenant r, rs_item r) = (t, iid)) (\<lambda>_. q) ?rows"
      using True by (intro sum_where_cong) auto
    also have "\<dots> = q"
      using assms(1) existing by (intro sum_where_one[where k = "\<lambda>r. (rs_tenant r, rs_item r)" and ?r0.0 = r0]) (auto simp: wf_store_def)
    finally have "active_sum t' p d' = q + sum_where (\<lambda>r. \<not> ?P r \<and> ?Q r) rs_quantity ?rows" using sum by simp
    also have "sum_where (\<lambda>r. \<not> ?P r \<and> ?Q r) rs_quantity ?rows = active_sum_others t pid iid d"
      unfolding active_sum_others_def using True by (intro sum_where_cong) auto
    finally show ?thesis using True by simp
  next
    case False
    then have "sum_where (\<lambda>r. ?P r \<and> ?Q (?f r)) (\<lambda>r. rs_quantity (?f r)) ?rows = 0"
      by (intro sum_where_zero) auto
    then show ?thesis using sum le False by simp
  qed
next
  case fresh
  have "active_sum t' p d' = active_sum t' p d + (if t' = t \<and> p = pid then q else 0)"
    by (auto simp: fresh(3) active_sum_def)
  moreover have "active_sum_others t pid iid d = active_sum t pid d"
    unfolding active_sum_others_def active_sum_def using fresh(2) by (intro sum_where_cong) auto
  ultimately show ?thesis using fresh(1) by auto
qed

lemma locked_product_member:
  assumes "locked_product t sku d = Some p"
  shows "p \<in> set (products d)" and "pr_tenant p = t" and "pr_sku p = sku" and "pr_active p"
  using assms find_some_set[of _ "products d" p] find_some_prop[of _ "products d" p]
  by (auto simp: locked_product_def)

lemma decide_manually_frame:
  assumes "decide_manually t i nextStatus now d = Inr (dec, d')"
  shows "products d' = products d" and "orders d' = orders d" and "order_items d' = order_items d"
    and "audit_logs d' = audit_logs d"
proof -
  have "products d' = products d \<and> orders d' = orders d \<and> order_items d' = order_items d \<and> audit_logs d' = audit_logs d"
    using assms
  proof (cases rule: decide_manually_cases)
    case reserve
    then obtain pid where "upsert_reservation t pid (it_id i) (it_quantity i) d = Inr ((), d')"
      by (auto elim: reserve_manuallyE)
    then show ?thesis by (cases rule: upsert_cases) auto
  qed (simp_all add: release_rows_def)
  then show "products d' = products d" and "orders d' = orders d" and "order_items d' = order_items d"
    and "audit_logs d' = audit_logs d" by auto
qed

lemma decide_manually_ok:
  assumes "decide_manually t i nextStatus now d = Inr (dec, d')" and "wf_store d"
  shows "wf_store d'" and "others_unchanged t d d'" and "no_oversell d \<Longrightarrow> no_oversell d'"
proof -
  have "wf_store d' \<and> others_unchanged t d d' \<and> (no_oversell d \<longrightarrow> no_oversell d')"
    using assms(1)
  proof (cases rule: decide_manually_cases)
    case reserve
    then obtain sku p stock where r: "locked_product t sku d = Some p" "pr_stock p = Some stock"
      "it_quantity i \<le> max 0 (stock - active_sum_others t (pr_id p) (it_id i) d)"
      "upsert_reservation t (pr_id p) (it_id i) (it_quantity i) d = Inr ((), d')"
      by (auto elim: reserve_manuallyE)
    have "0 < it_quantity i" using r(4) by (cases rule: upsert_cases) auto
    have prod: "products d' = products d" using arg_cong[OF upsert_frame[OF r(4)], of products] by simp
    have "no_oversell d'" if no: "no_oversell d"
      unfolding no_oversell_def
    proof (intro ballI allI impI)
      fix q s assume q: "q \<in> set (products d')" "pr_stock q = Some s"
      have old: "active_sum (pr_tenant q) (pr_id q) d \<le> max 0 s" using no q prod by (auto simp: no_oversell_def)
      have "q = p" if "pr_id q = pr_id p"
        using that wf_product_unique[OF assms(2)] q(1) locked_product_member(1)[OF r(1)] prod by auto
      then show "active_sum (pr_tenant q) (pr_id q) d' \<le> max 0 s"
        using upsert_replace_sum[OF assms(2) r(4), of "pr_tenant q" "pr_id q"] old r(2,3) q(2) \<open>0 < it_quantity i\<close>
        by (auto split: if_splits)
    qed
    then show ?thesis using wf_upsert_reservation[OF assms(2) r(4)] others_upsert_reservation[OF r(4)] by blast
  next
    case release
    have "no_oversell d'" if "no_oversell d"
      unfolding release(2) by (rule no_oversell_shrink[OF that]) (simp_all add: release_rows_le[OF assms(2)])
    then show ?thesis using assms(2) by (simp add: release(2) wf_release_rows release_rows_others)
  qed (simp add: assms(2))
  then show "wf_store d'" and "others_unchanged t d d'" and "no_oversell d \<Longrightarrow> no_oversell d'" by auto
qed


definition set_commit :: "uuid \<Rightarrow> uuid \<Rightarrow> order_item \<Rightarrow> procurement_status \<Rightarrow> decision \<Rightarrow> string \<Rightarrow> instant \<Rightarrow> uuid \<Rightarrow> db \<Rightarrow> db" where
  "set_commit t oid i nextStatus dec actor now iid d =
     d\<lparr>order_items := update_where (\<lambda>j. it_id j = it_id i) (write_decision nextStatus dec now) (order_items d),
       audit_logs := audit_logs d @ [\<lparr>au_tenant = t, au_order = oid, au_actor = actor,
         au_event = PROCUREMENT_STATUS_CHANGED iid (it_status i) nextStatus\<rparr>]\<rparr>"

lemma set_unfold:
  "setItemStatus t oid iid nextStatus actor releasedAt now d =
     (if tenant_frozen t d then Inl (TenantLifecycleFrozen PROCUREMENT)
      else case find_item t oid iid d of
        None \<Rightarrow> Inl ProcurementItemNotFound
      | Some i \<Rightarrow>
          if it_status i \<noteq> nextStatus \<and> nextStatus \<notin> set (allowedTransitions (it_status i))
          then Inl (InvalidProcurementTransition (it_status i) nextStatus)
          else case decide_manually t i nextStatus releasedAt d of
            Inl e \<Rightarrow> Inl e
          | Inr (dec, d1) \<Rightarrow>
              if \<exists>j\<in>set (order_items d1). it_id j = it_id i then
                let d2 = set_commit t oid i nextStatus dec actor now iid d1 in
                case find_order t oid d2 of
                  None \<Rightarrow> Inl RecordNotFound
                | Some r \<Rightarrow>
                    let summary = procurementSummaryFor (map it_status (items_of t oid d2)) (o_handed_off_at r \<noteq> None) in
                    if \<exists>o'\<in>set (orders d2). o_id o' = oid \<and> o_tenant o' = t
                    then Inr ((oid, summary), d2\<lparr>orders := update_where (\<lambda>r. o_id r = oid \<and> o_tenant r = t)
                           (\<lambda>r. r\<lparr>o_sort_procurement := summary\<rparr>) (orders d2)\<rparr>)
                    else Inl RecordNotFound
              else Inl RecordNotFound)"
  unfolding setItemStatus_def set_commit_def
  by (simp add: tx_run tx_bind_cases(1) Let_def cong: if_cong option.case_cong sum.case_cong)

lemma set_commit_tables [simp]:
  "products (set_commit t oid i st dec actor now iid d) = products d"
  "orders (set_commit t oid i st dec actor now iid d) = orders d"
  "reservations (set_commit t oid i st dec actor now iid d) = reservations d"
  "lifecycle_requests (set_commit t oid i st dec actor now iid d) = lifecycle_requests d"
  by (simp_all add: set_commit_def)

lemma find_itemD:
  assumes "find_item t oid iid d = Some i"
  shows "i \<in> set (order_items d)" and "it_id i = iid" and "it_order i = oid" and "it_tenant i = t"
  using assms find_some_set[of _ "order_items d" i] find_some_prop[of _ "order_items d" i]
  by (auto simp: find_item_def)

lemma setE:
  assumes "setItemStatus t oid iid nextStatus actor releasedAt now d = Inr ((oid', summary), d')"
  obtains i dec d1 r where "\<not> tenant_frozen t d" "find_item t oid iid d = Some i"
    "it_status i = nextStatus \<or> nextStatus \<in> set (allowedTransitions (it_status i))"
    "decide_manually t i nextStatus releasedAt d = Inr (dec, d1)"
    "find_order t oid d = Some r" "oid' = oid"
    "summary = procurementSummaryFor (map it_status (items_of t oid (set_commit t oid i nextStatus dec actor now iid d1)))
        (o_handed_off_at r \<noteq> None)"
    "d' = (set_commit t oid i nextStatus dec actor now iid d1)\<lparr>orders :=
        update_where (\<lambda>r. o_id r = oid \<and> o_tenant r = t) (\<lambda>r. r\<lparr>o_sort_procurement := summary\<rparr>) (orders d)\<rparr>"
proof -
  from assms obtain i where i: "\<not> tenant_frozen t d" "find_item t oid iid d = Some i"
    "it_status i = nextStatus \<or> nextStatus \<in> set (allowedTransitions (it_status i))"
    by (auto simp: set_unfold split: if_splits option.splits)
  from assms i obtain dec d1 where dec: "decide_manually t i nextStatus releasedAt d = Inr (dec, d1)"
    by (auto simp: set_unfold split: if_splits sum.splits)
  note frame = decide_manually_frame[OF dec]
  have find: "find_order t oid (set_commit t oid i nextStatus dec actor now iid d1) = find_order t oid d"
    by (simp add: find_order_def frame(2))
  from assms i dec obtain r where "find_order t oid d = Some r"
    by (auto simp: set_unfold find Let_def split: if_splits option.splits)
  then show ?thesis using assms i dec
    by (intro that[of i dec d1 r]) (auto simp: set_unfold find Let_def frame(2) split: if_splits)
qed

lemma write_decision_simps [simp]:
  "it_id (write_decision st dec now i) = it_id i" "it_tenant (write_decision st dec now i) = it_tenant i"
  "it_order (write_decision st dec now i) = it_order i" "it_catalog (write_decision st dec now i) = it_catalog i"
  "it_quantity (write_decision st dec now i) = it_quantity i" "it_status (write_decision st dec now i) = st"
  by (simp_all add: write_decision_def split: prod.splits)

lemma wf_set_commit [simp]: "wf_store (set_commit t oid i st dec actor now iid d) = wf_store d"
  by (simp add: set_commit_def wf_store_def map_update_where)

lemma others_set_commit:
  assumes "\<And>j. j \<in> set (order_items d) \<Longrightarrow> it_id j = it_id i \<Longrightarrow> it_tenant j = t"
  shows "others_unchanged t d (set_commit t oid i st dec actor now iid d)"
proof -
  have "others_unchanged t d (d\<lparr>order_items := update_where (\<lambda>j. it_id j = it_id i) (write_decision st dec now) (order_items d)\<rparr>)"
    by (rule others_update_items) (use assms in auto)
  from others_unchanged_trans[OF this others_audit] show ?thesis by (simp add: set_commit_def)
qed

lemma no_oversell_cong:
  "products d' = products d \<Longrightarrow> reservations d' = reservations d \<Longrightarrow> no_oversell d' = no_oversell d"
  by (simp add: no_oversell_def active_sum_def)

lemma set_ok:
  assumes "setItemStatus t oid iid nextStatus actor releasedAt now d = Inr (res, d')" and "wf_store d"
  shows "wf_store d'" and "others_unchanged t d d'" and "no_oversell d \<Longrightarrow> no_oversell d'"
proof -
  obtain oid' summary where res: "res = (oid', summary)" by (cases res)
  obtain i dec d1 where s: "find_item t oid iid d = Some i"
    "decide_manually t i nextStatus releasedAt d = Inr (dec, d1)"
    "d' = (set_commit t oid i nextStatus dec actor now iid d1)\<lparr>orders :=
        update_where (\<lambda>r. o_id r = oid \<and> o_tenant r = t) (\<lambda>r. r\<lparr>o_sort_procurement := summary\<rparr>) (orders d)\<rparr>"
    using assms(1) unfolding res by (rule setE)
  note dec = decide_manually_ok[OF s(2) assms(2)] and frame = decide_manually_frame[OF s(2)]
  define d2 where "d2 = set_commit t oid i nextStatus dec actor now iid d1"
  have d': "d' = d2\<lparr>orders := update_where (\<lambda>r. o_id r = oid \<and> o_tenant r = t) (\<lambda>r. r\<lparr>o_sort_procurement := summary\<rparr>) (orders d2)\<rparr>"
    by (simp add: s(3) d2_def frame(2))
  show "wf_store d'"
    unfolding d' using dec(1) by (subst wf_update_orders) (simp_all add: d2_def)
  have "it_tenant j = t" if "j \<in> set (order_items d1)" "it_id j = it_id i" for j
    using wf_item_unique[OF assms(2)] find_itemD[OF s(1)] that by (auto simp: frame(3))
  then have "others_unchanged t d1 d2" unfolding d2_def by (rule others_set_commit)
  moreover have "others_unchanged t d2 d'" unfolding d' by (rule others_update_orders) auto
  ultimately show "others_unchanged t d d'" using dec(2) others_unchanged_trans by blast
  show "no_oversell d'" if "no_oversell d"
    using dec(3)[OF that] no_oversell_cong[of d' d1] by (simp add: d' d2_def)
qed

subsection \<open>Hand-off\<close>

definition held :: "(uuid \<times> int) list \<Rightarrow> uuid \<Rightarrow> int" where
  "held m pid = (case map_of m pid of Some q \<Rightarrow> q | None \<Rightarrow> 0)"

lemma held_Nil [simp]: "held [] pid = 0"
  by (simp add: held_def)

lemma held_jsmap_set [simp]: "held (jsmap_set k v m) pid = (if pid = k then v else held m pid)"
  by (simp add: held_def)

lemma held_quantity_by_product:
  "held (quantity_by_product rs m) pid = held m pid + sum_where (\<lambda>r. rs_product r = pid) rs_quantity rs"
  by (induction rs m rule: quantity_by_product.induct) (auto simp: held_def)

lemma distinct_quantity_by_product:
  "distinct (map fst m) \<Longrightarrow> distinct (map fst (quantity_by_product rs m))"
  by (induction rs m rule: quantity_by_product.induct) (simp_all add: distinct_jsmap_set)

lemma keys_quantity_by_product: "fst ` set (quantity_by_product rs m) = rs_product ` set rs \<union> fst ` set m"
  by (induction rs m rule: quantity_by_product.induct) (auto simp: fst_set_jsmap_set)

text \<open>What a hand-off at \<open>now\<close> does to the products \<open>ks\<close>.\<close>

definition take_stock :: "uuid \<Rightarrow> instant \<Rightarrow> uuid set \<Rightarrow> (uuid \<Rightarrow> int) \<Rightarrow> product \<Rightarrow> product" where
  "take_stock t now ks q p = (if pr_tenant p = t \<and> pr_id p \<in> ks
     then p\<lparr>pr_stock := map_option (\<lambda>s. s - q (pr_id p)) (pr_stock p), pr_updated := now\<rparr> else p)"

lemma take_stock_simps [simp]:
  "pr_id (take_stock t now ks q p) = pr_id p" "pr_tenant (take_stock t now ks q p) = pr_tenant p"
  "pr_sku (take_stock t now ks q p) = pr_sku p"
  by (simp_all add: take_stock_def)

lemma decrement_all_effect:
  assumes "decrement_all t now m d = Inr ((), d')" and "distinct (map fst m)"
  shows "d' = d\<lparr>products := map (take_stock t now (fst ` set m) (held m)) (products d)\<rparr>"
  using assms
proof (induction t now m arbitrary: d rule: decrement_all.induct)
  case (1 t now)
  have "take_stock t now {} f = id" for f
    by (rule ext) (simp add: take_stock_def)
  then show ?case using 1 by (simp del: held_Nil)
next
  case (2 t now pid q m)
  define d1 where "d1 = d\<lparr>products := update_where (\<lambda>p. pr_tenant p = t \<and> pr_id p = pid)
            (\<lambda>p. p\<lparr>pr_stock := map_option (\<lambda>s. s - q) (pr_stock p), pr_updated := now\<rparr>) (products d)\<rparr>"
  have "decrement_all t now m d1 = Inr ((), d')"
    using 2(2) by (auto simp: tx_iff decrement_stock_def d1_def split: if_splits)
  then have d': "d' = d1\<lparr>products := map (take_stock t now (fst ` set m) (held m)) (products d1)\<rparr>"
    using 2(1,3) by simp
  have "map_of m pid = None" using 2(3) by (simp add: map_of_eq_None_iff)
  then have "pid \<notin> fst ` set m" by (simp add: map_of_eq_None_iff)
  then have step: "take_stock t now (fst ` set m) (held m) (if pr_tenant p = t \<and> pr_id p = pid
        then p\<lparr>pr_stock := map_option (\<lambda>s. s - q) (pr_stock p), pr_updated := now\<rparr> else p)
      = take_stock t now (fst ` set ((pid, q) # m)) (held ((pid, q) # m)) p" for p
    by (auto simp: take_stock_def held_def)
  have "products d' = map (take_stock t now (fst ` set ((pid, q) # m)) (held ((pid, q) # m))) (products d)"
    unfolding d' d1_def by (simp add: update_where_def step)
  then show ?case unfolding d' d1_def by simp
qed

definition handoff_commit :: "uuid \<Rightarrow> uuid \<Rightarrow> string \<Rightarrow> instant \<Rightarrow> reservation list \<Rightarrow> db \<Rightarrow> db" where
  "handoff_commit t oid actor now active d =
     d\<lparr>products := map (take_stock t now (rs_product ` set active)
         (\<lambda>pid. sum_where (\<lambda>r. rs_product r = pid) rs_quantity active)) (products d),
       reservations := update_where (\<lambda>r. rs_tenant r = t \<and> rs_id r \<in> rs_id ` set active \<and> rs_status r = ACTIVE)
          (\<lambda>r. r\<lparr>rs_status := CONSUMED, rs_consumed_at := Some now\<rparr>) (reservations d),
       orders := update_where (\<lambda>r. o_id r = oid \<and> o_tenant r = t)
          (\<lambda>r. r\<lparr>o_handed_off_at := Some now, o_handed_off_by := Some actor, o_sort_procurement := S_HANDED_OFF\<rparr>) (orders d),
       audit_logs := audit_logs d @ [\<lparr>au_tenant = t, au_order = oid, au_actor = actor,
          au_event = ORDER_HANDED_OFF (length active)\<rparr>]\<rparr>"

lemma handOff_unfold:
  "handOffOrder t oid actor now d =
     (if tenant_frozen t d then Inl (TenantLifecycleFrozen PROCUREMENT)
      else case find_order t oid d of
        None \<Rightarrow> Inl ProcurementItemNotFound
      | Some ord \<Rightarrow> (case o_handed_off_at ord of
          Some ts \<Rightarrow> Inr ((oid, S_HANDED_OFF, ts), d)
        | None \<Rightarrow>
            if procurementSummaryFor (map it_status (items_by_id t oid d)) False \<noteq> S_READY
            then Inl ProcurementOrderNotReady
            else let active = active_reservations t (items_by_id t oid d) d in
              case decrement_all t now (quantity_by_product active []) d of
                Inl e \<Rightarrow> Inl e
              | Inr (_, d1) \<Rightarrow>
                  if \<exists>o'\<in>set (orders d1). o_id o' = oid \<and> o_tenant o' = t
                  then Inr ((oid, S_HANDED_OFF, now),
                     d1\<lparr>reservations := update_where (\<lambda>r. rs_tenant r = t \<and> rs_id r \<in> rs_id ` set active \<and> rs_status r = ACTIVE)
                          (\<lambda>r. r\<lparr>rs_status := CONSUMED, rs_consumed_at := Some now\<rparr>) (reservations d1),
                        orders := update_where (\<lambda>r. o_id r = oid \<and> o_tenant r = t)
                          (\<lambda>r. r\<lparr>o_handed_off_at := Some now, o_handed_off_by := Some actor, o_sort_procurement := S_HANDED_OFF\<rparr>) (orders d1),
                        audit_logs := audit_logs d1 @ [\<lparr>au_tenant = t, au_order = oid, au_actor = actor,
                          au_event = ORDER_HANDED_OFF (length active)\<rparr>]\<rparr>)
                  else Inl RecordNotFound))"
  unfolding handOffOrder_def consume_reservations_def
  by (simp add: tx_run tx_bind_cases(2)[where m' = "decrement_all _ _ _"] Let_def cong: if_cong option.case_cong sum.case_cong)

lemma handOffE:
  assumes "handOffOrder t oid actor now d = Inr (res, d')"
  obtains (again) ord ts where "\<not> tenant_frozen t d" "find_order t oid d = Some ord" "o_handed_off_at ord = Some ts"
      "res = (oid, S_HANDED_OFF, ts)" "d' = d"
    | (first) ord where "\<not> tenant_frozen t d" "find_order t oid d = Some ord" "o_handed_off_at ord = None"
      "procurementSummaryFor (map it_status (items_by_id t oid d)) False = S_READY"
      "res = (oid, S_HANDED_OFF, now)"
      "d' = handoff_commit t oid actor now (active_reservations t (items_by_id t oid d) d) d"
proof -
  from assms obtain ord where ord: "\<not> tenant_frozen t d" "find_order t oid d = Some ord"
    by (auto simp: handOff_unfold split: if_splits option.splits)
  show ?thesis
  proof (cases "o_handed_off_at ord")
    case (Some ts)
    then show ?thesis using assms ord by (intro again[of ord ts]) (auto simp: handOff_unfold)
  next
    case None
    let ?active = "active_reservations t (items_by_id t oid d) d"
    have sum: "procurementSummaryFor (map it_status (items_by_id t oid d)) False = S_READY"
      using assms ord None by (auto simp: handOff_unfold split: if_splits)
    obtain d1 where d1: "decrement_all t now (quantity_by_product ?active []) d = Inr ((), d1)"
      using assms ord None sum by (auto simp: handOff_unfold Let_def split: sum.splits)
    have "d1 = d\<lparr>products := map (take_stock t now (rs_product ` set ?active) (held (quantity_by_product ?active []))) (products d)\<rparr>"
      using decrement_all_effect[OF d1] by (simp add: distinct_quantity_by_product keys_quantity_by_product)
    moreover have "held (quantity_by_product ?active []) = (\<lambda>pid. sum_where (\<lambda>r. rs_product r = pid) rs_quantity ?active)"
      by (simp add: fun_eq_iff held_quantity_by_product)
    ultimately show ?thesis using assms ord None sum d1
      by (intro first[of ord]) (auto simp: handOff_unfold handoff_commit_def Let_def split: if_splits)
  qed
qed

text \<open>The reservations of the order's items, as a selection of rows.\<close>

lemma sum_where_distinct: "distinct xs \<Longrightarrow> sum_where P q xs = sum q {x \<in> set xs. P x}"
proof (induction xs)
  case (Cons a xs)
  have "{x \<in> set (a # xs). P x} = (if P a then insert a {x \<in> set xs. P x} else {x \<in> set xs. P x})" by auto
  then show ?case using Cons by simp
qed simp

lemma set_map_filter: "set (List.map_filter f xs) = {y. \<exists>x\<in>set xs. f x = Some y}"
  by (induction xs) (auto simp: map_filter_simps split: option.splits)

lemma active_reservations_set:
  assumes "wf_store d"
  shows "set (active_reservations t items d) = {r \<in> set (reservations d). active_of_items t (map it_id items) r}"
proof (intro set_eqI iffI)
  fix r assume "r \<in> set (active_reservations t items d)"
  then obtain i where i: "i \<in> set items" "reservation_of t (it_id i) d = Some r" "rs_status r = ACTIVE"
    by (auto simp: active_reservations_def set_map_filter split: option.splits if_splits)
  moreover have "r \<in> set (reservations d)" "rs_tenant r = t" "rs_item r = it_id i"
    using i(2) find_some_set[of _ "reservations d" r] find_some_prop[of _ "reservations d" r]
    by (auto simp: reservation_of_def)
  ultimately show "r \<in> {r \<in> set (reservations d). active_of_items t (map it_id items) r}"
    by (auto simp: active_of_items_def)
next
  fix r assume "r \<in> {r \<in> set (reservations d). active_of_items t (map it_id items) r}"
  then obtain i where r: "r \<in> set (reservations d)" "rs_tenant r = t" "rs_status r = ACTIVE"
    "i \<in> set items" "rs_item r = it_id i"
    by (auto simp: active_of_items_def)
  have "reservation_of t (it_id i) d = Some r"
    unfolding reservation_of_def using assms r
    by (intro find_distinct_key[where k = "\<lambda>r. (rs_tenant r, rs_item r)"]) (auto simp: wf_store_def)
  then show "r \<in> set (active_reservations t items d)"
    using r by (force simp: active_reservations_def set_map_filter)
qed

lemma active_reservations_items:
  "map rs_item (active_reservations t items d) = map it_id (filter (\<lambda>i. \<exists>r. reservation_of t (it_id i) d = Some r \<and> rs_status r = ACTIVE) items)"
proof (induction items)
  case (Cons i items)
  have "rs_item r = it_id i" if "reservation_of t (it_id i) d = Some r" for r
    using that find_some_prop[of _ "reservations d" r] by (auto simp: reservation_of_def)
  then show ?case using Cons
    by (auto simp: active_reservations_def map_filter_simps split: option.splits if_splits)
qed (simp add: active_reservations_def map_filter_simps)

lemma active_reservations_distinct:
  assumes "distinct (map it_id items)"
  shows "distinct (active_reservations t items d)"
proof -
  have "distinct (map rs_item (active_reservations t items d))"
    unfolding active_reservations_items using assms by (rule distinct_map_filter)
  then show ?thesis by (simp add: distinct_map)
qed

text \<open>What the order holds of a product.\<close>

definition order_holds :: "uuid \<Rightarrow> uuid \<Rightarrow> uuid \<Rightarrow> db \<Rightarrow> int" where
  "order_holds t oid pid d = sum_where
     (\<lambda>r. active_of_items t (map it_id (items_of t oid d)) r \<and> rs_product r = pid) rs_quantity (reservations d)"

lemma active_of_items_by_id: "active_of_items t (map it_id (items_by_id t oid d)) = active_of_items t (map it_id (items_of t oid d))"
  by (simp add: active_of_items_def fun_eq_iff)

lemma active_reservations_sum:
  assumes "wf_store d"
  shows "sum_where (\<lambda>r. rs_product r = pid) rs_quantity (active_reservations t (items_by_id t oid d) d) = order_holds t oid pid d"
proof -
  have dist: "distinct (reservations d)" using assms by (auto simp: wf_store_def distinct_map)
  have "sum_where (\<lambda>r. rs_product r = pid) rs_quantity (active_reservations t (items_by_id t oid d) d)
      = sum rs_quantity {r \<in> set (active_reservations t (items_by_id t oid d) d). rs_product r = pid}"
    by (rule sum_where_distinct) (rule active_reservations_distinct[OF distinct_items_by_id[OF assms]])
  also have "\<dots> = order_holds t oid pid d"
    unfolding order_holds_def sum_where_distinct[OF dist] active_reservations_set[OF assms] active_of_items_by_id
    by (rule arg_cong[where f = "sum rs_quantity"]) auto
  finally show ?thesis .
qed

lemma consumed_rows:
  assumes "wf_store d" and "r \<in> set (reservations d)"
  shows "(rs_tenant r = t \<and> rs_id r \<in> rs_id ` set (active_reservations t items d) \<and> rs_status r = ACTIVE)
     \<longleftrightarrow> active_of_items t (map it_id items) r"
  unfolding active_reservations_set[OF assms(1)]
proof (intro iffI)
  assume *: "rs_tenant r = t \<and> rs_id r \<in> rs_id ` {r \<in> set (reservations d). active_of_items t (map it_id items) r} \<and> rs_status r = ACTIVE"
  then obtain q where q: "q \<in> set (reservations d)" "active_of_items t (map it_id items) q" "rs_id q = rs_id r" by auto
  then have "q = r" using assms by (simp add: wf_store_def distinct_map inj_on_def)
  then show "active_of_items t (map it_id items) r" using q by simp
qed (use assms(2) in \<open>simp add: active_of_items_def\<close>)

lemma update_where_cong:
  "(\<And>r. r \<in> set rows \<Longrightarrow> P r = P' r) \<Longrightarrow> update_where P f rows = update_where P' f rows"
  by (simp add: update_where_def)

lemma handoff_reservations:
  assumes "wf_store d"
  shows "reservations (handoff_commit t oid actor now (active_reservations t (items_by_id t oid d) d) d) =
    update_where (active_of_items t (map it_id (items_of t oid d)))
      (\<lambda>r. r\<lparr>rs_status := CONSUMED, rs_consumed_at := Some now\<rparr>) (reservations d)"
  using consumed_rows[OF assms] by (simp add: handoff_commit_def active_of_items_by_id cong: update_where_cong)

lemma sum_where_pos_iff:
  assumes "\<forall>r\<in>set rows. 0 < q r"
  shows "0 < sum_where P q rows \<longleftrightarrow> (\<exists>r\<in>set rows. P r)"
  using assms
proof (induction rows)
  case (Cons r rows)
  have "0 \<le> sum_where P q rows" unfolding sum_where_def using Cons.prems by (intro sum_list_nonneg) auto
  then show ?case using Cons by auto
qed simp

lemma handoff_products:
  assumes "wf_store d"
  shows "products (handoff_commit t oid actor now (active_reservations t (items_by_id t oid d) d) d) =
    map (take_stock t now {pid. 0 < order_holds t oid pid d} (\<lambda>pid. order_holds t oid pid d)) (products d)"
proof -
  have "rs_product ` set (active_reservations t (items_by_id t oid d) d) = {pid. 0 < order_holds t oid pid d}"
    unfolding active_reservations_set[OF assms] active_of_items_by_id order_holds_def
    by (rule set_eqI) (auto simp: sum_where_pos_iff assms[unfolded wf_store_def])
  then show ?thesis using active_reservations_sum[OF assms] by (simp add: handoff_commit_def)
qed

lemma handoff_active_sum:
  assumes "wf_store d"
  shows "active_sum t' p (handoff_commit t oid actor now (active_reservations t (items_by_id t oid d) d) d) =
     active_sum t' p d - (if t' = t then order_holds t oid p d else 0)"
proof -
  let ?A = "active_of_items t (map it_id (items_of t oid d))"
  let ?Q = "\<lambda>r. rs_tenant r = t' \<and> rs_product r = p \<and> rs_status r = ACTIVE"
  let ?f = "\<lambda>r. r\<lparr>rs_status := CONSUMED, rs_consumed_at := Some now\<rparr>"
  have "active_sum t' p (handoff_commit t oid actor now (active_reservations t (items_by_id t oid d) d) d) =
      sum_where (\<lambda>r. ?Q r \<and> \<not> ?A r) rs_quantity (reservations d)"
    unfolding active_sum_def handoff_reservations[OF assms] by (rule sum_where_update_off) auto
  moreover have "active_sum t' p d = sum_where (\<lambda>r. ?Q r \<and> ?A r) rs_quantity (reservations d)
      + sum_where (\<lambda>r. ?Q r \<and> \<not> ?A r) rs_quantity (reservations d)"
    unfolding active_sum_def by (rule sum_where_split)
  moreover have "sum_where (\<lambda>r. ?Q r \<and> ?A r) rs_quantity (reservations d) = (if t' = t then order_holds t oid p d else 0)"
  proof (cases "t' = t")
    case True
    then show ?thesis unfolding order_holds_def by (auto simp: active_of_items_def intro!: sum_where_cong)
  next
    case False
    then show ?thesis by (auto simp: active_of_items_def intro!: sum_where_zero)
  qed
  ultimately show ?thesis by simp
qed

lemma order_holds_bounds:
  assumes "wf_store d"
  shows "0 \<le> order_holds t oid p d" and "order_holds t oid p d \<le> active_sum t p d"
proof -
  show "0 \<le> order_holds t oid p d"
    unfolding order_holds_def using assms by (intro sum_where_nonneg) (auto simp: wf_store_def intro: less_imp_le)
  show "order_holds t oid p d \<le> active_sum t p d"
    unfolding order_holds_def active_sum_def using assms
    by (intro sum_where_mono) (auto simp: wf_store_def active_of_items_def intro: less_imp_le)
qed

lemma handOff_ok:
  assumes "handOffOrder t oid actor now d = Inr (res, d')" and "wf_store d"
  shows "wf_store d'" and "others_unchanged t d d'" and "no_oversell d \<Longrightarrow> no_oversell d'"
proof -
  let ?c = "handoff_commit t oid actor now (active_reservations t (items_by_id t oid d) d) d"
  have d': "d' = d \<or> d' = ?c" using assms(1) by (cases rule: handOffE) auto
  have wf: "wf_store ?c"
    using assms(2) unfolding wf_store_def handoff_reservations[OF assms(2)] handoff_products[OF assms(2)]
    by (auto simp: handoff_commit_def map_update_where comp_def set_update_where)
  then show "wf_store d'" using d' assms(2) by blast
  have "filter (\<lambda>r. rs_tenant r = t') (reservations ?c) = filter (\<lambda>r. rs_tenant r = t') (reservations d)"
    if "t' \<noteq> t" for t'
    using that by (simp add: handoff_commit_def, intro filter_update_where_other) auto
  moreover have "filter (\<lambda>r. o_tenant r = t') (orders ?c) = filter (\<lambda>r. o_tenant r = t') (orders d)"
    if "t' \<noteq> t" for t'
    using that by (simp add: handoff_commit_def, intro filter_update_where_other) auto
  moreover have "filter (\<lambda>p. pr_tenant p = t') (map (take_stock t now ks q) ps) = filter (\<lambda>p. pr_tenant p = t') ps"
    if "t' \<noteq> t" for t' ks ps q
    using that by (induction ps) (auto simp: take_stock_def)
  ultimately have "others_unchanged t d ?c"
    by (simp add: others_unchanged_def tenant_slice_def) (simp add: handoff_commit_def)
  then show "others_unchanged t d d'" using d' by auto
  show "no_oversell d'" if no: "no_oversell d"
  proof -
    have "no_oversell ?c"
      unfolding no_oversell_def
    proof (intro ballI allI impI)
      fix q s assume "q \<in> set (products ?c)" "pr_stock q = Some s"
      then obtain p where p: "p \<in> set (products d)" "q = take_stock t now {pid. 0 < order_holds t oid pid d} (\<lambda>pid. order_holds t oid pid d) p"
        by (auto simp: handoff_products[OF assms(2)])
      show "active_sum (pr_tenant q) (pr_id q) ?c \<le> max 0 s"
        using no p \<open>pr_stock q = Some s\<close> order_holds_bounds[OF assms(2), of t oid "pr_id p"]
          active_sum_nonneg[OF assms(2), of t "pr_id p"]
        by (fastforce simp: handoff_active_sum[OF assms(2)] no_oversell_def take_stock_def split: if_splits)
    qed
    then show ?thesis using d' no by auto
  qed
qed

subsection \<open>The commands as tenant commands\<close>

lemma run_procurement_frozen: "tenant_frozen t d \<Longrightarrow> run_procurement t c d = Inl (TenantLifecycleFrozen PROCUREMENT)"
  by (cases c) (simp_all add: tx_bind_def assess_unfold release_unfold set_unfold handOff_unfold)

lemma run_procurement_ok:
  assumes "run_procurement t c d = Inr (u, d')" and "wf_store d"
  shows "wf_store d'" and "others_unchanged t d d'" and "no_oversell d \<Longrightarrow> no_oversell d'"
proof -
  have "wf_store d' \<and> others_unchanged t d d' \<and> (no_oversell d \<longrightarrow> no_oversell d')"
  proof (cases c)
    case (AssessOrder oid actor releasedAt now)
    then obtain a where "assessApprovedOrder t oid actor releasedAt now d = Inr (a, d')" using assms(1) by (auto simp: tx_iff)
    from assess_ok[OF this assms(2)] show ?thesis by blast
  next
    case (ReleaseReservations oid actor now)
    then have "releaseOrderReservations t oid actor now d = Inr (u, d')" using assms(1) by simp
    from release_ok[OF this assms(2)] show ?thesis by blast
  next
    case (SetItemStatus oid iid status actor releasedAt now)
    then obtain a where "setItemStatus t oid iid status actor releasedAt now d = Inr (a, d')" using assms(1) by (auto simp: tx_iff)
    from set_ok[OF this assms(2)] show ?thesis by blast
  next
    case (HandOffOrder oid actor now)
    then obtain a where "handOffOrder t oid actor now d = Inr (a, d')" using assms(1) by (auto simp: tx_iff)
    from handOff_ok[OF this assms(2)] show ?thesis by blast
  qed
  then show "wf_store d'" and "others_unchanged t d d'" and "no_oversell d \<Longrightarrow> no_oversell d'" by auto
qed

interpretation proc: tenant_commands run_procurement wf_store
  by unfold_locales (auto dest: run_procurement_frozen run_procurement_ok)

interpretation proc_stock: tenant_commands run_procurement "\<lambda>d. wf_store d \<and> no_oversell d"
  by unfold_locales (auto dest: run_procurement_frozen run_procurement_ok)

lemma exec_procurement_eq: "exec_procurement = proc.exec"
  by (simp add: fun_eq_iff exec_procurement_def proc.exec_def)

lemma exec_procurement_eq_stock: "exec_procurement = proc_stock.exec"
  by (simp add: fun_eq_iff exec_procurement_def proc_stock.exec_def)

interpretation item_status: status_machine allowedTransitions "\<lambda>s. s = SENDING \<or> s = RECEIVED"
  by unfold_locales auto

subsection \<open>Order items after an assessment\<close>

lemma insort_key_map:
  "(\<And>x. k (g x) = k x) \<Longrightarrow> insort_key k (g x) (map g xs) = map g (insort_key k x xs)"
  by (induction xs) auto

lemma sort_key_map:
  assumes "\<And>x. k (g x) = k x"
  shows "sort_key k (map g xs) = map g (sort_key k xs)"
  using assms by (induction xs) (simp_all add: insort_key_map)

lemma items_by_id_map:
  assumes "order_items d' = map g (order_items d)" and "\<And>j. it_id (g j) = it_id j"
    and "\<And>j. it_tenant (g j) = it_tenant j" and "\<And>j. it_order (g j) = it_order j"
  shows "items_by_id t oid d' = map g (items_by_id t oid d)"
  using assms by (simp add: items_by_id_def items_of_def filter_map comp_def sort_key_map)

lemma map_of_zip_keys:
  assumes "distinct (map k xs)" and "map f ys = map k xs" and "n < length xs"
  shows "map_of (map (\<lambda>y. (f y, y)) ys) (k (xs ! n)) = Some (ys ! n)"
proof -
  have len: "length ys = length xs" using assms(2) by (metis length_map)
  have "f (ys ! n) = k (xs ! n)" using assms(2,3) len by (metis nth_map)
  moreover have "distinct (map fst (map (\<lambda>y. (f y, y)) ys))" using assms(1,2) by (simp add: comp_def)
  moreover have "(f (ys ! n), ys ! n) \<in> set (map (\<lambda>y. (f y, y)) ys)" using assms(3) len by auto
  ultimately show ?thesis by (metis map_of_is_SomeI)
qed

definition assessed_row :: "instant \<Rightarrow> assessed_item list \<Rightarrow> order_item \<Rightarrow> order_item" where
  "assessed_row now as j = (case map_of (map (\<lambda>a. (as_id a, a)) as) (it_id j) of
        Some a \<Rightarrow> write_assessment now a j | None \<Rightarrow> j)"

lemma assessed_row_simps [simp]:
  "it_id (assessed_row now as j) = it_id j" "it_tenant (assessed_row now as j) = it_tenant j"
  "it_order (assessed_row now as j) = it_order j" "it_catalog (assessed_row now as j) = it_catalog j"
  "it_quantity (assessed_row now as j) = it_quantity j"
  by (simp_all add: assessed_row_def split: option.splits)

lemma assess_items_by_id:
  assumes "assessApprovedOrder t oid actor releasedAt now d = Inr (am, d')" and "wf_store d"
  shows "items_by_id t oid d' = map (assessed_row now (am_items am)) (items_by_id t oid d)"
    and "map it_status (items_by_id t oid d') = map as_status (am_items am)"
    and "map as_id (am_items am) = map it_id (items_by_id t oid d)"
proof -
  obtain d2 where s:
    "assess_items t now (locked_products t (order_skus (items_by_id t oid d)) d) (items_by_id t oid d)
       (\<lambda>pid. active_sum t pid (after_release t (map it_id (items_by_id t oid d)) releasedAt d))
       (after_release t (map it_id (items_by_id t oid d)) releasedAt d) = Inr (am_items am, d2)"
    "d' = assess_commit t oid actor (am_items am) d2"
    using assms(1) by (rule assessE)
  note dist = distinct_items_by_id[OF assms(2), of t oid]
  have "order_items d' = map (assessed_row now (am_items am)) (order_items d)"
    using assess_items_items[OF s(1) dist] by (simp add: s(2) assessed_row_def fun_eq_iff)
  then show items: "items_by_id t oid d' = map (assessed_row now (am_items am)) (items_by_id t oid d)"
    by (rule items_by_id_map) simp_all
  show ids: "map as_id (am_items am) = map it_id (items_by_id t oid d)"
    using assess_items_result[OF s(1)] by simp
  then have len: "length (am_items am) = length (items_by_id t oid d)" by (metis length_map)
  show "map it_status (items_by_id t oid d') = map as_status (am_items am)"
    unfolding items by (rule nth_equalityI)
      (simp_all add: len assessed_row_def map_of_zip_keys[OF dist ids])
qed

lemma find_update_where:
  assumes "List.find P rows = Some r" and "\<And>x. P (f x) = P x"
  shows "List.find P (update_where P f rows) = Some (f r)"
  using assms by (induction rows) (auto split: if_splits)

lemma assess_find_order:
  assumes "assessApprovedOrder t oid actor releasedAt now d = Inr (am, d')" and "find_order t oid d = Some ord"
  shows "find_order t oid d' = Some (ord\<lparr>o_sort_procurement := am_summary am\<rparr>)"
proof -
  obtain d2 where s: "assess_items t now (locked_products t (order_skus (items_by_id t oid d)) d) (items_by_id t oid d)
       (\<lambda>pid. active_sum t pid (after_release t (map it_id (items_by_id t oid d)) releasedAt d))
       (after_release t (map it_id (items_by_id t oid d)) releasedAt d) = Inr (am_items am, d2)"
    "am_summary am = procurementSummaryFor (map as_status (am_items am)) False"
    "d' = assess_commit t oid actor (am_items am) d2"
    using assms(1) by (rule assessE)
  have "orders d2 = orders d" using arg_cong[OF assess_items_frame[OF s(1)], of orders] by simp
  then show ?thesis using assms(2) s(2,3)
    by (simp add: find_order_def assess_commit_def Let_def find_update_where)
qed

subsection \<open>Assessing again\<close>

lemma decide_all_cong:
  assumes "map (\<lambda>i. (it_id i, item_sku i, it_quantity i)) is = map (\<lambda>i. (it_id i, item_sku i, it_quantity i)) js"
  shows "decide_all ps reserved is = decide_all ps reserved js"
  using assms
proof (induction "is" arbitrary: js reserved)
  case (Cons i "is")
  then obtain j js' where js: "js = j # js'" "it_id i = it_id j" "item_sku i = item_sku j" "it_quantity i = it_quantity j"
    "map (\<lambda>i. (it_id i, item_sku i, it_quantity i)) is = map (\<lambda>i. (it_id i, item_sku i, it_quantity i)) js'"
    by (cases js) auto
  have pf: "product_for ps i = product_for ps j" by (simp add: product_for_def js(3))
  have "decide ps reserved i = decide ps reserved j"
      "count_decided ps i (decide ps reserved i) reserved = count_decided ps j (decide ps reserved j) reserved"
    unfolding decide_def count_decided_def pf js(2,4) by (rule refl)+
  then show ?case using Cons.IH[OF js(5)] js(1) by (simp add: Let_def)
qed simp

lemma assess_items_quantities:
  "assess_items t now ps is reserved d = Inr (as, d') \<Longrightarrow>
     list_all2 (\<lambda>i a. as_status a = IN_STOCK \<longrightarrow> 0 < it_quantity i) is as"
proof (induction t now ps "is" reserved arbitrary: d as d' rule: assess_items.induct)
  case (2 t now ps i "is" reserved)
  let ?a = "decide ps reserved i"
  obtain d1 as' where s: "reserve_decided t ps i ?a d = Inr ((), d1)"
    "assess_items t now ps is (count_decided ps i ?a reserved)
          (d1\<lparr>order_items := update_where (\<lambda>j. it_id j = it_id i) (write_assessment now ?a) (order_items d1)\<rparr>) = Inr (as', d')"
    "as = ?a # as'"
    using 2(2) by (auto simp: assess_items_Cons simp del: assess_items.simps(2))
  have "as_status ?a = IN_STOCK \<longrightarrow> 0 < it_quantity i"
    using s(1) by (cases rule: reserve_decided_cases) auto
  then show ?case using 2(1)[OF refl s(2)] s(3) by simp
qed simp

lemma assess_items_succeeds:
  assumes "list_all2 (\<lambda>i a. as_status a = IN_STOCK \<longrightarrow> 0 < it_quantity i) is (decide_all ps reserved is)"
    and "\<And>i. i \<in> set is \<Longrightarrow> \<exists>j\<in>set (order_items d). it_id j = it_id i"
  shows "\<exists>d'. assess_items t now ps is reserved d = Inr (decide_all ps reserved is, d')"
  using assms
proof (induction "is" arbitrary: reserved d)
  case (Cons i "is")
  let ?a = "decide ps reserved i"
  have q: "as_status ?a = IN_STOCK \<longrightarrow> 0 < it_quantity i"
    and rest: "list_all2 (\<lambda>i a. as_status a = IN_STOCK \<longrightarrow> 0 < it_quantity i) is (decide_all ps (count_decided ps i ?a reserved) is)"
    using Cons.prems(1) by (simp_all add: Let_def)
  have "\<exists>d1. reserve_decided t ps i ?a d = Inr ((), d1)"
    using q by (auto simp: reserve_decided_def upsert_reservation_def split: option.splits)
  then obtain d1 where d1: "reserve_decided t ps i ?a d = Inr ((), d1)" ..
  let ?d = "d1\<lparr>order_items := update_where (\<lambda>j. it_id j = it_id i) (write_assessment now ?a) (order_items d1)\<rparr>"
  have items: "order_items d1 = order_items d"
    using arg_cong[OF reserve_decided_frame[OF d1], of order_items] by simp
  have ids: "it_id ` set (order_items ?d) = it_id ` set (order_items d)"
  proof -
    have "map it_id (order_items ?d) = map it_id (order_items d)" by (simp add: items map_update_where)
    then show ?thesis by (metis set_map)
  qed
  have "\<exists>d'. assess_items t now ps is (count_decided ps i ?a reserved) ?d = Inr (decide_all ps (count_decided ps i ?a reserved) is, d')"
  proof (rule Cons.IH[OF rest])
    fix k assume "k \<in> set is"
    then obtain j where "j \<in> set (order_items d)" "it_id j = it_id k" using Cons.prems(2)[of k] by auto
    then have "it_id k \<in> it_id ` set (order_items d)" by (metis imageI)
    then show "\<exists>j\<in>set (order_items ?d). it_id j = it_id k" unfolding ids[symmetric] by force
  qed
  then obtain d' where "assess_items t now ps is (count_decided ps i ?a reserved) ?d = Inr (decide_all ps (count_decided ps i ?a reserved) is, d')" ..
  moreover have "\<exists>j\<in>set (order_items d1). it_id j = it_id i"
    using Cons.prems(2)[of i] items by simp
  ultimately have "assess_items t now ps (i # is) reserved d = Inr (decide_all ps reserved (i # is), d')"
    unfolding assess_items_Cons using d1 by (intro exI[of _ d1] exI) (simp add: Let_def)
  then show ?case by blast
qed simp


lemma map_filter_conv: "List.map_filter f xs = List.map_filter id (map f xs)"
  by (induction xs) (simp_all add: map_filter_simps split: option.split)

lemma assess_again:
  assumes "assessApprovedOrder t oid actor r1 n1 d = Inr (am, d')" and "wf_store d"
  shows "\<exists>d''. assessApprovedOrder t oid actor' r2 n2 d' = Inr (am, d'')"
proof -
  let ?items = "items_by_id t oid d" and ?items' = "items_by_id t oid d'"
  let ?ids = "map it_id ?items" and ?ps = "locked_products t (order_skus ?items) d"
  let ?d1 = "after_release t ?ids r1 d" and ?d1' = "after_release t ?ids r2 d'"
  obtain ord d2 where s: "\<not> tenant_frozen t d" "find_order t oid d = Some ord"
    "o_status ord = APPROVED \<or> o_status ord = AUTO_APPROVED"
    "assess_items t n1 ?ps ?items (\<lambda>pid. active_sum t pid ?d1) ?d1 = Inr (am_items am, d2)"
    "am_order am = oid" "am_summary am = procurementSummaryFor (map as_status (am_items am)) False"
    "d' = assess_commit t oid actor (am_items am) d2"
    using assms(1) by (rule assessE)
  note frame = assess_items_frame[OF s(4)] and loop = assess_loop[OF assms(2) s(4)]
  have same: "products d' = products d" "lifecycle_requests d' = lifecycle_requests d" "reservations d' = reservations d2"
    using arg_cong[OF frame, of products] arg_cong[OF frame, of lifecycle_requests] by (simp_all add: s(7))
  have items': "?items' = map (assessed_row n1 (am_items am)) ?items"
    by (rule assess_items_by_id(1)[OF assms])
  have keys: "map (\<lambda>i. (it_id i, item_sku i, it_quantity i)) ?items' = map (\<lambda>i. (it_id i, item_sku i, it_quantity i)) ?items"
    by (simp add: items' item_sku_def)
  have ids': "map it_id ?items' = ?ids" by (simp add: items')
  have "map item_sku ?items' = map item_sku ?items" using arg_cong[OF keys, of "map (fst \<circ> snd)"] by (simp add: comp_def)
  then have "order_skus ?items' = order_skus ?items"
    by (simp add: order_skus_def map_filter_conv[of item_sku])
  then have ps': "locked_products t (order_skus ?items') d' = ?ps" by (simp add: locked_products_def same)
  have sums: "active_sum t p ?d1' = active_sum t p ?d1" for p
    using loop(3) by (simp add: after_release_sum other_rows_def same(3))
  have as: "am_items am = decide_all ?ps (\<lambda>pid. active_sum t pid ?d1) ?items"
    by (rule assess_items_result[OF s(4)])
  have "list_all2 (\<lambda>i a. as_status a = IN_STOCK \<longrightarrow> 0 < it_quantity i) ?items' (am_items am)"
    using assess_items_quantities[OF s(4)] by (simp add: items' list_all2_conv_all_nth)
  moreover have as': "am_items am = decide_all ?ps (\<lambda>pid. active_sum t pid ?d1') ?items'"
    unfolding as sums by (rule decide_all_cong[symmetric]) (rule keys)
  ultimately obtain d3 where run: "assess_items t n2 ?ps ?items' (\<lambda>pid. active_sum t pid ?d1') ?d1' = Inr (am_items am, d3)"
    using assess_items_succeeds[of ?items' ?ps "\<lambda>pid. active_sum t pid ?d1'" ?d1' t n2] by (auto simp: items_of_iff)
  have "orders d3 = orders d'" using arg_cong[OF assess_items_frame[OF run], of orders] by simp
  moreover note found = assess_find_order[OF assms(1) s(2)]
  moreover have "\<not> tenant_frozen t d'" using s(1) by (simp add: tenant_frozen_def same)
  moreover have "\<exists>o'\<in>set (orders d'). o_id o' = oid \<and> o_tenant o' = t"
    using find_orderD[OF found] by blast
  ultimately have "assessApprovedOrder t oid actor' r2 n2 d' = Inr (\<lparr>am_order = oid,
      am_summary = procurementSummaryFor (map as_status (am_items am)) False, am_items = am_items am\<rparr>,
      assess_commit t oid actor' (am_items am) d3)"
    using s(3) run by (simp add: assess_unfold Let_def ps' ids' found)
  moreover have "\<lparr>am_order = oid, am_summary = procurementSummaryFor (map as_status (am_items am)) False, am_items = am_items am\<rparr> = am"
    using s(5,6) by (cases am) simp
  ultimately show ?thesis by metis
qed

subsection \<open>Rows after a manual status and after a hand-off\<close>

lemma filter_length_iff: "length (filter P xs) = length xs \<longleftrightarrow> (\<forall>x\<in>set xs. P x)"
  by (metis filter_True filter_id_conv length_filter_less less_irrefl)

lemma filter_pos_iff: "0 < length (filter P xs) \<longleftrightarrow> (\<exists>x\<in>set xs. P x)"
  by (simp add: filter_empty_conv)

lemma summary_nil: "procurementSummaryFor [] False = S_UNASSESSED"
  by (simp add: procurementSummaryFor_def)

lemma summary_handed_off: "procurementSummaryFor ss True = S_HANDED_OFF"
  by (simp add: procurementSummaryFor_def)

lemma summary_cases_nonempty:
  assumes "ss \<noteq> []"
  shows "procurementSummaryFor ss False =
    (if UNASSESSED \<in> set ss then S_UNASSESSED else if UNAVAILABLE \<in> set ss then S_BLOCKED
     else if SENDING \<in> set ss then S_SENDING else if set ss \<subseteq> {IN_STOCK, RECEIVED} then S_READY
     else if set ss \<subseteq> {TO_ORDER} then S_NEEDS_ORDER
     else if set ss \<subseteq> {ORDERED, SUPPLIER_CONFIRMED} then S_AWAITING_SUPPLIER else S_PARTIALLY_READY)"
proof -
  have other: "x \<in> {IN_STOCK, RECEIVED, TO_ORDER, ORDERED, SUPPLIER_CONFIRMED}"
    if "x \<notin> {UNASSESSED, UNAVAILABLE, SENDING}" for x
    using that by (cases x) auto
  show ?thesis
  proof (cases "{UNASSESSED, UNAVAILABLE, SENDING} \<inter> set ss = {}")
    case True
    then have sub: "set ss \<subseteq> {IN_STOCK, RECEIVED, TO_ORDER, ORDERED, SUPPLIER_CONFIRMED}" using other by blast
    let ?ready = "\<exists>x\<in>set ss. x = IN_STOCK \<or> x = RECEIVED"
    have mixed: "?ready \<Longrightarrow> \<not> set ss \<subseteq> {TO_ORDER} \<and> \<not> set ss \<subseteq> {ORDERED, SUPPLIER_CONFIRMED}" by auto
    have waits: "\<not> ?ready \<Longrightarrow> \<not> (\<exists>x\<in>set ss. x = TO_ORDER) \<Longrightarrow> set ss \<subseteq> {ORDERED, SUPPLIER_CONFIRMED}"
      using sub by blast
    have all: "(\<forall>x\<in>set ss. x = IN_STOCK \<or> x = RECEIVED) \<longleftrightarrow> set ss \<subseteq> {IN_STOCK, RECEIVED}"
      "(\<forall>x\<in>set ss. x = TO_ORDER) \<longleftrightarrow> set ss \<subseteq> {TO_ORDER}"
      "(\<forall>x\<in>set ss. x = ORDERED \<or> x = SUPPLIER_CONFIRMED) \<longleftrightarrow> set ss \<subseteq> {ORDERED, SUPPLIER_CONFIRMED}"
      by blast+
    have none: "length (filter P xs) = 0 \<longleftrightarrow> \<not> (\<exists>x\<in>set xs. P x)" for P and xs :: "procurement_status list"
      by (simp add: filter_empty_conv)
    show ?thesis
      unfolding procurementSummaryFor_def Let_def filter_length_iff filter_pos_iff none all
      using True assms mixed waits by simp
  next
    case False
    then show ?thesis by (auto simp: procurementSummaryFor_def)
  qed
qed

text \<open>A ready order whose items hold no active reservation is handed off all the
  same, in any order status, and no stock moves.\<close>

lemma handOff_unreserved:
  assumes "\<not> tenant_frozen t d" and "find_order t oid d = Some ord" and "o_handed_off_at ord = None"
    and "procurementSummaryFor (map it_status (items_by_id t oid d)) False = S_READY"
    and "\<And>r. r \<in> set (reservations d) \<Longrightarrow> \<not> active_of_items t (map it_id (items_of t oid d)) r"
  shows "\<exists>d'. handOffOrder t oid actor now d = Inr ((oid, S_HANDED_OFF, now), d') \<and> products d' = products d
     \<and> reservations d' = reservations d \<and> find_order t oid d' = Some (ord\<lparr>o_handed_off_at := Some now,
          o_handed_off_by := Some actor, o_sort_procurement := S_HANDED_OFF\<rparr>)"
proof -
  have "r \<notin> set (active_reservations t (items_by_id t oid d) d)" for r
  proof
    assume "r \<in> set (active_reservations t (items_by_id t oid d) d)"
    then obtain i where i: "i \<in> set (items_of t oid d)" "reservation_of t (it_id i) d = Some r" "rs_status r = ACTIVE"
      by (auto simp: active_reservations_def set_map_filter split: option.splits if_splits)
    then have "r \<in> set (reservations d)" "rs_tenant r = t" "rs_item r = it_id i"
      using find_some_set[of _ "reservations d" r] find_some_prop[of _ "reservations d" r] by (auto simp: reservation_of_def)
    then show False using assms(5)[of r] i by (auto simp: active_of_items_def)
  qed
  then have none: "active_reservations t (items_by_id t oid d) d = []" by (metis list.set_intros(1) neq_Nil_conv)
  have "\<exists>o'\<in>set (orders d). o_id o' = oid \<and> o_tenant o' = t" using find_orderD[OF assms(2)] by blast
  moreover have "update_where (\<lambda>r. False) f rows = rows" for f and rows :: "reservation list"
    by (rule update_where_none) simp
  ultimately show ?thesis using assms(1-4)
    by (simp add: handOff_unfold none Let_def tx_return_def) (simp add: find_order_def find_update_where)
qed

end
