(* ===== verification/Procurement_Props.thy ===== *)
theory Procurement_Props
  imports Procurement_Facts
begin

text \<open>
  The properties of procurement and the sample store that their witnesses run on.
\<close>

section \<open>Sample store\<close>

text \<open>One tenant with a product of ten pieces and an approved order of two items,
  of four and eight pieces, and a second tenant with an order of its own; used to
  evaluate the definitions.\<close>

definition sample_item :: "uuid \<Rightarrow> uuid \<Rightarrow> uuid \<Rightarrow> string \<Rightarrow> int \<Rightarrow> order_item" where
  "sample_item iid t oid sku q = \<lparr>it_id = iid, it_tenant = t, it_order = oid, it_catalog = Some sku,
     it_text = sku, it_quantity = q, it_color = None, it_size = None, it_confidence = 1, it_unit_price = Some 1000,
     it_currency = Some ''UAH'', it_line_total = None, it_price_sku = Some sku, it_status = UNASSESSED,
     it_source = None, it_reason = None, it_stock_at = None, it_available_at = None,
     it_updated_at = None, it_created_at = 0\<rparr>"

definition sample_order :: "uuid \<Rightarrow> uuid \<Rightarrow> order_status \<Rightarrow> order" where
  "sample_order oid t st = \<lparr>o_id = oid, o_tenant = t, o_public = ''N'', o_conversation = 5, o_trigger = oid + 100, o_prompt = ''v2'', o_confidence = None, o_ai = None, o_status = st,
     o_extraction = Some \<lparr>ex_is_order = Some True, ex_name = Some ''Ann'', ex_phone = Some ''+380'',
        ex_instagram = None, ex_city = Some ''Kyiv'', ex_address = None, ex_branch = Some ''12''\<rparr>,
     o_issues = [], o_sort_product = [], o_sort_customer = [], o_sort_procurement = S_UNASSESSED,
     o_approved_at = None, o_approved_by = None, o_handed_off_at = None, o_handed_off_by = None,
     o_dispatch_version = 0, o_created_at = 0\<rparr>"

definition sample_product :: "uuid \<Rightarrow> uuid \<Rightarrow> string \<Rightarrow> int option \<Rightarrow> product" where
  "sample_product pid t sku stock = \<lparr>pr_id = pid, pr_tenant = t, pr_sku = sku, pr_name = sku,
     pr_price = Some 1000, pr_currency = Some ''UAH'', pr_stock = stock, pr_active = True, pr_aliases = [],
     pr_description = None, pr_category = None, pr_brand = None, pr_color = None, pr_size = None, pr_images = [],
     pr_attributes = '''', pr_source = None, pr_row_key = None, pr_updated = 0\<rparr>"

definition sample_db :: db where
  "sample_db = empty_db\<lparr>
     products := [sample_product 10 7 ''A'' (Some 10), sample_product 11 2 ''A'' (Some 3)],
     orders := [sample_order 20 7 APPROVED, sample_order 21 2 APPROVED],
     order_items := [sample_item 30 7 20 ''A'' 4, sample_item 31 7 20 ''A'' 8, sample_item 32 2 21 ''A'' 2],
     next_id := 100\<rparr>"

lemmas sample_defs = sample_db_def sample_item_def sample_order_def sample_product_def empty_db_def

lemma sample_wf: "wf_store sample_db"
  by (simp add: wf_store_def sample_defs)

lemma sample_no_oversell: "no_oversell sample_db"
  by (simp add: no_oversell_def active_sum_def sample_defs)

lemma sample_assessed:
  "map_option (\<lambda>am. map (\<lambda>a. (as_id a, as_status a, as_reason a, as_reserved a)) (am_items am))
     (case assessApprovedOrder 7 20 ''m'' 0 0 sample_db of Inr (am, _) \<Rightarrow> Some am | Inl _ \<Rightarrow> None)
   = Some [(30, IN_STOCK, STOCK_AVAILABLE, 4), (31, TO_ORDER, RESERVATION_CONFLICT, 0)]"
  by code_simp

lemma sample_assessment:
  obtains am d' where "assessApprovedOrder 7 20 ''m'' 0 0 sample_db = Inr (am, d')"
    "map as_status (am_items am) = [IN_STOCK, TO_ORDER]"
proof (cases "assessApprovedOrder 7 20 ''m'' 0 0 sample_db")
  case (Inl e)
  then show ?thesis using sample_assessed by simp
next
  case (Inr r)
  then obtain am d' where r: "assessApprovedOrder 7 20 ''m'' 0 0 sample_db = Inr (am, d')" by (cases r) auto
  then have "map (fst \<circ> snd) (map (\<lambda>a. (as_id a, as_status a, as_reason a, as_reserved a)) (am_items am)) = [IN_STOCK, TO_ORDER]"
    using sample_assessed by simp
  then show ?thesis using that[OF r] by (simp add: comp_def)
qed

text \<open>The second tenant's order, assessed: its item is reserved, the order is ready.\<close>

definition ready_sample :: db where
  "ready_sample = exec_procurement [(2, AssessOrder 21 ''m'' 0 0)] sample_db"

lemma ready_sample_wf: "wf_store ready_sample"
  unfolding ready_sample_def exec_procurement_eq by (rule proc.exec_ok[OF sample_wf])

lemma ready_sample_handed_off:
  obtains d' where "handOffOrder 2 21 ''m'' 9 ready_sample = Inr ((21, S_HANDED_OFF, 9), d')"
proof -
  have "map_option fst (case handOffOrder 2 21 ''m'' 9 ready_sample of Inr r \<Rightarrow> Some r | Inl _ \<Rightarrow> None)
     = Some (21, S_HANDED_OFF, 9)"
    unfolding ready_sample_def by code_simp
  then show ?thesis using that by (auto split: sum.splits)
qed

lemma ready_sample_order:
  obtains ord where "find_order 2 21 ready_sample = Some ord" "o_handed_off_at ord = None"
proof -
  have "map_option o_handed_off_at (find_order 2 21 ready_sample) = Some None"
    unfolding ready_sample_def by code_simp
  then show ?thesis using that by auto
qed

lemma ready_sample_values:
  "map (\<lambda>p. (pr_id p, pr_tenant p, pr_stock p)) (products ready_sample) = [(10, 7, Some 10), (11, 2, Some 3)]"
  "order_holds 2 21 11 ready_sample = 2" "active_sum 2 11 ready_sample = 2"
  unfolding ready_sample_def by code_simp+

section \<open>Properties\<close>



text \<open>Tenant isolation of procurement: commands of other tenants leave a tenant's
  products, orders, items, reservations, audit log and every other row as they were.\<close>

theorem procurement_isolated:
  assumes "wf_store d" and "\<And>c. (t, c) \<notin> set cs"
  shows "tenant_slice t (exec_procurement cs d) = tenant_slice t d"
  unfolding exec_procurement_eq using assms by (rule proc.exec_isolated)

theorem procurement_isolated_witness:
  "tenant_slice 2 (exec_procurement [(7, AssessOrder 20 ''m'' 0 0), (7, HandOffOrder 20 ''m'' 0)] sample_db)
     = tenant_slice 2 sample_db"
  by (rule procurement_isolated[OF sample_wf]) simp

text \<open>A tenant whose deletion is pending takes no procurement command: none
  changes the store.\<close>

theorem procurement_frozen:
  assumes "tenant_frozen t d"
  shows "exec_procurement (map (Pair t) cs) d = d"
  unfolding exec_procurement_eq using assms by (rule proc.frozen_inert)

definition frozen_sample :: db where
  "frozen_sample = sample_db\<lparr>lifecycle_requests :=
     [\<lparr>lr_id = 90, lr_tenant = 7, lr_kind = DELETE, lr_status = LC_EXPORTING, lr_frozen_at = Some 0,
       lr_reason = ''CONTROLLER_REQUEST'', lr_key = 1, lr_hash = ''h'', lr_artifact = None, lr_sha = None, lr_size = None, lr_manifest = None,
       lr_ready_at = None, lr_expires_at = None, lr_lease = None, lr_lease_expires = None, lr_attempts = 0, lr_next = 0, lr_error = None,
       lr_cancelled_at = None, lr_requested_at = 0\<rparr>]\<rparr>"

lemma frozen_sample: "tenant_frozen 7 frozen_sample"
  by (simp add: tenant_frozen_def frozen_sample_def)

theorem procurement_frozen_witness:
  "exec_procurement (map (Pair 7) [AssessOrder 20 ''m'' 0 0]) frozen_sample = frozen_sample"
  by (rule procurement_frozen) (rule frozen_sample)

text \<open>C3.
  Outcome of an assessment.  Each item of the order is decided under its own
  identifier: either it is IN_STOCK and holds an active reservation of exactly its
  quantity on the active product of its SKU, or it is TO_ORDER, holds no active
  reservation, and what remains of the product after the assessment could not have
  served it.  The rows and the sort column of the order carry the decisions.\<close>

theorem assess_outcome:
  assumes "assessApprovedOrder t oid actor releasedAt now d = Inr (am, d')" and "wf_store d"
  shows "list_all2 (settled t (locked_products t (order_skus (items_by_id t oid d)) d) d')
           (items_by_id t oid d) (am_items am)
       \<and> map as_id (am_items am) = map it_id (items_by_id t oid d)
       \<and> map it_status (items_by_id t oid d') = map as_status (am_items am)
       \<and> map_option o_sort_procurement (find_order t oid d')
           = Some (procurementSummaryFor (map it_status (items_by_id t oid d')) False)"
proof -
  obtain ord d2 where s: "find_order t oid d = Some ord"
    "assess_items t now (locked_products t (order_skus (items_by_id t oid d)) d) (items_by_id t oid d)
       (\<lambda>pid. active_sum t pid (after_release t (map it_id (items_by_id t oid d)) releasedAt d))
       (after_release t (map it_id (items_by_id t oid d)) releasedAt d) = Inr (am_items am, d2)"
    "am_summary am = procurementSummaryFor (map as_status (am_items am)) False"
    "d' = assess_commit t oid actor (am_items am) d2"
    using assms(1) by (rule assessE)
  have "settled t ps d' = settled t ps d2" for ps
    by (simp add: fun_eq_iff settled_def reserved_for_def unserved_for_def active_sum_def s(4))
  then show ?thesis
    using assess_loop(4)[OF assms(2) s(2)] assess_items_by_id[OF assms] assess_find_order[OF assms(1) s(1)] s(3) by simp
qed

theorem assess_outcome_witness:
  "\<exists>am d'. assessApprovedOrder 7 20 ''m'' 0 0 sample_db = Inr (am, d') \<and>
     map it_status (items_by_id 7 20 d') = [IN_STOCK, TO_ORDER]"
proof -
  obtain am d' where r: "assessApprovedOrder 7 20 ''m'' 0 0 sample_db = Inr (am, d')"
    "map as_status (am_items am) = [IN_STOCK, TO_ORDER]"
    by (rule sample_assessment)
  then show ?thesis using assess_outcome[OF r(1) sample_wf] by auto
qed

text \<open>An assessment is repeatable: run again, by anyone and at any later time, it
  succeeds with the same decisions for every item.\<close>

theorem assess_repeatable:
  assumes "assessApprovedOrder t oid actor r1 n1 d = Inr (am, d')" and "wf_store d"
  shows "\<exists>d''. assessApprovedOrder t oid actor' r2 n2 d' = Inr (am, d'')"
  using assms by (rule assess_again)

theorem assess_repeatable_witness:
  "\<exists>am d' d''. assessApprovedOrder 7 20 ''m'' 0 0 sample_db = Inr (am, d') \<and>
     assessApprovedOrder 7 20 ''n'' 7 7 d' = Inr (am, d'')"
  using sample_assessment assess_repeatable[OF _ sample_wf] by metis

text \<open>The summary of an order's item statuses, case by case: handed off wins, then
  an unassessed item, an unavailable one, one being sent; otherwise the order is
  ready, needs ordering or awaits the supplier exactly when all items do, and is
  partially ready in every mixed case.\<close>

theorem procurement_summary_cases:
  "procurementSummaryFor ss True = S_HANDED_OFF \<and>
   (procurementSummaryFor ss False = S_UNASSESSED \<longleftrightarrow> ss = [] \<or> UNASSESSED \<in> set ss) \<and>
   (procurementSummaryFor ss False = S_BLOCKED \<longleftrightarrow> UNASSESSED \<notin> set ss \<and> UNAVAILABLE \<in> set ss) \<and>
   (procurementSummaryFor ss False = S_SENDING \<longleftrightarrow>
      UNASSESSED \<notin> set ss \<and> UNAVAILABLE \<notin> set ss \<and> SENDING \<in> set ss) \<and>
   (procurementSummaryFor ss False = S_READY \<longleftrightarrow> ss \<noteq> [] \<and> set ss \<subseteq> {IN_STOCK, RECEIVED}) \<and>
   (procurementSummaryFor ss False = S_NEEDS_ORDER \<longleftrightarrow> ss \<noteq> [] \<and> set ss \<subseteq> {TO_ORDER}) \<and>
   (procurementSummaryFor ss False = S_AWAITING_SUPPLIER \<longleftrightarrow> ss \<noteq> [] \<and> set ss \<subseteq> {ORDERED, SUPPLIER_CONFIRMED}) \<and>
   (procurementSummaryFor ss False = S_PARTIALLY_READY \<longleftrightarrow>
      set ss \<inter> {UNASSESSED, UNAVAILABLE, SENDING} = {} \<and> \<not> set ss \<subseteq> {IN_STOCK, RECEIVED} \<and>
      \<not> set ss \<subseteq> {TO_ORDER} \<and> \<not> set ss \<subseteq> {ORDERED, SUPPLIER_CONFIRMED}) \<and>
   procurementSummaryFor ss False \<noteq> S_HANDED_OFF"
proof (cases ss)
  case Nil
  then show ?thesis by (simp add: summary_nil summary_handed_off)
next
  case (Cons x xs)
  have "ss \<noteq> []" and "x \<in> set ss" using Cons by simp_all
  then show ?thesis
    unfolding summary_handed_off summary_cases_nonempty[OF \<open>ss \<noteq> []\<close>]
    by (intro conjI) (auto split: if_splits)
qed

text \<open>C4. A manual status change that commits was legal: the item belongs to the order,
  and the new status is its old one or one that \<open>allowedTransitions\<close> permits.  It
  writes the new status to that item alone, appends one audit entry with both
  statuses, and stores the summary of the new statuses on the order.\<close>

theorem setItemStatus_effect:
  assumes "setItemStatus t oid iid nextStatus actor releasedAt now d = Inr ((oid', summary), d')" and "wf_store d"
  shows "\<exists>i. find_item t oid iid d = Some i
     \<and> (it_status i = nextStatus \<or> nextStatus \<in> set (allowedTransitions (it_status i)))
     \<and> map (\<lambda>j. (it_id j, it_status j)) (order_items d')
         = map (\<lambda>j. (it_id j, if it_id j = iid then nextStatus else it_status j)) (order_items d)
     \<and> audit_logs d' = audit_logs d @ [\<lparr>au_tenant = t, au_order = oid, au_actor = actor,
          au_event = PROCUREMENT_STATUS_CHANGED iid (it_status i) nextStatus\<rparr>]
     \<and> map_option o_sort_procurement (find_order t oid d') = Some summary"
proof -
  obtain i dec d1 r where s: "find_item t oid iid d = Some i"
    "it_status i = nextStatus \<or> nextStatus \<in> set (allowedTransitions (it_status i))"
    "decide_manually t i nextStatus releasedAt d = Inr (dec, d1)"
    "find_order t oid d = Some r"
    "d' = (set_commit t oid i nextStatus dec actor now iid d1)\<lparr>orders :=
        update_where (\<lambda>r. o_id r = oid \<and> o_tenant r = t) (\<lambda>r. r\<lparr>o_sort_procurement := summary\<rparr>) (orders d)\<rparr>"
    using assms(1) by (rule setE)
  note frame = decide_manually_frame[OF s(3)]
  have iid: "it_id i = iid" by (rule find_itemD[OF s(1)])
  have "map (\<lambda>j. (it_id j, it_status j)) (order_items d') =
      map (\<lambda>j. (it_id j, if it_id j = iid then nextStatus else it_status j)) (order_items d)"
    by (simp add: s(5) set_commit_def update_where_def frame(3) iid)
  moreover have "audit_logs d' = audit_logs d @ [\<lparr>au_tenant = t, au_order = oid, au_actor = actor,
          au_event = PROCUREMENT_STATUS_CHANGED iid (it_status i) nextStatus\<rparr>]"
    by (simp add: s(5) set_commit_def frame(4))
  moreover have "map_option o_sort_procurement (find_order t oid d') = Some summary"
    using s(4) by (simp add: s(5) find_order_def find_update_where)
  ultimately show ?thesis using s(1,2) by blast
qed

theorem setItemStatus_effect_witness:
  "\<exists>d'. setItemStatus 7 20 31 TO_ORDER ''m'' 0 0 sample_db = Inr ((20, S_UNASSESSED), d') \<and>
     map (\<lambda>j. (it_id j, it_status j)) (order_items d') = [(30, UNASSESSED), (31, TO_ORDER), (32, UNASSESSED)]"
proof -
  have "map_option fst (case setItemStatus 7 20 31 TO_ORDER ''m'' 0 0 sample_db of Inr r \<Rightarrow> Some r | Inl _ \<Rightarrow> None)
     = Some (20, S_UNASSESSED)"
    by code_simp
  then obtain d' where r: "setItemStatus 7 20 31 TO_ORDER ''m'' 0 0 sample_db = Inr ((20, S_UNASSESSED), d')"
    by (auto split: sum.splits)
  then show ?thesis using setItemStatus_effect[OF r sample_wf] by (auto simp: sample_defs)
qed

text \<open>C2.
  A first hand-off consumes exactly what the order holds: the stock of each
  product drops by the order's active reservations, those reservations stop being
  active, and so the availability of every product, its stock less what is
  reserved, is the same before and after.\<close>

theorem handOff_consumes:
  assumes "handOffOrder t oid actor now d = Inr (res, d')" and "wf_store d"
    and "find_order t oid d = Some ord" and "o_handed_off_at ord = None"
  shows "products d' = map (take_stock t now {pid. 0 < order_holds t oid pid d} (\<lambda>pid. order_holds t oid pid d)) (products d)
     \<and> (\<forall>p. active_sum t p d' = active_sum t p d - order_holds t oid p d)
     \<and> list_all2 (\<lambda>p p'. \<forall>s. pr_stock p = Some s \<longrightarrow> pr_tenant p = t \<longrightarrow>
          map_option (\<lambda>s'. s' - active_sum t (pr_id p') d') (pr_stock p') = Some (s - active_sum t (pr_id p) d))
        (products d) (products d')
     \<and> (\<forall>r\<in>set (reservations d'). \<not> active_of_items t (map it_id (items_of t oid d)) r)"
proof -
  have d': "d' = handoff_commit t oid actor now (active_reservations t (items_by_id t oid d) d) d"
    using assms(1,3,4) by (cases rule: handOffE) auto
  note prods = handoff_products[OF assms(2), of t oid actor now, folded d']
  note sums = handoff_active_sum[OF assms(2), of _ _ t oid actor now, folded d']
  have "\<not> active_of_items t (map it_id (items_of t oid d)) r" if "r \<in> set (reservations d')" for r
    using that unfolding d' handoff_reservations[OF assms(2)]
    by (cases rule: update_where_member) (simp_all add: active_of_items_def)
  moreover have "order_holds t oid p d = 0" if "\<not> 0 < order_holds t oid p d" for p
    using that order_holds_bounds[OF assms(2), of t oid p] by simp
  ultimately show ?thesis
    by (simp add: prods sums list_all2_conv_all_nth take_stock_def)
qed

theorem handOff_consumes_witness:
  "\<exists>d'. handOffOrder 2 21 ''m'' 9 ready_sample = Inr ((21, S_HANDED_OFF, 9), d') \<and>
     map pr_stock (products d') = [Some 10, Some 1] \<and> active_sum 2 11 d' = 0"
proof -
  obtain d' where r: "handOffOrder 2 21 ''m'' 9 ready_sample = Inr ((21, S_HANDED_OFF, 9), d')"
    by (rule ready_sample_handed_off)
  obtain ord where o: "find_order 2 21 ready_sample = Some ord" "o_handed_off_at ord = None"
    by (rule ready_sample_order)
  note handOff_consumes[OF r ready_sample_wf o]
  then show ?thesis using r ready_sample_values by (auto simp: take_stock_def)
qed

text \<open>A hand-off is idempotent: once committed, it answers with the same order,
  summary and time and leaves the store alone, whoever repeats it and whenever.\<close>

theorem handOff_idempotent:
  assumes "handOffOrder t oid actor now d = Inr (res, d')" and "wf_store d"
  shows "handOffOrder t oid actor' now' d' = Inr (res, d')"
  using assms(1)
proof (cases rule: handOffE)
  case (again ord ts)
  then show ?thesis by (simp add: handOff_unfold)
next
  case (first ord)
  have "find_order t oid d' = Some (ord\<lparr>o_handed_off_at := Some now, o_handed_off_by := Some actor, o_sort_procurement := S_HANDED_OFF\<rparr>)"
    using first(2) by (simp add: first(6) find_order_def handoff_commit_def find_update_where)
  moreover have "\<not> tenant_frozen t d'" using first(1) by (simp add: tenant_frozen_def first(6) handoff_commit_def)
  ultimately show ?thesis by (simp add: handOff_unfold first(5))
qed


theorem handOff_idempotent_witness:
  "\<exists>d'. handOffOrder 2 21 ''m'' 9 ready_sample = Inr ((21, S_HANDED_OFF, 9), d') \<and>
     handOffOrder 2 21 ''n'' 77 d' = Inr ((21, S_HANDED_OFF, 9), d')"
  using ready_sample_handed_off handOff_idempotent[OF _ ready_sample_wf] by metis

end
