(* ===== verification/Money.thy ===== *)
theory Money
  imports Tenancy "HOL-Library.Product_Lexorder"
begin

text \<open>
  Amounts.  The first part is \<open>packages/database/src/order-payments.ts\<close>: canonical
  two-decimal text, its conversion to minor units and back, and the payment
  summary of an order.  The second is \<open>commercial-terms.ts\<close>: the pricing of the
  lines of an order and the row of commercial terms that keeps it.  The decimal
  library behind \<open>Prisma.Decimal\<close> is a parameter, a record of its operations;
  \<open>decimal_laws\<close> states that it is exact on amounts below \<open>10 ^ 20\<close> hundredths,
  twenty significant digits.
\<close>

section \<open>Minor units\<close>

definition digit_char :: "char \<Rightarrow> bool" where
  "digit_char c \<longleftrightarrow> 48 \<le> (of_char c :: nat) \<and> (of_char c :: nat) \<le> 57"

definition digit_value :: "char \<Rightarrow> nat" where
  "digit_value c = of_char c - 48"

text \<open>\<open>MONEY_PATTERN\<close>: no leading zero, a point, two digits.\<close>

definition money_pattern :: "string \<Rightarrow> bool" where
  "money_pattern s \<longleftrightarrow> 4 \<le> length s \<and>
     (let whole = take (length s - 3) s; rest = drop (length s - 3) s in
        list_all digit_char whole \<and> (whole = ''0'' \<or> hd whole \<noteq> CHR ''0'') \<and>
        rest ! 0 = CHR ''.'' \<and> digit_char (rest ! 1) \<and> digit_char (rest ! 2))"

definition digits_value :: "string \<Rightarrow> nat" where
  "digits_value s = foldl (\<lambda>v c. 10 * v + digit_value c) 0 s"

definition toMinorUnits :: "string \<Rightarrow> app_error + int" where
  "toMinorUnits value =
     (if \<not> money_pattern value then Inl (Plain ''Money must use canonical two-decimal format'')
      else Inr (int (digits_value (filter (\<lambda>c. c \<noteq> CHR ''.'') value))))"

definition digit_of :: "nat \<Rightarrow> char" where
  "digit_of n = char_of (48 + n)"

text \<open>\<open>BigInt.prototype.toString\<close> of a natural number.\<close>

fun decimal_digits :: "nat \<Rightarrow> string" where
  "decimal_digits n = (if n < 10 then [digit_of n] else decimal_digits (n div 10) @ [digit_of (n mod 10)])"

declare decimal_digits.simps [simp del]

definition pad_start :: "nat \<Rightarrow> char \<Rightarrow> string \<Rightarrow> string" where
  "pad_start n c s = replicate (n - length s) c @ s"

definition fromMinorUnits :: "int \<Rightarrow> string" where
  "fromMinorUnits value =
     (let sign = (if value < 0 then ''-'' else []);
          digits = pad_start 3 (CHR ''0'') (decimal_digits (nat (abs value)))
      in sign @ take (length digits - 2) digits @ ''.'' @ drop (length digits - 2) digits)"

datatype payment_state = UNPAID | PARTIALLY_PAID | PAID | OVERPAID

record payment_amounts =
  pa_expected :: string
  pa_paid :: string
  pa_remaining :: string
  pa_status :: payment_state

text \<open>Payments are pairs of the amount text and the time of the cancellation.\<close>

fun paid_minor :: "(string \<times> instant option) list \<Rightarrow> int \<Rightarrow> app_error + int" where
  "paid_minor [] acc = Inr acc"
| "paid_minor ((amount, cancelledAt) # ps) acc =
     (if cancelledAt \<noteq> None then paid_minor ps acc
      else case toMinorUnits amount of Inl e \<Rightarrow> Inl e | Inr v \<Rightarrow> paid_minor ps (acc + v))"

definition payment_state_for :: "int \<Rightarrow> int \<Rightarrow> payment_state" where
  "payment_state_for expected paid =
     (if paid = 0 then UNPAID else if paid < expected then PARTIALLY_PAID
      else if paid = expected then PAID else OVERPAID)"

definition calculateOrderPaymentSummary :: "string \<Rightarrow> (string \<times> instant option) list \<Rightarrow> app_error + payment_amounts" where
  "calculateOrderPaymentSummary expectedAmount ps =
     (case toMinorUnits expectedAmount of Inl e \<Rightarrow> Inl e | Inr expected \<Rightarrow>
      case paid_minor ps 0 of Inl e \<Rightarrow> Inl e | Inr paid \<Rightarrow>
        Inr \<lparr>pa_expected = fromMinorUnits expected, pa_paid = fromMinorUnits paid,
             pa_remaining = fromMinorUnits (expected - paid),
             pa_status = payment_state_for expected paid\<rparr>)"

section \<open>Commercial calculation\<close>

text \<open>The operations of \<open>Prisma.Decimal\<close> that the code calls: the constructor on an
  amount text (an amount is its number of hundredths here), \<open>mul\<close> by a quantity,
  \<open>add\<close>, zero, and the rounding \<open>toDecimalPlaces(2, ROUND_HALF_UP).toFixed(2)\<close>.\<close>

record 'd decimal_ops =
  dec_of :: "money \<Rightarrow> 'd"
  dec_mul :: "'d \<Rightarrow> int \<Rightarrow> 'd"
  dec_add :: "'d \<Rightarrow> 'd \<Rightarrow> 'd"
  dec_zero :: 'd
  dec_money :: "'d \<Rightarrow> money"

definition decimal_bound :: int where
  "decimal_bound = 10 ^ 20"

text \<open>\<open>is x m\<close> reads: the decimal \<open>x\<close> is exactly \<open>m\<close> hundredths.\<close>

definition decimal_laws :: "'d decimal_ops \<Rightarrow> ('d \<Rightarrow> money \<Rightarrow> bool) \<Rightarrow> bool" where
  "decimal_laws D is \<longleftrightarrow>
     (\<forall>m. abs m < decimal_bound \<longrightarrow> is (dec_of D m) m) \<and>
     (\<forall>x m q. is x m \<longrightarrow> abs (m * q) < decimal_bound \<longrightarrow> is (dec_mul D x q) (m * q)) \<and>
     (\<forall>x y m n. is x m \<longrightarrow> is y n \<longrightarrow> abs (m + n) < decimal_bound \<longrightarrow> is (dec_add D x y) (m + n)) \<and>
     is (dec_zero D) 0 \<and>
     (\<forall>x m. is x m \<longrightarrow> dec_money D x = m)"

record line_input =
  li_item :: uuid
  li_quantity :: int
  li_price :: "money option"
  li_currency :: "string option"
  li_sku :: "string option"

record calculation =
  ca_status :: pricing_status
  ca_currency :: "string option"
  ca_subtotal :: "money option"
  ca_total :: "money option"
  ca_issues :: "commercial_issue list"
  ca_lines :: "(line_input \<times> money option) list"

definition white_space :: "char \<Rightarrow> bool" where
  "white_space c \<longleftrightarrow> (of_char c :: nat) \<in> {9, 10, 11, 12, 13, 32, 160}"

definition trim :: "string \<Rightarrow> string" where
  "trim s = rev (dropWhile white_space (rev (dropWhile white_space s)))"

definition upper_char :: "char \<Rightarrow> char" where
  "upper_char c = (if 97 \<le> (of_char c :: nat) \<and> (of_char c :: nat) \<le> 122 then char_of (of_char c - 32 :: nat) else c)"

definition currency_char :: "char \<Rightarrow> bool" where
  "currency_char c \<longleftrightarrow> 65 \<le> (of_char c :: nat) \<and> (of_char c :: nat) \<le> 90"

definition normalizeCurrency :: "string option \<Rightarrow> string option" where
  "normalizeCurrency value =
     (let normalized = (case value of Some v \<Rightarrow> map upper_char (trim v) | None \<Rightarrow> [])
      in if length normalized = 3 \<and> list_all currency_char normalized then Some normalized else None)"

text \<open>A JavaScript \<open>Set\<close>, its members in the order of insertion.\<close>

definition js_set :: "'a list \<Rightarrow> 'a list" where
  "js_set xs = foldl (\<lambda>s x. if x \<in> set s then s else s @ [x]) [] xs"

definition calculated_line :: "'d decimal_ops \<Rightarrow> line_input \<Rightarrow> line_input \<times> money option" where
  "calculated_line D line =
     (line\<lparr>li_currency := normalizeCurrency (li_currency line)\<rparr>,
      map_option (\<lambda>p. dec_money D (dec_mul D (dec_of D p) (li_quantity line))) (li_price line))"

definition line_currencies :: "line_input list \<Rightarrow> string list" where
  "line_currencies lines = js_set (List.map_filter (\<lambda>l. normalizeCurrency (li_currency l)) lines)"

definition commercial_issues :: "line_input list \<Rightarrow> commercial_issue list" where
  "commercial_issues lines = filter (\<lambda>issue. case issue of
       ITEM_PRICE_MISSING \<Rightarrow> list_ex (\<lambda>l. li_price l = None) lines
     | ITEM_CURRENCY_MISSING \<Rightarrow> list_ex (\<lambda>l. normalizeCurrency (li_currency l) = None) lines
     | MIXED_CURRENCIES \<Rightarrow> length (line_currencies lines) > 1)
     [ITEM_PRICE_MISSING, ITEM_CURRENCY_MISSING, MIXED_CURRENCIES]"

definition calculateCommercialTerms :: "'d decimal_ops \<Rightarrow> line_input list \<Rightarrow> calculation" where
  "calculateCommercialTerms D lines =
     (let calculated = map (calculated_line D) lines;
          issues = commercial_issues lines
      in if issues \<noteq> []
         then \<lparr>ca_status = PRICING_NEEDS_REVIEW, ca_currency = None, ca_subtotal = None, ca_total = None,
               ca_issues = issues, ca_lines = calculated\<rparr>
         else
           let subtotal = foldl (\<lambda>acc (_, total). dec_add D acc
                 (dec_of D (case total of Some v \<Rightarrow> v | None \<Rightarrow> 0))) (dec_zero D) calculated;
               total = dec_money D subtotal
           in \<lparr>ca_status = PRICING_READY,
               ca_currency = (case line_currencies lines of [] \<Rightarrow> None | c # _ \<Rightarrow> Some c),
               ca_subtotal = Some total, ca_total = Some total, ca_issues = [], ca_lines = calculated\<rparr>)"

section \<open>The row of commercial terms\<close>

definition find_entity :: "uuid \<Rightarrow> uuid \<Rightarrow> db \<Rightarrow> legal_entity option" where
  "find_entity t eid d = List.find (\<lambda>e. le_id e = eid \<and> le_tenant e = t \<and> le_active e) (legal_entities d)"

definition default_entity :: "uuid \<Rightarrow> db \<Rightarrow> legal_entity option" where
  "default_entity t d = find_sorted (\<lambda>e. (\<not> le_default e, le_created_at e))
     (\<lambda>e. le_tenant e = t \<and> le_active e) (legal_entities d)"

definition find_account :: "uuid \<Rightarrow> uuid \<Rightarrow> uuid \<Rightarrow> string \<Rightarrow> db \<Rightarrow> bank_account option" where
  "find_account t aid eid currency d = List.find (\<lambda>a. ba_id a = aid \<and> ba_tenant a = t \<and> ba_entity a = eid
     \<and> ba_currency a = currency \<and> ba_active a) (bank_accounts d)"

definition default_account :: "uuid \<Rightarrow> uuid \<Rightarrow> string \<Rightarrow> db \<Rightarrow> bank_account option" where
  "default_account t eid currency d = find_sorted (\<lambda>a. (\<not> ba_default a, ba_created_at a))
     (\<lambda>a. ba_tenant a = t \<and> ba_entity a = eid \<and> ba_currency a = currency \<and> ba_active a) (bank_accounts d)"

text \<open>The empty registration and the empty bank name are left out of a snapshot.\<close>

definition non_empty :: "string option \<Rightarrow> string option" where
  "non_empty v = (case v of Some s \<Rightarrow> if s = [] then None else Some s | None \<Rightarrow> None)"

definition legalEntitySnapshot :: "legal_entity \<Rightarrow> entity_snapshot" where
  "legalEntitySnapshot e = (le_display_name e, le_legal_name e, le_type e, non_empty (le_registration e))"

definition bankAccountSnapshot :: "bank_account \<Rightarrow> account_snapshot" where
  "bankAccountSnapshot a = (ba_label a, ba_iban a, ba_currency a, non_empty (ba_bank_name a))"

type_synonym selection = "(uuid option \<times> uuid option) option"

definition choose_entity :: "uuid \<Rightarrow> selection \<Rightarrow> db \<Rightarrow> legal_entity option" where
  "choose_entity t sel d = (case sel of
       Some (Some eid, _) \<Rightarrow> find_entity t eid d
     | Some (None, _) \<Rightarrow> None
     | None \<Rightarrow> default_entity t d)"

definition choose_account :: "uuid \<Rightarrow> selection \<Rightarrow> legal_entity option \<Rightarrow> string option \<Rightarrow> db \<Rightarrow> bank_account option" where
  "choose_account t sel entity currency d = (case (entity, currency) of
       (Some e, Some c) \<Rightarrow> (case sel of
           Some (_, Some aid) \<Rightarrow> find_account t aid (le_id e) c d
         | Some (_, None) \<Rightarrow> None
         | None \<Rightarrow> default_account t (le_id e) c d)
     | _ \<Rightarrow> None)"

definition snapshot_line :: "uuid \<Rightarrow> uuid \<Rightarrow> line_input \<times> money option \<Rightarrow> db \<Rightarrow> db" where
  "snapshot_line t oid lt d = (case lt of (line, lineTotal) \<Rightarrow>
     d\<lparr>order_items := update_where (\<lambda>i. it_id i = li_item line \<and> it_tenant i = t \<and> it_order i = oid)
        (\<lambda>i. i\<lparr>it_unit_price := li_price line, it_currency := li_currency line,
               it_line_total := lineTotal, it_price_sku := li_sku line\<rparr>) (order_items d)\<rparr>)"

definition write_terms :: "legal_entity option \<Rightarrow> bank_account option \<Rightarrow> calculation \<Rightarrow> string \<Rightarrow> commercial_terms \<Rightarrow> commercial_terms" where
  "write_terms entity account calc actor c = c\<lparr>ct_entity := map_option le_id entity,
     ct_account := map_option ba_id account, ct_currency := ca_currency calc, ct_subtotal := ca_subtotal calc,
     ct_total := ca_total calc, ct_pricing := ca_status calc, ct_issues := ca_issues calc,
     ct_entity_snapshot := map_option legalEntitySnapshot entity,
     ct_account_snapshot := map_option bankAccountSnapshot account, ct_updated_by := actor\<rparr>"

definition blank_terms :: "uuid \<Rightarrow> uuid \<Rightarrow> uuid \<Rightarrow> commercial_terms" where
  "blank_terms cid t oid = \<lparr>ct_id = cid, ct_tenant = t, ct_order = oid, ct_entity = None, ct_account = None,
     ct_currency = None, ct_subtotal = None, ct_discount = 0, ct_delivery = 0, ct_total = None,
     ct_pricing = PRICING_NEEDS_REVIEW, ct_issues = [], ct_entity_snapshot = None,
     ct_account_snapshot = None, ct_version = 1, ct_updated_by = []\<rparr>"

text \<open>The \<open>upsert\<close> at the unique index \<open>orderId\<close>; an update counts the version up.\<close>

definition upsert_terms :: "uuid \<Rightarrow> uuid \<Rightarrow> (commercial_terms \<Rightarrow> commercial_terms) \<Rightarrow> db \<Rightarrow> db" where
  "upsert_terms t oid f d =
     (if any_row (\<lambda>c. ct_order c = oid) (terms_rows d)
      then d\<lparr>terms_rows := update_where (\<lambda>c. ct_order c = oid)
             (\<lambda>c. (f c)\<lparr>ct_version := ct_version c + 1\<rparr>) (terms_rows d)\<rparr>
      else d\<lparr>terms_rows := terms_rows d @ [f (blank_terms (next_id d) t oid)], next_id := next_id d + 1\<rparr>)"

definition materializeCommercialTerms :: "'d decimal_ops \<Rightarrow> uuid \<Rightarrow> uuid \<Rightarrow> string \<Rightarrow> line_input list \<Rightarrow> selection \<Rightarrow> calculation dbtx" where
  "materializeCommercialTerms D t oid actor lines sel =
     (let calc = calculateCommercialTerms D lines in
      tx_bind (tx_read (choose_entity t sel)) (\<lambda>entity.
      tx_bind (tx_read (choose_account t sel entity (ca_currency calc))) (\<lambda>account.
      tx_seq (tx_write (fold (snapshot_line t oid) (ca_lines calc)))
     (tx_seq (tx_write (upsert_terms t oid (write_terms entity account calc actor)))
        (tx_return calc)))))"

end
