(* ===== verification/Payments.thy ===== *)
theory Payments
  imports Money
begin

text \<open>
  Payments of an order (\<open>apps/api/src/orders/payments.service.ts\<close>): recording under
  an idempotency key, cancellation, the summary.  SHA-256 over the JSON of a
  command is the parameter \<open>hash\<close>, a function of the payload; \<open>toFixed(2)\<close> of a
  decimal column is the parameter \<open>fixed2\<close>.  A transaction runs on the rows it
  can see; the rows that concurrent transactions commit meanwhile are an argument
  of the run, and the unique index sees them.  Whether an attempt meets a write
  conflict (P2034) is an argument too, a function of the attempt's number.
\<close>

section \<open>Commands\<close>

record create_payment =
  cp_amount :: money
  cp_method :: payment_method
  cp_received_at :: instant
  cp_bank_account :: "uuid option"
  cp_carrier :: "string option"
  cp_note :: "string option"
  cp_key :: uuid

record cancel_input =
  cc_reason :: string
  cc_idempotency_key :: uuid

datatype payment_payload =
  CreatePayload uuid money payment_method instant "uuid option" "string option" "string option"
| CancelPayload uuid uuid string

definition createCommandPayload :: "uuid \<Rightarrow> create_payment \<Rightarrow> payment_payload" where
  "createCommandPayload oid input = CreatePayload oid (cp_amount input) (cp_method input)
     (cp_received_at input) (cp_bank_account input) (cp_carrier input) (cp_note input)"

definition max_future_skew_ms :: int where
  "max_future_skew_ms = 5 * 60 * 1000"

definition max_serializable_attempts :: nat where
  "max_serializable_attempts = 3"

section \<open>Reading\<close>

definition terms_ready :: "commercial_terms \<Rightarrow> bool" where
  "terms_ready c \<longleftrightarrow> ct_pricing c = PRICING_READY \<and> ct_total c \<noteq> None \<and> non_empty (ct_currency c) \<noteq> None"

text \<open>The order's terms with a total and a currency, or the exception of the code.\<close>

definition readyOrder :: "uuid \<Rightarrow> uuid \<Rightarrow> commercial_terms dbtx" where
  "readyOrder t oid =
     tx_bind (tx_read (\<lambda>d. (find_order t oid d, terms_of t oid d))) (\<lambda>(ord, terms).
       if ord = None then tx_throw (NotFound ''Order not found'')
       else case terms of
           None \<Rightarrow> tx_throw (BadRequest ''Order payment amount is not ready'')
         | Some c \<Rightarrow> if \<not> terms_ready c then tx_throw (BadRequest ''Order payment amount is not ready'')
             else tx_return c)"

definition payments_of :: "uuid \<Rightarrow> uuid \<Rightarrow> db \<Rightarrow> payment list" where
  "payments_of t oid d = sort_key (\<lambda>p. (- pay_received_at p, - pay_created_at p))
     (filter (\<lambda>p. pay_tenant p = t \<and> pay_order p = oid) (payments d))"

record payment_view =
  pv_amounts :: payment_amounts
  pv_currency :: string
  pv_payments :: "payment list"

definition get_payments :: "(money \<Rightarrow> string) \<Rightarrow> uuid \<Rightarrow> uuid \<Rightarrow> payment_view dbtx" where
  "get_payments fixed2 t oid =
     tx_bind (readyOrder t oid) (\<lambda>c.
     tx_bind (tx_read (payments_of t oid)) (\<lambda>ps.
       case calculateOrderPaymentSummary (fixed2 (the (ct_total c)))
              (map (\<lambda>p. (fixed2 (pay_amount p), pay_cancelled_at p)) ps) of
         Inl e \<Rightarrow> tx_throw e
       | Inr amounts \<Rightarrow> tx_return \<lparr>pv_amounts = amounts, pv_currency = the (ct_currency c), pv_payments = ps\<rparr>))"

section \<open>Retry of serializable transactions\<close>

function serializable_from :: "nat \<Rightarrow> (nat \<Rightarrow> bool) \<Rightarrow> 'a dbtx \<Rightarrow> 'a dbservice" where
  "serializable_from attempt conflict operation d =
     (if conflict attempt
      then if attempt \<ge> max_serializable_attempts then (Inl WriteConflict, d)
           else serializable_from (attempt + 1) conflict operation d
      else run_tx operation d)"
  by pat_completeness auto
termination
  by (relation "measure (\<lambda>(attempt, _). max_serializable_attempts - attempt)") auto

declare serializable_from.simps [simp del]

definition serializable :: "(nat \<Rightarrow> bool) \<Rightarrow> 'a dbtx \<Rightarrow> 'a dbservice" where
  "serializable = serializable_from 1"

section \<open>Recording\<close>

definition payment_by_key :: "uuid \<Rightarrow> uuid \<Rightarrow> payment list \<Rightarrow> payment option" where
  "payment_by_key t key ps = List.find (\<lambda>p. pay_tenant p = t \<and> pay_key p = key) ps"

definition assertCreateReplay :: "payment \<Rightarrow> uuid \<Rightarrow> string \<Rightarrow> unit dbtx" where
  "assertCreateReplay existing oid requestHash =
     tx_when (pay_order existing \<noteq> oid \<or> pay_hash existing \<noteq> requestHash)
       (Conflict ''Idempotency key was already used'')"

definition check_bank_account :: "uuid \<Rightarrow> commercial_terms \<Rightarrow> create_payment \<Rightarrow> unit dbtx" where
  "check_bank_account t c input =
     (if cp_method input \<noteq> BANK_TRANSFER then tx_return ()
      else case ct_entity c of
          None \<Rightarrow> tx_throw (BadRequest ''Bank account does not match legal entity and currency'')
        | Some eid \<Rightarrow>
            tx_bind (tx_read (\<lambda>d. case cp_bank_account input of
                None \<Rightarrow> List.find (\<lambda>a. ba_tenant a = t \<and> ba_entity a = eid \<and> ba_currency a = the (ct_currency c) \<and> ba_active a) (bank_accounts d)
              | Some aid \<Rightarrow> find_account t aid eid (the (ct_currency c)) d)) (\<lambda>account.
              tx_when (account = None) (BadRequest ''Bank account does not match legal entity and currency'')))"

definition new_payment :: "uuid \<Rightarrow> uuid \<Rightarrow> uuid \<Rightarrow> string \<Rightarrow> string \<Rightarrow> create_payment \<Rightarrow> string \<Rightarrow> instant \<Rightarrow> payment" where
  "new_payment pid t oid actor currency input requestHash createdAt =
     \<lparr>pay_id = pid, pay_tenant = t, pay_order = oid, pay_amount = cp_amount input, pay_currency = currency,
      pay_method = cp_method input, pay_received_at = cp_received_at input,
      pay_bank_account = cp_bank_account input, pay_carrier = cp_carrier input, pay_note = cp_note input,
      pay_created_by = actor, pay_key = cp_key input, pay_hash = requestHash, pay_cancelled_at = None,
      pay_cancelled_by = None, pay_cancel_reason = None, pay_cancel_key = None, pay_cancel_hash = None,
      pay_created_at = createdAt\<rparr>"

text \<open>\<open>orderPayment.create\<close>: the unique index on tenant and key also sees the rows
  committed by others; the schema asks for a positive amount and a currency of
  three characters.\<close>

definition create_payment_row :: "payment list \<Rightarrow> payment \<Rightarrow> unit dbtx" where
  "create_payment_row concurrent p = (\<lambda>d.
     if pay_amount p \<le> 0 \<or> length (pay_currency p) \<noteq> 3 then Inl CheckViolation
     else if payment_by_key (pay_tenant p) (pay_key p) (payments d @ concurrent) \<noteq> None then Inl UniqueViolation
     else Inr ((), d\<lparr>payments := payments d @ [p], next_id := next_id d + 1\<rparr>))"

definition record_tx :: "uuid \<Rightarrow> uuid \<Rightarrow> string \<Rightarrow> create_payment \<Rightarrow> string \<Rightarrow> instant \<Rightarrow> payment list \<Rightarrow> unit dbtx" where
  "record_tx t oid actor input requestHash createdAt concurrent =
     tx_seq (assertTenantAcceptingMutations t PAYMENT)
    (tx_bind (readyOrder t oid) (\<lambda>c.
     tx_seq (check_bank_account t c input)
    (tx_bind (tx_read (\<lambda>d. (payment_by_key t (cp_key input) (payments d), next_id d))) (\<lambda>(existing, pid).
       case existing of
         Some e \<Rightarrow> assertCreateReplay e oid requestHash
       | None \<Rightarrow>
           tx_seq (create_payment_row concurrent
              (new_payment pid t oid actor (the (ct_currency c)) input requestHash createdAt))
             (create_audit t oid actor (ORDER_PAYMENT_RECORDED pid (cp_amount input) (the (ct_currency c))
                (cp_method input) (cp_bank_account input) (non_empty (cp_carrier input))))))))"

text \<open>What others committed during a run is in the store after it.\<close>

definition commit_concurrent :: "payment list \<Rightarrow> db \<Rightarrow> db" where
  "commit_concurrent concurrent d = d\<lparr>payments := payments d @ concurrent\<rparr>"

definition record_payment :: "(money \<Rightarrow> string) \<Rightarrow> (payment_payload \<Rightarrow> string) \<Rightarrow> uuid \<Rightarrow> uuid \<Rightarrow> string \<Rightarrow>
    create_payment \<Rightarrow> instant \<Rightarrow> payment list \<Rightarrow> (nat \<Rightarrow> bool) \<Rightarrow> payment_view dbservice" where
  "record_payment fixed2 hash t oid actor input now concurrent conflict = (\<lambda>d.
     if cp_received_at input > now + max_future_skew_ms
     then (Inl (BadRequest ''Payment date is in the future''), d)
     else
       let requestHash = hash (createCommandPayload oid input) in
       case serializable conflict (record_tx t oid actor input requestHash now concurrent) d of
         (Inr _, d1) \<Rightarrow> run_tx (get_payments fixed2 t oid) (commit_concurrent concurrent d1)
       | (Inl e, d1) \<Rightarrow>
           let d2 = commit_concurrent concurrent d1 in
           if e \<noteq> UniqueViolation then (Inl e, d2)
           else case payment_by_key t (cp_key input) (payments d2) of
               None \<Rightarrow> (Inl e, d2)
             | Some existing \<Rightarrow>
                 (case run_tx (assertCreateReplay existing oid requestHash) d2 of
                    (Inl e', d3) \<Rightarrow> (Inl e', d3)
                  | (Inr _, d3) \<Rightarrow> run_tx (get_payments fixed2 t oid) d3))"

section \<open>Cancelling\<close>

definition find_payment :: "uuid \<Rightarrow> uuid \<Rightarrow> uuid \<Rightarrow> db \<Rightarrow> payment option" where
  "find_payment t oid pid d =
     List.find (\<lambda>p. pay_id p = pid \<and> pay_tenant p = t \<and> pay_order p = oid) (payments d)"

definition cancel_row :: "string \<Rightarrow> cancel_input \<Rightarrow> string \<Rightarrow> instant \<Rightarrow> payment \<Rightarrow> payment" where
  "cancel_row actor input requestHash now p = p\<lparr>pay_cancelled_at := Some now, pay_cancelled_by := Some actor,
     pay_cancel_reason := Some (cc_reason input), pay_cancel_key := Some (cc_idempotency_key input),
     pay_cancel_hash := Some requestHash\<rparr>"

text \<open>The unique index on tenant and cancellation key refuses a key in use.\<close>

definition cancel_tx :: "uuid \<Rightarrow> uuid \<Rightarrow> uuid \<Rightarrow> string \<Rightarrow> cancel_input \<Rightarrow> string \<Rightarrow> instant \<Rightarrow> unit dbtx" where
  "cancel_tx t oid pid actor input requestHash now =
     tx_seq (assertTenantAcceptingMutations t PAYMENT)
    (tx_bind (tx_read (find_payment t oid pid)) (\<lambda>found.
       case found of
         None \<Rightarrow> tx_throw (NotFound ''Payment not found'')
       | Some p \<Rightarrow>
           if pay_cancelled_at p \<noteq> None
           then tx_when (\<not> (pay_cancel_key p = Some (cc_idempotency_key input) \<and> pay_cancel_hash p = Some requestHash))
                  (Conflict ''Payment is already cancelled'')
           else
             tx_bind (tx_read (\<lambda>d. count_where (\<lambda>q. pay_id q = pid \<and> pay_tenant q = t \<and> pay_order q = oid
                        \<and> pay_cancelled_at q = None) (payments d))) (\<lambda>changed.
             tx_bind (tx_read (\<lambda>d. any_row (\<lambda>q. pay_tenant q = t \<and> pay_cancel_key q = Some (cc_idempotency_key input)) (payments d))) (\<lambda>taken.
             tx_seq (tx_when taken UniqueViolation)
            (tx_seq (tx_write (\<lambda>d. d\<lparr>payments := update_where (\<lambda>q. pay_id q = pid \<and> pay_tenant q = t \<and> pay_order q = oid
                        \<and> pay_cancelled_at q = None) (cancel_row actor input requestHash now) (payments d)\<rparr>))
            (tx_seq (tx_when (changed \<noteq> 1) (Conflict ''Payment changed; reload and try again''))
               (create_audit t oid actor (ORDER_PAYMENT_CANCELLED pid))))))))"

definition cancel_payment :: "(money \<Rightarrow> string) \<Rightarrow> (payment_payload \<Rightarrow> string) \<Rightarrow> uuid \<Rightarrow> uuid \<Rightarrow> uuid \<Rightarrow> string \<Rightarrow>
    cancel_input \<Rightarrow> instant \<Rightarrow> (nat \<Rightarrow> bool) \<Rightarrow> payment_view dbservice" where
  "cancel_payment fixed2 hash t oid pid actor input now conflict =
     svc_bind (serializable conflict (cancel_tx t oid pid actor input
                (hash (CancelPayload oid pid (cc_reason input))) now))
       (\<lambda>_. run_tx (get_payments fixed2 t oid))"

section \<open>Payment commands of a tenant\<close>

datatype payment_command =
  RecordPayment uuid string create_payment string instant
| CancelPayment uuid uuid string cancel_input string instant

fun run_payment :: "uuid \<Rightarrow> payment_command \<Rightarrow> unit dbtx" where
  "run_payment t (RecordPayment oid actor input requestHash now) =
     record_tx t oid actor input requestHash now []"
| "run_payment t (CancelPayment oid pid actor input requestHash now) =
     cancel_tx t oid pid actor input requestHash now"

definition exec_payments :: "(uuid \<times> payment_command) list \<Rightarrow> db \<Rightarrow> db" where
  "exec_payments cs d = fold (\<lambda>(t, c) s. snd (run_tx (run_payment t c) s)) cs d"

end
