(* ===== verification/Money_Props.thy ===== *)
theory Money_Props
  imports Money
begin

text \<open>
  Facts about amounts: decimal text and its value, sums of payments, when an order
  is priced and that its total is exact, the row of terms after a
  materialization; the instance of the decimal operations that the witnesses use;
  the properties.
\<close>

section \<open>Decimal text\<close>

lemma digit_char_cases:
  assumes "digit_char c"
  shows "digit_value c < 10" and "digit_of (digit_value c) = c"
proof -
  have range: "48 \<le> (of_char c :: nat)" "(of_char c :: nat) \<le> 57" using assms by (simp_all add: digit_char_def)
  then show "digit_value c < 10" by (simp add: digit_value_def)
  have "48 + digit_value c = (of_char c :: nat)" using range by (simp add: digit_value_def)
  then show "digit_of (digit_value c) = c" by (simp add: digit_of_def)
qed

lemma digit_of_digit:
  assumes "n < 10"
  shows "digit_char (digit_of n)" and "digit_value (digit_of n) = n"
  using assms by (simp_all add: digit_char_def digit_value_def digit_of_def)

lemma digit_char_not_point [simp]: "digit_char c \<Longrightarrow> c \<noteq> CHR ''.''"
  by (auto simp: digit_char_def)

lemma zero_digit [simp]: "digit_char (CHR ''0'')" "digit_value (CHR ''0'') = 0"
  by (simp_all add: digit_char_def digit_value_def)

lemma digit_value_0_iff: "digit_char c \<Longrightarrow> digit_value c = 0 \<longleftrightarrow> c = CHR ''0''"
proof -
  assume c: "digit_char c"
  have "digit_value c = 0 \<Longrightarrow> c = digit_of 0" using digit_char_cases(2)[OF c] by simp
  moreover have "digit_of 0 = CHR ''0''" by code_simp
  ultimately show "digit_value c = 0 \<longleftrightarrow> c = CHR ''0''" by auto
qed

lemma digits_value_Nil [simp]: "digits_value [] = 0"
  by (simp add: digits_value_def)

lemma digits_value_snoc [simp]: "digits_value (s @ [c]) = 10 * digits_value s + digit_value c"
  by (simp add: digits_value_def)

lemma digits_value_single [simp]: "digits_value [c] = digit_value c"
  by (simp add: digits_value_def)

lemma digits_value_pad [simp]: "digits_value (replicate n (CHR ''0'') @ s) = digits_value s"
proof (induction s rule: rev_induct)
  case Nil
  show ?case by (induction n) (simp_all add: replicate_append_same[symmetric] del: replicate.simps, simp_all add: digits_value_def)
next
  case (snoc c s)
  then show ?case by (simp flip: append_assoc)
qed

lemma decimal_digits_digits: "list_all digit_char (decimal_digits n)"
  by (induction n rule: decimal_digits.induct) (subst decimal_digits.simps, simp add: digit_of_digit)

lemma decimal_digits_value [simp]: "digits_value (decimal_digits n) = n"
  by (induction n rule: decimal_digits.induct) (subst decimal_digits.simps, simp add: digit_of_digit)

lemma decimal_digits_nonempty [simp]: "decimal_digits n \<noteq> []"
  by (subst decimal_digits.simps) simp

lemma digits_value_pos:
  "list_all digit_char ds \<Longrightarrow> ds \<noteq> [] \<Longrightarrow> hd ds \<noteq> CHR ''0'' \<Longrightarrow> 0 < digits_value ds"
proof (induction ds rule: rev_induct)
  case (snoc c ds)
  show ?case
  proof (cases "ds = []")
    case True
    then show ?thesis using snoc.prems digit_value_0_iff[of c] by simp
  next
    case False
    then show ?thesis using snoc by (simp add: hd_append)
  qed
qed simp

text \<open>A digit string without a leading zero is the only one of its value.\<close>

lemma decimal_digits_unique:
  "list_all digit_char ds \<Longrightarrow> ds \<noteq> [] \<Longrightarrow> hd ds \<noteq> CHR ''0'' \<Longrightarrow> decimal_digits (digits_value ds) = ds"
proof (induction ds rule: rev_induct)
  case (snoc c ds)
  have c: "digit_value c < 10" "digit_of (digit_value c) = c" using snoc.prems(1) digit_char_cases by auto
  show ?case
  proof (cases "ds = []")
    case True
    then show ?thesis using c by (subst decimal_digits.simps) simp
  next
    case False
    then have ds: "list_all digit_char ds" "hd ds \<noteq> CHR ''0''" using snoc.prems by (simp_all add: hd_append)
    then have "0 < digits_value ds" using False digits_value_pos by blast
    then have "\<not> digits_value (ds @ [c]) < 10" and "digits_value (ds @ [c]) div 10 = digits_value ds"
        and "digits_value (ds @ [c]) mod 10 = digit_value c"
      using c(1) by simp_all
    then show ?thesis using snoc.IH[OF ds(1) False ds(2)] c(2) by (subst decimal_digits.simps) simp
  qed
qed simp

lemma hd_decimal_digits: "0 < n \<Longrightarrow> hd (decimal_digits n) \<noteq> CHR ''0''"
proof (induction n rule: decimal_digits.induct)
  case (1 n)
  show ?case
  proof (cases "n < 10")
    case True
    then have "digit_value (hd (decimal_digits n)) \<noteq> 0"
      using 1 by (subst decimal_digits.simps) (simp add: digit_of_digit)
    then show ?thesis by (metis zero_digit(2))
  next
    case False
    then show ?thesis using 1(1) by (subst decimal_digits.simps) (simp add: hd_append)
  qed
qed

lemma length_decimal_digits:
  "length (decimal_digits n) = 1 \<longleftrightarrow> n < 10" "length (decimal_digits n) \<le> 2 \<longleftrightarrow> n < 100"
proof -
  have one: "length (decimal_digits m) = 1 \<longleftrightarrow> m < 10" for m
    by (subst decimal_digits.simps) simp
  then show "length (decimal_digits n) = 1 \<longleftrightarrow> n < 10" .
  have "length (decimal_digits n) \<le> 2 \<longleftrightarrow> n < 10 \<or> length (decimal_digits (n div 10)) = 1"
    using decimal_digits_nonempty[of "n div 10"]
    by (subst decimal_digits.simps, cases "decimal_digits (n div 10)") (auto simp: Suc_le_eq)
  also have "\<dots> \<longleftrightarrow> n < 100" unfolding one by auto
  finally show "length (decimal_digits n) \<le> 2 \<longleftrightarrow> n < 100" .
qed

text \<open>The text between sign and end: at least three digits, a leading zero only
  before the point.\<close>

definition padded :: "nat \<Rightarrow> string" where
  "padded n = pad_start 3 (CHR ''0'') (decimal_digits n)"

definition canonical :: "string \<Rightarrow> bool" where
  "canonical ds \<longleftrightarrow> list_all digit_char ds \<and> 3 \<le> length ds \<and> (length ds = 3 \<or> hd ds \<noteq> CHR ''0'')"

lemma all_zeros: "list_all digit_char (replicate n (CHR ''0''))"
  by (simp add: list_all_iff)

lemma padded_canonical: "canonical (padded n)"
proof (cases "n < 100")
  case True
  then have "length (decimal_digits n) \<le> 2" using length_decimal_digits by blast
  then show ?thesis by (simp add: canonical_def padded_def pad_start_def decimal_digits_digits all_zeros)
next
  case False
  then have "3 \<le> length (decimal_digits n)" using length_decimal_digits(2)[of n] by simp
  then show ?thesis using hd_decimal_digits[of n] False
    by (simp add: canonical_def padded_def pad_start_def decimal_digits_digits)
qed

lemma padded_value [simp]: "digits_value (padded n) = n"
  by (simp add: padded_def pad_start_def)

lemma padded_unique:
  assumes "canonical ds"
  shows "padded (digits_value ds) = ds"
proof (cases "hd ds = CHR ''0''")
  case False
  then have "decimal_digits (digits_value ds) = ds"
    using assms by (intro decimal_digits_unique) (auto simp: canonical_def)
  then show ?thesis using assms by (simp add: padded_def pad_start_def canonical_def)
next
  case True
  then have "length ds = 3" using assms by (simp add: canonical_def)
  then obtain b c where ds: "ds = [CHR ''0'', b, c]"
    using True by (auto simp: numeral_3_eq_3 length_Suc_conv)
  then have bc: "digit_char b" "digit_char c" using assms by (simp_all add: canonical_def)
  have val: "digits_value ds = digits_value [b, c]" by (simp add: ds digits_value_def)
  show ?thesis
  proof (cases "b = CHR ''0''")
    case False
    then have "decimal_digits (digits_value ds) = [b, c]"
      unfolding val using bc by (intro decimal_digits_unique) simp_all
    then show ?thesis by (simp add: padded_def pad_start_def ds)
  next
    case True
    then have "digits_value ds = digit_value c" by (simp add: ds digits_value_def)
    then have "decimal_digits (digits_value ds) = [c]"
      using digit_char_cases[OF bc(2)] by (subst decimal_digits.simps) simp
    then show ?thesis using True by (simp add: padded_def pad_start_def ds numeral_2_eq_2)
  qed
qed

definition with_point :: "string \<Rightarrow> string" where
  "with_point ds = take (length ds - 2) ds @ ''.'' @ drop (length ds - 2) ds"

lemma fromMinorUnits_nat: "fromMinorUnits (int n) = with_point (padded n)"
  by (simp add: fromMinorUnits_def with_point_def padded_def Let_def)

lemma canonical_split:
  assumes "canonical ds"
  obtains whole b c where "ds = whole @ [b, c]" "whole \<noteq> []" "list_all digit_char whole" "digit_char b" "digit_char c"
    "whole = ''0'' \<or> hd whole \<noteq> CHR ''0''"
proof -
  obtain xs c where xs: "ds = xs @ [c]" using assms by (cases ds rule: rev_cases) (auto simp: canonical_def)
  obtain whole b where whole: "xs = whole @ [b]" using assms xs by (cases xs rule: rev_cases) (auto simp: canonical_def)
  have ne: "whole \<noteq> []" using assms xs whole by (auto simp: canonical_def)
  have "whole = ''0'' \<or> hd whole \<noteq> CHR ''0''"
  proof (cases "length ds = 3")
    case True
    then have "length whole = 1" using xs whole by simp
    then show ?thesis by (auto simp: length_Suc_conv)
  next
    case False
    then show ?thesis using assms xs whole ne by (auto simp: canonical_def hd_append)
  qed
  then show ?thesis using assms xs whole ne by (intro that[of whole b c]) (auto simp: canonical_def)
qed

lemma with_point_split: "with_point (whole @ [b, c]) = whole @ [CHR ''.'', b, c]"
  by (simp add: with_point_def)

lemma length_three:
  assumes "length xs = 3"
  obtains a b c where "xs = [a, b, c]"
  using assms by (auto simp: numeral_3_eq_3 length_Suc_conv)

lemma money_pattern_iff:
  "money_pattern s \<longleftrightarrow> (\<exists>whole b c. s = whole @ [CHR ''.'', b, c] \<and> whole \<noteq> [] \<and> list_all digit_char whole
     \<and> digit_char b \<and> digit_char c \<and> (whole = ''0'' \<or> hd whole \<noteq> CHR ''0''))"
proof
  assume p: "money_pattern s"
  then have len: "4 \<le> length s" by (simp add: money_pattern_def)
  let ?w = "take (length s - 3) s" and ?r = "drop (length s - 3) s"
  have "length ?r = 3" using len by simp
  then obtain a b c where r: "?r = [a, b, c]" by (rule length_three)
  have s: "s = ?w @ [a, b, c]" using append_take_drop_id[of "length s - 3" s] r by simp
  have ne: "?w \<noteq> []" using len by auto
  have "a = CHR ''.''" "digit_char b" "digit_char c" "list_all digit_char ?w" "?w = ''0'' \<or> hd ?w \<noteq> CHR ''0''"
    using p unfolding money_pattern_def r Let_def by (simp_all del: hd_take)
  then show "\<exists>whole b c. s = whole @ [CHR ''.'', b, c] \<and> whole \<noteq> [] \<and> list_all digit_char whole
     \<and> digit_char b \<and> digit_char c \<and> (whole = ''0'' \<or> hd whole \<noteq> CHR ''0'')"
    using s ne by blast
next
  assume "\<exists>whole b c. s = whole @ [CHR ''.'', b, c] \<and> whole \<noteq> [] \<and> list_all digit_char whole
     \<and> digit_char b \<and> digit_char c \<and> (whole = ''0'' \<or> hd whole \<noteq> CHR ''0'')"
  then obtain whole b c where "s = whole @ [CHR ''.'', b, c]" "whole \<noteq> []" "list_all digit_char whole"
    "digit_char b" "digit_char c" "whole = ''0'' \<or> hd whole \<noteq> CHR ''0''" by blast
  then show "money_pattern s" by (auto simp: money_pattern_def Let_def Suc_le_eq)
qed

lemma filter_digits: "list_all digit_char s \<Longrightarrow> filter (\<lambda>c. c \<noteq> CHR ''.'') s = s"
  by (induction s) auto

lemma toMinorUnits_with_point:
  assumes "canonical ds"
  shows "toMinorUnits (with_point ds) = Inr (int (digits_value ds))"
  using assms
proof (cases rule: canonical_split)
  case (1 whole b c)
  have "money_pattern (with_point ds)" unfolding 1(1) with_point_split money_pattern_iff using 1 by blast
  moreover have "filter (\<lambda>c. c \<noteq> CHR ''.'') (with_point ds) = ds"
    using 1 by (simp add: with_point_split filter_digits)
  ultimately show ?thesis by (simp add: toMinorUnits_def)
qed

lemma toMinorUnits_from: "toMinorUnits (fromMinorUnits (int n)) = Inr (int n)"
  by (simp add: fromMinorUnits_nat toMinorUnits_with_point padded_canonical)

lemma toMinorUnits_fromE:
  assumes "toMinorUnits s = Inr v"
  shows "0 \<le> v" and "fromMinorUnits v = s"
proof -
  have "money_pattern s" using assms by (auto simp: toMinorUnits_def split: if_splits)
  then obtain whole b c where s: "s = whole @ [CHR ''.'', b, c]" "whole \<noteq> []" "list_all digit_char whole"
    "digit_char b" "digit_char c" "whole = ''0'' \<or> hd whole \<noteq> CHR ''0''"
    unfolding money_pattern_iff by blast
  let ?ds = "whole @ [b, c]"
  have can: "canonical ?ds" using s by (cases whole) (auto simp: canonical_def)
  have "s = with_point ?ds" using s(1) by (simp add: with_point_split)
  moreover have v: "v = int (digits_value ?ds)" using assms calculation toMinorUnits_with_point[OF can] by simp
  ultimately show "0 \<le> v" and "fromMinorUnits v = s" by (simp_all add: fromMinorUnits_nat padded_unique[OF can])
qed

section \<open>Paid amounts\<close>

lemma paid_minor_sum:
  assumes "\<And>a c. (a, c) \<in> set rows \<Longrightarrow> 0 \<le> a"
  shows "paid_minor (map (\<lambda>(a, c). (fromMinorUnits a, c)) rows) acc = Inr (acc + sum_where (\<lambda>r. snd r = None) fst rows)"
  using assms
proof (induction rows arbitrary: acc)
  case (Cons r rows)
  obtain a c where r: "r = (a, c)" by (cases r)
  have "0 \<le> a" using Cons.prems r by auto
  then have "toMinorUnits (fromMinorUnits a) = Inr a" using toMinorUnits_from[of "nat a"] by simp
  moreover have "paid_minor (map (\<lambda>(a, c). (fromMinorUnits a, c)) rows) acc' = Inr (acc' + sum_where (\<lambda>r. snd r = None) fst rows)" for acc'
    using Cons.prems by (intro Cons.IH) auto
  ultimately show ?case by (simp add: r)
qed simp

lemma summary_exact:
  assumes "0 \<le> expected" and "\<And>a c. (a, c) \<in> set rows \<Longrightarrow> 0 \<le> a"
  shows "calculateOrderPaymentSummary (fromMinorUnits expected) (map (\<lambda>(a, c). (fromMinorUnits a, c)) rows) =
    (let paid = sum_where (\<lambda>r. snd r = None) fst rows in
     Inr \<lparr>pa_expected = fromMinorUnits expected, pa_paid = fromMinorUnits paid,
          pa_remaining = fromMinorUnits (expected - paid),
          pa_status = (if paid = 0 then UNPAID else if paid < expected then PARTIALLY_PAID
                       else if paid = expected then PAID else OVERPAID)\<rparr>)"
proof -
  have "toMinorUnits (fromMinorUnits expected) = Inr expected"
    using assms(1) toMinorUnits_from[of "nat expected"] by simp
  moreover have "paid_minor (map (\<lambda>(a, c). (fromMinorUnits a, c)) rows) 0 = Inr (0 + sum_where (\<lambda>r. snd r = None) fst rows)"
    by (rule paid_minor_sum[OF assms(2)])
  ultimately show ?thesis
    by (simp add: calculateOrderPaymentSummary_def payment_state_for_def Let_def)
qed

section \<open>Pricing\<close>

lemma js_set_fold:
  "set (foldl (\<lambda>s x. if x \<in> set s then s else s @ [x]) s0 xs) = set s0 \<union> set xs"
  "distinct s0 \<Longrightarrow> distinct (foldl (\<lambda>s x. if x \<in> set s then s else s @ [x]) s0 xs)"
  "s0 \<noteq> [] \<Longrightarrow> \<exists>ys. foldl (\<lambda>s x. if x \<in> set s then s else s @ [x]) s0 xs = hd s0 # ys"
proof (induction xs arbitrary: s0)
  case (Cons x xs)
  { case 1 show ?case using Cons(1) by auto }
  { case 2 then show ?case using Cons(2) by auto }
  { case 3
    have "hd (s0 @ [x]) = hd s0" using 3 by simp
    then show ?case using 3 Cons(3)[of s0] Cons(3)[of "s0 @ [x]"] by auto }
qed (auto simp: neq_Nil_conv)

lemma js_set_set [simp]: "set (js_set xs) = set xs"
  by (simp add: js_set_def js_set_fold)

lemma js_set_distinct [simp]: "distinct (js_set xs)"
  by (simp add: js_set_def js_set_fold)

lemma js_set_first: "js_set (x # xs) = x # tl (js_set (x # xs))"
  using js_set_fold(3)[of "[x]" xs] by (auto simp: js_set_def)

lemma distinct_one:
  assumes "distinct xs"
  shows "length xs \<le> 1 \<longleftrightarrow> (\<exists>c. set xs \<subseteq> {c})"
proof
  assume "length xs \<le> 1"
  then show "\<exists>c. set xs \<subseteq> {c}" by (cases xs) auto
next
  assume "\<exists>c. set xs \<subseteq> {c}"
  then obtain c where "set xs \<subseteq> {c}" ..
  then have "card (set xs) \<le> card {c}" by (intro card_mono) simp_all
  then show "length xs \<le> 1" using distinct_card[OF assms] by simp
qed

lemma line_currencies_set:
  "set (line_currencies lines) = {c. \<exists>l\<in>set lines. normalizeCurrency (li_currency l) = Some c}"
  unfolding line_currencies_def js_set_set by (induction lines) (auto simp: map_filter_simps split: option.splits)

definition priced_in :: "string \<Rightarrow> line_input \<Rightarrow> bool" where
  "priced_in c l \<longleftrightarrow> li_price l \<noteq> None \<and> normalizeCurrency (li_currency l) = Some c"

lemma no_issues_iff: "commercial_issues lines = [] \<longleftrightarrow> (\<exists>c. \<forall>l\<in>set lines. priced_in c l)"
proof -
  have "length (line_currencies lines) \<le> 1 \<longleftrightarrow> (\<exists>c. set (line_currencies lines) \<subseteq> {c})"
    by (rule distinct_one) (simp add: line_currencies_def)
  then have one: "\<not> 1 < length (line_currencies lines) \<longleftrightarrow>
      (\<exists>c. \<forall>l\<in>set lines. \<forall>c'. normalizeCurrency (li_currency l) = Some c' \<longrightarrow> c' = c)"
    unfolding line_currencies_set by (auto simp: not_less)
  have "commercial_issues lines = [] \<longleftrightarrow> \<not> list_ex (\<lambda>l. li_price l = None) lines \<and>
     \<not> list_ex (\<lambda>l. normalizeCurrency (li_currency l) = None) lines \<and> \<not> 1 < length (line_currencies lines)"
    by (simp add: commercial_issues_def)
  also have "\<dots> \<longleftrightarrow> (\<forall>l\<in>set lines. li_price l \<noteq> None) \<and> (\<forall>l\<in>set lines. normalizeCurrency (li_currency l) \<noteq> None) \<and>
     (\<exists>c. \<forall>l\<in>set lines. \<forall>c'. normalizeCurrency (li_currency l) = Some c' \<longrightarrow> c' = c)"
    unfolding one list_ex_iff by meson
  also have "\<dots> \<longleftrightarrow> (\<exists>c. \<forall>l\<in>set lines. priced_in c l)"
  proof
    assume *: "(\<forall>l\<in>set lines. li_price l \<noteq> None) \<and> (\<forall>l\<in>set lines. normalizeCurrency (li_currency l) \<noteq> None) \<and>
     (\<exists>c. \<forall>l\<in>set lines. \<forall>c'. normalizeCurrency (li_currency l) = Some c' \<longrightarrow> c' = c)"
    then obtain c where "\<forall>l\<in>set lines. \<forall>c'. normalizeCurrency (li_currency l) = Some c' \<longrightarrow> c' = c" by blast
    then have "priced_in c l" if "l \<in> set lines" for l
      using * that by (cases "normalizeCurrency (li_currency l)") (auto simp: priced_in_def)
    then show "\<exists>c. \<forall>l\<in>set lines. priced_in c l" by blast
  qed (auto simp: priced_in_def)
  finally show ?thesis .
qed

definition line_amount :: "line_input \<Rightarrow> int" where
  "line_amount l = (case li_price l of Some p \<Rightarrow> p * li_quantity l | None \<Rightarrow> 0)"

text \<open>The amounts that the decimal library computes exactly.\<close>

definition amounts_bounded :: "line_input list \<Rightarrow> bool" where
  "amounts_bounded lines \<longleftrightarrow>
     (\<forall>l\<in>set lines. \<forall>p. li_price l = Some p \<longrightarrow> abs p < decimal_bound) \<and>
     sum_list (map (\<lambda>l. abs (line_amount l)) lines) < decimal_bound"

lemma calculated_line_total:
  assumes "decimal_laws D is" and "li_price l = Some p" and "abs p < decimal_bound" and "abs (line_amount l) < decimal_bound"
  shows "snd (calculated_line D l) = Some (line_amount l)"
proof -
  have "is (dec_of D p) p" using assms(1,3) by (simp add: decimal_laws_def)
  then have "is (dec_mul D (dec_of D p) (li_quantity l)) (p * li_quantity l)"
    using assms(1,2,4) by (simp add: decimal_laws_def line_amount_def)
  then show ?thesis using assms(1,2) by (simp add: calculated_line_def decimal_laws_def line_amount_def)
qed

lemma abs_sum_list_le: "abs (sum_list (map f xs)) \<le> sum_list (map (\<lambda>x. abs (f x :: int)) xs)"
  by (induction xs) auto

lemma abs_line_le: "l \<in> set lines \<Longrightarrow> abs (line_amount l) \<le> sum_list (map (\<lambda>l. abs (line_amount l)) lines)"
proof (induction lines)
  case (Cons a lines)
  have "0 \<le> sum_list (map (\<lambda>l. abs (line_amount l)) lines)" by (rule sum_list_nonneg) auto
  then show ?case using Cons by auto
qed simp

lemma subtotal_exact:
  assumes "decimal_laws D is" and "is acc m"
    and "\<And>l. l \<in> set lines \<Longrightarrow> snd (calculated_line D l) = Some (line_amount l)"
    and "abs m + sum_list (map (\<lambda>l. abs (line_amount l)) lines) < decimal_bound"
  shows "is (foldl (\<lambda>acc (_, total). dec_add D acc (dec_of D (case total of Some v \<Rightarrow> v | None \<Rightarrow> 0))) acc
           (map (calculated_line D) lines)) (m + sum_list (map line_amount lines))"
  using assms(2-)
proof (induction lines arbitrary: acc m)
  case (Cons l lines)
  obtain x where cl: "calculated_line D l = (x, Some (line_amount l))"
    using Cons.prems(2)[of l] by (cases "calculated_line D l") simp
  have rest: "0 \<le> sum_list (map (\<lambda>l. abs (line_amount l)) lines)" by (rule sum_list_nonneg) auto
  then have "is (dec_of D (line_amount l)) (line_amount l)"
    using assms(1) Cons.prems(3) by (simp add: decimal_laws_def)
  then have "is (dec_add D acc (dec_of D (line_amount l))) (m + line_amount l)"
    using assms(1) Cons.prems(1,3) rest by (simp add: decimal_laws_def)
  from Cons.IH[OF this] show ?case using Cons.prems(2,3) by (simp add: cl add.assoc)
qed simp

lemma calculate_ready:
  assumes "decimal_laws D is" and "amounts_bounded lines" and "\<forall>l\<in>set lines. priced_in c l"
  shows "ca_status (calculateCommercialTerms D lines) = PRICING_READY"
    and "ca_total (calculateCommercialTerms D lines) = Some (sum_list (map line_amount lines))"
    and "ca_subtotal (calculateCommercialTerms D lines) = Some (sum_list (map line_amount lines))"
    and "ca_currency (calculateCommercialTerms D lines) = (if lines = [] then None else Some c)"
    and "map snd (ca_lines (calculateCommercialTerms D lines)) = map (Some \<circ> line_amount) lines"
proof -
  have ni: "commercial_issues lines = []" unfolding no_issues_iff using assms(3) by blast
  have lines: "snd (calculated_line D l) = Some (line_amount l)" if l: "l \<in> set lines" for l
  proof -
    obtain p where p: "li_price l = Some p" using assms(3) l by (auto simp: priced_in_def)
    have "abs (line_amount l) < decimal_bound"
      using abs_line_le[OF l] assms(2) by (simp add: amounts_bounded_def)
    then show ?thesis using calculated_line_total[OF assms(1) p] assms(2) l p by (simp add: amounts_bounded_def)
  qed
  have "is (foldl (\<lambda>acc (_, total). dec_add D acc (dec_of D (case total of Some v \<Rightarrow> v | None \<Rightarrow> 0))) (dec_zero D)
           (map (calculated_line D) lines)) (0 + sum_list (map line_amount lines))"
  proof (rule subtotal_exact[OF assms(1)])
    show "is (dec_zero D) 0" using assms(1) by (simp add: decimal_laws_def)
    show "abs (0::int) + sum_list (map (\<lambda>l. abs (line_amount l)) lines) < decimal_bound"
      using assms(2) by (simp add: amounts_bounded_def)
  qed (rule lines)
  then have sub: "dec_money D (foldl (\<lambda>acc (_, total). dec_add D acc (dec_of D (case total of Some v \<Rightarrow> v | None \<Rightarrow> 0))) (dec_zero D)
           (map (calculated_line D) lines)) = sum_list (map line_amount lines)"
    using assms(1) by (simp add: decimal_laws_def)
  have cur: "(case line_currencies lines of [] \<Rightarrow> None | c # _ \<Rightarrow> Some c) = (if lines = [] then None else Some c)"
  proof (cases "lines = []")
    case True
    then show ?thesis by (simp add: line_currencies_def js_set_def map_filter_simps)
  next
    case False
    then have "set (line_currencies lines) = {c}"
      using assms(3) unfolding line_currencies_set by (force simp: priced_in_def neq_Nil_conv)
    then show ?thesis using False by (cases "line_currencies lines") auto
  qed
  show "ca_status (calculateCommercialTerms D lines) = PRICING_READY"
    and "ca_total (calculateCommercialTerms D lines) = Some (sum_list (map line_amount lines))"
    and "ca_subtotal (calculateCommercialTerms D lines) = Some (sum_list (map line_amount lines))"
    and "ca_currency (calculateCommercialTerms D lines) = (if lines = [] then None else Some c)"
    and "map snd (ca_lines (calculateCommercialTerms D lines)) = map (Some \<circ> line_amount) lines"
    using lines by (simp_all add: calculateCommercialTerms_def ni Let_def sub cur)
qed

lemma calculate_needs_review:
  assumes "commercial_issues lines \<noteq> []"
  shows "ca_status (calculateCommercialTerms D lines) = PRICING_NEEDS_REVIEW"
    and "ca_total (calculateCommercialTerms D lines) = None" and "ca_subtotal (calculateCommercialTerms D lines) = None"
    and "ca_currency (calculateCommercialTerms D lines) = None"
    and "ca_issues (calculateCommercialTerms D lines) = commercial_issues lines"
  using assms by (simp_all add: calculateCommercialTerms_def Let_def)

section \<open>Materialized terms\<close>

lemma snapshot_line_frame:
  "snapshot_line t oid lt d = d\<lparr>order_items := order_items (snapshot_line t oid lt d)\<rparr>"
  by (simp add: snapshot_line_def split: prod.splits)

lemma fold_snapshot_frame:
  "fold (snapshot_line t oid) lts d = d\<lparr>order_items := order_items (fold (snapshot_line t oid) lts d)\<rparr>"
proof (induction lts arbitrary: d)
  case (Cons lt lts)
  have "fold (snapshot_line t oid) (lt # lts) d = fold (snapshot_line t oid) lts (snapshot_line t oid lt d)" by simp
  also have "\<dots> = (snapshot_line t oid lt d)\<lparr>order_items := order_items (fold (snapshot_line t oid) lts (snapshot_line t oid lt d))\<rparr>"
    by (rule Cons)
  also have "\<dots> = d\<lparr>order_items := order_items (fold (snapshot_line t oid) lts (snapshot_line t oid lt d))\<rparr>"
    by (simp add: snapshot_line_def split: prod.splits)
  finally show ?case by simp
qed simp

lemma fold_snapshot_tables [simp]:
  "terms_rows (fold (snapshot_line t oid) lts d) = terms_rows d"
  "next_id (fold (snapshot_line t oid) lts d) = next_id d"
  "legal_entities (fold (snapshot_line t oid) lts d) = legal_entities d"
  "bank_accounts (fold (snapshot_line t oid) lts d) = bank_accounts d"
  "payments (fold (snapshot_line t oid) lts d) = payments d"
  "orders (fold (snapshot_line t oid) lts d) = orders d"
  "reservations (fold (snapshot_line t oid) lts d) = reservations d"
  "products (fold (snapshot_line t oid) lts d) = products d"
  "lifecycle_requests (fold (snapshot_line t oid) lts d) = lifecycle_requests d"
  "audit_logs (fold (snapshot_line t oid) lts d) = audit_logs d"
  by (subst fold_snapshot_frame, simp)+

lemma upsert_terms_tables [simp]:
  "order_items (upsert_terms t oid f d) = order_items d"
  "legal_entities (upsert_terms t oid f d) = legal_entities d"
  "bank_accounts (upsert_terms t oid f d) = bank_accounts d"
  "payments (upsert_terms t oid f d) = payments d"
  "orders (upsert_terms t oid f d) = orders d"
  "reservations (upsert_terms t oid f d) = reservations d"
  "products (upsert_terms t oid f d) = products d"
  "lifecycle_requests (upsert_terms t oid f d) = lifecycle_requests d"
  "audit_logs (upsert_terms t oid f d) = audit_logs d"
  by (simp_all add: upsert_terms_def)

lemma materialize_unfold:
  "materializeCommercialTerms D t oid actor lines sel d =
     (let calc = calculateCommercialTerms D lines; entity = choose_entity t sel d;
          account = choose_account t sel entity (ca_currency calc) d
      in Inr (calc, upsert_terms t oid (write_terms entity account calc actor)
                (fold (snapshot_line t oid) (ca_lines calc) d)))"
  by (simp add: materializeCommercialTerms_def tx_run Let_def)

lemma write_terms_simps [simp]:
  "ct_id (write_terms e a c actor r) = ct_id r" "ct_tenant (write_terms e a c actor r) = ct_tenant r"
  "ct_order (write_terms e a c actor r) = ct_order r" "ct_version (write_terms e a c actor r) = ct_version r"
  "ct_entity (write_terms e a c actor r) = map_option le_id e" "ct_account (write_terms e a c actor r) = map_option ba_id a"
  "ct_currency (write_terms e a c actor r) = ca_currency c" "ct_total (write_terms e a c actor r) = ca_total c"
  "ct_pricing (write_terms e a c actor r) = ca_status c" "ct_discount (write_terms e a c actor r) = ct_discount r"
  "ct_issues (write_terms e a c actor r) = ca_issues c"
  by (simp_all add: write_terms_def)

lemma find_entityD:
  assumes "find_entity t eid d = Some e"
  shows "e \<in> set (legal_entities d)" "le_id e = eid" "le_tenant e = t" "le_active e"
  using assms find_some_set[of _ "legal_entities d" e] find_some_prop[of _ "legal_entities d" e] by (auto simp: find_entity_def)

lemma find_accountD:
  assumes "find_account t aid eid c d = Some a"
  shows "a \<in> set (bank_accounts d)" "ba_id a = aid" "ba_tenant a = t" "ba_entity a = eid" "ba_currency a = c" "ba_active a"
  using assms find_some_set[of _ "bank_accounts d" a] find_some_prop[of _ "bank_accounts d" a] by (auto simp: find_account_def)

lemma choose_entityD:
  assumes "choose_entity t sel d = Some e"
  shows "e \<in> set (legal_entities d)" "le_tenant e = t" "le_active e"
proof -
  have "e \<in> set (legal_entities d) \<and> le_tenant e = t \<and> le_active e"
    using assms find_sorted_set[of _ _ "legal_entities d" e] find_entityD[of t _ d e]
    by (auto simp: choose_entity_def default_entity_def split: option.splits)
  then show "e \<in> set (legal_entities d)" "le_tenant e = t" "le_active e" by auto
qed

lemma choose_accountD:
  assumes "choose_account t sel entity currency d = Some a"
  shows "a \<in> set (bank_accounts d) \<and> ba_tenant a = t \<and> ba_active a \<and>
    map_option le_id entity = Some (ba_entity a) \<and> currency = Some (ba_currency a)"
proof -
  obtain e c where ec: "entity = Some e" "currency = Some c"
    using assms by (auto simp: choose_account_def split: option.splits)
  have "(\<exists>aid. find_account t aid (le_id e) c d = Some a) \<or> default_account t (le_id e) c d = Some a"
    using assms by (auto simp: choose_account_def ec split: option.splits)
  then have "a \<in> set (bank_accounts d) \<and> ba_tenant a = t \<and> ba_active a \<and> ba_entity a = le_id e \<and> ba_currency a = c"
    using find_sorted_set[of _ _ "bank_accounts d" a] by (auto simp: default_account_def dest: find_accountD)
  then show ?thesis using ec by simp
qed

definition wf_terms :: "db \<Rightarrow> bool" where
  "wf_terms d \<longleftrightarrow> distinct (map ct_order (terms_rows d)) \<and> distinct (map ct_id (terms_rows d))
     \<and> (\<forall>c\<in>set (terms_rows d). \<forall>r\<in>set (orders d). ct_order c = o_id r \<longrightarrow> ct_tenant c = o_tenant r)"

lemma upsert_terms_of:
  assumes "\<And>c. c \<in> set (terms_rows d) \<Longrightarrow> ct_order c = oid \<Longrightarrow> ct_tenant c = t"
    and "\<And>c. ct_tenant (f c) = ct_tenant c" and "\<And>c. ct_order (f c) = ct_order c"
  shows "terms_of t oid (upsert_terms t oid f d) =
     Some (case terms_of t oid d of
         Some c \<Rightarrow> (f c)\<lparr>ct_version := ct_version c + 1\<rparr>
       | None \<Rightarrow> f (blank_terms (next_id d) t oid))"
proof -
  have upd: "List.find (\<lambda>c. ct_tenant c = t \<and> ct_order c = oid) (update_where (\<lambda>c. ct_order c = oid) g rows) =
      map_option g (List.find (\<lambda>c. ct_tenant c = t \<and> ct_order c = oid) rows)"
    if "\<And>c. ct_tenant (g c) = ct_tenant c" "\<And>c. ct_order (g c) = ct_order c" for g rows
    using that by (induction rows) auto
  have app: "List.find P (rows @ [x]) = (case List.find P rows of None \<Rightarrow> if P x then Some x else None | Some y \<Rightarrow> Some y)"
    for P :: "commercial_terms \<Rightarrow> bool" and rows x
    by (induction rows) auto
  show ?thesis
  proof (cases "any_row (\<lambda>c. ct_order c = oid) (terms_rows d)")
    case True
    then obtain c where "c \<in> set (terms_rows d)" "ct_order c = oid" by auto
    then have "terms_of t oid d \<noteq> None" using assms(1)[of c] by (auto simp: terms_of_def find_None_iff)
    then show ?thesis using True assms(2,3)
      by (auto simp: upsert_terms_def terms_of_def upd)
  next
    case False
    then have "terms_of t oid d = None" by (auto simp: terms_of_def find_None_iff)
    then show ?thesis using False assms(2,3)
      by (auto simp: upsert_terms_def terms_of_def app blank_terms_def)
  qed
qed

section \<open>An instance of the decimal operations\<close>

definition exact_decimal :: "int decimal_ops" where
  "exact_decimal = \<lparr>dec_of = (\<lambda>m. m), dec_mul = (\<lambda>x q. x * q), dec_add = (\<lambda>x y. x + y), dec_zero = 0,
     dec_money = (\<lambda>x. x)\<rparr>"

lemma exact_decimal_laws: "decimal_laws exact_decimal (\<lambda>x m. x = m)"
  by (simp add: decimal_laws_def exact_decimal_def)

definition sample_lines :: "line_input list" where
  "sample_lines = [\<lparr>li_item = 30, li_quantity = 4, li_price = Some 1050, li_currency = Some '' uah '', li_sku = Some ''A''\<rparr>,
     \<lparr>li_item = 31, li_quantity = 1, li_price = Some 99, li_currency = Some ''UAH'', li_sku = Some ''B''\<rparr>]"

lemma sample_priced: "\<forall>l\<in>set sample_lines. priced_in ''UAH'' l"
  by code_simp

lemma sample_bounded: "amounts_bounded sample_lines"
  by (simp add: amounts_bounded_def sample_lines_def line_amount_def decimal_bound_def)

section \<open>Properties\<close>

text \<open>C8.
  Canonical money text and minor units are in bijection: a text converts to an
  amount exactly when the amount is not negative and prints as that text.\<close>

theorem money_text_round_trip:
  "toMinorUnits s = Inr v \<longleftrightarrow> 0 \<le> v \<and> fromMinorUnits v = s"
proof
  assume "toMinorUnits s = Inr v"
  then show "0 \<le> v \<and> fromMinorUnits v = s" using toMinorUnits_fromE by blast
next
  assume "0 \<le> v \<and> fromMinorUnits v = s"
  then show "toMinorUnits s = Inr v" using toMinorUnits_from[of "nat v"] by auto
qed

text \<open>The payment summary of an order.  For an expected amount and payments in
  canonical text it never fails; cancelled payments do not count; the texts are the
  expected, the paid and the remaining amount, and the state compares the first two.\<close>

theorem payment_summary_exact:
  assumes "0 \<le> expected" and "\<And>a c. (a, c) \<in> set rows \<Longrightarrow> 0 \<le> a"
  shows "calculateOrderPaymentSummary (fromMinorUnits expected) (map (\<lambda>(a, c). (fromMinorUnits a, c)) rows) =
    (let paid = sum_where (\<lambda>r. snd r = None) fst rows in
     Inr \<lparr>pa_expected = fromMinorUnits expected, pa_paid = fromMinorUnits paid,
          pa_remaining = fromMinorUnits (expected - paid),
          pa_status = (if paid = 0 then UNPAID else if paid < expected then PARTIALLY_PAID
                       else if paid = expected then PAID else OVERPAID)\<rparr>)"
  using assms by (rule summary_exact)

theorem payment_summary_exact_witness:
  "calculateOrderPaymentSummary (fromMinorUnits 1250) [(fromMinorUnits 1000, None), (fromMinorUnits 700, Some 5)] =
     Inr \<lparr>pa_expected = ''12.50'', pa_paid = ''10.00'', pa_remaining = ''2.50'', pa_status = PARTIALLY_PAID\<rparr>"
proof -
  have "fromMinorUnits 1250 = ''12.50''" "fromMinorUnits 1000 = ''10.00''" "fromMinorUnits 250 = ''2.50''"
    by code_simp+
  moreover have "0 \<le> a" if "(a, c) \<in> set [(1000, None), (700, Some (5::int))]" for a :: int and c using that by auto
  ultimately show ?thesis using payment_summary_exact[of 1250 "[(1000, None), (700, Some 5)]"] by (simp add: Let_def)
qed

text \<open>Pricing.  An order is priced (READY) exactly when every line has a price and
  all lines have the same valid currency; its total is then the exact sum of price
  times quantity in that currency, provided the decimal library is exact on the
  amounts involved.  Otherwise it needs review, names the issues and has no total.\<close>

theorem pricing_ready_iff:
  assumes "decimal_laws D is" and "amounts_bounded lines"
  shows "(ca_status (calculateCommercialTerms D lines) = PRICING_READY \<longleftrightarrow> (\<exists>c. \<forall>l\<in>set lines. priced_in c l)) \<and>
    (case ca_status (calculateCommercialTerms D lines) of
       PRICING_READY \<Rightarrow> ca_total (calculateCommercialTerms D lines) = Some (sum_list (map line_amount lines))
         \<and> ca_issues (calculateCommercialTerms D lines) = []
         \<and> (lines \<noteq> [] \<longrightarrow> (\<exists>c. ca_currency (calculateCommercialTerms D lines) = Some c \<and> (\<forall>l\<in>set lines. priced_in c l)))
     | PRICING_NEEDS_REVIEW \<Rightarrow> ca_total (calculateCommercialTerms D lines) = None
         \<and> ca_currency (calculateCommercialTerms D lines) = None
         \<and> ca_issues (calculateCommercialTerms D lines) \<noteq> [])"
proof (cases "commercial_issues lines = []")
  case True
  then obtain c where c: "\<forall>l\<in>set lines. priced_in c l" unfolding no_issues_iff by blast
  have "ca_issues (calculateCommercialTerms D lines) = []" using True by (simp add: calculateCommercialTerms_def Let_def)
  then show ?thesis using calculate_ready[OF assms c] c by auto
next
  case False
  then have "\<not> (\<exists>c. \<forall>l\<in>set lines. priced_in c l)" unfolding no_issues_iff .
  then show ?thesis using calculate_needs_review[OF False, of D] False by simp
qed

theorem pricing_ready_iff_witness:
  "ca_total (calculateCommercialTerms exact_decimal sample_lines) = Some 4299"
proof -
  have "ca_status (calculateCommercialTerms exact_decimal sample_lines) = PRICING_READY"
    using pricing_ready_iff[OF exact_decimal_laws sample_bounded] sample_priced by blast
  then show ?thesis
    using pricing_ready_iff[OF exact_decimal_laws sample_bounded] by (simp add: sample_lines_def line_amount_def)
qed

text \<open>Materializing the terms of an order writes one row for it.  The row carries
  the calculation; a chosen legal entity is an active one of the tenant, a chosen
  bank account is an active account of that entity in the order's currency; a row
  that existed counts its version up by one, a new row starts at version one.\<close>

theorem materialized_terms:
  assumes "materializeCommercialTerms D t oid actor lines sel d = Inr (calc, d')"
    and "\<And>c. c \<in> set (terms_rows d) \<Longrightarrow> ct_order c = oid \<Longrightarrow> ct_tenant c = t"
  shows "\<exists>c. terms_of t oid d' = Some c \<and> calc = calculateCommercialTerms D lines
     \<and> ct_pricing c = ca_status calc \<and> ct_total c = ca_total calc \<and> ct_currency c = ca_currency calc
     \<and> ct_issues c = ca_issues calc
     \<and> ct_version c = (case terms_of t oid d of None \<Rightarrow> 1 | Some old \<Rightarrow> ct_version old + 1)
     \<and> (\<forall>eid. ct_entity c = Some eid \<longrightarrow> (\<exists>e\<in>set (legal_entities d). le_id e = eid \<and> le_tenant e = t \<and> le_active e))
     \<and> (\<forall>aid. ct_account c = Some aid \<longrightarrow> (\<exists>a\<in>set (bank_accounts d). ba_id a = aid \<and> ba_tenant a = t \<and> ba_active a
          \<and> ct_entity c = Some (ba_entity a) \<and> ct_currency c = Some (ba_currency a)))"
proof -
  let ?calc = "calculateCommercialTerms D lines"
  let ?entity = "choose_entity t sel d"
  let ?account = "choose_account t sel ?entity (ca_currency ?calc) d"
  have r: "calc = ?calc" "d' = upsert_terms t oid (write_terms ?entity ?account ?calc actor)
                (fold (snapshot_line t oid) (ca_lines ?calc) d)"
    using assms(1) by (auto simp: materialize_unfold Let_def)
  have "terms_of t oid d' = Some (case terms_of t oid d of
         Some c \<Rightarrow> (write_terms ?entity ?account ?calc actor c)\<lparr>ct_version := ct_version c + 1\<rparr>
       | None \<Rightarrow> write_terms ?entity ?account ?calc actor (blank_terms (next_id d) t oid))"
    unfolding r(2) using assms(2) by (subst upsert_terms_of) (auto simp: terms_of_def cong: option.case_cong)
  moreover have "\<exists>e\<in>set (legal_entities d). le_id e = eid \<and> le_tenant e = t \<and> le_active e"
    if "map_option le_id ?entity = Some eid" for eid
    using that by (auto dest: choose_entityD)
  moreover have "\<exists>a\<in>set (bank_accounts d). ba_id a = aid \<and> ba_tenant a = t \<and> ba_active a
          \<and> map_option le_id ?entity = Some (ba_entity a) \<and> ca_currency ?calc = Some (ba_currency a)"
    if "map_option ba_id ?account = Some aid" for aid
    using that choose_accountD[of t sel ?entity "ca_currency ?calc" d] by auto
  ultimately show ?thesis using r(1)
    by (cases "terms_of t oid d") (simp_all add: blank_terms_def)
qed

theorem materialized_terms_witness:
  "\<exists>c d'. materializeCommercialTerms exact_decimal 7 20 ''m'' sample_lines None empty_db
       = Inr (calculateCommercialTerms exact_decimal sample_lines, d') \<and> terms_of 7 20 d' = Some c \<and> ct_version c = 1"
proof -
  obtain d' where r: "materializeCommercialTerms exact_decimal 7 20 ''m'' sample_lines None empty_db
       = Inr (calculateCommercialTerms exact_decimal sample_lines, d')"
    by (simp add: materialize_unfold Let_def)
  have "terms_of 7 20 empty_db = None" by (simp add: terms_of_def empty_db_def)
  then show ?thesis using materialized_terms[OF r] r by (fastforce simp: empty_db_def)
qed

end
