(* ===== verification/Payments_Props.thy ===== *)
theory Payments_Props
  imports Payments Money_Props Procurement_Props
begin

text \<open>
  Payments: one elimination rule per transaction, the ledger sum of an order, the
  interpretation of \<open>tenant_commands\<close> on the payment commands, and the properties.
\<close>

section \<open>Reading\<close>

lemma readyOrder_Inr:
  "readyOrder t oid d = Inr (c, d') \<longleftrightarrow>
     d' = d \<and> find_order t oid d \<noteq> None \<and> terms_of t oid d = Some c \<and> terms_ready c"
  by (auto simp: readyOrder_def tx_run split: option.splits)

lemma readyOrder_cong:
  "orders d' = orders d \<Longrightarrow> terms_rows d' = terms_rows d \<Longrightarrow>
     readyOrder t oid d' = (case readyOrder t oid d of Inl e \<Rightarrow> Inl e | Inr (c, _) \<Rightarrow> Inr (c, d'))"
  by (auto simp: readyOrder_def tx_run find_order_def terms_of_def split: option.splits)

lemma check_bank_account_Inr: "check_bank_account t c input d = Inr (u, d') \<Longrightarrow> d' = d"
  by (auto simp: check_bank_account_def tx_run split: if_splits option.splits)

lemma check_bank_account_cong:
  "bank_accounts d' = bank_accounts d \<Longrightarrow>
     check_bank_account t c input d' = (case check_bank_account t c input d of Inl e \<Rightarrow> Inl e | Inr (u, _) \<Rightarrow> Inr (u, d'))"
  by (auto simp: check_bank_account_def tx_run find_account_def split: option.splits)

lemma get_payments_unfold:
  "get_payments fixed2 t oid d = (case readyOrder t oid d of Inl e \<Rightarrow> Inl e | Inr (c, _) \<Rightarrow>
     (case calculateOrderPaymentSummary (fixed2 (the (ct_total c)))
             (map (\<lambda>p. (fixed2 (pay_amount p), pay_cancelled_at p)) (payments_of t oid d)) of
        Inl e \<Rightarrow> Inl e
      | Inr amounts \<Rightarrow> Inr (\<lparr>pv_amounts = amounts, pv_currency = the (ct_currency c), pv_payments = payments_of t oid d\<rparr>, d)))"
  by (cases "readyOrder t oid d") (auto simp: get_payments_def tx_bind_def tx_defs readyOrder_Inr split: sum.splits)

lemma get_payments_keeps: "get_payments fixed2 t oid d = Inr (v, d') \<Longrightarrow> d' = d"
  by (auto simp: get_payments_unfold split: sum.splits)

section \<open>The retry loop\<close>

lemma serializable_eq:
  "serializable conflict op d =
     (if conflict 1 \<and> conflict 2 \<and> conflict 3 then (Inl WriteConflict, d) else run_tx op d)"
proof -
  have 3: "serializable_from 3 conflict op d = (if conflict 3 then (Inl WriteConflict, d) else run_tx op d)"
    by (subst serializable_from.simps) (simp add: max_serializable_attempts_def)
  have 2: "serializable_from 2 conflict op d = (if conflict 2 then serializable_from 3 conflict op d else run_tx op d)"
    by (subst serializable_from.simps) (simp add: max_serializable_attempts_def)
  have "serializable_from 1 conflict op d = (if conflict 1 then serializable_from 2 conflict op d else run_tx op d)"
    by (subst serializable_from.simps) (simp add: max_serializable_attempts_def numeral_2_eq_2)
  then show ?thesis by (simp add: serializable_def 2 3)
qed

section \<open>Recording\<close>

definition recorded :: "uuid \<Rightarrow> uuid \<Rightarrow> string \<Rightarrow> create_payment \<Rightarrow> string \<Rightarrow> instant \<Rightarrow> string \<Rightarrow> db \<Rightarrow> db" where
  "recorded t oid actor input requestHash createdAt currency d =
     d\<lparr>payments := payments d @ [new_payment (next_id d) t oid actor currency input requestHash createdAt],
       next_id := next_id d + 1,
       audit_logs := audit_logs d @ [\<lparr>au_tenant = t, au_order = oid, au_actor = actor,
          au_event = ORDER_PAYMENT_RECORDED (next_id d) (cp_amount input) currency (cp_method input)
             (cp_bank_account input) (non_empty (cp_carrier input))\<rparr>]\<rparr>"

lemma new_payment_simps [simp]:
  "pay_id (new_payment pid t oid actor cur input h ts) = pid" "pay_tenant (new_payment pid t oid actor cur input h ts) = t"
  "pay_order (new_payment pid t oid actor cur input h ts) = oid" "pay_key (new_payment pid t oid actor cur input h ts) = cp_key input"
  "pay_hash (new_payment pid t oid actor cur input h ts) = h" "pay_amount (new_payment pid t oid actor cur input h ts) = cp_amount input"
  "pay_currency (new_payment pid t oid actor cur input h ts) = cur"
  "pay_cancelled_at (new_payment pid t oid actor cur input h ts) = None"
  "pay_cancel_key (new_payment pid t oid actor cur input h ts) = None"
  by (simp_all add: new_payment_def)

lemma record_unfold:
  "record_tx t oid actor input requestHash createdAt concurrent d =
     (if tenant_frozen t d then Inl (TenantLifecycleFrozen PAYMENT)
      else case readyOrder t oid d of Inl e \<Rightarrow> Inl e | Inr (c, d1) \<Rightarrow>
      (case check_bank_account t c input d1 of Inl e \<Rightarrow> Inl e | Inr (_, d2) \<Rightarrow>
      (case payment_by_key t (cp_key input) (payments d2) of
         Some e \<Rightarrow> if pay_order e \<noteq> oid \<or> pay_hash e \<noteq> requestHash
           then Inl (Conflict ''Idempotency key was already used'') else Inr ((), d2)
       | None \<Rightarrow>
           if cp_amount input \<le> 0 \<or> length (the (ct_currency c)) \<noteq> 3 then Inl CheckViolation
           else if payment_by_key t (cp_key input) (payments d2 @ concurrent) \<noteq> None then Inl UniqueViolation
           else Inr ((), recorded t oid actor input requestHash createdAt (the (ct_currency c)) d2))))"
  unfolding record_tx_def assertCreateReplay_def create_payment_row_def recorded_def
  by (simp add: tx_run tx_bind_cases create_audit_def assertTenantAcceptingMutations_def Let_def cong: if_cong option.case_cong sum.case_cong)

lemma recordE:
  assumes "record_tx t oid actor input requestHash createdAt concurrent d = Inr (u, d')"
  obtains (replay) c e where "\<not> tenant_frozen t d" "readyOrder t oid d = Inr (c, d)"
      "check_bank_account t c input d = Inr ((), d)"
      "payment_by_key t (cp_key input) (payments d) = Some e" "pay_order e = oid" "pay_hash e = requestHash" "d' = d"
    | (created) c where "\<not> tenant_frozen t d" "readyOrder t oid d = Inr (c, d)"
      "check_bank_account t c input d = Inr ((), d)" "0 < cp_amount input" "length (the (ct_currency c)) = 3"
      "payment_by_key t (cp_key input) (payments d @ concurrent) = None"
      "d' = recorded t oid actor input requestHash createdAt (the (ct_currency c)) d"
proof -
  from assms obtain c where c: "\<not> tenant_frozen t d" "readyOrder t oid d = Inr (c, d)"
    by (auto simp: record_unfold readyOrder_Inr split: if_splits sum.splits)
  from assms c have b: "check_bank_account t c input d = Inr ((), d)"
    by (auto simp: record_unfold split: sum.splits dest: check_bank_account_Inr)
  show ?thesis
  proof (cases "payment_by_key t (cp_key input) (payments d)")
    case (Some e)
    then show ?thesis using assms c b by (intro replay[of c e]) (auto simp: record_unfold split: if_splits)
  next
    case None
    then show ?thesis using assms c b by (intro created[of c]) (auto simp: record_unfold split: if_splits)
  qed
qed

lemma record_unique_violation:
  assumes "record_tx t oid actor input requestHash createdAt concurrent d = Inl UniqueViolation"
  obtains c where "\<not> tenant_frozen t d" "readyOrder t oid d = Inr (c, d)" "check_bank_account t c input d = Inr ((), d)"
      "payment_by_key t (cp_key input) (payments d) = None" "payment_by_key t (cp_key input) (payments d @ concurrent) \<noteq> None"
proof -
  have r: "readyOrder t oid d \<noteq> Inl UniqueViolation"
    by (auto simp: readyOrder_def tx_run split: option.splits)
  have b: "check_bank_account t c input d \<noteq> Inl UniqueViolation" for c
    by (auto simp: check_bank_account_def tx_run split: option.splits if_splits)
  from assms r obtain c where c: "\<not> tenant_frozen t d" "readyOrder t oid d = Inr (c, d)"
    by (auto simp: record_unfold readyOrder_Inr split: if_splits sum.splits)
  from assms c b have b': "check_bank_account t c input d = Inr ((), d)"
    by (auto simp: record_unfold split: sum.splits dest: check_bank_account_Inr)
  show ?thesis using assms c b' by (intro that[of c]) (auto simp: record_unfold split: if_splits option.splits)
qed

definition wf_payments :: "db \<Rightarrow> bool" where
  "wf_payments d \<longleftrightarrow> distinct (map pay_id (payments d)) \<and>
     distinct (map (\<lambda>p. (pay_tenant p, pay_key p)) (payments d)) \<and> (\<forall>p\<in>set (payments d). pay_id p < next_id d)"

lemma payment_by_key_None:
  "payment_by_key t key ps = None \<longleftrightarrow> (\<forall>p\<in>set ps. \<not> (pay_tenant p = t \<and> pay_key p = key))"
  by (auto simp: payment_by_key_def find_None_iff)

lemma find_append: "List.find P (xs @ ys) = (case List.find P xs of Some x \<Rightarrow> Some x | None \<Rightarrow> List.find P ys)"
  by (induction xs) auto

lemma wf_recorded:
  assumes "wf_payments d" and "payment_by_key t (cp_key input) (payments d) = None"
  shows "wf_payments (recorded t oid actor input h ts cur d)"
  using assms by (fastforce simp: wf_payments_def recorded_def payment_by_key_None)

lemma others_recorded: "others_unchanged t d (recorded t oid actor input h ts cur d)"
  by (simp add: others_unchanged_def tenant_slice_def recorded_def)

section \<open>Cancelling\<close>

definition cancelled :: "uuid \<Rightarrow> uuid \<Rightarrow> uuid \<Rightarrow> string \<Rightarrow> cancel_input \<Rightarrow> string \<Rightarrow> instant \<Rightarrow> db \<Rightarrow> db" where
  "cancelled t oid pid actor input requestHash now d =
     d\<lparr>payments := update_where (\<lambda>q. pay_id q = pid \<and> pay_tenant q = t \<and> pay_order q = oid \<and> pay_cancelled_at q = None)
         (cancel_row actor input requestHash now) (payments d),
       audit_logs := audit_logs d @ [\<lparr>au_tenant = t, au_order = oid, au_actor = actor,
          au_event = ORDER_PAYMENT_CANCELLED pid\<rparr>]\<rparr>"

lemma cancel_unfold:
  "cancel_tx t oid pid actor input requestHash now d =
     (if tenant_frozen t d then Inl (TenantLifecycleFrozen PAYMENT)
      else case find_payment t oid pid d of
        None \<Rightarrow> Inl (NotFound ''Payment not found'')
      | Some p \<Rightarrow>
          if pay_cancelled_at p \<noteq> None
          then if \<not> (pay_cancel_key p = Some (cc_idempotency_key input) \<and> pay_cancel_hash p = Some requestHash)
               then Inl (Conflict ''Payment is already cancelled'') else Inr ((), d)
          else if any_row (\<lambda>q. pay_tenant q = t \<and> pay_cancel_key q = Some (cc_idempotency_key input)) (payments d)
          then Inl UniqueViolation
          else if count_where (\<lambda>q. pay_id q = pid \<and> pay_tenant q = t \<and> pay_order q = oid
                        \<and> pay_cancelled_at q = None) (payments d) \<noteq> 1
          then Inl (Conflict ''Payment changed; reload and try again'')
          else Inr ((), cancelled t oid pid actor input requestHash now d))"
  unfolding cancel_tx_def cancelled_def
  by (simp add: tx_run create_audit_def Let_def cong: if_cong option.case_cong)

lemma cancel_row_simps [simp]:
  "pay_id (cancel_row actor input h now p) = pay_id p" "pay_tenant (cancel_row actor input h now p) = pay_tenant p"
  "pay_order (cancel_row actor input h now p) = pay_order p" "pay_key (cancel_row actor input h now p) = pay_key p"
  "pay_amount (cancel_row actor input h now p) = pay_amount p" "pay_cancelled_at (cancel_row actor input h now p) = Some now"
  "pay_cancel_key (cancel_row actor input h now p) = Some (cc_idempotency_key input)"
  "pay_cancel_hash (cancel_row actor input h now p) = Some h"
  by (simp_all add: cancel_row_def)

lemma cancelE:
  assumes "cancel_tx t oid pid actor input requestHash now d = Inr (u, d')"
  obtains (replay) p where "\<not> tenant_frozen t d" "find_payment t oid pid d = Some p" "pay_cancelled_at p \<noteq> None"
      "pay_cancel_key p = Some (cc_idempotency_key input)" "pay_cancel_hash p = Some requestHash" "d' = d"
    | (first) p where "\<not> tenant_frozen t d" "find_payment t oid pid d = Some p" "pay_cancelled_at p = None"
      "d' = cancelled t oid pid actor input requestHash now d"
  using assms by (auto simp: cancel_unfold split: if_splits option.splits)

lemma wf_cancelled: "wf_payments (cancelled t oid pid actor input h now d) = wf_payments d"
proof -
  let ?upd = "update_where (\<lambda>q. pay_id q = pid \<and> pay_tenant q = t \<and> pay_order q = oid \<and> pay_cancelled_at q = None)
         (cancel_row actor input h now) (payments d)"
  have ids: "map pay_id ?upd = map pay_id (payments d)"
    "map (\<lambda>p. (pay_tenant p, pay_key p)) ?upd = map (\<lambda>p. (pay_tenant p, pay_key p)) (payments d)"
    by (rule map_update_where, simp)+
  have "list_all (\<lambda>i. i < n) (map pay_id ?upd) = list_all (\<lambda>i. i < n) (map pay_id (payments d))" for n
    by (simp only: ids(1))
  then have "(\<forall>p\<in>set ?upd. pay_id p < n) \<longleftrightarrow> (\<forall>p\<in>set (payments d). pay_id p < n)" for n
    by (simp add: list_all_iff)
  then show ?thesis unfolding wf_payments_def cancelled_def by (simp add: ids)
qed

lemma others_cancelled: "others_unchanged t d (cancelled t oid pid actor input h now d)"
proof -
  have "filter (\<lambda>p. pay_tenant p = t') (update_where (\<lambda>q. pay_id q = pid \<and> pay_tenant q = t \<and> pay_order q = oid \<and> pay_cancelled_at q = None)
         (cancel_row actor input h now) (payments d)) = filter (\<lambda>p. pay_tenant p = t') (payments d)" if "t' \<noteq> t" for t'
    using that by (intro filter_update_where_other) auto
  then show ?thesis by (simp add: others_unchanged_def tenant_slice_def cancelled_def)
qed

lemma find_paymentD:
  assumes "find_payment t oid pid d = Some p"
  shows "p \<in> set (payments d)" "pay_id p = pid" "pay_tenant p = t" "pay_order p = oid"
  using assms find_some_set[of _ "payments d" p] find_some_prop[of _ "payments d" p] by (auto simp: find_payment_def)

section \<open>What an order has received\<close>

definition paid_sum :: "uuid \<Rightarrow> uuid \<Rightarrow> db \<Rightarrow> int" where
  "paid_sum t oid d = sum_where (\<lambda>p. pay_tenant p = t \<and> pay_order p = oid \<and> pay_cancelled_at p = None) pay_amount (payments d)"

lemma paid_sum_recorded:
  "paid_sum t' oid' (recorded t oid actor input h ts cur d) =
     paid_sum t' oid' d + (if t' = t \<and> oid' = oid then cp_amount input else 0)"
  by (auto simp: paid_sum_def recorded_def)

lemma paid_sum_cancelled:
  assumes "wf_payments d" and "find_payment t oid pid d = Some p" and "pay_cancelled_at p = None"
  shows "paid_sum t oid (cancelled t oid pid actor input h now d) = paid_sum t oid d - pay_amount p"
proof -
  let ?P = "\<lambda>q. pay_id q = pid \<and> pay_tenant q = t \<and> pay_order q = oid \<and> pay_cancelled_at q = None"
  let ?Q = "\<lambda>p. pay_tenant p = t \<and> pay_order p = oid \<and> pay_cancelled_at p = None"
  note p = find_paymentD[OF assms(2)]
  have "paid_sum t oid (cancelled t oid pid actor input h now d) = sum_where (\<lambda>q. ?Q q \<and> \<not> ?P q) pay_amount (payments d)"
  proof -
    have "paid_sum t oid (cancelled t oid pid actor input h now d) =
        sum_where ?Q pay_amount (update_where ?P (cancel_row actor input h now) (payments d))"
      by (simp add: paid_sum_def cancelled_def)
    also have "\<dots> = sum_where (\<lambda>q. ?Q q \<and> \<not> ?P q) pay_amount (payments d)"
      by (rule sum_where_update_off) simp
    finally show ?thesis .
  qed
  moreover have "paid_sum t oid d = sum_where (\<lambda>q. ?Q q \<and> ?P q) pay_amount (payments d) + sum_where (\<lambda>q. ?Q q \<and> \<not> ?P q) pay_amount (payments d)"
    unfolding paid_sum_def by (rule sum_where_split)
  moreover have "sum_where (\<lambda>q. ?Q q \<and> ?P q) pay_amount (payments d) = sum_where (\<lambda>q. ?Q q \<and> pay_id q = pay_id p) pay_amount (payments d)"
    using p by (intro sum_where_cong) auto
  moreover have "\<dots> = pay_amount p"
    using assms(1,3) p by (intro sum_where_pick) (auto simp: wf_payments_def)
  ultimately show ?thesis by simp
qed

lemma payments_of_paid_sum:
  "sum_where (\<lambda>p. pay_cancelled_at p = None) pay_amount (payments_of t oid d) = paid_sum t oid d"
proof -
  have "sum_where P q (sort_key k xs) = sum_where P q xs" for P q and k :: "payment \<Rightarrow> int \<times> int" and xs
    unfolding sum_where_def by (metis mset_filter mset_map mset_sort sum_mset_sum_list)
  then show ?thesis by (simp add: payments_of_def paid_sum_def sum_where_filter conj_ac)
qed

section \<open>Payment commands as tenant commands\<close>

lemma run_payment_frozen: "tenant_frozen t d \<Longrightarrow> run_payment t c d = Inl (TenantLifecycleFrozen PAYMENT)"
  by (cases c) (simp_all add: record_unfold cancel_unfold)

lemma run_payment_ok:
  assumes "run_payment t c d = Inr (u, d')" and "wf_payments d"
  shows "wf_payments d'" and "others_unchanged t d d'"
proof -
  have "wf_payments d' \<and> others_unchanged t d d'"
  proof (cases c)
    case (RecordPayment oid actor input h now)
    then have "record_tx t oid actor input h now [] d = Inr (u, d')" using assms(1) by simp
    then show ?thesis
      by (cases rule: recordE) (use assms(2) in \<open>auto simp: wf_recorded others_recorded\<close>)
  next
    case (CancelPayment oid pid actor input h now)
    then have "cancel_tx t oid pid actor input h now d = Inr (u, d')" using assms(1) by simp
    then show ?thesis
      by (cases rule: cancelE) (use assms(2) in \<open>auto simp: wf_cancelled others_cancelled\<close>)
  qed
  then show "wf_payments d'" and "others_unchanged t d d'" by auto
qed

interpretation pay: tenant_commands run_payment wf_payments
  by unfold_locales (auto dest: run_payment_frozen run_payment_ok)

text \<open>The view of a ready order with amounts that are not negative.\<close>

lemma get_payments_succeeds:
  assumes "readyOrder t oid d = Inr (c, d)" and "0 \<le> the (ct_total c)" and "\<And>p. p \<in> set (payments d) \<Longrightarrow> 0 \<le> pay_amount p"
    and "\<And>m. 0 \<le> m \<Longrightarrow> fixed2 m = fromMinorUnits m"
  shows "\<exists>view. get_payments fixed2 t oid d = Inr (view, d) \<and> pv_currency view = the (ct_currency c)
     \<and> pv_payments view = payments_of t oid d
     \<and> pa_paid (pv_amounts view) = fromMinorUnits (paid_sum t oid d)
     \<and> pa_remaining (pv_amounts view) = fromMinorUnits (the (ct_total c) - paid_sum t oid d)
     \<and> pa_status (pv_amounts view) = payment_state_for (the (ct_total c)) (paid_sum t oid d)"
proof -
  let ?rows = "map (\<lambda>p. (pay_amount p, pay_cancelled_at p)) (payments_of t oid d)"
  have sub: "set (payments_of t oid d) \<subseteq> set (payments d)" by (auto simp: payments_of_def)
  then have nonneg: "0 \<le> a" if "(a, c) \<in> set ?rows" for a c using that assms(3) by auto
  have sum: "sum_where (\<lambda>r. snd r = None) fst ?rows = paid_sum t oid d"
  proof -
    have "sum_where (\<lambda>r. snd r = None) fst (map (\<lambda>p. (pay_amount p, pay_cancelled_at p)) ps) =
        sum_where (\<lambda>p. pay_cancelled_at p = None) pay_amount ps" for ps
      by (induction ps) auto
    from this[of "payments_of t oid d"] show ?thesis by (simp only: payments_of_paid_sum)
  qed
  have texts: "map (\<lambda>p. (fixed2 (pay_amount p), pay_cancelled_at p)) (payments_of t oid d) =
      map (\<lambda>(a, c). (fromMinorUnits a, c)) ?rows"
    using sub assms(3,4) by auto
  have calc: "calculateOrderPaymentSummary (fromMinorUnits (the (ct_total c))) (map (\<lambda>(a, c). (fromMinorUnits a, c)) ?rows) =
      Inr \<lparr>pa_expected = fromMinorUnits (the (ct_total c)), pa_paid = fromMinorUnits (paid_sum t oid d),
           pa_remaining = fromMinorUnits (the (ct_total c) - paid_sum t oid d),
           pa_status = payment_state_for (the (ct_total c)) (paid_sum t oid d)\<rparr>"
    by (subst summary_exact[OF assms(2)], erule nonneg) (simp only: Let_def sum payment_state_for_def)
  have total: "fixed2 (the (ct_total c)) = fromMinorUnits (the (ct_total c))" using assms(2,4) by blast
  have "get_payments fixed2 t oid d = Inr (\<lparr>pv_amounts = \<lparr>pa_expected = fromMinorUnits (the (ct_total c)), pa_paid = fromMinorUnits (paid_sum t oid d),
           pa_remaining = fromMinorUnits (the (ct_total c) - paid_sum t oid d),
           pa_status = payment_state_for (the (ct_total c)) (paid_sum t oid d)\<rparr>,
         pv_currency = the (ct_currency c), pv_payments = payments_of t oid d\<rparr>, d)"
    unfolding get_payments_unfold assms(1)
    by (simp only: sum.case prod.case total texts calc)
  then show ?thesis by simp
qed

section \<open>Sample\<close>

definition pay_sample :: db where
  "pay_sample = sample_db\<lparr>terms_rows := [\<lparr>ct_id = 60, ct_tenant = 7, ct_order = 20, ct_entity = Some 70,
     ct_account = Some 71, ct_currency = Some ''UAH'', ct_subtotal = Some 4000, ct_discount = 0, ct_delivery = 0,
     ct_total = Some 4000, ct_pricing = PRICING_READY, ct_issues = [], ct_entity_snapshot = None,
     ct_account_snapshot = None, ct_version = 1, ct_updated_by = ''m''\<rparr>],
     bank_accounts := [\<lparr>ba_id = 71, ba_tenant = 7, ba_entity = 70, ba_label = ''Main'', ba_iban = ''UA21'',
       ba_bank_name = None, ba_currency = ''UAH'', ba_active = True, ba_default = True, ba_created_at = 0\<rparr>]\<rparr>"

definition cash :: "uuid \<Rightarrow> money \<Rightarrow> create_payment" where
  "cash key amount = \<lparr>cp_amount = amount, cp_method = CASH, cp_received_at = 5, cp_bank_account = None,
     cp_carrier = None, cp_note = None, cp_key = key\<rparr>"

text \<open>A hash for evaluation: the first digits of a payload's order and amount.\<close>

fun sample_hash :: "payment_payload \<Rightarrow> string" where
  "sample_hash (CreatePayload oid amount _ _ _ _ _) = fromMinorUnits amount"
| "sample_hash (CancelPayload oid pid reason) = reason"

lemma cash_received: "cp_received_at (cash key amount) = 5"
  by (simp add: cash_def)

lemma cash_key: "cp_key (cash key amount) = key"
  by (simp add: cash_def)

lemma pay_sample_wf: "wf_payments pay_sample"
  by (simp add: wf_payments_def pay_sample_def sample_defs)

definition no_conflict :: "nat \<Rightarrow> bool" where
  "no_conflict n = False"

lemma pay_sample_recorded:
  obtains view d' where "record_payment fromMinorUnits sample_hash 7 20 ''u'' (cash 500 1500) 10 [] no_conflict pay_sample = (Inr view, d')"
    "pa_status (pv_amounts view) = PARTIALLY_PAID"
proof -
  let ?h = "sample_hash (createCommandPayload 20 (cash 500 1500))"
  have "case record_tx 7 20 ''u'' (cash 500 1500) ?h 10 [] pay_sample of Inl _ \<Rightarrow> False
     | Inr (_, d) \<Rightarrow> map pay_amount (payments d) = [1500] \<and> paid_sum 7 20 d = 1500 \<and>
         (case readyOrder 7 20 d of Inl _ \<Rightarrow> False | Inr (c, _) \<Rightarrow> ct_total c = Some 4000)"
    by code_simp
  then obtain d where run: "record_tx 7 20 ''u'' (cash 500 1500) ?h 10 [] pay_sample = Inr ((), d)"
    and d12: "map pay_amount (payments d) = [1500]" "paid_sum 7 20 d = 1500"
    and ready: "case readyOrder 7 20 d of Inl _ \<Rightarrow> False | Inr (c, _) \<Rightarrow> ct_total c = Some 4000"
    by (cases "record_tx 7 20 ''u'' (cash 500 1500) ?h 10 [] pay_sample") auto
  obtain c where c: "readyOrder 7 20 d = Inr (c, d)" "ct_total c = Some 4000"
    using ready by (cases "readyOrder 7 20 d") (auto simp: readyOrder_Inr)
  note d = d12 c
  have "0 \<le> pay_amount p" if "p \<in> set (payments d)" for p
    using d(1) imageI[OF that, of pay_amount] by (simp flip: set_map)
  then obtain view where v: "get_payments fromMinorUnits 7 20 d = Inr (view, d)"
    "pa_status (pv_amounts view) = PARTIALLY_PAID"
    using get_payments_succeeds[OF d(3), of fromMinorUnits] d by (auto simp: payment_state_for_def)
  have "commit_concurrent [] d = d" by (simp add: commit_concurrent_def)
  then show ?thesis using v
    by (intro that[of view d])
       (simp_all add: record_payment_def serializable_eq no_conflict_def run run_tx_def max_future_skew_ms_def cash_received)
qed

section \<open>One run of the service\<close>

lemma record_payment_cases:
  assumes "record_payment fixed2 hash t oid actor input now concurrent conflict d = (Inr view, d')"
  obtains (committed) d1 where "cp_received_at input \<le> now + max_future_skew_ms"
      "record_tx t oid actor input (hash (createCommandPayload oid input)) now concurrent d = Inr ((), d1)"
      "d' = commit_concurrent concurrent d1" "get_payments fixed2 t oid d' = Inr (view, d')"
    | (lost) e where "cp_received_at input \<le> now + max_future_skew_ms"
      "record_tx t oid actor input (hash (createCommandPayload oid input)) now concurrent d = Inl UniqueViolation"
      "d' = commit_concurrent concurrent d" "get_payments fixed2 t oid d' = Inr (view, d')"
      "payment_by_key t (cp_key input) (payments d') = Some e" "pay_order e = oid"
      "pay_hash e = hash (createCommandPayload oid input)"
proof -
  let ?h = "hash (createCommandPayload oid input)"
  let ?tx = "record_tx t oid actor input ?h now concurrent"
  have time: "cp_received_at input \<le> now + max_future_skew_ms"
    using assms by (auto simp: record_payment_def split: if_splits)
  show ?thesis
  proof (cases "conflict 1 \<and> conflict 2 \<and> conflict 3")
    case True
    then show ?thesis using assms time by (simp add: record_payment_def serializable_eq)
  next
    case False
    then have ser: "serializable conflict ?tx d = run_tx ?tx d" unfolding serializable_eq by (rule if_not_P)
    show ?thesis
    proof (cases "?tx d")
      case (Inr r)
      then obtain d1 where d1: "?tx d = Inr ((), d1)" by (cases r) auto
      then have "run_tx (get_payments fixed2 t oid) (commit_concurrent concurrent d1) = (Inr view, d')"
        using assms time by (simp add: record_payment_def ser run_tx_def[of ?tx])
      then have "get_payments fixed2 t oid (commit_concurrent concurrent d1) = Inr (view, d')" by simp
      then show ?thesis using committed[OF time d1] get_payments_keeps by metis
    next
      case (Inl e)
      have e: "e = UniqueViolation"
        using assms time Inl by (auto simp: record_payment_def Let_def ser run_tx_def[of ?tx] split: if_splits)
      let ?d2 = "commit_concurrent concurrent d"
      from assms time Inl e obtain x where x: "payment_by_key t (cp_key input) (payments ?d2) = Some x"
        by (auto simp: record_payment_def Let_def ser run_tx_def[of ?tx] split: option.splits)
      then have same: "pay_order x = oid \<and> pay_hash x = ?h"
        using assms time Inl e
        by (auto simp: record_payment_def Let_def ser run_tx_def assertCreateReplay_def tx_when_def split: if_splits)
      then have "run_tx (get_payments fixed2 t oid) ?d2 = (Inr view, d')"
        using assms time Inl e x
        by (simp add: record_payment_def Let_def ser run_tx_def[of ?tx] run_tx_def[of "\<lambda>s. Inr ((), s)"] assertCreateReplay_def tx_when_def)
      then have "get_payments fixed2 t oid ?d2 = Inr (view, d')" by simp
      then show ?thesis using lost[OF time] Inl e x same get_payments_keeps by metis
    qed
  qed
qed

lemma keys_unique_find:
  assumes "distinct (map (\<lambda>p. (pay_tenant p, pay_key p)) ps)" and "p \<in> set ps"
  shows "payment_by_key (pay_tenant p) (pay_key p) ps = Some p"
  unfolding payment_by_key_def using assms
  by (intro find_distinct_key[where k = "\<lambda>p. (pay_tenant p, pay_key p)"]) auto

lemma check_bank_accountD:
  assumes "check_bank_account t c input d = Inr ((), d)" and "cp_method input = BANK_TRANSFER"
    and "cp_bank_account input = Some aid"
  shows "\<exists>eid a. find_account t aid eid (the (ct_currency c)) d = Some a"
proof (cases "ct_entity c")
  case None
  then show ?thesis using assms by (simp add: check_bank_account_def tx_run)
next
  case (Some eid)
  then show ?thesis using assms by (auto simp: check_bank_account_def tx_run split: if_splits)
qed

section \<open>Properties\<close>

text \<open>Serializable transactions are attempted at most three times: the run is that
  of the transaction when one of the first three attempts meets no write conflict,
  and the error of the conflict with nothing changed when none does.\<close>

theorem serializable_attempts:
  "serializable conflict operation d =
     (if conflict 1 \<and> conflict 2 \<and> conflict 3 then (Inl WriteConflict, d) else run_tx operation d)"
  by (rule serializable_eq)

text \<open>C6.
  Recording a payment.  A successful run leaves exactly one payment of the order
  under the idempotency key, with the hash of the request; either it was there and
  nothing changed, or it is new, has the requested positive amount, and what the
  order has received grew by it.  A transfer to a named account was checked
  against an active account of the tenant.\<close>

theorem record_payment_effect:
  assumes "record_payment fixed2 hash t oid actor input now [] conflict d = (Inr view, d')" and "wf_payments d"
  shows "wf_payments d' \<and> (\<exists>e. payment_by_key t (cp_key input) (payments d') = Some e
      \<and> pay_order e = oid \<and> pay_hash e = hash (createCommandPayload oid input)
      \<and> (d' = d \<or> payment_by_key t (cp_key input) (payments d) = None \<and> payments d' = payments d @ [e]
           \<and> pay_amount e = cp_amount input \<and> 0 < cp_amount input
           \<and> paid_sum t oid d' = paid_sum t oid d + cp_amount input
           \<and> (\<forall>aid. cp_method input = BANK_TRANSFER \<and> cp_bank_account input = Some aid \<longrightarrow>
                (\<exists>a\<in>set (bank_accounts d). ba_id a = aid \<and> ba_tenant a = t \<and> ba_active a
                   \<and> pay_currency e = ba_currency a))))"
  using assms(1)
proof (cases rule: record_payment_cases)
  case (committed d1)
  have d': "d' = d1" using committed(3) by (simp add: commit_concurrent_def)
  show ?thesis
    using committed(2)
  proof (cases rule: recordE)
    case (replay c e)
    then show ?thesis using assms(2) d' by auto
  next
    case (created c)
    let ?e = "new_payment (next_id d) t oid actor (the (ct_currency c)) input (hash (createCommandPayload oid input)) now"
    have "payments d' = payments d @ [?e]" by (simp add: d' created(7) recorded_def)
    moreover have "payment_by_key t (cp_key input) (payments d @ [?e]) = Some ?e"
      using created(6) by (simp add: payment_by_key_def find_append)
    moreover have "\<exists>a\<in>set (bank_accounts d). ba_id a = aid \<and> ba_tenant a = t \<and> ba_active a \<and> pay_currency ?e = ba_currency a"
      if bank: "cp_method input = BANK_TRANSFER" "cp_bank_account input = Some aid" for aid
    proof -
      obtain eid a where "find_account t aid eid (the (ct_currency c)) d = Some a"
        using check_bank_accountD[OF created(3) bank] by (elim exE)
      then show ?thesis using find_accountD[of t aid eid "the (ct_currency c)" d a] by (intro bexI[of _ a]) simp_all
    qed
    moreover have none: "payment_by_key t (cp_key input) (payments d) = None"
      using created(6) by (simp add: payment_by_key_None)
    moreover have "wf_payments d'" unfolding d' created(7) by (rule wf_recorded[OF assms(2) none])
    moreover have "paid_sum t oid d' = paid_sum t oid d + cp_amount input"
      unfolding d' created(7) by (simp add: paid_sum_recorded)
    ultimately show ?thesis
      using created(4) by (intro conjI exI[of _ ?e] disjI2 allI impI) simp_all
  qed
next
  case (lost e)
  then show ?thesis using assms(2) by (auto elim: record_unique_violation)
qed

theorem record_payment_effect_witness:
  "\<exists>view d'. record_payment fromMinorUnits sample_hash 7 20 ''u'' (cash 500 1500) 10 [] no_conflict pay_sample = (Inr view, d')
     \<and> wf_payments d'"
  using pay_sample_recorded record_payment_effect[OF _ pay_sample_wf] by metis

text \<open>Recording is idempotent: repeated by anyone with the same input, after a run
  that succeeded while others were committing, it returns the same view and leaves
  the store alone.\<close>

theorem record_payment_replay:
  assumes "record_payment fixed2 hash t oid actor input now concurrent conflict d = (Inr view, d')"
    and "cp_received_at input \<le> now' + max_future_skew_ms"
  shows "record_payment fixed2 hash t oid actor' input now' [] (\<lambda>_. False) d' = (Inr view, d')"
proof -
  let ?h = "hash (createCommandPayload oid input)"
  have "record_tx t oid actor' input ?h now' [] d' = Inr ((), d')" and view: "get_payments fixed2 t oid d' = Inr (view, d')"
  proof -
    have "\<exists>c e. \<not> tenant_frozen t d' \<and> readyOrder t oid d' = Inr (c, d') \<and> check_bank_account t c input d' = Inr ((), d')
       \<and> payment_by_key t (cp_key input) (payments d') = Some e \<and> pay_order e = oid \<and> pay_hash e = ?h
       \<and> get_payments fixed2 t oid d' = Inr (view, d')"
      using assms(1)
    proof (cases rule: record_payment_cases)
      case (committed d1)
      show ?thesis
        using committed(2)
      proof (cases rule: recordE)
        case (replay c e)
        then show ?thesis using committed(3,4) readyOrder_cong[of d' d t oid] check_bank_account_cong[of d' d t c input]
          by (auto simp: commit_concurrent_def tenant_frozen_def payment_by_key_def find_append)
      next
        case (created c)
        then show ?thesis using committed(3,4) readyOrder_cong[of d' d t oid] check_bank_account_cong[of d' d t c input]
          by (auto simp: commit_concurrent_def tenant_frozen_def recorded_def payment_by_key_def find_append split: option.splits)
      qed
    next
      case (lost e)
      then show ?thesis using readyOrder_cong[of d' d t oid] check_bank_account_cong[of d' d t _ input]
        by (elim record_unique_violation) (fastforce simp: commit_concurrent_def tenant_frozen_def)
    qed
    then show "record_tx t oid actor' input ?h now' [] d' = Inr ((), d')" and "get_payments fixed2 t oid d' = Inr (view, d')"
      by (auto simp: record_unfold)
  qed
  then show ?thesis using assms(2)
    by (simp add: record_payment_def serializable_eq run_tx_def commit_concurrent_def Let_def)
qed

theorem record_payment_replay_witness:
  "\<exists>view d'. record_payment fromMinorUnits sample_hash 7 20 ''u'' (cash 500 1500) 10 [] no_conflict pay_sample = (Inr view, d')
     \<and> record_payment fromMinorUnits sample_hash 7 20 ''w'' (cash 500 1500) 99 [] (\<lambda>_. False) d' = (Inr view, d')"
proof -
  obtain view d' where r: "record_payment fromMinorUnits sample_hash 7 20 ''u'' (cash 500 1500) 10 [] no_conflict pay_sample = (Inr view, d')"
    by (rule pay_sample_recorded)
  show ?thesis using r record_payment_replay[OF r, of 99 "''w''"] by (auto simp: cash_def max_future_skew_ms_def)
qed

text \<open>C7.
  One payment per key.  Whatever payments other transactions commit during the
  run, as long as their keys are pairwise different, a successful run ends with
  exactly one payment of the tenant under the key, and it is this request's.\<close>

theorem record_payment_race:
  assumes "record_payment fixed2 hash t oid actor input now concurrent conflict d = (Inr view, d')"
    and "distinct (map (\<lambda>p. (pay_tenant p, pay_key p)) (payments d @ concurrent))"
  shows "distinct (map (\<lambda>p. (pay_tenant p, pay_key p)) (payments d')) \<and>
    (\<exists>e\<in>set (payments d'). pay_tenant e = t \<and> pay_key e = cp_key input \<and> pay_order e = oid
       \<and> pay_hash e = hash (createCommandPayload oid input)
       \<and> (\<forall>p\<in>set (payments d'). pay_tenant p = t \<and> pay_key p = cp_key input \<longrightarrow> p = e))"
proof -
  have "\<exists>e\<in>set (payments d'). pay_tenant e = t \<and> pay_key e = cp_key input \<and> pay_order e = oid
       \<and> pay_hash e = hash (createCommandPayload oid input)"
    and dist: "distinct (map (\<lambda>p. (pay_tenant p, pay_key p)) (payments d'))"
    using assms(1)
  proof (atomize (full), cases rule: record_payment_cases)
    case (committed d1)
    show "(\<exists>e\<in>set (payments d'). pay_tenant e = t \<and> pay_key e = cp_key input \<and> pay_order e = oid
       \<and> pay_hash e = hash (createCommandPayload oid input)) \<and> distinct (map (\<lambda>p. (pay_tenant p, pay_key p)) (payments d'))"
      using committed(2)
    proof (cases rule: recordE)
      case (replay c e)
      then show ?thesis using assms(2) committed(3) find_some_set[of _ "payments d" e] find_some_prop[of _ "payments d" e]
        by (auto simp: commit_concurrent_def payment_by_key_def)
    next
      case (created c)
      then show ?thesis using assms(2) committed(3)
        by (fastforce simp: commit_concurrent_def recorded_def payment_by_key_None)
    qed
  next
    case (lost e)
    then show "(\<exists>e\<in>set (payments d'). pay_tenant e = t \<and> pay_key e = cp_key input \<and> pay_order e = oid
       \<and> pay_hash e = hash (createCommandPayload oid input)) \<and> distinct (map (\<lambda>p. (pay_tenant p, pay_key p)) (payments d'))"
      using assms(2) find_some_set[of _ "payments d'" e] find_some_prop[of _ "payments d'" e]
      by (auto simp: commit_concurrent_def payment_by_key_def)
  qed
  then show ?thesis using keys_unique_find[OF dist] by (metis option.inject)
qed

text \<open>A concurrent run of the same request has committed the payment already.\<close>

definition raced_payment :: payment where
  "raced_payment = new_payment 99 7 20 ''w'' ''UAH'' (cash 500 1500) (sample_hash (createCommandPayload 20 (cash 500 1500))) 9"

lemma raced_fields:
  "pay_order raced_payment = 20" "pay_hash raced_payment = sample_hash (createCommandPayload 20 (cash 500 1500))"
  by (simp_all add: raced_payment_def)

lemma pay_sample_raced:
  obtains view d' where "record_payment fromMinorUnits sample_hash 7 20 ''u'' (cash 500 1500) 10 [raced_payment] no_conflict pay_sample = (Inr view, d')"
    "payments d' = [raced_payment]"
proof -
  let ?h = "sample_hash (createCommandPayload 20 (cash 500 1500))"
  have "case record_tx 7 20 ''u'' (cash 500 1500) ?h 10 [raced_payment] pay_sample of Inl e \<Rightarrow> e = UniqueViolation | Inr _ \<Rightarrow> False"
    by code_simp
  then have run: "record_tx 7 20 ''u'' (cash 500 1500) ?h 10 [raced_payment] pay_sample = Inl UniqueViolation"
    by (simp split: sum.splits)
  have found: "payment_by_key 7 500 (payments (commit_concurrent [raced_payment] pay_sample)) = Some raced_payment"
    by code_simp
  let ?d = "commit_concurrent [raced_payment] pay_sample"
  have "case readyOrder 7 20 ?d of Inl _ \<Rightarrow> False | Inr (c, _) \<Rightarrow> ct_total c = Some 4000"
    by code_simp
  then obtain c where c: "readyOrder 7 20 ?d = Inr (c, ?d)" "ct_total c = Some 4000"
    by (cases "readyOrder 7 20 ?d") (auto simp: readyOrder_Inr)
  obtain view where v: "get_payments fromMinorUnits 7 20 ?d = Inr (view, ?d)"
    using get_payments_succeeds[OF c(1), of fromMinorUnits] c(2)
    by (auto simp: commit_concurrent_def pay_sample_def sample_defs raced_payment_def cash_def)
  have "record_payment fromMinorUnits sample_hash 7 20 ''u'' (cash 500 1500) 10 [raced_payment] no_conflict pay_sample = (Inr view, ?d)"
    using v found
    by (simp add: record_payment_def serializable_eq no_conflict_def run run_tx_def assertCreateReplay_def tx_when_def
        max_future_skew_ms_def cash_received cash_key raced_fields Let_def)
  moreover have "payments ?d = [raced_payment]"
    by (simp add: commit_concurrent_def pay_sample_def sample_defs)
  ultimately show ?thesis by (rule that)
qed

theorem record_payment_race_witness:
  "\<exists>view d'. record_payment fromMinorUnits sample_hash 7 20 ''u'' (cash 500 1500) 10 [raced_payment] no_conflict pay_sample = (Inr view, d')
     \<and> payments d' = [raced_payment] \<and> pay_order raced_payment = 20"
proof -
  obtain view d' where r: "record_payment fromMinorUnits sample_hash 7 20 ''u'' (cash 500 1500) 10 [raced_payment] no_conflict pay_sample = (Inr view, d')"
    "payments d' = [raced_payment]"
    by (rule pay_sample_raced)
  then show ?thesis using record_payment_race[OF r(1)] by (auto simp: pay_sample_def sample_defs)
qed

text \<open>A key in use for another order or another request is refused, and the refused
  run changes nothing.\<close>

theorem record_payment_key_reuse:
  assumes "payment_by_key t (cp_key input) (payments d) = Some e"
    and "pay_order e \<noteq> oid \<or> pay_hash e \<noteq> hash (createCommandPayload oid input)"
  shows "\<exists>err. record_payment fixed2 hash t oid actor input now [] conflict d = (Inl err, d)"
proof -
  let ?tx = "record_tx t oid actor input (hash (createCommandPayload oid input)) now []"
  have "?tx d \<noteq> Inr r" for r
  proof
    assume "?tx d = Inr r"
    then have "?tx d = Inr ((), snd r)" by (cases r) auto
    then show False by (cases rule: recordE) (use assms in \<open>auto simp: payment_by_key_def find_append\<close>)
  qed
  moreover have "?tx d \<noteq> Inl UniqueViolation"
    using assms(1) by (auto elim: record_unique_violation)
  ultimately obtain err where err: "?tx d = Inl err" "err \<noteq> UniqueViolation" by (cases "?tx d") auto
  obtain err' where ser: "serializable conflict ?tx d = (Inl err', d)" and "err' \<noteq> UniqueViolation"
  proof (cases "conflict 1 \<and> conflict 2 \<and> conflict 3")
    case True
    show ?thesis by (rule that[of WriteConflict]) (simp_all only: serializable_eq if_P[OF True] app_error.distinct not_False_eq_True)
  next
    case False
    show ?thesis using err by (intro that[of err]) (simp_all add: serializable_eq if_not_P[OF False] run_tx_def del: One_nat_def)
  qed
  then show ?thesis by (simp add: record_payment_def commit_concurrent_def Let_def)
qed

theorem record_payment_key_reuse_witness:
  "\<exists>err. record_payment fromMinorUnits sample_hash 7 20 ''u'' (cash 500 2000) 10 [] no_conflict
     (commit_concurrent [raced_payment] pay_sample) = (Inl err, commit_concurrent [raced_payment] pay_sample)"
proof (rule record_payment_key_reuse)
  show "payment_by_key 7 (cp_key (cash 500 2000)) (payments (commit_concurrent [raced_payment] pay_sample)) = Some raced_payment"
    by code_simp
  show "pay_order raced_payment \<noteq> 20 \<or> pay_hash raced_payment \<noteq> sample_hash (createCommandPayload 20 (cash 500 2000))"
    by code_simp
qed

section \<open>Cancelling a payment\<close>

lemma exec_payments_eq: "exec_payments cs d = pay.exec cs d"
  by (simp add: exec_payments_def pay.exec_def)

lemma cancel_payment_run:
  assumes "cancel_payment fixed2 hash t oid pid actor input now conflict d = (Inr view, d')"
  shows "cancel_tx t oid pid actor input (hash (CancelPayload oid pid (cc_reason input))) now d = Inr ((), d')"
    and "get_payments fixed2 t oid d' = Inr (view, d')"
proof -
  let ?tx = "cancel_tx t oid pid actor input (hash (CancelPayload oid pid (cc_reason input))) now"
  obtain u d1 where ser: "serializable conflict ?tx d = (Inr u, d1)" and "run_tx (get_payments fixed2 t oid) d1 = (Inr view, d')"
    using assms by (auto simp: cancel_payment_def svc_bind_def split: prod.splits sum.splits)
  then have view: "get_payments fixed2 t oid d1 = Inr (view, d')" by simp
  then have "d' = d1" by (rule get_payments_keeps)
  moreover have "run_tx ?tx d = (Inr u, d1)"
    using ser by (simp add: serializable_eq split: if_splits)
  ultimately show "?tx d = Inr ((), d')" "get_payments fixed2 t oid d' = Inr (view, d')" using view by auto
qed

lemma row_cancelled:
  assumes "find_payment t oid pid d = Some p" and "pay_cancelled_at p = None" and "wf_payments d"
  shows "find_payment t oid pid (cancelled t oid pid actor input h now d) = Some (cancel_row actor input h now p)"
proof -
  note p = find_paymentD[OF assms(1)]
  have "cancel_row actor input h now p \<in> set (payments (cancelled t oid pid actor input h now d))"
    using p assms(2) by (auto simp: cancelled_def set_update_where image_iff intro!: bexI[of _ p])
  moreover have "distinct (map pay_id (payments (cancelled t oid pid actor input h now d)))"
    using assms(3) wf_cancelled[of t oid pid actor input h now d] by (simp add: wf_payments_def)
  ultimately show ?thesis
    unfolding find_payment_def using p by (intro find_distinct_key[where k = pay_id]) auto
qed

definition undo :: cancel_input where
  "undo = \<lparr>cc_reason = ''typo'', cc_idempotency_key = 600\<rparr>"

definition paid_sample :: db where
  "paid_sample = commit_concurrent [raced_payment] pay_sample"

lemma paid_sample_wf: "wf_payments paid_sample"
  by (simp add: wf_payments_def paid_sample_def commit_concurrent_def pay_sample_def sample_defs raced_payment_def)

lemma paid_sample_cancelled:
  obtains view d' where "cancel_payment fromMinorUnits sample_hash 7 20 99 ''u'' undo 10 no_conflict paid_sample = (Inr view, d')"
    "paid_sum 7 20 d' = 0" "map pay_cancel_reason (payments d') = [Some ''typo'']"
proof -
  let ?h = "sample_hash (CancelPayload 20 99 (cc_reason undo))"
  have "case cancel_tx 7 20 99 ''u'' undo ?h 10 paid_sample of Inl _ \<Rightarrow> False
     | Inr (_, d) \<Rightarrow> map pay_amount (payments d) = [1500] \<and> paid_sum 7 20 d = 0 \<and> map pay_cancel_reason (payments d) = [Some ''typo''] \<and>
         (case readyOrder 7 20 d of Inl _ \<Rightarrow> False | Inr (c, _) \<Rightarrow> ct_total c = Some 4000)"
    by code_simp
  then obtain d where run: "cancel_tx 7 20 99 ''u'' undo ?h 10 paid_sample = Inr ((), d)"
    and d12: "map pay_amount (payments d) = [1500]" "paid_sum 7 20 d = 0" "map pay_cancel_reason (payments d) = [Some ''typo'']"
    and ready: "case readyOrder 7 20 d of Inl _ \<Rightarrow> False | Inr (c, _) \<Rightarrow> ct_total c = Some 4000"
    by (cases "cancel_tx 7 20 99 ''u'' undo ?h 10 paid_sample") auto
  obtain c where c: "readyOrder 7 20 d = Inr (c, d)" "ct_total c = Some 4000"
    using ready by (cases "readyOrder 7 20 d") (auto simp: readyOrder_Inr)
  have "0 \<le> pay_amount p" if "p \<in> set (payments d)" for p
    using d12(1) imageI[OF that, of pay_amount] by (simp flip: set_map)
  then obtain view where v: "get_payments fromMinorUnits 7 20 d = Inr (view, d)"
    using get_payments_succeeds[OF c(1), of fromMinorUnits] c(2) by auto
  show ?thesis using v run d12
    by (intro that[of view d]) (simp_all add: cancel_payment_def svc_bind_def serializable_eq no_conflict_def run_tx_def)
qed

section \<open>Properties of cancelling and of histories\<close>

text \<open>Cancelling a payment.  A successful run ends with the payment cancelled under
  the key and hash of the request.  Either it was so before and nothing changed,
  or what the order has received drops by exactly its amount, and the row keeps
  everything but the five cancellation columns.\<close>

theorem cancel_payment_effect:
  assumes "cancel_payment fixed2 hash t oid pid actor input now conflict d = (Inr view, d')" and "wf_payments d"
  shows "\<exists>p p'. find_payment t oid pid d = Some p \<and> find_payment t oid pid d' = Some p'
     \<and> pay_cancelled_at p' \<noteq> None \<and> pay_cancel_key p' = Some (cc_idempotency_key input)
     \<and> pay_cancel_hash p' = Some (hash (CancelPayload oid pid (cc_reason input)))
     \<and> (pay_cancelled_at p \<noteq> None \<and> d' = d
        \<or> pay_cancelled_at p = None \<and> paid_sum t oid d' = paid_sum t oid d - pay_amount p
          \<and> p' = p\<lparr>pay_cancelled_at := Some now, pay_cancelled_by := Some actor, pay_cancel_reason := Some (cc_reason input),
                   pay_cancel_key := pay_cancel_key p', pay_cancel_hash := pay_cancel_hash p'\<rparr>)"
  using cancel_payment_run(1)[OF assms(1)]
proof (cases rule: cancelE)
  case (replay p)
  show ?thesis unfolding replay(6) by (intro exI[of _ p] conjI disjI1) (use replay(2-5) in simp_all)
next
  case (first p)
  let ?h = "hash (CancelPayload oid pid (cc_reason input))"
  show ?thesis unfolding first(4)
    by (intro exI[of _ p] exI[of _ "cancel_row actor input ?h now p"] conjI disjI2)
      (use first(2,3) row_cancelled[OF first(2,3) assms(2)] paid_sum_cancelled[OF assms(2) first(2,3)] in
        \<open>simp_all add: cancel_row_def\<close>)
qed

theorem cancel_payment_effect_witness:
  "\<exists>view d'. cancel_payment fromMinorUnits sample_hash 7 20 99 ''u'' undo 10 no_conflict paid_sample = (Inr view, d')
     \<and> (\<exists>p'. find_payment 7 20 99 d' = Some p' \<and> pay_cancel_key p' = Some 600)"
proof -
  obtain view d' where r: "cancel_payment fromMinorUnits sample_hash 7 20 99 ''u'' undo 10 no_conflict paid_sample = (Inr view, d')"
    by (rule paid_sample_cancelled)
  show ?thesis using r cancel_payment_effect[OF r paid_sample_wf] by (auto simp: undo_def)
qed

text \<open>A cancellation is idempotent under its key, and a second one under another
  key or reason is refused: it throws and leaves the store alone.\<close>

theorem cancel_payment_once:
  assumes "cancel_payment fixed2 hash t oid pid actor input now conflict d = (Inr view, d')" and "wf_payments d"
  shows "cancel_payment fixed2 hash t oid pid actor' input now' (\<lambda>_. False) d' = (Inr view, d')
     \<and> (cc_idempotency_key input' \<noteq> cc_idempotency_key input
        \<or> hash (CancelPayload oid pid (cc_reason input')) \<noteq> hash (CancelPayload oid pid (cc_reason input))
        \<longrightarrow> cancel_payment fixed2 hash t oid pid actor' input' now' (\<lambda>_. False) d'
              = (Inl (Conflict ''Payment is already cancelled''), d'))"
proof -
  let ?h = "hash (CancelPayload oid pid (cc_reason input))"
  note run = cancel_payment_run[OF assms(1)]
  have "\<exists>p. \<not> tenant_frozen t d' \<and> find_payment t oid pid d' = Some p \<and> pay_cancelled_at p \<noteq> None
      \<and> pay_cancel_key p = Some (cc_idempotency_key input) \<and> pay_cancel_hash p = Some ?h"
    using run(1)
  proof (cases rule: cancelE)
    case (replay p)
    then show ?thesis by simp
  next
    case (first p)
    show ?thesis unfolding first(4) using first(1) row_cancelled[OF first(2,3) assms(2)]
      by (simp add: tenant_frozen_def cancelled_def)
  qed
  then obtain p where p: "\<not> tenant_frozen t d'" "find_payment t oid pid d' = Some p" "pay_cancelled_at p \<noteq> None"
      "pay_cancel_key p = Some (cc_idempotency_key input)" "pay_cancel_hash p = Some ?h" by blast
  have "cancel_tx t oid pid actor' input ?h now' d' = Inr ((), d')"
    using p by (simp add: cancel_unfold)
  moreover have "cancel_tx t oid pid actor' input' h now' d' = Inl (Conflict ''Payment is already cancelled'')"
    if "cc_idempotency_key input' \<noteq> cc_idempotency_key input \<or> h \<noteq> ?h" for h
    using p that by (auto simp: cancel_unfold)
  ultimately show ?thesis
    using run(2) by (auto simp: cancel_payment_def svc_bind_def serializable_eq run_tx_def)
qed

theorem cancel_payment_once_witness:
  "\<exists>view d'. cancel_payment fromMinorUnits sample_hash 7 20 99 ''u'' undo 10 no_conflict paid_sample = (Inr view, d')
     \<and> cancel_payment fromMinorUnits sample_hash 7 20 99 ''w'' undo 11 (\<lambda>_. False) d' = (Inr view, d')
     \<and> cancel_payment fromMinorUnits sample_hash 7 20 99 ''w'' (undo\<lparr>cc_idempotency_key := 601\<rparr>) 11 (\<lambda>_. False) d'
         = (Inl (Conflict ''Payment is already cancelled''), d')"
proof -
  obtain view d' where r: "cancel_payment fromMinorUnits sample_hash 7 20 99 ''u'' undo 10 no_conflict paid_sample = (Inr view, d')"
    by (rule paid_sample_cancelled)
  show ?thesis using r cancel_payment_once[OF r paid_sample_wf, of "''w''" 11 "undo\<lparr>cc_idempotency_key := 601\<rparr>"]
    by (auto simp: undo_def)
qed

text \<open>Payment histories.  Whatever payment commands any tenants run, identifiers and
  idempotency keys stay unique, a tenant without a command among them keeps all its
  rows, and a frozen tenant's own commands change nothing.\<close>

theorem payment_histories:
  assumes "wf_payments d"
  shows "wf_payments (exec_payments cs d)
     \<and> ((\<forall>c. (t, c) \<notin> set cs) \<longrightarrow> tenant_slice t (exec_payments cs d) = tenant_slice t d)
     \<and> (tenant_frozen t d \<longrightarrow> exec_payments (map (Pair t) own) d = d)"
  unfolding exec_payments_eq using assms pay.exec_ok pay.exec_isolated pay.frozen_inert by blast

theorem payment_histories_witness:
  "tenant_slice 2 (exec_payments [(7, RecordPayment 20 ''u'' (cash 500 1500) ''h'' 10)] pay_sample) = tenant_slice 2 pay_sample"
  using payment_histories[OF pay_sample_wf, of "[(7, RecordPayment 20 ''u'' (cash 500 1500) ''h'' 10)]" 2] by simp

end
