(* ===== verification/Terms.thy ===== *)
theory Terms
  imports Money
begin

text \<open>
  The commercial terms of an order as managers see and change them
  (\<open>apps/api/src/orders/commercial-terms.service.ts\<close>): the preview for an order
  without terms, the update under an optimistic version, the view.  The reads of
  an update come first, then one transaction writes; what other transactions
  commit in between is the argument \<open>env\<close>, a function on stores.  Amounts are
  hundredths where the code formats them with \<open>toFixed(2)\<close>.
\<close>

section \<open>Views\<close>

text \<open>\<open>mapBankAccount\<close>: of the IBAN, without white space and in capitals, the view
  has the first two characters and the last four (bullets stand between them).\<close>

record account_summary =
  vs_id :: uuid
  vs_entity :: uuid
  vs_label :: string
  vs_iban :: "string \<times> string"
  vs_bank_name :: "string option"
  vs_currency :: string
  vs_active :: bool
  vs_default :: bool

definition mask_iban :: "string \<Rightarrow> string \<times> string" where
  "mask_iban iban = (let s = map upper_char (filter (\<lambda>c. \<not> white_space c) iban)
     in (take 2 s, drop (length s - 4) s))"

definition mapBankAccount :: "bank_account \<Rightarrow> account_summary" where
  "mapBankAccount a = \<lparr>vs_id = ba_id a, vs_entity = ba_entity a, vs_label = ba_label a,
     vs_iban = mask_iban (ba_iban a), vs_bank_name = ba_bank_name a, vs_currency = ba_currency a,
     vs_active = ba_active a, vs_default = ba_default a\<rparr>"

record terms_view =
  tv_pricing :: pricing_status
  tv_issues :: "commercial_issue list"
  tv_currency :: "string option"
  tv_subtotal :: "money option"
  tv_discount :: money
  tv_delivery :: money
  tv_total :: "money option"
  tv_entity :: "legal_entity option"
  tv_account :: "account_summary option"
  tv_accounts :: "account_summary list"
  tv_version :: nat
  tv_legacy :: bool

text \<open>The active accounts of an entity in a currency, the default ones first, then by
  label.\<close>

definition eligible_accounts :: "uuid \<Rightarrow> uuid option \<Rightarrow> string option \<Rightarrow> db \<Rightarrow> bank_account list" where
  "eligible_accounts t entity currency d = (case (entity, non_empty currency) of
       (Some eid, Some c) \<Rightarrow> sort_key (\<lambda>a. (\<not> ba_default a, ba_label a))
         (filter (\<lambda>a. ba_tenant a = t \<and> ba_entity a = eid \<and> ba_currency a = c \<and> ba_active a) (bank_accounts d))
     | _ \<Rightarrow> [])"

section \<open>Reading\<close>

definition supplier_deliveries :: "uuid \<Rightarrow> uuid \<Rightarrow> db \<Rightarrow> telegram_delivery list" where
  "supplier_deliveries t oid d = filter (\<lambda>x. td_tenant x = t \<and> td_order x = Some oid
     \<and> td_purpose x = SUPPLIER_ORDER) (telegram_deliveries d)"

definition shipments_of :: "uuid \<Rightarrow> uuid \<Rightarrow> db \<Rightarrow> shipment list" where
  "shipments_of t oid d = filter (\<lambda>s. sh_tenant s = t \<and> sh_order s = oid) (shipments d)"

text \<open>An order with its items by creation, and whether it has left the house: handed
  off, sent to the supplier or shipped.\<close>

record order_context =
  oc_order :: order
  oc_items :: "order_item list"
  oc_started :: bool

definition orderContext :: "uuid \<Rightarrow> uuid \<Rightarrow> order_context dbtx" where
  "orderContext t oid =
     tx_bind (tx_read (\<lambda>d. (find_order t oid d, items_by_creation t oid d,
         supplier_deliveries t oid d \<noteq> [], shipments_of t oid d \<noteq> []))) (\<lambda>(found, items, sent, shipped).
       case found of
         None \<Rightarrow> tx_throw (NotFound ''Order not found'')
       | Some r \<Rightarrow> tx_return \<lparr>oc_order = r, oc_items = items,
           oc_started = (o_handed_off_at r \<noteq> None \<or> sent \<or> shipped)\<rparr>)"

definition assertCorrectable :: "order_context \<Rightarrow> unit dbtx" where
  "assertCorrectable c = tx_when (oc_started c)
     (BadRequest ''Commercial terms cannot change after external fulfillment has started'')"

text \<open>The lines of the items at the prices of the active products now.\<close>

definition catalogue_line :: "product list \<Rightarrow> order_item \<Rightarrow> line_input" where
  "catalogue_line ps i =
     (let product = (case non_empty (it_catalog i) of
            Some sku \<Rightarrow> map_of (rev (map (\<lambda>p. (pr_sku p, p)) ps)) sku | None \<Rightarrow> None)
      in \<lparr>li_item = it_id i, li_quantity = it_quantity i, li_price = Option.bind product pr_price,
          li_currency = Option.bind product pr_currency, li_sku = map_option pr_sku product\<rparr>)"

definition currentCatalogueLines :: "uuid \<Rightarrow> order_item list \<Rightarrow> db \<Rightarrow> line_input list" where
  "currentCatalogueLines t items d =
     (let skus = js_set (List.map_filter (\<lambda>i. non_empty (it_catalog i)) items);
          ps = filter (\<lambda>p. pr_tenant p = t \<and> pr_sku p \<in> set skus \<and> pr_active p) (products d)
      in map (catalogue_line ps) items)"

definition preview_terms :: "'d decimal_ops \<Rightarrow> uuid \<Rightarrow> uuid \<Rightarrow> terms_view dbtx" where
  "preview_terms D t oid =
     tx_bind (orderContext t oid) (\<lambda>context.
     tx_bind (tx_read (currentCatalogueLines t (oc_items context))) (\<lambda>lines.
     let calc = calculateCommercialTerms D lines in
     tx_bind (tx_read (default_entity t)) (\<lambda>entity.
     tx_bind (tx_read (eligible_accounts t (map_option le_id entity) (ca_currency calc))) (\<lambda>accounts.
       tx_return \<lparr>tv_pricing = ca_status calc, tv_issues = ca_issues calc, tv_currency = ca_currency calc,
         tv_subtotal = ca_subtotal calc, tv_discount = 0, tv_delivery = 0, tv_total = ca_total calc,
         tv_entity = entity,
         tv_account = (case accounts of [] \<Rightarrow> None | a # _ \<Rightarrow> Some (mapBankAccount a)),
         tv_accounts = map mapBankAccount accounts, tv_version = 0, tv_legacy = True\<rparr>))))"

definition get_terms :: "uuid \<Rightarrow> uuid \<Rightarrow> terms_view dbtx" where
  "get_terms t oid =
     tx_bind (tx_read (terms_of t oid)) (\<lambda>found.
       case found of
         None \<Rightarrow> tx_throw (NotFound ''Commercial terms not found'')
       | Some c \<Rightarrow>
           tx_bind (tx_read (\<lambda>d. (eligible_accounts t (ct_entity c) (ct_currency c) d,
               List.find (\<lambda>e. le_tenant e = t \<and> ct_entity c = Some (le_id e)) (legal_entities d),
               List.find (\<lambda>a. ba_tenant a = t \<and> ct_account c = Some (ba_id a)) (bank_accounts d))))
             (\<lambda>(accounts, entity, account). tx_return \<lparr>tv_pricing = ct_pricing c, tv_issues = ct_issues c,
                tv_currency = ct_currency c, tv_subtotal = ct_subtotal c, tv_discount = ct_discount c,
                tv_delivery = ct_delivery c, tv_total = ct_total c, tv_entity = entity,
                tv_account = map_option mapBankAccount account,
                tv_accounts = map mapBankAccount accounts, tv_version = ct_version c, tv_legacy = False\<rparr>))"

section \<open>Changing\<close>

record terms_update =
  tu_version :: nat
  tu_entity :: "uuid option"
  tu_account :: "uuid option"
  tu_initialize :: bool

definition assertNoActivePayments :: "uuid \<Rightarrow> uuid \<Rightarrow> unit dbtx" where
  "assertNoActivePayments t oid =
     tx_bind (tx_read (\<lambda>d. count_where (\<lambda>p. pay_tenant p = t \<and> pay_order p = oid \<and> pay_cancelled_at p = None) (payments d)))
       (\<lambda>activePayments. tx_when (activePayments > 0) (Conflict ''Commercial terms are locked after payment''))"

definition validateSelection :: "uuid \<Rightarrow> string option \<Rightarrow> uuid option \<Rightarrow> uuid option \<Rightarrow>
    (legal_entity option \<times> bank_account option) dbtx" where
  "validateSelection t currency eid aid =
     tx_bind (tx_read (\<lambda>d. Option.bind eid (\<lambda>e. find_entity t e d))) (\<lambda>entity.
     tx_seq (tx_when (eid \<noteq> None \<and> entity = None) (BadRequest ''Legal entity is not active or does not exist''))
    (tx_seq (tx_when (aid \<noteq> None \<and> (entity = None \<or> non_empty currency = None))
               (BadRequest ''Select a legal entity and priced currency first''))
    (tx_bind (tx_read (\<lambda>d. case aid of None \<Rightarrow> None
                       | Some a \<Rightarrow> find_account t a (le_id (the entity)) (the currency) d)) (\<lambda>account.
     tx_seq (tx_when (aid \<noteq> None \<and> account = None)
               (BadRequest ''Bank account does not match legal entity and currency''))
       (tx_return (entity, account))))))"

definition select_terms :: "legal_entity option \<Rightarrow> bank_account option \<Rightarrow> string \<Rightarrow> commercial_terms \<Rightarrow> commercial_terms" where
  "select_terms entity account actor c = c\<lparr>ct_entity := map_option le_id entity, ct_account := map_option ba_id account,
     ct_entity_snapshot := map_option legalEntitySnapshot entity,
     ct_account_snapshot := map_option bankAccountSnapshot account, ct_updated_by := actor\<rparr>"

definition applySelection :: "uuid \<Rightarrow> uuid \<Rightarrow> uuid option \<Rightarrow> uuid option \<Rightarrow> string \<Rightarrow> unit dbtx" where
  "applySelection t oid eid aid actor =
     tx_bind (tx_read (\<lambda>d. List.find (\<lambda>c. ct_order c = oid) (terms_rows d))) (\<lambda>found.
       case found of
         None \<Rightarrow> tx_throw RecordNotFound
       | Some c \<Rightarrow>
           tx_bind (validateSelection t (ct_currency c) eid aid) (\<lambda>(entity, account).
             tx_write (\<lambda>d. d\<lparr>terms_rows := update_where (\<lambda>c. ct_order c = oid)
               (select_terms entity account actor) (terms_rows d)\<rparr>)))"

text \<open>The transaction that creates the terms of a legacy order.\<close>

definition initialize_tx :: "'d decimal_ops \<Rightarrow> uuid \<Rightarrow> uuid \<Rightarrow> string \<Rightarrow> terms_update \<Rightarrow> line_input list \<Rightarrow> unit dbtx" where
  "initialize_tx D t oid actor input lines =
     tx_seq (assertTenantAcceptingMutations t COMMERCIAL_TERMS)
    (tx_seq (assertNoActivePayments t oid)
    (tx_bind (materializeCommercialTerms D t oid actor lines None) (\<lambda>_.
     tx_seq (applySelection t oid (tu_entity input) (tu_account input) actor)
       (create_audit t oid actor (ORDER_COMMERCIAL_TERMS_INITIALIZED (tu_entity input) (tu_account input))))))"

text \<open>The transaction that changes the terms \<open>current\<close>, read before it began.\<close>

definition update_tx :: "uuid \<Rightarrow> uuid \<Rightarrow> string \<Rightarrow> terms_update \<Rightarrow> commercial_terms \<Rightarrow> unit dbtx" where
  "update_tx t oid actor input current =
     tx_seq (assertTenantAcceptingMutations t COMMERCIAL_TERMS)
    (tx_seq (assertNoActivePayments t oid)
    (tx_bind (validateSelection t (ct_currency current) (tu_entity input) (tu_account input)) (\<lambda>(entity, account).
     tx_bind (tx_read (\<lambda>d. count_where (\<lambda>c. ct_id c = ct_id current \<and> ct_tenant c = t \<and> ct_version c = tu_version input)
                (terms_rows d))) (\<lambda>count.
     tx_seq (tx_write (\<lambda>d. d\<lparr>terms_rows := update_where
                (\<lambda>c. ct_id c = ct_id current \<and> ct_tenant c = t \<and> ct_version c = tu_version input)
                (\<lambda>c. (select_terms entity account actor c)\<lparr>ct_version := ct_version c + 1\<rparr>) (terms_rows d)\<rparr>))
    (tx_seq (tx_when (count \<noteq> 1) (Conflict ''Commercial terms changed; reload and try again''))
       (create_audit t oid actor (ORDER_COMMERCIAL_TERMS_UPDATED (tu_entity input) (tu_account input))))))))"

text \<open>What an update has read before it writes: the context, then the terms with, for
  an order without terms, the lines of the catalogue.\<close>

definition read_for_update :: "uuid \<Rightarrow> uuid \<Rightarrow> terms_update \<Rightarrow> (commercial_terms + line_input list) dbtx" where
  "read_for_update t oid input =
     tx_bind (orderContext t oid) (\<lambda>context.
     tx_seq (assertCorrectable context)
    (tx_bind (tx_read (terms_of t oid)) (\<lambda>current.
       case current of
         None \<Rightarrow>
           tx_seq (tx_when (\<not> tu_initialize input \<or> tu_version input \<noteq> 0)
                     (Conflict ''Commercial terms must be initialized from a preview''))
             (tx_bind (tx_read (currentCatalogueLines t (oc_items context))) (\<lambda>lines. tx_return (Inr lines)))
       | Some c \<Rightarrow>
           tx_seq (tx_when (ct_version c \<noteq> tu_version input)
                     (Conflict ''Commercial terms changed; reload and try again''))
             (tx_return (Inl c)))))"

definition update_terms :: "'d decimal_ops \<Rightarrow> uuid \<Rightarrow> uuid \<Rightarrow> string \<Rightarrow> terms_update \<Rightarrow> (db \<Rightarrow> db) \<Rightarrow> terms_view dbservice" where
  "update_terms D t oid actor input env =
     svc_bind (run_tx (read_for_update t oid input)) (\<lambda>r.
     svc_bind (\<lambda>d. run_tx (case r of Inr lines \<Rightarrow> initialize_tx D t oid actor input lines
                            | Inl current \<Rightarrow> update_tx t oid actor input current) (env d)) (\<lambda>_.
       run_tx (get_terms t oid)))"

end
