(* ===== verification/Terms_Props.thy ===== *)
theory Terms_Props
  imports Terms Money_Props Procurement_Props
begin

text \<open>
  What an update of commercial terms does, with the store that others leave between
  its reads and its transaction.
\<close>

section \<open>The steps\<close>

lemma orderContext_Inr [tx_iff]:
  "orderContext t oid d = Inr r \<longleftrightarrow> (\<exists>ord. find_order t oid d = Some ord \<and>
     r = (\<lparr>oc_order = ord, oc_items = items_by_creation t oid d,
           oc_started = (o_handed_off_at ord \<noteq> None \<or> supplier_deliveries t oid d \<noteq> [] \<or> shipments_of t oid d \<noteq> [])\<rparr>, d))"
  by (auto simp: orderContext_def tx_run split: option.splits)

lemma noActivePayments_Inr [tx_iff]:
  "assertNoActivePayments t oid d = Inr r \<longleftrightarrow>
     (\<forall>p\<in>set (payments d). \<not> (pay_tenant p = t \<and> pay_order p = oid \<and> pay_cancelled_at p = None)) \<and> r = ((), d)"
  by (auto simp: assertNoActivePayments_def tx_bind_Inr count_where_0_iff)

text \<open>A valid selection: an active entity of the tenant and an active account of it in
  the currency, or nothing where nothing is asked for.\<close>

definition valid_selection :: "uuid \<Rightarrow> string option \<Rightarrow> uuid option \<Rightarrow> uuid option \<Rightarrow> db \<Rightarrow> bool" where
  "valid_selection t currency eid aid d \<longleftrightarrow>
     (\<forall>e. eid = Some e \<longrightarrow> (\<exists>x\<in>set (legal_entities d). le_id x = e \<and> le_tenant x = t \<and> le_active x)) \<and>
     (\<forall>a. aid = Some a \<longrightarrow> (\<exists>x\<in>set (bank_accounts d). ba_id x = a \<and> ba_tenant x = t \<and> ba_active x
        \<and> eid = Some (ba_entity x) \<and> currency = Some (ba_currency x)))"

lemma validateSelectionD:
  assumes "validateSelection t currency eid aid d = Inr ((entity, account), d')"
  shows "d' = d" "map_option le_id entity = eid" "map_option ba_id account = aid" "valid_selection t currency eid aid d"
proof -
  have run: "d' = d" "entity = Option.bind eid (\<lambda>e. find_entity t e d)" "eid \<noteq> None \<longrightarrow> entity \<noteq> None"
    "aid \<noteq> None \<longrightarrow> entity \<noteq> None \<and> non_empty currency \<noteq> None"
    "account = (case aid of None \<Rightarrow> None | Some a \<Rightarrow> find_account t a (le_id (the entity)) (the currency) d)"
    "aid \<noteq> None \<longrightarrow> account \<noteq> None"
    using assms by (auto simp: validateSelection_def tx_run split: if_splits)
  show "d' = d" by (rule run(1))
  have e: "\<exists>x. entity = Some x \<and> x \<in> set (legal_entities d) \<and> le_id x = e \<and> le_tenant x = t \<and> le_active x"
    if "eid = Some e" for e
    using run(2,3) that by (auto dest: find_entityD)
  show ids: "map_option le_id entity = eid"
  proof (cases eid)
    case None
    then show ?thesis using run(2) by simp
  next
    case (Some x)
    then show ?thesis using e[OF Some] by auto
  qed
  have cur: "currency \<noteq> None" if "non_empty currency \<noteq> None" using that by (auto simp: non_empty_def split: option.splits)
  have a: "\<exists>x. account = Some x \<and> x \<in> set (bank_accounts d) \<and> ba_id x = a \<and> ba_tenant x = t \<and> ba_active x
      \<and> eid = Some (ba_entity x) \<and> currency = Some (ba_currency x)" if "aid = Some a" for a
  proof -
    obtain en where en: "entity = Some en" using run(4) \<open>aid = Some a\<close> by auto
    obtain c where c: "currency = Some c" using run(4) cur \<open>aid = Some a\<close> by auto
    obtain x where "find_account t a (le_id en) c d = Some x" "account = Some x"
      using run(5,6) \<open>aid = Some a\<close> en c by auto
    then show ?thesis using find_accountD[of t a "le_id en" c d x] ids en c by auto
  qed
  show "map_option ba_id account = aid"
  proof (cases aid)
    case None
    then show ?thesis using run(5) by simp
  next
    case (Some x)
    then show ?thesis using a[OF Some] by auto
  qed
  show "valid_selection t currency eid aid d" unfolding valid_selection_def
  proof (intro conjI allI impI)
    fix x assume "eid = Some x" then show "\<exists>y\<in>set (legal_entities d). le_id y = x \<and> le_tenant y = t \<and> le_active y" using e[of x] by auto
  next
    fix x assume "aid = Some x"
    then show "\<exists>y\<in>set (bank_accounts d). ba_id y = x \<and> ba_tenant y = t \<and> ba_active y \<and> eid = Some (ba_entity y) \<and> currency = Some (ba_currency y)"
      using a[of x] by auto
  qed
qed

lemma select_terms_simps [simp]:
  "ct_id (select_terms e a actor c) = ct_id c" "ct_tenant (select_terms e a actor c) = ct_tenant c"
  "ct_order (select_terms e a actor c) = ct_order c" "ct_entity (select_terms e a actor c) = map_option le_id e"
  "ct_account (select_terms e a actor c) = map_option ba_id a" "ct_version (select_terms e a actor c) = ct_version c"
  "ct_total (select_terms e a actor c) = ct_total c" "ct_currency (select_terms e a actor c) = ct_currency c"
  "ct_pricing (select_terms e a actor c) = ct_pricing c"
  by (simp_all add: select_terms_def)

lemma update_txE:
  assumes "update_tx t oid actor input c d = Inr ((), d')"
  obtains e a where "\<not> tenant_frozen t d"
    "\<And>p. p \<in> set (payments d) \<Longrightarrow> \<not> (pay_tenant p = t \<and> pay_order p = oid \<and> pay_cancelled_at p = None)"
    "map_option le_id e = tu_entity input" "map_option ba_id a = tu_account input"
    "valid_selection t (ct_currency c) (tu_entity input) (tu_account input) d"
    "count_where (\<lambda>x. ct_id x = ct_id c \<and> ct_tenant x = t \<and> ct_version x = tu_version input) (terms_rows d) = 1"
    "terms_rows d' = update_where (\<lambda>x. ct_id x = ct_id c \<and> ct_tenant x = t \<and> ct_version x = tu_version input)
       (\<lambda>x. (select_terms e a actor x)\<lparr>ct_version := ct_version x + 1\<rparr>) (terms_rows d)"
    "payments d' = payments d"
proof -
  from assms obtain e a where v: "\<not> tenant_frozen t d" "assertNoActivePayments t oid d = Inr ((), d)"
    "validateSelection t (ct_currency c) (tu_entity input) (tu_account input) d = Inr ((e, a), d)"
    "count_where (\<lambda>x. ct_id x = ct_id c \<and> ct_tenant x = t \<and> ct_version x = tu_version input) (terms_rows d) = 1"
    "d' = d\<lparr>terms_rows := update_where (\<lambda>x. ct_id x = ct_id c \<and> ct_tenant x = t \<and> ct_version x = tu_version input)
       (\<lambda>x. (select_terms e a actor x)\<lparr>ct_version := ct_version x + 1\<rparr>) (terms_rows d),
      audit_logs := audit_logs d @ [\<lparr>au_tenant = t, au_order = oid, au_actor = actor,
        au_event = ORDER_COMMERCIAL_TERMS_UPDATED (tu_entity input) (tu_account input)\<rparr>]\<rparr>"
    unfolding update_tx_def by (auto simp: tx_iff dest: validateSelectionD(1))
  show ?thesis
    using that[of e a] v validateSelectionD[OF v(3)] by (auto simp: noActivePayments_Inr)
qed

lemma read_for_updateE:
  assumes "read_for_update t oid input d = Inr (r, d1)"
  obtains (initialize) lines where "r = Inr lines" "d1 = d" "terms_of t oid d = None" "tu_initialize input" "tu_version input = 0"
      "lines = currentCatalogueLines t (items_by_creation t oid d) d"
    | (change) c where "r = Inl c" "d1 = d" "terms_of t oid d = Some c" "ct_version c = tu_version input"
  using assms unfolding read_for_update_def
  by (cases "terms_of t oid d") (auto simp: tx_iff assertCorrectable_def)

lemma get_terms_keeps: "get_terms t oid d = Inr (v, d') \<Longrightarrow> d' = d"
  by (auto simp: get_terms_def tx_run split: option.splits prod.splits)

lemma get_terms_version:
  assumes "get_terms t oid d = Inr (v, d')"
  obtains c where "terms_of t oid d = Some c" "tv_version v = ct_version c" "tv_total v = ct_total c"
  using assms by (auto simp: get_terms_def tx_run split: option.splits prod.splits)

lemma update_terms_run:
  assumes "update_terms D t oid actor input env d = (Inr view, d')"
  obtains r where "read_for_update t oid input d = Inr (r, d)"
    "(case r of Inr lines \<Rightarrow> initialize_tx D t oid actor input lines | Inl c \<Rightarrow> update_tx t oid actor input c) (env d) = Inr ((), d')"
    "get_terms t oid d' = Inr (view, d')"
proof -
  from assms obtain r d1 d2 where 1: "run_tx (read_for_update t oid input) d = (Inr r, d1)"
    and 2: "run_tx (case r of Inr lines \<Rightarrow> initialize_tx D t oid actor input lines | Inl c \<Rightarrow> update_tx t oid actor input c) (env d1) = (Inr (), d2)"
    and 3: "run_tx (get_terms t oid) d2 = (Inr view, d')"
    unfolding update_terms_def svc_bind_def by (auto split: prod.splits sum.splits)
  have "d1 = d" using 1 by (auto elim: read_for_updateE)
  moreover have "d' = d2" using 3 get_terms_keeps by auto
  ultimately show ?thesis using that[of r] 1 2 3 by simp
qed

lemma update_terms_cases:
  obtains (ok) view d' where "update_terms D t oid actor input env d = (Inr view, d')"
    | (refused_read) e where "update_terms D t oid actor input env d = (Inl e, d)"
    | (refused_write) e where "update_terms D t oid actor input env d = (Inl e, env d)"
    | (no_view) e r d' where "update_terms D t oid actor input env d = (Inl e, d')"
      "read_for_update t oid input d = Inr (r, d)"
      "(case r of Inr lines \<Rightarrow> initialize_tx D t oid actor input lines | Inl c \<Rightarrow> update_tx t oid actor input c) (env d) = Inr ((), d')"
      "get_terms t oid d' = Inl e"
proof (cases "read_for_update t oid input d")
  case (Inl e)
  then have "update_terms D t oid actor input env d = (Inl e, d)" by (simp add: update_terms_def svc_bind_def run_tx_def)
  then show ?thesis by (rule refused_read)
next
  case (Inr rd)
  then obtain r where r: "read_for_update t oid input d = Inr (r, d)" by (cases rd) (auto elim: read_for_updateE)
  let ?w = "case r of Inr lines \<Rightarrow> initialize_tx D t oid actor input lines | Inl c \<Rightarrow> update_tx t oid actor input c"
  show ?thesis
  proof (cases "?w (env d)")
    case (Inl e)
    then have "update_terms D t oid actor input env d = (Inl e, env d)"
      using r by (simp add: update_terms_def svc_bind_def run_tx_def)
    then show ?thesis by (rule refused_write)
  next
    case (Inr ud)
    then obtain d' where w: "?w (env d) = Inr ((), d')" by (cases ud) auto
    show ?thesis
    proof (cases "get_terms t oid d'")
      case (Inl e)
      then show ?thesis using r w by (intro no_view[of e d' r]) (simp_all add: update_terms_def svc_bind_def run_tx_def)
    next
      case (Inr v)
      then show ?thesis using r w by (intro ok[of "fst v" "snd v"]) (simp add: update_terms_def svc_bind_def run_tx_def split: prod.splits)
    qed
  qed
qed

section \<open>Initialization\<close>

lemma find_update_terms:
  assumes "\<And>c. ct_tenant (g c) = ct_tenant c" and "\<And>c. ct_order (g c) = ct_order c"
  shows "List.find (\<lambda>c. ct_tenant c = t \<and> ct_order c = oid) (update_where (\<lambda>c. ct_order c = oid) g rows) =
      map_option g (List.find (\<lambda>c. ct_tenant c = t \<and> ct_order c = oid) rows)"
  using assms by (induction rows) auto

lemma find_terms_by_order:
  assumes "\<And>c. c \<in> set rows \<Longrightarrow> ct_order c = oid \<Longrightarrow> ct_tenant c = t"
  shows "List.find (\<lambda>c. ct_order c = oid) rows = List.find (\<lambda>c. ct_tenant c = t \<and> ct_order c = oid) rows"
  using assms by (induction rows) auto

lemma applySelectionE:
  assumes "applySelection t oid eid aid actor d = Inr ((), d')"
    and "\<And>c. c \<in> set (terms_rows d) \<Longrightarrow> ct_order c = oid \<Longrightarrow> ct_tenant c = t"
  obtains c e a where "terms_of t oid d = Some c" "terms_of t oid d' = Some (select_terms e a actor c)"
    "map_option le_id e = eid" "map_option ba_id a = aid" "valid_selection t (ct_currency c) eid aid d"
proof -
  obtain c where c: "List.find (\<lambda>c. ct_order c = oid) (terms_rows d) = Some c"
    using assms(1) by (cases "List.find (\<lambda>c. ct_order c = oid) (terms_rows d)") (simp_all add: applySelection_def tx_run)
  have "tx_bind (validateSelection t (ct_currency c) eid aid) (\<lambda>(entity, account).
       tx_write (\<lambda>d. d\<lparr>terms_rows := update_where (\<lambda>c. ct_order c = oid) (select_terms entity account actor) (terms_rows d)\<rparr>)) d = Inr ((), d')"
    using assms(1) by (simp add: applySelection_def tx_run c)
  then obtain e a s1 where v1: "validateSelection t (ct_currency c) eid aid d = Inr ((e, a), s1)"
    and w: "d' = s1\<lparr>terms_rows := update_where (\<lambda>c. ct_order c = oid) (select_terms e a actor) (terms_rows s1)\<rparr>"
    unfolding tx_bind_Inr by auto
  note s1 = validateSelectionD(1)[OF v1]
  note v = v1[unfolded s1] and d' = w[unfolded s1]
  have "terms_of t oid d = Some c" using c find_terms_by_order[OF assms(2), of "terms_rows d"] by (simp add: terms_of_def)
  moreover have "terms_of t oid d' = Some (select_terms e a actor c)"
    using calculation by (simp add: terms_of_def d' find_update_terms)
  ultimately show ?thesis using validateSelectionD(2-4)[OF v] by (rule that)
qed

lemma upsert_terms_tenant:
  assumes "\<And>c. c \<in> set (terms_rows d) \<Longrightarrow> ct_order c = oid \<Longrightarrow> ct_tenant c = t"
    and "\<And>c. ct_tenant (f c) = ct_tenant c" and "\<And>c. ct_order (f c) = ct_order c"
    and "c \<in> set (terms_rows (upsert_terms t oid f d))" and "ct_order c = oid"
  shows "ct_tenant c = t"
proof (cases "any_row (\<lambda>c. ct_order c = oid) (terms_rows d)")
  case True
  then have "c \<in> (\<lambda>c. if ct_order c = oid then (f c)\<lparr>ct_version := ct_version c + 1\<rparr> else c) ` set (terms_rows d)"
    using assms(4) unfolding upsert_terms_def if_P[OF True] by (simp add: set_update_where)
  then obtain y where "c = (if ct_order y = oid then (f y)\<lparr>ct_version := ct_version y + 1\<rparr> else y)" "y \<in> set (terms_rows d)"
    by (rule imageE)
  then show ?thesis using assms(1)[of y] assms(2,3,5) by (cases "ct_order y = oid") simp_all
next
  case False
  then have "c \<in> set (terms_rows d) \<or> c = f (blank_terms (next_id d) t oid)"
    using assms(4) unfolding upsert_terms_def if_not_P[OF False] by auto
  moreover have "ct_tenant (f (blank_terms (next_id d) t oid)) = t" by (simp add: assms(2) blank_terms_def)
  ultimately show ?thesis using assms(1)[of c] assms(5) by blast
qed

lemma initialize_txE:
  assumes "initialize_tx D t oid actor input lines d = Inr ((), d')"
    and own: "\<And>c. c \<in> set (terms_rows d) \<Longrightarrow> ct_order c = oid \<Longrightarrow> ct_tenant c = t"
  obtains c where "\<not> tenant_frozen t d"
    "\<And>p. p \<in> set (payments d) \<Longrightarrow> \<not> (pay_tenant p = t \<and> pay_order p = oid \<and> pay_cancelled_at p = None)"
    "terms_of t oid d' = Some c" "ct_entity c = tu_entity input" "ct_account c = tu_account input"
    "ct_total c = ca_total (calculateCommercialTerms D lines)" "ct_pricing c = ca_status (calculateCommercialTerms D lines)"
    "ct_currency c = ca_currency (calculateCommercialTerms D lines)"
    "ct_version c = (case terms_of t oid d of None \<Rightarrow> 1 | Some old \<Rightarrow> ct_version old + 1)"
    "valid_selection t (ct_currency c) (tu_entity input) (tu_account input) d"
proof -
  let ?calc = "calculateCommercialTerms D lines"
  from assms(1) obtain calc d1 d2 where open_tenant: "\<not> tenant_frozen t d" and free: "assertNoActivePayments t oid d = Inr ((), d)"
    and m: "materializeCommercialTerms D t oid actor lines None d = Inr (calc, d1)"
    and s: "applySelection t oid (tu_entity input) (tu_account input) actor d1 = Inr ((), d2)"
    and d': "terms_rows d' = terms_rows d2"
    unfolding initialize_tx_def by (auto simp: tx_iff)
  have "d1 = upsert_terms t oid (write_terms (choose_entity t None d) (choose_account t None (choose_entity t None d) (ca_currency ?calc) d) ?calc actor)
      (fold (snapshot_line t oid) (ca_lines ?calc) d)"
    using m unfolding materialize_unfold Let_def by auto
  then obtain entity account where d1: "d1 = upsert_terms t oid (write_terms entity account ?calc actor) (fold (snapshot_line t oid) (ca_lines ?calc) d)"
    by blast
  have own1: "ct_tenant c = t" if "c \<in> set (terms_rows d1)" "ct_order c = oid" for c
    using upsert_terms_tenant[of "fold (snapshot_line t oid) (ca_lines ?calc) d" oid t "write_terms entity account ?calc actor" c] own that
    by (simp add: d1)
  have row: "terms_of t oid d1 = Some (case terms_of t oid d of
         Some c \<Rightarrow> (write_terms entity account ?calc actor c)\<lparr>ct_version := ct_version c + 1\<rparr>
       | None \<Rightarrow> write_terms entity account ?calc actor (blank_terms (next_id d) t oid))"
    unfolding d1 using own by (subst upsert_terms_of) (auto simp: terms_of_def cong: option.case_cong)
  from s own1 obtain c e a where c: "terms_of t oid d1 = Some c" "terms_of t oid d2 = Some (select_terms e a actor c)"
    "map_option le_id e = tu_entity input" "map_option ba_id a = tu_account input"
    "valid_selection t (ct_currency c) (tu_entity input) (tu_account input) d1"
    by (rule applySelectionE)
  have "valid_selection t (ct_currency c) (tu_entity input) (tu_account input) d"
    using c(5) by (simp add: valid_selection_def d1)
  moreover have "terms_of t oid d' = Some (select_terms e a actor c)" using c(2) d' by (simp add: terms_of_def)
  moreover have "ct_total c = ca_total ?calc" "ct_pricing c = ca_status ?calc" "ct_currency c = ca_currency ?calc"
      "ct_version c = (case terms_of t oid d of None \<Rightarrow> 1 | Some old \<Rightarrow> ct_version old + 1)"
    using row c(1) by (auto simp: blank_terms_def split: option.splits)
  moreover have "\<And>p. p \<in> set (payments d) \<Longrightarrow> \<not> (pay_tenant p = t \<and> pay_order p = oid \<and> pay_cancelled_at p = None)"
    using free by (simp add: noActivePayments_Inr)
  ultimately show ?thesis using open_tenant c(3,4) by (intro that[of "select_terms e a actor c"]) simp_all
qed

section \<open>Sample\<close>

definition legacy_sample :: db where
  "legacy_sample = sample_db\<lparr>
     legal_entities := [\<lparr>le_id = 70, le_tenant = 7, le_display_name = ''Shop'', le_legal_name = ''Shop Ltd'',
       le_type = ''COMPANY'', le_registration = None, le_active = True, le_default = True, le_created_at = 0\<rparr>],
     bank_accounts := [\<lparr>ba_id = 71, ba_tenant = 7, ba_entity = 70, ba_label = ''Main'', ba_iban = ''UA213223130000026007233566001'',
       ba_bank_name = None, ba_currency = ''UAH'', ba_active = True, ba_default = True, ba_created_at = 0\<rparr>]\<rparr>"

definition to_main :: "nat \<Rightarrow> terms_update" where
  "to_main v = \<lparr>tu_version = v, tu_entity = Some 70, tu_account = Some 71, tu_initialize = True\<rparr>"

definition initialized_sample :: db where
  "initialized_sample = snd (update_terms exact_decimal 7 20 ''m'' (to_main 0) id legacy_sample)"

lemma legacy_sample_initialized:
  obtains view where "update_terms exact_decimal 7 20 ''m'' (to_main 0) id legacy_sample = (Inr view, initialized_sample)"
    "tv_total view = Some 12000" "terms_rows initialized_sample \<noteq> []"
proof -
  have "case update_terms exact_decimal 7 20 ''m'' (to_main 0) id legacy_sample of (Inl _, _) \<Rightarrow> False
     | (Inr view, d) \<Rightarrow> tv_total view = Some 12000 \<and> terms_rows d \<noteq> []"
    by code_simp
  then show ?thesis using that
    by (cases "update_terms exact_decimal 7 20 ''m'' (to_main 0) id legacy_sample") (auto simp: initialized_sample_def split: sum.splits)
qed

lemma initialized_sample_facts:
  "map (\<lambda>c. (ct_id c, ct_order c, ct_version c)) (terms_rows initialized_sample) = [(100, 20, 1)]"
  "map_option ct_version (terms_of 7 20 initialized_sample) = Some 1"
  unfolding initialized_sample_def by code_simp+

definition unselect :: "nat \<Rightarrow> terms_update" where
  "unselect v = \<lparr>tu_version = v, tu_entity = Some 70, tu_account = None, tu_initialize = False\<rparr>"

lemma initialized_sample_changed:
  obtains view d' where "update_terms exact_decimal 7 20 ''m'' (unselect 1) id initialized_sample = (Inr view, d')"
proof -
  have "case update_terms exact_decimal 7 20 ''m'' (unselect 1) id initialized_sample of (Inl _, _) \<Rightarrow> False | (Inr view, d) \<Rightarrow> True"
    unfolding initialized_sample_def by code_simp
  then show ?thesis using that
    by (cases "update_terms exact_decimal 7 20 ''m'' (unselect 1) id initialized_sample") (auto split: sum.splits)
qed

section \<open>Properties\<close>

text \<open>Changing the terms of an order.  A change that succeeds was asked for at the
  version read before; whatever others committed before its transaction, the row had
  that version still, the tenant was not frozen and no payment of the order was
  active.  The row then has the requested entity and account, which are active, of
  the tenant, and belong together and to the currency; its version is one higher, its
  amounts are as they were, and every other row of terms is untouched.\<close>

theorem update_terms_effect:
  assumes "update_terms D t oid actor input env d = (Inr view, d')" and "terms_of t oid d = Some c"
    and "distinct (map ct_id (terms_rows (env d)))"
  shows "tu_version input = ct_version c \<and> \<not> tenant_frozen t (env d)
     \<and> (\<forall>p\<in>set (payments (env d)). \<not> (pay_tenant p = t \<and> pay_order p = oid \<and> pay_cancelled_at p = None))
     \<and> valid_selection t (ct_currency c) (tu_entity input) (tu_account input) (env d)
     \<and> (\<exists>x\<in>set (terms_rows (env d)). \<exists>x'\<in>set (terms_rows d'). ct_id x = ct_id c \<and> ct_version x = ct_version c
          \<and> ct_id x' = ct_id c \<and> ct_version x' = ct_version c + 1
          \<and> ct_entity x' = tu_entity input \<and> ct_account x' = tu_account input
          \<and> ct_total x' = ct_total x \<and> ct_currency x' = ct_currency x \<and> ct_pricing x' = ct_pricing x)
     \<and> filter (\<lambda>x. ct_id x \<noteq> ct_id c) (terms_rows d') = filter (\<lambda>x. ct_id x \<noteq> ct_id c) (terms_rows (env d))"
proof -
  obtain r where r: "read_for_update t oid input d = Inr (r, d)"
    "(case r of Inr lines \<Rightarrow> initialize_tx D t oid actor input lines | Inl c \<Rightarrow> update_tx t oid actor input c) (env d) = Inr ((), d')"
    using assms(1) by (rule update_terms_run)
  have rc: "r = Inl c" "ct_version c = tu_version input"
    using r(1) assms(2) by (auto elim!: read_for_updateE)
  let ?P = "\<lambda>x. ct_id x = ct_id c \<and> ct_tenant x = t \<and> ct_version x = tu_version input"
  have run: "update_tx t oid actor input c (env d) = Inr ((), d')" using r(2) rc(1) by simp
  show ?thesis
    using run
  proof (cases rule: update_txE)
    case (1 e a)
    let ?f = "\<lambda>x. (select_terms e a actor x)\<lparr>ct_version := ct_version x + 1\<rparr>"
    have "filter ?P (terms_rows (env d)) \<noteq> []" using 1(6) by (auto simp: count_where_def)
    then obtain x where x: "x \<in> set (terms_rows (env d))" "?P x" by (auto simp: filter_empty_conv)
    then have "?f x \<in> set (terms_rows d')" unfolding 1(7) set_update_where by (intro image_eqI[of _ _ x]) auto
    moreover have "filter (\<lambda>x. ct_id x \<noteq> ct_id c) (terms_rows d') = filter (\<lambda>x. ct_id x \<noteq> ct_id c) (terms_rows (env d))"
      unfolding 1(7) by (rule filter_update_where_other) simp_all
    ultimately show ?thesis using 1(1,2,5) x rc(2) 1(3,4)
      by (intro conjI bexI[of _ x] bexI[of _ "?f x"] ballI) simp_all
  qed
qed

theorem update_terms_effect_witness:
  "\<exists>view d'. update_terms exact_decimal 7 20 ''m'' (unselect 1) id initialized_sample = (Inr view, d')
     \<and> (\<exists>x'\<in>set (terms_rows d'). ct_version x' = 2 \<and> ct_account x' = None)"
proof -
  obtain view d' where r: "update_terms exact_decimal 7 20 ''m'' (unselect 1) id initialized_sample = (Inr view, d')"
    by (rule initialized_sample_changed)
  obtain c where c: "terms_of 7 20 initialized_sample = Some c" "ct_version c = 1"
    using initialized_sample_facts(2) by auto
  have "map fst (map (\<lambda>c. (ct_id c, ct_order c, ct_version c)) (terms_rows initialized_sample)) = [100]"
    unfolding initialized_sample_facts(1) by simp
  then have "map ct_id (terms_rows initialized_sample) = [100]" by (simp add: comp_def)
  then have dist: "distinct (map ct_id (terms_rows (id initialized_sample)))" by simp
  show ?thesis using r update_terms_effect[OF r c(1) dist] c(2) by (auto simp: unselect_def numeral_2_eq_2)
qed

text \<open>No lost update.  Two updates that read the terms of an order at the same
  version cannot both succeed: when one has, the other throws and leaves the store
  as the first left it.\<close>

theorem update_terms_exclusive:
  assumes "update_terms D t oid actor input env d = (Inr view, d1)" and "terms_of t oid d = Some c"
    and "distinct (map ct_id (terms_rows (env d)))"
  shows "\<exists>err. update_terms D' t oid actor' input' (\<lambda>_. d1) d \<in> {(Inl err, d1), (Inl err, d)}"
proof -
  obtain r where r: "read_for_update t oid input d = Inr (r, d)"
    "(case r of Inr lines \<Rightarrow> initialize_tx D t oid actor input lines | Inl c \<Rightarrow> update_tx t oid actor input c) (env d) = Inr ((), d1)"
    using assms(1) by (rule update_terms_run)
  have rc: "r = Inl c" "ct_version c = tu_version input"
    using r(1) assms(2) by (auto elim!: read_for_updateE)
  have run: "update_tx t oid actor input c (env d) = Inr ((), d1)" using r(2) rc(1) by simp
  have bumped: "\<not> (ct_id x = ct_id c \<and> ct_tenant x = t \<and> ct_version x = ct_version c)" if "x \<in> set (terms_rows d1)" for x
    using run
  proof (cases rule: update_txE)
    case (1 e a)
    have "x \<in> (\<lambda>y. if ct_id y = ct_id c \<and> ct_tenant y = t \<and> ct_version y = tu_version input
        then (select_terms e a actor y)\<lparr>ct_version := ct_version y + 1\<rparr> else y) ` set (terms_rows (env d))"
      using that by (simp only: 1(7) set_update_where)
    then obtain y where "x = (if ct_id y = ct_id c \<and> ct_tenant y = t \<and> ct_version y = tu_version input
        then (select_terms e a actor y)\<lparr>ct_version := ct_version y + 1\<rparr> else y)"
      by (rule imageE)
    then show ?thesis by (cases "ct_id y = ct_id c \<and> ct_tenant y = t \<and> ct_version y = tu_version input") (simp_all add: rc(2))
  qed
  have fails: "update_tx t oid actor' input' c d1 \<noteq> Inr ((), d2)" if "tu_version input' = ct_version c" for d2
  proof
    assume "update_tx t oid actor' input' c d1 = Inr ((), d2)"
    then have "count_where (\<lambda>x. ct_id x = ct_id c \<and> ct_tenant x = t \<and> ct_version x = tu_version input') (terms_rows d1) = 1"
      by (rule update_txE)
    moreover have "count_where (\<lambda>x. ct_id x = ct_id c \<and> ct_tenant x = t \<and> ct_version x = tu_version input') (terms_rows d1) = 0"
      unfolding count_where_0_iff using bumped that by auto
    ultimately show False by simp
  qed
  have stuck: False if "read_for_update t oid input' d = Inr (r', d)"
    "(case r' of Inr lines \<Rightarrow> initialize_tx D' t oid actor' input' lines | Inl c \<Rightarrow> update_tx t oid actor' input' c) d1 = Inr ((), d2)" for r' d2
  proof -
    have "r' = Inl c \<and> ct_version c = tu_version input'" using that(1) assms(2) by (auto elim!: read_for_updateE)
    then show False using fails[of d2] that(2) by simp
  qed
  show ?thesis
  proof (cases rule: update_terms_cases[of D' t oid actor' input' "\<lambda>_. d1" d])
    case (ok v d2)
    then show ?thesis using stuck by (auto elim!: update_terms_run)
  next
    case (no_view e r' d2)
    then show ?thesis using stuck by blast
  qed auto
qed

theorem update_terms_exclusive_witness:
  "\<exists>view d1 err. update_terms exact_decimal 7 20 ''m'' (unselect 1) id initialized_sample = (Inr view, d1)
     \<and> update_terms exact_decimal 7 20 ''k'' (to_main 1) (\<lambda>_. d1) initialized_sample \<in> {(Inl err, d1), (Inl err, initialized_sample)}"
proof -
  obtain view d' where r: "update_terms exact_decimal 7 20 ''m'' (unselect 1) id initialized_sample = (Inr view, d')"
    by (rule initialized_sample_changed)
  obtain c where c: "terms_of 7 20 initialized_sample = Some c"
    using initialized_sample_facts(2) by auto
  have "map fst (map (\<lambda>c. (ct_id c, ct_order c, ct_version c)) (terms_rows initialized_sample)) = [100]"
    unfolding initialized_sample_facts(1) by simp
  then have "map ct_id (terms_rows initialized_sample) = [100]" by (simp add: comp_def)
  then have dist: "distinct (map ct_id (terms_rows (id initialized_sample)))" by simp
  show ?thesis using r update_terms_exclusive[OF r c dist] by blast
qed

text \<open>Initializing the terms of an order without any.  It takes version zero and the
  flag of the preview; the stored total, pricing and currency are those of the lines
  at the catalogue prices read before, the selection is valid, no payment is active,
  and a new row starts at version one.\<close>

theorem initialize_terms_effect:
  assumes "update_terms D t oid actor input env d = (Inr view, d')" and "terms_of t oid d = None"
    and "\<And>c. c \<in> set (terms_rows (env d)) \<Longrightarrow> ct_order c = oid \<Longrightarrow> ct_tenant c = t"
  shows "tu_initialize input \<and> tu_version input = 0 \<and> \<not> tenant_frozen t (env d)
     \<and> (\<forall>p\<in>set (payments (env d)). \<not> (pay_tenant p = t \<and> pay_order p = oid \<and> pay_cancelled_at p = None))
     \<and> (let calc = calculateCommercialTerms D (currentCatalogueLines t (items_by_creation t oid d) d) in
        \<exists>c. terms_of t oid d' = Some c \<and> ct_entity c = tu_entity input \<and> ct_account c = tu_account input
          \<and> ct_total c = ca_total calc \<and> ct_pricing c = ca_status calc \<and> ct_currency c = ca_currency calc
          \<and> ct_version c = (case terms_of t oid (env d) of None \<Rightarrow> 1 | Some old \<Rightarrow> ct_version old + 1)
          \<and> valid_selection t (ct_currency c) (tu_entity input) (tu_account input) (env d)
          \<and> tv_version view = ct_version c \<and> tv_total view = ct_total c)"
proof -
  obtain r where r: "read_for_update t oid input d = Inr (r, d)"
    "(case r of Inr lines \<Rightarrow> initialize_tx D t oid actor input lines | Inl c \<Rightarrow> update_tx t oid actor input c) (env d) = Inr ((), d')"
    and view: "get_terms t oid d' = Inr (view, d')"
    using assms(1) by (rule update_terms_run)
  have rl: "r = Inr (currentCatalogueLines t (items_by_creation t oid d) d)" "tu_initialize input" "tu_version input = 0"
    using r(1) assms(2) by (auto elim!: read_for_updateE)
  have run: "initialize_tx D t oid actor input (currentCatalogueLines t (items_by_creation t oid d) d) (env d) = Inr ((), d')"
    using r(2) rl(1) by simp
  obtain c0 where v: "terms_of t oid d' = Some c0" "tv_version view = ct_version c0" "tv_total view = ct_total c0"
    using view by (rule get_terms_version)
  show ?thesis
    using run assms(3)
  proof (rule initialize_txE)
    fix c
    assume *: "\<not> tenant_frozen t (env d)"
      "\<And>p. p \<in> set (payments (env d)) \<Longrightarrow> \<not> (pay_tenant p = t \<and> pay_order p = oid \<and> pay_cancelled_at p = None)"
      "terms_of t oid d' = Some c" "ct_entity c = tu_entity input" "ct_account c = tu_account input"
      "ct_total c = ca_total (calculateCommercialTerms D (currentCatalogueLines t (items_by_creation t oid d) d))"
      "ct_pricing c = ca_status (calculateCommercialTerms D (currentCatalogueLines t (items_by_creation t oid d) d))"
      "ct_currency c = ca_currency (calculateCommercialTerms D (currentCatalogueLines t (items_by_creation t oid d) d))"
      "ct_version c = (case terms_of t oid (env d) of None \<Rightarrow> 1 | Some old \<Rightarrow> ct_version old + 1)"
      "valid_selection t (ct_currency c) (tu_entity input) (tu_account input) (env d)"
    then have "c0 = c" using v(1) by simp
    then show ?thesis unfolding Let_def using * rl(2,3) v(2,3)
      by (intro conjI exI[of _ c] ballI) simp_all
  qed
qed

theorem initialize_terms_effect_witness:
  "\<exists>view d' c. update_terms exact_decimal 7 20 ''m'' (to_main 0) id legacy_sample = (Inr view, d')
     \<and> terms_of 7 20 d' = Some c \<and> ct_account c = Some 71 \<and> tv_version view = 1"
proof -
  obtain view where r: "update_terms exact_decimal 7 20 ''m'' (to_main 0) id legacy_sample = (Inr view, initialized_sample)"
    by (rule legacy_sample_initialized)
  have "terms_rows legacy_sample = []" by (simp add: legacy_sample_def sample_defs)
  then have none: "terms_of 7 20 legacy_sample = None" "\<And>c. c \<in> set (terms_rows (id legacy_sample)) \<Longrightarrow> ct_order c = 20 \<Longrightarrow> ct_tenant c = 7"
    by (simp_all add: terms_of_def)
  show ?thesis using r initialize_terms_effect[OF r none] none by (auto simp: to_main_def Let_def)
qed

end
