(* ===== verification/Order_Views.thy ===== *)
theory Order_Views
  imports Terms Payments Procurement
begin

text \<open>
  How managers see orders (\<open>apps/api/src/orders/orders.service.ts\<close>): the issues of an
  order, its view, and the list with its filters, its order and its pages.  The
  lower casing \<open>toLocaleLowerCase('uk-UA')\<close>, the case-insensitive search of the
  database, its collation (\<open>rank\<close>, the place of a row in the order of a column)
  and \<open>toFixed(2)\<close> of a decimal column are parameters.
\<close>

section \<open>Issues and sort values\<close>

definition truthy :: "string option \<Rightarrow> bool" where
  "truthy v \<longleftrightarrow> non_empty v \<noteq> None"

definition item_issues :: "nat \<Rightarrow> string option \<times> int \<Rightarrow> string list" where
  "item_issues k item = (case item of (catalogId, quantity) \<Rightarrow>
     (if truthy catalogId then [] else [''items.'' @ decimal_digits k @ ''.catalogId'']) @
     (if quantity < 1 then [''items.'' @ decimal_digits k @ ''.quantity''] else []))"

fun items_issues :: "nat \<Rightarrow> (string option \<times> int) list \<Rightarrow> string list" where
  "items_issues k [] = []"
| "items_issues k (x # xs) = item_issues k x @ items_issues (k + 1) xs"

definition empty_extraction :: extraction where
  "empty_extraction = \<lparr>ex_is_order = None, ex_name = None, ex_phone = None, ex_instagram = None,
     ex_city = None, ex_address = None, ex_branch = None\<rparr>"

text \<open>\<open>order.extraction ?? {}\<close>\<close>

definition extraction_of :: "order \<Rightarrow> extraction" where
  "extraction_of r = (case o_extraction r of Some e \<Rightarrow> e | None \<Rightarrow> empty_extraction)"

definition validationIssues :: "extraction \<Rightarrow> (string option \<times> int) list \<Rightarrow> string list" where
  "validationIssues e items =
     (if ex_is_order e = Some False then [''isOrder''] else []) @
     (if truthy (ex_name e) then [] else [''customer.name'']) @
     (if truthy (ex_phone e) then [] else [''customer.phone'']) @
     (if truthy (ex_city e) then [] else [''delivery.city'']) @
     (if truthy (ex_branch e) \<or> truthy (ex_address e) then [] else [''delivery.address'']) @
     (if items = [] then [''items''] else []) @
     items_issues 0 items"

definition issue_item :: "order_item \<Rightarrow> string option \<times> int" where
  "issue_item i = (it_catalog i, it_quantity i)"

definition normalizeSortValue :: "(string \<Rightarrow> string) \<Rightarrow> string \<Rightarrow> string" where
  "normalizeSortValue lower value = lower (trim value)"

fun join :: "string \<Rightarrow> string list \<Rightarrow> string" where
  "join sep [] = []"
| "join sep [x] = x"
| "join sep (x # y # xs) = x @ sep @ join sep (y # xs)"

definition productSortValue :: "(string \<Rightarrow> string) \<Rightarrow> (string option \<times> string) list \<Rightarrow> (string \<times> string) list \<Rightarrow> string" where
  "productSortValue lower items names = normalizeSortValue lower (join '', '' (filter (\<lambda>s. s \<noteq> [])
     (map (\<lambda>(catalogId, originalText). case non_empty catalogId of
        Some sku \<Rightarrow> (case map_of names sku of Some n \<Rightarrow> n | None \<Rightarrow> originalText)
      | None \<Rightarrow> originalText) items)))"

text \<open>\<open>new Map(products.map(...))\<close>: a later product replaces an earlier one with its SKU.\<close>

definition productNames :: "uuid \<Rightarrow> db \<Rightarrow> (string \<times> string) list" where
  "productNames t d = fold (\<lambda>p. jsmap_set (pr_sku p) (pr_name p)) (filter (\<lambda>p. pr_tenant p = t) (products d)) []"

definition productPricing :: "uuid \<Rightarrow> db \<Rightarrow> (string \<times> product) list" where
  "productPricing t d = fold (\<lambda>p. jsmap_set (pr_sku p) p) (filter (\<lambda>p. pr_tenant p = t \<and> pr_active p) (products d)) []"

section \<open>The view of an order\<close>

definition approved_status :: "order_status \<Rightarrow> bool" where
  "approved_status s \<longleftrightarrow> s \<in> {APPROVED, AUTO_APPROVED}"

datatype readiness = SHIPMENT_ALLOWED | ORDER_NOT_APPROVED | PROCUREMENT_INCOMPLETE

definition shipmentReadiness :: "order_status \<Rightarrow> procurement_status list \<Rightarrow> readiness" where
  "shipmentReadiness s statuses =
     (if \<not> approved_status s then ORDER_NOT_APPROVED
      else if list_all (\<lambda>p. p \<in> {IN_STOCK, RECEIVED}) statuses then SHIPMENT_ALLOWED
      else PROCUREMENT_INCOMPLETE)"

record item_view =
  vi_item :: order_item
  vi_product :: "string option"
  vi_reservation :: "(uuid \<times> int \<times> reservation_status) option"

record order_view =
  ov_id :: uuid
  ov_public :: string
  ov_status :: order_status
  ov_participant :: "string option"
  ov_channel :: social_channel
  ov_confidence :: "rat option"
  ov_issues :: "string list"
  ov_intent :: "(intent_mode \<times> intent_reason option) option"
  ov_name :: "string option"
  ov_phone :: "string option"
  ov_instagram :: "string option"
  ov_delivery :: "string option \<times> string option \<times> string option"
  ov_items :: "item_view list"
  ov_terms :: "terms_view option"
  ov_payments :: "payment_view option"
  ov_procurement :: procurement_summary
  ov_handed_off_at :: "instant option"
  ov_dispatch :: "(uuid \<times> telegram_status \<times> nat) option"
  ov_shipment :: "shipment option"
  ov_can_ship :: bool
  ov_candidates :: "(string \<times> string) list"
  ov_created_at :: instant
  ov_export :: "(export_status \<times> nat \<times> string option \<times> bool) option"

definition mapExport :: "order_export \<Rightarrow> bool \<Rightarrow> export_status \<times> nat \<times> string option \<times> bool" where
  "mapExport e destinationActive =
     (oe_status e, oe_attempts e, oe_error e, oe_status e = EXP_FAILED \<and> destinationActive)"

definition mapCommercialTerms :: "uuid \<Rightarrow> commercial_terms \<Rightarrow> db \<Rightarrow> terms_view" where
  "mapCommercialTerms t c d =
     (let entity = List.find (\<lambda>e. le_tenant e = t \<and> ct_entity c = Some (le_id e)) (legal_entities d);
          active = (case entity of None \<Rightarrow> [] | Some e \<Rightarrow> sort_key (\<lambda>a. (\<not> ba_default a, ba_label a))
            (filter (\<lambda>a. ba_tenant a = t \<and> ba_entity a = le_id e \<and> ba_active a) (bank_accounts d)))
      in \<lparr>tv_pricing = ct_pricing c, tv_issues = ct_issues c, tv_currency = ct_currency c,
          tv_subtotal = ct_subtotal c, tv_discount = ct_discount c, tv_delivery = ct_delivery c,
          tv_total = ct_total c, tv_entity = entity,
          tv_account = map_option mapBankAccount
            (List.find (\<lambda>a. ba_tenant a = t \<and> ct_account c = Some (ba_id a)) (bank_accounts d)),
          tv_accounts = map mapBankAccount (filter (\<lambda>a. Some (ba_currency a) = ct_currency c) active),
          tv_version = ct_version c, tv_legacy = False\<rparr>)"

text \<open>No terms, or terms that are not ready: no summary.\<close>

definition paymentSummary :: "(money \<Rightarrow> string) \<Rightarrow> commercial_terms option \<Rightarrow> payment list \<Rightarrow> app_error + payment_view option" where
  "paymentSummary fixed2 terms ps = (case terms of
       None \<Rightarrow> Inr None
     | Some c \<Rightarrow> if \<not> terms_ready c then Inr None
         else case calculateOrderPaymentSummary (fixed2 (the (ct_total c)))
                (map (\<lambda>p. (fixed2 (pay_amount p), pay_cancelled_at p)) ps) of
             Inl e \<Rightarrow> Inl e
           | Inr amounts \<Rightarrow> Inr (Some \<lparr>pv_amounts = amounts, pv_currency = the (ct_currency c), pv_payments = ps\<rparr>))"

definition find_conversation :: "uuid \<Rightarrow> uuid \<Rightarrow> db \<Rightarrow> conversation option" where
  "find_conversation t cid d = List.find (\<lambda>c. cv_id c = cid \<and> cv_tenant c = t) (conversations d)"

text \<open>The profile that a conversation links to.\<close>

definition find_profile :: "uuid \<Rightarrow> db \<Rightarrow> conversation \<Rightarrow> customer_profile option" where
  "find_profile t d c = (case cv_profile c of
       None \<Rightarrow> None
     | Some p \<Rightarrow> List.find (\<lambda>x. pf_id x = p \<and> pf_tenant x = t) (profiles d))"

text \<open>The names of a conversation: profile name, own name, profile user name.\<close>

definition conversation_names :: "uuid \<Rightarrow> uuid \<Rightarrow> db \<Rightarrow> string option \<times> string option \<times> string option" where
  "conversation_names t cid d =
     (let c = find_conversation t cid d; profile = Option.bind c (find_profile t d)
      in (Option.bind profile (fst \<circ> pf_names), Option.bind c cv_display_name, Option.bind profile (snd \<circ> pf_names)))"

definition or_else :: "'a option \<Rightarrow> 'a option \<Rightarrow> 'a option" where
  "or_else a b = (case a of Some x \<Rightarrow> Some x | None \<Rightarrow> b)"

definition latest :: "('r \<Rightarrow> instant) \<Rightarrow> ('r \<Rightarrow> bool) \<Rightarrow> 'r list \<Rightarrow> 'r option" where
  "latest created P rows = find_sorted (\<lambda>r. - created r) P rows"

definition map_item :: "uuid \<Rightarrow> (string \<times> string) list \<Rightarrow> db \<Rightarrow> order_item \<Rightarrow> item_view" where
  "map_item t names d i = \<lparr>vi_item = i,
     vi_product = (case non_empty (it_catalog i) of Some sku \<Rightarrow> map_of names sku | None \<Rightarrow> None),
     vi_reservation = map_option (\<lambda>r. (rs_id r, rs_quantity r, rs_status r)) (reservation_of t (it_id i) d)\<rparr>"

text \<open>\<open>map\<close>: the channel of the view is always the same.\<close>

definition map_order :: "(money \<Rightarrow> string) \<Rightarrow> uuid \<Rightarrow> order \<Rightarrow> db \<Rightarrow> app_error + order_view" where
  "map_order fixed2 t r d =
     (let e = extraction_of r; items = items_by_creation t (o_id r) d; names = productNames t d;
          statuses = map it_status items;
          (profile, own, username) = conversation_names t (o_conversation r) d;
          delivery = latest td_created (\<lambda>x. td_tenant x = t \<and> td_order x = Some (o_id r) \<and> td_purpose x = SUPPLIER_ORDER)
                       (telegram_deliveries d);
          export = latest oe_created (\<lambda>x. oe_tenant x = t \<and> oe_order x = o_id r) (order_exports d);
          terms = terms_of t (o_id r) d
      in case paymentSummary fixed2 terms (payments_of t (o_id r) d) of
           Inl err \<Rightarrow> Inl err
         | Inr pays \<Rightarrow> Inr \<lparr>
             ov_id = o_id r, ov_public = o_public r, ov_status = o_status r,
             ov_participant = or_else profile (or_else own
               (case non_empty username of Some u \<Rightarrow> Some (''@'' @ u) | None \<Rightarrow> None)),
             ov_channel = INSTAGRAM, ov_confidence = o_confidence r,
             ov_issues = validationIssues e (map issue_item items),
             ov_intent = (case List.find (\<lambda>v. iv_order v = Some (o_id r)) (evaluations d) of
                 Some v \<Rightarrow> if iv_mode v \<noteq> PHRASE_ONLY then Some (iv_mode v, iv_reason v) else None
               | None \<Rightarrow> None),
             ov_name = ex_name e, ov_phone = ex_phone e, ov_instagram = or_else (ex_instagram e) username,
             ov_delivery = (ex_city e, ex_address e, ex_branch e),
             ov_items = map (map_item t names d) items,
             ov_terms = map_option (\<lambda>c. mapCommercialTerms t c d) terms,
             ov_payments = pays,
             ov_procurement = (if approved_status (o_status r)
               then procurementSummaryFor statuses (o_handed_off_at r \<noteq> None) else S_UNASSESSED),
             ov_handed_off_at = o_handed_off_at r,
             ov_dispatch = map_option (\<lambda>x. (td_id x, td_status x,
                count_where (\<lambda>y. di_tenant y = t \<and> di_delivery y = td_id x) (delivery_items d))) delivery,
             ov_shipment = latest sh_created (\<lambda>s. sh_tenant s = t \<and> sh_order s = o_id r) (shipments d),
             ov_can_ship = (shipmentReadiness (o_status r) statuses = SHIPMENT_ALLOWED),
             ov_candidates = names, ov_created_at = o_created_at r,
             ov_export = (case export of None \<Rightarrow> None | Some x \<Rightarrow>
               Some (mapExport x (any_row (\<lambda>g. gd_id g = oe_destination x \<and> gd_active g) (destinations d))))\<rparr>)"

definition find_or_404 :: "uuid \<Rightarrow> uuid \<Rightarrow> order dbtx" where
  "find_or_404 t oid = tx_bind (tx_read (find_order t oid)) (\<lambda>found.
     case found of None \<Rightarrow> tx_throw (NotFound ''Order not found'') | Some r \<Rightarrow> tx_return r)"

definition tx_result :: "(db \<Rightarrow> app_error + 'a) \<Rightarrow> 'a dbtx" where
  "tx_result f = (\<lambda>d. case f d of Inl e \<Rightarrow> Inl e | Inr a \<Rightarrow> Inr (a, d))"

definition detail :: "(money \<Rightarrow> string) \<Rightarrow> uuid \<Rightarrow> uuid \<Rightarrow> order_view dbtx" where
  "detail fixed2 t oid = tx_bind (find_or_404 t oid) (\<lambda>r. tx_result (map_order fixed2 t r))"

section \<open>The list\<close>

datatype sort_field = SortProduct | SortCustomer | SortStatus | SortProcurement | SortConfidence | SortDate

datatype sort_direction = Asc | Desc

record order_query =
  q_search :: "string option"
  q_status :: "order_status option"
  q_procurement :: "procurement_summary option"
  q_shipment :: "shipment_status option"
  q_payment :: "payment_state option"
  q_page :: nat
  q_page_size :: nat
  q_sort :: "sort_field option"
  q_direction :: "sort_direction option"

text \<open>The filter on the procurement of an order, on its status, the hand-off and the
  statuses of its items.\<close>

definition procurementWhere :: "procurement_summary \<Rightarrow> order_status \<Rightarrow> bool \<Rightarrow> procurement_status list \<Rightarrow> bool" where
  "procurementWhere summary st handedOff items =
     (let some = (\<lambda>S. list_ex (\<lambda>s. s \<in> S) items); every = (\<lambda>S. list_all (\<lambda>s. s \<in> S) items);
          none = (\<lambda>S. \<not> list_ex (\<lambda>s. s \<in> S) items);
          approved = approved_status st \<and> \<not> handedOff
      in case summary of
           S_HANDED_OFF \<Rightarrow> handedOff
         | S_UNASSESSED \<Rightarrow> \<not> handedOff \<and> (\<not> approved_status st \<or> items = [] \<or> some {UNASSESSED})
         | S_BLOCKED \<Rightarrow> approved \<and> some {UNAVAILABLE}
         | S_SENDING \<Rightarrow> approved \<and> some {SENDING} \<and> none {UNAVAILABLE}
         | S_READY \<Rightarrow> approved \<and> some {IN_STOCK, RECEIVED} \<and> every {IN_STOCK, RECEIVED}
         | S_NEEDS_ORDER \<Rightarrow> approved \<and> some {TO_ORDER} \<and> every {TO_ORDER}
         | S_AWAITING_SUPPLIER \<Rightarrow> approved \<and> some {ORDERED, SUPPLIER_CONFIRMED} \<and> every {ORDERED, SUPPLIER_CONFIRMED}
         | S_PARTIALLY_READY \<Rightarrow> approved \<and> none {UNASSESSED, UNAVAILABLE, SENDING} \<and>
             (some {IN_STOCK, RECEIVED} \<and> some {TO_ORDER, ORDERED, SUPPLIER_CONFIRMED}
              \<or> some {TO_ORDER} \<and> some {ORDERED, SUPPLIER_CONFIRMED}))"

definition paymentStatusPredicate :: "payment_state \<Rightarrow> money \<Rightarrow> money \<Rightarrow> bool" where
  "paymentStatusPredicate status paid tot = (case status of
       UNPAID \<Rightarrow> paid = 0
     | PARTIALLY_PAID \<Rightarrow> paid > 0 \<and> paid < tot
     | PAID \<Rightarrow> paid = tot
     | OVERPAID \<Rightarrow> paid > tot)"

definition active_paid :: "uuid \<Rightarrow> uuid \<Rightarrow> db \<Rightarrow> money" where
  "active_paid t oid d = sum_where (\<lambda>p. pay_order p = oid \<and> pay_tenant p = t \<and> pay_cancelled_at p = None) pay_amount (payments d)"

definition paymentOrderIds :: "uuid \<Rightarrow> payment_state \<Rightarrow> db \<Rightarrow> uuid list" where
  "paymentOrderIds t status d = map o_id (filter (\<lambda>r. o_tenant r = t \<and>
     (case terms_of t (o_id r) d of
        None \<Rightarrow> False
      | Some c \<Rightarrow> ct_pricing c = PRICING_READY \<and>
          (case ct_total c of None \<Rightarrow> False
           | Some tot \<Rightarrow> paymentStatusPredicate status (active_paid t (o_id r) d) tot))) (orders d))"

definition search_matches :: "(string \<Rightarrow> string \<Rightarrow> bool) \<Rightarrow> uuid \<Rightarrow> string \<Rightarrow> order \<Rightarrow> db \<Rightarrow> bool" where
  "search_matches icontains t needle r d =
     (let has = (\<lambda>v. case v of Some s \<Rightarrow> icontains needle s | None \<Rightarrow> False);
          (profile, own, username) = conversation_names t (o_conversation r) d;
          field = (\<lambda>f. has (Option.bind (o_extraction r) f))
      in icontains needle (o_public r) \<or> has own \<or> has profile \<or> has username
         \<or> field ex_name \<or> field ex_phone \<or> field ex_instagram
         \<or> list_ex (\<lambda>i. icontains needle (it_text i)) (items_of t (o_id r) d)
         \<or> list_ex (\<lambda>i. has (it_catalog i)) (items_of t (o_id r) d))"

definition order_matches :: "(string \<Rightarrow> string \<Rightarrow> bool) \<Rightarrow> uuid \<Rightarrow> order_query \<Rightarrow> uuid list option \<Rightarrow> db \<Rightarrow> order \<Rightarrow> bool" where
  "order_matches icontains t q ids d r \<longleftrightarrow> o_tenant r = t
     \<and> (case ids of None \<Rightarrow> True | Some xs \<Rightarrow> o_id r \<in> set xs)
     \<and> (case q_status q of None \<Rightarrow> True | Some s \<Rightarrow> o_status r = s)
     \<and> (case q_procurement q of None \<Rightarrow> True | Some s \<Rightarrow>
          procurementWhere s (o_status r) (o_handed_off_at r \<noteq> None) (map it_status (items_of t (o_id r) d)))
     \<and> (case q_shipment q of None \<Rightarrow> True | Some s \<Rightarrow> list_ex (\<lambda>x. sh_status x = s) (shipments_of t (o_id r) d))
     \<and> (case non_empty (map_option trim (q_search q)) of None \<Rightarrow> True | Some needle \<Rightarrow> search_matches icontains t needle r d)"

text \<open>Confidence puts rows without a value last in both directions; ties are broken by
  the identifier.\<close>

definition orderListKey :: "(sort_field \<Rightarrow> order \<Rightarrow> int) \<Rightarrow> sort_field \<Rightarrow> sort_direction \<Rightarrow> order \<Rightarrow> (bool \<times> int) \<times> uuid" where
  "orderListKey rank field dir r =
     ((field = SortConfidence \<and> o_confidence r = None,
       (case dir of Asc \<Rightarrow> rank field r | Desc \<Rightarrow> - rank field r)), o_id r)"

definition orderListOrderBy :: "(sort_field \<Rightarrow> order \<Rightarrow> int) \<Rightarrow> order_query \<Rightarrow> order list \<Rightarrow> order list" where
  "orderListOrderBy rank q rows = sort_key (orderListKey rank
     (case q_sort q of Some f \<Rightarrow> f | None \<Rightarrow> SortDate) (case q_direction q of Some x \<Rightarrow> x | None \<Rightarrow> Desc)) rows"

text \<open>\<open>findMany({ skip, take })\<close>, and the number of rows without it.\<close>

definition order_page :: "(string \<Rightarrow> string \<Rightarrow> bool) \<Rightarrow> (sort_field \<Rightarrow> order \<Rightarrow> int) \<Rightarrow> uuid \<Rightarrow> order_query \<Rightarrow> uuid list option \<Rightarrow>
    db \<Rightarrow> order list \<times> nat" where
  "order_page icontains rank t q ids d =
     (let rows = orderListOrderBy rank q (filter (order_matches icontains t q ids d) (orders d))
      in (take (q_page_size q) (drop ((q_page q - 1) * q_page_size q) rows), length rows))"

fun map_orders :: "(money \<Rightarrow> string) \<Rightarrow> uuid \<Rightarrow> order list \<Rightarrow> db \<Rightarrow> app_error + order_view list" where
  "map_orders fixed2 t [] d = Inr []"
| "map_orders fixed2 t (r # rs) d = (case map_order fixed2 t r d of
       Inl e \<Rightarrow> Inl e
     | Inr v \<Rightarrow> (case map_orders fixed2 t rs d of Inl e \<Rightarrow> Inl e | Inr vs \<Rightarrow> Inr (v # vs)))"

definition list_orders :: "(money \<Rightarrow> string) \<Rightarrow> (string \<Rightarrow> string \<Rightarrow> bool) \<Rightarrow> (sort_field \<Rightarrow> order \<Rightarrow> int) \<Rightarrow> uuid \<Rightarrow> order_query \<Rightarrow>
    (order_view list \<times> nat) dbtx" where
  "list_orders fixed2 icontains rank t q =
     tx_bind (tx_read (\<lambda>d. map_option (\<lambda>s. paymentOrderIds t s d) (q_payment q))) (\<lambda>ids.
       if ids = Some [] then tx_return ([], 0)
       else tx_bind (tx_read (order_page icontains rank t q ids)) (\<lambda>(rows, tot).
            tx_bind (tx_result (map_orders fixed2 t rows)) (\<lambda>views. tx_return (views, tot))))"

end
