(* ===== verification/Orders.thy ===== *)
theory Orders
  imports Order_Views
begin

text \<open>
  The commands of a manager on an order (\<open>apps/api/src/orders/orders.service.ts\<close>):
  approve, cancel, correct, set the procurement of an item, hand off, retry the
  export.  A command is a row of transactions; what others commit between the
  reads of a command and its first write is the argument \<open>env\<close>.  Clock readings
  are arguments; a command takes one, the code reads the clock a few times.
\<close>

section \<open>Transitions\<close>

definition transition_tx :: "uuid \<Rightarrow> uuid \<Rightarrow> string \<Rightarrow> order_status \<Rightarrow> order_status \<Rightarrow> instant \<Rightarrow> unit dbtx" where
  "transition_tx t oid actor from status now =
     tx_seq (assertTenantAcceptingMutations t ORDER_MUTATION)
    (tx_seq (update_order t oid (\<lambda>r. r\<lparr>o_status := status,
        o_approved_at := (if status = APPROVED then Some now else None),
        o_approved_by := (if status = APPROVED then Some actor else None),
        o_sort_procurement := (if status \<notin> {APPROVED, AUTO_APPROVED} then S_UNASSESSED else o_sort_procurement r)\<rparr>))
       (create_audit t oid actor (ORDER_STATUS_CHANGED from status)))"

definition read_for_transition :: "uuid \<Rightarrow> uuid \<Rightarrow> order_status \<Rightarrow> order dbtx" where
  "read_for_transition t oid status =
     tx_bind (find_or_404 t oid) (\<lambda>current.
     tx_bind (tx_read (\<lambda>d. validationIssues (extraction_of current) (map issue_item (items_by_creation t oid d)))) (\<lambda>issues.
     tx_seq (tx_when (status = APPROVED \<and> issues \<noteq> []) (BadRequest ''Order has unresolved validation issues''))
       (tx_return current)))"

definition transition :: "uuid \<Rightarrow> uuid \<Rightarrow> string \<Rightarrow> order_status \<Rightarrow> instant \<Rightarrow> (db \<Rightarrow> db) \<Rightarrow> unit dbservice" where
  "transition t oid actor status now env =
     svc_bind (run_tx (read_for_transition t oid status)) (\<lambda>current d.
       run_tx (transition_tx t oid actor (o_status current) status now) (env d))"

section \<open>Approve and cancel\<close>

definition ensurePendingExport :: "uuid \<Rightarrow> uuid \<Rightarrow> instant \<Rightarrow> unit dbtx" where
  "ensurePendingExport t oid now =
     tx_seq (assertTenantAcceptingMutations t SHEETS_EXPORT)
    (tx_bind (tx_read (\<lambda>d. (List.find (\<lambda>g. gd_tenant g = t) (destinations d), next_id d))) (\<lambda>(destination, eid).
       case destination of
         None \<Rightarrow> tx_return ()
       | Some g \<Rightarrow> if \<not> gd_active g then tx_return ()
           else tx_write (\<lambda>d.
             if any_row (\<lambda>x. oe_order x = oid \<and> oe_destination x = gd_id g) (order_exports d)
             then d\<lparr>order_exports := update_where (\<lambda>x. oe_order x = oid \<and> oe_destination x = gd_id g)
                    (\<lambda>x. x\<lparr>oe_status := EXP_PENDING, oe_error := None\<rparr>) (order_exports d)\<rparr>
             else d\<lparr>order_exports := order_exports d @ [\<lparr>oe_id = eid, oe_tenant = t, oe_order = oid,
                    oe_destination = gd_id g, oe_status = EXP_PENDING, oe_attempts = 0, oe_error = None,
                    oe_created = now, oe_row = None,
                    oe_last_attempt = None, oe_last_synced = None\<rparr>], next_id := eid + 1\<rparr>)))"

definition approve :: "(money \<Rightarrow> string) \<Rightarrow> uuid \<Rightarrow> uuid \<Rightarrow> string \<Rightarrow> instant \<Rightarrow> (db \<Rightarrow> db) \<Rightarrow> order_view dbservice" where
  "approve fixed2 t oid actor now env =
     svc_bind (transition t oid actor APPROVED now env) (\<lambda>_.
     svc_bind (run_tx (assessApprovedOrder t oid actor now now)) (\<lambda>_.
     svc_bind (run_tx (ensurePendingExport t oid now)) (\<lambda>_.
       run_tx (detail fixed2 t oid))))"

definition cancel :: "(money \<Rightarrow> string) \<Rightarrow> uuid \<Rightarrow> uuid \<Rightarrow> string \<Rightarrow> instant \<Rightarrow> (db \<Rightarrow> db) \<Rightarrow> order_view dbservice" where
  "cancel fixed2 t oid actor now env =
     svc_bind (transition t oid actor CANCELLED now env) (\<lambda>_.
     svc_bind (run_tx (releaseOrderReservations t oid actor now)) (\<lambda>_.
       run_tx (detail fixed2 t oid)))"

section \<open>Export\<close>

definition read_for_retry :: "uuid \<Rightarrow> uuid \<Rightarrow> order_export dbtx" where
  "read_for_retry t oid =
     tx_bind (find_or_404 t oid) (\<lambda>_.
     tx_bind (tx_read (\<lambda>d. (List.find (\<lambda>x. oe_order x = oid \<and> oe_tenant x = t) (order_exports d), destinations d))) (\<lambda>(found, ds).
       case found of
         None \<Rightarrow> tx_throw (NotFound ''Google Sheets export not found'')
       | Some x \<Rightarrow>
           tx_seq (tx_when (\<not> any_row (\<lambda>g. gd_id g = oe_destination x \<and> gd_active g) ds)
                     (BadRequest ''Google Sheets destination must be active before retry''))
          (tx_seq (tx_when (oe_status x \<noteq> EXP_FAILED) (BadRequest ''Only failed exports can be retried''))
             (tx_return x))))"

definition retrySheetsExport :: "uuid \<Rightarrow> uuid \<Rightarrow> (db \<Rightarrow> db) \<Rightarrow> (export_status \<times> nat \<times> string option \<times> bool) dbservice" where
  "retrySheetsExport t oid env =
     svc_bind (run_tx (read_for_retry t oid)) (\<lambda>x d.
       run_tx (tx_seq (assertTenantAcceptingMutations t SHEETS_EXPORT)
        (tx_bind (tx_read (\<lambda>d. List.find (\<lambda>y. oe_id y = oe_id x) (order_exports d))) (\<lambda>found.
           case found of
             None \<Rightarrow> tx_throw RecordNotFound
           | Some y \<Rightarrow>
               tx_seq (tx_write (\<lambda>d. d\<lparr>order_exports := update_where (\<lambda>y. oe_id y = oe_id x)
                   (\<lambda>y. y\<lparr>oe_status := EXP_PENDING, oe_error := None\<rparr>) (order_exports d)\<rparr>))
                 (tx_return (mapExport (y\<lparr>oe_status := EXP_PENDING, oe_error := None\<rparr>) True))))) (env d))"

section \<open>Procurement\<close>

fun procurement_name :: "procurement_status \<Rightarrow> string" where
  "procurement_name UNASSESSED = ''UNASSESSED''"
| "procurement_name IN_STOCK = ''IN_STOCK''"
| "procurement_name TO_ORDER = ''TO_ORDER''"
| "procurement_name SENDING = ''SENDING''"
| "procurement_name ORDERED = ''ORDERED''"
| "procurement_name SUPPLIER_CONFIRMED = ''SUPPLIER_CONFIRMED''"
| "procurement_name RECEIVED = ''RECEIVED''"
| "procurement_name UNAVAILABLE = ''UNAVAILABLE''"

fun mapProcurementError :: "app_error \<Rightarrow> app_error" where
  "mapProcurementError ProcurementItemNotFound = NotFound ''Order item not found''"
| "mapProcurementError (InvalidProcurementTransition from to) =
     BadRequest (''Invalid procurement transition from '' @ procurement_name from @ '' to '' @ procurement_name to)"
| "mapProcurementError ProcurementOrderNotReady = BadRequest ''Order procurement is not ready for hand-off''"
| "mapProcurementError e = e"

definition svc_catch :: "('e \<Rightarrow> 'e) \<Rightarrow> ('s, 'e, 'a) service \<Rightarrow> ('s, 'e, 'a) service" where
  "svc_catch h m = (\<lambda>s. case m s of (Inl e, s') \<Rightarrow> (Inl (h e), s') | (Inr a, s') \<Rightarrow> (Inr a, s'))"

definition setItemProcurement :: "(money \<Rightarrow> string) \<Rightarrow> uuid \<Rightarrow> uuid \<Rightarrow> uuid \<Rightarrow> procurement_status \<Rightarrow> string \<Rightarrow> instant \<Rightarrow> order_view dbservice" where
  "setItemProcurement fixed2 t oid iid status actor now =
     svc_bind (svc_catch mapProcurementError (run_tx (setItemStatus t oid iid status actor now now)))
       (\<lambda>_. run_tx (detail fixed2 t oid))"

definition handOff :: "(money \<Rightarrow> string) \<Rightarrow> uuid \<Rightarrow> uuid \<Rightarrow> string \<Rightarrow> instant \<Rightarrow> order_view dbservice" where
  "handOff fixed2 t oid actor now =
     svc_bind (svc_catch mapProcurementError (run_tx (handOffOrder t oid actor now)))
       (\<lambda>_. run_tx (detail fixed2 t oid))"

section \<open>Corrections\<close>

text \<open>A partial object: the outer option is the presence of the key, the inner one its
  value, which may be null.\<close>

record item_update =
  iu_id :: uuid
  iu_catalog :: "string option"
  iu_quantity :: int
  iu_color :: "string option"
  iu_size :: "string option"

record order_update =
  ou_name :: "string option option"
  ou_phone :: "string option option"
  ou_instagram :: "string option option"
  ou_city :: "string option option"
  ou_address :: "string option option"
  ou_branch :: "string option option"
  ou_items :: "item_update list option"

definition overlay :: "'a option option \<Rightarrow> 'a option \<Rightarrow> 'a option" where
  "overlay submitted stored = (case submitted of Some v \<Rightarrow> v | None \<Rightarrow> stored)"

definition next_extraction :: "order_update \<Rightarrow> extraction \<Rightarrow> extraction" where
  "next_extraction input e = e\<lparr>ex_name := overlay (ou_name input) (ex_name e),
     ex_phone := overlay (ou_phone input) (ex_phone e), ex_instagram := overlay (ou_instagram input) (ex_instagram e),
     ex_city := overlay (ou_city input) (ex_city e), ex_address := overlay (ou_address input) (ex_address e),
     ex_branch := overlay (ou_branch input) (ex_branch e)\<rparr>"

definition submitted_item :: "item_update list \<Rightarrow> uuid \<Rightarrow> item_update option" where
  "submitted_item us iid = List.find (\<lambda>u. iu_id u = iid) us"

definition write_item :: "item_update \<Rightarrow> order_item \<Rightarrow> order_item" where
  "write_item u i = i\<lparr>it_catalog := iu_catalog u, it_quantity := iu_quantity u, it_color := iu_color u, it_size := iu_size u\<rparr>"

text \<open>\<open>rows\<close>: the items as they were read, overlaid with what was submitted.\<close>

definition corrected_rows :: "item_update list \<Rightarrow> order_item list \<Rightarrow> order_item list" where
  "corrected_rows us items = map (\<lambda>i. case submitted_item us (it_id i) of Some u \<Rightarrow> write_item u i | None \<Rightarrow> i) items"

definition corrected_line :: "item_update list \<Rightarrow> order_item list \<Rightarrow> (string \<times> product) list \<Rightarrow> order_item \<Rightarrow> line_input" where
  "corrected_line us items pricing row =
     (let productChanged = (case submitted_item us (it_id row) of
            None \<Rightarrow> False
          | Some u \<Rightarrow> Some (iu_catalog u) \<noteq> map_option it_catalog (List.find (\<lambda>i. it_id i = it_id row) items));
          product = (case non_empty (it_catalog row) of Some sku \<Rightarrow> map_of pricing sku | None \<Rightarrow> None)
      in \<lparr>li_item = it_id row, li_quantity = it_quantity row,
          li_price = (if productChanged then Option.bind product pr_price else it_unit_price row),
          li_currency = (if productChanged then Option.bind product pr_currency else it_currency row),
          li_sku = (if productChanged then map_option pr_sku product else it_price_sku row)\<rparr>)"

definition reset_item :: "order_item \<Rightarrow> order_item" where
  "reset_item i = i\<lparr>it_status := UNASSESSED, it_source := None, it_reason := None, it_stock_at := None,
     it_available_at := None, it_updated_at := None\<rparr>"

fun update_items :: "item_update list \<Rightarrow> unit dbtx" where
  "update_items [] = tx_return ()"
| "update_items (u # us) = tx_seq (update_item (iu_id u) (write_item u)) (update_items us)"

record correction =
  co_context :: order_context
  co_terms :: "commercial_terms option"
  co_names :: "(string \<times> string) list"
  co_pricing :: "(string \<times> product) list"
  co_conversation :: "string option \<times> string option \<times> string option"

fun check_items :: "(string \<times> string) list \<Rightarrow> order_item list \<Rightarrow> item_update list \<Rightarrow> unit dbtx" where
  "check_items names items [] = tx_return ()"
| "check_items names items (u # us) =
     tx_seq (tx_when (case iu_catalog u of None \<Rightarrow> False | Some sku \<Rightarrow> map_of names sku = None) (BadRequest ''Unknown catalogue SKU''))
    (tx_seq (tx_when (\<not> any_row (\<lambda>i. it_id i = iu_id u) items) (BadRequest ''Unknown order item''))
       (check_items names items us))"

definition read_for_correction :: "uuid \<Rightarrow> uuid \<Rightarrow> order_update \<Rightarrow> correction dbtx" where
  "read_for_correction t oid input =
     tx_bind (orderContext t oid) (\<lambda>current.
     tx_seq (tx_when (oc_started current) (BadRequest ''Order cannot be corrected after external fulfillment has started''))
    (tx_bind (tx_read (\<lambda>d. (terms_of t oid d, productNames t d, productPricing t d,
         conversation_names t (o_conversation (oc_order current)) d))) (\<lambda>(terms, names, pricing, conv).
     tx_seq (check_items names (oc_items current) (case ou_items input of None \<Rightarrow> [] | Some us \<Rightarrow> us))
       (tx_return \<lparr>co_context = current, co_terms = terms, co_names = names, co_pricing = pricing, co_conversation = conv\<rparr>))))"

definition correct_tx :: "'d decimal_ops \<Rightarrow> (string \<Rightarrow> string) \<Rightarrow> uuid \<Rightarrow> uuid \<Rightarrow> string \<Rightarrow> order_update \<Rightarrow> instant \<Rightarrow> correction \<Rightarrow> unit dbtx" where
  "correct_tx D lower t oid actor input now c =
     (let items = oc_items (co_context c);
          us = (case ou_items input of None \<Rightarrow> [] | Some us \<Rightarrow> us);
          e = next_extraction input (extraction_of (oc_order (co_context c)));
          rows = corrected_rows us items;
          (profile, own, username) = co_conversation c
      in
     tx_seq (assertTenantAcceptingMutations t ORDER_MUTATION)
    (tx_seq (if ou_items input = None then tx_return ()
        else tx_bind (tx_read (\<lambda>d. count_where (\<lambda>p. pay_tenant p = t \<and> pay_order p = oid \<and> pay_cancelled_at p = None) (payments d)))
               (\<lambda>activePayments. tx_when (activePayments > 0) (Conflict ''Order items are locked after payment'')))
    (tx_seq (update_items us)
    (tx_seq (tx_write (\<lambda>d. d\<lparr>order_items := update_where (\<lambda>i. it_tenant i = t \<and> it_id i \<in> set (map it_id items)) reset_item (order_items d)\<rparr>))
    (tx_seq (release_reassessed t (map it_id items) now)
    (tx_seq (case co_terms c of
          None \<Rightarrow> tx_return ()
        | Some terms \<Rightarrow> tx_bind (materializeCommercialTerms D t oid actor
              (map (corrected_line us items (co_pricing c)) rows) (Some (ct_entity terms, ct_account terms)))
            (\<lambda>_. tx_return ()))
    (tx_seq (update_order t oid (\<lambda>r. r\<lparr>o_extraction := Some e,
          o_issues := validationIssues e (map issue_item rows), o_status := NEEDS_REVIEW,
          o_sort_customer := normalizeSortValue lower
            (case or_else (ex_name e) (or_else profile (or_else own username)) of Some s \<Rightarrow> s | None \<Rightarrow> []),
          o_sort_product := productSortValue lower (map (\<lambda>i. (it_catalog i, it_text i)) rows) (co_names c),
          o_sort_procurement := S_UNASSESSED\<rparr>))
       (create_audit t oid actor ORDER_CORRECTED))))))))"

definition correct :: "'d decimal_ops \<Rightarrow> (string \<Rightarrow> string) \<Rightarrow> (money \<Rightarrow> string) \<Rightarrow> uuid \<Rightarrow> uuid \<Rightarrow> string \<Rightarrow> order_update \<Rightarrow>
    instant \<Rightarrow> (db \<Rightarrow> db) \<Rightarrow> order_view dbservice" where
  "correct D lower fixed2 t oid actor input now env =
     svc_bind (run_tx (read_for_correction t oid input)) (\<lambda>c.
     svc_bind (\<lambda>d. run_tx (correct_tx D lower t oid actor input now c) (env d)) (\<lambda>_.
       run_tx (detail fixed2 t oid)))"

end
