(* ===== verification/Orders_Props.thy ===== *)
theory Orders_Props
  imports Orders Procurement_Props Payments_Props Terms_Props
begin

text \<open>
  The list of orders and the commands of a manager: what the filters select, how the
  pages divide the list, what an approval, a cancellation and a correction have done
  when they go through, and what a hand-off does to a cancelled order.
\<close>

section \<open>Filters\<close>

lemma procurementWhere_nil:
  "procurementWhere s st handedOff [] \<longleftrightarrow> s = (if handedOff then S_HANDED_OFF else S_UNASSESSED)"
  by (cases s) (auto simp: procurementWhere_def Let_def approved_status_def)

lemma procurementWhere_unassessed:
  assumes "UNASSESSED \<in> set items" and "UNAVAILABLE \<notin> set items" and "SENDING \<notin> set items"
  shows "procurementWhere s st handedOff items \<longleftrightarrow> s = (if handedOff then S_HANDED_OFF else S_UNASSESSED)"
proof -
  have "items \<noteq> []" using assms(1) by auto
  then show ?thesis using assms
    by (cases s) (auto simp: procurementWhere_def Let_def list_ex_iff list_all_iff dest: bspec)
qed

lemma procurementWhere_assessed:
  assumes "UNASSESSED \<notin> set items" and "items \<noteq> []"
  shows "procurementWhere s st False items \<longleftrightarrow> s = (if approved_status st then procurementSummaryFor items False else S_UNASSESSED)"
proof (cases "approved_status st")
  case False
  then show ?thesis by (cases s) (simp_all add: procurementWhere_def Let_def)
next
  case True
  have ex: "\<exists>x. x \<in> set items" using assms(2) by (cases items) auto
  have other: "x \<in> {IN_STOCK, RECEIVED, TO_ORDER, ORDERED, SUPPLIER_CONFIRMED}"
    if "x \<notin> {UNASSESSED, UNAVAILABLE, SENDING}" for x
    using that by (cases x) auto
  consider (stuck) "UNAVAILABLE \<in> set items \<or> SENDING \<in> set items"
    | (free) "set items \<subseteq> {IN_STOCK, RECEIVED, TO_ORDER, ORDERED, SUPPLIER_CONFIRMED}"
  proof (cases "UNAVAILABLE \<in> set items \<or> SENDING \<in> set items")
    case False
    have "x \<in> {IN_STOCK, RECEIVED, TO_ORDER, ORDERED, SUPPLIER_CONFIRMED}" if "x \<in> set items" for x
      using False assms(1) that by (intro other) auto
    then show ?thesis by (intro free subsetI)
  qed (rule stuck)
  then show ?thesis
  proof cases
    case stuck
    have mem: "list_ex (\<lambda>s. s \<in> S) items \<longleftrightarrow> set items \<inter> S \<noteq> {}" "list_all (\<lambda>s. s \<in> S) items \<longleftrightarrow> set items \<subseteq> S" for S
      by (auto simp: list_ex_iff list_all_iff)
    have no: "\<not> set items \<subseteq> {IN_STOCK, RECEIVED}" "\<not> set items \<subseteq> {TO_ORDER}" "\<not> set items \<subseteq> {ORDERED, SUPPLIER_CONFIRMED}"
      "set items \<inter> {UNASSESSED, UNAVAILABLE, SENDING} \<noteq> {}"
      using stuck by auto
    show ?thesis
      unfolding summary_cases_nonempty[OF assms(2)] procurementWhere_def Let_def mem
      using True assms stuck no by (cases "UNAVAILABLE \<in> set items"; cases s) simp_all
  next
    case free
    then have no: "UNASSESSED \<notin> set items" "UNAVAILABLE \<notin> set items" "SENDING \<notin> set items" by auto
    have mem: "list_ex (\<lambda>s. s \<in> S) items \<longleftrightarrow> set items \<inter> S \<noteq> {}" "list_all (\<lambda>s. s \<in> S) items \<longleftrightarrow> set items \<subseteq> S" for S
      by (auto simp: list_ex_iff list_all_iff)
    let ?A = "{IN_STOCK, RECEIVED}" and ?B = "{TO_ORDER}" and ?C = "{ORDERED, SUPPLIER_CONFIRMED}"
    have part: "set items \<subseteq> ?A \<longleftrightarrow> set items \<inter> ?B = {} \<and> set items \<inter> ?C = {}"
      "set items \<subseteq> ?B \<longleftrightarrow> set items \<inter> ?A = {} \<and> set items \<inter> ?C = {}"
      "set items \<subseteq> ?C \<longleftrightarrow> set items \<inter> ?A = {} \<and> set items \<inter> ?B = {}"
      "set items \<inter> {TO_ORDER, ORDERED, SUPPLIER_CONFIRMED} = (set items \<inter> ?B) \<union> (set items \<inter> ?C)"
      using free by auto
    have some: "\<not> (set items \<inter> ?A = {} \<and> set items \<inter> ?B = {} \<and> set items \<inter> ?C = {})" using free ex by blast
    show ?thesis
      unfolding summary_cases_nonempty[OF assms(2)] procurementWhere_def Let_def mem using True no some
      by (cases s) (simp_all add: part, (blast | auto)+)
  qed
qed

section \<open>Pages\<close>

lemma concat_pages:
  assumes "0 < n" and "length xs \<le> k * n"
  shows "concat (map (\<lambda>p. take n (drop (p * n) xs)) [0..<k]) = xs"
  using assms(2)
proof (induction k arbitrary: xs)
  case (Suc k)
  have "concat (map (\<lambda>p. take n (drop (p * n) xs)) [0..<Suc k]) =
      take n xs @ concat (map (\<lambda>p. take n (drop (p * n) (drop n xs))) [0..<k])"
    by (simp only: upt_conv_Cons[of 0 "Suc k"] map_Suc_upt[symmetric] list.map map_map o_def concat.simps) (simp add: ac_simps)
  also have "\<dots> = take n xs @ drop n xs" using Suc.prems by (subst Suc.IH) auto
  finally show ?case by simp
qed simp

lemma list_pages:
  assumes "0 < q_page_size q" and "length (filter (order_matches icontains t q ids d) (orders d)) \<le> k * q_page_size q"
  shows "concat (map (\<lambda>p. fst (order_page icontains rank t (q\<lparr>q_page := p + 1\<rparr>) ids d)) [0..<k])
     = orderListOrderBy rank q (filter (order_matches icontains t q ids d) (orders d))"
proof -
  have m: "order_matches icontains t (q\<lparr>q_page := p\<rparr>) ids d = order_matches icontains t q ids d" for p
    by (simp add: fun_eq_iff order_matches_def)
  have o: "orderListOrderBy rank (q\<lparr>q_page := p\<rparr>) rows = orderListOrderBy rank q rows" for p rows
    by (simp add: orderListOrderBy_def)
  show ?thesis
    unfolding order_page_def Let_def m o
    using concat_pages[OF assms(1), of "orderListOrderBy rank q (filter (order_matches icontains t q ids d) (orders d))" k] assms(2)
    by (simp add: orderListOrderBy_def)
qed

section \<open>Commands on an order\<close>

lemma transition_tx_run:
  "transition_tx t oid actor from st now d =
     (if tenant_frozen t d then Inl (TenantLifecycleFrozen ORDER_MUTATION)
      else if \<exists>o'\<in>set (orders d). o_id o' = oid \<and> o_tenant o' = t
      then Inr ((), d\<lparr>orders := update_where (\<lambda>r. o_id r = oid \<and> o_tenant r = t) (\<lambda>r. r\<lparr>o_status := st,
        o_approved_at := (if st = APPROVED then Some now else None),
        o_approved_by := (if st = APPROVED then Some actor else None),
        o_sort_procurement := (if st \<notin> {APPROVED, AUTO_APPROVED} then S_UNASSESSED else o_sort_procurement r)\<rparr>) (orders d),
          audit_logs := audit_logs d @ [\<lparr>au_tenant = t, au_order = oid, au_actor = actor, au_event = ORDER_STATUS_CHANGED from st\<rparr>]\<rparr>)
      else Inl RecordNotFound)"
  unfolding transition_tx_def by (simp add: tx_run create_audit_def cong: if_cong)

lemma find_or_404_Inr [tx_iff]:
  "find_or_404 t oid d = Inr r \<longleftrightarrow> (\<exists>x. find_order t oid d = Some x \<and> r = (x, d))"
  by (auto simp: find_or_404_def tx_run split: option.splits)

text \<open>What a status change that went through has done.\<close>

lemma transitionE:
  assumes "transition t oid actor st now env d = (Inr (), d1)"
  obtains r r1 where "find_order t oid d = Some r" "\<not> tenant_frozen t (env d)"
    "st = APPROVED \<longrightarrow> validationIssues (extraction_of r) (map issue_item (items_by_creation t oid d)) = []"
    "find_order t oid (env d) = Some r1"
    "find_order t oid d1 = Some (r1\<lparr>o_status := st, o_approved_at := (if st = APPROVED then Some now else None),
        o_approved_by := (if st = APPROVED then Some actor else None),
        o_sort_procurement := (if st \<notin> {APPROVED, AUTO_APPROVED} then S_UNASSESSED else o_sort_procurement r1)\<rparr>)"
    "d1 = (env d)\<lparr>orders := orders d1, audit_logs := audit_logs d1\<rparr>"
    "map o_id (orders d1) = map o_id (orders (env d))"
proof -
  have "\<exists>r s. run_tx (read_for_transition t oid st) d = (Inr r, s) \<and> run_tx (transition_tx t oid actor (o_status r) st now) (env s) = (Inr (), d1)"
    using assms unfolding transition_def svc_bind_def by (auto split: prod.splits sum.splits)
  then obtain r s where s: "read_for_transition t oid st d = Inr (r, s)" "transition_tx t oid actor (o_status r) st now (env s) = Inr ((), d1)"
    by auto
  have r: "s = d" "find_order t oid d = Some r"
    "st = APPROVED \<longrightarrow> validationIssues (extraction_of r) (map issue_item (items_by_creation t oid d)) = []"
    using s(1) unfolding read_for_transition_def by (auto simp: tx_iff)
  let ?f = "\<lambda>r. r\<lparr>o_status := st, o_approved_at := (if st = APPROVED then Some now else None),
        o_approved_by := (if st = APPROVED then Some actor else None),
        o_sort_procurement := (if st \<notin> {APPROVED, AUTO_APPROVED} then S_UNASSESSED else o_sort_procurement r)\<rparr>"
  have run: "\<not> tenant_frozen t (env d)" "\<exists>o'\<in>set (orders (env d)). o_id o' = oid \<and> o_tenant o' = t"
    "d1 = (env d)\<lparr>orders := update_where (\<lambda>r. o_id r = oid \<and> o_tenant r = t) ?f (orders (env d)),
        audit_logs := audit_logs (env d) @ [\<lparr>au_tenant = t, au_order = oid, au_actor = actor, au_event = ORDER_STATUS_CHANGED (o_status r) st\<rparr>]\<rparr>"
    using s(2) unfolding r(1) transition_tx_run by (simp_all split: if_splits)
  obtain r1 where r1: "find_order t oid (env d) = Some r1"
    using run(2) by (cases "find_order t oid (env d)") (auto simp: find_order_None)
  have "find_order t oid d1 = Some (?f r1)"
    using r1 unfolding find_order_def run(3) by (simp add: find_update_where)
  moreover have "map o_id (orders d1) = map o_id (orders (env d))"
    unfolding run(3) by (simp add: map_update_where)
  moreover have "d1 = (env d)\<lparr>orders := orders d1, audit_logs := audit_logs d1\<rparr>" by (simp add: run(3))
  ultimately show ?thesis using that r(2,3) run(1) r1 by blast
qed

lemma wf_transition:
  assumes "d1 = d\<lparr>orders := orders d1, audit_logs := audit_logs d1\<rparr>" and "map o_id (orders d1) = map o_id (orders d)" and "wf_store d"
  shows "wf_store d1"
  by (subst assms(1)) (use assms(2,3) in \<open>simp add: wf_store_def\<close>)

lemma assess_rows:
  assumes "assessApprovedOrder t oid actor releasedAt now d = Inr (am, d')" and "wf_store d" and "i \<in> set (items_of t oid d')"
  shows "it_status i = IN_STOCK \<and> (\<exists>r\<in>set (reservations d'). rs_tenant r = t \<and> rs_item r = it_id i
            \<and> rs_quantity r = it_quantity i \<and> rs_status r = ACTIVE)
       \<or> it_status i = TO_ORDER \<and> (\<forall>r\<in>set (reservations d'). rs_tenant r = t \<longrightarrow> rs_item r = it_id i \<longrightarrow> rs_status r \<noteq> ACTIVE)"
proof -
  let ?ps = "locked_products t (order_skus (items_by_id t oid d)) d"
  obtain d2 where s: "assess_items t now ?ps (items_by_id t oid d)
       (\<lambda>pid. active_sum t pid (after_release t (map it_id (items_by_id t oid d)) releasedAt d))
       (after_release t (map it_id (items_by_id t oid d)) releasedAt d) = Inr (am_items am, d2)"
    "d' = assess_commit t oid actor (am_items am) d2"
    using assms(1) by (rule assessE)
  have same: "reservations d' = reservations d2" by (simp add: s(2) assess_commit_def Let_def)
  have settled: "list_all2 (settled t ?ps d2) (items_by_id t oid d) (am_items am)"
    by (rule assess_loop(4)[OF assms(2) s(1)])
  note rows = assess_items_by_id[OF assms(1,2)]
  have "i \<in> set (items_by_id t oid d')" using assms(3) by simp
  from this[unfolded in_set_conv_nth] obtain k where k: "k < length (items_by_id t oid d')" "i = items_by_id t oid d' ! k" by metis
  then have k0: "k < length (items_by_id t oid d)" by (simp add: rows(1))
  have len: "length (am_items am) = length (items_by_id t oid d)" using list_all2_lengthD[OF settled] by simp
  have "it_status i = map it_status (items_by_id t oid d') ! k" using k by simp
  also have "\<dots> = as_status (am_items am ! k)" unfolding rows(2) using k0 len by simp
  finally have "it_status i = as_status (am_items am ! k)" .
  moreover have "it_id i = it_id (items_by_id t oid d ! k)" "it_quantity i = it_quantity (items_by_id t oid d ! k)"
    using k k0 by (simp_all add: rows(1))
  moreover have "settled t ?ps d2 (items_by_id t oid d ! k) (am_items am ! k)"
    using settled k0 len by (simp add: list_all2_conv_all_nth)
  ultimately show ?thesis unfolding same settled_def reserved_for_def unserved_for_def by auto
qed

lemma ensurePendingExport_run:
  "ensurePendingExport t oid now d =
     (if tenant_frozen t d then Inl (TenantLifecycleFrozen SHEETS_EXPORT)
      else Inr ((), case List.find (\<lambda>g. gd_tenant g = t) (destinations d) of
        None \<Rightarrow> d
      | Some g \<Rightarrow> if \<not> gd_active g then d
          else if any_row (\<lambda>x. oe_order x = oid \<and> oe_destination x = gd_id g) (order_exports d)
             then d\<lparr>order_exports := update_where (\<lambda>x. oe_order x = oid \<and> oe_destination x = gd_id g)
                    (\<lambda>x. x\<lparr>oe_status := EXP_PENDING, oe_error := None\<rparr>) (order_exports d)\<rparr>
             else d\<lparr>order_exports := order_exports d @ [\<lparr>oe_id = next_id d, oe_tenant = t, oe_order = oid,
                    oe_destination = gd_id g, oe_status = EXP_PENDING, oe_attempts = 0, oe_error = None,
                    oe_created = now, oe_row = None,
                    oe_last_attempt = None, oe_last_synced = None\<rparr>], next_id := next_id d + 1\<rparr>))"
  unfolding ensurePendingExport_def by (simp add: tx_run cong: if_cong option.case_cong split: option.splits)

lemma ensurePendingExportE:
  assumes "ensurePendingExport t oid now d = Inr ((), d')"
  shows "d' = d\<lparr>order_exports := order_exports d', next_id := next_id d'\<rparr>"
    and "\<And>g. List.find (\<lambda>g. gd_tenant g = t) (destinations d) = Some g \<Longrightarrow> gd_active g \<Longrightarrow>
       \<exists>x\<in>set (order_exports d'). oe_order x = oid \<and> oe_destination x = gd_id g \<and> oe_status x = EXP_PENDING \<and> oe_error x = None"
proof -
  show "d' = d\<lparr>order_exports := order_exports d', next_id := next_id d'\<rparr>"
    using assms unfolding ensurePendingExport_run by (auto split: if_splits option.splits)
  fix g assume g: "List.find (\<lambda>g. gd_tenant g = t) (destinations d) = Some g" "gd_active g"
  show "\<exists>x\<in>set (order_exports d'). oe_order x = oid \<and> oe_destination x = gd_id g \<and> oe_status x = EXP_PENDING \<and> oe_error x = None"
  proof (cases "any_row (\<lambda>x. oe_order x = oid \<and> oe_destination x = gd_id g) (order_exports d)")
    case True
    then obtain x where "x \<in> set (order_exports d)" "oe_order x = oid \<and> oe_destination x = gd_id g" by auto
    moreover have "order_exports d' = update_where (\<lambda>x. oe_order x = oid \<and> oe_destination x = gd_id g)
                    (\<lambda>x. x\<lparr>oe_status := EXP_PENDING, oe_error := None\<rparr>) (order_exports d)"
      using assms g True unfolding ensurePendingExport_run by (auto split: if_splits)
    ultimately show ?thesis unfolding set_update_where
      by (intro bexI[of _ "x\<lparr>oe_status := EXP_PENDING, oe_error := None\<rparr>"]) (auto simp: set_update_where intro!: image_eqI[of _ _ x])
  next
    case False
    then show ?thesis using assms g unfolding ensurePendingExport_run by (auto split: if_splits)
  qed
qed

lemma detail_Inr:
  assumes "detail fixed2 t oid d = Inr (v, d')"
  obtains r where "d' = d" "find_order t oid d = Some r" "map_order fixed2 t r d = Inr v"
proof -
  obtain r where r: "find_order t oid d = Some r" "tx_result (map_order fixed2 t r) d = Inr (v, d')"
    using assms by (auto simp: detail_def tx_iff)
  show ?thesis
    using r that by (cases "map_order fixed2 t r d") (simp_all add: tx_result_def)
qed

lemma map_order_status:
  assumes "map_order fixed2 t r d = Inr v"
  shows "ov_id v = o_id r" "ov_status v = o_status r" "ov_channel v = INSTAGRAM"
    "ov_procurement v = (if approved_status (o_status r)
       then procurementSummaryFor (map it_status (items_by_creation t (o_id r) d)) (o_handed_off_at r \<noteq> None) else S_UNASSESSED)"
  using assms by (auto simp: map_order_def Let_def split: sum.splits prod.splits)

lemma svc_bind_ok:
  assumes "svc_bind m f s = (Inr b, s')"
  obtains a s1 where "m s = (Inr a, s1)" "f a s1 = (Inr b, s')"
  using assms by (auto simp: svc_bind_def split: prod.splits sum.splits)

lemma approveE:
  assumes "approve fixed2 t oid actor now env d = (Inr v, d')"
  obtains d1 am d2 where "transition t oid actor APPROVED now env d = (Inr (), d1)"
    "assessApprovedOrder t oid actor now now d1 = Inr (am, d2)" "ensurePendingExport t oid now d2 = Inr ((), d')"
    "detail fixed2 t oid d' = Inr (v, d')"
proof -
  from assms obtain d1 where 1: "transition t oid actor APPROVED now env d = (Inr (), d1)"
    and x: "svc_bind (run_tx (assessApprovedOrder t oid actor now now)) (\<lambda>_.
     svc_bind (run_tx (ensurePendingExport t oid now)) (\<lambda>_. run_tx (detail fixed2 t oid))) d1 = (Inr v, d')"
    unfolding approve_def by (rule svc_bind_ok) auto
  from x obtain am d2 where 2: "assessApprovedOrder t oid actor now now d1 = Inr (am, d2)"
    and y: "svc_bind (run_tx (ensurePendingExport t oid now)) (\<lambda>_. run_tx (detail fixed2 t oid)) d2 = (Inr v, d')"
    by (rule svc_bind_ok) auto
  from y obtain d3 where 3: "ensurePendingExport t oid now d2 = Inr ((), d3)" and z: "detail fixed2 t oid d3 = Inr (v, d')"
    by (rule svc_bind_ok) auto
  have "d' = d3" using z by (auto elim: detail_Inr)
  then show ?thesis using that 1 2 3 z by simp
qed

lemma cancelE_order:
  assumes "cancel fixed2 t oid actor now env d = (Inr v, d')"
  obtains d1 where "transition t oid actor CANCELLED now env d = (Inr (), d1)"
    "releaseOrderReservations t oid actor now d1 = Inr ((), d')" "detail fixed2 t oid d' = Inr (v, d')"
proof -
  from assms obtain d1 where 1: "transition t oid actor CANCELLED now env d = (Inr (), d1)"
    and x: "svc_bind (run_tx (releaseOrderReservations t oid actor now)) (\<lambda>_. run_tx (detail fixed2 t oid)) d1 = (Inr v, d')"
    unfolding cancel_def by (rule svc_bind_ok) auto
  from x obtain d2 where 2: "releaseOrderReservations t oid actor now d1 = Inr ((), d2)" and z: "detail fixed2 t oid d2 = Inr (v, d')"
    by (rule svc_bind_ok) auto
  have "d' = d2" using z by (auto elim: detail_Inr)
  then show ?thesis using that 1 2 z by simp
qed

lemma no_active_iff:
  "(\<forall>r\<in>set (reservations d). \<not> active_of_items t (map it_id (items_of t oid d)) r) \<longleftrightarrow>
   (\<forall>i\<in>set (items_of t oid d). \<forall>r\<in>set (reservations d). rs_tenant r = t \<longrightarrow> rs_item r = it_id i \<longrightarrow> rs_status r \<noteq> ACTIVE)"
  by (auto simp: active_of_items_def)

lemma release_effect:
  assumes "releaseOrderReservations t oid actor now d = Inr ((), d')"
  shows "products d' = products d" "orders d' = orders d" "order_items d' = order_items d"
    and "find_order t oid d = Some r \<Longrightarrow> q \<in> set (reservations d') \<Longrightarrow> \<not> active_of_items t (map it_id (items_of t oid d)) q"
proof -
  consider "d' = d" "find_order t oid d = None"
    | a where "d' = (release_rows t (map it_id (items_of t oid d)) now d)\<lparr>audit_logs := a\<rparr>"
    | "d' = release_rows t (map it_id (items_of t oid d)) now d"
    using assms by (auto simp: release_unfold Let_def split: if_splits option.splits)
  note cases = this
  show "products d' = products d" "orders d' = orders d" "order_items d' = order_items d"
    by (cases rule: cases; simp)+
  assume "find_order t oid d = Some r" "q \<in> set (reservations d')"
  then have "q \<in> set (reservations (release_rows t (map it_id (items_of t oid d)) now d))"
    by (cases rule: cases) simp_all
  from release_rows_idle[OF this] show "\<not> active_of_items t (map it_id (items_of t oid d)) q"
    by (auto simp: active_of_items_def)
qed

text \<open>C4.
  Approval.  An approval that went through found no open issue, and committed the
  status with its time and its manager; then every item of the order is in stock with
  an active reservation of its quantity, or has to be ordered and holds none; the
  answer shows the summary of these items; and an active sheet of the tenant has a
  pending export of the order.\<close>

theorem approve_effect:
  assumes "approve fixed2 t oid actor now env d = (Inr v, d')" and "wf_store (env d)"
  shows "(\<exists>r. find_order t oid d = Some r \<and>
            validationIssues (extraction_of r) (map issue_item (items_by_creation t oid d)) = [])
     \<and> (\<exists>r. find_order t oid d' = Some r \<and> o_status r = APPROVED \<and> o_approved_at r = Some now \<and> o_approved_by r = Some actor)
     \<and> (\<forall>i\<in>set (items_of t oid d').
          it_status i = IN_STOCK \<and> (\<exists>r\<in>set (reservations d'). rs_tenant r = t \<and> rs_item r = it_id i
            \<and> rs_quantity r = it_quantity i \<and> rs_status r = ACTIVE)
        \<or> it_status i = TO_ORDER \<and> (\<forall>r\<in>set (reservations d'). rs_tenant r = t \<longrightarrow> rs_item r = it_id i \<longrightarrow> rs_status r \<noteq> ACTIVE))
     \<and> ov_id v = oid \<and> ov_status v = APPROVED
     \<and> ov_procurement v = procurementSummaryFor (map it_status (items_by_creation t oid d')) (ov_handed_off_at v \<noteq> None)
     \<and> (\<forall>g. List.find (\<lambda>g. gd_tenant g = t) (destinations d') = Some g \<longrightarrow> gd_active g \<longrightarrow>
          (\<exists>x\<in>set (order_exports d'). oe_order x = oid \<and> oe_destination x = gd_id g \<and> oe_status x = EXP_PENDING \<and> oe_error x = None))"
proof -
  obtain d1 am d2 where s: "transition t oid actor APPROVED now env d = (Inr (), d1)"
    "assessApprovedOrder t oid actor now now d1 = Inr (am, d2)" "ensurePendingExport t oid now d2 = Inr ((), d')"
    "detail fixed2 t oid d' = Inr (v, d')"
    by (rule approveE[OF assms(1)])
  obtain r r1 where tr: "find_order t oid d = Some r"
    "validationIssues (extraction_of r) (map issue_item (items_by_creation t oid d)) = []"
    "find_order t oid d1 = Some (r1\<lparr>o_status := APPROVED, o_approved_at := Some now, o_approved_by := Some actor\<rparr>)"
    "d1 = (env d)\<lparr>orders := orders d1, audit_logs := audit_logs d1\<rparr>" "map o_id (orders d1) = map o_id (orders (env d))"
    using s(1) by (rule transitionE) simp
  have wf1: "wf_store d1" by (rule wf_transition[OF tr(4,5) assms(2)])
  note export = ensurePendingExportE[OF s(3)]
  have tables: "orders d' = orders d2" "order_items d' = order_items d2" "reservations d' = reservations d2"
    "destinations d' = destinations d2"
    by (subst export(1), simp)+
  have r2: "find_order t oid d' = Some (r1\<lparr>o_status := APPROVED, o_approved_at := Some now, o_approved_by := Some actor,
      o_sort_procurement := am_summary am\<rparr>)" (is "_ = Some ?r2")
    using assess_find_order[OF s(2) tr(3)] by (simp add: find_order_def tables)
  obtain ro where ro: "find_order t oid d' = Some ro" "map_order fixed2 t ro d' = Inr v"
    using s(4) by (rule detail_Inr)
  then have rr: "ro = ?r2" using r2 by simp
  have id: "o_id ro = oid" using find_orderD[OF ro(1)] by simp
  have items: "items_of t oid d' = items_of t oid d2" by (simp add: items_of_def tables)
  have "\<forall>i\<in>set (items_of t oid d').
          it_status i = IN_STOCK \<and> (\<exists>r\<in>set (reservations d'). rs_tenant r = t \<and> rs_item r = it_id i
            \<and> rs_quantity r = it_quantity i \<and> rs_status r = ACTIVE)
        \<or> it_status i = TO_ORDER \<and> (\<forall>r\<in>set (reservations d'). rs_tenant r = t \<longrightarrow> rs_item r = it_id i \<longrightarrow> rs_status r \<noteq> ACTIVE)"
    unfolding items tables using assess_rows[OF s(2) wf1] by blast
  moreover have "ov_handed_off_at v = o_handed_off_at ro"
    using ro(2) by (auto simp: map_order_def Let_def split: sum.splits prod.splits)
  ultimately show ?thesis
    using tr(1,2) ro(1) map_order_status[OF ro(2)] id export(2) unfolding tables
    by (simp add: rr approved_status_def)
qed

text \<open>Nothing is committed in between.\<close>

definition no_env :: "db \<Rightarrow> db" where "no_env d = d"

lemma no_env [simp]: "no_env d = d" by (simp add: no_env_def)

lemma approve_sample:
  obtains v d' where "approve (\<lambda>_. []) 2 21 ''m'' 5 no_env sample_db = (Inr v, d')" "map it_status (items_of 2 21 d') = [IN_STOCK]"
proof -
  have "(case approve (\<lambda>_. []) 2 21 ''m'' 5 no_env sample_db of (Inl _, _) \<Rightarrow> False | (Inr v, d') \<Rightarrow> map it_status (items_of 2 21 d') = [IN_STOCK])"
    by code_simp
  then show ?thesis using that by (auto split: prod.splits sum.splits)
qed

theorem approve_effect_witness:
  "\<exists>v d'. approve (\<lambda>_. []) 2 21 ''m'' 5 no_env sample_db = (Inr v, d') \<and> ov_status v = APPROVED \<and>
     (\<exists>r\<in>set (reservations d'). rs_tenant r = 2 \<and> rs_status r = ACTIVE)"
proof -
  obtain v d' where r: "approve (\<lambda>_. []) 2 21 ''m'' 5 no_env sample_db = (Inr v, d')" "map it_status (items_of 2 21 d') = [IN_STOCK]"
    by (rule approve_sample)
  have wf: "wf_store (no_env sample_db)" by (simp add: sample_wf)
  obtain i where "i \<in> set (items_of 2 21 d')" "it_status i = IN_STOCK" using r(2) by (cases "items_of 2 21 d'") auto
  then show ?thesis using approve_effect[OF r(1) wf] r(1) by auto
qed

text \<open>C5.
  Cancellation.  A cancelled order has the status and no approval, its items hold
  no active reservation, and neither products nor items have changed, whatever was
  committed between the reads and the write.\<close>

theorem cancel_effect:
  assumes "cancel fixed2 t oid actor now env d = (Inr v, d')"
  shows "(\<exists>r. find_order t oid d' = Some r \<and> o_status r = CANCELLED \<and> o_approved_at r = None \<and> o_approved_by r = None
            \<and> o_sort_procurement r = S_UNASSESSED)
     \<and> (\<forall>i\<in>set (items_of t oid d'). \<forall>r\<in>set (reservations d'). rs_tenant r = t \<longrightarrow> rs_item r = it_id i \<longrightarrow> rs_status r \<noteq> ACTIVE)
     \<and> products d' = products (env d) \<and> order_items d' = order_items (env d)
     \<and> ov_status v = CANCELLED \<and> ov_procurement v = S_UNASSESSED"
proof -
  obtain d1 where s: "transition t oid actor CANCELLED now env d = (Inr (), d1)"
    "releaseOrderReservations t oid actor now d1 = Inr ((), d')" "detail fixed2 t oid d' = Inr (v, d')"
    by (rule cancelE_order[OF assms])
  obtain r1 where tr: "find_order t oid d1 = Some (r1\<lparr>o_status := CANCELLED, o_approved_at := None, o_approved_by := None,
      o_sort_procurement := S_UNASSESSED\<rparr>)" "d1 = (env d)\<lparr>orders := orders d1, audit_logs := audit_logs d1\<rparr>"
    using s(1) by (rule transitionE) simp
  note rel = release_effect[OF s(2)]
  have r2: "find_order t oid d' = Some (r1\<lparr>o_status := CANCELLED, o_approved_at := None, o_approved_by := None,
      o_sort_procurement := S_UNASSESSED\<rparr>)" (is "_ = Some ?r2")
    using tr(1) by (simp add: find_order_def rel(2))
  obtain ro where ro: "find_order t oid d' = Some ro" "map_order fixed2 t ro d' = Inr v"
    using s(3) by (rule detail_Inr)
  then have rr: "ro = ?r2" using r2 by simp
  have "products d1 = products (env d)" "order_items d1 = order_items (env d)" by (subst tr(2), simp)+
  moreover have "items_of t oid d' = items_of t oid d1" by (simp add: items_of_def rel(3))
  moreover have "\<forall>q\<in>set (reservations d'). \<not> active_of_items t (map it_id (items_of t oid d1)) q"
    using rel(4)[OF tr(1)] by blast
  ultimately show ?thesis
    using r2 rel(1,3) map_order_status[OF ro(2)] no_active_iff[of d' t oid] by (simp add: rr approved_status_def)
qed

theorem cancel_effect_witness:
  "\<exists>v d'. cancel (\<lambda>_. []) 2 21 ''m'' 6 no_env ready_sample = (Inr v, d') \<and> ov_status v = CANCELLED \<and>
     active_sum 2 11 ready_sample = 2 \<and> products d' = products ready_sample"
proof -
  have "(case cancel (\<lambda>_. []) 2 21 ''m'' 6 no_env ready_sample of (Inl _, _) \<Rightarrow> False | (Inr v, d') \<Rightarrow> True)"
    unfolding ready_sample_def by code_simp
  then obtain v d' where r: "cancel (\<lambda>_. []) 2 21 ''m'' 6 no_env ready_sample = (Inr v, d')"
    by (auto split: prod.splits sum.splits)
  then show ?thesis using cancel_effect[OF r] ready_sample_values by auto
qed

text \<open>The filter by procurement agrees with the summary that the list shows, for
  orders that are not handed off: without items it selects the same as the summary;
  without an unassessed item always; with one, whenever no item is unavailable or
  being sent.\<close>

theorem procurement_filter:
  assumes "UNASSESSED \<in> set items \<longrightarrow> UNAVAILABLE \<notin> set items \<and> SENDING \<notin> set items"
  shows "procurementWhere s st False items \<longleftrightarrow>
     s = (if approved_status st then procurementSummaryFor items False else S_UNASSESSED)"
proof (cases "items = [] \<or> UNASSESSED \<in> set items")
  case True
  then have "procurementSummaryFor items False = S_UNASSESSED" by (auto simp: procurementSummaryFor_def)
  then show ?thesis
    using True procurementWhere_nil[of s st False] procurementWhere_unassessed[of items s st False] assms by auto
next
  case False
  then show ?thesis using procurementWhere_assessed[of items s st] by simp
qed

theorem procurement_filter_witness:
  "procurementWhere S_BLOCKED APPROVED False [UNAVAILABLE, SENDING] \<and> \<not> procurementWhere S_SENDING APPROVED False [UNAVAILABLE, SENDING]"
  using procurement_filter[of "[UNAVAILABLE, SENDING]" S_BLOCKED APPROVED] procurement_filter[of "[UNAVAILABLE, SENDING]" S_SENDING APPROVED]
  by (simp add: approved_status_def procurementSummaryFor_def)

text \<open>The pages of the list: pages of a fixed size, read from the same store, follow
  each other without gap or overlap, and together are all matching orders in the
  order of the list.\<close>

theorem list_pages_partition:
  assumes "0 < q_page_size q"
    and "length (filter (order_matches icontains t q ids d) (orders d)) \<le> k * q_page_size q"
  shows "concat (map (\<lambda>p. fst (order_page icontains rank t (q\<lparr>q_page := p + 1\<rparr>) ids d)) [0..<k])
       = orderListOrderBy rank q (filter (order_matches icontains t q ids d) (orders d))
     \<and> mset (concat (map (\<lambda>p. fst (order_page icontains rank t (q\<lparr>q_page := p + 1\<rparr>) ids d)) [0..<k]))
       = mset (filter (order_matches icontains t q ids d) (orders d))
     \<and> (\<forall>p. length (fst (order_page icontains rank t (q\<lparr>q_page := p\<rparr>) ids d)) \<le> q_page_size q)"
  unfolding list_pages[OF assms] by (simp add: orderListOrderBy_def order_page_def Let_def)

definition all_orders :: order_query where
  "all_orders = \<lparr>q_search = None, q_status = None, q_procurement = None, q_shipment = None, q_payment = None,
     q_page = 1, q_page_size = 1, q_sort = None, q_direction = None\<rparr>"

theorem list_pages_partition_witness:
  "mset (concat (map (\<lambda>p. fst (order_page (\<lambda>_ _. True) (\<lambda>_ _. 0) 7 (all_orders\<lparr>q_page := p + 1\<rparr>) None sample_db)) [0..<2]))
     = mset [sample_order 20 7 APPROVED]"
proof -
  have m: "filter (order_matches (\<lambda>_ _. True) 7 all_orders None sample_db) (orders sample_db) = [sample_order 20 7 APPROVED]"
    by (simp add: order_matches_def all_orders_def sample_defs non_empty_def)
  have s: "0 < q_page_size all_orders" and l: "length [sample_order 20 7 APPROVED] \<le> 2 * q_page_size all_orders"
    by (simp_all add: all_orders_def)
  from list_pages_partition[OF s l[folded m], of "\<lambda>_ _. 0", THEN conjunct2, THEN conjunct1] show ?thesis
    unfolding m .
qed

section \<open>Corrections\<close>

text \<open>What a correction keeps track of in an item.\<close>

definition item_key :: "order_item \<Rightarrow> uuid \<times> uuid \<times> string option \<times> int \<times> procurement_status" where
  "item_key i = (it_id i, it_tenant i, it_catalog i, it_quantity i, it_status i)"

lemma item_key_snapshot:
  "map item_key (order_items (fold (snapshot_line t oid) lts d)) = map item_key (order_items d)"
proof (induction lts arbitrary: d)
  case (Cons lt lts)
  have "map item_key (order_items (snapshot_line t oid lt d)) = map item_key (order_items d)"
    by (simp add: snapshot_line_def map_update_where item_key_def split: prod.splits)
  then show ?case by (simp add: Cons)
qed simp

definition written :: "item_update list \<Rightarrow> order_item \<Rightarrow> order_item" where
  "written us i = fold (\<lambda>u i. if it_id i = iu_id u then write_item u i else i) us i"

lemma write_item_simps [simp]:
  "it_id (write_item u i) = it_id i" "it_tenant (write_item u i) = it_tenant i" "it_status (write_item u i) = it_status i"
  "it_catalog (write_item u i) = iu_catalog u" "it_quantity (write_item u i) = iu_quantity u"
  by (simp_all add: write_item_def)

lemma written_simps [simp]:
  "it_id (written us i) = it_id i" "it_tenant (written us i) = it_tenant i" "it_status (written us i) = it_status i"
  by (induction us arbitrary: i) (auto simp: written_def)

lemma written_values:
  assumes "distinct (map iu_id us)"
  shows "(it_catalog (written us i), it_quantity (written us i)) =
     (case submitted_item us (it_id i) of Some u \<Rightarrow> (iu_catalog u, iu_quantity u) | None \<Rightarrow> (it_catalog i, it_quantity i))"
  using assms
proof (induction us arbitrary: i)
  case (Cons u us)
  show ?case
  proof (cases "it_id i = iu_id u")
    case True
    then have "submitted_item us (iu_id u) = None"
      using Cons.prems by (simp add: submitted_item_def find_None_iff) (metis image_eqI)
    then show ?thesis using True Cons.IH[of "write_item u i"] Cons.prems by (simp add: written_def submitted_item_def)
  next
    case False
    then show ?thesis using Cons.IH[of i] Cons.prems by (simp add: written_def submitted_item_def)
  qed
qed (simp add: written_def submitted_item_def)

lemma update_items_run:
  "update_items us d = Inr ((), d') \<Longrightarrow> d' = d\<lparr>order_items := map (written us) (order_items d)\<rparr>"
proof (induction us arbitrary: d)
  case Nil
  then show ?case by (simp add: written_def)
next
  case (Cons u us)
  then obtain d1 where "update_item (iu_id u) (write_item u) d = Inr ((), d1)" "update_items us d1 = Inr ((), d')"
    by (auto simp: tx_iff)
  moreover from this(1) have "d1 = d\<lparr>order_items := update_where (\<lambda>i. it_id i = iu_id u) (write_item u) (order_items d)\<rparr>"
    by (simp add: tx_iff)
  ultimately show ?case using Cons.IH[of d1] by (simp add: update_where_def written_def fun_eq_iff comp_def)
qed

lemma read_for_correctionE:
  assumes "read_for_correction t oid input d = Inr (c, d')"
  obtains r where "d' = d" "find_order t oid d = Some r" "o_handed_off_at r = None" "supplier_deliveries t oid d = []"
    "shipments_of t oid d = []" "oc_order (co_context c) = r" "oc_items (co_context c) = items_by_creation t oid d"
proof -
  have keep: "check_items names items us s = Inr ((), s') \<Longrightarrow> s' = s" for names items us s s'
    by (induction us arbitrary: s) (auto simp: tx_iff)
  show ?thesis using assms that unfolding read_for_correction_def by (auto simp: tx_iff dest: keep)
qed

definition corrected_order :: "(string \<Rightarrow> string) \<Rightarrow> order_update \<Rightarrow> correction \<Rightarrow> order \<Rightarrow> order" where
  "corrected_order lower input c r =
     (let us = (case ou_items input of None \<Rightarrow> [] | Some us \<Rightarrow> us);
          e = next_extraction input (extraction_of (oc_order (co_context c)));
          rows = corrected_rows us (oc_items (co_context c));
          (profile, own, username) = co_conversation c
      in r\<lparr>o_extraction := Some e, o_issues := validationIssues e (map issue_item rows), o_status := NEEDS_REVIEW,
          o_sort_customer := normalizeSortValue lower
            (case or_else (ex_name e) (or_else profile (or_else own username)) of Some s \<Rightarrow> s | None \<Rightarrow> []),
          o_sort_product := productSortValue lower (map (\<lambda>i. (it_catalog i, it_text i)) rows) (co_names c),
          o_sort_procurement := S_UNASSESSED\<rparr>)"

lemma correct_txE:
  assumes "correct_tx D lower t oid actor input now c d = Inr ((), d')"
  obtains d1 d2 where
    "\<not> tenant_frozen t d"
    "ou_items input \<noteq> None \<longrightarrow> (\<forall>p\<in>set (payments d). \<not> (pay_tenant p = t \<and> pay_order p = oid \<and> pay_cancelled_at p = None))"
    "d1 = after_release t (map it_id (oc_items (co_context c))) now (d\<lparr>order_items :=
        update_where (\<lambda>i. it_tenant i = t \<and> it_id i \<in> set (map it_id (oc_items (co_context c)))) reset_item
          (map (written (case ou_items input of None \<Rightarrow> [] | Some us \<Rightarrow> us)) (order_items d))\<rparr>)"
    "map item_key (order_items d2) = map item_key (order_items d1)" "reservations d2 = reservations d1"
    "products d2 = products d1" "orders d2 = orders d1" "payments d2 = payments d1"
    "d' = d2\<lparr>orders := update_where (\<lambda>r. o_id r = oid \<and> o_tenant r = t) (corrected_order lower input c) (orders d2),
       audit_logs := audit_logs d2 @ [\<lparr>au_tenant = t, au_order = oid, au_actor = actor, au_event = ORDER_CORRECTED\<rparr>]\<rparr>"
    "\<exists>r\<in>set (orders d2). o_id r = oid \<and> o_tenant r = t"
proof -
  let ?us = "case ou_items input of None \<Rightarrow> [] | Some us \<Rightarrow> us"
  let ?iids = "map it_id (oc_items (co_context c))"
  obtain profile own username where names: "co_conversation c = (profile, own, username)"
    by (cases "co_conversation c") auto
  let ?lock = "if ou_items input = None then tx_return ()
        else tx_bind (tx_read (\<lambda>d. count_where (\<lambda>p. pay_tenant p = t \<and> pay_order p = oid \<and> pay_cancelled_at p = None) (payments d)))
               (\<lambda>activePayments. tx_when (activePayments > 0) (Conflict ''Order items are locked after payment''))"
  let ?terms = "case co_terms c of
          None \<Rightarrow> tx_return ()
        | Some terms \<Rightarrow> tx_bind (materializeCommercialTerms D t oid actor
              (map (corrected_line ?us (oc_items (co_context c)) (co_pricing c)) (corrected_rows ?us (oc_items (co_context c)))) (Some (ct_entity terms, ct_account terms)))
            (\<lambda>_. tx_return ())"
  have "\<exists>s1 s2 s3 s4 s5. assertTenantAcceptingMutations t ORDER_MUTATION d = Inr ((), s1) \<and> ?lock s1 = Inr ((), s2)
     \<and> update_items ?us s2 = Inr ((), s3)
     \<and> release_reassessed t ?iids now (s3\<lparr>order_items := update_where (\<lambda>i. it_tenant i = t \<and> it_id i \<in> set ?iids) reset_item (order_items s3)\<rparr>) = Inr ((), s4)
     \<and> ?terms s4 = Inr ((), s5)
     \<and> (\<exists>r\<in>set (orders s5). o_id r = oid \<and> o_tenant r = t)
     \<and> d' = s5\<lparr>orders := update_where (\<lambda>r. o_id r = oid \<and> o_tenant r = t) (corrected_order lower input c) (orders s5),
       audit_logs := audit_logs s5 @ [\<lparr>au_tenant = t, au_order = oid, au_actor = actor, au_event = ORDER_CORRECTED\<rparr>]\<rparr>"
    using assms unfolding correct_tx_def Let_def names prod.case corrected_order_def tx_seq_Inr create_audit_Inr update_order_Inr tx_write_Inr
    by (elim exE conjE) (intro exI conjI; (assumption | simp))
  then obtain s1 s2 s3 s4 s5 where s: "assertTenantAcceptingMutations t ORDER_MUTATION d = Inr ((), s1)" "?lock s1 = Inr ((), s2)"
     "update_items ?us s2 = Inr ((), s3)"
     "release_reassessed t ?iids now (s3\<lparr>order_items := update_where (\<lambda>i. it_tenant i = t \<and> it_id i \<in> set ?iids) reset_item (order_items s3)\<rparr>) = Inr ((), s4)"
     "?terms s4 = Inr ((), s5)" "\<exists>r\<in>set (orders s5). o_id r = oid \<and> o_tenant r = t"
     "d' = s5\<lparr>orders := update_where (\<lambda>r. o_id r = oid \<and> o_tenant r = t) (corrected_order lower input c) (orders s5),
       audit_logs := audit_logs s5 @ [\<lparr>au_tenant = t, au_order = oid, au_actor = actor, au_event = ORDER_CORRECTED\<rparr>]\<rparr>"
    by blast
  have f: "s1 = d" "\<not> tenant_frozen t d" using s(1) by (simp_all add: tx_iff)
  have l: "s2 = s1" "ou_items input \<noteq> None \<longrightarrow> (\<forall>p\<in>set (payments d). \<not> (pay_tenant p = t \<and> pay_order p = oid \<and> pay_cancelled_at p = None))"
    using s(2) f(1) by (auto simp: tx_iff count_where_0_iff split: if_splits)
  have s4: "s4 = after_release t ?iids now (d\<lparr>order_items :=
        update_where (\<lambda>i. it_tenant i = t \<and> it_id i \<in> set ?iids) reset_item (map (written ?us) (order_items d))\<rparr>)"
    using s(4) update_items_run[OF s(3)] f(1) l(1) by (simp add: release_reassessed_def after_release_def)
  have s5: "map item_key (order_items s5) = map item_key (order_items s4)" "reservations s5 = reservations s4"
    "products s5 = products s4" "orders s5 = orders s4" "payments s5 = payments s4"
    using s(5) by (auto simp: tx_iff materialize_unfold Let_def item_key_snapshot split: option.splits)
  show ?thesis by (rule that[OF f(2) l(2) s4 s5 s(7,6)])
qed

lemma correctE:
  assumes "correct D lower fixed2 t oid actor input now env d = (Inr v, d')"
  obtains c where "read_for_correction t oid input d = Inr (c, d)"
    "correct_tx D lower t oid actor input now c (env d) = Inr ((), d')" "detail fixed2 t oid d' = Inr (v, d')"
proof -
  from assms obtain c s where 1: "read_for_correction t oid input d = Inr (c, s)"
    and x: "svc_bind (\<lambda>d. run_tx (correct_tx D lower t oid actor input now c) (env d)) (\<lambda>_. run_tx (detail fixed2 t oid)) s = (Inr v, d')"
    unfolding correct_def by (rule svc_bind_ok) auto
  from 1 have s: "s = d" by (rule read_for_correctionE)
  from x obtain d2 where 2: "correct_tx D lower t oid actor input now c (env s) = Inr ((), d2)" and z: "detail fixed2 t oid d2 = Inr (v, d')"
    by (rule svc_bind_ok) auto
  have "d' = d2" using z by (auto elim: detail_Inr)
  then show ?thesis using that 1 2 z s by simp
qed

text \<open>Correction.  A correction that went through read an order that was not handed
  off, sent to a supplier or shipped, and, where it changed items, wrote while no
  payment was active.  It stores what was submitted over what was there, recomputes
  the issues, sends the order back to review, puts every item it had read back to
  unassessed and takes their reservations; products and payments are untouched.\<close>

theorem correct_effect:
  assumes "correct D lower fixed2 t oid actor input now env d = (Inr v, d')"
    and "\<forall>us. ou_items input = Some us \<longrightarrow> distinct (map iu_id us)"
  shows "\<exists>r. find_order t oid d = Some r \<and> o_handed_off_at r = None \<and> supplier_deliveries t oid d = [] \<and> shipments_of t oid d = []
     \<and> (ou_items input \<noteq> None \<longrightarrow> (\<forall>p\<in>set (payments (env d)). \<not> (pay_tenant p = t \<and> pay_order p = oid \<and> pay_cancelled_at p = None)))
     \<and> (\<exists>r'. find_order t oid d' = Some r' \<and> o_status r' = NEEDS_REVIEW \<and> o_sort_procurement r' = S_UNASSESSED
          \<and> o_extraction r' = Some (next_extraction input (extraction_of r)))
     \<and> map (\<lambda>i. (it_id i, it_status i)) (order_items d') =
         map (\<lambda>i. (it_id i, if it_tenant i = t \<and> it_id i \<in> it_id ` set (items_of t oid d) then UNASSESSED else it_status i)) (order_items (env d))
     \<and> (\<forall>us. ou_items input = Some us \<longrightarrow> map (\<lambda>i. (it_id i, it_catalog i, it_quantity i)) (order_items d') =
         map (\<lambda>i. case submitted_item us (it_id i) of Some u \<Rightarrow> (it_id i, iu_catalog u, iu_quantity u)
            | None \<Rightarrow> (it_id i, it_catalog i, it_quantity i)) (order_items (env d)))
     \<and> (\<forall>q\<in>set (reservations d'). \<not> active_of_items t (map it_id (items_of t oid d)) q)
     \<and> products d' = products (env d) \<and> payments d' = payments (env d) \<and> ov_status v = NEEDS_REVIEW"
proof -
  obtain c where s: "read_for_correction t oid input d = Inr (c, d)"
    "correct_tx D lower t oid actor input now c (env d) = Inr ((), d')" "detail fixed2 t oid d' = Inr (v, d')"
    by (rule correctE[OF assms(1)])
  obtain r where r: "find_order t oid d = Some r" "o_handed_off_at r = None" "supplier_deliveries t oid d = []"
    "shipments_of t oid d = []" "oc_order (co_context c) = r" "oc_items (co_context c) = items_by_creation t oid d"
    using s(1) by (rule read_for_correctionE)
  let ?us = "case ou_items input of None \<Rightarrow> [] | Some us \<Rightarrow> us"
  let ?read = "\<lambda>i. it_tenant i = t \<and> it_id i \<in> set (map it_id (items_by_creation t oid d))"
  obtain d1 d2 where w:
    "ou_items input \<noteq> None \<longrightarrow> (\<forall>p\<in>set (payments (env d)). \<not> (pay_tenant p = t \<and> pay_order p = oid \<and> pay_cancelled_at p = None))"
    "d1 = after_release t (map it_id (items_by_creation t oid d)) now ((env d)\<lparr>order_items :=
        update_where ?read reset_item (map (written ?us) (order_items (env d)))\<rparr>)"
    "map item_key (order_items d2) = map item_key (order_items d1)" "reservations d2 = reservations d1"
    "products d2 = products d1" "orders d2 = orders d1" "payments d2 = payments d1"
    "d' = d2\<lparr>orders := update_where (\<lambda>r. o_id r = oid \<and> o_tenant r = t) (corrected_order lower input c) (orders d2),
       audit_logs := audit_logs d2 @ [\<lparr>au_tenant = t, au_order = oid, au_actor = actor, au_event = ORDER_CORRECTED\<rparr>]\<rparr>"
    "\<exists>r\<in>set (orders d2). o_id r = oid \<and> o_tenant r = t"
    using s(2) unfolding r(6)[symmetric] by (rule correct_txE)
  have items: "map item_key (order_items d') = map (\<lambda>i. item_key (if ?read i then reset_item (written ?us i) else written ?us i)) (order_items (env d))"
    by (simp add: w(2,3,8) update_where_def comp_def after_release_def if_distrib cong: if_cong)
  have status: "map (\<lambda>i. (it_id i, it_status i)) (order_items d') =
         map (\<lambda>i. (it_id i, if it_tenant i = t \<and> it_id i \<in> it_id ` set (items_of t oid d) then UNASSESSED else it_status i)) (order_items (env d))"
    using arg_cong[OF items, of "map (\<lambda>(k, _, _, _, s). (k, s))"] by (simp add: comp_def item_key_def reset_item_def if_distrib cong: if_cong)
  have vals: "map (\<lambda>i. (it_id i, it_catalog i, it_quantity i)) (order_items d') =
         map (\<lambda>i. case submitted_item us (it_id i) of Some u \<Rightarrow> (it_id i, iu_catalog u, iu_quantity u)
            | None \<Rightarrow> (it_id i, it_catalog i, it_quantity i)) (order_items (env d))" if us: "ou_items input = Some us" for us
  proof -
    have "(it_id i, it_catalog (written us i), it_quantity (written us i)) = (case submitted_item us (it_id i) of Some u \<Rightarrow> (it_id i, iu_catalog u, iu_quantity u)
            | None \<Rightarrow> (it_id i, it_catalog i, it_quantity i))" for i
      using written_values[OF assms(2)[rule_format, OF us], of i] by (auto split: option.splits)
    then show ?thesis
      using arg_cong[OF items, of "map (\<lambda>(k, _, c, q, _). (k, c, q))"] us
      by (simp add: comp_def item_key_def reset_item_def if_distrib cong: if_cong)
  qed
  obtain r2 where r2: "find_order t oid d2 = Some r2"
    using w(9) by (cases "find_order t oid d2") (auto simp: find_order_None)
  have r': "find_order t oid d' = Some (corrected_order lower input c r2)"
    using r2 unfolding w(8) find_order_def
    by (simp, intro find_update_where) (simp_all add: corrected_order_def Let_def split: prod.splits)
  obtain ro where ro: "find_order t oid d' = Some ro" "map_order fixed2 t ro d' = Inr v"
    using s(3) by (rule detail_Inr)
  have fields: "o_status ro = NEEDS_REVIEW" "o_sort_procurement ro = S_UNASSESSED"
    "o_extraction ro = Some (next_extraction input (extraction_of r))"
    unfolding ro(1)[unfolded r', THEN option.inject[THEN iffD1], symmetric] using r(5)
    by (simp_all add: corrected_order_def Let_def split: prod.splits)
  have idle: "\<not> active_of_items t (map it_id (items_of t oid d)) q" if "q \<in> set (reservations d')" for q
  proof
    assume a: "active_of_items t (map it_id (items_of t oid d)) q"
    have "q \<in> set (reservations d1)" using that w(4,8) by simp
    then have "rs_status q \<noteq> ACTIVE"
      unfolding w(2) by (rule after_release_idle) (use a in \<open>simp_all add: active_of_items_def\<close>)
    then show False using a by (simp add: active_of_items_def)
  qed
  have "products d' = products (env d)" "payments d' = payments (env d)" by (simp_all add: w(2,5,7,8) after_release_def)
  then show ?thesis
    using r(1-4) w(1) ro(1) fields status vals idle map_order_status(2)[OF ro(2)] by auto
qed

definition correct_sample :: order_update where
  "correct_sample = \<lparr>ou_name = Some (Some ''Eve''), ou_phone = None, ou_instagram = None, ou_city = None, ou_address = None,
     ou_branch = None, ou_items = Some [\<lparr>iu_id = 32, iu_catalog = Some ''A'', iu_quantity = 3, iu_color = None, iu_size = None\<rparr>]\<rparr>"

theorem correct_effect_witness:
  "\<exists>v d'. correct exact_decimal (\<lambda>s. s) (\<lambda>_. []) 2 21 ''m'' correct_sample 6 no_env ready_sample = (Inr v, d') \<and>
     ov_status v = NEEDS_REVIEW \<and> (32, Some ''A'', 3) \<in> set (map (\<lambda>i. (it_id i, it_catalog i, it_quantity i)) (order_items d'))"
proof -
  have "(case correct exact_decimal (\<lambda>s. s) (\<lambda>_. []) 2 21 ''m'' correct_sample 6 no_env ready_sample of (Inl _, _) \<Rightarrow> False
      | (Inr v, d') \<Rightarrow> True)"
    unfolding ready_sample_def by code_simp
  then obtain v d' where r: "correct exact_decimal (\<lambda>s. s) (\<lambda>_. []) 2 21 ''m'' correct_sample 6 no_env ready_sample = (Inr v, d')"
    by (auto split: prod.splits sum.splits)
  have us: "\<forall>us. ou_items correct_sample = Some us \<longrightarrow> distinct (map iu_id us)" by (auto simp: correct_sample_def)
  have "(32, Some ''A'', 3) \<in> set (map (\<lambda>i. case submitted_item (the (ou_items correct_sample)) (it_id i) of Some u \<Rightarrow> (it_id i, iu_catalog u, iu_quantity u)
            | None \<Rightarrow> (it_id i, it_catalog i, it_quantity i)) (order_items ready_sample))"
    unfolding ready_sample_def by code_simp
  moreover have "ou_items correct_sample = Some (the (ou_items correct_sample))" by (simp add: correct_sample_def)
  moreover obtain "ov_status v = NEEDS_REVIEW" and "\<forall>us. ou_items correct_sample = Some us \<longrightarrow>
      map (\<lambda>i. (it_id i, it_catalog i, it_quantity i)) (order_items d') =
      map (\<lambda>i. case submitted_item us (it_id i) of Some u \<Rightarrow> (it_id i, iu_catalog u, iu_quantity u)
            | None \<Rightarrow> (it_id i, it_catalog i, it_quantity i)) (order_items ready_sample)"
    using correct_effect[OF r us, unfolded no_env] by (elim exE conjE) (rule that)
  ultimately have "(32, Some ''A'', 3) \<in> set (map (\<lambda>i. (it_id i, it_catalog i, it_quantity i)) (order_items d'))"
    and "ov_status v = NEEDS_REVIEW" by simp_all
  then show ?thesis using r by blast
qed

text \<open>The filter by payment agrees with the payment status of the view, for orders with
  a positive total and payments that are not negative.\<close>

theorem payment_filter:
  assumes "0 < tot" and "0 \<le> paid"
  shows "paymentStatusPredicate st paid tot \<longleftrightarrow> payment_state_for tot paid = st"
  using assms by (cases st) (auto simp: paymentStatusPredicate_def payment_state_for_def)

theorem payment_filter_witness: "paymentStatusPredicate OVERPAID 5 3"
  using payment_filter[of 3 5 OVERPAID] by (simp add: payment_state_for_def)

text \<open>A cancelled order whose items still read as ready, with its reservations
  released, is handed off like any other: the hand-off answers with success, the stock
  of no product moves, and the order stays cancelled.\<close>

theorem cancelled_order_handed_off:
  assumes "\<not> tenant_frozen t d" and "find_order t oid d = Some ord" and "o_status ord = CANCELLED" and "o_handed_off_at ord = None"
    and "procurementSummaryFor (map it_status (items_by_id t oid d)) False = S_READY"
    and "\<forall>r\<in>set (reservations d). \<not> active_of_items t (map it_id (items_of t oid d)) r"
  shows "\<exists>d'. handOffOrder t oid actor now d = Inr ((oid, S_HANDED_OFF, now), d') \<and> products d' = products d
     \<and> (\<exists>r. find_order t oid d' = Some r \<and> o_status r = CANCELLED \<and> o_handed_off_at r = Some now)"
  using handOff_unreserved[OF assms(1,2,4,5), of actor now] assms(3,6) by fastforce

text \<open>The second tenant's order, reserved and then cancelled.\<close>

definition cancelled_sample :: db where
  "cancelled_sample = snd (cancel (\<lambda>_. []) 2 21 ''m'' 6 no_env ready_sample)"

theorem cancelled_order_handed_off_witness:
  "\<exists>d'. handOffOrder 2 21 ''m'' 9 cancelled_sample = Inr ((21, S_HANDED_OFF, 9), d') \<and> map pr_stock (products d') = [Some 10, Some 3]"
proof -
  have "(case find_order 2 21 cancelled_sample of None \<Rightarrow> False | Some ord \<Rightarrow> o_status ord = CANCELLED \<and> o_handed_off_at ord = None)
     \<and> procurementSummaryFor (map it_status (items_by_id 2 21 cancelled_sample)) False = S_READY
     \<and> list_all (\<lambda>r. \<not> active_of_items 2 (map it_id (items_of 2 21 cancelled_sample)) r) (reservations cancelled_sample)
     \<and> lifecycle_requests cancelled_sample = [] \<and> map pr_stock (products cancelled_sample) = [Some 10, Some 3]"
    unfolding cancelled_sample_def ready_sample_def by code_simp
  then have f: "case find_order 2 21 cancelled_sample of None \<Rightarrow> False | Some ord \<Rightarrow> o_status ord = CANCELLED \<and> o_handed_off_at ord = None"
    "procurementSummaryFor (map it_status (items_by_id 2 21 cancelled_sample)) False = S_READY"
    "\<forall>r\<in>set (reservations cancelled_sample). \<not> active_of_items 2 (map it_id (items_of 2 21 cancelled_sample)) r"
    "\<not> tenant_frozen 2 cancelled_sample" "map pr_stock (products cancelled_sample) = [Some 10, Some 3]"
    by (simp_all add: list_all_iff tenant_frozen_def)
  obtain ord where o: "find_order 2 21 cancelled_sample = Some ord" "o_status ord = CANCELLED" "o_handed_off_at ord = None"
    using f(1) by (auto split: option.splits)
  show ?thesis using cancelled_order_handed_off[OF f(4) o f(2,3), of "''m''" 9] f(5) by auto
qed

text \<open>An order of two pieces, handed off, and four pieces left.\<close>

definition handed_off_sample :: db where
  "handed_off_sample = exec_procurement [(2, AssessOrder 21 ''m'' 0 0), (2, HandOffOrder 21 ''m'' 3)]
     (sample_db\<lparr>products := [sample_product 11 2 ''A'' (Some 6)]\<rparr>)"

text \<open>Approving an order again after its hand-off assesses it again: the transition does
  not look at the hand-off, so the order is reserved a second time for stock that has
  left, and the column its list is sorted by no longer says that it is handed off.\<close>

theorem reapproval_reserves_again:
  "active_sum 2 11 handed_off_sample = 0 \<and>
   map_option (\<lambda>r. (o_handed_off_at r, o_sort_procurement r)) (find_order 2 21 handed_off_sample) = Some (Some 3, S_HANDED_OFF) \<and>
   (case approve (\<lambda>_. []) 2 21 ''m'' 9 no_env handed_off_sample of (Inl _, _) \<Rightarrow> False
    | (Inr v, d') \<Rightarrow> ov_procurement v = S_HANDED_OFF \<and> active_sum 2 11 d' = 2 \<and>
        map_option (\<lambda>r. (o_handed_off_at r, o_sort_procurement r)) (find_order 2 21 d') = Some (Some 3, S_READY))"
  unfolding handed_off_sample_def by code_simp

text \<open>Where the filters and the views of the list disagree: an order with an unassessed and
  an unavailable item shows as unassessed and is also found as blocked; an order without
  payments and a total of zero shows as unpaid and is also found as paid.\<close>

theorem filters_overlap:
  "procurementSummaryFor [UNASSESSED, UNAVAILABLE] False = S_UNASSESSED \<and>
   procurementWhere S_UNASSESSED APPROVED False [UNASSESSED, UNAVAILABLE] \<and>
   procurementWhere S_BLOCKED APPROVED False [UNASSESSED, UNAVAILABLE] \<and>
   payment_state_for 0 0 = UNPAID \<and> paymentStatusPredicate UNPAID 0 0 \<and> paymentStatusPredicate PAID 0 0"
  by code_simp

end
