(* ===== verification/Alerts.thy ===== *)
theory Alerts
  imports Orders
begin

text \<open>
  Alerts of the worker (\<open>apps/worker/src/notifications/telegram-alert.service.ts\<close>): for
  every active member of a tenant a notification, and a message to the private chat
  of those who have linked one and not switched the event off.  The texts and the
  base of the links are parameters.
\<close>

text \<open>The word before the number of an order, the text of an event, and
  \<open>new URL(path, appPublicUrl)\<close>.\<close>

record alert_copy =
  al_heading :: string
  al_status :: "alert_type \<Rightarrow> string"
  al_url :: "string \<Rightarrow> string"
  al_title :: string
    \<comment> \<open>the title of a private chat that is new\<close>

fun alert_name :: "alert_type \<Rightarrow> string" where
  "alert_name ORDER_NEEDS_REVIEW = ''ORDER_NEEDS_REVIEW''"
| "alert_name ORDER_AUTO_APPROVED = ''ORDER_AUTO_APPROVED''"
| "alert_name SUPPLIER_DELIVERY_FAILED = ''SUPPLIER_DELIVERY_FAILED''"

text \<open>An identifier as it appears in keys and links.\<close>

definition uuid_text :: "uuid \<Rightarrow> string" where
  "uuid_text i = decimal_digits i"

definition event_key :: "alert_type \<Rightarrow> uuid \<Rightarrow> string" where
  "event_key e eid = alert_name e @ '':'' @ uuid_text eid"

text \<open>\<open>upsert\<close> of a notification at its unique index: an existing one stays.\<close>

definition upsert_notification :: "uuid \<Rightarrow> uuid \<Rightarrow> alert_type \<Rightarrow> uuid \<Rightarrow> uuid \<Rightarrow> uuid dbtx" where
  "upsert_notification t user e eid oid = (\<lambda>d.
     case List.find (\<lambda>n. un_tenant n = t \<and> un_user n = user \<and> un_key n = event_key e eid) (notifications d) of
       Some n \<Rightarrow> Inr (un_id n, d)
     | None \<Rightarrow> Inr (next_id d, d\<lparr>notifications := notifications d @ [\<lparr>un_id = next_id d, un_tenant = t, un_user = user,
         un_category = e, un_order = oid, un_key = event_key e eid\<rparr>], next_id := next_id d + 1\<rparr>))"

definition upsert_private_chat :: "alert_copy \<Rightarrow> uuid \<Rightarrow> string \<Rightarrow> instant \<Rightarrow> uuid dbtx" where
  "upsert_private_chat C t external now = (\<lambda>d.
     case List.find (\<lambda>c. tc_tenant c = t \<and> tc_external c = external \<and> tc_route c = BOT) (telegram_chats d) of
       Some c \<Rightarrow> Inr (tc_id c, d\<lparr>telegram_chats := update_where
         (\<lambda>c. tc_tenant c = t \<and> tc_external c = external \<and> tc_route c = BOT) (\<lambda>c. c\<lparr>tc_observed := now\<rparr>) (telegram_chats d)\<rparr>)
     | None \<Rightarrow> Inr (next_id d, d\<lparr>telegram_chats := telegram_chats d @ [\<lparr>tc_id = next_id d, tc_tenant = t,
         tc_external = external, tc_type = ''private'', tc_title = Some (al_title C), tc_route = BOT,
         tc_business = None, tc_observed = now\<rparr>], next_id := next_id d + 1\<rparr>))"

definition alert_text :: "alert_copy \<Rightarrow> string \<Rightarrow> alert_type \<Rightarrow> uuid \<Rightarrow> string" where
  "alert_text C tenant_name e oid = tenant_name @ [CHR 0x0A] @ al_heading C @ '' #'' @ take 8 (uuid_text oid) @ [CHR 0x0A]
     @ al_status C e @ [CHR 0x0A] @ al_url C (''/orders/'' @ uuid_text oid)"

definition upsert_alert_delivery :: "uuid \<Rightarrow> uuid \<Rightarrow> uuid \<Rightarrow> uuid \<Rightarrow> string \<Rightarrow> instant \<Rightarrow> unit dbtx" where
  "upsert_alert_delivery t destination oid nid msg now = tx_write (\<lambda>d.
     if any_row (\<lambda>x. td_tenant x = t \<and> td_key x = ''personal-alert:'' @ uuid_text nid) (telegram_deliveries d) then d
     else d\<lparr>telegram_deliveries := telegram_deliveries d @ [\<lparr>td_id = next_id d, td_tenant = t,
         td_destination = destination, td_order = Some oid, td_source = Some nid, td_purpose = PERSONAL_ALERT,
         td_status = TG_PENDING, td_key = ''personal-alert:'' @ uuid_text nid, td_text = msg,
         td_provider_message = None, td_attempts = 0, td_next_attempt = now, td_last_attempt = None,
         td_lease = None, td_lease_expires = None, td_error = None, td_completed = None, td_created = now\<rparr>],
       next_id := next_id d + 1\<rparr>)"

fun alert_members :: "alert_copy \<Rightarrow> uuid \<Rightarrow> string \<Rightarrow> alert_type \<Rightarrow> uuid \<Rightarrow> uuid \<Rightarrow> instant \<Rightarrow>
    (uuid \<Rightarrow> user_binding option) \<Rightarrow> (uuid \<Rightarrow> bool option) \<Rightarrow> uuid list \<Rightarrow> unit dbtx" where
  "alert_members C t tenant_name e eid oid now binding enabled [] = tx_return ()"
| "alert_members C t tenant_name e eid oid now binding enabled (user # users) =
     tx_bind (upsert_notification t user e eid oid) (\<lambda>nid.
     tx_seq (case binding user of
         None \<Rightarrow> tx_return ()
       | Some b \<Rightarrow> if enabled user = Some False then tx_return ()
           else tx_bind (upsert_private_chat C t (tb_chat b) now) (\<lambda>destination.
                  upsert_alert_delivery t destination oid nid (alert_text C tenant_name e oid) now))
       (alert_members C t tenant_name e eid oid now binding enabled users))"

definition persist_alert :: "alert_copy \<Rightarrow> uuid \<Rightarrow> alert_type \<Rightarrow> uuid \<Rightarrow> uuid \<Rightarrow> instant \<Rightarrow> unit dbtx" where
  "persist_alert C t e eid oid now = when_accepting t NOTIFICATION_SEND
     (tx_bind (tx_read (\<lambda>d. (List.find (\<lambda>x. tn_id x = t) (tenants d),
         map mb_user (filter (\<lambda>m. mb_tenant m = t \<and> mb_active m) (memberships d)),
         rev (map (\<lambda>b. (tb_user b, b)) (filter (\<lambda>b. tb_tenant b = t \<and> tb_revoked b = None) (user_bindings d))),
         rev (map (\<lambda>p. (tp_user p, tp_enabled p)) (filter (\<lambda>p. tp_tenant p = t \<and> tp_event p = e) (preferences d))))))
       (\<lambda>(found, users, bindings, enabled). case found of
           None \<Rightarrow> tx_throw RecordNotFound
         | Some x \<Rightarrow> alert_members C t (tn_name x) e eid oid now (map_of bindings) (map_of enabled) users))
     (tx_return ())"

section \<open>What alerts leave alone\<close>

text \<open>An alert writes notifications, chats and deliveries, and nothing of an order.\<close>

definition order_side :: "db \<Rightarrow> order list \<times> order_item list \<times> product list \<times> reservation list \<times> delivery_item list" where
  "order_side d = (orders d, order_items d, products d, reservations d, delivery_items d)"

lemma order_side_iff:
  "order_side d' = order_side d \<longleftrightarrow> orders d' = orders d \<and> order_items d' = order_items d \<and> products d' = products d
    \<and> reservations d' = reservations d \<and> delivery_items d' = delivery_items d"
  by (simp add: order_side_def)

lemma upsert_notification_frame: "upsert_notification t u e eid oid d = Inr (x, d') \<Longrightarrow> order_side d' = order_side d"
  by (auto simp: upsert_notification_def order_side_def split: option.splits)

lemma upsert_private_chat_frame: "upsert_private_chat C t ext now d = Inr (x, d') \<Longrightarrow> order_side d' = order_side d"
  by (auto simp: upsert_private_chat_def order_side_def split: option.splits)

lemma upsert_alert_delivery_frame: "upsert_alert_delivery t c oid nid msg now d = Inr (x, d') \<Longrightarrow> order_side d' = order_side d"
  by (auto simp: upsert_alert_delivery_def order_side_def)

lemma alert_members_frame: "alert_members C t nm e eid oid now bs en users d = Inr (x, d') \<Longrightarrow> order_side d' = order_side d"
proof (induction users arbitrary: d d')
  case (Cons u users)
  from Cons.prems obtain nid d1 d2 where
    one: "upsert_notification t u e eid oid d = Inr (nid, d1)"
    and two: "(case bs u of None \<Rightarrow> tx_return () | Some b \<Rightarrow> if en u = Some False then tx_return ()
        else tx_bind (upsert_private_chat C t (tb_chat b) now) (\<lambda>c. upsert_alert_delivery t c oid nid (alert_text C nm e oid) now)) d1 = Inr ((), d2)"
    and rest: "alert_members C t nm e eid oid now bs en users d2 = Inr (x, d')"
    by (auto simp: tx_iff)
  have "order_side d2 = order_side d1"
    using two by (auto simp: tx_iff split: option.splits if_splits dest!: upsert_private_chat_frame upsert_alert_delivery_frame)
  then show ?case using upsert_notification_frame[OF one] Cons.IH[OF rest] by simp
qed simp

lemma persist_alert_frame: "persist_alert C t e eid oid now d = Inr (x, d') \<Longrightarrow> order_side d' = order_side d"
  unfolding persist_alert_def when_accepting_run
  by (auto simp: tx_iff split: if_splits option.splits prod.splits dest: alert_members_frame)

end
