(* ===== verification/Recognition.thy ===== *)
theory Recognition
  imports Alerts "HOL-Library.Sublist"
begin

text \<open>
  Recognition of orders in conversations (\<open>apps/worker/src/orders\<close>): what triggers it,
  the check of what the model has read against the catalogue, the decision on
  approval, and the processor that turns a message into an order.  The recognizer (a
  call of a language model) is a parameter, and so are the operations of the runtime
  on Unicode text and the collation of the database.
\<close>

section \<open>Text\<close>

text \<open>\<open>toLocaleLowerCase('uk-UA')\<close>, \<open>normalize('NFKC')\<close>, the characters of the classes
  \<open>\p{L}\p{N}\<close>, the characters that are read as a multiplication sign, the place of a
  name in the order of the database.\<close>

record text_ops =
  uc_lower :: "string \<Rightarrow> string"
  uc_nfkc :: "string \<Rightarrow> string"
  uc_word :: "char \<Rightarrow> bool"
  uc_cross :: "char \<Rightarrow> bool"
  uc_rank :: "string \<Rightarrow> int"

text \<open>\<open>replace(/[...]+/g, ' ')\<close>: every run becomes one space; the flag is whether the
  run has begun.\<close>

fun squeeze :: "bool \<Rightarrow> (char \<Rightarrow> bool) \<Rightarrow> string \<Rightarrow> string" where
  "squeeze inside P [] = []"
| "squeeze inside P (c # s) =
     (if P c then (if inside then squeeze True P s else CHR '' '' # squeeze True P s) else c # squeeze False P s)"

definition normalize_phrase :: "text_ops \<Rightarrow> string \<Rightarrow> string" where
  "normalize_phrase T value = trim (squeeze False white_space (uc_lower T value))"

definition isOrderTrigger :: "text_ops \<Rightarrow> message \<Rightarrow> string list \<Rightarrow> bool" where
  "isOrderTrigger T m phrases = (case non_empty (m_text m) of
       None \<Rightarrow> False
     | Some txt \<Rightarrow> m_direction m = OUTBOUND \<and>
         list_ex (\<lambda>phrase. normalize_phrase T phrase \<noteq> [] \<and> sublist (normalize_phrase T phrase) (normalize_phrase T txt)) phrases)"

definition normalizeProductText :: "text_ops \<Rightarrow> string \<Rightarrow> string" where
  "normalizeProductText T value = trim (squeeze False white_space (squeeze False (\<lambda>c. \<not> uc_word T c)
     (map (\<lambda>c. if uc_cross T c then CHR ''x'' else c) (uc_lower T (uc_nfkc T value)))))"

section \<open>Decisions\<close>

definition decideOrderStatus :: "approval_mode \<Rightarrow> rat \<Rightarrow> bool \<Rightarrow> rat option \<Rightarrow> order_status" where
  "decideOrderStatus mode confidence isComplete threshold =
     (if \<not> isComplete \<or> mode = ALWAYS then NEEDS_REVIEW
      else if mode = NEVER then AUTO_APPROVED
      else if confidence \<ge> (case threshold of Some x \<Rightarrow> x | None \<Rightarrow> 9 / 10) then AUTO_APPROVED else NEEDS_REVIEW)"

datatype intent_action = IGNORE | SUGGEST | AUTO_CREATE

definition decideConversationalIntent :: "intent_mode \<Rightarrow> bool \<Rightarrow> bool \<Rightarrow> bool \<Rightarrow> bool \<Rightarrow> rat \<Rightarrow> rat \<Rightarrow> intent_action \<times> intent_reason" where
  "decideConversationalIntent mode isOrder explicitIntent hasUsableProduct isComplete confidence threshold =
     (if mode = PHRASE_ONLY then (IGNORE, R_PHRASE_ONLY)
      else if \<not> isOrder \<or> \<not> explicitIntent then (IGNORE, NO_EXPLICIT_PURCHASE_INTENT)
      else if \<not> hasUsableProduct then (IGNORE, NO_USABLE_PRODUCT)
      else if mode = AI_SUGGESTION then (SUGGEST, MANAGER_REVIEW_MODE)
      else if \<not> isComplete then (SUGGEST, INCOMPLETE_ORDER)
      else if confidence < threshold then (SUGGEST, LOW_CONFIDENCE)
      else (AUTO_CREATE, COMPLETE_HIGH_CONFIDENCE))"

section \<open>The recognition service\<close>

record recognized_item =
  ri_catalog :: "string option"
  ri_text :: string
  ri_quantity :: int
  ri_color :: "string option"
  ri_size :: "string option"
  ri_confidence :: rat

record recognized_order =
  ro_is_order :: bool
  ro_explicit_intent :: bool
  ro_name :: "string option"
  ro_phone :: "string option"
  ro_instagram :: "string option"
  ro_city :: "string option"
  ro_address :: "string option"
  ro_branch :: "string option"
  ro_items :: "recognized_item list"
  ro_confidence :: rat

text \<open>A product as the recognizer sees it: its SKU, name and aliases.\<close>

type_synonym hint = "string \<times> string \<times> string list"

record recognition_input =
  rn_messages :: "(uuid \<times> direction \<times> string option) list"
  rn_products :: "hint list"
  rn_tenant :: uuid
  rn_operation :: uuid
  rn_conversational :: bool
  rn_channel :: social_channel

type_synonym recognizer = "recognition_input \<Rightarrow> app_error + recognized_order \<times> ai_metadata"

record recognition =
  rr_order :: recognized_order
  rr_metadata :: ai_metadata
  rr_status :: order_status
  rr_issues :: "string list"

text \<open>One product whose name or alias occurs in the text as words, or the text in it.\<close>

definition matches_text :: "text_ops \<Rightarrow> string \<Rightarrow> string \<Rightarrow> bool" where
  "matches_text T item candidate = (let c = normalizeProductText T candidate in
     3 \<le> length c \<and> (sublist ('' '' @ c @ '' '') ('' '' @ item @ '' '') \<or> sublist ('' '' @ item @ '' '') ('' '' @ c @ '' '')))"

definition findUnambiguousCatalogueId :: "text_ops \<Rightarrow> string \<Rightarrow> hint list \<Rightarrow> string option" where
  "findUnambiguousCatalogueId T originalText ps =
     (let item = normalizeProductText T originalText;
          found = js_set (map fst (filter (\<lambda>(sku, nm, aliases). list_ex (matches_text T item) (nm # aliases)) ps))
      in if item = [] then None else if length found = 1 then Some (hd found) else None)"

definition resolve_item :: "text_ops \<Rightarrow> hint list \<Rightarrow> recognized_item \<Rightarrow> recognized_item" where
  "resolve_item T ps i = i\<lparr>ri_catalog :=
     (case ri_catalog i of
        Some sku \<Rightarrow> if sku \<in> set (map fst ps) then Some sku else findUnambiguousCatalogueId T (ri_text i) ps
      | None \<Rightarrow> findUnambiguousCatalogueId T (ri_text i) ps)\<rparr>"

fun recognized_item_issues :: "hint list \<Rightarrow> nat \<Rightarrow> recognized_item list \<Rightarrow> string list" where
  "recognized_item_issues ps k [] = []"
| "recognized_item_issues ps k (i # is) =
     (if (case ri_catalog i of None \<Rightarrow> True | Some sku \<Rightarrow> sku \<notin> set (map fst ps))
      then [''items.'' @ decimal_digits k @ ''.catalogId''] else []) @
     (if ri_quantity i < 1 then [''items.'' @ decimal_digits k @ ''.quantity''] else []) @
     recognized_item_issues ps (k + 1) is"

definition recognition_issues :: "hint list \<Rightarrow> recognized_order \<Rightarrow> string list" where
  "recognition_issues ps r =
     (if truthy (ro_name r) then [] else [''customer.name'']) @
     (if truthy (ro_phone r) then [] else [''customer.phone'']) @
     (if truthy (ro_city r) then [] else [''delivery.city'']) @
     (if \<not> truthy (ro_address r) \<and> \<not> truthy (ro_branch r) then [''delivery.address''] else []) @
     recognized_item_issues ps 0 (ro_items r) @
     (if ro_is_order r then [] else [''isOrder'']) @
     (if ro_items r = [] then [''items''] else [])"

definition recognize :: "recognizer \<Rightarrow> text_ops \<Rightarrow> recognition_input \<Rightarrow> approval_mode \<Rightarrow> rat \<Rightarrow> app_error + recognition" where
  "recognize R T input mode threshold = (case R input of
       Inl e \<Rightarrow> Inl e
     | Inr (r, metadata) \<Rightarrow>
         let ps = rn_products input;
             resolved = r\<lparr>ro_items := map (resolve_item T ps) (ro_items r)\<rparr>;
             issues = recognition_issues ps resolved
         in Inr \<lparr>rr_order = resolved, rr_metadata = metadata,
              rr_status = decideOrderStatus mode (ro_confidence r) (issues = []) (Some threshold),
              rr_issues = issues\<rparr>)"

section \<open>Building an order\<close>

definition promptVersionForChannel :: "social_channel \<Rightarrow> string \<Rightarrow> string" where
  "promptVersionForChannel channel configured = (if channel = INSTAGRAM then configured else ''social-order-v3'')"

definition recognized_extraction :: "recognized_order \<Rightarrow> extraction" where
  "recognized_extraction r = \<lparr>ex_is_order = Some (ro_is_order r), ex_name = ro_name r, ex_phone = ro_phone r,
     ex_instagram = ro_instagram r, ex_city = ro_city r, ex_address = ro_address r, ex_branch = ro_branch r\<rparr>"

definition commercial_line :: "(string \<Rightarrow> product option) \<Rightarrow> uuid \<Rightarrow> recognized_item \<Rightarrow> line_input" where
  "commercial_line bySku iid i =
     (let p = Option.bind (non_empty (ri_catalog i)) bySku
      in \<lparr>li_item = iid, li_quantity = ri_quantity i, li_price = Option.bind p pr_price,
          li_currency = Option.bind p pr_currency, li_sku = map_option pr_sku p\<rparr>)"

definition new_item :: "uuid \<Rightarrow> uuid \<Rightarrow> uuid \<Rightarrow> instant \<Rightarrow> recognized_item \<Rightarrow> order_item" where
  "new_item iid t oid now i = \<lparr>it_id = iid, it_tenant = t, it_order = oid, it_catalog = ri_catalog i, it_text = ri_text i,
     it_quantity = ri_quantity i, it_color = ri_color i, it_size = ri_size i, it_confidence = ri_confidence i,
     it_unit_price = None, it_currency = None, it_line_total = None, it_price_sku = None, it_status = UNASSESSED,
     it_source = None, it_reason = None, it_stock_at = None, it_available_at = None, it_updated_at = None,
     it_created_at = now\<rparr>"

fun create_items :: "uuid \<Rightarrow> uuid \<Rightarrow> instant \<Rightarrow> (string \<Rightarrow> product option) \<Rightarrow> recognized_item list \<Rightarrow> line_input list dbtx" where
  "create_items t oid now bySku [] = tx_return []"
| "create_items t oid now bySku (i # is) =
     tx_bind (tx_read next_id) (\<lambda>iid.
     tx_seq (tx_write (\<lambda>d. d\<lparr>order_items := order_items d @ [new_item iid t oid now i], next_id := iid + 1\<rparr>))
    (tx_bind (create_items t oid now bySku is) (\<lambda>lines. tx_return (commercial_line bySku iid i # lines))))"

text \<open>What the processor has read before it asks the recognizer.\<close>

record recognition_context =
  rc_messages :: "message list"
  rc_conversation :: "string option \<times> string option \<times> string option"
  rc_products :: "product list"

definition recognition_context_of :: "text_ops \<Rightarrow> uuid \<Rightarrow> uuid \<Rightarrow> instant \<Rightarrow> db \<Rightarrow> recognition_context" where
  "recognition_context_of T t cid ts d = \<lparr>
     rc_messages = take 50 (sort_key (\<lambda>m. - m_source_at m)
       (filter (\<lambda>m. m_tenant m = t \<and> m_conversation m = cid \<and> m_source_at m \<le> ts) (messages d))),
     rc_conversation = conversation_names t cid d,
     rc_products = sort_key (\<lambda>p. uc_rank T (pr_name p)) (filter (\<lambda>p. pr_tenant p = t \<and> pr_active p) (products d))\<rparr>"

definition recognition_request :: "recognition_context \<Rightarrow> message \<Rightarrow> bool \<Rightarrow> recognition_input" where
  "recognition_request c m conversational = \<lparr>
     rn_messages = map (\<lambda>x. (m_id x, m_direction x, m_text x)) (rev (rc_messages c)),
     rn_products = map (\<lambda>p. (pr_sku p, pr_name p, pr_aliases p)) (rc_products c),
     rn_tenant = m_tenant m, rn_operation = m_id m, rn_conversational = conversational, rn_channel = m_channel m\<rparr>"

definition products_by_sku :: "recognition_context \<Rightarrow> string \<Rightarrow> product option" where
  "products_by_sku c = map_of (rev (map (\<lambda>p. (pr_sku p, p)) (rc_products c)))"

definition write_recognition :: "text_ops \<Rightarrow> recognition_context \<Rightarrow> recognition \<Rightarrow> order_status \<Rightarrow> instant \<Rightarrow> order \<Rightarrow> order" where
  "write_recognition T c r st now ord =
     (let (profile, own, username) = rc_conversation c;
          names = map (\<lambda>p. (pr_sku p, pr_name p)) (rev (rc_products c))
      in ord\<lparr>o_status := st, o_extraction := Some (recognized_extraction (rr_order r)), o_issues := rr_issues r,
          o_confidence := Some (ro_confidence (rr_order r)), o_ai := Some (rr_metadata r),
          o_approved_at := (if st = AUTO_APPROVED then Some now else None),
          o_approved_by := (if st = AUTO_APPROVED then Some ''SYSTEM'' else None),
          o_sort_customer := normalizeSortValue (uc_lower T)
            (case or_else (ro_name (rr_order r)) (or_else profile (or_else own username)) of Some s \<Rightarrow> s | None \<Rightarrow> []),
          o_sort_product := productSortValue (uc_lower T) (map (\<lambda>i. (ri_catalog i, ri_text i)) (ro_items (rr_order r))) names\<rparr>)"

definition processing_order :: "uuid \<Rightarrow> uuid \<Rightarrow> string \<Rightarrow> uuid \<Rightarrow> uuid \<Rightarrow> string \<Rightarrow> instant \<Rightarrow> order" where
  "processing_order oid t public cid trigger prompt now = \<lparr>o_id = oid, o_tenant = t, o_public = public, o_conversation = cid,
     o_trigger = trigger, o_prompt = prompt, o_confidence = None, o_ai = None, o_status = AI_PROCESSING,
     o_extraction = None, o_issues = [], o_sort_product = [], o_sort_customer = [], o_sort_procurement = S_UNASSESSED,
     o_approved_at = None, o_approved_by = None, o_handed_off_at = None, o_handed_off_by = None,
     o_dispatch_version = 0, o_created_at = now\<rparr>"

text \<open>\<open>order.create\<close>: the message that triggers an order is unique; the public number
  comes from the database.\<close>

definition create_order :: "(uuid \<Rightarrow> string) \<Rightarrow> (uuid \<Rightarrow> string \<Rightarrow> order) \<Rightarrow> order dbtx" where
  "create_order number build = (\<lambda>d.
     let r = build (next_id d) (number (next_id d)) in
     if any_row (\<lambda>x. o_trigger x = o_trigger r \<or> o_public x = o_public r) (orders d) then Inl UniqueViolation
     else Inr (r, d\<lparr>orders := orders d @ [r], next_id := next_id d + 1\<rparr>))"

section \<open>The processor\<close>

text \<open>What the worker is built with: the text operations, the recognizer, the numbers of
  orders, the alerts and the export, if any.\<close>

record 'd worker =
  wk_text :: text_ops
  wk_recognizer :: recognizer
  wk_decimal :: "'d decimal_ops"
  wk_number :: "uuid \<Rightarrow> string"
  wk_alerts :: "alert_copy option"
  wk_export :: "(uuid \<Rightarrow> uuid \<Rightarrow> unit dbservice) option"

definition persist_items :: "'d worker \<Rightarrow> uuid \<Rightarrow> uuid \<Rightarrow> instant \<Rightarrow> recognition_context \<Rightarrow> recognition \<Rightarrow> unit dbtx" where
  "persist_items W t oid now c r =
     tx_bind (create_items t oid now (products_by_sku c) (ro_items (rr_order r))) (\<lambda>lines.
     tx_bind (materializeCommercialTerms (wk_decimal W) t oid ''SYSTEM'' lines None) (\<lambda>_. tx_return ()))"

definition alert_created :: "'d worker \<Rightarrow> uuid \<Rightarrow> uuid \<Rightarrow> bool \<Rightarrow> instant \<Rightarrow> unit dbtx" where
  "alert_created W t oid autoApproved now = (case wk_alerts W of
       None \<Rightarrow> tx_return ()
     | Some C \<Rightarrow> persist_alert C t (if autoApproved then ORDER_AUTO_APPROVED else ORDER_NEEDS_REVIEW) oid oid now)"

text \<open>After the order is committed as approved: its assessment and its export.\<close>

definition follow_up :: "'d worker \<Rightarrow> uuid \<Rightarrow> uuid \<Rightarrow> instant \<Rightarrow> unit dbservice" where
  "follow_up W t oid now =
     svc_bind (run_tx (assessApprovedOrder t oid ''SYSTEM'' now now)) (\<lambda>_.
       case wk_export W of None \<Rightarrow> svc_return () | Some schedule \<Rightarrow> schedule oid t)"

text \<open>\<open>createProcessingOrder\<close>: the row is created, or read when another worker has been
  faster; but after a statement that failed the transaction takes no further one.\<close>

definition createProcessingOrder :: "'d worker \<Rightarrow> message \<Rightarrow> string \<Rightarrow> instant \<Rightarrow> order dbtx" where
  "createProcessingOrder W m prompt now = tx_seq (assertTenantAcceptingMutations (m_tenant m) ORDER_RECOGNITION)
     (\<lambda>d. case create_order (wk_number W) (\<lambda>oid public. processing_order oid (m_tenant m) public (m_conversation m) (m_id m) prompt now) d of
        Inl UniqueViolation \<Rightarrow> Inl TransactionAborted
      | Inl e \<Rightarrow> Inl e
      | Inr r \<Rightarrow> Inr r)"

definition find_message :: "uuid \<Rightarrow> uuid \<Rightarrow> message dbtx" where
  "find_message t mid = tx_bind (tx_read (\<lambda>d. List.find (\<lambda>m. m_id m = mid \<and> m_tenant m = t) (messages d))) (\<lambda>found.
     case found of None \<Rightarrow> tx_throw RecordNotFound | Some m \<Rightarrow> tx_return m)"

definition find_by_trigger :: "uuid \<Rightarrow> uuid \<Rightarrow> db \<Rightarrow> order option" where
  "find_by_trigger t mid d = List.find (\<lambda>r. o_trigger r = mid \<and> o_tenant r = t) (orders d)"

definition find_settings :: "uuid \<Rightarrow> db \<Rightarrow> tenant_settings option" where
  "find_settings t d = List.find (\<lambda>s. ts_tenant s = t) (settings d)"

text \<open>The reads of a message, of an order it has already triggered and of the settings.\<close>

definition read_trigger :: "uuid \<Rightarrow> uuid \<Rightarrow> (order + message \<times> tenant_settings) dbtx" where
  "read_trigger t mid =
     tx_bind (find_message t mid) (\<lambda>m.
     tx_bind (tx_read (find_by_trigger t mid)) (\<lambda>existing. case existing of
         Some r \<Rightarrow> tx_return (Inl r)
       | None \<Rightarrow> tx_bind (tx_read (find_settings (m_tenant m))) (\<lambda>found. case found of
             None \<Rightarrow> tx_throw RecordNotFound
           | Some st \<Rightarrow> tx_return (Inr (m, st)))))"

text \<open>The transaction that writes a recognition to the order it has been started for.\<close>

definition store_recognition :: "'d worker \<Rightarrow> uuid \<Rightarrow> uuid \<Rightarrow> instant \<Rightarrow> recognition_context \<Rightarrow> recognition \<Rightarrow> order dbtx" where
  "store_recognition W t oid now c r =
     tx_seq (update_order t oid (write_recognition (wk_text W) c r (rr_status r) now))
    (tx_bind (find_or_404 t oid) (\<lambda>persisted.
     tx_seq (persist_items W t oid now c r)
    (tx_seq (alert_created W t oid (rr_status r = AUTO_APPROVED) now)
       (tx_return persisted))))"

text \<open>\<open>env\<close>: what others commit while the recognizer works.\<close>

definition recognize_order :: "'d worker \<Rightarrow> message \<Rightarrow> tenant_settings \<Rightarrow> uuid \<Rightarrow> instant \<Rightarrow> (db \<Rightarrow> db) \<Rightarrow> order dbservice" where
  "recognize_order W m st oid now env =
     (let t = m_tenant m in
     svc_bind (run_tx (tx_bind (tx_read (recognition_context_of (wk_text W) t (m_conversation m) (m_source_at m))) (\<lambda>c.
         tx_seq (assertTenantAcceptingMutations t ORDER_RECOGNITION) (tx_return c)))) (\<lambda>c.
       case recognize (wk_recognizer W) (wk_text W) (recognition_request c m False) (ts_approval_mode st) (ts_threshold st) of
         Inl e \<Rightarrow> svc_throw e
       | Inr r \<Rightarrow>
           svc_bind (\<lambda>d. run_tx (store_recognition W t oid now c r) (env d)) (\<lambda>updated.
           svc_bind (if rr_status r = AUTO_APPROVED then follow_up W t oid now else svc_return ()) (\<lambda>_.
             svc_return updated))))"

definition mark_failed :: "uuid \<Rightarrow> uuid \<Rightarrow> unit dbtx" where
  "mark_failed t oid = update_order t oid (\<lambda>r. r\<lparr>o_status := AI_FAILED\<rparr>)"

text \<open>\<open>env1\<close>: what others commit between the reads and the creation of the order.\<close>

definition process_trigger :: "'d worker \<Rightarrow> uuid \<Rightarrow> uuid \<Rightarrow> instant \<Rightarrow> (db \<Rightarrow> db) \<Rightarrow> (db \<Rightarrow> db) \<Rightarrow> order dbservice" where
  "process_trigger W t mid now env1 env =
     svc_bind (run_tx (read_trigger t mid)) (\<lambda>found. case found of
         Inl existing \<Rightarrow> svc_return existing
       | Inr (m, st) \<Rightarrow>
           svc_bind (\<lambda>d. run_tx (createProcessingOrder W m (promptVersionForChannel (m_channel m) (ts_prompt st)) now) (env1 d)) (\<lambda>ord.
             if o_status ord \<noteq> AI_PROCESSING then svc_return ord
             else svc_try (recognize_order W m st (o_id ord) now env)
                    (\<lambda>e. svc_bind (run_tx (mark_failed (m_tenant m) (o_id ord))) (\<lambda>_. svc_throw e))))"

section \<open>Conversational intent\<close>

definition intent_lease_ms :: int where
  "intent_lease_ms = 5 * 60000"

definition create_evaluation :: "message \<Rightarrow> intent_mode \<Rightarrow> instant \<Rightarrow> unit dbtx" where
  "create_evaluation m mode now = (\<lambda>d.
     if any_row (\<lambda>v. iv_anchor v = m_id m) (evaluations d) then Inl UniqueViolation
     else Inr ((), d\<lparr>evaluations := evaluations d @ [\<lparr>iv_id = next_id d, iv_tenant = m_tenant m,
         iv_conversation = m_conversation m, iv_anchor = m_id m, iv_order = None, iv_mode = mode,
         iv_status = EV_PROCESSING, iv_reason = None, iv_attempts = 1, iv_ai = None,
         iv_lease_expires = Some (now + intent_lease_ms), iv_error = None, iv_completed = None\<rparr>],
       next_id := next_id d + 1\<rparr>))"

definition reclaimable :: "uuid \<Rightarrow> instant \<Rightarrow> intent_evaluation \<Rightarrow> bool" where
  "reclaimable vid now v \<longleftrightarrow> iv_id v = vid \<and> (iv_status v = EV_FAILED
     \<or> iv_status v = EV_PROCESSING \<and> (case iv_lease_expires v of Some x \<Rightarrow> x < now | None \<Rightarrow> False))"

definition reclaim_evaluation :: "uuid \<Rightarrow> intent_mode \<Rightarrow> instant \<Rightarrow> bool dbtx" where
  "reclaim_evaluation vid mode now =
     tx_bind (tx_read (\<lambda>d. count_where (reclaimable vid now) (evaluations d))) (\<lambda>n.
     tx_seq (tx_write (\<lambda>d. d\<lparr>evaluations := update_where (reclaimable vid now)
         (\<lambda>v. v\<lparr>iv_status := EV_PROCESSING, iv_mode := mode, iv_attempts := iv_attempts v + 1,
            iv_lease_expires := Some (now + intent_lease_ms), iv_error := None\<rparr>) (evaluations d)\<rparr>))
       (tx_return (n = 1)))"

text \<open>The result: whether the evaluation is ours, and the order it has led to.\<close>

definition claimIntentEvaluation :: "message \<Rightarrow> intent_mode \<Rightarrow> instant \<Rightarrow> (db \<Rightarrow> db) \<Rightarrow> (bool \<times> uuid option) dbservice" where
  "claimIntentEvaluation m mode now env = (\<lambda>d.
     case run_tx (create_evaluation m mode now) d of
       (Inr _, d1) \<Rightarrow> (Inr (True, None), d1)
     | (Inl UniqueViolation, d1) \<Rightarrow>
         (case List.find (\<lambda>v. iv_anchor v = m_id m) (evaluations d1) of
            None \<Rightarrow> (Inl RecordNotFound, d1)
          | Some v \<Rightarrow> if iv_order v \<noteq> None \<or> iv_status v \<in> {EV_IGNORED, EV_PROPOSED, EV_AUTO_CREATED}
              then (Inr (False, iv_order v), d1)
              else (case run_tx (reclaim_evaluation (iv_id v) mode now) (env d1) of
                  (Inl e, d2) \<Rightarrow> (Inl e, d2)
                | (Inr ours, d2) \<Rightarrow> (Inr (ours, None), d2)))
     | (Inl e, d1) \<Rightarrow> (Inl e, d1))"

definition update_evaluation :: "uuid \<Rightarrow> (intent_evaluation \<Rightarrow> intent_evaluation) \<Rightarrow> unit dbtx" where
  "update_evaluation anchor f = (\<lambda>d.
     if any_row (\<lambda>v. iv_anchor v = anchor) (evaluations d)
     then Inr ((), d\<lparr>evaluations := update_where (\<lambda>v. iv_anchor v = anchor) f (evaluations d)\<rparr>)
     else Inl RecordNotFound)"

definition complete_evaluation :: "intent_reason \<Rightarrow> recognition \<Rightarrow> evaluation_status \<Rightarrow> uuid option \<Rightarrow> instant \<Rightarrow> intent_evaluation \<Rightarrow> intent_evaluation" where
  "complete_evaluation reason r st oid now v = v\<lparr>iv_reason := Some reason, iv_ai := Some (rr_metadata r),
     iv_lease_expires := None, iv_completed := Some now, iv_status := st, iv_order := or_else oid (iv_order v)\<rparr>"

definition propose_order :: "'d worker \<Rightarrow> message \<Rightarrow> tenant_settings \<Rightarrow> recognition_context \<Rightarrow> recognition \<Rightarrow> bool \<Rightarrow> intent_reason \<Rightarrow> instant \<Rightarrow> order dbtx" where
  "propose_order W m st c r autoApproved reason now =
     (let t = m_tenant m; status = (if autoApproved then AUTO_APPROVED else NEEDS_REVIEW) in
     tx_bind (create_order (wk_number W) (\<lambda>oid public. write_recognition (wk_text W) c r status now
         (processing_order oid t public (m_conversation m) (m_id m) (promptVersionForChannel (m_channel m) (ts_prompt st)) now))) (\<lambda>created.
     tx_seq (persist_items W t (o_id created) now c r)
    (tx_seq (update_evaluation (m_id m) (complete_evaluation reason r
         (if autoApproved then EV_AUTO_CREATED else EV_PROPOSED) (Some (o_id created)) now))
    (tx_seq (alert_created W t (o_id created) autoApproved now)
       (tx_return created)))))"

definition evaluate_intent :: "'d worker \<Rightarrow> message \<Rightarrow> tenant_settings \<Rightarrow> instant \<Rightarrow> (db \<Rightarrow> db) \<Rightarrow> order option dbservice" where
  "evaluate_intent W m st now env =
     (let t = m_tenant m in
     svc_bind (run_tx (tx_bind (tx_read (recognition_context_of (wk_text W) t (m_conversation m) (m_source_at m))) (\<lambda>c.
         tx_seq (assertTenantAcceptingMutations t ORDER_RECOGNITION) (tx_return c)))) (\<lambda>c.
       case recognize (wk_recognizer W) (wk_text W) (recognition_request c m True) ALWAYS (ts_threshold st) of
         Inl e \<Rightarrow> svc_throw e
       | Inr r \<Rightarrow>
          (case decideConversationalIntent (ts_intent_mode st) (ro_is_order (rr_order r)) (ro_explicit_intent (rr_order r))
              (list_ex (\<lambda>i. trim (ri_text i) \<noteq> []) (ro_items (rr_order r))) (rr_issues r = [])
              (ro_confidence (rr_order r)) (ts_threshold st) of
             (action, reason) \<Rightarrow>
               if action = IGNORE
               then svc_bind (\<lambda>d. run_tx (update_evaluation (m_id m) (complete_evaluation reason r EV_IGNORED None now)) (env d))
                      (\<lambda>_. svc_return None)
               else svc_bind (\<lambda>d. run_tx (propose_order W m st c r (action = AUTO_CREATE) reason now) (env d)) (\<lambda>created.
                    svc_bind (if action = AUTO_CREATE then follow_up W t (o_id created) now else svc_return ()) (\<lambda>_.
                      svc_return (Some created))))))"

definition fail_evaluation :: "uuid \<Rightarrow> unit dbtx" where
  "fail_evaluation anchor = tx_write (\<lambda>d. d\<lparr>evaluations := update_where
     (\<lambda>v. iv_anchor v = anchor \<and> iv_status v = EV_PROCESSING)
     (\<lambda>v. v\<lparr>iv_status := EV_FAILED, iv_lease_expires := None, iv_error := Some ''INTENT_EVALUATION_FAILED''\<rparr>) (evaluations d)\<rparr>)"

definition processConversationalIntent :: "'d worker \<Rightarrow> message \<Rightarrow> tenant_settings \<Rightarrow> instant \<Rightarrow> (db \<Rightarrow> db) \<Rightarrow> (db \<Rightarrow> db) \<Rightarrow> order option dbservice" where
  "processConversationalIntent W m st now env1 env =
     svc_bind (claimIntentEvaluation m (ts_intent_mode st) now env1) (\<lambda>(claimed, oid).
       if \<not> claimed then (case oid of
           None \<Rightarrow> svc_return None
         | Some i \<Rightarrow> run_tx (tx_read (find_order (m_tenant m) i)))
       else svc_try (evaluate_intent W m st now env)
              (\<lambda>e. svc_bind (run_tx (fail_evaluation (m_id m))) (\<lambda>_. svc_throw e)))"

text \<open>\<open>processIfTriggered\<close>: a manager's phrase, or a customer's message where the tenant
  has switched intent detection on.\<close>

definition processIfTriggered :: "'d worker \<Rightarrow> uuid \<Rightarrow> uuid \<Rightarrow> instant \<Rightarrow> (db \<Rightarrow> db) \<Rightarrow> (db \<Rightarrow> db) \<Rightarrow> order option dbservice" where
  "processIfTriggered W t mid now env1 env =
     svc_bind (run_tx (tx_bind (find_message t mid) (\<lambda>m. tx_bind (tx_read (find_settings t)) (\<lambda>st. tx_return (m, st))))) (\<lambda>(m, found).
       case found of
         None \<Rightarrow> svc_return None
       | Some st \<Rightarrow>
           if isOrderTrigger (wk_text W) m (ts_phrases st)
           then svc_bind (process_trigger W t mid now env1 env) (\<lambda>r. svc_return (Some r))
           else if m_direction m = INBOUND \<and> non_empty (map_option trim (m_text m)) \<noteq> None \<and> ts_intent_mode st \<noteq> PHRASE_ONLY
           then processConversationalIntent W m st now env1 env
           else svc_return None)"

section \<open>Backfill\<close>

record backfill_result =
  bf_attempted :: nat
  bf_assessed :: nat
  bf_skipped :: nat
  bf_failed :: nat

text \<open>Approved orders of active tenants with an item that nobody has assessed, the oldest
  first: at most 25 of a tenant, then at most 25 in all.\<close>

definition backfill_of_tenant :: "db \<Rightarrow> uuid \<Rightarrow> order list" where
  "backfill_of_tenant d t = take 25 (sort_key (\<lambda>r. (o_created_at r, o_id r))
     (filter (\<lambda>r. o_tenant r = t \<and> approved_status (o_status r)
        \<and> list_ex (\<lambda>i. it_status i = UNASSESSED) (items_of t (o_id r) d)) (orders d)))"

definition backfill_candidates :: "db \<Rightarrow> order list" where
  "backfill_candidates d = take 25 (sort_key (\<lambda>r. (o_created_at r, o_id r))
     (concat (map (backfill_of_tenant d) (map tn_id (sort_key tn_id (filter tn_active (tenants d)))))))"

fun backfill_run :: "order list \<Rightarrow> instant \<Rightarrow> db \<Rightarrow> backfill_result \<Rightarrow> backfill_result \<times> db" where
  "backfill_run [] now d res = (res, d)"
| "backfill_run (r # rs) now d res =
     (case run_tx (assessApprovedOrder (o_tenant r) (o_id r) ''SYSTEM_BACKFILL'' now now) d of
        (Inl e, d') \<Rightarrow> backfill_run rs now d' (res\<lparr>bf_failed := bf_failed res + 1\<rparr>)
      | (Inr a, d') \<Rightarrow> backfill_run rs now d'
          (if am_items a = [] then res\<lparr>bf_skipped := bf_skipped res + 1\<rparr> else res\<lparr>bf_assessed := bf_assessed res + 1\<rparr>))"

definition reconcile_procurement :: "instant \<Rightarrow> db \<Rightarrow> backfill_result \<times> db" where
  "reconcile_procurement now d =
     (let rs = backfill_candidates d
      in backfill_run rs now d \<lparr>bf_attempted = length rs, bf_assessed = 0, bf_skipped = 0, bf_failed = 0\<rparr>)"

end
