(* ===== verification/Preserve.thy ===== *)
theory Preserve
  imports Tenancy
begin

text \<open>
  What a transaction leaves alone, compositionally: \<open>keeps_view p m\<close> says that \<open>m\<close>, when
  it succeeds, does not change the projection \<open>p\<close> of the store; \<open>stable I s\<close> says that a
  service, whatever it returns, keeps the invariant \<open>I\<close>.  The rules follow the
  combinators, so that a proof is a search with \<open>keeps\<close> and the leaves.
\<close>

definition keeps_view :: "('s \<Rightarrow> 'p) \<Rightarrow> ('s, 'e, 'a) tx \<Rightarrow> bool" where
  "keeps_view p m \<longleftrightarrow> (\<forall>s a s'. m s = Inr (a, s') \<longrightarrow> p s' = p s)"

definition stable :: "('s \<Rightarrow> bool) \<Rightarrow> ('s, 'e, 'a) service \<Rightarrow> bool" where
  "stable I m \<longleftrightarrow> (\<forall>s. I s \<longrightarrow> I (snd (m s)))"

named_theorems keeps \<open>what a transaction leaves alone\<close>

lemma keeps_viewD: "keeps_view p m \<Longrightarrow> m s = Inr (a, s') \<Longrightarrow> p s' = p s"
  by (simp add: keeps_view_def)

lemma stableD: "stable I m \<Longrightarrow> I s \<Longrightarrow> m s = (r, s') \<Longrightarrow> I s'"
  unfolding stable_def by (metis snd_conv)

lemma keeps_leaf [keeps]:
  "keeps_view p (tx_return a)" "keeps_view p (tx_throw e)" "keeps_view p (tx_read f)" "keeps_view p (tx_when b e)"
  by (auto simp: keeps_view_def)

lemma keeps_write: "(\<And>s. p (f s) = p s) \<Longrightarrow> keeps_view p (tx_write f)"
  by (auto simp: keeps_view_def)

lemma keeps_bind [keeps]:
  assumes "keeps_view p m" and "\<And>a. keeps_view p (f a)"
  shows "keeps_view p (tx_bind m f)"
  unfolding keeps_view_def
proof (intro allI impI)
  fix s b s'
  assume "tx_bind m f s = Inr (b, s')"
  then obtain a s1 where "m s = Inr (a, s1)" "f a s1 = Inr (b, s')" by (auto simp: tx_iff)
  then show "p s' = p s" using keeps_viewD[OF assms(1)] keeps_viewD[OF assms(2)] by simp
qed

lemma keeps_seq [keeps]: "keeps_view p m \<Longrightarrow> keeps_view p n \<Longrightarrow> keeps_view p (tx_seq m n)"
  unfolding tx_seq_def by (rule keeps_bind)

lemma keeps_cases [keeps]:
  "\<lbrakk>b \<Longrightarrow> keeps_view p m; \<not> b \<Longrightarrow> keeps_view p n\<rbrakk> \<Longrightarrow> keeps_view p (if b then m else n)"
  "\<lbrakk>x = None \<Longrightarrow> keeps_view p m; \<And>y. x = Some y \<Longrightarrow> keeps_view p (g y)\<rbrakk> \<Longrightarrow> keeps_view p (case x of None \<Rightarrow> m | Some y \<Rightarrow> g y)"
  "(\<And>a b. keeps_view p (h a b)) \<Longrightarrow> keeps_view p (case z of (a, b) \<Rightarrow> h a b)"
  by (auto split: option.splits prod.splits)

lemma keeps_accepting [keeps]: "keeps_view p (assertTenantAcceptingMutations t surface)"
  by (auto simp: keeps_view_def tx_iff)

lemma keeps_when_accepting [keeps]:
  "keeps_view p m \<Longrightarrow> keeps_view p n \<Longrightarrow> keeps_view p (when_accepting t surface m n)"
  by (auto simp: keeps_view_def when_accepting_run)

lemma stable_run:
  assumes "keeps_view p m" and "\<And>s s'. p s' = p s \<Longrightarrow> I s \<Longrightarrow> I s'"
  shows "stable I (run_tx m)"
  using assms by (auto simp: stable_def run_tx_def keeps_view_def split: sum.splits)

lemma stable_leaf [keeps]: "stable I (svc_return a)" "stable I (svc_throw e)"
  by (simp_all add: stable_def svc_return_def svc_throw_def)

lemma stable_bind [keeps]:
  assumes "stable I m" and "\<And>a. stable I (f a)"
  shows "stable I (svc_bind m f)"
  unfolding stable_def
proof (intro allI impI)
  fix s assume "I s"
  moreover obtain r s1 where m: "m s = (r, s1)" by (cases "m s")
  ultimately have "I s1" using stableD[OF assms(1)] by blast
  then show "I (snd (svc_bind m f s))"
    using assms(2) m by (cases r) (simp_all add: svc_bind_def stable_def)
qed

lemma stable_try [keeps]:
  assumes "stable I m" and "\<And>e. stable I (h e)"
  shows "stable I (svc_try m h)"
  unfolding stable_def svc_try_def
proof (intro allI impI)
  fix s assume "I s"
  moreover obtain r s1 where m: "m s = (r, s1)" by (cases "m s")
  ultimately have "I s1" using stableD[OF assms(1)] by blast
  then show "I (snd (case m s of (Inl e, s') \<Rightarrow> h e s' | (Inr a, s') \<Rightarrow> (Inr a, s')))"
    using assms(2) m by (cases r) (simp_all add: stable_def)
qed

lemma stable_after: "stable I m \<Longrightarrow> (\<And>s. I s \<Longrightarrow> I (env s)) \<Longrightarrow> stable I (\<lambda>s. m (env s))"
  by (simp add: stable_def)

lemma stable_cases [keeps]:
  "\<lbrakk>b \<Longrightarrow> stable I m; \<not> b \<Longrightarrow> stable I n\<rbrakk> \<Longrightarrow> stable I (if b then m else n)"
  "\<lbrakk>x = None \<Longrightarrow> stable I m; \<And>y. x = Some y \<Longrightarrow> stable I (g y)\<rbrakk> \<Longrightarrow> stable I (case x of None \<Rightarrow> m | Some y \<Rightarrow> g y)"
  "(\<And>a b. stable I (h a b)) \<Longrightarrow> stable I (case z of (a, b) \<Rightarrow> h a b)"
  "\<lbrakk>\<And>a. s = Inl a \<Longrightarrow> stable I (l a); \<And>b. s = Inr b \<Longrightarrow> stable I (r b)\<rbrakk> \<Longrightarrow> stable I (case s of Inl a \<Rightarrow> l a | Inr b \<Rightarrow> r b)"
  by (auto split: option.splits prod.splits sum.splits)

text \<open>An invariant that the single writes of a transaction keep.\<close>

definition kept :: "('s \<Rightarrow> bool) \<Rightarrow> ('s, 'e, 'a) tx \<Rightarrow> bool" where
  "kept I m \<longleftrightarrow> (\<forall>s a s'. I s \<longrightarrow> m s = Inr (a, s') \<longrightarrow> I s')"

lemma keptD: "kept I m \<Longrightarrow> I s \<Longrightarrow> m s = Inr (a, s') \<Longrightarrow> I s'"
  by (auto simp: kept_def)

lemma kept_leaf [keeps]: "kept I (tx_return a)" "kept I (tx_throw e)" "kept I (tx_read f)" "kept I (tx_when b e)"
  by (auto simp: kept_def)

lemma kept_write: "(\<And>s. I s \<Longrightarrow> I (f s)) \<Longrightarrow> kept I (tx_write f)"
  by (auto simp: kept_def)

lemma kept_bind [keeps]:
  assumes "kept I m" and "\<And>a. kept I (f a)"
  shows "kept I (tx_bind m f)"
  unfolding kept_def
proof (intro allI impI)
  fix s b s'
  assume "I s" "tx_bind m f s = Inr (b, s')"
  then obtain a s1 where "m s = Inr (a, s1)" "f a s1 = Inr (b, s')" by (auto simp: tx_iff)
  then show "I s'" using keptD[OF assms(1) \<open>I s\<close>] keptD[OF assms(2)] by blast
qed

lemma kept_seq [keeps]: "kept I m \<Longrightarrow> kept I n \<Longrightarrow> kept I (tx_seq m n)"
  unfolding tx_seq_def by (rule kept_bind)

lemma kept_cases [keeps]:
  "\<lbrakk>b \<Longrightarrow> kept I m; \<not> b \<Longrightarrow> kept I n\<rbrakk> \<Longrightarrow> kept I (if b then m else n)"
  "\<lbrakk>x = None \<Longrightarrow> kept I m; \<And>y. x = Some y \<Longrightarrow> kept I (g y)\<rbrakk> \<Longrightarrow> kept I (case x of None \<Rightarrow> m | Some y \<Rightarrow> g y)"
  "(\<And>a b. kept I (h a b)) \<Longrightarrow> kept I (case z of (a, b) \<Rightarrow> h a b)"
  by (auto split: option.splits prod.splits)

lemma kept_when_accepting [keeps]:
  assumes "kept I m" and "kept I n"
  shows "kept I (when_accepting t surface m n)"
  unfolding kept_def
proof (intro allI impI)
  fix s a s' assume "I s" "when_accepting t surface m n s = Inr (a, s')"
  then show "I s'"
    using keptD[OF assms(1), of s a s'] keptD[OF assms(2), of s a s'] by (cases "tenant_frozen t s") (simp_all add: when_accepting_run)
qed

lemma stable_kept:
  assumes "kept I m"
  shows "stable I (run_tx m)"
  unfolding stable_def
proof (intro allI impI)
  fix s assume "I s"
  then show "I (snd (run_tx m s))"
    using keptD[OF assms, of s] by (cases "m s") (auto simp: run_tx_def)
qed

text \<open>After a read the invariant may be made stronger by what has been seen.\<close>

lemma stable_seen:
  assumes "\<And>s. I s \<Longrightarrow> \<exists>J. J s \<and> stable J (f (g s)) \<and> (\<forall>s'. J s' \<longrightarrow> I s')"
  shows "stable I (svc_bind (run_tx (tx_read g)) f)"
  unfolding stable_def
proof (intro allI impI)
  fix s assume "I s"
  then obtain J where "J s" "stable J (f (g s))" "\<forall>s'. J s' \<longrightarrow> I s'" using assms by blast
  then show "I (snd (svc_bind (run_tx (tx_read g)) f s))"
    by (simp add: svc_bind_def run_tx_def tx_read_def stable_def)
qed

end
