(* ===== verification/Leases.thy ===== *)
theory Leases
  imports Alerts
begin

text \<open>
  Work queues in the database.  A worker claims a row with a fresh lease, works
  without a transaction, and finishes the row only if it still owns it.  The contract
  is the locale \<open>lease_queue\<close>; the deliveries of messages, of Telegram texts and of
  shipments provide it.
\<close>

text \<open>\<open>updateMany\<close> on a table \<open>get\<close>, and whether \<open>count === 1\<close>.\<close>

definition update_one :: "(db \<Rightarrow> 'r list) \<Rightarrow> ('r list \<Rightarrow> db \<Rightarrow> db) \<Rightarrow> ('r \<Rightarrow> bool) \<Rightarrow> ('r \<Rightarrow> 'r) \<Rightarrow> bool dbtx" where
  "update_one get put P f = (\<lambda>d. Inr (count_where P (get d) = 1, put (update_where P f (get d)) d))"

definition update_message :: "(message \<Rightarrow> bool) \<Rightarrow> (message \<Rightarrow> message) \<Rightarrow> bool dbtx" where
  "update_message = update_one messages (\<lambda>rows d. d\<lparr>messages := rows\<rparr>)"

definition update_delivery :: "(telegram_delivery \<Rightarrow> bool) \<Rightarrow> (telegram_delivery \<Rightarrow> telegram_delivery) \<Rightarrow> bool dbtx" where
  "update_delivery = update_one telegram_deliveries (\<lambda>rows d. d\<lparr>telegram_deliveries := rows\<rparr>)"

definition update_attempt :: "(shipment_attempt \<Rightarrow> bool) \<Rightarrow> (shipment_attempt \<Rightarrow> shipment_attempt) \<Rightarrow> bool dbtx" where
  "update_attempt = update_one attempts_rows (\<lambda>rows d. d\<lparr>attempts_rows := rows\<rparr>)"

text \<open>Rows with a key.\<close>

lemma count_key:
  assumes "distinct (map key rows)" and "\<And>r. P r \<Longrightarrow> key r = k"
  shows "count_where P rows = (if \<exists>r\<in>set rows. P r then 1 else 0)"
  using assms(1)
proof (induction rows)
  case (Cons r rows)
  show ?case
  proof (cases "P r")
    case True
    then have "\<not> P r'" if "r' \<in> set rows" for r'
      using Cons.prems assms(2) that by (metis (no_types) distinct.simps(2) image_eqI list.set_map list.simps(9))
    then show ?thesis using True Cons by auto
  next
    case False
    then show ?thesis using Cons by auto
  qed
qed simp

lemma find_row_update:
  assumes "\<And>r. key (f r) = key r"
  shows "List.find (\<lambda>r. key r = k) (update_where P f rows) =
    map_option (\<lambda>r. if P r then f r else r) (List.find (\<lambda>r. key r = k) rows)"
  using assms by (induction rows) auto

lemma find_row: "List.find (\<lambda>r. key r = k) rows = Some r \<Longrightarrow> key r = k \<and> r \<in> set rows"
  by (meson find_some_prop find_some_set)

lemma find_row_unique:
  assumes "distinct (map key rows)" and "r \<in> set rows"
  shows "List.find (\<lambda>x. key x = key r) rows = Some r"
proof (cases "List.find (\<lambda>x. key x = key r) rows")
  case None
  then show ?thesis using assms(2) by (auto simp: find_None_iff)
next
  case (Some r')
  then have "r' = r" using assms find_row[of key "key r" rows r'] by (auto simp: distinct_map inj_on_def)
  then show ?thesis using Some by simp
qed

lemma count_row:
  assumes "distinct (map key rows)" and "\<And>r. P r \<Longrightarrow> key r = k"
  shows "count_where P rows = (case List.find (\<lambda>r. key r = k) rows of Some r \<Rightarrow> if P r then 1 else 0 | None \<Rightarrow> 0)"
proof (cases "List.find (\<lambda>r. key r = k) rows")
  case None
  then have "\<not> P r" if "r \<in> set rows" for r using assms(2)[of r] that by (auto simp: find_None_iff)
  then show ?thesis using None by (simp add: count_where_0_iff)
next
  case (Some r)
  have "(\<exists>r'\<in>set rows. P r') = P r"
    using find_row_unique[OF assms(1)] assms(2) Some find_row[OF Some] by (metis option.inject)
  then show ?thesis using count_key[OF assms] Some by auto
qed

text \<open>What workers do to a queue: a claim of a row under a lease at a time, a finish with
  an outcome.\<close>

datatype ('k, 'o) lease_event = Claim 'k uuid instant | Finish 'k uuid 'o

fun event_key_of :: "('k, 'o) lease_event \<Rightarrow> 'k" where
  "event_key_of (Claim k l now) = k"
| "event_key_of (Finish k l out) = k"

fun is_claim :: "('k, 'o) lease_event \<Rightarrow> bool" where
  "is_claim (Claim k l now) = True"
| "is_claim (Finish k l out) = False"

text \<open>The rows of one queue.  \<open>claimable\<close> says when a row may be claimed, \<open>held\<close> is its
  lease while it is worked on; \<open>claim\<close> and \<open>release\<close> are what the two writes do to it.\<close>

locale lease_queue =
  fixes key :: "'r \<Rightarrow> 'k"
    and claimable :: "'k \<Rightarrow> instant \<Rightarrow> 'r \<Rightarrow> bool"
    and held :: "'r \<Rightarrow> uuid option"
    and claim :: "uuid \<Rightarrow> instant \<Rightarrow> 'r \<Rightarrow> 'r"
    and release :: "'o \<Rightarrow> 'r \<Rightarrow> 'r"
  assumes key_claim: "key (claim l now r) = key r"
    and key_release: "key (release out r) = key r"
    and claimable_key: "claimable k now r \<Longrightarrow> key r = k"
    and held_claim: "claimable k now r \<Longrightarrow> held (claim l now r) = Some l"
    and held_release: "held (release out r) = None"
begin

definition owned :: "'k \<Rightarrow> uuid \<Rightarrow> 'r \<Rightarrow> bool" where
  "owned k l r \<longleftrightarrow> key r = k \<and> held r = Some l"

definition try_claim :: "'k \<Rightarrow> uuid \<Rightarrow> instant \<Rightarrow> 'r list \<Rightarrow> bool \<times> 'r list" where
  "try_claim k l now rows = (count_where (claimable k now) rows = 1, update_where (claimable k now) (claim l now) rows)"

definition try_release :: "'k \<Rightarrow> uuid \<Rightarrow> 'o \<Rightarrow> 'r list \<Rightarrow> bool \<times> 'r list" where
  "try_release k l out rows = (count_where (owned k l) rows = 1, update_where (owned k l) (release out) rows)"

definition owner :: "'k \<Rightarrow> uuid \<Rightarrow> 'r list \<Rightarrow> bool" where
  "owner k l rows \<longleftrightarrow> (\<exists>r\<in>set rows. owned k l r)"

lemma keys_claim: "map key (snd (try_claim k l now rows)) = map key rows"
  by (simp add: try_claim_def map_update_where key_claim)

lemma keys_release: "map key (snd (try_release k l out rows)) = map key rows"
  by (simp add: try_release_def map_update_where key_release)

lemma count_claimable:
  "distinct (map key rows) \<Longrightarrow> count_where (claimable k now) rows = (if \<exists>r\<in>set rows. claimable k now r then 1 else 0)"
  by (rule count_key[where key = key and k = k]) (auto dest: claimable_key)

lemma count_owned:
  "distinct (map key rows) \<Longrightarrow> count_where (owned k l) rows = (if owner k l rows then 1 else 0)"
  unfolding owner_def by (rule count_key[where key = key and k = k]) (auto simp: owned_def)

lemma claim_refused:
  assumes "distinct (map key rows)" and "\<not> fst (try_claim k l now rows)"
  shows "snd (try_claim k l now rows) = rows"
proof -
  have "\<not> (\<exists>r\<in>set rows. claimable k now r)"
    using assms(2) unfolding try_claim_def fst_conv count_claimable[OF assms(1)] by (rule contrapos_nn) simp
  then show ?thesis by (simp add: try_claim_def update_where_none)
qed

lemma release_iff: "distinct (map key rows) \<Longrightarrow> fst (try_release k l out rows) \<longleftrightarrow> owner k l rows"
  by (simp add: try_release_def count_owned)

lemma release_refused:
  assumes "distinct (map key rows)" and "\<not> fst (try_release k l out rows)"
  shows "snd (try_release k l out rows) = rows"
proof -
  have "\<not> owned k l r" if "r \<in> set rows" for r
    using assms(2) that unfolding release_iff[OF assms(1)] owner_def by blast
  then show ?thesis by (simp add: try_release_def update_where_none)
qed

lemma claim_owner:
  assumes "distinct (map key rows)" and "fst (try_claim k l now rows)"
  shows "owner k l (snd (try_claim k l now rows))"
proof -
  have "\<exists>r\<in>set rows. claimable k now r"
    using assms(2) unfolding try_claim_def fst_conv count_claimable[OF assms(1)] by (rule contrapos_pp) simp
  then obtain r where r: "r \<in> set rows" "claimable k now r" by blast
  have "owned k l (claim l now r)" using r(2) by (simp add: owned_def key_claim held_claim claimable_key)
  then show ?thesis
    unfolding owner_def try_claim_def snd_conv set_update_where using r by (intro bexI[of _ "claim l now r"] image_eqI[of _ _ r]) auto
qed

text \<open>A row has one owner; a claim takes it away from everybody else.\<close>

lemma owner_unique:
  assumes "distinct (map key rows)" and "owner k l rows" and "owner k l' rows"
  shows "l = l'"
proof -
  obtain r r' where "r \<in> set rows" "owned k l r" "r' \<in> set rows" "owned k l' r'" using assms(2,3) by (auto simp: owner_def)
  moreover from this have "r = r'" using assms(1) by (auto simp: owned_def distinct_map inj_on_def)
  ultimately show ?thesis by (auto simp: owned_def)
qed

lemma claim_evicts:
  assumes "distinct (map key rows)" and "fst (try_claim k l now rows)" and "l' \<noteq> l"
  shows "\<not> fst (try_release k l' out (snd (try_claim k l now rows)))"
proof -
  have d: "distinct (map key (snd (try_claim k l now rows)))" using assms(1) by (simp add: keys_claim)
  show ?thesis
    using owner_unique[OF d claim_owner[OF assms(1,2)], of l'] assms(3) release_iff[OF d, of k l' out] by blast
qed

text \<open>A row that was finished is owned by nobody.\<close>

lemma release_frees:
  assumes "distinct (map key rows)" and "fst (try_release k l out rows)"
  shows "\<not> owner k l' (snd (try_release k l out rows))"
proof
  assume "owner k l' (snd (try_release k l out rows))"
  then obtain r where r: "r \<in> set (update_where (owned k l) (release out) rows)" "owned k l' r"
    by (auto simp: owner_def try_release_def)
  from r(1) show False
    unfolding set_update_where
  proof (rule imageE)
    fix r0 assume r0: "r = (if owned k l r0 then release out r0 else r0)" "r0 \<in> set rows"
    show False
    proof (cases "owned k l r0")
      case True
      then show False using r(2) r0(1) by (simp add: owned_def held_release)
    next
      case False
      obtain q where q: "q \<in> set rows" "owned k l q" using assms release_iff[OF assms(1)] by (auto simp: owner_def)
      have "r = r0" using r0(1) False by simp
      then have "key r0 = key q" using r(2) q(2) by (simp add: owned_def)
      then have "r0 = q" using assms(1) r0(2) q(1) by (auto simp: distinct_map inj_on_def)
      then show False using False q(2) by simp
    qed
  qed
qed

lemma release_once:
  assumes "distinct (map key rows)" and "fst (try_release k l out rows)"
  shows "\<not> fst (try_release k l' out' (snd (try_release k l out rows)))"
  using release_frees[OF assms] assms(1) by (simp add: release_iff keys_release)

text \<open>Any interleaving of claims and finishes of workers.  A row is finished at most as
  often as it was claimed, and once more claimed than finished while it is owned.\<close>

lemma claim_other:
  assumes "distinct (map key rows)" and "k' \<noteq> k"
  shows "owner k l' (snd (try_claim k' l now rows)) = owner k l' rows"
proof -
  have "owned k l' (if claimable k' now r then claim l now r else r) = owned k l' r" for r
    using assms(2) claimable_key[of k' now r] by (auto simp: owned_def key_claim)
  then show ?thesis unfolding owner_def try_claim_def update_where_def snd_conv list.set_map bex_simps by simp
qed
lemma release_other:
  assumes "k' \<noteq> k"
  shows "owner k l' (snd (try_release k' l out rows)) = owner k l' rows"
proof -
  have "owned k l' (if owned k' l r then release out r else r) = owned k l' r" for r
    using assms by (auto simp: owned_def key_release)
  then show ?thesis unfolding owner_def try_release_def update_where_def snd_conv list.set_map bex_simps by simp
qed

fun play :: "('k, 'o) lease_event list \<Rightarrow> 'r list \<Rightarrow> (('k, 'o) lease_event \<times> bool) list \<times> 'r list" where
  "play [] rows = ([], rows)"
| "play (e # es) rows =
     (let (done, rows') = (case e of Claim k l now \<Rightarrow> try_claim k l now rows | Finish k l out \<Rightarrow> try_release k l out rows);
          (hist, rows'') = play es rows'
      in ((e, done) # hist, rows''))"

lemma play_Claim:
  "fst (play (Claim k l now # es) rows) = (Claim k l now, fst (try_claim k l now rows)) # fst (play es (snd (try_claim k l now rows)))"
  "snd (play (Claim k l now # es) rows) = snd (play es (snd (try_claim k l now rows)))"
  by (simp_all add: Let_def split: prod.splits)

lemma play_Finish:
  "fst (play (Finish k l out # es) rows) = (Finish k l out, fst (try_release k l out rows)) # fst (play es (snd (try_release k l out rows)))"
  "snd (play (Finish k l out # es) rows) = snd (play es (snd (try_release k l out rows)))"
  by (simp_all add: Let_def split: prod.splits)

definition claims :: "'k \<Rightarrow> (('k, 'o) lease_event \<times> bool) list \<Rightarrow> nat" where
  "claims k hist = count_where (\<lambda>(e, done). done \<and> is_claim e \<and> event_key_of e = k) hist"

definition finishes :: "'k \<Rightarrow> (('k, 'o) lease_event \<times> bool) list \<Rightarrow> nat" where
  "finishes k hist = count_where (\<lambda>(e, done). done \<and> \<not> is_claim e \<and> event_key_of e = k) hist"

definition busy :: "'k \<Rightarrow> 'r list \<Rightarrow> nat" where
  "busy k rows = (if \<exists>l. owner k l rows then 1 else 0)"

lemma busy_le: "busy k rows \<le> 1"
  by (simp add: busy_def)

lemma play_balance:
  assumes "distinct (map key rows)"
  shows "finishes k (fst (play es rows)) + busy k (snd (play es rows)) \<le> claims k (fst (play es rows)) + busy k rows"
  using assms
proof (induction es arbitrary: rows)
  case Nil
  then show ?case by (simp add: claims_def finishes_def)
next
  case (Cons e es)
  show ?case
  proof (cases e)
    case (Claim k' l now)
    let ?r = "try_claim k' l now rows"
    have IH: "finishes k (fst (play es (snd ?r))) + busy k (snd (play es (snd ?r))) \<le> claims k (fst (play es (snd ?r))) + busy k (snd ?r)"
      using Cons.prems by (intro Cons.IH) (simp add: keys_claim)
    have "busy k (snd ?r) \<le> busy k rows + (if fst ?r \<and> k' = k then 1 else 0)"
    proof (cases "k' = k")
      case True
      then show ?thesis using busy_le[of k "snd ?r"] claim_refused[OF Cons.prems, of k' l now] by auto
    next
      case False
      then show ?thesis using claim_other[OF Cons.prems False, of _ l now] by (simp add: busy_def)
    qed
    then show ?thesis using IH
      unfolding Claim play_Claim claims_def finishes_def by (cases "k' = k"; cases "fst ?r") simp_all
  next
    case (Finish k' l out)
    let ?r = "try_release k' l out rows"
    have IH: "finishes k (fst (play es (snd ?r))) + busy k (snd (play es (snd ?r))) \<le> claims k (fst (play es (snd ?r))) + busy k (snd ?r)"
      using Cons.prems by (intro Cons.IH) (simp add: keys_release)
    have "busy k (snd ?r) + (if fst ?r \<and> k' = k then 1 else 0) \<le> busy k rows"
    proof (cases "k' = k")
      case True
      show ?thesis
      proof (cases "fst ?r")
        case freed: True
        then have "owner k' l rows" using release_iff[OF Cons.prems] by blast
        then show ?thesis using release_frees[OF Cons.prems freed] True by (auto simp: busy_def)
      next
        case False
        then show ?thesis using release_refused[OF Cons.prems, of k' l out] by simp
      qed
    next
      case False
      then show ?thesis using release_other[OF False] by (simp add: busy_def)
    qed
    then show ?thesis using IH
      unfolding Finish play_Finish claims_def finishes_def by (cases "k' = k"; cases "fst ?r") simp_all
  qed
qed

end

end
