(* ===== verification/Recognition_Props.thy ===== *)
theory Recognition_Props
  imports Recognition Preserve Leases Orders_Props
begin

text \<open>
  Properties of the recognition of orders: a message leads to one order, an order is
  approved automatically only when it is complete, a message is evaluated by one worker
  at a time, and what failures after the commit and races leave.
\<close>

section \<open>One order per message\<close>

text \<open>The unique indexes: one order and one evaluation per message.\<close>

definition anchors :: "db \<Rightarrow> uuid list \<times> uuid list" where
  "anchors d = (map o_trigger (orders d), map iv_anchor (evaluations d))"

definition one_per_message :: "db \<Rightarrow> bool" where
  "one_per_message d \<longleftrightarrow> distinct (map o_trigger (orders d)) \<and> distinct (map iv_anchor (evaluations d))"

lemma anchors_stable: "anchors d' = anchors d \<Longrightarrow> one_per_message d \<Longrightarrow> one_per_message d'"
  by (simp add: anchors_def one_per_message_def)

lemma anchors_update_order: "(\<And>r. o_trigger (f r) = o_trigger r) \<Longrightarrow> keeps_view anchors (update_order t oid f)"
  by (auto simp: keeps_view_def update_order_def anchors_def map_update_where)

lemma anchors_update_item: "keeps_view anchors (update_item iid f)"
  by (auto simp: keeps_view_def update_item_def anchors_def)

lemma anchors_audit: "keeps_view anchors (create_audit t oid actor ev)"
  unfolding create_audit_def by (rule keeps_write) (simp add: anchors_def)

lemma anchors_reserve: "keeps_view anchors (reserve_decided t ps i a)"
  unfolding reserve_decided_def upsert_reservation_def
  by (auto simp: keeps_view_def anchors_def split: option.splits if_splits)

lemma anchors_assess_items: "keeps_view anchors (assess_items t now ps is reserved)"
proof (induction t now ps "is" reserved rule: assess_items.induct)
  case (2 t now ps i "is" reserved)
  show ?case unfolding assess_items.simps Let_def
    by (intro keeps anchors_reserve anchors_update_item 2) (rule refl)
qed (simp add: keeps)

lemma anchors_assess: "keeps_view anchors (assessApprovedOrder t oid actor a b)"
  unfolding assessApprovedOrder_def release_reassessed_def Let_def
  by (intro keeps anchors_assess_items anchors_update_order anchors_audit keeps_write) (simp_all add: anchors_def)

lemma anchors_alert_members: "keeps_view anchors (alert_members C t nm e eid oid now bs en users)"
proof (induction users)
  case (Cons u users)
  have "keeps_view anchors (upsert_notification t u e eid oid)"
    by (auto simp: keeps_view_def upsert_notification_def anchors_def split: option.splits)
  moreover have "keeps_view anchors (upsert_private_chat C t ext now)" for ext
    by (auto simp: keeps_view_def upsert_private_chat_def anchors_def split: option.splits)
  moreover have "keeps_view anchors (upsert_alert_delivery t c oid nid msg now)" for c nid msg
    unfolding upsert_alert_delivery_def by (rule keeps_write) (simp add: anchors_def)
  ultimately show ?case unfolding alert_members.simps by (intro keeps Cons.IH)
qed (simp add: keeps)

lemma anchors_alert_created: "keeps_view anchors (alert_created W t oid b now)"
  unfolding alert_created_def persist_alert_def by (intro keeps anchors_alert_members)

lemma anchors_snapshot: "anchors (fold (snapshot_line t oid) ls d) = anchors d"
  by (induction ls arbitrary: d) (simp_all add: snapshot_line_def anchors_def split: prod.splits)

lemma anchors_materialize: "keeps_view anchors (materializeCommercialTerms D t oid actor lines sel)"
  unfolding materializeCommercialTerms_def Let_def
  by (intro keeps keeps_write anchors_snapshot) (simp add: upsert_terms_def anchors_def)

lemma anchors_create_items: "keeps_view anchors (create_items t oid now bySku is)"
proof (induction "is")
  case (Cons i "is")
  show ?case unfolding create_items.simps by (intro keeps keeps_write Cons.IH) (simp add: anchors_def)
qed (simp add: keeps)

lemma anchors_persist_items: "keeps_view anchors (persist_items W t oid now c r)"
  unfolding persist_items_def by (intro keeps anchors_create_items anchors_materialize)

lemma anchors_find_or_404: "keeps_view anchors (find_or_404 t oid)"
  unfolding find_or_404_def by (intro keeps)

lemma anchors_store: "keeps_view anchors (store_recognition W t oid now c r)"
  unfolding store_recognition_def
  by (intro keeps anchors_update_order anchors_find_or_404 anchors_persist_items anchors_alert_created)
    (simp add: write_recognition_def Let_def split: prod.splits)

lemma anchors_update_evaluation: "(\<And>v. iv_anchor (f v) = iv_anchor v) \<Longrightarrow> keeps_view anchors (update_evaluation a f)"
  by (auto simp: keeps_view_def update_evaluation_def anchors_def map_update_where)

lemma run_keeps: "keeps_view anchors m \<Longrightarrow> stable one_per_message (run_tx m)"
  by (rule stable_run[of anchors]) (auto intro: anchors_stable)

lemma create_order_one:
  assumes "create_order number build d = Inr (r, d')" and "one_per_message d"
  shows "one_per_message d'"
proof -
  have "o_trigger r \<notin> set (map o_trigger (orders d))" "orders d' = orders d @ [r]" "evaluations d' = evaluations d"
    using assms(1) by (auto simp: create_order_def Let_def split: if_splits)
  then show ?thesis using assms(2) by (simp add: one_per_message_def)
qed

lemma createProcessingOrder_one: "stable one_per_message (run_tx (createProcessingOrder W m prompt now))"
proof -
  have "one_per_message d'" if "one_per_message d" "createProcessingOrder W m prompt now d = Inr (r, d')" for d d' r
    using that create_order_one unfolding createProcessingOrder_def
    by (auto simp: tx_iff split: sum.splits app_error.splits prod.splits)
  then show ?thesis by (auto simp: stable_def run_tx_def split: sum.splits prod.splits)
qed

lemma propose_order_one: "stable one_per_message (run_tx (propose_order W m st c r auto reason now))"
proof -
  have "one_per_message d'" if one: "one_per_message d" and run: "propose_order W m st c r auto reason now d = Inr (x, d')" for d d' x
  proof -
    obtain created d1 where first: "create_order (wk_number W) (\<lambda>oid public. write_recognition (wk_text W) c r
          (if auto then AUTO_APPROVED else NEEDS_REVIEW) now (processing_order oid (m_tenant m) public (m_conversation m) (m_id m)
          (promptVersionForChannel (m_channel m) (ts_prompt st)) now)) d = Inr (created, d1)"
      and rest: "(tx_seq (persist_items W (m_tenant m) (o_id created) now c r)
        (tx_seq (update_evaluation (m_id m) (complete_evaluation reason r
         (if auto then EV_AUTO_CREATED else EV_PROPOSED) (Some (o_id created)) now))
        (tx_seq (alert_created W (m_tenant m) (o_id created) auto now) (tx_return created)))) d1 = Inr (x, d')"
      using run unfolding propose_order_def Let_def by (auto simp only: tx_bind_Inr)
    have keep: "keeps_view anchors (tx_seq (persist_items W (m_tenant m) (o_id created) now c r)
        (tx_seq (update_evaluation (m_id m) (complete_evaluation reason r
         (if auto then EV_AUTO_CREATED else EV_PROPOSED) (Some (o_id created)) now))
        (tx_seq (alert_created W (m_tenant m) (o_id created) auto now) (tx_return created))))"
      by (intro keeps anchors_persist_items anchors_update_evaluation anchors_alert_created) (simp add: complete_evaluation_def)
    have "anchors d' = anchors d1" using keep rest unfolding keeps_view_def by blast
    then show ?thesis using create_order_one[OF first one] anchors_stable by blast
  qed
  then show ?thesis by (auto simp: stable_def run_tx_def split: sum.splits prod.splits)
qed

lemma claim_one:
  assumes "\<And>d. one_per_message d \<Longrightarrow> one_per_message (env d)"
  shows "stable one_per_message (claimIntentEvaluation m mode now env)"
proof -
  have create: "one_per_message (snd (run_tx (create_evaluation m mode now) d))" if "one_per_message d" for d
    using that by (auto simp: create_evaluation_def run_tx_def one_per_message_def)
  have reclaim: "stable one_per_message (run_tx (reclaim_evaluation vid mode now))" for vid
    unfolding reclaim_evaluation_def
    by (intro run_keeps keeps keeps_write) (simp add: anchors_def map_update_where)
  show ?thesis unfolding stable_def
  proof (intro allI impI)
    fix d assume d: "one_per_message d"
    obtain r d1 where run: "run_tx (create_evaluation m mode now) d = (r, d1)" by (cases "run_tx (create_evaluation m mode now) d")
    have d1: "one_per_message d1" using create[OF d] run by simp
    let ?again = "\<lambda>v. case run_tx (reclaim_evaluation (iv_id v) mode now) (env d1) of
        (Inl e, d2) \<Rightarrow> (Inl e, d2) | (Inr ours, d2) \<Rightarrow> (Inr (ours, None :: uuid option), d2)"
    have again: "one_per_message (snd (?again v))" for v
    proof -
      obtain q d2 where q: "run_tx (reclaim_evaluation (iv_id v) mode now) (env d1) = (q, d2)"
        by (cases "run_tx (reclaim_evaluation (iv_id v) mode now) (env d1)")
      have "one_per_message d2" by (rule stableD[OF reclaim assms[OF d1] q])
      then show ?thesis unfolding q by (cases q) simp_all
    qed
    show "one_per_message (snd (claimIntentEvaluation m mode now env d))"
    proof (cases r)
      case (Inr u)
      then show ?thesis unfolding claimIntentEvaluation_def run using d1 by simp
    next
      case (Inl e)
      show ?thesis
      proof (cases "e = UniqueViolation")
        case True
        show ?thesis
        proof (cases "List.find (\<lambda>v. iv_anchor v = m_id m) (evaluations d1)")
          case None
          then show ?thesis unfolding claimIntentEvaluation_def run Inl True using d1 by simp
        next
          case (Some v)
          show ?thesis
          proof (cases "iv_order v \<noteq> None \<or> iv_status v \<in> {EV_IGNORED, EV_PROPOSED, EV_AUTO_CREATED}")
            case True
            then show ?thesis unfolding claimIntentEvaluation_def run Inl \<open>e = UniqueViolation\<close> using d1 Some by auto
          next
            case False
            then have "claimIntentEvaluation m mode now env d = ?again v"
              unfolding claimIntentEvaluation_def run Inl \<open>e = UniqueViolation\<close> using Some by simp
            then show ?thesis using again[of v] by simp
          qed
        qed
      next
        case False
        then show ?thesis unfolding claimIntentEvaluation_def run Inl using d1 by (simp split: app_error.splits)
      qed
    qed
  qed
qed

text \<open>The export that is scheduled after an approval keeps the indexes.\<close>

definition export_ok :: "'d worker \<Rightarrow> bool" where
  "export_ok W \<longleftrightarrow> (\<forall>schedule oid t. wk_export W = Some schedule \<longrightarrow> stable one_per_message (schedule oid t))"

lemma follow_up_one: "export_ok W \<Longrightarrow> stable one_per_message (follow_up W t oid now)"
  unfolding follow_up_def by (intro keeps run_keeps anchors_assess) (auto simp: export_ok_def)

lemma recognize_order_one:
  assumes "export_ok W" and "\<And>d. one_per_message d \<Longrightarrow> one_per_message (env d)"
  shows "stable one_per_message (recognize_order W m st oid now env)"
  unfolding recognize_order_def Let_def
  by (intro keeps run_keeps stable_after[where env = env] anchors_store follow_up_one assms) assumption?

lemma evaluate_intent_one:
  assumes "export_ok W" and "\<And>d. one_per_message d \<Longrightarrow> one_per_message (env d)"
  shows "stable one_per_message (evaluate_intent W m st now env)"
  unfolding evaluate_intent_def Let_def
  by (intro keeps run_keeps stable_after[where env = env] propose_order_one follow_up_one anchors_update_evaluation assms)
    (simp_all add: complete_evaluation_def)

lemma process_trigger_one:
  assumes "export_ok W" and "\<And>d. one_per_message d \<Longrightarrow> one_per_message (env1 d)" and "\<And>d. one_per_message d \<Longrightarrow> one_per_message (env d)"
  shows "stable one_per_message (process_trigger W t mid now env1 env)"
proof -
  have read: "stable one_per_message (run_tx (read_trigger t mid))"
    unfolding read_trigger_def find_message_def by (intro run_keeps keeps)
  have failed: "stable one_per_message (run_tx (mark_failed a b))" for a b
    unfolding mark_failed_def by (intro run_keeps anchors_update_order) simp
  show ?thesis unfolding process_trigger_def
    by (intro keeps read failed stable_after[where env = env1] createProcessingOrder_one recognize_order_one assms)
qed

lemma intent_one:
  assumes "export_ok W" and "\<And>d. one_per_message d \<Longrightarrow> one_per_message (env1 d)" and "\<And>d. one_per_message d \<Longrightarrow> one_per_message (env d)"
  shows "stable one_per_message (processConversationalIntent W m st now env1 env)"
proof -
  have failed: "stable one_per_message (run_tx (fail_evaluation a))" for a
    unfolding fail_evaluation_def by (intro run_keeps keeps_write) (simp add: anchors_def map_update_where)
  show ?thesis unfolding processConversationalIntent_def
    by (intro keeps claim_one failed run_keeps evaluate_intent_one assms)
qed

section \<open>Sample\<close>

text \<open>A tenant that approves every complete order, a conversation with one message of the
  manager, a product, and a recognizer that reads one complete order.\<close>

definition plain_text :: text_ops where
  "plain_text = \<lparr>uc_lower = (\<lambda>s. s), uc_nfkc = (\<lambda>s. s), uc_word = (\<lambda>c. c \<noteq> CHR '' ''), uc_cross = (\<lambda>c. False), uc_rank = (\<lambda>s. 0)\<rparr>"

definition read_order :: recognized_order where
  "read_order = \<lparr>ro_is_order = True, ro_explicit_intent = True, ro_name = Some ''Ann'', ro_phone = Some ''+380'', ro_instagram = None,
     ro_city = Some ''Kyiv'', ro_address = None, ro_branch = Some ''12'',
     ro_items = [\<lparr>ri_catalog = Some ''A'', ri_text = ''tee'', ri_quantity = 2, ri_color = None, ri_size = None, ri_confidence = 1\<rparr>],
     ro_confidence = 1\<rparr>"

definition sample_metadata :: ai_metadata where
  "sample_metadata = (''r1'', ''gpt'', 120, 40)"

definition read_worker :: "(uuid \<Rightarrow> uuid \<Rightarrow> unit dbservice) option \<Rightarrow> int worker" where
  "read_worker export = \<lparr>wk_text = plain_text, wk_recognizer = (\<lambda>x. Inr (read_order, sample_metadata)), wk_decimal = exact_decimal,
     wk_number = (\<lambda>n. decimal_digits n), wk_alerts = None, wk_export = export\<rparr>"

definition manager_message :: message where
  "manager_message = \<lparr>m_id = 70, m_tenant = 7, m_conversation = 60, m_channel = INSTAGRAM, m_direction = OUTBOUND,
     m_text = Some ''Order confirmed'', m_source_at = 5, m_sent_by = Some 3, m_provider_message = None, m_status = None, m_attempts = 0,
     m_lease = None, m_lease_expires = None, m_next_attempt = None, m_last_attempt = None, m_error = None, m_generation = None, m_created = 5,
     m_event = None, m_external = ''e'', m_sender = ''s'', m_client_key = None\<rparr>"

definition manager_settings :: tenant_settings where
  "manager_settings = \<lparr>ts_tenant = 7, ts_intent_mode = AI_AUTOMATION, ts_approval_mode = NEVER, ts_threshold = 1, ts_prompt = ''v2'',
     ts_phrases = [''confirmed'']\<rparr>"

definition reading_db :: db where
  "reading_db = empty_db\<lparr>products := [sample_product 10 7 ''A'' (Some 10)], messages := [manager_message], settings := [manager_settings],
     next_id := 100\<rparr>"

lemmas reading_simps = reading_db_def manager_message_def manager_settings_def sample_product_def empty_db_def



section \<open>Automatic approval\<close>

definition complete_item :: "hint list \<Rightarrow> recognized_item \<Rightarrow> bool" where
  "complete_item ps i \<longleftrightarrow> 1 \<le> ri_quantity i \<and> (\<exists>sku\<in>set (map fst ps). ri_catalog i = Some sku)"

lemma item_issues_none: "recognized_item_issues ps k is = [] \<longleftrightarrow> (\<forall>i\<in>set is. complete_item ps i)"
  by (induction ps k "is" rule: recognized_item_issues.induct) (auto simp: complete_item_def split: option.splits)

text \<open>C15.
  An order is approved automatically exactly when nothing is missing (a name, a phone
  number, a city, an address or a branch, at least one item, every item with a quantity and
  a product of the catalogue) and the settings allow it, by their mode or by the
  confidence; a conversation creates an approved order exactly when, besides, the customer
  has said so and the tenant has switched automation on.\<close>

theorem automatic_approval:
  assumes "recognize R T input mode threshold = Inr r"
  shows "(rr_status r = AUTO_APPROVED \<longleftrightarrow> rr_issues r = [] \<and> (mode = NEVER \<or> mode = ON_LOW_CONFIDENCE \<and> threshold \<le> ro_confidence (rr_order r)))
    \<and> (rr_status r \<noteq> AUTO_APPROVED \<longrightarrow> rr_status r = NEEDS_REVIEW)
    \<and> (rr_issues r = [] \<longleftrightarrow> truthy (ro_name (rr_order r)) \<and> truthy (ro_phone (rr_order r)) \<and> truthy (ro_city (rr_order r))
        \<and> (truthy (ro_address (rr_order r)) \<or> truthy (ro_branch (rr_order r))) \<and> ro_is_order (rr_order r) \<and> ro_items (rr_order r) \<noteq> []
        \<and> (\<forall>i\<in>set (ro_items (rr_order r)). 1 \<le> ri_quantity i \<and> (\<exists>sku\<in>set (map fst (rn_products input)). ri_catalog i = Some sku)))
    \<and> (fst (decideConversationalIntent im (ro_is_order (rr_order r)) explicit usable (rr_issues r = []) (ro_confidence (rr_order r)) threshold) = AUTO_CREATE
        \<longleftrightarrow> im = AI_AUTOMATION \<and> explicit \<and> usable \<and> rr_issues r = [] \<and> threshold \<le> ro_confidence (rr_order r))"
proof -
  obtain q metadata where R: "R input = Inr (q, metadata)" using assms by (cases "R input") (auto simp: recognize_def)
  define o' where "o' = q\<lparr>ro_items := map (resolve_item T (rn_products input)) (ro_items q)\<rparr>"
  have r: "r = \<lparr>rr_order = o', rr_metadata = metadata,
      rr_status = decideOrderStatus mode (ro_confidence q) (recognition_issues (rn_products input) o' = []) (Some threshold),
      rr_issues = recognition_issues (rn_products input) o'\<rparr>"
    using assms by (auto simp: recognize_def R o'_def Let_def)
  have conf: "ro_confidence q = ro_confidence o'" by (simp add: o'_def)
  have issues: "recognition_issues (rn_products input) o' = [] \<longleftrightarrow> truthy (ro_name o') \<and> truthy (ro_phone o') \<and> truthy (ro_city o')
      \<and> (truthy (ro_address o') \<or> truthy (ro_branch o')) \<and> ro_is_order o' \<and> ro_items o' \<noteq> []
      \<and> (\<forall>i\<in>set (ro_items o'). complete_item (rn_products input) i)"
    using item_issues_none[of "rn_products input" 0 "ro_items o'"] by (auto simp: recognition_issues_def)
  show ?thesis
    using issues by (cases mode; cases im) (auto simp: r conf decideOrderStatus_def decideConversationalIntent_def complete_item_def)
qed

definition sample_request :: recognition_input where
  "sample_request = recognition_request (recognition_context_of plain_text 7 60 5 reading_db) manager_message False"

lemma sample_recognized:
  obtains r where "recognize (wk_recognizer (read_worker None)) plain_text sample_request NEVER 1 = Inr r" "rr_status r = AUTO_APPROVED"
proof -
  have "case recognize (wk_recognizer (read_worker None)) plain_text sample_request NEVER 1 of Inr r \<Rightarrow> rr_status r = AUTO_APPROVED | Inl e \<Rightarrow> False"
    by code_simp
  then show ?thesis using that by (simp split: sum.splits)
qed

theorem automatic_approval_witness:
  "\<exists>r. recognize (wk_recognizer (read_worker None)) plain_text sample_request NEVER 1 = Inr r \<and> rr_issues r = [] \<and> truthy (ro_city (rr_order r))"
proof -
  obtain r where r: "recognize (wk_recognizer (read_worker None)) plain_text sample_request NEVER 1 = Inr r" "rr_status r = AUTO_APPROVED"
    by (rule sample_recognized)
  from automatic_approval[OF r(1)] r show ?thesis by blast
qed

section \<open>One worker at a time\<close>

definition evaluations_ok :: "db \<Rightarrow> bool" where
  "evaluations_ok d \<longleftrightarrow> distinct (map iv_id (evaluations d)) \<and> distinct (map iv_anchor (evaluations d))
     \<and> (\<forall>v\<in>set (evaluations d). iv_id v < next_id d)"

definition held_until :: "uuid \<Rightarrow> instant \<Rightarrow> db \<Rightarrow> bool" where
  "held_until anchor x d \<longleftrightarrow> (\<exists>v. List.find (\<lambda>v. iv_anchor v = anchor) (evaluations d) = Some v
     \<and> iv_status v = EV_PROCESSING \<and> iv_lease_expires v = Some x \<and> (\<forall>w\<in>set (evaluations d). iv_id w = iv_id v \<longrightarrow> w = v))"

lemma held_create:
  assumes "evaluations_ok d" and "create_evaluation m mode now d = Inr (u, d1)"
  shows "held_until (m_id m) (now + intent_lease_ms) d1"
proof -
  obtain v where v: "evaluations d1 = evaluations d @ [v]" "iv_anchor v = m_id m" "iv_status v = EV_PROCESSING"
    "iv_lease_expires v = Some (now + intent_lease_ms)" "iv_id v = next_id d" and new: "\<forall>w\<in>set (evaluations d). iv_anchor w \<noteq> m_id m"
    using assms(2) by (auto simp: create_evaluation_def split: if_splits)
  have "List.find (\<lambda>v. iv_anchor v = m_id m) (evaluations d @ [v]) = Some v"
    using new v(2) by (induction "evaluations d") (auto simp: find_Some_iff nth_append intro!: exI[of _ "length (evaluations d)"])
  moreover have "\<forall>w\<in>set (evaluations d1). iv_id w = iv_id v \<longrightarrow> w = v"
    using assms(1) v(1,5) by (auto simp: evaluations_ok_def)
  ultimately show ?thesis using v by (auto simp: held_until_def)
qed

lemma held_reclaim:
  assumes "evaluations_ok d" and "v \<in> set (evaluations d)" and "iv_anchor v = a"
    and "reclaim_evaluation (iv_id v) mode now d = Inr (True, d1)"
  shows "held_until a (now + intent_lease_ms) d1"
proof -
  let ?f = "\<lambda>v. v\<lparr>iv_status := EV_PROCESSING, iv_mode := mode, iv_attempts := iv_attempts v + 1,
            iv_lease_expires := Some (now + intent_lease_ms), iv_error := None\<rparr>"
  have d1: "evaluations d1 = update_where (reclaimable (iv_id v) now) ?f (evaluations d)"
    and one: "count_where (reclaimable (iv_id v) now) (evaluations d) = 1"
    using assms(4) by (auto simp: reclaim_evaluation_def tx_iff)
  from one have "\<not> (\<forall>r\<in>set (evaluations d). \<not> reclaimable (iv_id v) now r)" unfolding count_where_0_iff[symmetric] by simp
  then obtain w where w: "w \<in> set (evaluations d)" "reclaimable (iv_id v) now w" by blast
  then have "w = v" using assms(1,2) by (auto simp: reclaimable_def evaluations_ok_def distinct_map inj_on_def)
  with w have r: "reclaimable (iv_id v) now v" by simp
  have "List.find (\<lambda>v. iv_anchor v = a) (evaluations d) = Some v"
    using find_row_unique[of iv_anchor "evaluations d" v] assms(1,2,3) by (simp add: evaluations_ok_def)
  then have "List.find (\<lambda>v. iv_anchor v = a) (evaluations d1) = Some (?f v)"
    unfolding d1 by (subst find_row_update) (simp_all add: r)
  moreover have "\<forall>w\<in>set (evaluations d1). iv_id w = iv_id (?f v) \<longrightarrow> w = ?f v"
  proof (intro ballI impI)
    fix w assume w: "w \<in> set (evaluations d1)" "iv_id w = iv_id (?f v)"
    then obtain z where z: "z \<in> set (evaluations d)" "w = (if reclaimable (iv_id v) now z then ?f z else z)"
      unfolding d1 set_update_where by blast
    then have "iv_id z = iv_id v" using w(2) by (auto split: if_splits)
    then have "z = v" using assms(1,2) z(1) by (auto simp: evaluations_ok_def distinct_map inj_on_def)
    then show "w = ?f v" using z(2) r by simp
  qed
  ultimately show ?thesis by (auto simp: held_until_def)
qed

text \<open>Of the workers that evaluate the intent of one message only one goes on: as long as the
  lease of a claim runs, every other claim is refused and changes nothing.\<close>

theorem intent_claim_exclusive:
  assumes "evaluations_ok d" and "evaluations_ok (env d)"
    and "\<forall>v\<in>set (evaluations d). \<exists>w\<in>set (evaluations (env d)). iv_id w = iv_id v \<and> iv_anchor w = iv_anchor v"
    and "claimIntentEvaluation m mode now env d = (Inr (True, oid), d1)"
    and "m_id m' = m_id m" and "later \<le> now + intent_lease_ms"
  shows "\<exists>x. claimIntentEvaluation m' mode' later (\<lambda>e. e) d1 = (Inr (False, x), d1)"
proof -
  have held: "held_until (m_id m) (now + intent_lease_ms) d1"
  proof (cases "create_evaluation m mode now d")
    case (Inr r)
    then have "create_evaluation m mode now d = Inr ((), d1)"
      using assms(4) by (cases r) (simp add: claimIntentEvaluation_def run_tx_def)
    then show ?thesis by (rule held_create[OF assms(1)])
  next
    case (Inl e)
    then have e: "e = UniqueViolation" by (auto simp: create_evaluation_def split: if_splits)
    obtain v where v: "List.find (\<lambda>v. iv_anchor v = m_id m) (evaluations d) = Some v"
      using assms(4) by (auto simp: claimIntentEvaluation_def run_tx_def Inl e split: option.splits)
    obtain w where w: "w \<in> set (evaluations (env d))" "iv_id w = iv_id v" "iv_anchor w = m_id m"
      using assms(3) find_row[OF v] by metis
    have "reclaim_evaluation (iv_id w) mode now (env d) = Inr (True, d1)"
      using assms(4) by (auto simp: claimIntentEvaluation_def run_tx_def Inl e v w(2) split: if_splits sum.splits prod.splits)
    then show ?thesis by (rule held_reclaim[OF assms(2) w(1,3)])
  qed
  then obtain v where v: "List.find (\<lambda>v. iv_anchor v = m_id m') (evaluations d1) = Some v" "iv_status v = EV_PROCESSING"
    "iv_lease_expires v = Some (now + intent_lease_ms)" "\<forall>w\<in>set (evaluations d1). iv_id w = iv_id v \<longrightarrow> w = v"
    using assms(5) by (auto simp: held_until_def)
  have exists: "create_evaluation m' mode' later d1 = Inl UniqueViolation"
    using find_row[OF v(1)] by (auto simp: create_evaluation_def)
  have none: "\<not> reclaimable (iv_id v) later w" if "w \<in> set (evaluations d1)" for w
  proof
    assume r: "reclaimable (iv_id v) later w"
    then have "w = v" using v(4) that by (simp add: reclaimable_def)
    then show False using r v(2,3) assms(6) by (simp add: reclaimable_def)
  qed
  then have "count_where (reclaimable (iv_id v) later) (evaluations d1) = 0" by (simp add: count_where_0_iff)
  moreover have "update_where (reclaimable (iv_id v) later) f (evaluations d1) = evaluations d1" for f
    using none by (intro update_where_none) blast
  ultimately have "run_tx (reclaim_evaluation (iv_id v) mode' later) d1 = (Inr False, d1)"
    by (simp add: reclaim_evaluation_def tx_bind_def tx_seq_def tx_read_def tx_write_def tx_return_def)
  then show ?thesis
    unfolding claimIntentEvaluation_def run_tx_def exists by (auto simp: v(1) split: option.splits)
qed

theorem intent_claim_exclusive_witness:
  "\<exists>d1 x. claimIntentEvaluation manager_message AI_AUTOMATION 1000 (\<lambda>d. d) reading_db = (Inr (True, None), d1)
     \<and> claimIntentEvaluation manager_message AI_SUGGESTION 2000 (\<lambda>d. d) d1 = (Inr (False, x), d1)"
proof -
  obtain d1 where d1: "claimIntentEvaluation manager_message AI_AUTOMATION 1000 (\<lambda>d. d) reading_db = (Inr (True, None), d1)"
    by (simp add: claimIntentEvaluation_def create_evaluation_def run_tx_def reading_simps)
  have "evaluations_ok reading_db" by (simp add: evaluations_ok_def reading_simps)
  then show ?thesis
    using d1 intent_claim_exclusive[OF _ _ _ d1, of manager_message 2000 AI_SUGGESTION]
    by (auto simp: intent_lease_ms_def evaluations_ok_def)
qed

section \<open>Failures\<close>

text \<open>A worker that loses the race to create the order of a message ends with the error of
  an aborted transaction and does nothing: the catch block that is to read the order of
  the winner cannot read any more in the transaction that has failed.\<close>

theorem creation_race:
  assumes "run_tx (read_trigger t mid) d = (Inr (Inr (m, st)), d)"
    and "find_by_trigger t mid (env1 d) = Some r" and "\<not> tenant_frozen (m_tenant m) (env1 d)"
  shows "process_trigger W t mid now env1 env d = (Inl TransactionAborted, env1 d)"
proof -
  have "m_id m = mid" using assms(1)
    by (auto simp: read_trigger_def find_message_def tx_iff split: option.splits dest!: find_some_prop)
  moreover have "any_row (\<lambda>x. o_trigger x = mid) (orders (env1 d))"
    using assms(2) by (auto simp: find_by_trigger_def any_row_def dest: find_some_prop find_some_set)
  ultimately have "create_order (wk_number W) (\<lambda>oid public. processing_order oid (m_tenant m) public (m_conversation m) (m_id m) prompt now) (env1 d)
      = Inl UniqueViolation" for prompt
    by (auto simp: create_order_def Let_def processing_order_def any_row_def)
  then have lost: "run_tx (createProcessingOrder W m prompt now) (env1 d) = (Inl TransactionAborted, env1 d)" for prompt
    using assms(3) by (simp add: createProcessingOrder_def guarded_open run_tx_def)
  show ?thesis unfolding process_trigger_def svc_bind_def by (simp add: assms(1) lost)
qed

text \<open>The other worker of the race has created the order.\<close>

definition winner :: "db \<Rightarrow> db" where
  "winner d = d\<lparr>orders := orders d @ [processing_order 90 7 ''90'' 60 70 ''v2'' 999]\<rparr>"

theorem creation_race_witness:
  "process_trigger (read_worker None) 7 70 1000 winner (\<lambda>d. d) reading_db = (Inl TransactionAborted, winner reading_db)"
proof -
  have reads: "run_tx (read_trigger 7 70) reading_db = (Inr (Inr (manager_message, manager_settings)), reading_db)"
    by (simp add: read_trigger_def find_message_def find_by_trigger_def find_settings_def run_tx_def tx_bind_def tx_read_def tx_return_def reading_simps)
  have "find_by_trigger 7 70 (winner reading_db) = Some (processing_order 90 7 ''90'' 60 70 ''v2'' 999)"
    "\<not> tenant_frozen (m_tenant manager_message) (winner reading_db)"
    by (simp_all add: find_by_trigger_def winner_def processing_order_def tenant_frozen_def reading_simps)
  then show ?thesis by (rule creation_race[OF reads])
qed

text \<open>C36.
  Whatever goes wrong after the order has been created, the export that is scheduled
  last included, only sets the status of the order to \<open>AI_FAILED\<close>: what was committed
  before stays, so that an approved order whose export fails is a failed order with its
  reservations.\<close>

theorem failure_keeps_commit:
  assumes "run_tx (read_trigger t mid) d = (Inr (Inr (m, st)), d)"
    and "run_tx (createProcessingOrder W m (promptVersionForChannel (m_channel m) (ts_prompt st)) now) (env1 d) = (Inr created, d1)"
    and "recognize_order W m st (o_id created) now env d1 = (Inl e, d2)"
    and "find_order (m_tenant m) (o_id created) d2 = Some r"
  shows "\<exists>d'. process_trigger W t mid now env1 env d = (Inl e, d')
    \<and> d' = d2\<lparr>orders := orders d'\<rparr> \<and> find_order (m_tenant m) (o_id created) d' = Some (r\<lparr>o_status := AI_FAILED\<rparr>)"
proof -
  let ?t = "m_tenant m" and ?o = "o_id created"
  have "o_status created = AI_PROCESSING"
    using assms(2) by (auto simp: createProcessingOrder_def create_order_def Let_def processing_order_def run_tx_def tx_iff
        split: if_splits sum.splits app_error.splits)
  define d' where "d' = d2\<lparr>orders := update_where (\<lambda>r. o_id r = ?o \<and> o_tenant r = ?t) (\<lambda>r. r\<lparr>o_status := AI_FAILED\<rparr>) (orders d2)\<rparr>"
  have "any_row (\<lambda>r. o_id r = ?o \<and> o_tenant r = ?t) (orders d2)"
    using assms(4) by (auto simp: find_order_def any_row_def dest: find_some_prop find_some_set)
  then have failed: "run_tx (mark_failed ?t ?o) d2 = (Inr (), d')"
    by (simp add: mark_failed_def update_order_def run_tx_def d'_def)
  have found: "find_order ?t ?o d' = Some (r\<lparr>o_status := AI_FAILED\<rparr>)"
  proof -
    have "List.find P (update_where P f rows) = map_option f (List.find P rows)" if "\<And>r. P (f r) = P r"
      for P :: "order \<Rightarrow> bool" and f rows
      using that by (induction rows) auto
    then show ?thesis using assms(4) by (simp add: d'_def find_order_def)
  qed
  have "process_trigger W t mid now env1 env d = (Inl e, d')"
    using \<open>o_status created = AI_PROCESSING\<close>
    by (simp add: process_trigger_def svc_bind_def svc_try_def svc_throw_def assms(1,2,3) failed)
  then show ?thesis using found by (intro exI[of _ d']) (simp add: d'_def)
qed

text \<open>The export of the sample cannot be scheduled.\<close>

definition broken_export :: "uuid \<Rightarrow> uuid \<Rightarrow> unit dbservice" where
  "broken_export oid t = svc_throw (Plain ''QUEUE_UNAVAILABLE'')"

theorem failure_keeps_commit_witness:
  "\<exists>d'. process_trigger (read_worker (Some broken_export)) 7 70 1000 (\<lambda>d. d) (\<lambda>d. d) reading_db = (Inl (Plain ''QUEUE_UNAVAILABLE''), d')
    \<and> map_option o_status (find_order 7 100 d') = Some AI_FAILED
    \<and> map (\<lambda>s. (rs_quantity s, rs_status s)) (reservations d') = [(2, ACTIVE)]"
proof -
  let ?W = "read_worker (Some broken_export)"
  have reads: "run_tx (read_trigger 7 70) reading_db = (Inr (Inr (manager_message, manager_settings)), reading_db)"
    by (simp add: read_trigger_def find_message_def find_by_trigger_def find_settings_def run_tx_def tx_bind_def tx_read_def tx_return_def reading_simps)
  have "case run_tx (createProcessingOrder ?W manager_message (promptVersionForChannel (m_channel manager_message) (ts_prompt manager_settings)) 1000) reading_db of
      (Inr created, d1) \<Rightarrow> o_id created = 100 \<and> (case recognize_order ?W manager_message manager_settings 100 1000 (\<lambda>d. d) d1 of
          (Inl e, d2) \<Rightarrow> e = Plain ''QUEUE_UNAVAILABLE'' \<and> map_option o_status (find_order 7 100 d2) = Some AUTO_APPROVED
             \<and> map (\<lambda>s. (rs_quantity s, rs_status s)) (reservations d2) = [(2, ACTIVE)]
        | (Inr x, d2) \<Rightarrow> False) | (Inl e, d1) \<Rightarrow> False"
    by code_simp
  then obtain created d1 d2 r where run: "run_tx (createProcessingOrder ?W manager_message (promptVersionForChannel (m_channel manager_message) (ts_prompt manager_settings)) 1000) reading_db = (Inr created, d1)"
      "o_id created = 100" "recognize_order ?W manager_message manager_settings (o_id created) 1000 (\<lambda>d. d) d1 = (Inl (Plain ''QUEUE_UNAVAILABLE''), d2)"
      "find_order 7 100 d2 = Some r" "map (\<lambda>s. (rs_quantity s, rs_status s)) (reservations d2) = [(2, ACTIVE)]"
    by (auto split: prod.splits sum.splits)
  have t: "m_tenant manager_message = 7" by (simp add: manager_message_def)
  have "\<exists>d'. process_trigger ?W 7 70 1000 (\<lambda>d. d) (\<lambda>d. d) reading_db = (Inl (Plain ''QUEUE_UNAVAILABLE''), d')
      \<and> d' = d2\<lparr>orders := orders d'\<rparr> \<and> find_order 7 100 d' = Some (r\<lparr>o_status := AI_FAILED\<rparr>)"
    using failure_keeps_commit[where ?env1.0 = "\<lambda>d. d" and env = "\<lambda>d. d", OF reads run(1,3), of r]
    unfolding t run(2) using run(4) by this
  then obtain d' where "process_trigger ?W 7 70 1000 (\<lambda>d. d) (\<lambda>d. d) reading_db = (Inl (Plain ''QUEUE_UNAVAILABLE''), d')"
      "d' = d2\<lparr>orders := orders d'\<rparr>" "find_order 7 100 d' = Some (r\<lparr>o_status := AI_FAILED\<rparr>)"
    by (elim exE conjE) (rule that)
  moreover have "reservations d' = reservations d2"
    using \<open>d' = d2\<lparr>orders := orders d'\<rparr>\<close> by (rule ssubst[where P = "\<lambda>x. reservations x = reservations d2"]) simp
  ultimately show ?thesis using run(5) by (intro exI[of _ d'] conjI) simp_all
qed

end
