(* ===== verification/Messages.thy ===== *)
theory Messages
  imports Leases
begin

text \<open>
  Delivery of a manager's messages by the worker:
  \<open>apps/worker/src/instagram/instagram-message-delivery.service.ts\<close> and
  \<open>apps/worker/src/tiktok/tiktok-message-delivery.service.ts\<close>.  The clients of the
  providers, the cipher and the token service are parameters; so is \<open>env\<close>, what
  others commit while a client is waited for.
\<close>

datatype delivery_result = D_SENT | D_RETRY | D_FAILED | D_UNKNOWN | D_IGNORED | D_DISABLED | D_FROZEN

definition lease_ms :: int where
  "lease_ms = 60000"

text \<open>What a finished attempt writes: status, error, next attempt, message of the provider.\<close>

record outcome =
  out_status :: outbound_status
  out_error :: "string option"
  out_next :: "instant option"
  out_provider :: "string option"

definition sent_outcome :: "string \<Rightarrow> outcome" where
  "sent_outcome pid = \<lparr>out_status = OD_SENT, out_error = None, out_next = None, out_provider = Some pid\<rparr>"

definition end_outcome :: "outbound_status \<Rightarrow> string \<Rightarrow> outcome" where
  "end_outcome st code = \<lparr>out_status = st, out_error = Some code, out_next = None, out_provider = None\<rparr>"

definition retry_outcome :: "string \<Rightarrow> instant \<Rightarrow> outcome" where
  "retry_outcome code next = \<lparr>out_status = OD_PENDING, out_error = Some code, out_next = Some next, out_provider = None\<rparr>"

text \<open>The writes of a claim and of a finish; both services use the same columns.\<close>

definition start_sending :: "uuid \<Rightarrow> instant \<Rightarrow> message \<Rightarrow> message" where
  "start_sending lease now m = m\<lparr>m_status := Some OD_SENDING, m_attempts := m_attempts m + 1, m_lease := Some lease,
     m_lease_expires := Some (now + lease_ms), m_next_attempt := None, m_last_attempt := Some now, m_error := None\<rparr>"

definition write_outcome :: "outcome \<Rightarrow> message \<Rightarrow> message" where
  "write_outcome out m = m\<lparr>m_status := Some (out_status out), m_error := out_error out, m_next_attempt := out_next out,
     m_provider_message := or_else (out_provider out) (m_provider_message m), m_lease := None, m_lease_expires := None\<rparr>"

definition due :: "instant \<Rightarrow> instant option \<Rightarrow> bool" where
  "due now x = (case x of Some y \<Rightarrow> y \<le> now | None \<Rightarrow> False)"
  \<comment> \<open>\<open>{ lte: now }\<close>, which no null satisfies\<close>

text \<open>The last message of the customer in a conversation.\<close>

definition last_inbound :: "uuid \<Rightarrow> uuid \<Rightarrow> db \<Rightarrow> instant option" where
  "last_inbound t cid d = map_option m_source_at (find_sorted (\<lambda>m. (- m_source_at m, - int (m_id m)))
     (\<lambda>m. m_tenant m = t \<and> m_conversation m = cid \<and> m_direction m = INBOUND) (messages d))"

text \<open>The delay after the \<open>attempts\<close>-th attempt.\<close>

definition retry_delays_ms :: "int list" where
  "retry_delays_ms = [5000, 15000, 60000, 5 * 60000]"

definition max_attempts :: nat where
  "max_attempts = 5"

definition retry_delay :: "nat \<Rightarrow> int" where
  "retry_delay attempts = retry_delays_ms ! min (attempts - 1) (length retry_delays_ms - 1)"

section \<open>Instagram\<close>

datatype reply_mode = STANDARD | HUMAN_AGENT | EXPIRED

definition standard_reply_window_ms :: int where
  "standard_reply_window_ms = 24 * 60 * 60 * 1000"

definition human_agent_reply_window_ms :: int where
  "human_agent_reply_window_ms = 7 * 24 * 60 * 60 * 1000"

definition metaInstagramReplyMode :: "instant option \<Rightarrow> instant \<Rightarrow> reply_mode" where
  "metaInstagramReplyMode lastInboundAt now = (case lastInboundAt of
       None \<Rightarrow> EXPIRED
     | Some at' \<Rightarrow> let ageMs = max 0 (now - at')
         in if ageMs \<le> standard_reply_window_ms then STANDARD
            else if ageMs \<le> human_agent_reply_window_ms then HUMAN_AGENT else EXPIRED)"

text \<open>\<open>MetaInstagramError\<close> with its HTTP status and the code of the provider, or another
  exception.\<close>

datatype meta_failure = MetaError "int option" "int option" | OtherError

text \<open>Account, recipient, text, token, and whether a human agent writes; the result is the
  identifier of the message.\<close>

type_synonym instagram_client = "string \<Rightarrow> string \<Rightarrow> string \<Rightarrow> string \<Rightarrow> bool \<Rightarrow> meta_failure + string"

definition ig_claimable :: "uuid \<times> uuid \<Rightarrow> instant \<Rightarrow> message \<Rightarrow> bool" where
  "ig_claimable job now m \<longleftrightarrow> (m_tenant m, m_id m) = job \<and> m_channel m = INSTAGRAM \<and> m_direction m = OUTBOUND
     \<and> (m_status m = Some OD_PENDING \<and> due now (m_next_attempt m)
        \<or> m_status m = Some OD_SENDING \<and> due now (m_lease_expires m))
     \<and> (m_lease m = None \<or> due now (m_lease_expires m))"

text \<open>The lease of a message that is being sent.\<close>

definition sending_lease :: "message \<Rightarrow> uuid option" where
  "sending_lease m = (if m_status m = Some OD_SENDING then m_lease m else None)"

definition ig_owned :: "uuid \<times> uuid \<Rightarrow> uuid \<Rightarrow> message \<Rightarrow> bool" where
  "ig_owned job lease m \<longleftrightarrow> (m_tenant m, m_id m) = job \<and> m_status m = Some OD_SENDING \<and> m_lease m = Some lease"

definition ig_claim :: "uuid \<times> uuid \<Rightarrow> uuid \<Rightarrow> instant \<Rightarrow> bool dbtx" where
  "ig_claim job lease now = update_message (ig_claimable job now) (start_sending lease now)"

definition ig_finish :: "uuid \<times> uuid \<Rightarrow> uuid \<Rightarrow> outcome \<Rightarrow> bool dbtx" where
  "ig_finish job lease out = update_message (ig_owned job lease) (write_outcome out)"

definition ig_mark_reconnect :: "uuid \<times> uuid \<Rightarrow> uuid \<Rightarrow> instagram_connection \<Rightarrow> instant \<Rightarrow> unit dbtx" where
  "ig_mark_reconnect job lease c now =
     tx_bind (ig_finish job lease (end_outcome OD_FAILED ''INSTAGRAM_RECONNECT_REQUIRED'')) (\<lambda>_.
     tx_write (\<lambda>d. d\<lparr>instagram_connections := update_where
       (\<lambda>x. ic_id x = ic_id c \<and> ic_tenant x = fst job \<and> ic_generation x = ic_generation c)
       (\<lambda>x. x\<lparr>ic_status := IG_REAUTH_REQUIRED, ic_error := Some ''INSTAGRAM_RECONNECT_REQUIRED'', ic_verified := Some now\<rparr>)
       (instagram_connections d)\<rparr>))"

definition ig_end :: "uuid \<times> uuid \<Rightarrow> uuid \<Rightarrow> outcome \<Rightarrow> delivery_result \<Rightarrow> delivery_result dbservice" where
  "ig_end job lease out res = svc_bind (run_tx (ig_finish job lease out)) (\<lambda>_. svc_return res)"

definition ig_active_connection :: "uuid \<Rightarrow> instant \<Rightarrow> db \<Rightarrow> instagram_connection option" where
  "ig_active_connection t now d = List.find (\<lambda>c. ic_tenant c = t \<and> ic_status c = IG_ACTIVE \<and> ic_token c \<noteq> None
     \<and> (case ic_expires c of Some x \<Rightarrow> now < x | None \<Rightarrow> False)) (instagram_connections d)"

text \<open>The branches of a send that threw.\<close>

definition ig_failed :: "uuid \<times> uuid \<Rightarrow> uuid \<Rightarrow> instant \<Rightarrow> nat \<Rightarrow> reply_mode \<Rightarrow> instagram_connection \<Rightarrow> meta_failure \<Rightarrow> delivery_result dbservice" where
  "ig_failed job lease now attempts mode c failure = (case failure of
       OtherError \<Rightarrow> ig_end job lease (end_outcome OD_UNKNOWN ''INSTAGRAM_DELIVERY_UNKNOWN'') D_UNKNOWN
     | MetaError status code \<Rightarrow>
         if code = Some 190 then svc_bind (run_tx (ig_mark_reconnect job lease c now)) (\<lambda>_. svc_return D_FAILED)
         else if status = Some 429 then
           (if max_attempts \<le> attempts then ig_end job lease (end_outcome OD_FAILED ''INSTAGRAM_RATE_LIMITED'') D_FAILED
            else ig_end job lease (retry_outcome ''INSTAGRAM_RATE_LIMITED'' (now + retry_delay attempts)) D_RETRY)
         else if (case status of None \<Rightarrow> True | Some s \<Rightarrow> 500 \<le> s)
           then ig_end job lease (end_outcome OD_UNKNOWN ''INSTAGRAM_DELIVERY_UNKNOWN'') D_UNKNOWN
         else if mode = HUMAN_AGENT then ig_end job lease (end_outcome OD_FAILED ''INSTAGRAM_HUMAN_AGENT_UNAVAILABLE'') D_FAILED
         else ig_end job lease (end_outcome OD_FAILED ''INSTAGRAM_SEND_FAILED'') D_FAILED)"

text \<open>What an attempt knows when it is about to send: the message, its conversation, the
  last message of the customer, the connection.\<close>

definition ig_read :: "uuid \<times> uuid \<Rightarrow> uuid \<Rightarrow> instant \<Rightarrow> db \<Rightarrow> (message \<times> conversation option \<times> instant option) option \<times> instagram_connection option" where
  "ig_read job lease now d =
     (map_option (\<lambda>m. (m, find_conversation (fst job) (m_conversation m) d, last_inbound (fst job) (m_conversation m) d))
        (List.find (\<lambda>m. (m_tenant m, m_id m) = job \<and> m_lease m = Some lease) (messages d)),
      ig_active_connection (fst job) now d)"

definition ig_send :: "instagram_client \<Rightarrow> (uuid \<Rightarrow> uuid \<Rightarrow> unit dbservice) \<Rightarrow> uuid \<times> uuid \<Rightarrow> uuid \<Rightarrow> instant \<Rightarrow> (db \<Rightarrow> db) \<Rightarrow>
    message \<Rightarrow> conversation option \<Rightarrow> reply_mode \<Rightarrow> instagram_connection \<Rightarrow> string \<Rightarrow> string \<Rightarrow> delivery_result dbservice" where
  "ig_send client on_sent job lease now env m conv mode c txt token = (\<lambda>d.
     case client (ic_account c) (case conv of Some x \<Rightarrow> cv_participant x | None \<Rightarrow> []) txt token (mode = HUMAN_AGENT) of
       Inl failure \<Rightarrow> ig_failed job lease now (m_attempts m) mode c failure (env d)
     | Inr pid \<Rightarrow>
         svc_bind (run_tx (ig_finish job lease (sent_outcome pid))) (\<lambda>updated.
           if \<not> updated then svc_return D_IGNORED
           else svc_bind (on_sent (fst job) (snd job)) (\<lambda>_. svc_return D_SENT)) (env d))"

text \<open>From the message and its text on.\<close>

definition ig_attempt :: "instagram_client \<Rightarrow> (string \<Rightarrow> string option) \<Rightarrow> (uuid \<Rightarrow> uuid \<Rightarrow> unit dbservice) \<Rightarrow>
    uuid \<times> uuid \<Rightarrow> uuid \<Rightarrow> instant \<Rightarrow> (db \<Rightarrow> db) \<Rightarrow> message \<Rightarrow> conversation option \<Rightarrow> instant option \<Rightarrow>
    instagram_connection option \<Rightarrow> string \<Rightarrow> delivery_result dbservice" where
  "ig_attempt client decrypt on_sent job lease now env m conv inbound connection txt = (case connection of
       None \<Rightarrow> ig_end job lease (end_outcome OD_FAILED ''INSTAGRAM_RECONNECT_REQUIRED'') D_FAILED
     | Some c \<Rightarrow> (case non_empty (ic_token c) of
           None \<Rightarrow> ig_end job lease (end_outcome OD_FAILED ''INSTAGRAM_RECONNECT_REQUIRED'') D_FAILED
         | Some encrypted \<Rightarrow>
             let mode = metaInstagramReplyMode inbound now in
             if mode = EXPIRED \<or> mode = HUMAN_AGENT \<and> m_sent_by m = None
             then ig_end job lease (end_outcome OD_FAILED ''INSTAGRAM_REPLY_WINDOW_EXPIRED'') D_FAILED
             else (case decrypt encrypted of
                 None \<Rightarrow> svc_bind (run_tx (ig_mark_reconnect job lease c now)) (\<lambda>_. svc_return D_FAILED)
               | Some token \<Rightarrow> ig_send client on_sent job lease now env m conv mode c txt token)))"

definition process_instagram :: "instagram_client \<Rightarrow> (string \<Rightarrow> string option) \<Rightarrow> (uuid \<Rightarrow> uuid \<Rightarrow> unit dbservice) \<Rightarrow>
    uuid \<times> uuid \<Rightarrow> uuid \<Rightarrow> instant \<Rightarrow> (db \<Rightarrow> db) \<Rightarrow> delivery_result dbservice" where
  "process_instagram client decrypt on_sent job lease now env =
     svc_bind (run_tx (ig_claim job lease now)) (\<lambda>claimed.
       if \<not> claimed then svc_return D_IGNORED
       else svc_bind (run_tx (tx_read (ig_read job lease now))) (\<lambda>(found, connection).
         case found of
           None \<Rightarrow> ig_end job lease (end_outcome OD_FAILED ''INSTAGRAM_SEND_FAILED'') D_FAILED
         | Some (m, conv, inbound) \<Rightarrow> (case m_text m of
               None \<Rightarrow> ig_end job lease (end_outcome OD_FAILED ''INSTAGRAM_SEND_FAILED'') D_FAILED
             | Some txt \<Rightarrow> ig_attempt client decrypt on_sent job lease now env m conv inbound connection txt)))"

section \<open>TikTok\<close>

definition reply_window_ms :: int where
  "reply_window_ms = 48 * 60 * 60000"

definition withinReplyWindow :: "instant option \<Rightarrow> instant \<Rightarrow> bool" where
  "withinReplyWindow lastInboundAt now = (case lastInboundAt of None \<Rightarrow> False | Some at' \<Rightarrow> now - at' \<le> reply_window_ms)"

text \<open>\<open>TikTokBusinessMessagingError\<close> with its status and \<open>retryable\<close>, or another exception.\<close>

datatype tiktok_failure = TikTokError "int option" bool | OtherFailure

type_synonym tiktok_client = "string \<Rightarrow> string \<Rightarrow> string \<Rightarrow> string \<Rightarrow> tiktok_failure + string"
  \<comment> \<open>token, account, conversation, text\<close>

type_synonym token_service = "uuid \<Rightarrow> uuid \<Rightarrow> instant \<Rightarrow> db \<Rightarrow> (tiktok_failure + string) \<times> db"

definition tt_claimable :: "uuid \<times> uuid \<Rightarrow> instant \<Rightarrow> message \<Rightarrow> bool" where
  "tt_claimable job now m \<longleftrightarrow> (m_tenant m, m_id m) = job \<and> m_channel m = TIKTOK \<and> m_direction m = OUTBOUND
     \<and> m_status m = Some OD_PENDING \<and> due now (m_next_attempt m) \<and> m_lease m = None"

definition tt_owned :: "uuid \<times> uuid \<Rightarrow> uuid \<Rightarrow> message \<Rightarrow> bool" where
  "tt_owned job lease m \<longleftrightarrow> (m_tenant m, m_id m) = job \<and> m_channel m = TIKTOK
     \<and> m_status m = Some OD_SENDING \<and> m_lease m = Some lease"

definition tt_claim :: "uuid \<times> uuid \<Rightarrow> uuid \<Rightarrow> instant \<Rightarrow> bool dbtx" where
  "tt_claim job lease now = tx_seq (assertTenantAcceptingMutations (fst job) CONVERSATION_REPLY)
     (update_message (tt_claimable job now) (start_sending lease now))"

definition tt_finish :: "uuid \<times> uuid \<Rightarrow> uuid \<Rightarrow> outcome \<Rightarrow> bool dbtx" where
  "tt_finish job lease out = update_message (tt_owned job lease) (write_outcome out)"

definition tt_fail_pending :: "uuid \<times> uuid \<Rightarrow> bool dbtx" where
  "tt_fail_pending job = update_message
     (\<lambda>m. (m_tenant m, m_id m) = job \<and> m_channel m = TIKTOK \<and> m_direction m = OUTBOUND \<and> m_status m = Some OD_PENDING)
     (write_outcome (end_outcome OD_FAILED ''TIKTOK_SEND_FAILED''))"

definition tt_end :: "uuid \<times> uuid \<Rightarrow> uuid \<Rightarrow> outcome \<Rightarrow> delivery_result \<Rightarrow> delivery_result dbservice" where
  "tt_end job lease out res = svc_bind (run_tx (tt_finish job lease out)) (\<lambda>_. svc_return res)"

definition scheduleSafeRetry :: "uuid \<times> uuid \<Rightarrow> uuid \<Rightarrow> nat \<Rightarrow> instant \<Rightarrow> string \<Rightarrow> delivery_result dbservice" where
  "scheduleSafeRetry job lease attempts now code =
     (if max_attempts \<le> attempts then tt_end job lease (end_outcome OD_FAILED code) D_FAILED
      else tt_end job lease (retry_outcome code (now + retry_delay attempts)) D_RETRY)"

definition tt_mark_reconnect :: "uuid \<times> uuid \<Rightarrow> uuid \<Rightarrow> uuid \<Rightarrow> instant \<Rightarrow> unit dbtx" where
  "tt_mark_reconnect job lease generation now =
     tx_bind (tt_finish job lease (end_outcome OD_FAILED ''TIKTOK_RECONNECT_REQUIRED'')) (\<lambda>_.
     tx_write (\<lambda>d. d\<lparr>tiktok_connections := update_where (\<lambda>x. tk_tenant x = fst job \<and> tk_generation x = Some generation)
       (\<lambda>x. x\<lparr>tk_status := TK_REAUTH_REQUIRED, tk_error := Some ''TIKTOK_RECONNECT_REQUIRED'', tk_verified := Some now,
          tk_refresh_lease := None\<rparr>) (tiktok_connections d)\<rparr>))"

definition tt_connection :: "uuid \<Rightarrow> db \<Rightarrow> tiktok_connection option" where
  "tt_connection t d = List.find (\<lambda>c. tk_tenant c = t) (tiktok_connections d)"

text \<open>What forbids a send over a connection, if anything: the same checks before and after
  the token is fetched.\<close>

definition tt_refusal :: "uuid \<Rightarrow> tiktok_connection option \<Rightarrow> instant option \<Rightarrow> instant \<Rightarrow> string option" where
  "tt_refusal generation connection inbound now = (case connection of
       None \<Rightarrow> Some ''TIKTOK_RECONNECT_REQUIRED''
     | Some c \<Rightarrow>
         if tk_generation c \<noteq> Some generation \<or> \<not> truthy (tk_access c) \<or> \<not> truthy (tk_refresh c) then Some ''TIKTOK_RECONNECT_REQUIRED''
         else if tk_status c = TK_INBOUND_ONLY \<or> \<not> tk_send_text c \<or> \<not> withinReplyWindow inbound now
         then Some ''TIKTOK_REPLY_NOT_PERMITTED''
         else if tk_status c \<noteq> TK_ACTIVE then Some ''TIKTOK_RECONNECT_REQUIRED''
         else None)"

definition tt_failed :: "uuid \<times> uuid \<Rightarrow> uuid \<Rightarrow> instant \<Rightarrow> nat \<Rightarrow> uuid \<Rightarrow> tiktok_failure \<Rightarrow> delivery_result dbservice" where
  "tt_failed job lease now attempts generation failure = (case failure of
       OtherFailure \<Rightarrow> tt_end job lease (end_outcome OD_UNKNOWN ''TIKTOK_DELIVERY_UNKNOWN'') D_UNKNOWN
     | TikTokError status retryable \<Rightarrow>
         if (case status of None \<Rightarrow> True | Some s \<Rightarrow> 500 \<le> s)
           then tt_end job lease (end_outcome OD_UNKNOWN ''TIKTOK_DELIVERY_UNKNOWN'') D_UNKNOWN
         else if status = Some 401 then svc_bind (run_tx (tt_mark_reconnect job lease generation now)) (\<lambda>_. svc_return D_FAILED)
         else if status = Some 403 then tt_end job lease (end_outcome OD_FAILED ''TIKTOK_REPLY_NOT_PERMITTED'') D_FAILED
         else if retryable then scheduleSafeRetry job lease attempts now
             (if status = Some 429 then ''TIKTOK_RATE_LIMITED'' else ''TIKTOK_SEND_FAILED'')
         else tt_end job lease (end_outcome OD_FAILED ''TIKTOK_SEND_FAILED'') D_FAILED)"

definition tt_read :: "uuid \<times> uuid \<Rightarrow> uuid \<Rightarrow> db \<Rightarrow> (message \<times> conversation option \<times> instant option) option \<times> tiktok_connection option" where
  "tt_read job lease d =
     (map_option (\<lambda>m. (m, find_conversation (fst job) (m_conversation m) d, last_inbound (fst job) (m_conversation m) d))
        (List.find (\<lambda>m. (m_tenant m, m_id m) = job \<and> m_lease m = Some lease) (messages d)),
      tt_connection (fst job) d)"

text \<open>The second read, after the token: the inbound time only while the lease is held.\<close>

definition tt_read_again :: "uuid \<times> uuid \<Rightarrow> uuid \<Rightarrow> (tiktok_connection option \<times> instant option) dbtx" where
  "tt_read_again job lease = tx_seq (assertTenantAcceptingMutations (fst job) CONVERSATION_REPLY)
     (tx_read (\<lambda>d. (tt_connection (fst job) d,
        case List.find (tt_owned job lease) (messages d) of
          None \<Rightarrow> None | Some m \<Rightarrow> last_inbound (fst job) (m_conversation m) d)))"

definition tt_send :: "tiktok_client \<Rightarrow> uuid \<times> uuid \<Rightarrow> uuid \<Rightarrow> instant \<Rightarrow> instant \<Rightarrow> (db \<Rightarrow> db) \<Rightarrow> message \<Rightarrow> conversation option \<Rightarrow>
    string \<Rightarrow> uuid \<Rightarrow> string \<Rightarrow> delivery_result dbservice" where
  "tt_send client job lease now now2 env m conv txt generation token = (\<lambda>d.
     case run_tx (tt_read_again job lease) d of
       (Inl e, d') \<Rightarrow> (case e of
           TenantLifecycleFrozen _ \<Rightarrow> tt_end job lease (end_outcome OD_FAILED ''TIKTOK_SEND_FAILED'') D_FROZEN d'
         | _ \<Rightarrow> (Inl e, d'))
     | (Inr (connection, inbound), d') \<Rightarrow>
        (case tt_refusal generation connection inbound now2 of
           Some code \<Rightarrow> tt_end job lease (end_outcome OD_FAILED code) D_FAILED d'
         | None \<Rightarrow>
           (case client token (case connection of Some c \<Rightarrow> tk_account c | None \<Rightarrow> [])
               (case conv of Some x \<Rightarrow> cv_external x | None \<Rightarrow> []) txt of
              Inl failure \<Rightarrow> tt_failed job lease now (m_attempts m) generation failure (env d')
            | Inr pid \<Rightarrow> svc_bind (run_tx (tt_finish job lease ((sent_outcome pid)\<lparr>out_provider := non_empty (Some pid)\<rparr>)))
                (\<lambda>updated. svc_return (if updated then D_SENT else D_IGNORED)) (env d'))))"

text \<open>From the message and its credential on: the checks, the token, the send.\<close>

definition tt_attempt :: "tiktok_client \<Rightarrow> token_service \<Rightarrow> uuid \<times> uuid \<Rightarrow> uuid \<Rightarrow> instant \<Rightarrow> instant \<Rightarrow> (db \<Rightarrow> db) \<Rightarrow>
    message \<Rightarrow> conversation option \<Rightarrow> instant option \<Rightarrow> tiktok_connection option \<Rightarrow> string \<Rightarrow> uuid \<Rightarrow> delivery_result dbservice" where
  "tt_attempt client tokens job lease now now2 env m conv inbound connection txt generation =
     (case tt_refusal generation connection inbound now of
        Some code \<Rightarrow> tt_end job lease (end_outcome OD_FAILED code) D_FAILED
      | None \<Rightarrow> (\<lambda>d. case tokens (fst job) generation now d of
            (Inl failure, d') \<Rightarrow>
              (if (case failure of TikTokError _ retryable \<Rightarrow> retryable | OtherFailure \<Rightarrow> False)
               then scheduleSafeRetry job lease (m_attempts m) now ''TIKTOK_SEND_FAILED'' d'
               else svc_bind (run_tx (tt_mark_reconnect job lease generation now)) (\<lambda>_. svc_return D_FAILED) d')
          | (Inr token, d') \<Rightarrow> tt_send client job lease now now2 env m conv txt generation token d'))"

definition tt_claimed :: "tiktok_client \<Rightarrow> token_service \<Rightarrow> uuid \<times> uuid \<Rightarrow> uuid \<Rightarrow> instant \<Rightarrow> instant \<Rightarrow> (db \<Rightarrow> db) \<Rightarrow> delivery_result dbservice" where
  "tt_claimed client tokens job lease now now2 env =
     svc_bind (run_tx (tx_read (tt_read job lease))) (\<lambda>(found, connection).
       case found of
         None \<Rightarrow> tt_end job lease (end_outcome OD_FAILED ''TIKTOK_SEND_FAILED'') D_FAILED
       | Some (m, conv, inbound) \<Rightarrow> (case (non_empty (m_text m), m_generation m) of
             (Some txt, Some generation) \<Rightarrow> tt_attempt client tokens job lease now now2 env m conv inbound connection txt generation
           | _ \<Rightarrow> tt_end job lease (end_outcome OD_FAILED ''TIKTOK_SEND_FAILED'') D_FAILED))"

definition process_tiktok :: "tiktok_client \<Rightarrow> token_service \<Rightarrow> bool \<Rightarrow> uuid \<times> uuid \<Rightarrow> uuid \<Rightarrow> instant \<Rightarrow> instant \<Rightarrow>
    (db \<Rightarrow> db) \<Rightarrow> delivery_result dbservice" where
  "process_tiktok client tokens enabled job lease now now2 env =
     (if \<not> enabled then svc_return D_DISABLED
      else (\<lambda>d. case run_tx (tt_claim job lease now) d of
          (Inl e, d') \<Rightarrow> (case e of
              TenantLifecycleFrozen _ \<Rightarrow> svc_bind (run_tx (tt_fail_pending job)) (\<lambda>_. svc_return D_FROZEN) d'
            | _ \<Rightarrow> (Inl e, d'))
        | (Inr claimed, d') \<Rightarrow>
            (if claimed then tt_claimed client tokens job lease now now2 env d' else (Inr D_IGNORED, d'))))"

section \<open>Reconcilers\<close>

text \<open>
  Every so often each service asks the database for messages that wait, and puts them
  into its job queue (\<open>queue\<close> says whether \<open>queue.add\<close> succeeds).  The questions are
  functions of the database:
  \<open>packages/database/prisma/migrations/20261004121000_tiktok_outbound_reconciliation\<close>.
\<close>

definition message_key :: "message \<Rightarrow> uuid \<times> uuid" where
  "message_key m = (m_tenant m, m_id m)"

definition sql_limit :: "nat \<Rightarrow> nat" where
  "sql_limit p = min (max p 1) 100"

definition when_or_last :: "instant option \<Rightarrow> bool \<times> instant" where
  "when_or_last x = (case x of None \<Rightarrow> (True, 0) | Some i \<Rightarrow> (False, i))"
  \<comment> \<open>\<open>NULLS LAST\<close>\<close>

definition worker_due_instagram_messages :: "instant \<Rightarrow> nat \<Rightarrow> db \<Rightarrow> (uuid \<times> uuid) list" where
  "worker_due_instagram_messages now limit d = map message_key (take (sql_limit limit)
     (sort_key (\<lambda>m. (when_or_last (m_next_attempt m), m_created m, m_id m))
       (filter (\<lambda>m. m_channel m = INSTAGRAM \<and> m_direction m = OUTBOUND
          \<and> (m_status m = Some OD_PENDING \<and> due now (m_next_attempt m)
             \<or> m_status m = Some OD_SENDING \<and> due now (m_lease_expires m))) (messages d))))"

definition worker_due_tiktok_messages :: "instant \<Rightarrow> nat \<Rightarrow> db \<Rightarrow> (uuid \<times> uuid) list" where
  "worker_due_tiktok_messages now limit d = map message_key (take (sql_limit limit)
     (sort_key (\<lambda>m. (when_or_last (m_next_attempt m), m_created m, m_id m))
       (filter (\<lambda>m. m_channel m = TIKTOK \<and> m_direction m = OUTBOUND \<and> m_status m = Some OD_PENDING
          \<and> due now (m_next_attempt m) \<and> m_lease m = None) (messages d))))"

text \<open>A TikTok message whose worker was lost.\<close>

definition tt_stale :: "instant \<Rightarrow> message \<Rightarrow> bool" where
  "tt_stale now m \<longleftrightarrow> m_channel m = TIKTOK \<and> m_direction m = OUTBOUND \<and> m_status m = Some OD_SENDING
     \<and> due now (m_lease_expires m)"

definition stale_ids :: "instant \<Rightarrow> nat \<Rightarrow> db \<Rightarrow> uuid list" where
  "stale_ids now limit d = map m_id (take (sql_limit limit)
     (sort_key (\<lambda>m. (when_or_last (m_lease_expires m), m_id m)) (filter (tt_stale now) (messages d))))"

definition mark_unknown :: "message \<Rightarrow> message" where
  "mark_unknown m = m\<lparr>m_status := Some OD_UNKNOWN, m_error := Some ''TIKTOK_DELIVERY_UNKNOWN'', m_lease := None,
     m_lease_expires := None, m_next_attempt := None\<rparr>"

definition worker_mark_stale_tiktok_messages_unknown :: "instant \<Rightarrow> nat \<Rightarrow> nat dbtx" where
  "worker_mark_stale_tiktok_messages_unknown now limit = (\<lambda>d.
     let ids = stale_ids now limit d
     in Inr (count_where (\<lambda>m. m_id m \<in> set ids) (messages d),
             d\<lparr>messages := update_where (\<lambda>m. m_id m \<in> set ids) mark_unknown (messages d)\<rparr>))"

record reconciliation =
  rc_attempted :: nat
  rc_queued :: nat
  rc_unknown :: nat

definition reconcile_instagram :: "(uuid \<times> uuid \<Rightarrow> bool) \<Rightarrow> instant \<Rightarrow> (nat \<times> nat) dbservice" where
  "reconcile_instagram queue now = svc_bind (run_tx (tx_read (worker_due_instagram_messages now 50)))
     (\<lambda>jobs. svc_return (length jobs, length (filter queue jobs)))"

definition reconcile_tiktok :: "(uuid \<times> uuid \<Rightarrow> bool) \<Rightarrow> bool \<Rightarrow> instant \<Rightarrow> reconciliation dbservice" where
  "reconcile_tiktok queue enabled now =
     svc_bind (run_tx (worker_mark_stale_tiktok_messages_unknown now 50)) (\<lambda>unknown.
     if \<not> enabled then svc_return \<lparr>rc_attempted = 0, rc_queued = 0, rc_unknown = unknown\<rparr>
     else svc_bind (run_tx (tx_read (worker_due_tiktok_messages now 50))) (\<lambda>jobs.
       svc_return \<lparr>rc_attempted = length jobs, rc_queued = length (filter queue jobs), rc_unknown = unknown\<rparr>))"

section \<open>Both are lease queues\<close>

text \<open>The lease of a TikTok message that is being sent.\<close>

definition tt_lease :: "message \<Rightarrow> uuid option" where
  "tt_lease m = (if m_channel m = TIKTOK then sending_lease m else None)"

interpretation ig: lease_queue message_key ig_claimable sending_lease start_sending write_outcome
  by unfold_locales
    (auto simp: message_key_def ig_claimable_def sending_lease_def start_sending_def write_outcome_def)

interpretation tt: lease_queue message_key tt_claimable tt_lease start_sending write_outcome
  by unfold_locales
    (auto simp: message_key_def tt_claimable_def tt_lease_def sending_lease_def start_sending_def write_outcome_def)

lemma ig_owned: "ig_owned = ig.owned"
  by (auto simp: fun_eq_iff ig_owned_def ig.owned_def message_key_def sending_lease_def)

lemma tt_owned: "tt_owned = tt.owned"
  by (auto simp: fun_eq_iff tt_owned_def tt.owned_def message_key_def sending_lease_def tt_lease_def)

lemma update_message_run:
  "update_message P f d = Inr (count_where P (messages d) = 1, d\<lparr>messages := update_where P f (messages d)\<rparr>)"
  by (simp add: update_message_def update_one_def)

lemma ig_claim_run:
  "ig_claim k l now d = Inr (fst (ig.try_claim k l now (messages d)), d\<lparr>messages := snd (ig.try_claim k l now (messages d))\<rparr>)"
  by (simp add: ig_claim_def update_message_run ig.try_claim_def)

lemma ig_finish_run:
  "ig_finish k l out d = Inr (fst (ig.try_release k l out (messages d)), d\<lparr>messages := snd (ig.try_release k l out (messages d))\<rparr>)"
  by (simp add: ig_finish_def update_message_run ig.try_release_def ig_owned)

lemma tt_finish_run:
  "tt_finish k l out d = Inr (fst (tt.try_release k l out (messages d)), d\<lparr>messages := snd (tt.try_release k l out (messages d))\<rparr>)"
  by (simp add: tt_finish_def update_message_run tt.try_release_def tt_owned)

lemma tt_claim_run:
  "tt_claim k l now d = (if tenant_frozen (fst k) d then Inl (TenantLifecycleFrozen CONVERSATION_REPLY)
     else Inr (fst (tt.try_claim k l now (messages d)), d\<lparr>messages := snd (tt.try_claim k l now (messages d))\<rparr>))"
  by (simp add: tt_claim_def tx_run update_message_run tt.try_claim_def)

end
