(* ===== verification/Messages_Props.thy ===== *)
theory Messages_Props
  imports Messages
begin

text \<open>
  Properties of the delivery of messages: a worker that was overtaken writes nothing,
  what a TikTok message goes through is what an abstract machine of three phases
  allows, so that it is sent again only after a definite refusal, and the bounds of
  retries.
\<close>

section \<open>One message among the rows\<close>

definition message_at :: "uuid \<times> uuid \<Rightarrow> db \<Rightarrow> message option" where
  "message_at k d = List.find (\<lambda>m. message_key m = k) (messages d)"

definition keyed :: "db \<Rightarrow> bool" where
  "keyed d \<longleftrightarrow> distinct (map message_key (messages d))"

lemma message_at_update:
  assumes "\<And>m. message_key (f m) = message_key m"
  shows "message_at k (d\<lparr>messages := update_where P f (messages d)\<rparr>) = map_option (\<lambda>m. if P m then f m else m) (message_at k d)"
  using assms by (simp add: message_at_def find_row_update)

lemma keyed_update:
  assumes "\<And>m. message_key (f m) = message_key m"
  shows "keyed (d\<lparr>messages := update_where P f (messages d)\<rparr>) = keyed d"
  using assms by (simp add: keyed_def map_update_where)

lemma key_writes [simp]:
  "message_key (start_sending l now m) = message_key m"
  "message_key (write_outcome out m) = message_key m"
  "message_key (mark_unknown m) = message_key m"
  by (simp_all add: message_key_def start_sending_def write_outcome_def mark_unknown_def)

lemma message_at_key: "message_at k d = Some m \<Longrightarrow> message_key m = k \<and> m \<in> set (messages d)"
  unfolding message_at_def by (rule find_row)

lemma message_at_unique: "keyed d \<Longrightarrow> m \<in> set (messages d) \<Longrightarrow> message_at (message_key m) d = Some m"
  unfolding message_at_def keyed_def by (rule find_row_unique)

lemma count_one_key:
  "keyed d \<Longrightarrow> (\<And>m. P m \<Longrightarrow> message_key m = k) \<Longrightarrow>
    count_where P (messages d) = (case message_at k d of Some m \<Rightarrow> if P m then 1 else 0 | None \<Rightarrow> 0)"
  unfolding message_at_def keyed_def by (rule count_row)

section \<open>TikTok: the machine\<close>

text \<open>What the database sees of the TikTok workers and of the reconciler: a claim, a
  finish, the refusal of a frozen tenant, the sweep of lost workers.\<close>

datatype tt_event =
  Take "uuid \<times> uuid" uuid instant | End "uuid \<times> uuid" uuid outcome | Refuse "uuid \<times> uuid" | Expire instant nat

fun tt_run :: "tt_event \<Rightarrow> bool dbservice" where
  "tt_run (Take k l now) = run_tx (tt_claim k l now)"
| "tt_run (End k l out) = run_tx (tt_finish k l out)"
| "tt_run (Refuse k) = run_tx (tt_fail_pending k)"
| "tt_run (Expire now n) = svc_bind (run_tx (worker_mark_stale_tiktok_messages_unknown now n)) (\<lambda>_. svc_return True)"

definition tt_runs :: "tt_event list \<Rightarrow> db \<Rightarrow> db" where
  "tt_runs es d = fold (\<lambda>e d. snd (tt_run e d)) es d"

text \<open>No outcome of the code is \<open>SENDING\<close>.\<close>

fun proper :: "tt_event \<Rightarrow> bool" where
  "proper (End k l out) = (out_status out \<noteq> OD_SENDING)"
| "proper e = True"

text \<open>The abstract machine of one message.\<close>

datatype phase = Waiting | Working "uuid option" | Settled

inductive phase_step :: "uuid \<times> uuid \<Rightarrow> tt_event \<Rightarrow> phase \<Rightarrow> phase \<Rightarrow> bool" for k where
  start: "phase_step k (Take k l now) Waiting (Working (Some l))"
| again: "out_status out = OD_PENDING \<Longrightarrow> phase_step k (End k l out) (Working (Some l)) Waiting"
| finish: "out_status out \<noteq> OD_PENDING \<Longrightarrow> phase_step k (End k l out) (Working (Some l)) Settled"
| refuse: "phase_step k (Refuse k) Waiting Settled"
| expire: "phase_step k (Expire now n) (Working x) Settled"
| idle: "phase_step k e p p"

inductive_cases phase_stepE: "phase_step k e p q"
inductive_simps phase_step_Settled: "phase_step k e Settled q"

definition phase_of :: "message \<Rightarrow> phase" where
  "phase_of m = (case m_status m of
       Some OD_PENDING \<Rightarrow> Waiting | Some OD_SENDING \<Rightarrow> Working (m_lease m) | _ \<Rightarrow> Settled)"

definition phase :: "uuid \<times> uuid \<Rightarrow> db \<Rightarrow> phase" where
  "phase k d = (case message_at k d of Some m \<Rightarrow> phase_of m | None \<Rightarrow> Settled)"

text \<open>Every event is an update of the rows that satisfy a condition.\<close>

lemma tt_run_updates:
  "snd (tt_run (Take k l now) d) = (if tenant_frozen (fst k) d then d
     else d\<lparr>messages := update_where (tt_claimable k now) (start_sending l now) (messages d)\<rparr>)"
  "snd (tt_run (End k l out) d) = d\<lparr>messages := update_where (tt_owned k l) (write_outcome out) (messages d)\<rparr>"
  "snd (tt_run (Refuse k) d) = d\<lparr>messages := update_where (\<lambda>m. (m_tenant m, m_id m) = k \<and> m_channel m = TIKTOK
      \<and> m_direction m = OUTBOUND \<and> m_status m = Some OD_PENDING)
      (write_outcome (end_outcome OD_FAILED ''TIKTOK_SEND_FAILED'')) (messages d)\<rparr>"
  "snd (tt_run (Expire now n) d) = d\<lparr>messages := update_where (\<lambda>m. m_id m \<in> set (stale_ids now n d)) mark_unknown (messages d)\<rparr>"
  by (simp_all add: tt_run.simps tt_claim_def tt_finish_def tt_fail_pending_def run_tx_def tx_run update_message_run
      worker_mark_stale_tiktok_messages_unknown_def svc_bind_def svc_return_def Let_def)

declare tt_run.simps [simp del]

text \<open>The primary key of the table.\<close>

definition id_keyed :: "db \<Rightarrow> bool" where
  "id_keyed d \<longleftrightarrow> distinct (map m_id (messages d))"

lemma id_writes [simp]:
  "m_id (start_sending l now m) = m_id m"
  "m_id (write_outcome out m) = m_id m"
  "m_id (mark_unknown m) = m_id m"
  by (simp_all add: start_sending_def write_outcome_def mark_unknown_def)

lemma id_keyed_run: "id_keyed (snd (tt_run e d)) = id_keyed d"
  by (cases e) (simp_all add: tt_run_updates id_keyed_def map_update_where)

lemma keyed_of_id: "id_keyed d \<Longrightarrow> keyed d"
proof -
  assume "id_keyed d"
  then have "distinct (map snd (map message_key (messages d)))" by (simp add: id_keyed_def message_key_def comp_def)
  then show "keyed d" unfolding keyed_def using distinct_map by blast
qed

lemma stale_id:
  assumes "id_keyed d" and "m \<in> set (messages d)" and "m_id m \<in> set (stale_ids now n d)"
  shows "tt_stale now m"
proof -
  from assms(3) obtain m' where m': "m_id m' = m_id m" "m' \<in> set (messages d)" "tt_stale now m'"
    by (auto simp: stale_ids_def dest!: in_set_takeD)
  then have "m' = m" using assms(1,2) by (auto simp: id_keyed_def distinct_map inj_on_def)
  then show ?thesis using m'(3) by simp
qed

lemma phase_update:
  assumes "\<And>m. message_key (f m) = message_key m"
  shows "phase k (d\<lparr>messages := update_where P f (messages d)\<rparr>) =
    (case message_at k d of Some m \<Rightarrow> phase_of (if P m then f m else m) | None \<Rightarrow> Settled)"
  using assms by (simp add: phase_def message_at_update split: option.splits)

lemma phase_of_writes [simp]:
  "phase_of (start_sending l now m) = Working (Some l)"
  "phase_of (mark_unknown m) = Settled"
  "out_status out \<noteq> OD_SENDING \<Longrightarrow> phase_of (write_outcome out m) = (if out_status out = OD_PENDING then Waiting else Settled)"
  by (auto simp: phase_of_def start_sending_def mark_unknown_def write_outcome_def split: outbound_status.splits)

lemma phase_of_guards:
  "tt_claimable k now m \<Longrightarrow> message_key m = k \<and> phase_of m = Waiting"
  "tt_owned k l m \<Longrightarrow> message_key m = k \<and> phase_of m = Working (Some l)"
  "tt_stale now m \<Longrightarrow> \<exists>l. phase_of m = Working l"
  by (auto simp: tt_claimable_def tt_owned_def tt_stale_def phase_of_def message_key_def)

lemma phase_run:
  assumes "id_keyed d" and "proper e"
  shows "phase_step k e (phase k d) (phase k (snd (tt_run e d)))"
proof (cases "message_at k d")
  case None
  then have "phase k (snd (tt_run e d)) = phase k d"
    by (cases e) (simp_all add: tt_run_updates phase_update phase_def message_at_update)
  then show ?thesis by (simp add: idle)
next
  case (Some m)
  note key = message_at_key[OF Some]
  have before: "phase k d = phase_of m" using Some by (simp add: phase_def)
  show ?thesis
  proof (cases e)
    case (Take k' l now)
    show ?thesis
    proof (cases "tenant_frozen (fst k') d \<or> \<not> tt_claimable k' now m")
      case True
      then have "phase k (snd (tt_run e d)) = phase k d"
        using Some by (auto simp: Take tt_run_updates phase_update before)
      then show ?thesis by (simp add: idle)
    next
      case False
      then have "k' = k" "phase_of m = Waiting" using phase_of_guards(1)[of k' now m] key by auto
      moreover have "phase k (snd (tt_run e d)) = Working (Some l)"
        using Some False by (simp add: Take tt_run_updates phase_update)
      ultimately show ?thesis using before Take by (simp add: start)
    qed
  next
    case (End k' l out)
    show ?thesis
    proof (cases "tt_owned k' l m")
      case True
      then have "k' = k" "phase_of m = Working (Some l)" using phase_of_guards(2) key by auto
      moreover have "phase k (snd (tt_run e d)) = (if out_status out = OD_PENDING then Waiting else Settled)"
        using Some True assms(2) by (simp add: End tt_run_updates phase_update)
      ultimately show ?thesis using before End by (simp add: again finish)
    next
      case False
      then have "phase k (snd (tt_run e d)) = phase k d"
        using Some by (simp add: End tt_run_updates phase_update before)
      then show ?thesis by (simp add: idle)
    qed
  next
    case (Refuse k')
    let ?P = "\<lambda>m. (m_tenant m, m_id m) = k' \<and> m_channel m = TIKTOK \<and> m_direction m = OUTBOUND \<and> m_status m = Some OD_PENDING"
    have after: "phase k (snd (tt_run e d)) = (if ?P m then Settled else phase k d)"
      using Some by (simp add: Refuse tt_run_updates phase_update before end_outcome_def)
    show ?thesis
    proof (cases "?P m")
      case True
      then have "k' = k" "phase_of m = Waiting" using key by (auto simp: message_key_def phase_of_def)
      then show ?thesis using after True before Refuse by (simp add: refuse)
    next
      case False
      then have "phase k (snd (tt_run e d)) = phase k d" using after by (simp only: if_False)
      then show ?thesis by (simp add: idle)
    qed
  next
    case (Expire now n)
    have after: "phase k (snd (tt_run e d)) = (if m_id m \<in> set (stale_ids now n d) then Settled else phase k d)"
      using Some by (simp add: Expire tt_run_updates phase_update before)
    show ?thesis
    proof (cases "m_id m \<in> set (stale_ids now n d)")
      case True
      then obtain l where "phase_of m = Working l" using stale_id[OF assms(1)] key phase_of_guards(3) by blast
      then show ?thesis using after True before Expire by (simp add: expire)
    next
      case False
      then show ?thesis using after by (simp add: idle)
    qed
  qed
qed

text \<open>What the abstract machine goes through under a list of events.\<close>

inductive phase_path :: "uuid \<times> uuid \<Rightarrow> phase \<Rightarrow> tt_event list \<Rightarrow> phase \<Rightarrow> bool" for k where
  path_Nil: "phase_path k p [] p"
| path_Cons: "phase_step k e p q \<Longrightarrow> phase_path k q es r \<Longrightarrow> phase_path k p (e # es) r"

lemma tt_runs_simps [simp]: "tt_runs [] d = d" "tt_runs (e # es) d = tt_runs es (snd (tt_run e d))"
  by (simp_all add: tt_runs_def)

lemma tt_run_results:
  assumes "id_keyed d"
  shows "fst (tt_run (Take k l now) d) = (if tenant_frozen (fst k) d then Inl (TenantLifecycleFrozen CONVERSATION_REPLY)
           else Inr (case message_at k d of Some m \<Rightarrow> tt_claimable k now m | None \<Rightarrow> False))" (is ?take)
    and "fst (tt_run (End k l out) d) = Inr (case message_at k d of Some m \<Rightarrow> tt_owned k l m | None \<Rightarrow> False)" (is ?ended)
proof -
  have "tt_claimable k now m \<Longrightarrow> message_key m = k" "tt_owned k l m \<Longrightarrow> message_key m = k" for m
    using phase_of_guards by blast+
  note counts = this[THEN count_one_key[OF keyed_of_id[OF assms]]]
  show ?take
    by (simp add: tt_run.simps tt_claim_def run_tx_def tx_run update_message_run counts(1) split: option.splits)
  show ?ended
    by (simp add: tt_run.simps tt_finish_def run_tx_def update_message_run counts(2) split: option.splits)
qed

fun is_take :: "uuid \<times> uuid \<Rightarrow> tt_event \<Rightarrow> bool" where
  "is_take k (Take k' l now) = (k' = k)"
| "is_take k e = False"

fun is_again :: "uuid \<times> uuid \<Rightarrow> tt_event \<Rightarrow> bool" where
  "is_again k (End k' l out) = (k' = k \<and> out_status out = OD_PENDING)"
| "is_again k e = False"

text \<open>How often the events of a list that satisfy \<open>P\<close> succeed.\<close>

fun successes :: "(tt_event \<Rightarrow> bool) \<Rightarrow> tt_event list \<Rightarrow> db \<Rightarrow> nat" where
  "successes P [] d = 0"
| "successes P (e # es) d = (if P e \<and> fst (tt_run e d) = Inr True then 1 else 0) + successes P es (snd (tt_run e d))"

definition waits :: "phase \<Rightarrow> nat" where
  "waits p = (if p = Waiting then 1 else 0)"

lemma take_succeeds:
  assumes "id_keyed d" and "is_take k e" and "fst (tt_run e d) = Inr True"
  shows "phase k d = Waiting \<and> phase k (snd (tt_run e d)) \<noteq> Waiting"
proof (cases e)
  case (Take k' l now)
  then have k: "k' = k" using assms(2) by simp
  then obtain m where m: "message_at k d = Some m" "tt_claimable k now m" "\<not> tenant_frozen (fst k) d"
    using assms(3) unfolding Take tt_run_results[OF assms(1)] by (auto split: if_splits option.splits)
  have "phase k d = Waiting" using m phase_of_guards(1) by (simp add: phase_def)
  moreover have "phase k (snd (tt_run e d)) = Working (Some l)"
    unfolding Take k tt_run_updates using m by (simp add: phase_update)
  ultimately show ?thesis by simp
qed (use assms(2) in auto)

lemma again_succeeds:
  assumes "id_keyed d" and "proper e" and "phase k (snd (tt_run e d)) = Waiting" and "phase k d \<noteq> Waiting"
  shows "is_again k e \<and> fst (tt_run e d) = Inr True"
proof -
  obtain l out where e: "e = End k l out" and out: "out_status out = OD_PENDING"
    using phase_run[OF assms(1,2), of k] assms(3,4) by (auto elim: phase_stepE)
  have "message_at k d \<noteq> None" using assms(3) unfolding e tt_run_updates by (auto simp: phase_update split: option.splits)
  then obtain m where m: "message_at k d = Some m" by blast
  have "tt_owned k l m"
    using assms(3,4) m unfolding e tt_run_updates phase_update[OF key_writes(2)] by (auto simp: phase_def[of k d] split: if_splits)
  then show ?thesis unfolding e tt_run_results[OF assms(1)] by (simp add: m out)
qed

lemma waits_step:
  assumes "id_keyed d" and "proper e"
  shows "(if is_take k e \<and> fst (tt_run e d) = Inr True then 1 else 0) + waits (phase k (snd (tt_run e d)))
    \<le> (if is_again k e \<and> fst (tt_run e d) = Inr True then 1 else 0) + waits (phase k d)"
proof (cases "phase k (snd (tt_run e d)) = Waiting")
  case True
  then have no_take: "\<not> (is_take k e \<and> fst (tt_run e d) = Inr True)" using take_succeeds[OF assms(1), of k e] by blast
  show ?thesis
  proof (cases "phase k d = Waiting")
    case False
    then have "is_again k e \<and> fst (tt_run e d) = Inr True" using again_succeeds[OF assms True] by blast
    then show ?thesis using no_take by (simp add: waits_def)
  qed (use no_take in \<open>simp add: waits_def\<close>)
next
  case False
  then show ?thesis using take_succeeds[OF assms(1), of k e] by (auto simp: waits_def)
qed

section \<open>TikTok: one delivery\<close>

text \<open>What a delivery that owns the row \<open>m\<close> writes to it: \<open>Q\<close> of the outcome and the
  result.\<close>

definition ends_with :: "uuid \<times> uuid \<Rightarrow> message \<Rightarrow> (outcome \<Rightarrow> delivery_result \<Rightarrow> bool) \<Rightarrow> delivery_result dbservice \<Rightarrow> bool" where
  "ends_with k m Q s \<longleftrightarrow> (\<forall>d. id_keyed d \<longrightarrow> message_at k d = Some m \<longrightarrow>
     (\<exists>out res d'. s d = (Inr res, d') \<and> message_at k d' = Some (write_outcome out m) \<and> Q out res))"

text \<open>The outcomes of a TikTok delivery after \<open>a\<close> attempts; \<open>firm\<close> says that a retry is
  excluded.\<close>

definition tt_result :: "nat \<Rightarrow> instant \<Rightarrow> bool \<Rightarrow> outcome \<Rightarrow> delivery_result \<Rightarrow> bool" where
  "tt_result a now firm out res \<longleftrightarrow>
     out_status out = OD_PENDING \<and> res = D_RETRY \<and> \<not> firm \<and> a < max_attempts \<and> out_next out = Some (now + retry_delay a)
     \<or> out_status out = OD_SENT \<and> res = D_SENT
     \<or> out_status out = OD_FAILED \<and> res \<in> {D_FAILED, D_FROZEN}
     \<or> out_status out = OD_UNKNOWN \<and> res = D_UNKNOWN"

lemma ends_withI:
  assumes "\<And>d. id_keyed d \<Longrightarrow> message_at k d = Some m \<Longrightarrow>
    \<exists>out res d'. s d = (Inr res, d') \<and> message_at k d' = Some (write_outcome out m) \<and> Q out res"
  shows "ends_with k m Q s"
  using assms by (simp add: ends_with_def)

lemma ends_withD:
  "ends_with k m Q s \<Longrightarrow> id_keyed d \<Longrightarrow> message_at k d = Some m \<Longrightarrow>
    \<exists>out res d'. s d = (Inr res, d') \<and> message_at k d' = Some (write_outcome out m) \<and> Q out res"
  by (simp add: ends_with_def)

lemma tt_finish_owned:
  assumes "id_keyed d" and "message_at k d = Some m" and "tt_owned k lease m"
  shows "run_tx (tt_finish k lease out) d = (Inr True, d\<lparr>messages := update_where (tt_owned k lease) (write_outcome out) (messages d)\<rparr>)"
    and "message_at k (d\<lparr>messages := update_where (tt_owned k lease) (write_outcome out) (messages d)\<rparr>) = Some (write_outcome out m)"
proof -
  have "tt_owned k lease m' \<Longrightarrow> message_key m' = k" for m' using phase_of_guards(2) by blast
  then have "count_where (tt_owned k lease) (messages d) = 1"
    using count_one_key[OF keyed_of_id[OF assms(1)]] assms(2,3) by simp
  then show "run_tx (tt_finish k lease out) d = (Inr True, d\<lparr>messages := update_where (tt_owned k lease) (write_outcome out) (messages d)\<rparr>)"
    by (simp add: tt_finish_def update_message_run)
  show "message_at k (d\<lparr>messages := update_where (tt_owned k lease) (write_outcome out) (messages d)\<rparr>) = Some (write_outcome out m)"
    using assms(2,3) by (simp add: message_at_update)
qed

lemma ends_end:
  assumes "tt_owned k lease m" and "Q out res"
  shows "ends_with k m Q (tt_end k lease out res)"
proof (rule ends_withI)
  fix d assume d: "id_keyed d" "message_at k d = Some m"
  show "\<exists>out' res' d'. tt_end k lease out res d = (Inr res', d') \<and> message_at k d' = Some (write_outcome out' m) \<and> Q out' res'"
    unfolding tt_end_def svc_bind_def svc_return_def tt_finish_owned(1)[OF d assms(1)]
    using tt_finish_owned(2)[OF d assms(1), of out] assms(2) by (intro exI[of _ out] exI[of _ res]) simp
qed

lemma ends_reconnect:
  assumes "tt_owned k lease m" and "Q (end_outcome OD_FAILED ''TIKTOK_RECONNECT_REQUIRED'') D_FAILED"
  shows "ends_with k m Q (svc_bind (run_tx (tt_mark_reconnect k lease g now)) (\<lambda>_. svc_return D_FAILED))"
proof (rule ends_withI)
  fix d assume d: "id_keyed d" "message_at k d = Some m"
  let ?out = "end_outcome OD_FAILED ''TIKTOK_RECONNECT_REQUIRED''"
  let ?d1 = "d\<lparr>messages := update_where (tt_owned k lease) (write_outcome ?out) (messages d)\<rparr>"
  have "tt_finish k lease ?out d = Inr (True, ?d1)" using tt_finish_owned(1)[OF d assms(1), of ?out] by simp
  then obtain cs where run: "run_tx (tt_mark_reconnect k lease g now) d = (Inr (), ?d1\<lparr>tiktok_connections := cs\<rparr>)"
    by (simp add: tt_mark_reconnect_def run_tx_def tx_bind_def tx_write_def)
  have "message_at k (?d1\<lparr>tiktok_connections := cs\<rparr>) = message_at k ?d1" by (simp add: message_at_def)
  then show "\<exists>out res d'. svc_bind (run_tx (tt_mark_reconnect k lease g now)) (\<lambda>_. svc_return D_FAILED) d = (Inr res, d')
      \<and> message_at k d' = Some (write_outcome out m) \<and> Q out res"
    using tt_finish_owned(2)[OF d assms(1), of ?out] assms(2) unfolding svc_bind_def svc_return_def run
    by (intro exI[of _ ?out] exI[of _ D_FAILED]) simp
qed

lemma ends_retry:
  assumes "tt_owned k lease m"
  shows "ends_with k m (tt_result a now False) (scheduleSafeRetry k lease a now code)"
  using assms by (auto intro!: ends_end simp: scheduleSafeRetry_def tt_result_def end_outcome_def retry_outcome_def)

text \<open>A failure that may have reached the customer.\<close>

fun ambiguous :: "tiktok_failure + string \<Rightarrow> bool" where
  "ambiguous (Inr pid) = True"
| "ambiguous (Inl OtherFailure) = True"
| "ambiguous (Inl (TikTokError None r)) = True"
| "ambiguous (Inl (TikTokError (Some st) r)) = (500 \<le> st)"

lemma ends_failed:
  assumes "tt_owned k lease m" and "firm \<Longrightarrow> ambiguous (Inl failure)"
  shows "ends_with k m (tt_result a now firm) (tt_failed k lease now a g failure)"
proof -
  have retry: "ends_with k m (tt_result a now firm) (scheduleSafeRetry k lease a now code)" if "\<not> firm" for code
    using ends_retry[OF assms(1)] that by simp
  have stop: "ends_with k m (tt_result a now firm) (tt_end k lease (end_outcome OD_UNKNOWN code) D_UNKNOWN)"
    "ends_with k m (tt_result a now firm) (tt_end k lease (end_outcome OD_FAILED code) D_FAILED)"
    "ends_with k m (tt_result a now firm) (svc_bind (run_tx (tt_mark_reconnect k lease g now)) (\<lambda>_. svc_return D_FAILED))" for code
    using assms(1) by (auto intro!: ends_end ends_reconnect simp: tt_result_def end_outcome_def)
  show ?thesis
  proof (cases failure)
    case OtherFailure
    then show ?thesis by (simp add: tt_failed_def stop)
  next
    case (TikTokError status r)
    show ?thesis
    proof (cases status)
      case None
      then show ?thesis by (simp add: tt_failed_def TikTokError stop)
    next
      case (Some st)
      show ?thesis
      proof (cases "500 \<le> st")
        case False
        then have "\<not> firm" using assms(2) TikTokError Some by auto
        from retry[OF this] False show ?thesis by (simp add: tt_failed_def TikTokError Some stop)
      qed (simp add: tt_failed_def TikTokError Some stop)
    qed
  qed
qed

text \<open>Others leave the row of this message alone while it is owned.\<close>

definition keeps :: "uuid \<times> uuid \<Rightarrow> (db \<Rightarrow> db) \<Rightarrow> bool" where
  "keeps k f \<longleftrightarrow> (\<forall>d. id_keyed d \<longrightarrow> id_keyed (f d) \<and> message_at k (f d) = message_at k d)"

lemma ends_after:
  assumes "ends_with k m Q s" and "keeps k f"
  shows "ends_with k m Q (\<lambda>d. s (f d))"
  using assms by (simp add: ends_with_def keeps_def)

lemma ends_sent:
  assumes "tt_owned k lease m"
  shows "ends_with k m (tt_result a now firm)
    (svc_bind (run_tx (tt_finish k lease ((sent_outcome pid)\<lparr>out_provider := p\<rparr>))) (\<lambda>updated. svc_return (if updated then D_SENT else D_IGNORED)))"
proof (rule ends_withI)
  fix d assume d: "id_keyed d" "message_at k d = Some m"
  let ?out = "(sent_outcome pid)\<lparr>out_provider := p\<rparr>"
  have "tt_result a now firm ?out D_SENT" by (simp add: tt_result_def sent_outcome_def)
  then show "\<exists>out' res' d'. svc_bind (run_tx (tt_finish k lease ?out)) (\<lambda>updated. svc_return (if updated then D_SENT else D_IGNORED)) d
      = (Inr res', d') \<and> message_at k d' = Some (write_outcome out' m) \<and> tt_result a now firm out' res'"
    unfolding svc_bind_def svc_return_def tt_finish_owned(1)[OF d assms]
    using tt_finish_owned(2)[OF d assms, of ?out] by (intro exI[of _ ?out] exI[of _ D_SENT]) simp
qed

lemma ends_send:
  assumes "tt_owned k lease m0" and "m_attempts m = m_attempts m0" and "keeps k env"
    and "\<And>acc cid. firm \<Longrightarrow> ambiguous (client token acc cid txt)"
  shows "ends_with k m0 (tt_result (m_attempts m0) now firm) (tt_send client k lease now now2 env m conv txt g token)"
proof (rule ends_withI)
  fix d assume d: "id_keyed d" "message_at k d = Some m0"
  let ?Q = "tt_result (m_attempts m0) now firm"
  have fail: "ends_with k m0 ?Q (tt_end k lease (end_outcome OD_FAILED code) D_FAILED)"
    "ends_with k m0 ?Q (tt_end k lease (end_outcome OD_FAILED code) D_FROZEN)" for code
    using assms(1) by (auto intro!: ends_end simp: tt_result_def end_outcome_def)
  show "\<exists>out res d'. tt_send client k lease now now2 env m conv txt g token d = (Inr res, d')
      \<and> message_at k d' = Some (write_outcome out m0) \<and> ?Q out res"
  proof (cases "tenant_frozen (fst k) d")
    case True
    then have frozen: "run_tx (tt_read_again k lease) d = (Inl (TenantLifecycleFrozen CONVERSATION_REPLY), d)"
      by (simp add: tt_read_again_def tx_run)
    show ?thesis using ends_withD[OF fail(2) d] by (simp add: tt_send_def frozen)
  next
    case False
    then obtain c inbound where read: "run_tx (tt_read_again k lease) d = (Inr (c, inbound), d)"
      by (simp add: tt_read_again_def tx_run)
    show ?thesis
    proof (cases "tt_refusal g c inbound now2")
      case (Some code)
      then show ?thesis using ends_withD[OF fail(1) d] by (simp add: tt_send_def read)
    next
      case None
      let ?acc = "case c of Some c \<Rightarrow> tk_account c | None \<Rightarrow> []"
      let ?cid = "case conv of Some x \<Rightarrow> cv_external x | None \<Rightarrow> []"
      have sent: "tt_send client k lease now now2 env m conv txt g token d = (case client token ?acc ?cid txt of
          Inl failure \<Rightarrow> tt_failed k lease now (m_attempts m) g failure (env d)
        | Inr pid \<Rightarrow> svc_bind (run_tx (tt_finish k lease ((sent_outcome pid)\<lparr>out_provider := non_empty (Some pid)\<rparr>)))
            (\<lambda>updated. svc_return (if updated then D_SENT else D_IGNORED)) (env d))"
        by (simp add: tt_send_def read None)
      show ?thesis
      proof (cases "client token ?acc ?cid txt")
        case (Inl failure)
        have "ends_with k m0 ?Q (tt_failed k lease now (m_attempts m) g failure)"
          unfolding assms(2) using assms(1) by (rule ends_failed) (use assms(4)[of ?acc ?cid] Inl in simp)
        then show ?thesis unfolding sent Inl sum.case by (rule ends_withD[OF ends_after[OF _ assms(3)] d])
      next
        case (Inr pid)
        show ?thesis unfolding sent Inr sum.case by (rule ends_withD[OF ends_after[OF ends_sent[OF assms(1)] assms(3)] d])
      qed
    qed
  qed
qed

lemma ends_attempt:
  assumes "tt_owned k lease m" and "keeps k env" and "\<And>t g now. keeps k (\<lambda>d. snd (tokens t g now d))"
    and "\<And>t g now d e. firm \<Longrightarrow> fst (tokens t g now d) = Inl e \<Longrightarrow> ambiguous (Inl e) \<and> (\<forall>st r. e = TikTokError st r \<longrightarrow> \<not> r)"
    and "\<And>token acc cid txt. firm \<Longrightarrow> ambiguous (client token acc cid txt)"
  shows "ends_with k m (tt_result (m_attempts m) now firm) (tt_attempt client tokens k lease now now2 env m conv inbound c txt g)"
proof (cases "tt_refusal g c inbound now")
  case (Some code)
  then show ?thesis using assms(1) by (auto intro!: ends_end simp: tt_attempt_def tt_result_def end_outcome_def)
next
  case None
  let ?Q = "tt_result (m_attempts m) now firm"
  show ?thesis
  proof (rule ends_withI)
    fix d assume d: "id_keyed d" "message_at k d = Some m"
    obtain r d' where tok: "tokens (fst k) g now d = (r, d')" by (cases "tokens (fst k) g now d")
    have d': "id_keyed d'" "message_at k d' = Some m" using assms(3)[of "fst k" g now] d tok by (auto simp: keeps_def)
    show "\<exists>out res d'. tt_attempt client tokens k lease now now2 env m conv inbound c txt g d = (Inr res, d')
        \<and> message_at k d' = Some (write_outcome out m) \<and> ?Q out res"
    proof (cases r)
      case (Inr token)
      show ?thesis
        using ends_withD[OF ends_send[OF assms(1) refl assms(2), of firm client token "txt" now now2 conv g] d'] assms(5)
        by (simp add: tt_attempt_def None tok Inr)
    next
      case (Inl e)
      let ?retryable = "case e of TikTokError _ r \<Rightarrow> r | OtherFailure \<Rightarrow> False"
      have "ends_with k m ?Q (svc_bind (run_tx (tt_mark_reconnect k lease g now)) (\<lambda>_. svc_return D_FAILED))"
        using assms(1) by (rule ends_reconnect) (simp add: tt_result_def end_outcome_def)
      moreover have "ends_with k m ?Q (scheduleSafeRetry k lease (m_attempts m) now code)" if ?retryable for code
      proof -
        have "\<not> firm" using assms(4)[of "fst k" g now d e] that tok Inl by (auto split: tiktok_failure.splits)
        then show ?thesis using ends_retry[OF assms(1)] by simp
      qed
      ultimately show ?thesis by (cases ?retryable) (simp_all add: tt_attempt_def None tok Inl ends_withD[OF _ d'])
    qed
  qed
qed

lemma tt_read_owned:
  assumes "id_keyed d" and "message_at k d = Some m" and "tt_owned k lease m"
  shows "tt_read k lease d = (Some (m, find_conversation (fst k) (m_conversation m) d, last_inbound (fst k) (m_conversation m) d),
    tt_connection (fst k) d)"
proof -
  let ?P = "\<lambda>m. (m_tenant m, m_id m) = k \<and> m_lease m = Some lease"
  have m: "?P m" "m \<in> set (messages d)" using assms(3) message_at_key[OF assms(2)] by (auto simp: tt_owned_def)
  then obtain m' where m': "List.find ?P (messages d) = Some m'" using find_None_iff[of ?P "messages d"] by fastforce
  have "message_key m' = k" "m' \<in> set (messages d)"
    using find_some_prop[OF m'] find_some_set[OF m'] by (auto simp: message_key_def)
  then have "m' = m" using message_at_unique[OF keyed_of_id[OF assms(1)], of m'] assms(2) by simp
  then show ?thesis using m' by (simp add: tt_read_def)
qed

lemma ends_claimed:
  assumes "tt_owned k lease m" and "keeps k env" and "\<And>t g now. keeps k (\<lambda>d. snd (tokens t g now d))"
    and "\<And>t g now d e. firm \<Longrightarrow> fst (tokens t g now d) = Inl e \<Longrightarrow> ambiguous (Inl e) \<and> (\<forall>st r. e = TikTokError st r \<longrightarrow> \<not> r)"
    and "\<And>token acc cid txt. firm \<Longrightarrow> ambiguous (client token acc cid txt)"
  shows "ends_with k m (tt_result (m_attempts m) now firm) (tt_claimed client tokens k lease now now2 env)"
proof (rule ends_withI)
  fix d assume d: "id_keyed d" "message_at k d = Some m"
  let ?Q = "tt_result (m_attempts m) now firm"
  have fail: "ends_with k m ?Q (tt_end k lease (end_outcome OD_FAILED code) D_FAILED)" for code
    using assms(1) by (auto intro!: ends_end simp: tt_result_def end_outcome_def)
  have read: "run_tx (tx_read (tt_read k lease)) d = (Inr (Some (m, find_conversation (fst k) (m_conversation m) d,
      last_inbound (fst k) (m_conversation m) d), tt_connection (fst k) d), d)"
    using tt_read_owned[OF d assms(1)] by simp
  have *: "tt_claimed client tokens k lease now now2 env d = (case (non_empty (m_text m), m_generation m) of
      (Some txt, Some g) \<Rightarrow> tt_attempt client tokens k lease now now2 env m (find_conversation (fst k) (m_conversation m) d)
          (last_inbound (fst k) (m_conversation m) d) (tt_connection (fst k) d) txt g
    | _ \<Rightarrow> tt_end k lease (end_outcome OD_FAILED ''TIKTOK_SEND_FAILED'') D_FAILED) d"
    unfolding tt_claimed_def svc_bind_def read by simp
  show "\<exists>out res d'. tt_claimed client tokens k lease now now2 env d = (Inr res, d')
      \<and> message_at k d' = Some (write_outcome out m) \<and> ?Q out res"
    unfolding *
    using ends_withD[OF fail d] ends_withD[OF ends_attempt[OF assms] d] by (auto split: option.splits)
qed

lemma retry_delay_bounds: "5000 \<le> retry_delay a \<and> retry_delay a \<le> 300000"
proof -
  have "min (a - 1) 3 \<in> {0, 1, 2, 3::nat}" by auto
  then show ?thesis by (auto simp: retry_delay_def retry_delays_ms_def numeral_3_eq_3)
qed

text \<open>A delivery of a message that is due writes one of the outcomes to it.\<close>

lemma process_tiktok_ends:
  assumes "id_keyed d" and "message_at k d = Some m" and "tt_claimable k now m" and "\<not> tenant_frozen (fst k) d"
    and "keeps k env" and "\<And>t g now. keeps k (\<lambda>d. snd (tokens t g now d))"
    and "\<And>t g now d e. firm \<Longrightarrow> fst (tokens t g now d) = Inl e \<Longrightarrow> ambiguous (Inl e) \<and> (\<forall>st r. e = TikTokError st r \<longrightarrow> \<not> r)"
    and "\<And>token acc cid txt. firm \<Longrightarrow> ambiguous (client token acc cid txt)"
  shows "\<exists>out res d'. process_tiktok client tokens True k lease now now2 env d = (Inr res, d')
    \<and> message_at k d' = Some (write_outcome out (start_sending lease now m)) \<and> tt_result (m_attempts m + 1) now firm out res"
proof -
  let ?m = "start_sending lease now m"
  let ?d = "snd (tt_run (Take k lease now) d)"
  have claim: "run_tx (tt_claim k lease now) d = (Inr True, ?d)"
    using tt_run_results(1)[OF assms(1), of k lease now] assms(2,3,4) unfolding tt_run.simps
    by (intro prod_eqI) simp_all
  have run: "process_tiktok client tokens True k lease now now2 env d = tt_claimed client tokens k lease now now2 env ?d"
    by (simp add: process_tiktok_def claim)
  have at1: "message_at k ?d = Some ?m"
    using assms(2,3,4) by (simp add: tt_run_updates message_at_update)
  have own: "tt_owned k lease ?m"
    using assms(3) by (simp add: tt_owned_def tt_claimable_def start_sending_def)
  have id1: "id_keyed ?d" using assms(1) by (simp add: id_keyed_run)
  have a: "m_attempts ?m = m_attempts m + 1" by (simp add: start_sending_def)
  show ?thesis
    unfolding run a[symmetric] by (rule ends_withD[OF ends_claimed[OF own assms(5,6,7,8)] id1 at1])
qed

section \<open>A sample\<close>

definition message_sample :: "uuid \<Rightarrow> social_channel \<Rightarrow> direction \<Rightarrow> outbound_status option \<Rightarrow> uuid option \<Rightarrow> message" where
  "message_sample i ch dir st lease = \<lparr>m_id = i, m_tenant = 7, m_conversation = 60, m_channel = ch, m_direction = dir,
     m_text = Some ''Hello'', m_source_at = 5, m_sent_by = Some 3, m_provider_message = None, m_status = st, m_attempts = 0,
     m_lease = lease, m_lease_expires = map_option (\<lambda>_. 900) lease, m_next_attempt = (if st = Some OD_PENDING then Some 100 else None),
     m_last_attempt = None, m_error = None, m_generation = Some 4, m_created = 5,
     m_event = None, m_external = ''e'', m_sender = ''s'', m_client_key = Some 1\<rparr>"

definition chat_db :: db where
  "chat_db = empty_db\<lparr>messages := [message_sample 70 TIKTOK OUTBOUND (Some OD_PENDING) None,
       message_sample 71 INSTAGRAM OUTBOUND (Some OD_SENDING) (Some 8), message_sample 72 TIKTOK INBOUND None None],
     tiktok_connections := [\<lparr>tk_tenant = 7, tk_account = ''shop'', tk_status = TK_ACTIVE, tk_send_text = True,
       tk_access = Some ''a'', tk_refresh = Some ''r'', tk_refresh_expires = None, tk_generation = Some 4, tk_verified = None, tk_error = None, tk_refresh_lease = None\<rparr>]\<rparr>"

lemmas chat_simps = chat_db_def message_sample_def empty_db_def

lemma chat_db_facts:
  "id_keyed chat_db" "keyed chat_db" "message_at (7, 70) chat_db = Some (message_sample 70 TIKTOK OUTBOUND (Some OD_PENDING) None)"
  "message_at (7, 71) chat_db = Some (message_sample 71 INSTAGRAM OUTBOUND (Some OD_SENDING) (Some 8))"
  "tt_claimable (7, 70) 1000 (message_sample 70 TIKTOK OUTBOUND (Some OD_PENDING) None)" "\<not> tenant_frozen 7 chat_db"
  by (simp_all add: id_keyed_def keyed_def message_at_def message_key_def tt_claimable_def due_def tenant_frozen_def chat_simps)

lemma keeps_id: "keeps k (\<lambda>d. d)"
  by (simp add: keeps_def)

section \<open>TikTok: properties\<close>

text \<open>C9.
  Whatever the workers and the reconciler do to TikTok messages, in any order, every
  message moves as the abstract machine of three phases allows: only its own key moves
  it, a message that is being sent leaves that phase only by a finish under its own
  lease or by the sweep, the sweep settles it, and a settled message stays settled.\<close>

theorem tiktok_refines:
  assumes "id_keyed d" and "\<forall>e\<in>set es. proper e"
  shows "phase_path k (phase k d) es (phase k (tt_runs es d))"
  using assms
proof (induction es arbitrary: d)
  case (Cons e es)
  then have "phase_step k e (phase k d) (phase k (snd (tt_run e d)))" by (intro phase_run) auto
  moreover have "phase_path k (phase k (snd (tt_run e d))) es (phase k (tt_runs es (snd (tt_run e d))))"
    using Cons by (intro Cons.IH) (auto simp: id_keyed_run)
  ultimately show ?case by (auto intro: path_Cons)
qed (simp add: path_Nil)

theorem tiktok_refines_witness:
  "phase_path (7, 70) (phase (7, 70) chat_db) [Take (7, 70) 1 1000, Expire 99000 50]
     (phase (7, 70) (tt_runs [Take (7, 70) 1 1000, Expire 99000 50] chat_db))"
  by (rule tiktok_refines) (simp_all add: chat_db_facts)



text \<open>C11.
  A delivery of a TikTok message that is due ends: the message has been sent, has
  failed, is unknown, or waits again, and only for at most five attempts, with a delay of
  five seconds up to five minutes.\<close>

theorem tiktok_delivery_bounds:
  assumes "id_keyed d" and "message_at k d = Some m" and "tt_claimable k now m" and "\<not> tenant_frozen (fst k) d"
    and "keeps k env" and "\<And>t g now. keeps k (\<lambda>d. snd (tokens t g now d))"
  shows "\<exists>res d' m'. process_tiktok client tokens True k lease now now2 env d = (Inr res, d') \<and> message_at k d' = Some m'
    \<and> m_attempts m' = m_attempts m + 1 \<and> m_lease m' = None
    \<and> (m_status m', res) \<in> {(Some OD_SENT, D_SENT), (Some OD_FAILED, D_FAILED), (Some OD_FAILED, D_FROZEN),
        (Some OD_UNKNOWN, D_UNKNOWN), (Some OD_PENDING, D_RETRY)}
    \<and> (res = D_RETRY \<longrightarrow> m_attempts m' < 5 \<and> (\<exists>delay. m_next_attempt m' = Some (now + delay) \<and> 5000 \<le> delay \<and> delay \<le> 300000))"
proof -
  obtain out res d' where run: "process_tiktok client tokens True k lease now now2 env d = (Inr res, d')"
    "message_at k d' = Some (write_outcome out (start_sending lease now m))" "tt_result (m_attempts m + 1) now False out res"
    using process_tiktok_ends[where firm = False and tokens = tokens and client = client and lease = lease and ?now2.0 = now2, OF assms(1-6)] by blast
  show ?thesis
    using run(1,2) by (rule_tac exI, rule_tac exI, rule_tac exI, intro conjI)
      (use run(3) retry_delay_bounds in \<open>auto simp: tt_result_def write_outcome_def start_sending_def max_attempts_def\<close>)
qed

theorem tiktok_delivery_bounds_witness:
  "\<exists>res d' m'. process_tiktok (\<lambda>_ _ _ _. Inl (TikTokError (Some 429) True)) (\<lambda>_ _ _ d. (Inr ''token'', d)) True (7, 70) 1 1000 1001 (\<lambda>d. d) chat_db
      = (Inr res, d') \<and> message_at (7, 70) d' = Some m' \<and> m_attempts m' = 1"
  using tiktok_delivery_bounds[OF chat_db_facts(1,3,5) _ keeps_id, of "\<lambda>_ _ _ d. (Inr ''token'', d)" "\<lambda>_ _ _ _. Inl (TikTokError (Some 429) True)" 1 1001]
  by (auto simp: chat_db_facts keeps_id message_sample_def)

text \<open>When every answer of the provider is a success or one that may have reached the
  customer, a delivery settles the message, so that it is never handed over
  again.\<close>

theorem tiktok_ambiguous_settles:
  assumes "id_keyed d" and "message_at k d = Some m" and "tt_claimable k now m" and "\<not> tenant_frozen (fst k) d"
    and "keeps k env" and "\<And>t g now. keeps k (\<lambda>d. snd (tokens t g now d))"
    and "\<And>t g now d. \<exists>token. fst (tokens t g now d) = Inr token"
    and "\<And>token acc cid txt. ambiguous (client token acc cid txt)"
  shows "phase k (snd (process_tiktok client tokens True k lease now now2 env d)) = Settled"
proof -
  have no_failure: "ambiguous (Inl e) \<and> (\<forall>st r. e = TikTokError st r \<longrightarrow> \<not> r)" if "fst (tokens t g now d) = Inl e" for t g now d e
    using assms(7)[of t g now d] that by auto
  have "\<exists>out res d'. process_tiktok client tokens True k lease now now2 env d = (Inr res, d')
    \<and> message_at k d' = Some (write_outcome out (start_sending lease now m)) \<and> tt_result (m_attempts m + 1) now True out res"
    by (rule process_tiktok_ends[OF assms(1-6)]) (use no_failure assms(8) in blast)+
  then obtain out res d' where run: "process_tiktok client tokens True k lease now now2 env d = (Inr res, d')"
    "message_at k d' = Some (write_outcome out (start_sending lease now m))" "tt_result (m_attempts m + 1) now True out res"
    by blast
  have "out_status out \<notin> {OD_PENDING, OD_SENDING}" using run(3) by (auto simp: tt_result_def)
  then show ?thesis using run(1,2) by (simp add: phase_def)
qed

theorem tiktok_ambiguous_settles_witness:
  "phase (7, 70) (snd (process_tiktok (\<lambda>_ _ _ _. Inl OtherFailure) (\<lambda>_ _ _ d. (Inr ''token'', d)) True (7, 70) 1 1000 1001 (\<lambda>d. d) chat_db)) = Settled"
  by (rule tiktok_ambiguous_settles[OF chat_db_facts(1,3,5)]) (simp_all add: chat_db_facts keeps_id)

section \<open>Instagram: properties\<close>

text \<open>Any interleaving of what workers write to the queue of Instagram messages: claims at
  any time under any lease, finishes with any outcome.\<close>

fun ig_event :: "(uuid \<times> uuid, outcome) lease_event \<Rightarrow> bool dbservice" where
  "ig_event (Claim k l now) = run_tx (ig_claim k l now)"
| "ig_event (Finish k l out) = run_tx (ig_finish k l out)"

fun ig_history :: "(uuid \<times> uuid, outcome) lease_event list \<Rightarrow> db \<Rightarrow> ((uuid \<times> uuid, outcome) lease_event \<times> bool) list \<times> db" where
  "ig_history [] d = ([], d)"
| "ig_history (e # es) d = (let (r, d') = ig_event e d; (hist, d'') = ig_history es d' in ((e, r = Inr True) # hist, d''))"

declare ig_event.simps [simp del]

lemma ig_history_play:
  "fst (ig_history es d) = fst (ig.play es (messages d)) \<and> messages (snd (ig_history es d)) = snd (ig.play es (messages d))"
proof (induction es arbitrary: d)
  case (Cons e es)
  show ?case
  proof (cases e)
    case (Claim k l now)
    let ?r = "ig.try_claim k l now (messages d)"
    have ev: "ig_event (Claim k l now) d = (Inr (fst ?r), d\<lparr>messages := snd ?r\<rparr>)" by (simp add: ig_event.simps ig_claim_run)
    then show ?thesis using Cons.IH[of "d\<lparr>messages := snd ?r\<rparr>"]
      unfolding Claim ig.play_Claim by (cases "ig_history es (d\<lparr>messages := snd ?r\<rparr>)") (simp add: ev)
  next
    case (Finish k l out)
    let ?r = "ig.try_release k l out (messages d)"
    have ev: "ig_event (Finish k l out) d = (Inr (fst ?r), d\<lparr>messages := snd ?r\<rparr>)" by (simp add: ig_event.simps ig_finish_run)
    then show ?thesis using Cons.IH[of "d\<lparr>messages := snd ?r\<rparr>"]
      unfolding Finish ig.play_Finish by (cases "ig_history es (d\<lparr>messages := snd ?r\<rparr>)") (simp add: ev)
  qed
qed simp

text \<open>Under any interleaving of workers an Instagram message is finished at most as often as
  it has been claimed (and once more if it was being sent at the beginning).\<close>

theorem instagram_finishes_claimed:
  assumes "keyed d" and "ig_history es d = (hist, d')"
  shows "count_where (\<lambda>(e, ok). ok \<and> \<not> is_claim e \<and> event_key_of e = k) hist
    \<le> count_where (\<lambda>(e, ok). ok \<and> is_claim e \<and> event_key_of e = k) hist
      + (if \<exists>m\<in>set (messages d). message_key m = k \<and> sending_lease m \<noteq> None then 1 else 0)"
proof -
  have "hist = fst (ig.play es (messages d))" using ig_history_play[of es d] assms(2) by simp
  moreover have "ig.busy k (messages d) = (if \<exists>m\<in>set (messages d). message_key m = k \<and> sending_lease m \<noteq> None then 1 else 0)"
    unfolding ig.busy_def ig.owner_def ig.owned_def by (auto simp del: not_None_eq simp flip: not_Some_eq)
  ultimately show ?thesis
    using ig.play_balance[OF assms(1)[unfolded keyed_def], of k es] by (simp add: ig.claims_def ig.finishes_def)
qed

theorem instagram_finishes_claimed_witness:
  "count_where (\<lambda>(e, ok). ok \<and> \<not> is_claim e \<and> event_key_of e = (7, 71))
     (fst (ig_history [Claim (7, 71) 9 1000, Finish (7, 71) 8 (sent_outcome ''x''), Finish (7, 71) 9 (sent_outcome ''y'')] chat_db)) \<le>
   count_where (\<lambda>(e, ok). ok \<and> is_claim e \<and> event_key_of e = (7, 71))
     (fst (ig_history [Claim (7, 71) 9 1000, Finish (7, 71) 8 (sent_outcome ''x''), Finish (7, 71) 9 (sent_outcome ''y'')] chat_db)) + 1"
  using instagram_finishes_claimed[OF chat_db_facts(2) prod.collapse[symmetric],
      where es = "[Claim (7, 71) 9 1000, Finish (7, 71) 8 (sent_outcome ''x''), Finish (7, 71) 9 (sent_outcome ''y'')]" and k = "(7, 71)"]
  by (rule order_trans) simp

text \<open>A worker that has waited for the provider while another one has claimed the message
  writes nothing to any message and starts no order, whatever the provider answers.\<close>

theorem instagram_overtaken:
  assumes "env d = snd (run_tx (ig_claim k other now') d0)" and "fst (run_tx (ig_claim k other now') d0) = Inr True"
    and "keyed d0" and "lease \<noteq> other"
  shows "messages (snd (ig_send client on_sent k lease now env m conv mode c txt token d)) = messages (env d)
    \<and> fst (ig_send client on_sent k lease now env m conv mode c txt token d) \<noteq> Inr D_SENT"
proof -
  have d0: "distinct (map message_key (messages d0))" using assms(3) by (simp add: keyed_def)
  have e: "env d = d0\<lparr>messages := snd (ig.try_claim k other now' (messages d0))\<rparr>" and ok: "fst (ig.try_claim k other now' (messages d0))"
    using assms(1,2) by (simp_all add: ig_claim_run run_tx_def)
  let ?rows = "messages (env d)"
  have rows: "?rows = snd (ig.try_claim k other now' (messages d0))" by (simp add: e)
  have refused: "\<not> fst (ig.try_release k lease out ?rows)" for out
    unfolding rows using ig.claim_evicts[OF d0 ok assms(4)] by blast
  have "distinct (map message_key ?rows)" using d0 by (simp add: rows ig.keys_claim)
  then have same: "snd (ig.try_release k lease out ?rows) = ?rows" for out
    using ig.release_refused refused by blast
  have fin: "run_tx (ig_finish k lease out) (env d) = (Inr False, env d)" for out
    using refused[of out] by (simp add: ig_finish_run same)
  obtain d2 where rec: "run_tx (ig_mark_reconnect k lease c now) (env d) = (Inr (), d2)" "messages d2 = ?rows"
    by (simp add: ig_mark_reconnect_def run_tx_def tx_bind_def tx_write_def ig_finish_run same)
  show ?thesis
  proof (cases "client (ic_account c) (case conv of Some x \<Rightarrow> cv_participant x | None \<Rightarrow> []) txt token (mode = HUMAN_AGENT)")
    case (Inr pid)
    then show ?thesis by (simp add: ig_send_def svc_bind_def svc_return_def fin)
  next
    case (Inl failure)
    then show ?thesis
      by (cases failure) (simp_all add: ig_send_def ig_failed_def ig_end_def svc_bind_def svc_return_def fin rec)
  qed
qed

theorem instagram_overtaken_witness:
  "messages (snd (ig_send (\<lambda>_ _ _ _ _. Inr ''id'') (\<lambda>_ _. svc_return ()) (7, 71) 8 950 (\<lambda>_. snd (run_tx (ig_claim (7, 71) 9 1000) chat_db))
      (message_sample 71 INSTAGRAM OUTBOUND (Some OD_SENDING) (Some 8)) None STANDARD
      \<lparr>ic_id = 1, ic_tenant = 7, ic_account = ''shop'', ic_status = IG_ACTIVE, ic_token = Some ''t'', ic_generation = None,
        ic_expires = None, ic_verified = None, ic_error = None\<rparr> ''Hello'' ''token'' chat_db))
   = messages (snd (run_tx (ig_claim (7, 71) 9 1000) chat_db))"
proof -
  have "fst (run_tx (ig_claim (7, 71) 9 1000) chat_db) = Inr True"
    by (simp add: ig_claim_def update_message_run run_tx_def ig_claimable_def due_def chat_simps)
  from instagram_overtaken[where env = "\<lambda>_. snd (run_tx (ig_claim (7, 71) 9 1000) chat_db)", OF refl this chat_db_facts(2)]
  show ?thesis by simp
qed

text \<open>A message whose worker was lost while it sent is handed to the provider once more on
  Instagram, as soon as the lease has run out, but never on TikTok.\<close>

theorem expired_lease:
  assumes "id_keyed d" and "message_at k d = Some m" and "m_direction m = OUTBOUND"
    and "m_status m = Some OD_SENDING" and "m_lease_expires m = Some x" and "x \<le> now"
  shows "fst (run_tx (ig_claim k lease now) d) = Inr (m_channel m = INSTAGRAM)
    \<and> fst (run_tx (tt_claim k lease now) d) \<noteq> Inr True"
proof
  have k: "(m_tenant m, m_id m) = k" using message_at_key[OF assms(2)] by (simp add: message_key_def)
  have "ig_claimable k now m' \<Longrightarrow> message_key m' = k" for m' by (simp add: ig_claimable_def message_key_def)
  then have "count_where (ig_claimable k now) (messages d) = (if ig_claimable k now m then 1 else 0)"
    using count_one_key[OF keyed_of_id[OF assms(1)]] assms(2) by simp
  moreover have "ig_claimable k now m = (m_channel m = INSTAGRAM)"
    using k assms(3-6) by (simp add: ig_claimable_def due_def)
  ultimately show "fst (run_tx (ig_claim k lease now) d) = Inr (m_channel m = INSTAGRAM)"
    by (simp add: ig_claim_def update_message_run run_tx_def)
  have "\<not> tt_claimable k now m" using assms(4) by (simp add: tt_claimable_def)
  then show "fst (run_tx (tt_claim k lease now) d) \<noteq> Inr True"
    using tt_run_results(1)[OF assms(1), of k lease now] assms(2) by (simp add: tt_run.simps)
qed

theorem expired_lease_witness: "fst (run_tx (ig_claim (7, 71) 9 1000) chat_db) = Inr True"
  using expired_lease[OF chat_db_facts(1,4), of 900 1000 9] by (simp add: message_sample_def)

end
