(* ===== verification/Supplier_Orders.thy ===== *)
theory Supplier_Orders
  imports Leases
begin

text \<open>
  Orders to a supplier over Telegram: the API side
  (\<open>apps/api/src/integrations/telegram.service.ts\<close>), which chooses the destination and
  queues a delivery, and the worker (\<open>apps/worker/src/telegram\<close>), which sends what is
  queued and moves the items of the order.  The bot client and the Ukrainian texts are
  parameters.
\<close>

section \<open>The destination\<close>

text \<open>The texts: of a supplier without a title, of a chat without one, and the parts of
  the message.\<close>

record supplier_copy =
  sc_supplier :: string
  sc_business_chat :: string
  sc_group :: string
  sc_heading :: string
  sc_no_sku :: string
  sc_quantity :: string
  sc_size :: string
  sc_color :: string
  sc_dash :: string
  sc_dot :: string

record destination_view =
  dv_id :: uuid
  dv_title :: string
  dv_route :: chat_route
  dv_observed :: instant

record supplier_settings_view =
  sv_business_connected :: bool
  sv_selected :: "uuid option"
  sv_auto :: bool
  sv_destinations :: "destination_view list"

definition group_chat :: "telegram_chat \<Rightarrow> bool" where
  "group_chat c \<longleftrightarrow> tc_type c \<in> {''group'', ''supergroup''}"

definition connected_ids :: "uuid \<Rightarrow> db \<Rightarrow> string list" where
  "connected_ids t d = map bc_external (filter (\<lambda>b. bc_tenant b = t \<and> bc_enabled b) (business_connections d))"

definition setting_of :: "uuid \<Rightarrow> db \<Rightarrow> supplier_setting option" where
  "setting_of t d = List.find (\<lambda>s. ss_tenant s = t) (supplier_settings d)"

definition usable_destination :: "uuid \<Rightarrow> db \<Rightarrow> telegram_chat \<Rightarrow> bool" where
  "usable_destination t d c \<longleftrightarrow> tc_tenant c = t \<and>
     (tc_route c = BOT \<and> group_chat c
      \<or> tc_route c = BUSINESS \<and> (case tc_business c of None \<Rightarrow> False | Some b \<Rightarrow> b \<in> set (connected_ids t d)))"

definition title_or :: "string option \<Rightarrow> string \<Rightarrow> string" where
  "title_or title other = (case non_empty (map_option trim title) of Some s \<Rightarrow> s | None \<Rightarrow> other)"

definition destination_view_of :: "supplier_copy \<Rightarrow> telegram_chat \<Rightarrow> destination_view" where
  "destination_view_of C c = \<lparr>dv_id = tc_id c,
     dv_title = title_or (tc_title c) (if tc_route c = BUSINESS then sc_business_chat C else sc_group C),
     dv_route = tc_route c, dv_observed = tc_observed c\<rparr>"

definition supplierSettings :: "supplier_copy \<Rightarrow> uuid \<Rightarrow> supplier_settings_view dbtx" where
  "supplierSettings C t = tx_read (\<lambda>d. \<lparr>
     sv_business_connected = (connected_ids t d \<noteq> []),
     sv_selected = map_option ss_destination (setting_of t d),
     sv_auto = (case setting_of t d of Some s \<Rightarrow> ss_auto s | None \<Rightarrow> False),
     sv_destinations = map (destination_view_of C)
       (sort_key (\<lambda>c. - tc_observed c) (filter (usable_destination t d) (telegram_chats d)))\<rparr>)"

definition find_chat :: "uuid \<Rightarrow> uuid \<Rightarrow> db \<Rightarrow> telegram_chat option" where
  "find_chat t cid d = List.find (\<lambda>c. tc_id c = cid \<and> tc_tenant c = t) (telegram_chats d)"

definition check_destination :: "uuid \<Rightarrow> uuid \<Rightarrow> uuid dbtx" where
  "check_destination t destination = tx_bind (tx_read (find_chat t destination)) (\<lambda>found. case found of
       None \<Rightarrow> tx_throw (Plain ''Telegram supplier destination unavailable'')
     | Some c \<Rightarrow>
         tx_seq (tx_when (tc_route c = BOT \<and> \<not> group_chat c) (Plain ''Telegram supplier destination unavailable''))
        (tx_bind (tx_read (\<lambda>d. any_row (\<lambda>b. bc_tenant b = t \<and> bc_enabled b
             \<and> bc_external b = (case tc_business c of Some b \<Rightarrow> b | None \<Rightarrow> [])) (business_connections d))) (\<lambda>connected.
         tx_seq (tx_when (tc_route c = BUSINESS \<and> \<not> connected) (Plain ''Telegram supplier destination unavailable''))
           (tx_return (tc_id c)))))"

definition upsert_setting :: "uuid \<Rightarrow> uuid \<Rightarrow> unit dbtx" where
  "upsert_setting t destination = tx_write (\<lambda>d.
     if any_row (\<lambda>s. ss_tenant s = t) (supplier_settings d)
     then d\<lparr>supplier_settings := update_where (\<lambda>s. ss_tenant s = t) (\<lambda>s. s\<lparr>ss_destination := destination, ss_auto := False\<rparr>) (supplier_settings d)\<rparr>
     else d\<lparr>supplier_settings := supplier_settings d @ [\<lparr>ss_tenant = t, ss_destination = destination, ss_auto = False\<rparr>]\<rparr>)"

definition saveSupplierSettings :: "supplier_copy \<Rightarrow> uuid \<Rightarrow> uuid \<Rightarrow> supplier_settings_view dbservice" where
  "saveSupplierSettings C t destination =
     svc_bind (run_tx (tx_seq (assertTenantAcceptingMutations t SUPPLIER_SEND)
         (tx_bind (check_destination t destination) (upsert_setting t)))) (\<lambda>_.
       run_tx (supplierSettings C t))"

section \<open>The order to the supplier\<close>

definition to_order_items :: "uuid \<Rightarrow> uuid \<Rightarrow> db \<Rightarrow> order_item list" where
  "to_order_items t oid d = filter (\<lambda>i. it_status i = TO_ORDER) (items_of t oid d)"

definition names_for :: "uuid \<Rightarrow> order_item list \<Rightarrow> db \<Rightarrow> (string \<times> string) list" where
  "names_for t its d = fold (\<lambda>p. jsmap_set (pr_sku p) (pr_name p))
     (filter (\<lambda>p. pr_tenant p = t \<and> (\<exists>i\<in>set its. non_empty (it_catalog i) = Some (pr_sku p))) (products d)) []"

definition product_name :: "(string \<times> string) list \<Rightarrow> order_item \<Rightarrow> string" where
  "product_name names i = (case non_empty (it_catalog i) of
       Some sku \<Rightarrow> (case map_of names sku of Some n \<Rightarrow> n | None \<Rightarrow> it_text i)
     | None \<Rightarrow> it_text i)"

definition tenant_name :: "uuid \<Rightarrow> db \<Rightarrow> string" where
  "tenant_name t d = (case List.find (\<lambda>x. tn_id x = t) (tenants d) of Some x \<Rightarrow> tn_name x | None \<Rightarrow> [])"

record preview_item =
  pi_item :: uuid
  pi_name :: string
  pi_sku :: "string option"
  pi_quantity :: int
  pi_color :: "string option"
  pi_size :: "string option"

record supplier_preview =
  sp_order :: uuid
  sp_company :: string
  sp_supplier :: string
  sp_items :: "preview_item list"

text \<open>The checks of a preview and of a dispatch.\<close>

definition dispatchable :: "uuid \<Rightarrow> uuid \<Rightarrow> (order \<times> order_item list) dbtx" where
  "dispatchable t oid = tx_bind (tx_read (find_order t oid)) (\<lambda>found. case found of
       None \<Rightarrow> tx_throw (Plain ''Order not found'')
     | Some ord \<Rightarrow>
         tx_seq (tx_when (\<not> approved_status (o_status ord)) (Plain ''Approved order required''))
        (tx_bind (tx_read (to_order_items t oid)) (\<lambda>its.
         tx_seq (tx_when (its = []) (Plain ''No items require supplier ordering''))
           (tx_return (ord, its)))))"

definition required_setting :: "uuid \<Rightarrow> supplier_setting dbtx" where
  "required_setting t = tx_bind (tx_read (setting_of t)) (\<lambda>found. case found of
       None \<Rightarrow> tx_throw (Plain ''Telegram supplier destination required'') | Some s \<Rightarrow> tx_return s)"

definition preview_item_of :: "(string \<times> string) list \<Rightarrow> order_item \<Rightarrow> preview_item" where
  "preview_item_of names i = \<lparr>pi_item = it_id i, pi_name = product_name names i, pi_sku = it_catalog i,
     pi_quantity = it_quantity i, pi_color = it_color i, pi_size = it_size i\<rparr>"

text \<open>\<open>env\<close>: what others commit between the two transactions of a preview.\<close>

definition supplierOrderPreview :: "supplier_copy \<Rightarrow> uuid \<Rightarrow> uuid \<Rightarrow> (db \<Rightarrow> db) \<Rightarrow> supplier_preview dbservice" where
  "supplierOrderPreview C t oid env =
     svc_bind (run_tx (tx_bind (dispatchable t oid) (\<lambda>(ord, its). tx_bind (tx_read (tenant_name t)) (\<lambda>company.
         tx_return (ord, its, company))))) (\<lambda>(ord, its, company) d.
       run_tx (tx_bind (required_setting t) (\<lambda>s. tx_read (\<lambda>d. \<lparr>sp_order = o_id ord, sp_company = company,
         sp_supplier = title_or (Option.bind (find_chat t (ss_destination s) d) tc_title) (sc_supplier C),
         sp_items = map (preview_item_of (names_for t its d)) its\<rparr>))) (env d))"

definition int_text :: "int \<Rightarrow> string" where
  "int_text n = (if n < 0 then ''-'' else []) @ decimal_digits (nat (abs n))"

definition item_line :: "supplier_copy \<Rightarrow> (string \<times> string) list \<Rightarrow> nat \<Rightarrow> order_item \<Rightarrow> string" where
  "item_line C names k i = decimal_digits (k + 1) @ ''. '' @ (case it_catalog i of Some sku \<Rightarrow> sku | None \<Rightarrow> sc_no_sku C)
     @ sc_dash C @ product_name names i @ [CHR 0x0A]
     @ join (sc_dot C) ([sc_quantity C @ int_text (it_quantity i)]
         @ (case non_empty (it_size i) of Some s \<Rightarrow> [sc_size C @ s] | None \<Rightarrow> [])
         @ (case non_empty (it_color i) of Some s \<Rightarrow> [sc_color C @ s] | None \<Rightarrow> []))"

definition supplierOrderMessage :: "supplier_copy \<Rightarrow> uuid \<Rightarrow> string \<Rightarrow> order_item list \<Rightarrow> (string \<times> string) list \<Rightarrow> string" where
  "supplierOrderMessage C oid company its names = take 4096 (join [CHR 0x0A]
     ([sc_heading C @ company @ '' #'' @ take 8 (uuid_text oid), []] @ map (\<lambda>(k, i). item_line C names k i) (enumerate 0 its)))"

definition active_delivery :: "uuid \<Rightarrow> uuid \<Rightarrow> db \<Rightarrow> telegram_delivery option" where
  "active_delivery t oid d = find_sorted (\<lambda>x. - td_created x)
     (\<lambda>x. td_tenant x = t \<and> td_order x = Some oid \<and> td_purpose x = SUPPLIER_ORDER
        \<and> td_status x \<in> {TG_PENDING, TG_PROCESSING, TG_RETRYABLE}) (telegram_deliveries d)"

definition supplier_key :: "uuid \<Rightarrow> nat \<Rightarrow> string" where
  "supplier_key oid version = ''supplier-order:'' @ uuid_text oid @ '':'' @ decimal_digits version"

definition new_delivery :: "uuid \<Rightarrow> uuid \<Rightarrow> uuid \<Rightarrow> uuid \<Rightarrow> string \<Rightarrow> string \<Rightarrow> instant \<Rightarrow> telegram_delivery" where
  "new_delivery did t destination oid key msg now = \<lparr>td_id = did, td_tenant = t, td_destination = destination,
     td_order = Some oid, td_source = None, td_purpose = SUPPLIER_ORDER, td_status = TG_PENDING, td_key = key, td_text = msg,
     td_provider_message = None, td_attempts = 0, td_next_attempt = now, td_last_attempt = None, td_lease = None,
     td_lease_expires = None, td_error = None, td_completed = None, td_created = now\<rparr>"

definition create_delivery :: "uuid \<Rightarrow> string \<Rightarrow> (uuid \<Rightarrow> telegram_delivery) \<Rightarrow> telegram_delivery dbtx" where
  "create_delivery t key build = (\<lambda>d.
     if any_row (\<lambda>x. td_tenant x = t \<and> td_key x = key) (telegram_deliveries d) then Inl UniqueViolation
     else Inr (build (next_id d), d\<lparr>telegram_deliveries := telegram_deliveries d @ [build (next_id d)], next_id := next_id d + 1\<rparr>))"

definition link_items :: "uuid \<Rightarrow> uuid \<Rightarrow> order_item list \<Rightarrow> unit dbtx" where
  "link_items t did its = tx_write (\<lambda>d. d\<lparr>delivery_items := delivery_items d @
     map (\<lambda>i. \<lparr>di_tenant = t, di_delivery = did, di_item = it_id i\<rparr>) its\<rparr>)"

definition send_items :: "uuid \<Rightarrow> order_item list \<Rightarrow> instant \<Rightarrow> nat dbtx" where
  "send_items t its now = (\<lambda>d.
     let P = (\<lambda>i. it_tenant i = t \<and> it_id i \<in> set (map it_id its) \<and> it_status i = TO_ORDER)
     in Inr (count_where P (order_items d),
             d\<lparr>order_items := update_where P (\<lambda>i. i\<lparr>it_status := SENDING, it_updated_at := Some now\<rparr>) (order_items d)\<rparr>))"

definition dispatch :: "supplier_copy \<Rightarrow> uuid \<Rightarrow> order \<Rightarrow> order_item list \<Rightarrow> supplier_setting \<Rightarrow> instant \<Rightarrow> telegram_delivery dbtx" where
  "dispatch C t ord its s now =
     tx_seq (update_order t (o_id ord) (\<lambda>r. r\<lparr>o_dispatch_version := o_dispatch_version r + 1\<rparr>))
    (tx_bind (tx_read (\<lambda>d. (find_order t (o_id ord) d, supplierOrderMessage C (o_id ord) (tenant_name t d) its (names_for t its d)))) (\<lambda>(found, msg).
     let key = supplier_key (o_id ord) (case found of Some r \<Rightarrow> o_dispatch_version r | None \<Rightarrow> 0) in
     tx_bind (create_delivery t key (\<lambda>did. new_delivery did t (ss_destination s) (o_id ord) key msg now)) (\<lambda>created.
     tx_seq (link_items t (td_id created) its)
    (tx_bind (send_items t its now) (\<lambda>n.
     tx_seq (tx_when (n \<noteq> length its) (Plain ''Supplier order changed during dispatch''))
    (tx_seq (update_order t (o_id ord) (\<lambda>r. r\<lparr>o_sort_procurement := S_SENDING\<rparr>))
       (tx_return created)))))))"

definition queue_tx :: "supplier_copy \<Rightarrow> uuid \<Rightarrow> uuid \<Rightarrow> instant \<Rightarrow> telegram_delivery dbtx" where
  "queue_tx C t oid now =
     tx_seq (assertTenantAcceptingMutations t SUPPLIER_SEND)
    (tx_bind (tx_read (active_delivery t oid)) (\<lambda>active. case active of
         Some x \<Rightarrow> tx_return x
       | None \<Rightarrow> tx_bind (dispatchable t oid) (\<lambda>(ord, its).
                 tx_bind (required_setting t) (\<lambda>s. dispatch C t ord its s now))))"

text \<open>\<open>configured\<close>: a bot name and a queue are given.  A queue that refuses the job changes
  nothing: the reconciler finds the row.\<close>

definition queueSupplierOrder :: "supplier_copy \<Rightarrow> bool \<Rightarrow> uuid \<Rightarrow> uuid \<Rightarrow> instant \<Rightarrow> (uuid \<times> telegram_status) dbservice" where
  "queueSupplierOrder C configured t oid now =
     (if \<not> configured then svc_throw (Plain ''Telegram is not configured'')
      else svc_bind (run_tx (queue_tx C t oid now)) (\<lambda>x. svc_return (td_id x, td_status x)))"

end
