(* ===== verification/Telegram.thy ===== *)
theory Telegram
  imports Supplier_Orders
begin

text \<open>
  The worker that sends Telegram texts: orders to suppliers, alerts, tests
  (\<open>apps/worker/src/telegram/telegram-delivery.service.ts\<close>, \<open>telegram-authority.ts\<close>,
  \<open>telegram-delivery-reconciler.ts\<close>), and the functions of the database it asks
  (\<open>migrations/20261001120000_telegram_rls\<close>).
\<close>

section \<open>Whose delivery\<close>

type_synonym authority = "uuid \<times> uuid \<times> telegram_purpose"
  \<comment> \<open>tenant, delivery, purpose\<close>

definition authority_of :: "telegram_delivery \<Rightarrow> authority" where
  "authority_of x = (td_tenant x, td_id x, td_purpose x)"

definition worker_telegram_tenants_for_deliveries :: "uuid list \<Rightarrow> authority list dbtx" where
  "worker_telegram_tenants_for_deliveries ids =
     tx_seq (tx_when (length ids < 1 \<or> 50 < length ids) (Plain ''delivery id batch must contain between 1 and 50 entries''))
       (tx_read (\<lambda>d. map authority_of (sort_key td_id (filter (\<lambda>x. td_id x \<in> set ids) (telegram_deliveries d)))))"

definition resolveTelegramDeliveryAuthorities :: "uuid list \<Rightarrow> (uuid \<times> authority) list dbtx" where
  "resolveTelegramDeliveryAuthorities ids =
     tx_seq (tx_when (length ids < 1 \<or> 50 < length ids)
         (Plain ''Telegram delivery authority lookup must contain between 1 and 50 identifiers''))
       (tx_bind (worker_telegram_tenants_for_deliveries ids) (\<lambda>rows.
          tx_return (map (\<lambda>(t, i, p). (i, (t, i, p))) rows)))"

definition resolveTelegramDeliveryAuthority :: "uuid \<Rightarrow> authority option dbtx" where
  "resolveTelegramDeliveryAuthority did =
     tx_bind (resolveTelegramDeliveryAuthorities [did]) (\<lambda>rows. tx_return (map_of (rev rows) did))"

section \<open>The lease\<close>

definition telegram_lease_ms :: int where
  "telegram_lease_ms = 60000"

definition telegram_max_attempts :: nat where
  "telegram_max_attempts = 5"

definition delivery_key :: "telegram_delivery \<Rightarrow> uuid \<times> uuid" where
  "delivery_key x = (td_tenant x, td_id x)"

definition expired :: "instant \<Rightarrow> telegram_delivery \<Rightarrow> bool" where
  "expired now x = (case td_lease_expires x of Some y \<Rightarrow> y \<le> now | None \<Rightarrow> False)"

definition tg_claimable :: "uuid \<times> uuid \<Rightarrow> instant \<Rightarrow> telegram_delivery \<Rightarrow> bool" where
  "tg_claimable k now x \<longleftrightarrow> (td_tenant x, td_id x) = k
     \<and> (td_status x \<in> {TG_PENDING, TG_RETRYABLE} \<and> td_next_attempt x \<le> now \<or> td_status x = TG_PROCESSING \<and> expired now x)
     \<and> (td_lease x = None \<or> expired now x)"

definition start_processing :: "uuid \<Rightarrow> instant \<Rightarrow> telegram_delivery \<Rightarrow> telegram_delivery" where
  "start_processing lease now x = x\<lparr>td_status := TG_PROCESSING, td_attempts := td_attempts x + 1, td_last_attempt := Some now,
     td_lease := Some lease, td_lease_expires := Some (now + telegram_lease_ms), td_error := None\<rparr>"

definition tg_owned :: "uuid \<times> uuid \<Rightarrow> uuid \<Rightarrow> telegram_delivery \<Rightarrow> bool" where
  "tg_owned k lease x \<longleftrightarrow> (td_tenant x, td_id x) = k \<and> td_status x = TG_PROCESSING \<and> td_lease x = Some lease"

record telegram_outcome =
  to_status :: telegram_status
  to_provider :: "string option"
  to_next :: "instant option"
  to_error :: "string option"
  to_completed :: "instant option"

definition write_delivery :: "telegram_outcome \<Rightarrow> telegram_delivery \<Rightarrow> telegram_delivery" where
  "write_delivery out x = x\<lparr>td_status := to_status out, td_provider_message := or_else (to_provider out) (td_provider_message x),
     td_next_attempt := (case to_next out of Some n \<Rightarrow> n | None \<Rightarrow> td_next_attempt x), td_error := to_error out,
     td_completed := to_completed out, td_lease := None, td_lease_expires := None\<rparr>"

definition processing_lease :: "telegram_delivery \<Rightarrow> uuid option" where
  "processing_lease x = (if td_status x = TG_PROCESSING then td_lease x else None)"

interpretation tg: lease_queue delivery_key tg_claimable processing_lease start_processing write_delivery
  by unfold_locales
    (auto simp: delivery_key_def tg_claimable_def processing_lease_def start_processing_def write_delivery_def)

lemma tg_owned: "tg_owned = tg.owned"
  by (auto simp: fun_eq_iff tg_owned_def tg.owned_def delivery_key_def processing_lease_def)

section \<open>Claim\<close>

datatype tg_claim_result = Frozen | Unclaimed | Claimed telegram_delivery "telegram_chat option"

definition fail_frozen :: "uuid \<times> uuid \<Rightarrow> instant \<Rightarrow> tg_claim_result dbtx" where
  "fail_frozen k now = tx_bind (update_delivery
       (\<lambda>x. (td_tenant x, td_id x) = k \<and> td_status x \<in> {TG_PENDING, TG_RETRYABLE, TG_PROCESSING})
       (\<lambda>x. x\<lparr>td_status := TG_FAILED, td_error := Some ''TENANT_LIFECYCLE_FROZEN'', td_completed := Some now,
          td_lease := None, td_lease_expires := None\<rparr>)) (\<lambda>_. tx_return Frozen)"

definition take_delivery :: "uuid \<times> uuid \<Rightarrow> uuid \<Rightarrow> instant \<Rightarrow> tg_claim_result dbtx" where
  "take_delivery k lease now =
     tx_bind (update_delivery (tg_claimable k now) (start_processing lease now)) (\<lambda>one.
       if \<not> one then tx_return Unclaimed
       else tx_read (\<lambda>d. case List.find (tg_owned k lease) (telegram_deliveries d) of
           None \<Rightarrow> Unclaimed
         | Some x \<Rightarrow> Claimed x (List.find (\<lambda>c. tc_id c = td_destination x) (telegram_chats d))))"

definition tg_claim :: "uuid \<times> uuid \<Rightarrow> uuid \<Rightarrow> instant \<Rightarrow> tg_claim_result dbtx" where
  "tg_claim k lease now =
     tx_bind (tx_read (\<lambda>d. List.find (\<lambda>x. delivery_key x = k) (telegram_deliveries d))) (\<lambda>pending. case pending of
         None \<Rightarrow> tx_return Unclaimed
       | Some x \<Rightarrow> when_accepting (fst k) (if td_purpose x = SUPPLIER_ORDER then SUPPLIER_SEND else NOTIFICATION_SEND)
           (take_delivery k lease now) (fail_frozen k now))"

section \<open>Finish\<close>

text \<open>What the end of a delivery does to the items of its order.\<close>

definition settle_item :: "telegram_status \<Rightarrow> instant \<Rightarrow> order_item \<Rightarrow> order_item" where
  "settle_item st now i = (if st = TG_SUCCEEDED then i\<lparr>it_status := ORDERED, it_updated_at := Some now\<rparr>
     else i\<lparr>it_status := TO_ORDER, it_reason := Some DELIVERY_FAILED, it_updated_at := Some now\<rparr>)"

definition carried :: "uuid \<Rightarrow> uuid \<Rightarrow> db \<Rightarrow> order_item \<Rightarrow> bool" where
  "carried t did d i \<longleftrightarrow> it_tenant i = t \<and> it_status i = SENDING
     \<and> any_row (\<lambda>x. di_delivery x = did \<and> di_item x = it_id i) (delivery_items d)"

definition settle_items :: "uuid \<Rightarrow> uuid \<Rightarrow> telegram_status \<Rightarrow> instant \<Rightarrow> unit dbtx" where
  "settle_items t did st now = tx_write (\<lambda>d. d\<lparr>order_items := update_where (carried t did d) (settle_item st now) (order_items d)\<rparr>)"

definition refresh_summary :: "uuid \<Rightarrow> uuid \<Rightarrow> unit dbtx" where
  "refresh_summary t oid = tx_bind (tx_read (\<lambda>d. (find_order t oid d, map it_status (items_of t oid d)))) (\<lambda>(found, statuses).
     case found of
       None \<Rightarrow> tx_return ()
     | Some r \<Rightarrow> update_order t oid (\<lambda>x. x\<lparr>o_sort_procurement := procurementSummaryFor statuses (o_handed_off_at r \<noteq> None)\<rparr>))"

definition finish_supplier :: "alert_copy option \<Rightarrow> uuid \<Rightarrow> uuid \<Rightarrow> telegram_status \<Rightarrow> uuid option \<Rightarrow> instant \<Rightarrow> unit dbtx" where
  "finish_supplier alerts t did st oid now =
     tx_seq (settle_items t did st now)
    (case oid of
       None \<Rightarrow> tx_return ()
     | Some i \<Rightarrow> tx_seq (refresh_summary t i)
         (if st = TG_FAILED then (case alerts of None \<Rightarrow> tx_return () | Some C \<Rightarrow> persist_alert C t SUPPLIER_DELIVERY_FAILED did i now)
          else tx_return ()))"

definition tg_finish :: "alert_copy option \<Rightarrow> uuid \<times> uuid \<Rightarrow> uuid \<Rightarrow> instant \<Rightarrow> telegram_outcome \<Rightarrow> bool dbtx" where
  "tg_finish alerts k lease now out =
     tx_bind (update_delivery (tg_owned k lease) (write_delivery out)) (\<lambda>one.
       if \<not> one then tx_return False
       else tx_bind (tx_read (\<lambda>d. List.find (\<lambda>x. td_id x = snd k) (telegram_deliveries d))) (\<lambda>found. case found of
           None \<Rightarrow> tx_return True
         | Some x \<Rightarrow>
             if td_purpose x \<noteq> SUPPLIER_ORDER \<or> to_status out = TG_RETRYABLE then tx_return True
             else tx_seq (finish_supplier alerts (td_tenant x) (snd k) (to_status out) (td_order x) now) (tx_return True)))"

section \<open>Process\<close>

datatype bot_error = BOT_UNAUTHORIZED | BOT_FORBIDDEN | BOT_INVALID_CHAT | BOT_RATE_LIMITED | BOT_NETWORK
  | BOT_TIMEOUT | BOT_PROVIDER_ERROR | BOT_INVALID_RESPONSE

text \<open>\<open>TelegramBotError\<close> with the seconds to wait, or another exception.\<close>

datatype telegram_failure = BotError bot_error "int option" | OtherBotFailure

type_synonym telegram_client = "string \<Rightarrow> string \<Rightarrow> string option \<Rightarrow> telegram_failure + string \<times> string"
  \<comment> \<open>chat, text, business connection; message and chat of the answer\<close>

fun telegramFailureCode :: "telegram_failure \<Rightarrow> string" where
  "telegramFailureCode OtherBotFailure = ''TELEGRAM_SEND_FAILED''"
| "telegramFailureCode (BotError c s) = (case c of
      BOT_NETWORK \<Rightarrow> ''TELEGRAM_DELIVERY_UNKNOWN'' | BOT_TIMEOUT \<Rightarrow> ''TELEGRAM_DELIVERY_UNKNOWN''
    | BOT_PROVIDER_ERROR \<Rightarrow> ''TELEGRAM_DELIVERY_UNKNOWN'' | BOT_UNAUTHORIZED \<Rightarrow> ''TELEGRAM_UNAUTHORIZED''
    | BOT_FORBIDDEN \<Rightarrow> ''TELEGRAM_FORBIDDEN'' | BOT_INVALID_CHAT \<Rightarrow> ''TELEGRAM_INVALID_CHAT''
    | BOT_RATE_LIMITED \<Rightarrow> ''TELEGRAM_RATE_LIMITED'' | BOT_INVALID_RESPONSE \<Rightarrow> ''TELEGRAM_INVALID_RESPONSE'')"

datatype telegram_result = T_SUCCEEDED | T_RETRY | T_FAILED | T_IGNORED | T_FROZEN

definition failed_outcome :: "string \<Rightarrow> instant \<Rightarrow> telegram_outcome" where
  "failed_outcome code now = \<lparr>to_status = TG_FAILED, to_provider = None, to_next = None, to_error = Some code, to_completed = Some now\<rparr>"

definition retry_seconds :: "int option \<Rightarrow> int" where
  "retry_seconds after = min 3600 (max 1 (case after of Some s \<Rightarrow> s | None \<Rightarrow> 30))"

definition rate_limited_outcome :: "nat \<Rightarrow> int option \<Rightarrow> instant \<Rightarrow> telegram_outcome" where
  "rate_limited_outcome attempts after now =
     (if telegram_max_attempts \<le> attempts
      then \<lparr>to_status = TG_FAILED, to_provider = None, to_next = Some now, to_error = Some ''TELEGRAM_RATE_LIMITED'', to_completed = Some now\<rparr>
      else \<lparr>to_status = TG_RETRYABLE, to_provider = None, to_next = Some (now + retry_seconds after * 1000),
            to_error = Some ''TELEGRAM_RATE_LIMITED'', to_completed = None\<rparr>)"

definition tg_end :: "alert_copy option \<Rightarrow> uuid \<times> uuid \<Rightarrow> uuid \<Rightarrow> instant \<Rightarrow> telegram_outcome \<Rightarrow> telegram_result \<Rightarrow> telegram_result dbservice" where
  "tg_end alerts k lease fin out res =
     svc_bind (run_tx (tg_finish alerts k lease fin out)) (\<lambda>updated. svc_return (if updated then res else T_IGNORED))"

text \<open>The branches after the call of the client.\<close>

definition tg_answer :: "alert_copy option \<Rightarrow> uuid \<times> uuid \<Rightarrow> uuid \<Rightarrow> instant \<Rightarrow> instant \<Rightarrow> nat \<Rightarrow> string \<Rightarrow>
    telegram_failure + string \<times> string \<Rightarrow> telegram_result dbservice" where
  "tg_answer alerts k lease now fin attempts chat answer = (case answer of
       Inl (BotError BOT_RATE_LIMITED after) \<Rightarrow> tg_end alerts k lease fin (rate_limited_outcome attempts after now)
           (if telegram_max_attempts \<le> attempts then T_FAILED else T_RETRY)
     | Inl failure \<Rightarrow> tg_end alerts k lease fin (failed_outcome (telegramFailureCode failure) now) T_FAILED
     | Inr (pid, sent_chat) \<Rightarrow>
         if sent_chat \<noteq> chat then tg_end alerts k lease fin (failed_outcome ''TELEGRAM_DESTINATION_MISMATCH'' now) T_FAILED
         else tg_end alerts k lease fin \<lparr>to_status = TG_SUCCEEDED, to_provider = Some pid, to_next = None, to_error = None,
                to_completed = Some now\<rparr> T_SUCCEEDED)"

definition tg_send :: "telegram_client \<Rightarrow> alert_copy option \<Rightarrow> uuid \<times> uuid \<Rightarrow> uuid \<Rightarrow> instant \<Rightarrow> instant \<Rightarrow> (db \<Rightarrow> db) \<Rightarrow>
    telegram_delivery \<Rightarrow> telegram_chat option \<Rightarrow> telegram_result dbservice" where
  "tg_send client alerts k lease now fin env x chat = (case chat of
       None \<Rightarrow> svc_throw RecordNotFound
     | Some c \<Rightarrow>
         if tc_route c = BUSINESS \<and> non_empty (tc_business c) = None
         then tg_end alerts k lease fin (failed_outcome ''TELEGRAM_DESTINATION_INVALID'' now) T_FAILED
         else (\<lambda>d. tg_answer alerts k lease now fin (td_attempts x) (tc_external c)
             (client (tc_external c) (td_text x) (if tc_route c = BUSINESS then non_empty (tc_business c) else None)) (env d)))"

definition process_telegram :: "telegram_client \<Rightarrow> alert_copy option \<Rightarrow> uuid \<Rightarrow> uuid \<Rightarrow> instant \<Rightarrow> instant \<Rightarrow> (db \<Rightarrow> db) \<Rightarrow> telegram_result dbservice" where
  "process_telegram client alerts did lease now fin env =
     svc_bind (run_tx (resolveTelegramDeliveryAuthority did)) (\<lambda>found. case found of
         None \<Rightarrow> svc_return T_IGNORED
       | Some (t, _, _) \<Rightarrow>
           svc_bind (run_tx (tg_claim (t, did) lease now)) (\<lambda>claimed. case claimed of
               Frozen \<Rightarrow> svc_return T_FROZEN
             | Unclaimed \<Rightarrow> svc_return T_IGNORED
             | Claimed x chat \<Rightarrow> tg_send client alerts (t, did) lease now fin env x chat))"

section \<open>Reconciler\<close>

definition tg_due :: "instant \<Rightarrow> telegram_delivery \<Rightarrow> bool" where
  "tg_due now x \<longleftrightarrow> td_status x \<in> {TG_PENDING, TG_RETRYABLE} \<and> td_next_attempt x \<le> now
     \<or> td_status x = TG_PROCESSING \<and> expired now x"

definition worker_due_telegram_deliveries :: "instant \<Rightarrow> nat \<Rightarrow> db \<Rightarrow> authority list" where
  "worker_due_telegram_deliveries now limit d = map authority_of (take (min (max limit 1) 50)
     (sort_key (\<lambda>x. (td_next_attempt x, td_created x, td_id x)) (filter (tg_due now) (telegram_deliveries d))))"

definition reconcile_telegram :: "(uuid \<Rightarrow> bool) \<Rightarrow> instant \<Rightarrow> (nat \<times> nat) dbservice" where
  "reconcile_telegram queue now = svc_bind (run_tx (tx_read (worker_due_telegram_deliveries now 50))) (\<lambda>rows.
     svc_return (length rows, length (filter (\<lambda>(t, did, p). queue did) rows)))"

end
