(* ===== verification/Telegram_Props.thy ===== *)
theory Telegram_Props
  imports Telegram Procurement_Props
begin

text \<open>
  Properties of orders to suppliers: what a dispatch writes, how the end of a delivery
  moves the items, that every due delivery is taken up and ends, and what a frozen
  tenant leaves behind.
\<close>

section \<open>A dispatch, unfolded\<close>

definition sent_rows :: "uuid \<Rightarrow> order_item list \<Rightarrow> instant \<Rightarrow> order_item list \<Rightarrow> order_item list" where
  "sent_rows t its now rows = update_where (\<lambda>i. it_tenant i = t \<and> it_id i \<in> set (map it_id its) \<and> it_status i = TO_ORDER)
     (\<lambda>i. i\<lparr>it_status := SENDING, it_updated_at := Some now\<rparr>) rows"

lemma update_order_run:
  "find_order t oid d \<noteq> None \<Longrightarrow> update_order t oid f d =
    Inr ((), d\<lparr>orders := update_where (\<lambda>r. o_id r = oid \<and> o_tenant r = t) f (orders d)\<rparr>)"
  by (auto simp: update_order_def find_order_def find_None_iff)

lemma find_order_update:
  assumes "\<And>r. o_id (f r) = o_id r \<and> o_tenant (f r) = o_tenant r"
  shows "find_order t oid (d\<lparr>orders := update_where (\<lambda>r. o_id r = oid \<and> o_tenant r = t) f (orders d)\<rparr>) = map_option f (find_order t oid d)"
proof -
  have "List.find (\<lambda>r. o_id r = oid \<and> o_tenant r = t) (update_where (\<lambda>r. o_id r = oid \<and> o_tenant r = t) f rows)
      = map_option f (List.find (\<lambda>r. o_id r = oid \<and> o_tenant r = t) rows)" for rows
    using assms by (induction rows) auto
  then show ?thesis by (simp add: find_order_def)
qed

lemma dispatchE:
  assumes "dispatch C t ord its s now d = Inr (x, d')" and "find_order t (o_id ord) d = Some ord"
  obtains "x = new_delivery (next_id d) t (ss_destination s) (o_id ord) (supplier_key (o_id ord) (o_dispatch_version ord + 1))
      (supplierOrderMessage C (o_id ord) (tenant_name t d) its (names_for t its d)) now"
    and "d' = d\<lparr>telegram_deliveries := telegram_deliveries d @ [x], next_id := next_id d + 1,
      delivery_items := delivery_items d @ map (\<lambda>i. \<lparr>di_tenant = t, di_delivery = td_id x, di_item = it_id i\<rparr>) its,
      order_items := sent_rows t its now (order_items d),
      orders := update_where (\<lambda>r. o_id r = o_id ord \<and> o_tenant r = t)
        (\<lambda>r. r\<lparr>o_dispatch_version := o_dispatch_version r + 1, o_sort_procurement := S_SENDING\<rparr>) (orders d)\<rparr>"
    and "count_where (\<lambda>i. it_tenant i = t \<and> it_id i \<in> set (map it_id its) \<and> it_status i = TO_ORDER) (order_items d) = length its"
    and "\<not> (\<exists>y\<in>set (telegram_deliveries d). td_tenant y = t \<and> td_key y = td_key x)"
proof -
  let ?f = "\<lambda>r. r\<lparr>o_dispatch_version := Suc (o_dispatch_version r)\<rparr>"
  let ?sel = "\<lambda>r. o_id r = o_id ord \<and> o_tenant r = t"
  have twice: "update_where ?sel (\<lambda>r. r\<lparr>o_sort_procurement := S_SENDING\<rparr>) (update_where ?sel ?f rows)
      = update_where ?sel (\<lambda>r. r\<lparr>o_dispatch_version := Suc (o_dispatch_version r), o_sort_procurement := S_SENDING\<rparr>) rows" for rows
    by (induction rows) auto
  have again: "find_order t (o_id ord) (d\<lparr>orders := update_where ?sel ?f (orders d), telegram_deliveries := a, next_id := b,
      delivery_items := c, order_items := e\<rparr>) = Some (?f ord)" for a b c e
    using find_order_update[of ?f t "o_id ord" d] assms(2) by (simp add: find_order_def)
  have first: "find_order t (o_id ord) (d\<lparr>orders := update_where ?sel ?f (orders d)\<rparr>) = Some (?f ord)"
    using find_order_update[of ?f t "o_id ord" d] assms(2) by simp
  show thesis
    using assms(1) that unfolding dispatch_def Let_def
    by (auto simp: tx_run tx_bind_cases update_order_run assms(2) first create_delivery_def link_items_def send_items_def sent_rows_def Let_def
        again twice tenant_name_def names_for_def new_delivery_def split: if_splits)
qed

lemma queueE:
  assumes "queue_tx C t oid now d = Inr (x, d')" and "active_delivery t oid d = None"
  obtains ord st where "\<not> tenant_frozen t d" and "find_order t oid d = Some ord" and "approved_status (o_status ord)"
    and "to_order_items t oid d \<noteq> []" and "setting_of t d = Some st"
    and "dispatch C t ord (to_order_items t oid d) st now d = Inr (x, d')"
  using assms unfolding queue_tx_def dispatchable_def required_setting_def
  by (auto simp: tx_iff split: option.splits)

lemma find_order_key: "find_order t oid d = Some r \<Longrightarrow> o_id r = oid \<and> o_tenant r = t"
  unfolding find_order_def by (auto dest: find_some_prop)

lemma sent_rows_of_order:
  assumes "wf_store d"
  shows "sent_rows t (to_order_items t oid d) now (order_items d) =
    update_where (\<lambda>i. it_tenant i = t \<and> it_order i = oid \<and> it_status i = TO_ORDER)
      (\<lambda>i. i\<lparr>it_status := SENDING, it_updated_at := Some now\<rparr>) (order_items d)"
  unfolding sent_rows_def
proof (rule update_where_cong)
  fix i assume i: "i \<in> set (order_items d)"
  have unique: "j = i" if "j \<in> set (order_items d)" "it_id j = it_id i" for j
    using assms i that by (auto simp: wf_store_def distinct_map inj_on_def)
  have "it_id i \<in> set (map it_id (to_order_items t oid d)) \<longleftrightarrow> i \<in> set (to_order_items t oid d)"
  proof
    assume "it_id i \<in> set (map it_id (to_order_items t oid d))"
    then obtain j where "j \<in> set (to_order_items t oid d)" "it_id j = it_id i" by auto
    moreover from this have "j = i" by (intro unique) (simp_all add: to_order_items_def items_of_def)
    ultimately show "i \<in> set (to_order_items t oid d)" by simp
  qed simp
  then show "(it_tenant i = t \<and> it_id i \<in> set (map it_id (to_order_items t oid d)) \<and> it_status i = TO_ORDER)
      = (it_tenant i = t \<and> it_order i = oid \<and> it_status i = TO_ORDER)"
    using i by (auto simp: to_order_items_def items_of_def)
qed

lemma queued_again:
  assumes "active_delivery t oid d = None" and "telegram_deliveries d' = telegram_deliveries d @ [x]"
    and "td_tenant x = t" and "td_order x = Some oid" and "td_purpose x = SUPPLIER_ORDER" and "td_status x = TG_PENDING"
    and "\<not> tenant_frozen t d'"
  shows "queue_tx C t oid now d' = Inr (x, d')"
proof -
  have none: "\<not> (td_tenant y = t \<and> td_order y = Some oid \<and> td_purpose y = SUPPLIER_ORDER
      \<and> td_status y \<in> {TG_PENDING, TG_PROCESSING, TG_RETRYABLE})" if "y \<in> set (telegram_deliveries d)" for y
    using assms(1) that unfolding active_delivery_def find_sorted_None by blast
  have "active_delivery t oid d' \<noteq> None"
    using assms(2-6) unfolding active_delivery_def find_sorted_None by auto
  then obtain y where y: "active_delivery t oid d' = Some y" by blast
  then have "y = x" using find_sorted_set[OF y[unfolded active_delivery_def]] none assms(2) by auto
  then show ?thesis using y assms(7) by (simp add: queue_tx_def tx_run)
qed

section \<open>A sample\<close>

text \<open>The sample order with both items to order, a group as the destination, and the
  stores where its delivery waits or is being sent.\<close>

definition copy_sample :: supplier_copy where
  "copy_sample = \<lparr>sc_supplier = ''Supplier'', sc_business_chat = ''Chat'', sc_group = ''Group'', sc_heading = ''New order '',
     sc_no_sku = ''-'', sc_quantity = ''Quantity: '', sc_size = ''Size: '', sc_color = ''Color: '', sc_dash = '' - '', sc_dot = '', ''\<rparr>"

definition supplier_db :: db where
  "supplier_db = sample_db\<lparr>order_items := map (\<lambda>i. i\<lparr>it_status := TO_ORDER\<rparr>) (order_items sample_db),
     tenants := [\<lparr>tn_id = 7, tn_name = ''Shop'', tn_active = True\<rparr>], supplier_settings := [\<lparr>ss_tenant = 7, ss_destination = 40, ss_auto = False\<rparr>],
     telegram_chats := [\<lparr>tc_id = 40, tc_tenant = 7, tc_external = ''-100'', tc_type = ''group'', tc_title = None, tc_route = BOT,
       tc_business = None, tc_observed = 0\<rparr>]\<rparr>"

definition waiting_sample :: telegram_delivery where
  "waiting_sample = new_delivery 50 7 40 20 ''supplier-order:20:1'' ''text'' 0"

definition waiting_db :: db where
  "waiting_db = supplier_db\<lparr>order_items := map (\<lambda>i. i\<lparr>it_status := SENDING\<rparr>) (order_items sample_db), telegram_deliveries := [waiting_sample],
     delivery_items := [\<lparr>di_tenant = 7, di_delivery = 50, di_item = 30\<rparr>, \<lparr>di_tenant = 7, di_delivery = 50, di_item = 31\<rparr>]\<rparr>"

definition sending_db :: db where
  "sending_db = waiting_db\<lparr>telegram_deliveries := [start_processing 9 5 waiting_sample]\<rparr>"

lemmas supplier_simps = sending_db_def waiting_db_def supplier_db_def waiting_sample_def new_delivery_def start_processing_def sample_defs

lemma supplier_wf: "wf_store supplier_db"
  by (simp add: wf_store_def supplier_simps)

lemma supplier_queued:
  obtains d' where "queueSupplierOrder copy_sample True 7 20 5 supplier_db = (Inr (100, TG_PENDING), d')"
proof -
  have "(case queueSupplierOrder copy_sample True 7 20 5 supplier_db of (Inl _, _) \<Rightarrow> False | (Inr r, d') \<Rightarrow> r = (100, TG_PENDING))"
    by code_simp
  then show thesis using that by (auto split: prod.splits sum.splits)
qed

section \<open>Properties of a dispatch\<close>

text \<open>A supplier order that is queued belongs to an approved order with items to order: all
  of them, and no other, go to sending and are linked to one pending delivery to the
  chosen destination under the next version of the order.  Stock and reservations stay.
  As long as that delivery is active, queueing again returns it and changes nothing.\<close>

theorem supplier_order_dispatched:
  assumes "wf_store d" and "active_delivery t oid d = None" and "queueSupplierOrder C True t oid now d = (Inr (did, st), d')"
  shows "\<exists>ord s x. find_order t oid d = Some ord \<and> approved_status (o_status ord) \<and> setting_of t d = Some s
    \<and> to_order_items t oid d \<noteq> [] \<and> did = next_id d \<and> st = TG_PENDING
    \<and> telegram_deliveries d' = telegram_deliveries d @ [x] \<and> td_id x = did \<and> td_destination x = ss_destination s
    \<and> td_key x = supplier_key oid (o_dispatch_version ord + 1) \<and> (\<forall>y\<in>set (telegram_deliveries d). td_tenant y = t \<longrightarrow> td_key y \<noteq> td_key x)
    \<and> td_text x = supplierOrderMessage C oid (tenant_name t d) (to_order_items t oid d) (names_for t (to_order_items t oid d) d)
    \<and> delivery_items d' = delivery_items d @ map (\<lambda>i. \<lparr>di_tenant = t, di_delivery = did, di_item = it_id i\<rparr>) (to_order_items t oid d)
    \<and> order_items d' = update_where (\<lambda>i. it_tenant i = t \<and> it_order i = oid \<and> it_status i = TO_ORDER)
        (\<lambda>i. i\<lparr>it_status := SENDING, it_updated_at := Some now\<rparr>) (order_items d)
    \<and> find_order t oid d' = Some (ord\<lparr>o_dispatch_version := o_dispatch_version ord + 1, o_sort_procurement := S_SENDING\<rparr>)
    \<and> products d' = products d \<and> reservations d' = reservations d
    \<and> queueSupplierOrder C True t oid later d' = (Inr (did, TG_PENDING), d')"
proof -
  obtain x where q: "queue_tx C t oid now d = Inr (x, d')" and x: "did = td_id x" "st = td_status x"
    using assms(3) by (auto simp: queueSupplierOrder_def svc_bind_def svc_return_def run_tx_def split: sum.splits prod.splits)
  from queueE[OF q assms(2)] obtain ord s where pre: "\<not> tenant_frozen t d" "find_order t oid d = Some ord"
    "approved_status (o_status ord)" "to_order_items t oid d \<noteq> []" "setting_of t d = Some s"
    "dispatch C t ord (to_order_items t oid d) s now d = Inr (x, d')" by metis
  have oid: "o_id ord = oid" using find_order_key[OF pre(2)] by simp
  from dispatchE[OF pre(6)] oid pre(2) have new: "x = new_delivery (next_id d) t (ss_destination s) oid (supplier_key oid (o_dispatch_version ord + 1))
      (supplierOrderMessage C oid (tenant_name t d) (to_order_items t oid d) (names_for t (to_order_items t oid d) d)) now"
    and d': "d' = d\<lparr>telegram_deliveries := telegram_deliveries d @ [x], next_id := next_id d + 1,
      delivery_items := delivery_items d @ map (\<lambda>i. \<lparr>di_tenant = t, di_delivery = td_id x, di_item = it_id i\<rparr>) (to_order_items t oid d),
      order_items := sent_rows t (to_order_items t oid d) now (order_items d),
      orders := update_where (\<lambda>r. o_id r = oid \<and> o_tenant r = t)
        (\<lambda>r. r\<lparr>o_dispatch_version := o_dispatch_version r + 1, o_sort_procurement := S_SENDING\<rparr>) (orders d)\<rparr>"
    and key: "\<not> (\<exists>y\<in>set (telegram_deliveries d). td_tenant y = t \<and> td_key y = td_key x)" by metis+
  have "queue_tx C t oid later d' = Inr (x, d')"
    by (rule queued_again[OF assms(2)]) (use pre(1) in \<open>simp_all add: d' new new_delivery_def tenant_frozen_def\<close>)
  then have again: "queueSupplierOrder C True t oid later d' = (Inr (did, TG_PENDING), d')"
    by (simp add: queueSupplierOrder_def svc_bind_def svc_return_def run_tx_def x new new_delivery_def)
  have ord': "find_order t oid d' = Some (ord\<lparr>o_dispatch_version := o_dispatch_version ord + 1, o_sort_procurement := S_SENDING\<rparr>)"
    using find_order_update[of "\<lambda>r. r\<lparr>o_dispatch_version := o_dispatch_version r + 1, o_sort_procurement := S_SENDING\<rparr>" t oid d] pre(2)
    by (simp add: d' find_order_def)
  show ?thesis
    by (intro exI[of _ ord] exI[of _ s] exI[of _ x] conjI)
      (use pre again ord' key x in \<open>simp_all add: d' sent_rows_of_order[OF assms(1)]\<close>, simp_all add: new new_delivery_def)
qed

theorem supplier_order_dispatched_witness:
  "\<exists>d'. queueSupplierOrder copy_sample True 7 20 5 supplier_db = (Inr (100, TG_PENDING), d')
    \<and> queueSupplierOrder copy_sample True 7 20 6 d' = (Inr (100, TG_PENDING), d')
    \<and> delivery_items d' = [\<lparr>di_tenant = 7, di_delivery = 100, di_item = 30\<rparr>, \<lparr>di_tenant = 7, di_delivery = 100, di_item = 31\<rparr>]"
proof -
  obtain d' where run: "queueSupplierOrder copy_sample True 7 20 5 supplier_db = (Inr (100, TG_PENDING), d')" by (rule supplier_queued)
  have "active_delivery 7 20 supplier_db = None" by (simp add: active_delivery_def find_sorted_None supplier_simps)
  from supplier_order_dispatched[OF supplier_wf this run, where later = 6] run show ?thesis
    by (intro exI[of _ d']) (auto simp: to_order_items_def items_of_def supplier_simps)
qed

section \<open>The end of a delivery, unfolded\<close>

lemma update_delivery_run:
  "update_delivery P f d = Inr (count_where P (telegram_deliveries d) = 1, d\<lparr>telegram_deliveries := update_where P f (telegram_deliveries d)\<rparr>)"
  by (simp add: update_delivery_def update_one_def)

lemma delivery_keys: "distinct (map td_id rows) \<Longrightarrow> distinct (map delivery_key rows)"
  by (auto simp: delivery_key_def distinct_map inj_on_def)

lemma tg_owned_key: "tg_owned k lease x \<Longrightarrow> delivery_key x = k"
  by (simp add: tg_owned_def delivery_key_def)

lemma tg_finish_row:
  assumes "distinct (map td_id (telegram_deliveries d))" and "x \<in> set (telegram_deliveries d)" and "tg_owned (t, did) lease x"
  shows "count_where (tg_owned (t, did) lease) (telegram_deliveries d) = 1"
    and "List.find (\<lambda>y. td_id y = did) (update_where (tg_owned (t, did) lease) (write_delivery out) (telegram_deliveries d)) = Some (write_delivery out x)"
proof -
  have x: "td_id x = did" "delivery_key x = (t, did)" using assms(3) by (simp_all add: tg_owned_def delivery_key_def)
  have "List.find (\<lambda>y. delivery_key y = (t, did)) (telegram_deliveries d) = Some x"
    using find_row_unique[OF delivery_keys[OF assms(1)] assms(2)] x(2) by simp
  then show "count_where (tg_owned (t, did) lease) (telegram_deliveries d) = 1"
    using count_row[OF delivery_keys[OF assms(1)], of "tg_owned (t, did) lease" "(t, did)"] tg_owned_key assms(3) by simp
  have "List.find (\<lambda>y. td_id y = did) (telegram_deliveries d) = Some x"
    using find_row_unique[OF assms(1,2)] x(1) by simp
  then show "List.find (\<lambda>y. td_id y = did) (update_where (tg_owned (t, did) lease) (write_delivery out) (telegram_deliveries d)) = Some (write_delivery out x)"
    using assms(3) by (subst find_row_update) (simp_all add: write_delivery_def)
qed

lemma tg_finish_run:
  assumes "distinct (map td_id (telegram_deliveries d))" and "x \<in> set (telegram_deliveries d)" and "tg_owned (t, did) lease x"
  shows "tg_finish alerts (t, did) lease now out d =
    (if td_purpose x \<noteq> SUPPLIER_ORDER \<or> to_status out = TG_RETRYABLE then tx_return True
     else tx_seq (finish_supplier alerts t did (to_status out) (td_order x) now) (tx_return True))
    (d\<lparr>telegram_deliveries := update_where (tg_owned (t, did) lease) (write_delivery out) (telegram_deliveries d)\<rparr>)"
proof -
  have "td_tenant x = t" using assms(3) by (simp add: tg_owned_def)
  then show ?thesis
    using tg_finish_row[OF assms] unfolding tg_finish_def
    by (simp add: tx_bind_def update_delivery_run tx_read_def write_delivery_def)
qed

lemma tg_finish_refused:
  assumes "\<forall>x\<in>set (telegram_deliveries d). \<not> tg_owned k lease x"
  shows "tg_finish alerts k lease now out d = Inr (False, d)"
proof -
  have "count_where (tg_owned k lease) (telegram_deliveries d) = 0" using assms by (simp add: count_where_0_iff)
  moreover have "update_where (tg_owned k lease) (write_delivery out) (telegram_deliveries d) = telegram_deliveries d"
    using assms by (intro update_where_none) blast
  ultimately show ?thesis by (simp add: tg_finish_def tx_bind_def update_delivery_run)
qed

definition settled_rows :: "uuid \<Rightarrow> uuid \<Rightarrow> telegram_status \<Rightarrow> instant \<Rightarrow> db \<Rightarrow> order_item list" where
  "settled_rows t did st now d = update_where (carried t did d) (settle_item st now) (order_items d)"

definition summary_of :: "uuid \<Rightarrow> uuid \<Rightarrow> order_item list \<Rightarrow> bool \<Rightarrow> procurement_summary" where
  "summary_of t oid rows handed = procurementSummaryFor (map it_status (filter (\<lambda>i. it_tenant i = t \<and> it_order i = oid) rows)) handed"

lemma finish_supplierE:
  assumes "finish_supplier alerts t did st (Some oid) now d = Inr ((), d')"
  shows "order_items d' = settled_rows t did st now d \<and> products d' = products d \<and> reservations d' = reservations d
    \<and> delivery_items d' = delivery_items d
    \<and> (\<forall>r. find_order t oid d = Some r \<longrightarrow> find_order t oid d' =
        Some (r\<lparr>o_sort_procurement := summary_of t oid (settled_rows t did st now d) (o_handed_off_at r \<noteq> None)\<rparr>))"
proof -
  let ?d1 = "d\<lparr>order_items := settled_rows t did st now d\<rparr>"
  from assms obtain d2 where refresh: "refresh_summary t oid ?d1 = Inr ((), d2)"
    and alert: "(if st = TG_FAILED then (case alerts of None \<Rightarrow> tx_return () | Some C \<Rightarrow> persist_alert C t SUPPLIER_DELIVERY_FAILED did oid now)
      else tx_return ()) d2 = Inr ((), d')"
    by (auto simp: finish_supplier_def settle_items_def settled_rows_def tx_iff)
  have side: "order_side d' = order_side d2"
    using alert by (auto split: if_splits option.splits dest: persist_alert_frame)
  have same: "find_order t oid ?d1 = find_order t oid d" by (simp add: find_order_def)
  show ?thesis
  proof (cases "find_order t oid d")
    case None
    then have "d2 = ?d1" using refresh by (simp add: refresh_summary_def tx_run same)
    then show ?thesis using side None by (simp add: order_side_def)
  next
    case (Some r)
    let ?f = "\<lambda>x. x\<lparr>o_sort_procurement := summary_of t oid (settled_rows t did st now d) (o_handed_off_at r \<noteq> None)\<rparr>"
    have d2: "d2 = ?d1\<lparr>orders := update_where (\<lambda>r. o_id r = oid \<and> o_tenant r = t) ?f (orders ?d1)\<rparr>"
      using refresh Some same by (simp add: refresh_summary_def tx_run update_order_run items_of_def summary_of_def)
    have "find_order t oid d' = find_order t oid d2" using side by (simp add: order_side_def find_order_def)
    also have "\<dots> = Some (?f r)" unfolding d2 using find_order_update[of ?f t oid ?d1] Some same by simp
    finally show ?thesis using side Some by (simp add: order_side_def d2)
  qed
qed

lemma nothing_carried:
  assumes "st \<in> {TG_SUCCEEDED, TG_FAILED}" and "order_items d' = settled_rows t did st now d" and "delivery_items d' = delivery_items d"
    and "i \<in> set (order_items d')"
  shows "\<not> carried t did d' i"
proof -
  obtain j where "i = (if carried t did d j then settle_item st now j else j)"
    using assms(4) unfolding assms(2) settled_rows_def set_update_where by blast
  then show ?thesis using assms(1,3) by (auto simp: carried_def settle_item_def split: if_splits)
qed

section \<open>Finishing always goes through\<close>

text \<open>Whether an alert can be written: it reads the tenant.\<close>

definition has_tenant :: "uuid \<Rightarrow> db \<Rightarrow> bool" where
  "has_tenant t d \<longleftrightarrow> List.find (\<lambda>x. tn_id x = t) (tenants d) \<noteq> None"

definition appended :: "db \<Rightarrow> db \<Rightarrow> bool" where
  "appended d d' \<longleftrightarrow> (\<exists>ys. telegram_deliveries d' = telegram_deliveries d @ ys) \<and> tenants d' = tenants d"

lemma appended_refl: "appended d d"
  by (simp add: appended_def)

lemma appended_trans: "appended d d1 \<Longrightarrow> appended d1 d2 \<Longrightarrow> appended d d2"
  by (auto simp: appended_def)

lemma alert_members_ok: "\<exists>d'. alert_members C t nm e eid oid now bs en users d = Inr ((), d') \<and> appended d d'"
proof (induction users arbitrary: d)
  case (Cons u users)
  obtain nid d1 where one: "upsert_notification t u e eid oid d = Inr (nid, d1)" "appended d d1"
    by (cases "List.find (\<lambda>n. un_tenant n = t \<and> un_user n = u \<and> un_key n = event_key e eid) (notifications d)")
      (auto simp: upsert_notification_def appended_def)
  have chat: "\<exists>c d2. upsert_private_chat C t ext now d1 = Inr (c, d2) \<and> appended d1 d2" for ext
    by (auto simp: upsert_private_chat_def appended_def split: option.splits)
  have deliver: "\<exists>d3. upsert_alert_delivery t c oid nid msg now d2 = Inr ((), d3) \<and> appended d2 d3" for c msg d2
    by (auto simp: upsert_alert_delivery_def appended_def tx_write_def)
  have "\<exists>d2. (case bs u of None \<Rightarrow> tx_return () | Some b \<Rightarrow> if en u = Some False then tx_return ()
      else tx_bind (upsert_private_chat C t (tb_chat b) now) (\<lambda>c. upsert_alert_delivery t c oid nid (alert_text C nm e oid) now)) d1
      = Inr ((), d2) \<and> appended d1 d2"
  proof (cases "bs u = None \<or> en u = Some False")
    case True
    then show ?thesis by (auto simp: tx_return_def appended_refl split: option.splits)
  next
    case False
    then obtain b where b: "bs u = Some b" by auto
    obtain c d2 where "upsert_private_chat C t (tb_chat b) now d1 = Inr (c, d2)" "appended d1 d2" using chat by blast
    then show ?thesis using False b deliver[of c "alert_text C nm e oid" d2] appended_trans by (fastforce simp: tx_bind_def)
  qed
  then obtain d2 where two: "(case bs u of None \<Rightarrow> tx_return () | Some b \<Rightarrow> if en u = Some False then tx_return ()
      else tx_bind (upsert_private_chat C t (tb_chat b) now) (\<lambda>c. upsert_alert_delivery t c oid nid (alert_text C nm e oid) now)) d1
      = Inr ((), d2)" "appended d1 d2" by blast
  obtain d3 where three: "alert_members C t nm e eid oid now bs en users d2 = Inr ((), d3)" "appended d2 d3" using Cons.IH by blast
  have "alert_members C t nm e eid oid now bs en (u # users) d = Inr ((), d3)"
    unfolding alert_members.simps tx_bind_def[of "upsert_notification t u e eid oid"] tx_seq_def[abs_def]
    by (simp add: one(1)) (simp add: tx_bind_def[of "case_option _ _ _"] two(1) three(1))
  then show ?case using one(2) two(2) three(2) appended_trans by blast
qed (simp add: appended_refl)

lemma persist_alert_ok:
  assumes "has_tenant t d"
  shows "\<exists>d'. persist_alert C t e eid oid now d = Inr ((), d') \<and> appended d d'"
proof (cases "tenant_frozen t d")
  case True
  then show ?thesis by (simp add: persist_alert_def when_accepting_run appended_refl)
next
  case False
  obtain x where "List.find (\<lambda>x. tn_id x = t) (tenants d) = Some x" using assms by (auto simp: has_tenant_def)
  then show ?thesis using False alert_members_ok by (simp add: persist_alert_def when_accepting_run tx_run)
qed

lemma finish_supplier_ok:
  assumes "has_tenant t d"
  shows "\<exists>d'. finish_supplier alerts t did st oid now d = Inr ((), d') \<and> appended d d'"
proof (cases oid)
  case None
  then show ?thesis by (simp add: finish_supplier_def settle_items_def tx_run appended_def)
next
  case (Some i)
  let ?d1 = "d\<lparr>order_items := settled_rows t did st now d\<rparr>"
  have "\<exists>d2. refresh_summary t i ?d1 = Inr ((), d2) \<and> appended ?d1 d2"
    by (cases "find_order t i ?d1") (simp_all add: refresh_summary_def tx_run update_order_run appended_def)
  then obtain d2 where d2: "refresh_summary t i ?d1 = Inr ((), d2)" "appended ?d1 d2" by blast
  have ten: "has_tenant t d2" using assms d2(2) by (simp add: has_tenant_def appended_def)
  have "\<exists>d'. (if st = TG_FAILED then (case alerts of None \<Rightarrow> tx_return () | Some C \<Rightarrow> persist_alert C t SUPPLIER_DELIVERY_FAILED did i now)
      else tx_return ()) d2 = Inr ((), d') \<and> appended d2 d'"
    using persist_alert_ok[OF ten] by (cases alerts) (auto simp: appended_refl)
  then obtain d' where alert: "(if st = TG_FAILED then (case alerts of None \<Rightarrow> tx_return () | Some C \<Rightarrow> persist_alert C t SUPPLIER_DELIVERY_FAILED did i now)
      else tx_return ()) d2 = Inr ((), d')" "appended d2 d'" by blast
  have "finish_supplier alerts t did st oid now d = Inr ((), d')"
    using d2(1) alert(1) by (simp add: finish_supplier_def settle_items_def settled_rows_def tx_seq_def tx_bind_def tx_write_def Some)
  moreover have "appended d ?d1" by (simp add: appended_def)
  ultimately show ?thesis using d2(2) alert(2) appended_trans by blast
qed

lemma find_conj: "List.find P xs = Some x \<Longrightarrow> Q x \<Longrightarrow> List.find (\<lambda>y. P y \<and> Q y) xs = Some x"
  by (induction xs) (auto split: if_splits)

lemma find_appended: "List.find P xs = Some x \<Longrightarrow> List.find P (xs @ ys) = Some x"
  by (induction xs) auto

text \<open>A worker that owns the row ends the delivery as it wants to.\<close>

lemma tg_end_ok:
  assumes "distinct (map td_id (telegram_deliveries d))" and "x \<in> set (telegram_deliveries d)" and "tg_owned (t, did) lease x"
    and "has_tenant t d"
  shows "\<exists>d'. tg_end alerts (t, did) lease fin out res d = (Inr res, d')
    \<and> List.find (\<lambda>y. td_id y = did) (telegram_deliveries d') = Some (write_delivery out x)"
proof -
  let ?d1 = "d\<lparr>telegram_deliveries := update_where (tg_owned (t, did) lease) (write_delivery out) (telegram_deliveries d)\<rparr>"
  have ten: "has_tenant t ?d1" using assms(4) by (simp add: has_tenant_def)
  obtain d2 where "finish_supplier alerts t did (to_status out) (td_order x) fin ?d1 = Inr ((), d2)" "appended ?d1 d2"
    using finish_supplier_ok[OF ten] by blast
  then have "\<exists>d'. tg_finish alerts (t, did) lease fin out d = Inr (True, d') \<and> appended ?d1 d'"
    unfolding tg_finish_run[OF assms(1-3)] by (auto simp: tx_seq_def tx_bind_def tx_return_def appended_refl)
  then obtain d' where d': "tg_finish alerts (t, did) lease fin out d = Inr (True, d')" "appended ?d1 d'" by blast
  then show ?thesis
    using tg_finish_row(2)[OF assms(1-3), of out] find_appended
    by (auto simp: tg_end_def svc_bind_def svc_return_def run_tx_def appended_def)
qed

section \<open>Properties of deliveries\<close>

text \<open>C12.
  A supplier delivery that ends moves exactly the items it carries: to ordered when it was
  sent, back to ordering, marked as failed, when not.  It carries nothing afterwards, the summary
  of the order is that of its items, and stock and reservations stay.\<close>

theorem supplier_delivery_ends:
  assumes "distinct (map td_id (telegram_deliveries d))" and "x \<in> set (telegram_deliveries d)" and "tg_owned (t, did) lease x"
    and "td_purpose x = SUPPLIER_ORDER" and "td_order x = Some oid" and "to_status out \<in> {TG_SUCCEEDED, TG_FAILED}"
    and "run_tx (tg_finish alerts (t, did) lease now out) d = (Inr updated, d')"
  shows "updated
    \<and> order_items d' = update_where (carried t did d)
        (\<lambda>i. if to_status out = TG_SUCCEEDED then i\<lparr>it_status := ORDERED, it_updated_at := Some now\<rparr>
             else i\<lparr>it_status := TO_ORDER, it_reason := Some DELIVERY_FAILED, it_updated_at := Some now\<rparr>) (order_items d)
    \<and> (\<forall>i\<in>set (order_items d'). \<not> carried t did d' i)
    \<and> (\<forall>r. find_order t oid d = Some r \<longrightarrow> find_order t oid d' =
        Some (r\<lparr>o_sort_procurement := procurementSummaryFor (map it_status (items_of t oid d')) (o_handed_off_at r \<noteq> None)\<rparr>))
    \<and> products d' = products d \<and> reservations d' = reservations d"
proof -
  let ?d1 = "d\<lparr>telegram_deliveries := update_where (tg_owned (t, did) lease) (write_delivery out) (telegram_deliveries d)\<rparr>"
  have "to_status out \<noteq> TG_RETRYABLE" using assms(6) by auto
  then have run: "finish_supplier alerts t did (to_status out) (Some oid) now ?d1 = Inr ((), d')" and updated
    using assms(4,5,7) tg_finish_run[OF assms(1-3), of alerts now out] by (auto simp: tx_iff)
  have rows: "settled_rows t did (to_status out) now ?d1 = settled_rows t did (to_status out) now d"
    by (simp add: settled_rows_def carried_def[abs_def])
  note end_ = finish_supplierE[OF run, unfolded rows]
  have none: "\<forall>i\<in>set (order_items d'). \<not> carried t did d' i"
    using nothing_carried[OF assms(6)] end_ by (simp add: rows)
  have found: "find_order t oid ?d1 = find_order t oid d" by (simp add: find_order_def)
  show ?thesis
    using end_ none \<open>updated\<close> found
    by (simp add: settled_rows_def settle_item_def[abs_def] summary_of_def items_of_def)
qed

theorem supplier_delivery_ends_witness:
  "\<exists>u d'. run_tx (tg_finish None (7, 50) 9 6 (failed_outcome ''TELEGRAM_FORBIDDEN'' 6)) sending_db = (Inr u, d') \<and> u
    \<and> (\<forall>i\<in>set (order_items d'). \<not> carried 7 50 d' i)"
proof -
  have own: "start_processing 9 5 waiting_sample \<in> set (telegram_deliveries sending_db)" "tg_owned (7, 50) 9 (start_processing 9 5 waiting_sample)"
    "distinct (map td_id (telegram_deliveries sending_db))" "td_purpose (start_processing 9 5 waiting_sample) = SUPPLIER_ORDER"
    "td_order (start_processing 9 5 waiting_sample) = Some 20" "to_status (failed_outcome ''TELEGRAM_FORBIDDEN'' 6) \<in> {TG_SUCCEEDED, TG_FAILED}"
    by (simp_all add: tg_owned_def failed_outcome_def supplier_simps)
  have "has_tenant 7 sending_db" by (simp add: has_tenant_def supplier_simps)
  from tg_end_ok[OF own(3,1,2) this, of None 6 "failed_outcome ''TELEGRAM_FORBIDDEN'' 6" T_FAILED]
  obtain u d' where run: "run_tx (tg_finish None (7, 50) 9 6 (failed_outcome ''TELEGRAM_FORBIDDEN'' 6)) sending_db = (Inr u, d')"
    by (auto simp: tg_end_def svc_bind_def split: prod.splits sum.splits)
  from supplier_delivery_ends[OF own(3,1,2,4,5,6) run] run show ?thesis by blast
qed

text \<open>The results of a delivery after \<open>a\<close> attempts.\<close>

definition tg_result :: "nat \<Rightarrow> instant \<Rightarrow> telegram_outcome \<Rightarrow> telegram_result \<Rightarrow> bool" where
  "tg_result a now out res \<longleftrightarrow> (to_status out, res) \<in> {(TG_SUCCEEDED, T_SUCCEEDED), (TG_FAILED, T_FAILED), (TG_RETRYABLE, T_RETRY)}
     \<and> (res = T_RETRY \<longrightarrow> a < 5 \<and> (\<exists>s. 1 \<le> s \<and> s \<le> 3600 \<and> to_next out = Some (now + s * 1000)))"

lemma tg_result_cases:
  "tg_result a now (failed_outcome code now) T_FAILED"
  "tg_result a now \<lparr>to_status = TG_SUCCEEDED, to_provider = p, to_next = None, to_error = None, to_completed = c\<rparr> T_SUCCEEDED"
  "tg_result a now (rate_limited_outcome a after now) (if telegram_max_attempts \<le> a then T_FAILED else T_RETRY)"
  by (auto simp: tg_result_def failed_outcome_def rate_limited_outcome_def retry_seconds_def telegram_max_attempts_def
      intro!: exI[of _ "min 3600 (max 1 (case after of Some s \<Rightarrow> s | None \<Rightarrow> 30))"])

lemma tg_answer_ok:
  assumes "distinct (map td_id (telegram_deliveries d))" and "x \<in> set (telegram_deliveries d)" and "tg_owned (t, did) lease x"
    and "has_tenant t d"
  shows "\<exists>out res d'. tg_answer alerts (t, did) lease now fin a chat answer d = (Inr res, d')
    \<and> List.find (\<lambda>y. td_id y = did) (telegram_deliveries d') = Some (write_delivery out x) \<and> tg_result a now out res"
proof -
  have ok: "\<exists>out' res' d'. tg_end alerts (t, did) lease fin out res d = (Inr res', d')
      \<and> List.find (\<lambda>y. td_id y = did) (telegram_deliveries d') = Some (write_delivery out' x) \<and> tg_result a now out' res'"
    if "tg_result a now out res" for out res
    using tg_end_ok[OF assms, of alerts fin out res] that by blast
  show ?thesis
  proof (cases answer)
    case (Inr r)
    then show ?thesis unfolding tg_answer_def by (cases r) (simp add: ok tg_result_cases)
  next
    case (Inl failure)
    show ?thesis
    proof (cases failure)
      case OtherBotFailure
      then show ?thesis using Inl by (simp add: tg_answer_def ok tg_result_cases)
    next
      case (BotError c after)
      then show ?thesis using Inl ok[OF tg_result_cases(3)] ok[OF tg_result_cases(1)] by (cases c) (simp_all add: tg_answer_def)
    qed
  qed
qed

text \<open>Rows as the code leaves them: a lease is held only while the row is processed.\<close>

definition deliveries_ok :: "db \<Rightarrow> bool" where
  "deliveries_ok d \<longleftrightarrow> distinct (map td_id (telegram_deliveries d))
     \<and> (\<forall>x\<in>set (telegram_deliveries d). td_status x \<noteq> TG_PROCESSING \<longrightarrow> td_lease x = None)"

lemma due_claimable:
  assumes "deliveries_ok d" and "x \<in> set (telegram_deliveries d)" and "tg_due now x"
  shows "tg_claimable (td_tenant x, td_id x) now x"
  using assms by (auto simp: deliveries_ok_def tg_due_def tg_claimable_def)

lemma take_delivery_ok:
  assumes "deliveries_ok d" and "x \<in> set (telegram_deliveries d)" and "tg_claimable k now x"
  shows "take_delivery k lease now d = Inr (Claimed (start_processing lease now x)
      (List.find (\<lambda>c. tc_id c = td_destination x) (telegram_chats d)),
    d\<lparr>telegram_deliveries := update_where (tg_claimable k now) (start_processing lease now) (telegram_deliveries d)\<rparr>)"
proof -
  let ?rows = "telegram_deliveries d"
  let ?new = "update_where (tg_claimable k now) (start_processing lease now) ?rows"
  have dist: "distinct (map delivery_key ?rows)" using assms(1) delivery_keys by (simp add: deliveries_ok_def)
  have key: "delivery_key x = k" using assms(3) by (simp add: tg_claimable_def delivery_key_def)
  have at: "List.find (\<lambda>y. delivery_key y = k) ?rows = Some x" using find_row_unique[OF dist assms(2)] key by simp
  have one: "count_where (tg_claimable k now) ?rows = 1"
    using count_row[OF dist, of "tg_claimable k now" k] at assms(3) by (simp add: tg_claimable_def delivery_key_def)
  have at': "List.find (\<lambda>y. delivery_key y = k) ?new = Some (start_processing lease now x)"
    using at assms(3) by (subst find_row_update) (simp_all add: delivery_key_def start_processing_def)
  have own: "tg_owned k lease (start_processing lease now x)"
    using assms(3) by (simp add: tg_owned_def tg_claimable_def start_processing_def)
  have dist': "distinct (map delivery_key ?new)"
    using dist by (simp add: map_update_where delivery_key_def start_processing_def)
  have only: "y = start_processing lease now x" if "y \<in> set ?new" "tg_owned k lease y" for y
    using find_row_unique[OF dist' that(1)] tg_owned_key[OF that(2)] at' by simp
  obtain z where "List.find (tg_owned k lease) ?new = Some z"
    using own find_row[OF at'] find_None_iff[of "tg_owned k lease" ?new] by (cases "List.find (tg_owned k lease) ?new") auto
  moreover from this have "z = start_processing lease now x" using only find_some_set find_some_prop by metis
  ultimately show ?thesis
    using one by (simp add: take_delivery_def tx_bind_def update_delivery_run tx_read_def start_processing_def[of lease now x])
qed

lemma resolve_ok:
  assumes "deliveries_ok d" and "x \<in> set (telegram_deliveries d)"
  shows "run_tx (resolveTelegramDeliveryAuthority (td_id x)) d = (Inr (Some (authority_of x)), d)"
proof -
  have "filter (\<lambda>y. td_id y = td_id x) rows = [x]" if "distinct (map td_id rows)" "x \<in> set rows" for rows
    using that by (induction rows) (auto simp: filter_empty_conv image_iff)
  then have "filter (\<lambda>y. td_id y = td_id x) (telegram_deliveries d) = [x]" using assms by (simp add: deliveries_ok_def)
  then show ?thesis
    by (simp add: resolveTelegramDeliveryAuthority_def resolveTelegramDeliveryAuthorities_def
        worker_telegram_tenants_for_deliveries_def tx_bind_def tx_seq_def tx_when_def tx_read_def tx_return_def
        run_tx_def authority_of_def)
qed



section \<open>A frozen tenant\<close>

text \<open>A supplier order that is due while its tenant is frozen fails for good, but the items it
  carries stay in sending: even when the freeze is lifted the delivery is never taken up
  again and no manual change of their status is accepted.\<close>

theorem frozen_delivery_strands:
  assumes "deliveries_ok d" and "x \<in> set (telegram_deliveries d)" and "td_purpose x = SUPPLIER_ORDER"
    and "td_status x \<in> {TG_PENDING, TG_RETRYABLE, TG_PROCESSING}" and "tenant_frozen (td_tenant x) d"
    and "i \<in> set (order_items d)" and "carried (td_tenant x) (td_id x) d i" and "distinct (map it_id (order_items d))"
    and "process_telegram client alerts (td_id x) lease now fin env d = (r, d')"
  shows "r = Inr T_FROZEN \<and> order_items d' = order_items d \<and> carried (td_tenant x) (td_id x) d' i
    \<and> (\<forall>y\<in>set (telegram_deliveries d'). td_id y = td_id x \<longrightarrow> td_status y = TG_FAILED \<and> (\<forall>k t. \<not> tg_claimable k t y))
    \<and> (\<forall>requests st. st \<noteq> SENDING \<longrightarrow> \<not> tenant_frozen (td_tenant x) (d'\<lparr>lifecycle_requests := requests\<rparr>) \<longrightarrow>
        setItemStatus (td_tenant x) (it_order i) (it_id i) st actor released later (d'\<lparr>lifecycle_requests := requests\<rparr>)
          = Inl (InvalidProcurementTransition SENDING st))"
proof -
  let ?k = "(td_tenant x, td_id x)"
  let ?P = "\<lambda>y. (td_tenant y, td_id y) = ?k \<and> td_status y \<in> {TG_PENDING, TG_RETRYABLE, TG_PROCESSING}"
  let ?f = "\<lambda>y. y\<lparr>td_status := TG_FAILED, td_error := Some ''TENANT_LIFECYCLE_FROZEN'', td_completed := Some now,
      td_lease := None, td_lease_expires := None\<rparr>"
  let ?d1 = "d\<lparr>telegram_deliveries := update_where ?P ?f (telegram_deliveries d)\<rparr>"
  have resolved: "run_tx (resolveTelegramDeliveryAuthority (td_id x)) d = (Inr (Some (authority_of x)), d)"
    by (rule resolve_ok[OF assms(1,2)])
  have "List.find (\<lambda>y. delivery_key y = ?k) (telegram_deliveries d) = Some x"
    using find_row_unique[OF delivery_keys assms(2)] assms(1) by (simp add: deliveries_ok_def delivery_key_def)
  then have frozen: "run_tx (tg_claim ?k lease now) d = (Inr Frozen, ?d1)"
    using assms(5) by (simp add: tg_claim_def tx_bind_def tx_read_def tx_return_def when_accepting_run run_tx_def fail_frozen_def update_delivery_run)
  then have run: "r = Inr T_FROZEN" "d' = ?d1"
    using assms(9) unfolding process_telegram_def svc_bind_def resolved by (simp_all add: authority_of_def svc_return_def frozen)
  have rows: "td_status y = TG_FAILED" if y: "y \<in> set (telegram_deliveries d')" "td_id y = td_id x" for y
  proof -
    obtain z where z: "z \<in> set (telegram_deliveries d)" "y = (if ?P z then ?f z else z)"
      using y(1) unfolding run(2) by (auto simp: set_update_where)
    then have "z = x" using y(2) assms(1,2) by (auto simp: deliveries_ok_def distinct_map inj_on_def split: if_splits)
    then show ?thesis using z(2) assms(4) by simp
  qed
  have i: "it_tenant i = td_tenant x" "it_status i = SENDING" using assms(7) by (simp_all add: carried_def)
  have "List.find (\<lambda>j. it_id j = it_id i \<and> (it_order j = it_order i \<and> it_tenant j = td_tenant x)) (order_items d) = Some i"
    using i(1) by (intro find_conj[OF find_row_unique[OF assms(8,6)]]) simp
  then have found: "find_item (td_tenant x) (it_order i) (it_id i) (d'\<lparr>lifecycle_requests := requests\<rparr>) = Some i" for requests
    by (simp add: find_item_def run(2))
  have refused: "setItemStatus (td_tenant x) (it_order i) (it_id i) st actor released later (d'\<lparr>lifecycle_requests := requests\<rparr>)
      = Inl (InvalidProcurementTransition SENDING st)"
    if "st \<noteq> SENDING" "\<not> tenant_frozen (td_tenant x) (d'\<lparr>lifecycle_requests := requests\<rparr>)" for requests st
    using that i(2) by (simp add: setItemStatus_def tx_run found)
  have "carried (td_tenant x) (td_id x) d' i" "order_items d' = order_items d"
    using assms(7) by (simp_all add: run(2) carried_def)
  moreover have "\<forall>y\<in>set (telegram_deliveries d'). td_id y = td_id x \<longrightarrow> td_status y = TG_FAILED \<and> (\<forall>k t. \<not> tg_claimable k t y)"
    using rows by (simp add: tg_claimable_def)
  ultimately show ?thesis using refused run(1) by blast
qed

theorem frozen_delivery_strands_witness:
  "fst (process_telegram (\<lambda>_ _ _. Inr (''1'', ''-100'')) None 50 9 5 6 (\<lambda>d. d) (waiting_db\<lparr>lifecycle_requests := lifecycle_requests frozen_sample\<rparr>))
    = Inr T_FROZEN"
proof -
  let ?d = "waiting_db\<lparr>lifecycle_requests := lifecycle_requests frozen_sample\<rparr>"
  let ?i = "(sample_item 30 7 20 ''A'' 4)\<lparr>it_status := SENDING\<rparr>"
  have "deliveries_ok ?d" "waiting_sample \<in> set (telegram_deliveries ?d)" "td_purpose waiting_sample = SUPPLIER_ORDER"
    "td_status waiting_sample \<in> {TG_PENDING, TG_RETRYABLE, TG_PROCESSING}" "tenant_frozen (td_tenant waiting_sample) ?d"
    "?i \<in> set (order_items ?d)" "carried (td_tenant waiting_sample) (td_id waiting_sample) ?d ?i" "distinct (map it_id (order_items ?d))"
    using frozen_sample by (simp_all add: deliveries_ok_def tenant_frozen_def carried_def supplier_simps)
  note s = frozen_delivery_strands[OF this, of "\<lambda>_ _ _. Inr (''1'', ''-100'')" None 9 5 6 "\<lambda>d. d"]
  show ?thesis
    using s[OF prod.collapse[symmetric]] by (simp add: waiting_sample_def new_delivery_def)
qed

end
