(* ===== verification/Shipments.thy ===== *)
theory Shipments
  imports Order_Views Leases "HOL-Library.Product_Lexorder"
begin

text \<open>
  The workers of shipments (\<open>apps/worker/src/delivery\<close>): the creation of the document of
  the carrier, the synchronization of its status, the cancellation, the reconciler that
  queues them, and the functions of the database it asks
  (\<open>migrations/20261001090000_delivery_rls\<close>).  The clients of the carriers are
  parameters; so is the service for Ukrposhta, which other files hold.
\<close>

section \<open>Whose shipment\<close>

definition worker_delivery_tenants_for_shipments :: "uuid list \<Rightarrow> (uuid \<times> uuid) list dbtx" where
  "worker_delivery_tenants_for_shipments ids =
     tx_seq (tx_when (length ids < 1 \<or> 50 < length ids) (Plain ''shipment id batch must contain between 1 and 50 entries''))
       (tx_read (\<lambda>d. map (\<lambda>s. (sh_id s, sh_tenant s)) (sort_key sh_id (filter (\<lambda>s. sh_id s \<in> set ids) (shipments d)))))"

definition resolveShipmentTenants :: "uuid list \<Rightarrow> (uuid \<times> uuid) list dbtx" where
  "resolveShipmentTenants ids =
     tx_seq (tx_when (length ids < 1 \<or> 50 < length ids)
         (Plain ''Shipment authority lookup must contain between 1 and 50 identifiers''))
       (worker_delivery_tenants_for_shipments ids)"

definition resolveShipmentTenant :: "uuid \<Rightarrow> uuid option dbtx" where
  "resolveShipmentTenant sid = tx_bind (resolveShipmentTenants [sid]) (\<lambda>rows. tx_return (map_of (rev rows) sid))"

section \<open>Rows\<close>

definition find_shipment :: "uuid \<Rightarrow> uuid \<Rightarrow> db \<Rightarrow> shipment option" where
  "find_shipment t sid d = List.find (\<lambda>s. sh_id s = sid \<and> sh_tenant s = t) (shipments d)"

definition credential_of :: "shipment \<Rightarrow> db \<Rightarrow> string option" where
  "credential_of s d = map_option dc_credential (List.find (\<lambda>c. dc_id c = sh_connection s) (delivery_connections d))"

text \<open>\<open>shipmentAttempt.findFirst\<close> with the highest version first, its shipment and the
  credential of its connection.\<close>

definition find_attempt :: "uuid \<Rightarrow> (shipment_attempt \<Rightarrow> bool) \<Rightarrow> db \<Rightarrow> (shipment_attempt \<times> shipment \<times> string) option" where
  "find_attempt t P d = (case find_sorted (\<lambda>a. - int (sa_version a)) (\<lambda>a. sa_tenant a = t \<and> P a) (attempts_rows d) of
       None \<Rightarrow> None
     | Some a \<Rightarrow> (case find_shipment t (sa_shipment a) d of
           None \<Rightarrow> None
         | Some s \<Rightarrow> map_option (\<lambda>c. (a, s, c)) (credential_of s d)))"

text \<open>\<open>shipment.update\<close> by the identifier, which throws when there is none; the carrier's
  document is unique per tenant and provider.\<close>

definition update_shipment :: "uuid \<Rightarrow> (shipment \<Rightarrow> shipment) \<Rightarrow> unit dbtx" where
  "update_shipment sid f = (\<lambda>d. case List.find (\<lambda>s. sh_id s = sid) (shipments d) of
       None \<Rightarrow> Inl RecordNotFound
     | Some s \<Rightarrow>
         if sh_document (f s) \<noteq> None \<and> any_row (\<lambda>x. sh_id x \<noteq> sid \<and> sh_tenant x = sh_tenant s
              \<and> sh_provider x = sh_provider s \<and> sh_document x = sh_document (f s)) (shipments d)
         then Inl UniqueViolation
         else Inr ((), d\<lparr>shipments := update_where (\<lambda>s. sh_id s = sid) f (shipments d)\<rparr>))"

definition update_shipments :: "(shipment \<Rightarrow> bool) \<Rightarrow> (shipment \<Rightarrow> shipment) \<Rightarrow> unit dbtx" where
  "update_shipments P f = tx_write (\<lambda>d. d\<lparr>shipments := update_where P f (shipments d)\<rparr>)"

definition create_event :: "uuid \<Rightarrow> uuid \<Rightarrow> shipment_status option \<Rightarrow> string \<Rightarrow> instant \<Rightarrow> unit dbtx" where
  "create_event t sid st code at_time = tx_write (\<lambda>d. d\<lparr>status_events := status_events d @
     [\<lparr>se_tenant = t, se_shipment = sid, se_status = st, se_code = code, se_at = at_time\<rparr>]\<rparr>)"

section \<open>The lease of an attempt\<close>

definition shipment_lease_ms :: int where
  "shipment_lease_ms = 60000"

definition shipment_max_attempts :: nat where
  "shipment_max_attempts = 5"

text \<open>A claim compares with what has been read: the status and the lease of the attempt.\<close>

definition unchanged_attempt :: "shipment_attempt \<Rightarrow> uuid option \<Rightarrow> shipment_attempt \<Rightarrow> bool" where
  "unchanged_attempt a lease x \<longleftrightarrow> sa_id x = sa_id a \<and> sa_status x = sa_status a \<and> sa_lease x = lease"

definition start_attempt :: "uuid \<Rightarrow> instant \<Rightarrow> shipment_attempt \<Rightarrow> shipment_attempt" where
  "start_attempt lease now x = x\<lparr>sa_status := AT_PROCESSING, sa_lease := Some lease, sa_lease_expires := Some (now + shipment_lease_ms),
     sa_last := Some now, sa_attempts := sa_attempts x + 1\<rparr>"

definition sa_owned :: "uuid \<Rightarrow> uuid \<Rightarrow> shipment_attempt \<Rightarrow> bool" where
  "sa_owned aid lease x \<longleftrightarrow> sa_id x = aid \<and> sa_status x = AT_PROCESSING \<and> sa_lease x = Some lease"

text \<open>What the end of an attempt writes; \<open>None\<close> in the second place keeps the time of the
  next one.\<close>

record attempt_outcome =
  ao_status :: attempt_status
  ao_next :: "instant option"
  ao_error :: "string option"
  ao_completed :: "instant option"

definition close_attempt :: "attempt_outcome \<Rightarrow> shipment_attempt \<Rightarrow> shipment_attempt" where
  "close_attempt out x = x\<lparr>sa_status := ao_status out, sa_next := (case ao_next out of Some n \<Rightarrow> n | None \<Rightarrow> sa_next x),
     sa_error := ao_error out, sa_completed := ao_completed out, sa_lease := None, sa_lease_expires := None\<rparr>"

definition working_lease :: "shipment_attempt \<Rightarrow> uuid option" where
  "working_lease x = (if sa_status x = AT_PROCESSING then sa_lease x else None)"

text \<open>The claims of one attempt that has been read as \<open>a\<close> with the lease \<open>held\<close>.\<close>

definition claims_as :: "shipment_attempt \<Rightarrow> uuid option \<Rightarrow> uuid \<Rightarrow> instant \<Rightarrow> shipment_attempt \<Rightarrow> bool" where
  "claims_as a held k now x \<longleftrightarrow> sa_id x = k \<and> unchanged_attempt a held x"

interpretation sa: lease_queue sa_id "claims_as a held" working_lease start_attempt close_attempt for a held
  by unfold_locales (auto simp: claims_as_def working_lease_def start_attempt_def close_attempt_def)

lemma sa_owned: "sa_owned = sa.owned"
  by (auto simp: fun_eq_iff sa_owned_def sa.owned_def working_lease_def)

lemma claims_as_read: "claims_as a held (sa_id a) now = unchanged_attempt a held"
  by (auto simp: fun_eq_iff claims_as_def unchanged_attempt_def)

section \<open>The carrier\<close>

datatype carrier_code = NP_UNAUTHORIZED | NP_VALIDATION | NP_RATE_LIMITED | NP_TIMEOUT | NP_NETWORK
  | NP_INVALID_RESPONSE | NP_PROVIDER_ERROR

fun carrier_text :: "carrier_code \<Rightarrow> string" where
  "carrier_text NP_UNAUTHORIZED = ''UNAUTHORIZED''"
| "carrier_text NP_VALIDATION = ''VALIDATION''"
| "carrier_text NP_RATE_LIMITED = ''RATE_LIMITED''"
| "carrier_text NP_TIMEOUT = ''TIMEOUT''"
| "carrier_text NP_NETWORK = ''NETWORK''"
| "carrier_text NP_INVALID_RESPONSE = ''INVALID_RESPONSE''"
| "carrier_text NP_PROVIDER_ERROR = ''PROVIDER_ERROR''"

text \<open>\<open>NovaPoshtaError\<close> or any other exception.\<close>

datatype carrier_failure = Carrier carrier_code | OtherCarrierFailure

text \<open>What a client answers: the document and the tracking number, with the price when it
  is new; the code of a status.  \<open>cl_create\<close> holds the reading of the stored draft too
  (\<open>providerInput\<close>).\<close>

record carrier_client =
  cl_create :: "shipment \<Rightarrow> string \<Rightarrow> carrier_failure + (string \<times> string \<times> string option)"
  cl_find :: "string \<Rightarrow> carrier_failure + (string \<times> string) option"
  cl_status :: "string \<Rightarrow> carrier_failure + string"
  cl_cancel :: "string \<Rightarrow> carrier_failure + unit"

text \<open>\<open>clientFactory(decrypt(credential))\<close> may throw.\<close>

type_synonym carrier = "string \<Rightarrow> app_error + carrier_client"

section \<open>Creation\<close>

datatype create_result = C_CREATED | C_RETRY | C_UNKNOWN | C_FAILED | C_IGNORED | C_FROZEN

definition create_due :: "uuid \<Rightarrow> instant \<Rightarrow> shipment_attempt \<Rightarrow> bool" where
  "create_due sid now a \<longleftrightarrow> sa_shipment a = sid \<and> sa_operation a = OP_CREATE
     \<and> (sa_status a \<in> {AT_PENDING, AT_RETRYABLE, AT_UNKNOWN} \<and> sa_next a \<le> now
        \<or> sa_status a = AT_PROCESSING \<and> (case sa_lease_expires a of Some x \<Rightarrow> x \<le> now | None \<Rightarrow> False))"

definition frozen_code :: string where
  "frozen_code = ''TENANT_LIFECYCLE_FROZEN''"

definition fail_attempt :: "instant \<Rightarrow> shipment_attempt \<Rightarrow> shipment_attempt" where
  "fail_attempt now = close_attempt \<lparr>ao_status = AT_FAILED, ao_next = None, ao_error = Some frozen_code, ao_completed = Some now\<rparr>"

definition fail_shipment :: "uuid \<Rightarrow> uuid \<Rightarrow> unit dbtx" where
  "fail_shipment t sid = update_shipments (\<lambda>s. sh_id s = sid \<and> sh_tenant s = t \<and> sh_status s = SH_CREATING)
     (\<lambda>s. s\<lparr>sh_status := SH_FAILED, sh_error := Some frozen_code\<rparr>)"

text \<open>The result: \<open>None\<close> when the tenant is frozen, or whether the attempt is ours.\<close>

definition claim_create :: "uuid \<Rightarrow> shipment_attempt \<Rightarrow> uuid \<Rightarrow> instant \<Rightarrow> bool option dbtx" where
  "claim_create t a lease now =
     (let claim = tx_bind (update_attempt (unchanged_attempt a (sa_lease a)) (\<lambda>x. (start_attempt lease now x)\<lparr>sa_error := None\<rparr>))
            (\<lambda>one. tx_return (Some one))
      in if sa_status a = AT_UNKNOWN then claim
         else when_accepting t DELIVERY claim
           (tx_bind (update_attempt (\<lambda>x. sa_id x = sa_id a \<and> sa_status x = sa_status a) (fail_attempt now)) (\<lambda>_.
            tx_seq (fail_shipment t (sa_shipment a)) (tx_return None))))"

definition freezeClaimedAttempt :: "uuid \<Rightarrow> uuid \<Rightarrow> uuid \<Rightarrow> uuid \<Rightarrow> instant \<Rightarrow> bool dbtx" where
  "freezeClaimedAttempt t aid sid lease now = when_accepting t DELIVERY (tx_return False)
     (tx_bind (update_attempt (sa_owned aid lease) (fail_attempt now)) (\<lambda>one.
        if one then tx_seq (fail_shipment t sid) (tx_return True) else tx_return True))"

definition mark_created :: "string \<Rightarrow> string \<Rightarrow> string option \<Rightarrow> instant \<Rightarrow> shipment \<Rightarrow> shipment" where
  "mark_created document tracking cost now s = s\<lparr>sh_status := SH_CREATED, sh_document := Some document, sh_tracking := Some tracking,
     sh_cost := or_else cost (sh_cost s), sh_provider_created := Some now, sh_next_check := Some (now + 15 * 60000), sh_error := None\<rparr>"

definition succeed :: "uuid \<Rightarrow> uuid \<Rightarrow> uuid \<Rightarrow> string \<times> string \<times> string option \<Rightarrow> instant \<Rightarrow> create_result dbtx" where
  "succeed aid sid lease result now = (case result of (document, tracking, cost) \<Rightarrow>
     tx_bind (update_attempt (sa_owned aid lease)
         (close_attempt \<lparr>ao_status = AT_SUCCEEDED, ao_next = None, ao_error = None, ao_completed = Some now\<rparr>)) (\<lambda>one.
       if \<not> one then tx_return C_IGNORED
       else tx_seq (update_shipment sid (mark_created document tracking cost now))
         (tx_bind (tx_read (\<lambda>d. List.find (\<lambda>s. sh_id s = sid) (shipments d))) (\<lambda>found. case found of
             None \<Rightarrow> tx_throw RecordNotFound
           | Some s \<Rightarrow> tx_seq (create_event (sh_tenant s) sid (Some SH_CREATED) ''CREATED'' now) (tx_return C_CREATED)))))"

text \<open>The end of an attempt that has not succeeded: \<open>AT_RETRYABLE\<close>, \<open>AT_UNKNOWN\<close> or
  \<open>AT_FAILED\<close>.\<close>

definition finish_create :: "uuid \<Rightarrow> uuid \<Rightarrow> uuid \<Rightarrow> attempt_status \<Rightarrow> string \<Rightarrow> instant \<Rightarrow> int \<Rightarrow> bool dbtx" where
  "finish_create aid sid lease st code now delay =
     tx_bind (update_attempt (sa_owned aid lease) (close_attempt \<lparr>ao_status = st, ao_next = Some (now + delay), ao_error = Some code,
         ao_completed = (if st = AT_FAILED then Some now else None)\<rparr>)) (\<lambda>one.
       if \<not> one then tx_return False
       else tx_seq (update_shipment sid (\<lambda>s. s\<lparr>sh_status := (if st = AT_FAILED then SH_FAILED else SH_CREATING), sh_error := Some code\<rparr>))
         (tx_return True))"

definition end_create :: "uuid \<Rightarrow> uuid \<Rightarrow> uuid \<Rightarrow> attempt_status \<Rightarrow> string \<Rightarrow> instant \<Rightarrow> int \<Rightarrow> create_result dbservice" where
  "end_create aid sid lease st code now delay = svc_bind (run_tx (finish_create aid sid lease st code now delay)) (\<lambda>updated.
     svc_return (if \<not> updated then C_IGNORED else if st = AT_RETRYABLE then C_RETRY
       else if st = AT_UNKNOWN then C_UNKNOWN else C_FAILED))"

definition create_delay :: "nat \<Rightarrow> int" where
  "create_delay attempts = min (15 * 60000) (30000 * 2 ^ attempts)"

text \<open>The catch block; \<open>attempts\<close> is the count that the claim has read.\<close>

definition create_failed :: "uuid \<Rightarrow> uuid \<Rightarrow> uuid \<Rightarrow> nat \<Rightarrow> instant \<Rightarrow> carrier_failure \<Rightarrow> create_result dbservice" where
  "create_failed aid sid lease attempts now failure = (case failure of
       OtherCarrierFailure \<Rightarrow> end_create aid sid lease AT_FAILED ''SHIPMENT_CREATE_FAILED'' now 0
     | Carrier c \<Rightarrow>
         if c \<in> {NP_TIMEOUT, NP_NETWORK, NP_PROVIDER_ERROR}
         then end_create aid sid lease AT_UNKNOWN ''NOVA_POSHTA_OUTCOME_UNKNOWN'' now 60000
         else if c = NP_RATE_LIMITED \<and> attempts + 1 < shipment_max_attempts
         then end_create aid sid lease AT_RETRYABLE ''NOVA_POSHTA_RATE_LIMITED'' now (create_delay attempts)
         else end_create aid sid lease AT_FAILED (''NOVA_POSHTA_'' @ carrier_text c) now 0)"

text \<open>The try block.  \<open>env\<close>: what others commit while the carrier works.  A statement of
  the database that fails in it is an exception like any other.\<close>

definition record_created :: "uuid \<Rightarrow> uuid \<Rightarrow> uuid \<Rightarrow> nat \<Rightarrow> string \<times> string \<times> string option \<Rightarrow> instant \<Rightarrow> create_result dbservice" where
  "record_created aid sid lease attempts result now = svc_try (run_tx (succeed aid sid lease result now))
     (\<lambda>e. create_failed aid sid lease attempts now OtherCarrierFailure)"

definition client_ref :: "shipment \<Rightarrow> shipment_attempt \<Rightarrow> string" where
  "client_ref s a = ''shipment:'' @ decimal_digits (sh_id s) @ '':'' @ decimal_digits (sa_version a)"

text \<open>A new document is ordered only in a tenant that takes mutations.\<close>

definition order_document :: "carrier_client \<Rightarrow> uuid \<Rightarrow> shipment_attempt \<Rightarrow> shipment \<Rightarrow> uuid \<Rightarrow> instant \<Rightarrow> (db \<Rightarrow> db) \<Rightarrow> create_result dbservice" where
  "order_document client t a s lease now env =
     svc_bind (run_tx (freezeClaimedAttempt t (sa_id a) (sh_id s) lease now)) (\<lambda>frozen.
       if frozen then svc_return C_FROZEN
       else (\<lambda>d. case cl_create client s (client_ref s a) of
           Inl failure \<Rightarrow> create_failed (sa_id a) (sh_id s) lease (sa_attempts a) now failure (env d)
         | Inr result \<Rightarrow> record_created (sa_id a) (sh_id s) lease (sa_attempts a) result now (env d)))"

text \<open>\<open>env0\<close>: what others commit during the look-up of an attempt whose outcome is
  unknown.\<close>

definition create_claimed :: "carrier_client \<Rightarrow> uuid \<Rightarrow> shipment_attempt \<Rightarrow> shipment \<Rightarrow> uuid \<Rightarrow> instant \<Rightarrow> (db \<Rightarrow> db) \<Rightarrow> (db \<Rightarrow> db) \<Rightarrow> create_result dbservice" where
  "create_claimed client t a s lease now env0 env =
     (if sa_status a = AT_UNKNOWN
      then (\<lambda>d. case cl_find client (client_ref s a) of
          Inl failure \<Rightarrow> create_failed (sa_id a) (sh_id s) lease (sa_attempts a) now failure (env0 d)
        | Inr (Some (document, tracking)) \<Rightarrow>
            record_created (sa_id a) (sh_id s) lease (sa_attempts a) (document, tracking, None) now (env0 d)
        | Inr None \<Rightarrow> order_document client t a s lease now env (env0 d))
      else order_document client t a s lease now env)"

definition process_create :: "carrier \<Rightarrow> (uuid \<Rightarrow> create_result dbservice) option \<Rightarrow> uuid \<Rightarrow> uuid \<Rightarrow> instant \<Rightarrow> (db \<Rightarrow> db) \<Rightarrow> (db \<Rightarrow> db) \<Rightarrow> create_result dbservice" where
  "process_create carrier ukrposhta sid lease now env0 env =
     svc_bind (run_tx (resolveShipmentTenant sid)) (\<lambda>found. case found of
         None \<Rightarrow> svc_return C_IGNORED
       | Some t \<Rightarrow> svc_bind (run_tx (tx_read (find_attempt t (create_due sid now)))) (\<lambda>candidate. case candidate of
             None \<Rightarrow> svc_return C_IGNORED
           | Some (a, s, credential) \<Rightarrow>
               if sh_status s \<noteq> SH_CREATING then svc_return C_IGNORED
               else if sh_provider s = UKRPOSHTA then (case ukrposhta of None \<Rightarrow> svc_return C_IGNORED | Some u \<Rightarrow> u sid)
               else svc_bind (run_tx (claim_create t a lease now)) (\<lambda>claimed. case claimed of
                   None \<Rightarrow> svc_return C_FROZEN
                 | Some ours \<Rightarrow>
                     if \<not> ours then svc_return C_IGNORED
                     else (case carrier credential of
                         Inl e \<Rightarrow> svc_throw e
                       | Inr client \<Rightarrow> create_claimed client t a s lease now env0 env))))"

section \<open>Status\<close>

definition mapNovaPoshtaStatus :: "string \<Rightarrow> shipment_status option" where
  "mapNovaPoshtaStatus code =
     (if code \<in> {''1'', ''2'', ''3''} then Some SH_CREATED
      else if code \<in> {''4'', ''5'', ''6'', ''7'', ''8'', ''12'', ''101'', ''102'', ''103'', ''104''} then Some SH_IN_TRANSIT
      else if code \<in> {''9'', ''10'', ''11''} then Some SH_DELIVERED
      else if code \<in> {''105'', ''106''} then Some SH_RETURNING
      else if code \<in> {''107'', ''108''} then Some SH_RETURNED
      else None)"

definition terminal :: "shipment_status \<Rightarrow> bool" where
  "terminal st \<longleftrightarrow> st \<in> {SH_DELIVERED, SH_RETURNED, SH_CANCELLED, SH_FAILED}"

datatype status_result = S_UPDATED | S_RETRY | S_IGNORED

text \<open>The attempts that both the synchronization and the cancellation take up.\<close>

definition open_attempt :: "attempt_operation \<Rightarrow> uuid \<Rightarrow> instant \<Rightarrow> shipment_attempt \<Rightarrow> bool" where
  "open_attempt op sid now a \<longleftrightarrow> sa_shipment a = sid \<and> sa_operation a = op
     \<and> sa_status a \<in> {AT_PENDING, AT_RETRYABLE} \<and> sa_next a \<le> now"

definition claim_open :: "shipment_attempt \<Rightarrow> uuid \<Rightarrow> instant \<Rightarrow> bool dbtx" where
  "claim_open a lease now = update_attempt (unchanged_attempt a None) (start_attempt lease now)"

text \<open>The end of an attempt whose error is kept.\<close>

definition complete_attempt :: "instant \<Rightarrow> shipment_attempt \<Rightarrow> shipment_attempt" where
  "complete_attempt now x = close_attempt \<lparr>ao_status = AT_SUCCEEDED, ao_next = None, ao_error = sa_error x, ao_completed = Some now\<rparr> x"

definition last_event :: "uuid \<Rightarrow> uuid \<Rightarrow> db \<Rightarrow> status_event option" where
  "last_event t sid d = find_sorted (\<lambda>e. - se_at e) (\<lambda>e. se_tenant e = t \<and> se_shipment e = sid) (status_events d)"

definition mark_status :: "shipment_status \<Rightarrow> string \<Rightarrow> instant \<Rightarrow> shipment \<Rightarrow> shipment" where
  "mark_status next_status code now s = s\<lparr>sh_status := next_status, sh_last_code := Some code, sh_last_checked := Some now,
     sh_next_check := (if terminal next_status then None else Some (now + 15 * 60000)),
     sh_delivered := (if next_status = SH_DELIVERED then Some now else sh_delivered s),
     sh_version := sh_version s + 1, sh_error := None\<rparr>"

definition store_status :: "shipment_attempt \<Rightarrow> shipment \<Rightarrow> uuid \<Rightarrow> instant \<Rightarrow> string \<Rightarrow> unit dbtx" where
  "store_status a s lease now code =
     (let mapped = mapNovaPoshtaStatus code; next_status = (case mapped of Some x \<Rightarrow> x | None \<Rightarrow> sh_status s) in
     tx_bind (update_attempt (sa_owned (sa_id a) lease) (complete_attempt now)) (\<lambda>one.
       if \<not> one then tx_return ()
       else tx_bind (tx_read (last_event (sa_tenant a) (sa_shipment a))) (\<lambda>last.
         tx_seq (if map_option se_code last = Some code then tx_return ()
                 else create_event (sa_tenant a) (sa_shipment a) mapped code now)
           (update_shipment (sa_shipment a) (mark_status next_status code now)))))"

definition retryable_failure :: "carrier_failure \<Rightarrow> bool" where
  "retryable_failure failure = (case failure of OtherCarrierFailure \<Rightarrow> True
     | Carrier c \<Rightarrow> c \<in> {NP_RATE_LIMITED, NP_TIMEOUT, NP_NETWORK, NP_PROVIDER_ERROR})"

text \<open>The catch block of both; the result: whether it is to be tried again.\<close>

definition attempt_failed :: "uuid \<Rightarrow> uuid \<Rightarrow> instant \<Rightarrow> string \<Rightarrow> carrier_failure \<Rightarrow> bool dbservice" where
  "attempt_failed aid lease now other failure =
     svc_bind (run_tx (update_attempt (sa_owned aid lease) (close_attempt
         \<lparr>ao_status = (if retryable_failure failure then AT_RETRYABLE else AT_FAILED), ao_next = Some (now + 60000),
          ao_error = Some (case failure of Carrier c \<Rightarrow> ''NOVA_POSHTA_'' @ carrier_text c | OtherCarrierFailure \<Rightarrow> other),
          ao_completed = (if retryable_failure failure then None else Some now)\<rparr>))) (\<lambda>_.
       svc_return (retryable_failure failure))"

definition sync_claimed :: "carrier \<Rightarrow> shipment_attempt \<Rightarrow> shipment \<Rightarrow> string \<Rightarrow> string \<Rightarrow> uuid \<Rightarrow> instant \<Rightarrow> (db \<Rightarrow> db) \<Rightarrow> status_result dbservice" where
  "sync_claimed carrier a s credential tracking lease now env =
     (let failed = (\<lambda>failure. svc_bind (attempt_failed (sa_id a) lease now ''SHIPMENT_STATUS_FAILED'' failure) (\<lambda>again.
            svc_return (if again then S_RETRY else S_IGNORED)))
      in case carrier credential of
          Inl e \<Rightarrow> failed OtherCarrierFailure
        | Inr client \<Rightarrow> (\<lambda>d. case cl_status client tracking of
            Inl failure \<Rightarrow> failed failure (env d)
          | Inr code \<Rightarrow> svc_try (svc_bind (run_tx (store_status a s lease now code)) (\<lambda>_. svc_return S_UPDATED))
              (\<lambda>e. failed OtherCarrierFailure) (env d)))"

definition process_status :: "carrier \<Rightarrow> uuid \<Rightarrow> uuid \<Rightarrow> instant \<Rightarrow> (db \<Rightarrow> db) \<Rightarrow> status_result dbservice" where
  "process_status carrier sid lease now env =
     svc_bind (run_tx (resolveShipmentTenant sid)) (\<lambda>found. case found of
         None \<Rightarrow> svc_return S_IGNORED
       | Some t \<Rightarrow> svc_bind (run_tx (tx_read (find_attempt t (open_attempt OP_STATUS_SYNC sid now)))) (\<lambda>candidate. case candidate of
             None \<Rightarrow> svc_return S_IGNORED
           | Some (a, s, credential) \<Rightarrow> (case non_empty (sh_tracking s) of
               None \<Rightarrow> svc_return S_IGNORED
             | Some tracking \<Rightarrow>
                 if terminal (sh_status s) \<or> sh_provider s = UKRPOSHTA then svc_return S_IGNORED
                 else svc_bind (run_tx (claim_open a lease now)) (\<lambda>ours.
                   if \<not> ours then svc_return S_IGNORED
                   else sync_claimed carrier a s credential tracking lease now env))))"

section \<open>Cancellation\<close>

datatype cancel_result = X_CANCELLED | X_RETRY | X_IGNORED | X_FROZEN

definition claim_cancel :: "uuid \<Rightarrow> shipment_attempt \<Rightarrow> uuid \<Rightarrow> instant \<Rightarrow> bool option dbtx" where
  "claim_cancel t a lease now = when_accepting t DELIVERY
     (tx_bind (claim_open a lease now) (\<lambda>one. tx_return (Some one)))
     (tx_bind (update_attempt (unchanged_attempt a None) (fail_attempt now)) (\<lambda>one.
        if one then tx_seq (update_shipments (\<lambda>s. sh_id s = sa_shipment a \<and> sh_tenant s = t) (\<lambda>s. s\<lparr>sh_error := Some frozen_code\<rparr>))
            (tx_return None)
        else tx_return None))"

definition mark_cancelled :: "instant \<Rightarrow> shipment \<Rightarrow> shipment" where
  "mark_cancelled now s = s\<lparr>sh_status := SH_CANCELLED, sh_cancelled := Some now, sh_next_check := None, sh_error := None,
     sh_version := sh_version s + 1\<rparr>"

definition store_cancel :: "shipment_attempt \<Rightarrow> uuid \<Rightarrow> instant \<Rightarrow> unit dbtx" where
  "store_cancel a lease now =
     tx_bind (update_attempt (sa_owned (sa_id a) lease) (complete_attempt now)) (\<lambda>one.
       if \<not> one then tx_return ()
       else tx_seq (update_shipment (sa_shipment a) (mark_cancelled now))
         (create_event (sa_tenant a) (sa_shipment a) (Some SH_CANCELLED) ''CANCELLED_BY_MANAGER'' now))"

definition cancel_claimed :: "carrier \<Rightarrow> shipment_attempt \<Rightarrow> string \<Rightarrow> string \<Rightarrow> uuid \<Rightarrow> instant \<Rightarrow> (db \<Rightarrow> db) \<Rightarrow> cancel_result dbservice" where
  "cancel_claimed carrier a credential document lease now env =
     (let failed = (\<lambda>failure. svc_bind (attempt_failed (sa_id a) lease now ''SHIPMENT_CANCEL_FAILED'' failure) (\<lambda>again.
            svc_return (if again then X_RETRY else X_IGNORED)))
      in case carrier credential of
          Inl e \<Rightarrow> failed OtherCarrierFailure
        | Inr client \<Rightarrow> (\<lambda>d. case cl_cancel client document of
            Inl failure \<Rightarrow> failed failure (env d)
          | Inr _ \<Rightarrow> svc_try (svc_bind (run_tx (store_cancel a lease now)) (\<lambda>_. svc_return X_CANCELLED))
              (\<lambda>e. failed OtherCarrierFailure) (env d)))"

definition process_cancel :: "carrier \<Rightarrow> (uuid \<Rightarrow> cancel_result dbservice) option \<Rightarrow> uuid \<Rightarrow> uuid \<Rightarrow> instant \<Rightarrow> (db \<Rightarrow> db) \<Rightarrow> cancel_result dbservice" where
  "process_cancel carrier ukrposhta sid lease now env =
     svc_bind (run_tx (resolveShipmentTenant sid)) (\<lambda>found. case found of
         None \<Rightarrow> svc_return X_IGNORED
       | Some t \<Rightarrow> svc_bind (run_tx (tx_read (find_attempt t (open_attempt OP_CANCEL sid now)))) (\<lambda>candidate. case candidate of
             None \<Rightarrow> svc_return X_IGNORED
           | Some (a, s, credential) \<Rightarrow> (case non_empty (sh_document s) of
               None \<Rightarrow> svc_return X_IGNORED
             | Some document \<Rightarrow>
                 if sh_status s = SH_CANCELLED then svc_return X_IGNORED
                 else if sh_provider s = UKRPOSHTA then (case ukrposhta of None \<Rightarrow> svc_return X_IGNORED | Some u \<Rightarrow> u sid)
                 else svc_bind (run_tx (claim_cancel t a lease now)) (\<lambda>claimed. case claimed of
                     None \<Rightarrow> svc_return X_FROZEN
                   | Some ours \<Rightarrow> if \<not> ours then svc_return X_IGNORED
                       else cancel_claimed carrier a credential document lease now env))))"

section \<open>The reconciler\<close>

text \<open>\<open>for (index = 0; index < length; index += n) slice(index, index + n)\<close>.\<close>

function chunks :: "nat \<Rightarrow> 'a list \<Rightarrow> 'a list list" where
  "chunks n xs = (if n = 0 \<or> xs = [] then [] else take n xs # chunks n (drop n xs))"
  by auto
termination by (relation "measure (\<lambda>(n, xs). length xs)") (auto simp: length_greater_0_conv)

declare chunks.simps [simp del]

text \<open>What the reconciler puts into the queue: a failure to do so is ignored.  The hash in
  the name of a job of Ukrposhta is left out.\<close>

datatype shipment_job = JobCreate uuid nat | JobStatus uuid nat | JobStatusUkrposhta "(uuid \<times> nat) list" | JobCancel uuid nat

definition attempt_is_due :: "attempt_operation \<Rightarrow> instant \<Rightarrow> db \<Rightarrow> shipment_attempt \<Rightarrow> bool" where
  "attempt_is_due op now d a \<longleftrightarrow> op \<in> {OP_CREATE, OP_CANCEL} \<and> sa_operation a = op
     \<and> ((sa_status a \<in> {AT_PENDING, AT_RETRYABLE} \<or> op = OP_CREATE \<and> sa_status a = AT_UNKNOWN) \<and> sa_next a \<le> now
        \<or> sa_status a = AT_PROCESSING \<and> (case sa_lease_expires a of Some x \<Rightarrow> x \<le> now | None \<Rightarrow> False))
     \<and> (case find_shipment (sa_tenant a) (sa_shipment a) d of None \<Rightarrow> False | Some s \<Rightarrow> op = OP_CREATE \<longrightarrow> sh_status s = SH_CREATING)"

definition worker_due_shipment_attempts :: "instant \<Rightarrow> attempt_operation \<Rightarrow> nat \<Rightarrow> db \<Rightarrow> (uuid \<times> uuid \<times> nat) list" where
  "worker_due_shipment_attempts now op limit d = map (\<lambda>a. (sa_tenant a, sa_shipment a, sa_version a))
     (take (min (max limit 1) 50) (sort_key (\<lambda>a. (sa_next a, sa_id a)) (filter (attempt_is_due op now d) (attempts_rows d))))"

definition tracked :: "instant \<Rightarrow> shipment \<Rightarrow> bool" where
  "tracked now s \<longleftrightarrow> sh_status s \<in> {SH_CREATED, SH_ACCEPTED, SH_IN_TRANSIT, SH_RETURNING} \<and> sh_tracking s \<noteq> None
     \<and> (case sh_next_check s of Some x \<Rightarrow> x \<le> now | None \<Rightarrow> False)"

text \<open>Identifiers are handed out in the order of creation, which breaks the ties here.  The
  flag: the group of Ukrposhta or the standard one.\<close>

definition worker_due_shipment_statuses :: "instant \<Rightarrow> bool \<Rightarrow> nat \<Rightarrow> db \<Rightarrow> (uuid \<times> uuid \<times> nat) list" where
  "worker_due_shipment_statuses now ukrposhta limit d = map (\<lambda>s. (sh_tenant s, sh_id s, sh_version s))
     (take (min (max limit 1) 250) (sort_key (\<lambda>s. (case sh_next_check s of Some x \<Rightarrow> x | None \<Rightarrow> 0, sh_id s))
       (filter (\<lambda>s. tracked now s \<and> (sh_provider s = UKRPOSHTA) = ukrposhta) (shipments d))))"

text \<open>The upsert of the attempt of a version: an attempt that is there stays as it is.\<close>

definition sync_attempt :: "shipment \<Rightarrow> instant \<Rightarrow> unit dbtx" where
  "sync_attempt s now = (\<lambda>d.
     if any_row (\<lambda>a. sa_tenant a = sh_tenant s \<and> sa_shipment a = sh_id s \<and> sa_operation a = OP_STATUS_SYNC
          \<and> sa_version a = sh_version s) (attempts_rows d)
     then Inr ((), d)
     else Inr ((), d\<lparr>attempts_rows := attempts_rows d @ [\<lparr>sa_id = next_id d, sa_tenant = sh_tenant s, sa_shipment = sh_id s,
            sa_version = sh_version s, sa_operation = OP_STATUS_SYNC, sa_status = AT_PENDING,
            sa_key = ''shipment:status:v1:'' @ decimal_digits (sh_id s) @ '':'' @ decimal_digits (sh_version s),
            sa_hash = sh_hash s, sa_attempts = 0, sa_next = now, sa_last = None, sa_lease = None, sa_lease_expires = None,
            sa_error = None, sa_completed = None\<rparr>], next_id := next_id d + 1\<rparr>))"

definition load_due :: "instant \<Rightarrow> uuid \<times> uuid \<times> nat \<Rightarrow> shipment option dbtx" where
  "load_due now row = (case row of (t, sid, version) \<Rightarrow>
     tx_bind (tx_read (\<lambda>d. List.find (\<lambda>s. sh_id s = sid \<and> sh_tenant s = t \<and> sh_version s = version \<and> tracked now s) (shipments d)))
       (\<lambda>found. case found of
           None \<Rightarrow> tx_return None
         | Some s \<Rightarrow> tx_seq (sync_attempt s now) (tx_return (Some s))))"

fun load_all :: "instant \<Rightarrow> (uuid \<times> uuid \<times> nat) list \<Rightarrow> shipment list dbservice" where
  "load_all now [] = svc_return []"
| "load_all now (row # rows) = svc_bind (run_tx (load_due now row)) (\<lambda>found. svc_bind (load_all now rows) (\<lambda>rest.
     svc_return ((case found of Some s \<Rightarrow> [s] | None \<Rightarrow> []) @ rest)))"

text \<open>\<open>grouping\<close>: the part of the key of a group that the metadata of a shipment give.\<close>

definition status_jobs :: "(shipment \<Rightarrow> string) \<Rightarrow> shipment list \<Rightarrow> shipment_job list" where
  "status_jobs grouping ss =
     map (\<lambda>s. JobStatus (sh_id s) (sh_version s)) (filter (\<lambda>s. sh_provider s \<noteq> UKRPOSHTA) ss) @
     (let us = filter (\<lambda>s. sh_provider s = UKRPOSHTA) ss; key = (\<lambda>s. (sh_tenant s, sh_connection s, grouping s))
      in concat (map (\<lambda>k. map JobStatusUkrposhta (chunks 50 (map (\<lambda>s. (sh_id s, sh_version s)) (filter (\<lambda>s. key s = k) us))))
           (js_set (map key us))))"

definition reconcile_shipments :: "(shipment \<Rightarrow> string) \<Rightarrow> (shipment_job \<Rightarrow> bool) \<Rightarrow> instant \<Rightarrow> (nat \<times> shipment_job list) dbservice" where
  "reconcile_shipments grouping queue now =
     svc_bind (run_tx (tx_read (worker_due_shipment_attempts now OP_CREATE 50))) (\<lambda>creations.
     svc_bind (run_tx (tx_read (worker_due_shipment_statuses now False 50))) (\<lambda>standard.
     svc_bind (run_tx (tx_read (worker_due_shipment_statuses now True 250))) (\<lambda>ukrposhta.
     svc_bind (load_all now (standard @ ukrposhta)) (\<lambda>ss.
     svc_bind (run_tx (tx_read (worker_due_shipment_attempts now OP_CANCEL 50))) (\<lambda>cancellations.
       svc_return (length creations + length ss + length cancellations,
         filter queue (map (\<lambda>(t, sid, version). JobCreate sid version) creations @ status_jobs grouping ss
           @ map (\<lambda>(t, sid, version). JobCancel sid version) cancellations)))))))"

end
