(* ===== verification/Shipments_Props.thy ===== *)
theory Shipments_Props
  imports Shipments Preserve
begin

text \<open>
  Properties of the shipment workers: a claimed creation always ends and the shipment
  agrees with its attempt, issued shipments stay issued whatever the workers do together,
  and what the synchronization of the status leaves behind.
\<close>

section \<open>Rows by their identifier\<close>

definition attempt_at :: "uuid \<Rightarrow> db \<Rightarrow> shipment_attempt option" where
  "attempt_at k d = List.find (\<lambda>a. sa_id a = k) (attempts_rows d)"

definition shipment_at :: "uuid \<Rightarrow> db \<Rightarrow> shipment option" where
  "shipment_at k d = List.find (\<lambda>s. sh_id s = k) (shipments d)"

text \<open>The unique indexes: identifiers, and the documents of a carrier.\<close>

definition wf_shipments :: "db \<Rightarrow> bool" where
  "wf_shipments d \<longleftrightarrow> distinct (map sa_id (attempts_rows d)) \<and> distinct (map sh_id (shipments d))
     \<and> (\<forall>x\<in>set (shipments d). \<forall>y\<in>set (shipments d). sh_id x \<noteq> sh_id y \<longrightarrow> sh_tenant x = sh_tenant y
         \<longrightarrow> sh_provider x = sh_provider y \<longrightarrow> sh_document x = sh_document y \<longrightarrow> sh_document x = None)"

lemma update_attempt_run:
  "update_attempt P f d = Inr (count_where P (attempts_rows d) = 1, d\<lparr>attempts_rows := update_where P f (attempts_rows d)\<rparr>)"
  by (simp add: update_attempt_def update_one_def)

text \<open>The owner of an attempt writes its end.\<close>

lemma close_owned:
  assumes "wf_shipments d" and "attempt_at k d = Some x" and "sa_owned k l x" and "\<And>r. sa_id (f r) = sa_id r"
  shows "\<exists>d1. update_attempt (sa_owned k l) f d = Inr (True, d1) \<and> attempt_at k d1 = Some (f x)
    \<and> d1 = d\<lparr>attempts_rows := attempts_rows d1\<rparr>"
proof -
  have "count_where (sa_owned k l) (attempts_rows d) = 1"
    using count_row[of sa_id "attempts_rows d" "sa_owned k l" k] assms(1,2,3)
    by (simp add: wf_shipments_def attempt_at_def sa_owned_def)
  moreover have "List.find (\<lambda>a. sa_id a = k) (update_where (sa_owned k l) f (attempts_rows d)) = Some (f x)"
    using find_row_update[of sa_id f k "sa_owned k l" "attempts_rows d"] assms(2,3,4) by (simp add: attempt_at_def)
  ultimately show ?thesis unfolding update_attempt_run by (simp add: attempt_at_def)
qed

text \<open>A write to a shipment that is there, and that the unique index of documents allows.\<close>

lemma update_shipment_run:
  assumes "shipment_at sid d = Some s" and "\<And>r. sh_id (f r) = sh_id r"
    and "\<And>x. \<lbrakk>x \<in> set (shipments d); sh_id x \<noteq> sid; sh_tenant x = sh_tenant s; sh_provider x = sh_provider s\<rbrakk>
      \<Longrightarrow> sh_document (f s) = None \<or> sh_document x \<noteq> sh_document (f s)"
  shows "\<exists>d1. update_shipment sid f d = Inr ((), d1) \<and> shipment_at sid d1 = Some (f s) \<and> d1 = d\<lparr>shipments := shipments d1\<rparr>"
proof -
  have "shipment_at sid (d\<lparr>shipments := update_where (\<lambda>s. sh_id s = sid) f (shipments d)\<rparr>) = Some (f s)"
    using find_row_update[of sh_id f sid "\<lambda>s. sh_id s = sid" "shipments d"] assms(1,2) find_row[of sh_id sid "shipments d" s]
    by (simp add: shipment_at_def)
  moreover have "\<not> (sh_document (f s) \<noteq> None \<and> any_row (\<lambda>x. sh_id x \<noteq> sid \<and> sh_tenant x = sh_tenant s
              \<and> sh_provider x = sh_provider s \<and> sh_document x = sh_document (f s)) (shipments d))"
    using assms(3) by (auto simp: any_row_iff)
  ultimately show ?thesis using assms(1) by (simp add: update_shipment_def shipment_at_def)
qed

lemma wf_documents:
  assumes "wf_shipments d" and "shipment_at sid d = Some s" and "x \<in> set (shipments d)" and "sh_id x \<noteq> sid"
    and "sh_tenant x = sh_tenant s" and "sh_provider x = sh_provider s"
  shows "sh_document s = None \<or> sh_document x \<noteq> sh_document s"
  using assms find_row[of sh_id sid "shipments d" s] unfolding wf_shipments_def shipment_at_def by metis

section \<open>Creation\<close>

text \<open>The state in which a worker has claimed the creation of a shipment.\<close>

definition creating :: "uuid \<Rightarrow> uuid \<Rightarrow> uuid \<Rightarrow> uuid \<Rightarrow> db \<Rightarrow> bool" where
  "creating t aid sid lease d \<longleftrightarrow> wf_shipments d \<and> (\<exists>x. attempt_at aid d = Some x \<and> sa_owned aid lease x)
     \<and> (\<exists>y. shipment_at sid d = Some y \<and> sh_status y = SH_CREATING \<and> sh_tenant y = t)"

text \<open>The state in which the attempt has ended as \<open>st\<close> with the next one at \<open>due\<close>, and the
  shipment has the status \<open>ss\<close>.\<close>

definition created_as :: "uuid \<Rightarrow> uuid \<Rightarrow> attempt_status \<Rightarrow> (instant \<Rightarrow> bool) \<Rightarrow> shipment_status \<Rightarrow> db \<Rightarrow> bool" where
  "created_as aid sid st due ss d \<longleftrightarrow> (\<exists>x y. attempt_at aid d = Some x \<and> sa_status x = st \<and> sa_lease x = None \<and> due (sa_next x)
     \<and> shipment_at sid d = Some y \<and> sh_status y = ss \<and> (ss = SH_CREATED \<longrightarrow> sh_tracking y \<noteq> None \<and> sh_document y \<noteq> None
         \<and> sh_next_check y \<noteq> None \<and> (\<exists>e\<in>set (status_events d). se_shipment e = sid \<and> se_status e = Some SH_CREATED)))"

definition creation_end :: "nat \<Rightarrow> instant \<Rightarrow> uuid \<Rightarrow> uuid \<Rightarrow> create_result \<Rightarrow> db \<Rightarrow> bool" where
  "creation_end attempts now aid sid res d = (case res of
       C_CREATED \<Rightarrow> created_as aid sid AT_SUCCEEDED (\<lambda>n. True) SH_CREATED d
     | C_RETRY \<Rightarrow> created_as aid sid AT_RETRYABLE (\<lambda>n. now + 30000 \<le> n \<and> n \<le> now + 15 * 60000) SH_CREATING d
         \<and> attempts + 1 < shipment_max_attempts
     | C_UNKNOWN \<Rightarrow> created_as aid sid AT_UNKNOWN (\<lambda>n. n = now + 60000) SH_CREATING d
     | C_FAILED \<Rightarrow> created_as aid sid AT_FAILED (\<lambda>n. True) SH_FAILED d
     | C_FROZEN \<Rightarrow> created_as aid sid AT_FAILED (\<lambda>n. True) SH_FAILED d \<and> (\<exists>y. shipment_at sid d = Some y \<and> tenant_frozen (sh_tenant y) d)
     | C_IGNORED \<Rightarrow> False)"

text \<open>A service that ends in such a state from every state in which the creation is
  claimed.\<close>

definition ends_creation :: "uuid \<Rightarrow> nat \<Rightarrow> instant \<Rightarrow> uuid \<Rightarrow> uuid \<Rightarrow> uuid \<Rightarrow> create_result dbservice \<Rightarrow> bool" where
  "ends_creation t attempts now aid sid lease m \<longleftrightarrow> (\<forall>d. creating t aid sid lease d \<longrightarrow>
     (\<exists>res d'. m d = (Inr res, d') \<and> creation_end attempts now aid sid res d'))"

definition calm :: "uuid \<Rightarrow> uuid \<Rightarrow> uuid \<Rightarrow> uuid \<Rightarrow> (db \<Rightarrow> db) \<Rightarrow> bool" where
  "calm t aid sid lease env \<longleftrightarrow> (\<forall>d. creating t aid sid lease d \<longrightarrow> creating t aid sid lease (env d))"

lemma ends_after_env: "ends_creation t n now aid sid l m \<Longrightarrow> calm t aid sid l env \<Longrightarrow> ends_creation t n now aid sid l (\<lambda>d. m (env d))"
  by (simp add: ends_creation_def calm_def)

lemma finish_create_run:
  assumes "creating t aid sid lease d"
  shows "\<exists>d'. finish_create aid sid lease st code now delay d = Inr (True, d')
    \<and> created_as aid sid st (\<lambda>n. n = now + delay) (if st = AT_FAILED then SH_FAILED else SH_CREATING) d'"
proof -
  obtain x y where x: "attempt_at aid d = Some x" "sa_owned aid lease x" and y: "shipment_at sid d = Some y" and wf: "wf_shipments d"
    using assms by (auto simp: creating_def)
  let ?out = "\<lparr>ao_status = st, ao_next = Some (now + delay), ao_error = Some code, ao_completed = (if st = AT_FAILED then Some now else None)\<rparr>"
  let ?f = "\<lambda>s. s\<lparr>sh_status := (if st = AT_FAILED then SH_FAILED else SH_CREATING), sh_error := Some code\<rparr>"
  obtain d1 where d1: "update_attempt (sa_owned aid lease) (close_attempt ?out) d = Inr (True, d1)" "attempt_at aid d1 = Some (close_attempt ?out x)"
      "d1 = d\<lparr>attempts_rows := attempts_rows d1\<rparr>"
    using close_owned[OF wf x, of "close_attempt ?out"] by (auto simp: close_attempt_def)
  have ships: "shipments d1 = shipments d" by (subst d1(3)) simp
  then have y1: "shipment_at sid d1 = Some y" using y by (simp add: shipment_at_def)
  have "\<exists>d2. update_shipment sid ?f d1 = Inr ((), d2) \<and> shipment_at sid d2 = Some (?f y) \<and> d2 = d1\<lparr>shipments := shipments d2\<rparr>"
    using y1 wf_documents[OF wf y] ships by (intro update_shipment_run) auto
  then obtain d2 where d2: "update_shipment sid ?f d1 = Inr ((), d2)" "shipment_at sid d2 = Some (?f y)" "d2 = d1\<lparr>shipments := shipments d2\<rparr>"
    by (elim exE conjE) (rule that)
  have "attempts_rows d2 = attempts_rows d1" by (subst d2(3)) simp
  then have "attempt_at aid d2 = Some (close_attempt ?out x)" using d1(2) by (simp add: attempt_at_def)
  then have "created_as aid sid st (\<lambda>n. n = now + delay) (if st = AT_FAILED then SH_FAILED else SH_CREATING) d2"
    using d2(2) by (simp add: created_as_def close_attempt_def)
  then show ?thesis using d1(1) d2(1) by (simp add: finish_create_def tx_run tx_bind_cases)
qed

lemma end_create_ends:
  assumes "st \<in> {AT_RETRYABLE, AT_UNKNOWN, AT_FAILED}"
    and "st = AT_RETRYABLE \<Longrightarrow> 30000 \<le> delay \<and> delay \<le> 15 * 60000 \<and> n + 1 < shipment_max_attempts" and "st = AT_UNKNOWN \<Longrightarrow> delay = 60000"
  shows "ends_creation t n now aid sid lease (end_create aid sid lease st code now delay)"
  unfolding ends_creation_def
proof (intro allI impI)
  fix d assume "creating t aid sid lease d"
  from finish_create_run[OF this] obtain d' where d': "finish_create aid sid lease st code now delay d = Inr (True, d')"
    "created_as aid sid st (\<lambda>n. n = now + delay) (if st = AT_FAILED then SH_FAILED else SH_CREATING) d'" by blast
  have run: "end_create aid sid lease st code now delay d = (Inr (if st = AT_RETRYABLE then C_RETRY else if st = AT_UNKNOWN then C_UNKNOWN else C_FAILED), d')"
    by (simp add: end_create_def svc_bind_def svc_return_def run_tx_def d'(1))
  show "\<exists>res d'. end_create aid sid lease st code now delay d = (Inr res, d') \<and> creation_end n now aid sid res d'"
    using assms d'(2) unfolding run by (auto simp: creation_end_def created_as_def)
qed

lemma create_delay_bounds: "30000 \<le> create_delay n \<and> create_delay n \<le> 15 * 60000"
proof -
  have "(1::int) \<le> 2 ^ n" by simp
  then show ?thesis by (auto simp: create_delay_def min_def)
qed

lemma create_failed_ends: "ends_creation t n now aid sid lease (create_failed aid sid lease n now failure)"
  using create_delay_bounds[of n]
  by (cases failure) (auto simp: create_failed_def intro!: end_create_ends)

lemma record_created_ends: "ends_creation t n now aid sid lease (record_created aid sid lease n result now)"
  unfolding ends_creation_def
proof (intro allI impI)
  fix d assume c: "creating t aid sid lease d"
  obtain document tracking cost where result: "result = (document, tracking, cost)" by (cases result)
  obtain x y where x: "attempt_at aid d = Some x" "sa_owned aid lease x" and y: "shipment_at sid d = Some y" and wf: "wf_shipments d"
    using c by (auto simp: creating_def)
  let ?out = "\<lparr>ao_status = AT_SUCCEEDED, ao_next = None, ao_error = None, ao_completed = Some now\<rparr>"
  let ?f = "mark_created document tracking cost now"
  obtain d1 where d1: "update_attempt (sa_owned aid lease) (close_attempt ?out) d = Inr (True, d1)" "attempt_at aid d1 = Some (close_attempt ?out x)"
      "d1 = d\<lparr>attempts_rows := attempts_rows d1\<rparr>"
    using close_owned[OF wf x, of "close_attempt ?out"] by (auto simp: close_attempt_def)
  have "shipments d1 = shipments d" by (subst d1(3)) simp
  then have y1: "shipment_at sid d1 = Some y" using y by (simp add: shipment_at_def)
  show "\<exists>res d'. record_created aid sid lease n result now d = (Inr res, d') \<and> creation_end n now aid sid res d'"
  proof (cases "update_shipment sid ?f d1")
    case (Inl e)
    then have "succeed aid sid lease result now d = Inl e" by (simp add: succeed_def result d1(1) tx_run tx_bind_cases)
    then have "record_created aid sid lease n result now d = create_failed aid sid lease n now OtherCarrierFailure d"
      by (simp add: record_created_def svc_try_def run_tx_def)
    then show ?thesis using create_failed_ends[of t n now aid sid lease OtherCarrierFailure] c by (simp add: ends_creation_def)
  next
    case (Inr z)
    define d2 where "d2 = d1\<lparr>shipments := update_where (\<lambda>s. sh_id s = sid) ?f (shipments d1)\<rparr>"
    have d2: "update_shipment sid ?f d1 = Inr ((), d2)"
      using Inr by (auto simp: update_shipment_def d2_def split: option.splits if_splits)
    have y2: "shipment_at sid d2 = Some (?f y)"
      using find_row_update[of sh_id ?f sid "\<lambda>s. sh_id s = sid" "shipments d1"] y1 find_row[of sh_id sid "shipments d1" y]
      by (simp add: shipment_at_def d2_def mark_created_def)
    define d' where "d' = d2\<lparr>status_events := status_events d2 @ [\<lparr>se_tenant = sh_tenant (?f y), se_shipment = sid,
        se_status = Some SH_CREATED, se_code = ''CREATED'', se_at = now\<rparr>]\<rparr>"
    have "succeed aid sid lease result now d = Inr (C_CREATED, d')"
      using y2 by (simp add: succeed_def result d1(1) d2 tx_run tx_bind_cases create_event_def shipment_at_def d'_def)
    moreover have "created_as aid sid AT_SUCCEEDED (\<lambda>n. True) SH_CREATED d'"
      using y2 d1(2) by (auto simp: created_as_def d'_def attempt_at_def d2_def shipment_at_def close_attempt_def mark_created_def)
    ultimately show ?thesis by (simp add: record_created_def svc_try_def run_tx_def creation_end_def)
  qed
qed

lemma frozen_creation:
  assumes "creating t aid sid lease d" and "tenant_frozen t d"
  shows "\<exists>d'. freezeClaimedAttempt t aid sid lease now d = Inr (True, d') \<and> creation_end n now aid sid C_FROZEN d'"
proof -
  obtain x y where x: "attempt_at aid d = Some x" "sa_owned aid lease x" and wf: "wf_shipments d"
    and y: "shipment_at sid d = Some y" "sh_status y = SH_CREATING" "sh_tenant y = t"
    using assms(1) by (auto simp: creating_def)
  obtain d1 where d1: "update_attempt (sa_owned aid lease) (fail_attempt now) d = Inr (True, d1)" "attempt_at aid d1 = Some (fail_attempt now x)"
      "d1 = d\<lparr>attempts_rows := attempts_rows d1\<rparr>"
    using close_owned[OF wf x, of "fail_attempt now"] by (auto simp: close_attempt_def fail_attempt_def)
  have same: "shipments d1 = shipments d" "lifecycle_requests d1 = lifecycle_requests d" by (subst d1(3), simp)+
  let ?P = "\<lambda>s. sh_id s = sid \<and> sh_tenant s = t \<and> sh_status s = SH_CREATING"
  let ?f = "\<lambda>s. s\<lparr>sh_status := SH_FAILED, sh_error := Some frozen_code\<rparr>"
  define d' where "d' = d1\<lparr>shipments := update_where ?P ?f (shipments d1)\<rparr>"
  have "sh_id y = sid" using y(1) find_row[of sh_id sid "shipments d" y] by (simp add: shipment_at_def)
  then have "shipment_at sid d' = Some (?f y)"
    using y find_row_update[of sh_id ?f sid ?P "shipments d"] by (simp add: shipment_at_def d'_def same)
  moreover have "attempt_at aid d' = Some (fail_attempt now x)" using d1(2) by (simp add: attempt_at_def d'_def)
  moreover have "tenant_frozen t d'" using assms(2) same by (simp add: tenant_frozen_def d'_def)
  ultimately have "creation_end n now aid sid C_FROZEN d'"
    using y(3) by (simp add: creation_end_def created_as_def fail_attempt_def close_attempt_def)
  moreover have "freezeClaimedAttempt t aid sid lease now d = Inr (True, d')"
    using assms(2) by (simp add: freezeClaimedAttempt_def when_accepting_run d1(1) tx_run tx_bind_cases fail_shipment_def update_shipments_def d'_def)
  ultimately show ?thesis by blast
qed

lemma order_document_ends:
  assumes "calm t (sa_id a) (sh_id s) lease env"
  shows "ends_creation t (sa_attempts a) now (sa_id a) (sh_id s) lease (order_document client t a s lease now env)"
  unfolding ends_creation_def
proof (intro allI impI)
  fix d assume c: "creating t (sa_id a) (sh_id s) lease d"
  show "\<exists>res d'. order_document client t a s lease now env d = (Inr res, d') \<and> creation_end (sa_attempts a) now (sa_id a) (sh_id s) res d'"
  proof (cases "tenant_frozen t d")
    case True
    then obtain d' where d': "freezeClaimedAttempt t (sa_id a) (sh_id s) lease now d = Inr (True, d')"
      "creation_end (sa_attempts a) now (sa_id a) (sh_id s) C_FROZEN d'" using frozen_creation[OF c] by blast
    then show ?thesis by (simp add: order_document_def svc_bind_def run_tx_def svc_return_def)
  next
    case False
    then have "freezeClaimedAttempt t (sa_id a) (sh_id s) lease now d = Inr (False, d)"
      by (simp add: freezeClaimedAttempt_def when_accepting_run tx_return_def)
    then have "order_document client t a s lease now env d = (case cl_create client s (client_ref s a) of
           Inl failure \<Rightarrow> create_failed (sa_id a) (sh_id s) lease (sa_attempts a) now failure (env d)
         | Inr result \<Rightarrow> record_created (sa_id a) (sh_id s) lease (sa_attempts a) result now (env d))"
      by (simp add: order_document_def svc_bind_def run_tx_def)
    moreover have "creating t (sa_id a) (sh_id s) lease (env d)" using assms c by (simp add: calm_def)
    ultimately show ?thesis
      using create_failed_ends[of t "sa_attempts a" now "sa_id a" "sh_id s" lease] record_created_ends[of t "sa_attempts a" now "sa_id a" "sh_id s" lease]
      by (cases "cl_create client s (client_ref s a)") (simp_all add: ends_creation_def)
  qed
qed

section \<open>Sample\<close>

text \<open>A shipment that a worker is creating, one that is tracked while a manager cancels it,
  and one whose synchronization has been given up by a worker that has crashed.\<close>

definition sample_shipment :: "uuid \<Rightarrow> shipment_status \<Rightarrow> string option \<Rightarrow> shipment" where
  "sample_shipment sid st tracking = \<lparr>sh_id = sid, sh_tenant = 7, sh_order = 20, sh_connection = 55, sh_provider = NOVA_POSHTA, sh_status = st,
     sh_draft = ''{}'', sh_document = tracking, sh_tracking = tracking, sh_cost = None, sh_version = 1, sh_key = ''k'', sh_hash = ''h'',
     sh_created_by = None, sh_last_code = None, sh_error = None, sh_next_check = map_option (\<lambda>_. 500) tracking, sh_last_checked = None,
     sh_provider_created = None, sh_delivered = None, sh_cancelled = None, sh_created = 0\<rparr>"

definition sample_attempt :: "uuid \<Rightarrow> uuid \<Rightarrow> attempt_operation \<Rightarrow> attempt_status \<Rightarrow> uuid option \<Rightarrow> shipment_attempt" where
  "sample_attempt aid sid op st lease = \<lparr>sa_id = aid, sa_tenant = 7, sa_shipment = sid, sa_version = 1, sa_operation = op, sa_status = st,
     sa_key = ''k'', sa_hash = ''h'', sa_attempts = 1, sa_next = 0, sa_last = None, sa_lease = lease, sa_lease_expires = map_option (\<lambda>_. 600) lease,
     sa_error = None, sa_completed = None\<rparr>"

definition shipping_db :: db where
  "shipping_db = empty_db\<lparr>shipments := [sample_shipment 50 SH_CREATING None, sample_shipment 51 SH_CREATED (Some ''TTN1''),
       sample_shipment 52 SH_CREATED (Some ''TTN2'')],
     attempts_rows := [sample_attempt 80 50 OP_CREATE AT_PROCESSING (Some 9), sample_attempt 81 51 OP_STATUS_SYNC AT_PROCESSING (Some 9),
       sample_attempt 82 51 OP_CANCEL AT_PENDING None, sample_attempt 83 52 OP_STATUS_SYNC AT_PROCESSING (Some 8)],
     delivery_connections := [\<lparr>dc_id = 55, dc_tenant = 7, dc_provider = NOVA_POSHTA, dc_status = DC_ACTIVE, dc_credential = ''key'', dc_generation = 1\<rparr>]\<rparr>"

definition sample_client :: carrier_client where
  "sample_client = \<lparr>cl_create = (\<lambda>s ref. Inr (''DOC'', ''TTN'', Some ''80.00'')), cl_find = (\<lambda>ref. Inr None),
     cl_status = (\<lambda>tracking. Inr ''5''), cl_cancel = (\<lambda>document. Inr ())\<rparr>"

lemmas shipping_simps = shipping_db_def sample_shipment_def sample_attempt_def empty_db_def

lemma shipping_wf: "wf_shipments shipping_db"
  by (simp add: wf_shipments_def shipping_simps)

lemma calm_id: "calm t aid sid lease (\<lambda>d. d)"
  by (simp add: calm_def)



section \<open>Issued shipments\<close>

text \<open>A shipment has a tracking number and a document, or neither; one of the states of the
  carrier has both.  \<open>A\<close>: shipments that are known to have been issued.\<close>

definition issued_status :: "shipment_status \<Rightarrow> bool" where
  "issued_status st \<longleftrightarrow> st \<in> {SH_CREATED, SH_ACCEPTED, SH_IN_TRANSIT, SH_DELIVERED, SH_RETURNING, SH_RETURNED}"

definition shipment_ok :: "shipment \<Rightarrow> bool" where
  "shipment_ok s \<longleftrightarrow> (sh_tracking s = None \<longleftrightarrow> sh_document s = None) \<and> (issued_status (sh_status s) \<longrightarrow> sh_tracking s \<noteq> None)"

definition issued :: "uuid set \<Rightarrow> db \<Rightarrow> bool" where
  "issued A d \<longleftrightarrow> distinct (map sh_id (shipments d)) \<and> (\<forall>s\<in>set (shipments d). shipment_ok s \<and> (sh_id s \<in> A \<longrightarrow> sh_tracking s \<noteq> None))"

text \<open>What every party may do: keep the shipments in order and the issued ones issued.\<close>

definition keeps_issued :: "(db \<Rightarrow> db) \<Rightarrow> bool" where
  "keeps_issued env \<longleftrightarrow> (\<forall>A d. issued A d \<longrightarrow> issued A (env d))"

definition shipment_write :: "uuid set \<Rightarrow> (shipment \<Rightarrow> shipment) \<Rightarrow> bool" where
  "shipment_write A f \<longleftrightarrow> (\<forall>s. sh_id (f s) = sh_id s \<and> (shipment_ok s \<and> (sh_id s \<in> A \<longrightarrow> sh_tracking s \<noteq> None)
     \<longrightarrow> shipment_ok (f s) \<and> (sh_tracking s \<noteq> None \<longrightarrow> sh_tracking (f s) \<noteq> None)))"

lemma issued_rows:
  assumes "issued A d" and "\<And>s. sh_id (f s) = sh_id s"
    and "\<And>s. P s \<Longrightarrow> shipment_ok s \<Longrightarrow> (sh_id s \<in> A \<Longrightarrow> sh_tracking s \<noteq> None) \<Longrightarrow> shipment_ok (f s) \<and> (sh_tracking s \<noteq> None \<longrightarrow> sh_tracking (f s) \<noteq> None)"
  shows "issued A (d\<lparr>shipments := update_where P f (shipments d)\<rparr>)"
proof -
  have "shipment_ok s' \<and> (sh_id s' \<in> A \<longrightarrow> sh_tracking s' \<noteq> None)" if "s' \<in> set (update_where P f (shipments d))" for s'
  proof -
    from that[unfolded set_update_where] obtain s where s: "s \<in> set (shipments d)" "s' = (if P s then f s else s)"
      by (elim imageE)
    then show ?thesis using assms(1,2) assms(3)[of s] by (auto simp: issued_def)
  qed
  then show ?thesis using assms(1,2) by (simp add: issued_def map_update_where)
qed

lemma issued_cong: "shipments d' = shipments d \<Longrightarrow> issued A d \<Longrightarrow> issued A d'"
  by (simp add: issued_def)

lemma issued_attempt [keeps]: "kept (issued A) (update_attempt P f)"
  by (auto simp: kept_def update_attempt_run issued_def)

lemma issued_event [keeps]: "kept (issued A) (create_event t sid st code now)"
  unfolding create_event_def by (rule kept_write) (simp add: issued_def)

lemma issued_shipment:
  assumes "\<And>s. sh_id (f s) = sh_id s"
    and "\<And>s. sh_id s = sid \<Longrightarrow> shipment_ok s \<Longrightarrow> (sid \<in> A \<Longrightarrow> sh_tracking s \<noteq> None) \<Longrightarrow> shipment_ok (f s) \<and> (sh_tracking s \<noteq> None \<longrightarrow> sh_tracking (f s) \<noteq> None)"
  shows "kept (issued A) (update_shipment sid f)"
proof -
  have "issued A d'" if "issued A d" "update_shipment sid f d = Inr (x, d')" for d d' x
  proof -
    have d': "d' = d\<lparr>shipments := update_where (\<lambda>s. sh_id s = sid) f (shipments d)\<rparr>"
      using that(2) by (auto simp: update_shipment_def split: option.splits if_splits)
    show ?thesis unfolding d' by (rule issued_rows[OF that(1) assms(1)]) (rule assms(2), auto)
  qed
  then show ?thesis by (auto simp: kept_def)
qed

lemma issued_shipments:
  assumes "\<And>s. sh_id (f s) = sh_id s" and "\<And>s. P s \<Longrightarrow> shipment_ok s \<Longrightarrow> shipment_ok (f s) \<and> sh_tracking (f s) = sh_tracking s"
  shows "kept (issued A) (update_shipments P f)"
  unfolding update_shipments_def by (rule kept_write, rule issued_rows) (use assms in auto)

lemma issued_fail [keeps]: "kept (issued A) (fail_shipment t sid)"
  unfolding fail_shipment_def by (rule issued_shipments) (auto simp: shipment_ok_def issued_status_def)

lemma issued_succeed: "kept (issued A) (succeed aid sid lease result now)"
  unfolding succeed_def
  by (intro keeps stable_kept issued_shipment) (auto simp: mark_created_def shipment_ok_def)

lemma issued_finish: "kept (issued A) (finish_create aid sid lease st code now delay)"
  unfolding finish_create_def
  by (intro keeps stable_kept issued_shipment) (auto simp: shipment_ok_def issued_status_def)

lemma issued_failed: "stable (issued A) (create_failed aid sid lease n now failure)"
  unfolding create_failed_def end_create_def
  by (cases failure) (auto intro!: keeps stable_kept issued_finish)

lemma issued_record: "stable (issued A) (record_created aid sid lease n result now)"
  unfolding record_created_def by (intro keeps stable_kept issued_succeed issued_failed)

lemma issued_order:
  assumes "keeps_issued env"
  shows "stable (issued A) (order_document client t a s lease now env)"
  unfolding order_document_def freezeClaimedAttempt_def
proof (intro keeps stable_kept)
  have "issued A (env d)" if "issued A d" for d using assms that by (simp add: keeps_issued_def)
  then show "stable (issued A) (\<lambda>d. case cl_create client s (client_ref s a) of
           Inl failure \<Rightarrow> create_failed (sa_id a) (sh_id s) lease (sa_attempts a) now failure (env d)
         | Inr result \<Rightarrow> record_created (sa_id a) (sh_id s) lease (sa_attempts a) result now (env d))"
    using issued_failed issued_record by (cases "cl_create client s (client_ref s a)") (auto simp: stable_def)
qed

lemma issued_claimed:
  assumes "keeps_issued env0" and "keeps_issued env"
  shows "stable (issued A) (create_claimed client t a s lease now env0 env)"
proof -
  have env: "issued A (env0 d)" if "issued A d" for d using assms(1) that by (simp add: keeps_issued_def)
  show ?thesis
  proof (cases "sa_status a = AT_UNKNOWN")
    case True
    then show ?thesis
      using env issued_failed issued_record issued_order[OF assms(2)]
      by (cases "cl_find client (client_ref s a)") (auto simp: create_claimed_def stable_def split: option.splits)
  next
    case False
    then show ?thesis using issued_order[OF assms(2)] by (simp add: create_claimed_def)
  qed
qed

lemma resolve_keeps: "stable (issued A) (run_tx (resolveShipmentTenant sid))"
  unfolding resolveShipmentTenant_def resolveShipmentTenants_def worker_delivery_tenants_for_shipments_def by (intro keeps stable_kept)

definition delegate_ok :: "(uuid \<Rightarrow> 'a dbservice) option \<Rightarrow> bool" where
  "delegate_ok u \<longleftrightarrow> (\<forall>f sid A. u = Some f \<longrightarrow> stable (issued A) (f sid))"

lemma issued_create:
  assumes "keeps_issued env0" and "keeps_issued env" and "delegate_ok u"
  shows "stable (issued A) (process_create carrier u sid lease now env0 env)"
proof -
  have delegate: "stable (issued A) (f sid)" if "u = Some f" for f using assms(3) that by (simp add: delegate_ok_def)
  show ?thesis unfolding process_create_def claim_create_def Let_def
    by (intro keeps stable_kept resolve_keeps issued_claimed assms delegate)
qed

lemma seen_attempt:
  assumes "issued A d" and "find_attempt t P d = Some (a, s, c)" and "sh_tracking s \<noteq> None"
  shows "issued (insert (sa_shipment a) A) d"
proof -
  have s: "s \<in> set (shipments d)" "sh_id s = sa_shipment a"
    using assms(2) by (auto simp: find_attempt_def find_shipment_def split: option.splits dest: find_some_prop find_some_set)
  then have "x = s" if "x \<in> set (shipments d)" "sh_id x = sa_shipment a" for x
    using assms(1) that by (auto simp: issued_def distinct_map inj_on_def)
  then show ?thesis using assms(1,3) by (auto simp: issued_def)
qed

lemma issued_weaken: "issued (insert k A) d \<Longrightarrow> issued A d"
  by (simp add: issued_def)

lemma issued_store_status: "kept (issued (insert (sa_shipment a) A)) (store_status a s lease now code)"
  unfolding store_status_def Let_def
  by (intro keeps stable_kept issued_shipment) (auto simp: mark_status_def shipment_ok_def)

lemma issued_attempt_failed: "stable (issued A) (attempt_failed aid lease now other failure)"
  unfolding attempt_failed_def by (intro keeps stable_kept)

lemma issued_sync_claimed:
  assumes "keeps_issued env"
  shows "stable (issued (insert (sa_shipment a) A)) (sync_claimed carrier a s credential tracking lease now env)"
proof -
  let ?I = "issued (insert (sa_shipment a) A)"
  have env: "?I (env d)" if "?I d" for d using assms that by (simp add: keeps_issued_def)
  have failed: "stable ?I (svc_bind (attempt_failed aid lease now other failure) (\<lambda>again. svc_return (if again then S_RETRY else S_IGNORED)))"
    for aid other failure by (intro keeps stable_kept issued_attempt_failed)
  have stored: "stable ?I (svc_try (svc_bind (run_tx (store_status a s lease now code)) (\<lambda>_. svc_return S_UPDATED))
      (\<lambda>e. svc_bind (attempt_failed aid lease now other failure) (\<lambda>again. svc_return (if again then S_RETRY else S_IGNORED))))"
    for code aid other failure by (intro keeps stable_kept issued_store_status failed)
  show ?thesis
  proof (cases "carrier credential")
    case (Inr client)
    then show ?thesis using env failed stored
      by (cases "cl_status client tracking") (auto simp: sync_claimed_def Let_def stable_def)
  qed (simp add: sync_claimed_def failed)
qed

lemma issued_status_worker:
  assumes "keeps_issued env"
  shows "stable (issued A) (process_status carrier sid lease now env)"
proof -
  let ?f = "\<lambda>candidate. case candidate of
             None \<Rightarrow> svc_return S_IGNORED
           | Some (a, s, credential) \<Rightarrow> (case non_empty (sh_tracking s) of
               None \<Rightarrow> svc_return S_IGNORED
             | Some tracking \<Rightarrow>
                 if terminal (sh_status s) \<or> sh_provider s = UKRPOSHTA then svc_return S_IGNORED
                 else svc_bind (run_tx (claim_open a lease now)) (\<lambda>ours.
                   if \<not> ours then svc_return S_IGNORED
                   else sync_claimed carrier a s credential tracking lease now env))"
  have "stable (issued A) (svc_bind (run_tx (tx_read (find_attempt t (open_attempt OP_STATUS_SYNC sid now)))) ?f)" for t
  proof (rule stable_seen)
    fix d assume d: "issued A d"
    show "\<exists>J. J d \<and> stable J (?f (find_attempt t (open_attempt OP_STATUS_SYNC sid now) d)) \<and> (\<forall>d'. J d' \<longrightarrow> issued A d')"
    proof (cases "\<exists>a s c tracking. find_attempt t (open_attempt OP_STATUS_SYNC sid now) d = Some (a, s, c) \<and> non_empty (sh_tracking s) = Some tracking")
      case True
      then obtain a s c tracking where found: "find_attempt t (open_attempt OP_STATUS_SYNC sid now) d = Some (a, s, c)" "non_empty (sh_tracking s) = Some tracking"
        by blast
      have "sh_tracking s \<noteq> None" using found(2) by (auto simp: non_empty_def split: option.splits)
      moreover have "stable (issued (insert (sa_shipment a) A)) (?f (Some (a, s, c)))"
        unfolding claim_open_def found(2) option.case prod.case by (intro keeps stable_kept issued_sync_claimed assms)
      ultimately show ?thesis using seen_attempt[OF d found(1)] issued_weaken unfolding found(1) by blast
    next
      case False
      then have "?f (find_attempt t (open_attempt OP_STATUS_SYNC sid now) d) = svc_return S_IGNORED"
        by (cases "find_attempt t (open_attempt OP_STATUS_SYNC sid now) d") (auto split: prod.splits option.splits)
      then show ?thesis using d by (intro exI[of _ "issued A"]) (simp add: keeps)
    qed
  qed
  then show ?thesis unfolding process_status_def
    by (intro stable_bind[OF resolve_keeps] stable_cases(2) stable_leaf)
qed

lemma issued_cancel:
  assumes "keeps_issued env" and "delegate_ok u"
  shows "stable (issued A) (process_cancel carrier u sid lease now env)"
proof -
  have delegate: "stable (issued A) (f sid)" if "u = Some f" for f using assms(2) that by (simp add: delegate_ok_def)
  have env: "issued A (env d)" if "issued A d" for d using assms(1) that by (simp add: keeps_issued_def)
  have store: "kept (issued A) (store_cancel a lease now)" for a
    unfolding store_cancel_def by (intro keeps stable_kept issued_shipment) (auto simp: mark_cancelled_def shipment_ok_def issued_status_def)
  have claim: "kept (issued A) (claim_cancel t a lease now)" for t a
    unfolding claim_cancel_def claim_open_def by (intro keeps stable_kept issued_shipments) (auto simp: shipment_ok_def)
  have failed: "stable (issued A) (svc_bind (attempt_failed aid lease now other failure) (\<lambda>again. svc_return (if again then X_RETRY else X_IGNORED)))"
    for aid other failure by (intro keeps stable_kept issued_attempt_failed)
  have stored: "stable (issued A) (svc_try (svc_bind (run_tx (store_cancel a lease now)) (\<lambda>_. svc_return X_CANCELLED))
      (\<lambda>e. svc_bind (attempt_failed aid lease now other failure) (\<lambda>again. svc_return (if again then X_RETRY else X_IGNORED))))"
    for a aid other failure by (intro keeps stable_kept store failed)
  have claimed: "stable (issued A) (cancel_claimed carrier a credential document lease now env)" for a credential document
  proof (cases "carrier credential")
    case (Inr client)
    then show ?thesis using env failed stored
      by (cases "cl_cancel client document") (auto simp: cancel_claimed_def Let_def stable_def)
  qed (simp add: cancel_claimed_def failed)
  show ?thesis unfolding process_cancel_def by (intro keeps stable_kept resolve_keeps claim claimed delegate)
qed

lemma issued_reconcile: "stable (issued A) (reconcile_shipments grouping queue now)"
proof -
  have sync: "kept (issued A) (sync_attempt s now)" for s by (auto simp: kept_def sync_attempt_def issued_def)
  have "stable (issued A) (load_all now rows)" for rows
    by (induction rows) (auto simp: load_due_def intro!: keeps stable_kept sync)
  then show ?thesis unfolding reconcile_shipments_def by (intro keeps stable_kept)
qed



section \<open>Status\<close>

lemma resolve_shipment:
  assumes "wf_shipments d" and "shipment_at sid d = Some s"
  shows "run_tx (resolveShipmentTenant sid) d = (Inr (Some (sh_tenant s)), d)"
proof -
  have s: "s \<in> set (shipments d)" "sh_id s = sid" using assms(2) find_row[of sh_id sid "shipments d" s] by (simp_all add: shipment_at_def)
  have "filter (\<lambda>y. sh_id y = sh_id s) rows = [s]" if "distinct (map sh_id rows)" "s \<in> set rows" for rows
    using that by (induction rows) (auto simp: filter_empty_conv image_iff)
  then have "filter (\<lambda>y. sh_id y = sid) (shipments d) = [s]" using assms(1) s by (auto simp: wf_shipments_def)
  then show ?thesis using s(2)
    by (simp add: resolveShipmentTenant_def resolveShipmentTenants_def worker_delivery_tenants_for_shipments_def
        tx_bind_def tx_seq_def tx_when_def tx_read_def tx_return_def run_tx_def)
qed

text \<open>A shipment whose attempt to synchronize its present version has been left by a worker
  that crashed, or has failed for good, is not tracked any more: every pass of the
  reconciler finds it due and queues it, and every worker ignores it.\<close>

theorem tracking_stops:
  assumes "wf_shipments d" and "shipment_at sid d = Some s"
    and "\<forall>a\<in>set (attempts_rows d). sa_shipment a = sid \<and> sa_operation a = OP_STATUS_SYNC \<longrightarrow> sa_status a \<notin> {AT_PENDING, AT_RETRYABLE}"
    and "\<exists>a\<in>set (attempts_rows d). sa_tenant a = sh_tenant s \<and> sa_shipment a = sid \<and> sa_operation a = OP_STATUS_SYNC \<and> sa_version a = sh_version s"
  shows "process_status carrier sid lease now env d = (Inr S_IGNORED, d)
    \<and> run_tx (load_due now (sh_tenant s, sid, sh_version s)) d = (Inr (if tracked now s then Some s else None), d)"
proof
  have "filter (\<lambda>a. sa_tenant a = t \<and> open_attempt OP_STATUS_SYNC sid now a) (attempts_rows d) = []" for t
    using assms(3) by (auto simp: open_attempt_def filter_empty_conv)
  then have none: "find_attempt t (open_attempt OP_STATUS_SYNC sid now) d = None" for t
    by (simp add: find_attempt_def find_sorted_def)
  show "process_status carrier sid lease now env d = (Inr S_IGNORED, d)"
    unfolding process_status_def svc_bind_def resolve_shipment[OF assms(1,2)]
    by (simp add: tx_read_def svc_return_def run_tx_def none)
next
  have s: "s \<in> set (shipments d)" "sh_id s = sid" using assms(2) find_row[of sh_id sid "shipments d" s] by (simp_all add: shipment_at_def)
  let ?P = "\<lambda>x. sh_id x = sid \<and> sh_tenant x = sh_tenant s \<and> sh_version x = sh_version s \<and> tracked now x"
  have one: "x = s" if "x \<in> set (shipments d)" "sh_id x = sid" for x
    using assms(1) s that by (auto simp: wf_shipments_def distinct_map inj_on_def)
  have "List.find ?P (shipments d) = (if tracked now s then Some s else None)"
  proof (cases "List.find ?P (shipments d)")
    case None
    then show ?thesis using s by (auto simp: find_None_iff)
  next
    case (Some x)
    have x: "?P x" "x \<in> set (shipments d)" using find_some_prop[OF Some] find_some_set[OF Some] by simp_all
    then have "x = s" by (intro one) simp_all
    then show ?thesis using Some x(1) by simp
  qed
  moreover have "any_row (\<lambda>a. sa_tenant a = sh_tenant s \<and> sa_shipment a = sh_id s \<and> sa_operation a = OP_STATUS_SYNC
      \<and> sa_version a = sh_version s) (attempts_rows d)"
    using assms(4) s(2) by (auto simp: any_row_iff)
  ultimately show "run_tx (load_due now (sh_tenant s, sid, sh_version s)) d = (Inr (if tracked now s then Some s else None), d)"
    by (simp add: load_due_def sync_attempt_def tx_bind_def tx_seq_def tx_read_def tx_return_def)
qed

theorem tracking_stops_witness:
  "process_status (\<lambda>c. Inr sample_client) 52 9 100000 (\<lambda>d. d) shipping_db = (Inr S_IGNORED, shipping_db)
    \<and> run_tx (load_due 100000 (7, 52, 1)) shipping_db = (Inr (Some (sample_shipment 52 SH_CREATED (Some ''TTN2''))), shipping_db)"
proof -
  let ?s = "sample_shipment 52 SH_CREATED (Some ''TTN2'')"
  have "shipment_at 52 shipping_db = Some ?s" by (simp add: shipment_at_def shipping_simps)
  moreover have "\<forall>a\<in>set (attempts_rows shipping_db). sa_shipment a = 52 \<and> sa_operation a = OP_STATUS_SYNC \<longrightarrow> sa_status a \<notin> {AT_PENDING, AT_RETRYABLE}"
    "\<exists>a\<in>set (attempts_rows shipping_db). sa_tenant a = sh_tenant ?s \<and> sa_shipment a = 52 \<and> sa_operation a = OP_STATUS_SYNC \<and> sa_version a = sh_version ?s"
    by (simp_all add: shipping_simps)
  moreover have "sh_tenant ?s = 7" "sh_version ?s = 1" "tracked 100000 ?s" by (simp_all add: sample_shipment_def tracked_def)
  ultimately show ?thesis using tracking_stops[OF shipping_wf, of 52 ?s] by simp
qed

text \<open>A worker that has asked the carrier records what it was told: the attempt has
  succeeded, the last event carries the code, the shipment has a new version, the status
  of the code, or, when the code is not known, the one that was read before the call, and
  a next check unless it is final.  What others have made of the status meanwhile is
  overwritten, a cancellation too.\<close>

theorem status_recorded:
  assumes "carrier credential = Inr client" and "cl_status client tracking = Inr code"
    and "wf_shipments (env d)" and "attempt_at (sa_id a) (env d) = Some x" and "sa_owned (sa_id a) lease x"
    and "shipment_at (sa_shipment a) (env d) = Some y"
  shows "\<exists>d' x' y'. sync_claimed carrier a s credential tracking lease now env d = (Inr S_UPDATED, d')
    \<and> attempt_at (sa_id a) d' = Some x' \<and> sa_status x' = AT_SUCCEEDED \<and> sa_lease x' = None
    \<and> shipment_at (sa_shipment a) d' = Some y' \<and> sh_version y' = sh_version y + 1 \<and> sh_last_code y' = Some code
    \<and> sh_status y' = (case mapNovaPoshtaStatus code of Some st \<Rightarrow> st | None \<Rightarrow> sh_status s)
    \<and> (sh_next_check y' = None \<longleftrightarrow> terminal (sh_status y')) \<and> sh_tracking y' = sh_tracking y \<and> sh_cancelled y' = sh_cancelled y
    \<and> (\<exists>e\<in>set (status_events d'). se_tenant e = sa_tenant a \<and> se_shipment e = sa_shipment a \<and> se_code e = code)"
proof -
  let ?e = "env d"
  let ?next = "case mapNovaPoshtaStatus code of Some st \<Rightarrow> st | None \<Rightarrow> sh_status s"
  obtain d1 where d1: "update_attempt (sa_owned (sa_id a) lease) (complete_attempt now) ?e = Inr (True, d1)"
      "attempt_at (sa_id a) d1 = Some (complete_attempt now x)" "d1 = ?e\<lparr>attempts_rows := attempts_rows d1\<rparr>"
    using close_owned[OF assms(3-5), of "complete_attempt now"] by (auto simp: complete_attempt_def close_attempt_def)
  have same: "shipments d1 = shipments ?e" by (subst d1(3)) simp
  let ?last = "last_event (sa_tenant a) (sa_shipment a) d1"
  let ?events = "if map_option se_code ?last = Some code then status_events d1
     else status_events d1 @ [\<lparr>se_tenant = sa_tenant a, se_shipment = sa_shipment a, se_status = mapNovaPoshtaStatus code, se_code = code, se_at = now\<rparr>]"
  define d2 where "d2 = d1\<lparr>status_events := ?events\<rparr>"
  have event: "\<exists>e\<in>set (status_events d2). se_tenant e = sa_tenant a \<and> se_shipment e = sa_shipment a \<and> se_code e = code"
  proof (cases "map_option se_code ?last = Some code")
    case True
    then obtain e where "?last = Some e" "se_code e = code" by auto
    then show ?thesis using True find_sorted_set[of _ _ _ e] by (auto simp: last_event_def d2_def)
  next
    case False
    then have "status_events d2 = status_events d1 @ [\<lparr>se_tenant = sa_tenant a, se_shipment = sa_shipment a,
        se_status = mapNovaPoshtaStatus code, se_code = code, se_at = now\<rparr>]" unfolding d2_def by simp
    then show ?thesis by simp
  qed
  let ?f = "mark_status ?next code now"
  have y: "shipment_at (sa_shipment a) d2 = Some y" using assms(6) same by (simp add: d2_def shipment_at_def)
  have "\<exists>d3. update_shipment (sa_shipment a) ?f d2 = Inr ((), d3) \<and> shipment_at (sa_shipment a) d3 = Some (?f y) \<and> d3 = d2\<lparr>shipments := shipments d3\<rparr>"
    using wf_documents[OF assms(3,6)] same by (intro update_shipment_run[OF y]) (auto simp: mark_status_def d2_def)
  then obtain d3 where d3: "update_shipment (sa_shipment a) ?f d2 = Inr ((), d3)" "shipment_at (sa_shipment a) d3 = Some (?f y)" "d3 = d2\<lparr>shipments := shipments d3\<rparr>"
    by (elim exE conjE) (rule that)
  have kept: "attempts_rows d3 = attempts_rows d1" "status_events d3 = status_events d2" by (subst d3(3), simp add: d2_def)+
  have "store_status a s lease now code ?e = Inr ((), d3)"
  proof (cases "map_option se_code ?last = Some code")
    case True
    then have "d2 = d1" unfolding d2_def by simp
    then show ?thesis using d3(1) True by (auto simp: store_status_def Let_def d1(1) tx_run tx_bind_cases)
  next
    case False
    then have "d2 = d1\<lparr>status_events := status_events d1 @ [\<lparr>se_tenant = sa_tenant a, se_shipment = sa_shipment a,
        se_status = mapNovaPoshtaStatus code, se_code = code, se_at = now\<rparr>]\<rparr>" unfolding d2_def by simp
    then show ?thesis using d3(1) False by (auto simp: store_status_def Let_def d1(1) tx_run tx_bind_cases create_event_def)
  qed
  then have "sync_claimed carrier a s credential tracking lease now env d = (Inr S_UPDATED, d3)"
    by (simp add: sync_claimed_def Let_def assms(1,2) svc_try_def svc_bind_def run_tx_def svc_return_def)
  moreover have "attempt_at (sa_id a) d3 = Some (complete_attempt now x)" using d1(2) kept(1) by (simp add: attempt_at_def)
  ultimately show ?thesis using d3(2) event kept(2)
    by (intro exI[of _ d3] exI[of _ "complete_attempt now x"] exI[of _ "?f y"])
      (simp add: complete_attempt_def close_attempt_def mark_status_def)
qed

text \<open>The manager's cancellation is carried out while the carrier is asked.\<close>

definition cancelling :: "db \<Rightarrow> db" where
  "cancelling d = snd (process_cancel (\<lambda>c. Inr sample_client) None 51 12 1000 (\<lambda>d. d) d)"

lemma cancelling_facts:
  "wf_shipments (cancelling shipping_db)" "\<exists>x. attempt_at 81 (cancelling shipping_db) = Some x \<and> sa_owned 81 9 x"
  "\<exists>y. shipment_at 51 (cancelling shipping_db) = Some y \<and> sh_status y = SH_CANCELLED"
proof -
  show "wf_shipments (cancelling shipping_db)" by code_simp
  have "case attempt_at 81 (cancelling shipping_db) of Some x \<Rightarrow> sa_owned 81 9 x | None \<Rightarrow> False" by code_simp
  then show "\<exists>x. attempt_at 81 (cancelling shipping_db) = Some x \<and> sa_owned 81 9 x" by (simp split: option.splits)
  have "case shipment_at 51 (cancelling shipping_db) of Some y \<Rightarrow> sh_status y = SH_CANCELLED | None \<Rightarrow> False" by code_simp
  then show "\<exists>y. shipment_at 51 (cancelling shipping_db) = Some y \<and> sh_status y = SH_CANCELLED" by (simp split: option.splits)
qed

theorem status_recorded_witness:
  "\<exists>d' y'. sync_claimed (\<lambda>c. Inr sample_client) (sample_attempt 81 51 OP_STATUS_SYNC AT_PENDING None) (sample_shipment 51 SH_CREATED (Some ''TTN1''))
      ''key'' ''TTN1'' 9 1000 cancelling shipping_db = (Inr S_UPDATED, d') \<and> shipment_at 51 d' = Some y' \<and> sh_status y' = SH_IN_TRANSIT"
proof -
  let ?a = "sample_attempt 81 51 OP_STATUS_SYNC AT_PENDING None"
  obtain x y where "attempt_at 81 (cancelling shipping_db) = Some x" "sa_owned 81 9 x" "shipment_at 51 (cancelling shipping_db) = Some y"
    using cancelling_facts(2,3) by blast
  moreover have "sa_id ?a = 81" "sa_shipment ?a = 51" by (simp_all add: sample_attempt_def)
  moreover have "cl_status sample_client ''TTN1'' = Inr ''5''" "mapNovaPoshtaStatus ''5'' = Some SH_IN_TRANSIT"
    by (simp_all add: sample_client_def mapNovaPoshtaStatus_def)
  ultimately show ?thesis
    using status_recorded[of "\<lambda>c. Inr sample_client" "''key''" sample_client "''TTN1''" "''5''" cancelling shipping_db ?a x 9 y
        "sample_shipment 51 SH_CREATED (Some ''TTN1'')" 1000] cancelling_facts(1) by auto
qed

end
