(* ===== verification/Lifecycle.thy ===== *)
theory Lifecycle
  imports Leases "HOL-Library.AList" "HOL-Library.Product_Lexorder"
begin

text \<open>
  The requests to export and to delete a tenant
  (\<open>apps/api/src/admin/tenant-lifecycle.service.ts\<close>,
  \<open>apps/worker/src/tenant-lifecycle\<close>) and the functions of the database they ask
  (\<open>migrations/20261002120000_tenant_lifecycle_phase_one\<close>).  The archive is written by a
  parameter; the store of objects is a part of the state, its failures are parameters.
  Who is a platform administrator, the check of a step-up token and the queue are
  parameters too; security audits are left out.
\<close>

section \<open>Requests\<close>

definition request_reasons :: "string list" where
  "request_reasons = [''CONTROLLER_REQUEST'', ''CONTRACT_TERMINATION'', ''ADMINISTRATIVE_TEST'']"

definition new_request :: "uuid \<Rightarrow> uuid \<Rightarrow> lifecycle_kind \<Rightarrow> string \<Rightarrow> uuid \<Rightarrow> string \<Rightarrow> instant \<Rightarrow> lifecycle_request" where
  "new_request rid t kind reason key hash now = \<lparr>lr_id = rid, lr_tenant = t, lr_kind = kind, lr_status = LC_REQUESTED,
     lr_frozen_at = (if kind = DELETE then Some now else None), lr_reason = reason, lr_key = key, lr_hash = hash,
     lr_artifact = None, lr_sha = None, lr_size = None, lr_manifest = None, lr_ready_at = None, lr_expires_at = None,
     lr_lease = None, lr_lease_expires = None, lr_attempts = 0, lr_next = now, lr_error = None, lr_cancelled_at = None,
     lr_requested_at = now\<rparr>"

text \<open>The unique index \<open>tenant_lifecycle_requests_one_active_delete_idx\<close>.\<close>

definition active_deletion :: "uuid \<Rightarrow> lifecycle_request \<Rightarrow> bool" where
  "active_deletion t r \<longleftrightarrow> lr_tenant r = t \<and> lr_kind r = DELETE
     \<and> lr_status r \<in> {LC_REQUESTED, LC_EXPORTING, LC_EXPORT_READY, LC_FAILED}"

text \<open>The flag of the result: the request had been made before.\<close>

definition api_platform_create_tenant_lifecycle_request ::
    "bool \<Rightarrow> uuid \<Rightarrow> lifecycle_kind \<Rightarrow> string \<Rightarrow> uuid \<Rightarrow> string \<Rightarrow> instant \<Rightarrow> (lifecycle_request \<times> bool) option dbtx" where
  "api_platform_create_tenant_lifecycle_request admin t kind reason key hash now = (\<lambda>d.
     if \<not> admin \<or> \<not> any_row (\<lambda>x. tn_id x = t) (tenants d) then Inr (None, d)
     else if reason \<notin> set request_reasons \<or> hash = [] then Inl (Plain ''INVALID_TENANT_LIFECYCLE_REQUEST'')
     else case List.find (\<lambda>r. lr_tenant r = t \<and> lr_key r = key) (lifecycle_requests d) of
         Some r \<Rightarrow> if lr_hash r \<noteq> hash \<or> lr_kind r \<noteq> kind \<or> lr_reason r \<noteq> reason
           then Inl (Plain ''LIFECYCLE_IDEMPOTENCY_CONFLICT'') else Inr (Some (r, True), d)
       | None \<Rightarrow>
           if kind = DELETE \<and> any_row (active_deletion t) (lifecycle_requests d) then Inl UniqueViolation
           else let r = new_request (next_id d) t kind reason key hash now
           in Inr (Some (r, False), d\<lparr>lifecycle_requests := lifecycle_requests d @ [r], next_id := next_id d + 1\<rparr>))"

text \<open>\<open>UPDATE ... RETURNING\<close>: the rows that were changed.\<close>

definition update_requests :: "(lifecycle_request \<Rightarrow> bool) \<Rightarrow> (lifecycle_request \<Rightarrow> lifecycle_request) \<Rightarrow> lifecycle_request list dbtx" where
  "update_requests P f = (\<lambda>d. Inr (map f (filter P (lifecycle_requests d)),
     d\<lparr>lifecycle_requests := update_where P f (lifecycle_requests d)\<rparr>))"

definition cancel_request :: "instant \<Rightarrow> lifecycle_request \<Rightarrow> lifecycle_request" where
  "cancel_request now r = r\<lparr>lr_status := LC_CANCELLED, lr_cancelled_at := Some now, lr_frozen_at := None,
     lr_lease := None, lr_lease_expires := None\<rparr>"

definition api_platform_cancel_tenant_lifecycle_request :: "bool \<Rightarrow> uuid \<Rightarrow> instant \<Rightarrow> lifecycle_request list dbtx" where
  "api_platform_cancel_tenant_lifecycle_request admin rid now =
     update_requests (\<lambda>r. lr_id r = rid \<and> lr_status r \<in> {LC_REQUESTED, LC_FAILED, LC_EXPORT_READY} \<and> admin) (cancel_request now)"

definition retry_request :: "instant \<Rightarrow> lifecycle_request \<Rightarrow> lifecycle_request" where
  "retry_request now r = r\<lparr>lr_status := LC_REQUESTED, lr_next := now, lr_error := None, lr_lease := None, lr_lease_expires := None\<rparr>"

definition api_platform_retry_tenant_lifecycle_request :: "bool \<Rightarrow> uuid \<Rightarrow> instant \<Rightarrow> lifecycle_request list dbtx" where
  "api_platform_retry_tenant_lifecycle_request admin rid now =
     update_requests (\<lambda>r. lr_id r = rid \<and> lr_status r = LC_FAILED \<and> admin) (retry_request now)"

section \<open>The service\<close>

text \<open>\<open>queued\<close>: whether the queue takes the job; a failure is not caught.\<close>

definition queueRequest :: "bool \<Rightarrow> unit dbservice" where
  "queueRequest queued = (if queued then svc_return () else svc_throw (Plain ''QUEUE_UNAVAILABLE''))"

definition create_lifecycle :: "bool \<Rightarrow> bool \<Rightarrow> uuid \<Rightarrow> lifecycle_kind \<Rightarrow> string \<Rightarrow> uuid \<Rightarrow> string \<Rightarrow> instant \<Rightarrow> lifecycle_request dbservice" where
  "create_lifecycle admin queued t kind reason key hash now =
     svc_bind (svc_try (run_tx (api_platform_create_tenant_lifecycle_request admin t kind reason key hash now))
         (\<lambda>e. svc_throw (if e = Plain ''LIFECYCLE_IDEMPOTENCY_CONFLICT'' then Conflict ''LIFECYCLE_IDEMPOTENCY_CONFLICT'' else e))) (\<lambda>rows.
       case rows of
         None \<Rightarrow> svc_throw (NotFound ''TENANT_NOT_FOUND'')
       | Some (r, replayed) \<Rightarrow>
           if replayed then svc_return r else svc_bind (queueRequest queued) (\<lambda>_. svc_return r))"

text \<open>\<open>verified\<close>: the step-up token of the administrator.\<close>

definition createDeletion :: "bool \<Rightarrow> bool \<Rightarrow> bool \<Rightarrow> uuid \<Rightarrow> string \<Rightarrow> uuid \<Rightarrow> string \<Rightarrow> instant \<Rightarrow> lifecycle_request dbservice" where
  "createDeletion verified admin queued t reason key hash now =
     (if \<not> verified then svc_throw (Plain ''ADMIN_REAUTH_REQUIRED'')
      else create_lifecycle admin queued t DELETE reason key hash now)"

definition cancel_lifecycle :: "bool \<Rightarrow> uuid \<Rightarrow> instant \<Rightarrow> lifecycle_request dbservice" where
  "cancel_lifecycle admin rid now = svc_bind (run_tx (api_platform_cancel_tenant_lifecycle_request admin rid now)) (\<lambda>rows.
     case rows of [] \<Rightarrow> svc_throw (Conflict ''TENANT_LIFECYCLE_NOT_CANCELLABLE'') | r # _ \<Rightarrow> svc_return r)"

definition retry_lifecycle :: "bool \<Rightarrow> bool \<Rightarrow> uuid \<Rightarrow> instant \<Rightarrow> lifecycle_request dbservice" where
  "retry_lifecycle admin queued rid now = svc_bind (run_tx (api_platform_retry_tenant_lifecycle_request admin rid now)) (\<lambda>rows.
     case rows of [] \<Rightarrow> svc_throw (Conflict ''TENANT_LIFECYCLE_NOT_RETRYABLE'')
     | r # _ \<Rightarrow> svc_bind (queueRequest queued) (\<lambda>_. svc_return r))"

section \<open>The store of objects\<close>

text \<open>The type, the length and the checksum of an object.\<close>

record artifact =
  ar_type :: string
  ar_length :: nat
  ar_checksum :: string

type_synonym object_store = "(string \<times> artifact) list"

definition put_object :: "string \<Rightarrow> artifact \<Rightarrow> object_store \<Rightarrow> object_store" where
  "put_object k a objects = AList.update k a objects"

definition delete_object :: "string \<Rightarrow> object_store \<Rightarrow> object_store" where
  "delete_object k objects = AList.delete k objects"

text \<open>What the writer has prepared, with the checksum in both notations.\<close>

record prepared =
  pe_size :: nat
  pe_base64 :: string
  pe_hex :: string
  pe_manifest :: nat

text \<open>What may go wrong: the writer, the upload, the object that is read back, the
  transaction that publishes it, the deletion.\<close>

record export_faults =
  ef_written :: "prepared option"
  ef_put :: bool
  ef_head :: "artifact \<Rightarrow> artifact option"
  ef_publish :: bool
  ef_delete :: bool

section \<open>The worker\<close>

definition export_lease_ms :: int where
  "export_lease_ms = 15 * 60000"

definition artifact_ttl_ms :: int where
  "artifact_ttl_ms = 7 * 24 * 60 * 60000"

definition max_retry_ms :: int where
  "max_retry_ms = 6 * 60 * 60000"

definition request_key :: "lifecycle_request \<Rightarrow> uuid \<times> uuid" where
  "request_key r = (lr_tenant r, lr_id r)"

definition lc_claimable :: "uuid \<times> uuid \<Rightarrow> instant \<Rightarrow> lifecycle_request \<Rightarrow> bool" where
  "lc_claimable job now r \<longleftrightarrow> (lr_tenant r, lr_id r) = job \<and> lr_kind r \<in> {EXPORT, DELETE}
     \<and> (lr_status r \<in> {LC_REQUESTED, LC_FAILED} \<and> lr_next r \<le> now
        \<or> lr_status r = LC_EXPORTING \<and> (case lr_lease_expires r of Some x \<Rightarrow> x \<le> now | None \<Rightarrow> False))"

definition start_export :: "uuid \<Rightarrow> instant \<Rightarrow> lifecycle_request \<Rightarrow> lifecycle_request" where
  "start_export lease now r = r\<lparr>lr_status := LC_EXPORTING, lr_lease := Some lease, lr_lease_expires := Some (now + export_lease_ms),
     lr_attempts := lr_attempts r + 1, lr_error := None\<rparr>"

definition lc_owned :: "uuid \<times> uuid \<Rightarrow> uuid \<Rightarrow> lifecycle_request \<Rightarrow> bool" where
  "lc_owned job lease r \<longleftrightarrow> (lr_tenant r, lr_id r) = job \<and> lr_status r = LC_EXPORTING \<and> lr_lease r = Some lease"

datatype export_outcome = Publish string prepared instant | Retry_at instant string

fun write_export :: "export_outcome \<Rightarrow> lifecycle_request \<Rightarrow> lifecycle_request" where
  "write_export (Publish k p ready) r = r\<lparr>lr_status := LC_EXPORT_READY, lr_artifact := Some k, lr_sha := Some (pe_hex p),
     lr_size := Some (pe_size p), lr_manifest := Some (pe_manifest p), lr_ready_at := Some ready,
     lr_expires_at := Some (ready + artifact_ttl_ms), lr_lease := None, lr_lease_expires := None, lr_error := None\<rparr>"
| "write_export (Retry_at n code) r = r\<lparr>lr_status := LC_FAILED, lr_lease := None, lr_lease_expires := None, lr_next := n,
     lr_error := Some code\<rparr>"

definition exporting_lease :: "lifecycle_request \<Rightarrow> uuid option" where
  "exporting_lease r = (if lr_status r = LC_EXPORTING then lr_lease r else None)"

lemma write_export_simps [simp]:
  "lr_tenant (write_export out r) = lr_tenant r" "lr_id (write_export out r) = lr_id r" "lr_kind (write_export out r) = lr_kind r"
  "lr_frozen_at (write_export out r) = lr_frozen_at r" "lr_lease (write_export out r) = None" "lr_key (write_export out r) = lr_key r"
  "lr_status (write_export out r) \<noteq> LC_EXPORTING"
  by (cases out; simp)+

interpretation lc: lease_queue request_key lc_claimable exporting_lease start_export write_export
  by unfold_locales (auto simp: request_key_def lc_claimable_def exporting_lease_def start_export_def)

lemma lc_owned: "lc_owned = lc.owned"
  by (auto simp: fun_eq_iff lc_owned_def lc.owned_def request_key_def exporting_lease_def)

text \<open>\<open>claim\<close>: the count of attempts, or nothing.\<close>

definition update_request :: "(lifecycle_request \<Rightarrow> bool) \<Rightarrow> (lifecycle_request \<Rightarrow> lifecycle_request) \<Rightarrow> nat dbtx" where
  "update_request P f = (\<lambda>d. Inr (count_where P (lifecycle_requests d), d\<lparr>lifecycle_requests := update_where P f (lifecycle_requests d)\<rparr>))"

definition lc_claim :: "uuid \<times> uuid \<Rightarrow> uuid \<Rightarrow> instant \<Rightarrow> nat option dbtx" where
  "lc_claim job lease now = tx_bind (update_request (lc_claimable job now) (start_export lease now)) (\<lambda>count.
     if count = 0 then tx_return None
     else tx_bind (tx_read (\<lambda>d. List.find (\<lambda>r. request_key r = job \<and> lr_lease r = Some lease) (lifecycle_requests d))) (\<lambda>found.
       case found of None \<Rightarrow> tx_throw RecordNotFound | Some r \<Rightarrow> tx_return (Some (lr_attempts r))))"

definition retry_ms :: "nat \<Rightarrow> int" where
  "retry_ms attempts = min (30000 * 2 ^ (attempts - 1)) max_retry_ms"

definition lc_fail :: "uuid \<times> uuid \<Rightarrow> uuid \<Rightarrow> nat \<Rightarrow> string \<Rightarrow> instant \<Rightarrow> unit dbtx" where
  "lc_fail job lease attempts code now = tx_bind (update_request (lc_owned job lease)
     (write_export (Retry_at (now + retry_ms attempts) code))) (\<lambda>_. tx_return ())"

definition lc_publish :: "uuid \<times> uuid \<Rightarrow> uuid \<Rightarrow> string \<Rightarrow> prepared \<Rightarrow> instant \<Rightarrow> nat dbtx" where
  "lc_publish job lease k p now = update_request (lc_owned job lease) (write_export (Publish k p now))"

definition artifact_of :: "prepared \<Rightarrow> artifact" where
  "artifact_of p = \<lparr>ar_type = ''application/zip'', ar_length = pe_size p, ar_checksum = pe_base64 p\<rparr>"

definition object_key :: "uuid \<times> uuid \<Rightarrow> uuid \<Rightarrow> string" where
  "object_key job lease = ''tenant-lifecycle/'' @ decimal_digits (fst job) @ ''/'' @ decimal_digits (snd job) @ ''/export-''
     @ decimal_digits lease @ ''.zip''"

datatype export_result = E_READY | E_FAILED | E_IGNORED

type_synonym 'a lc_service = "(db \<times> object_store, app_error, 'a) service"

text \<open>A transaction of the database, in a service that has the objects too.\<close>

definition on_db :: "'a dbtx \<Rightarrow> 'a lc_service" where
  "on_db m = (\<lambda>(d, objects). case run_tx m d of (r, d') \<Rightarrow> (r, (d', objects)))"

definition on_objects :: "(object_store \<Rightarrow> object_store) \<Rightarrow> unit lc_service" where
  "on_objects f = (\<lambda>(d, objects). (Inr (), (d, f objects)))"

text \<open>The catch block.\<close>

definition export_failed :: "export_faults \<Rightarrow> uuid \<times> uuid \<Rightarrow> uuid \<Rightarrow> nat \<Rightarrow> bool \<Rightarrow> string \<Rightarrow> instant \<Rightarrow> export_result lc_service" where
  "export_failed F job lease attempts uploaded code fin =
     svc_bind (if uploaded \<and> ef_delete F then on_objects (delete_object (object_key job lease)) else svc_return ()) (\<lambda>_.
     svc_bind (on_db (lc_fail job lease attempts code fin)) (\<lambda>_. svc_return E_FAILED))"

text \<open>The archive is there: upload, read back, publish.\<close>

definition publish_export :: "export_faults \<Rightarrow> uuid \<times> uuid \<Rightarrow> uuid \<Rightarrow> nat \<Rightarrow> prepared \<Rightarrow> instant \<Rightarrow> export_result lc_service" where
  "publish_export F job lease attempts p fin =
     (if \<not> ef_put F then export_failed F job lease attempts False ''TENANT_EXPORT_FAILED'' fin
      else svc_bind (on_objects (put_object (object_key job lease) (artifact_of p))) (\<lambda>_.
        if ef_head F (artifact_of p) = None then export_failed F job lease attempts True ''TENANT_EXPORT_FAILED'' fin
        else if ef_head F (artifact_of p) \<noteq> Some (artifact_of p)
        then export_failed F job lease attempts True ''TENANT_EXPORT_OBJECT_VERIFICATION_FAILED'' fin
        else if \<not> ef_publish F then export_failed F job lease attempts True ''TENANT_EXPORT_FAILED'' fin
        else svc_bind (on_db (lc_publish job lease (object_key job lease) p fin)) (\<lambda>count.
          if count \<noteq> 0 then svc_return E_READY
          else if ef_delete F then svc_bind (on_objects (delete_object (object_key job lease))) (\<lambda>_. svc_return E_IGNORED)
          else export_failed F job lease attempts True ''TENANT_EXPORT_FAILED'' fin)))"

text \<open>\<open>env\<close>: what others commit while the archive is written and uploaded; \<open>now\<close> and \<open>fin\<close>
  are the clock at the start and at the end.\<close>

definition process_lifecycle :: "export_faults \<Rightarrow> uuid \<times> uuid \<Rightarrow> uuid \<Rightarrow> instant \<Rightarrow> instant \<Rightarrow> (db \<Rightarrow> db) \<Rightarrow> export_result lc_service" where
  "process_lifecycle F job lease now fin env =
     svc_bind (on_db (lc_claim job lease now)) (\<lambda>claimed. case claimed of
         None \<Rightarrow> svc_return E_IGNORED
       | Some attempts \<Rightarrow> (\<lambda>(d, objects). (case ef_written F of
             None \<Rightarrow> export_failed F job lease attempts False ''TENANT_EXPORT_FAILED'' fin
           | Some p \<Rightarrow> publish_export F job lease attempts p fin) (env d, objects)))"

section \<open>Downloads and clean-up\<close>

text \<open>The checks of a download: the row, the object's head and the stream.  \<open>hex\<close> converts
  the notation of the checksum.\<close>

definition createDownload :: "(string \<Rightarrow> string) \<Rightarrow> bool \<Rightarrow> bool \<Rightarrow> bool \<Rightarrow> uuid \<Rightarrow> instant \<Rightarrow> (artifact \<times> string) lc_service" where
  "createDownload hex verified admin storage rid now =
     (if \<not> verified then svc_throw (Plain ''ADMIN_REAUTH_REQUIRED'')
      else if \<not> storage then svc_throw (Conflict ''TENANT_LIFECYCLE_ARTIFACT_UNAVAILABLE'')
      else (\<lambda>(d, objects).
        (case List.find (\<lambda>r. lr_id r = rid \<and> admin) (lifecycle_requests d) of
           None \<Rightarrow> svc_throw (NotFound ''TENANT_LIFECYCLE_NOT_FOUND'')
         | Some r \<Rightarrow> (case (non_empty (lr_artifact r), non_empty (lr_sha r), lr_size r) of
             (Some k, Some sha, Some bytes) \<Rightarrow>
               if lr_status r \<noteq> LC_EXPORT_READY then svc_throw (Conflict ''TENANT_LIFECYCLE_ARTIFACT_UNAVAILABLE'')
               else if (case lr_expires_at r of None \<Rightarrow> True | Some x \<Rightarrow> x \<le> now)
               then svc_throw (Conflict ''TENANT_LIFECYCLE_ARTIFACT_EXPIRED'')
               else (case map_of objects k of
                   None \<Rightarrow> svc_throw (Plain ''OBJECT_NOT_FOUND'')
                 | Some a \<Rightarrow>
                     if ar_type a \<noteq> ''application/zip'' \<or> ar_length a \<noteq> bytes \<or> ar_checksum a = [] \<or> hex (ar_checksum a) \<noteq> sha
                     then svc_throw (Conflict ''TENANT_LIFECYCLE_ARTIFACT_VERIFICATION_FAILED'')
                     else svc_return (a, k))
           | _ \<Rightarrow> svc_throw (Conflict ''TENANT_LIFECYCLE_ARTIFACT_UNAVAILABLE''))) (d, objects)))"

definition worker_due_tenant_lifecycle_requests :: "instant \<Rightarrow> nat \<Rightarrow> db \<Rightarrow> (uuid \<times> uuid) list" where
  "worker_due_tenant_lifecycle_requests now limit d = map request_key (take (min (max limit 1) 50)
     (sort_key (\<lambda>r. (lr_next r, lr_id r)) (filter (\<lambda>r. lr_status r \<in> {LC_REQUESTED, LC_FAILED} \<and> lr_next r \<le> now
        \<or> lr_status r = LC_EXPORTING \<and> (case lr_lease_expires r of Some x \<Rightarrow> x \<le> now | None \<Rightarrow> False)) (lifecycle_requests d))))"

definition expired_artifact :: "instant \<Rightarrow> lifecycle_request \<Rightarrow> bool" where
  "expired_artifact now r \<longleftrightarrow> lr_status r = LC_EXPORT_READY \<and> lr_artifact r \<noteq> None
     \<and> (case lr_expires_at r of Some x \<Rightarrow> x \<le> now | None \<Rightarrow> False)"

definition worker_due_tenant_lifecycle_artifact_cleanups :: "instant \<Rightarrow> nat \<Rightarrow> db \<Rightarrow> (uuid \<times> uuid) list" where
  "worker_due_tenant_lifecycle_artifact_cleanups now limit d = map request_key (take (min (max limit 1) 50)
     (sort_key (\<lambda>r. (case lr_expires_at r of Some x \<Rightarrow> x | None \<Rightarrow> 0, lr_id r)) (filter (expired_artifact now) (lifecycle_requests d))))"

definition clear_artifact :: "lifecycle_request \<Rightarrow> lifecycle_request" where
  "clear_artifact r = r\<lparr>lr_artifact := None, lr_expires_at := None, lr_size := None, lr_manifest := None\<rparr>"

definition lc_clear :: "uuid \<times> uuid \<Rightarrow> string \<Rightarrow> instant option \<Rightarrow> nat dbtx" where
  "lc_clear job k expires = update_request (\<lambda>x. request_key x = job \<and> lr_status x = LC_EXPORT_READY
     \<and> lr_artifact x = Some k \<and> lr_expires_at x = expires) clear_artifact"

text \<open>One expired artifact: the object first, then the row if it still refers to it.  The
  result: whether it was cleared; the deletion that fails counts as a failure.\<close>

definition cleanup_one :: "bool \<Rightarrow> instant \<Rightarrow> uuid \<times> uuid \<Rightarrow> (db \<Rightarrow> db) \<Rightarrow> bool lc_service" where
  "cleanup_one deletes now job env = (\<lambda>(d, objects).
     case List.find (\<lambda>r. request_key r = job \<and> expired_artifact now r) (lifecycle_requests d) of
       None \<Rightarrow> (Inr False, (d, objects))
     | Some r \<Rightarrow> (case non_empty (lr_artifact r) of
           None \<Rightarrow> (Inr False, (d, objects))
         | Some k \<Rightarrow>
             if \<not> deletes then (Inl (Plain ''OBJECT_STORAGE''), (d, objects))
             else on_db (tx_bind (lc_clear job k (lr_expires_at r)) (\<lambda>n. tx_return (0 < n))) (env d, delete_object k objects)))"

fun cleanup_all :: "(uuid \<times> uuid \<Rightarrow> bool) \<Rightarrow> instant \<Rightarrow> (uuid \<times> uuid) list \<Rightarrow> (nat \<times> nat) lc_service" where
  "cleanup_all deletes now [] = svc_return (0, 0)"
| "cleanup_all deletes now (job # jobs) = (\<lambda>s. case cleanup_one (deletes job) now job (\<lambda>d. d) s of
       (Inl e, s') \<Rightarrow> svc_bind (cleanup_all deletes now jobs) (\<lambda>(deleted, failed). svc_return (deleted, failed + 1)) s'
     | (Inr cleared, s') \<Rightarrow> svc_bind (cleanup_all deletes now jobs) (\<lambda>(deleted, failed).
         svc_return (if cleared then deleted + 1 else deleted, failed)) s')"

definition cleanupExpired :: "(uuid \<times> uuid \<Rightarrow> bool) \<Rightarrow> instant \<Rightarrow> (nat \<times> nat \<times> nat) lc_service" where
  "cleanupExpired deletes now = svc_bind (on_db (tx_read (worker_due_tenant_lifecycle_artifact_cleanups now 50))) (\<lambda>jobs.
     svc_bind (cleanup_all deletes now jobs) (\<lambda>(deleted, failed). svc_return (length jobs, deleted, failed)))"

text \<open>The attempted, the queued and the failed jobs.\<close>

definition reconcile_lifecycle :: "(uuid \<times> uuid \<Rightarrow> bool) \<Rightarrow> instant \<Rightarrow> (nat \<times> nat \<times> nat) dbservice" where
  "reconcile_lifecycle queue now = svc_bind (run_tx (tx_read (worker_due_tenant_lifecycle_requests now 50))) (\<lambda>jobs.
     svc_return (length jobs, length (filter queue jobs), length (filter (\<lambda>j. \<not> queue j) jobs)))"

section \<open>Retention\<close>

datatype retention_category = RAW_WEBHOOKS | USER_NOTIFICATIONS | SECURITY_AUDIT | CONVERSATIONS_AND_CUSTOMER_DATA
  | ORDERS_PAYMENTS_AND_DELIVERY

text \<open>The days of a policy, or none when it is not configured.\<close>

definition retention_policies :: "(retention_category \<times> int option) list" where
  "retention_policies = [(RAW_WEBHOOKS, Some 30), (USER_NOTIFICATIONS, Some 90), (SECURITY_AUDIT, Some 365),
     (CONVERSATIONS_AND_CUSTOMER_DATA, None), (ORDERS_PAYMENTS_AND_DELIVERY, None)]"

definition retentionCutoff :: "int option \<Rightarrow> instant \<Rightarrow> instant option" where
  "retentionCutoff days now = map_option (\<lambda>n. now - n * 24 * 60 * 60000) days"

fun category_name :: "retention_category \<Rightarrow> string" where
  "category_name RAW_WEBHOOKS = ''RAW_WEBHOOKS''"
| "category_name USER_NOTIFICATIONS = ''USER_NOTIFICATIONS''"
| "category_name SECURITY_AUDIT = ''SECURITY_AUDIT''"
| "category_name CONVERSATIONS_AND_CUSTOMER_DATA = ''CONVERSATIONS_AND_CUSTOMER_DATA''"
| "category_name ORDERS_PAYMENTS_AND_DELIVERY = ''ORDERS_PAYMENTS_AND_DELIVERY''"

definition api_platform_create_retention_dry_run ::
    "bool \<Rightarrow> uuid \<Rightarrow> uuid \<Rightarrow> string \<Rightarrow> instant \<Rightarrow> (retention_run \<times> bool) option dbtx" where
  "api_platform_create_retention_dry_run admin t key hash now = (\<lambda>d.
     if \<not> admin \<or> \<not> any_row (\<lambda>x. tn_id x = t) (tenants d) then Inr (None, d)
     else case List.find (\<lambda>r. rr_tenant r = t \<and> rr_key r = key) (retention_runs d) of
         Some r \<Rightarrow> if rr_hash r \<noteq> hash then Inl (Plain ''RETENTION_IDEMPOTENCY_CONFLICT'') else Inr (Some (r, True), d)
       | None \<Rightarrow> let r = \<lparr>rr_id = next_id d, rr_tenant = t, rr_status = RUN_REQUESTED, rr_key = key, rr_hash = hash, rr_summary = None,
             rr_lease = None, rr_lease_expires = None, rr_next = now, rr_error = None, rr_completed = None, rr_requested = now\<rparr>
           in Inr (Some (r, False), d\<lparr>retention_runs := retention_runs d @ [r], next_id := next_id d + 1\<rparr>))"

definition createRetentionDryRun :: "bool \<Rightarrow> bool \<Rightarrow> uuid \<Rightarrow> uuid \<Rightarrow> string \<Rightarrow> instant \<Rightarrow> retention_run dbservice" where
  "createRetentionDryRun admin queued t key hash now =
     svc_bind (svc_try (run_tx (api_platform_create_retention_dry_run admin t key hash now))
         (\<lambda>e. svc_throw (if e = Plain ''RETENTION_IDEMPOTENCY_CONFLICT'' then Conflict ''RETENTION_IDEMPOTENCY_CONFLICT'' else e))) (\<lambda>rows.
       case rows of
         None \<Rightarrow> svc_throw (NotFound ''TENANT_NOT_FOUND'')
       | Some (r, replayed) \<Rightarrow>
           if replayed then svc_return r else svc_bind (queueRequest queued) (\<lambda>_. svc_return r))"

text \<open>The rows that a policy would delete.  The tables of notifications and of the security
  audit are not modelled: their counts are the parameter \<open>other\<close>, which may fail.\<close>

definition oldest :: "instant list \<Rightarrow> instant option" where
  "oldest ts = (case sort ts of [] \<Rightarrow> None | x # _ \<Rightarrow> Some x)"

definition countCandidates :: "(retention_category \<Rightarrow> instant \<Rightarrow> (nat \<times> instant option) option) \<Rightarrow> uuid \<Rightarrow> retention_category \<Rightarrow> instant \<Rightarrow>
    (nat \<times> instant option) dbtx" where
  "countCandidates other t c cutoff = (\<lambda>d. case c of
       RAW_WEBHOOKS \<Rightarrow> (let old = filter (\<lambda>e. we_tenant e = t \<and> we_received e < cutoff) (webhook_events d)
         in Inr ((length old, oldest (map we_received old)), d))
     | USER_NOTIFICATIONS \<Rightarrow> (case other c cutoff of None \<Rightarrow> Inl (Plain ''QUERY_FAILED'') | Some r \<Rightarrow> Inr (r, d))
     | SECURITY_AUDIT \<Rightarrow> (case other c cutoff of None \<Rightarrow> Inl (Plain ''QUERY_FAILED'') | Some r \<Rightarrow> Inr (r, d))
     | _ \<Rightarrow> Inr ((0, None), d))"

type_synonym retention_entry = "string \<times> (instant \<times> nat \<times> instant option) option"

fun summarize_policies :: "(retention_category \<Rightarrow> instant \<Rightarrow> (nat \<times> instant option) option) \<Rightarrow> uuid \<Rightarrow> instant \<Rightarrow>
    (retention_category \<times> int option) list \<Rightarrow> retention_entry list dbservice" where
  "summarize_policies other t now [] = svc_return []"
| "summarize_policies other t now ((c, days) # ps) = (case retentionCutoff days now of
      None \<Rightarrow> svc_bind (summarize_policies other t now ps) (\<lambda>es. svc_return ((category_name c, None) # es))
    | Some cutoff \<Rightarrow> svc_bind (run_tx (countCandidates other t c cutoff)) (\<lambda>(n, first).
        svc_bind (summarize_policies other t now ps) (\<lambda>es. svc_return ((category_name c, Some (cutoff, n, first)) # es))))"

definition run_key :: "retention_run \<Rightarrow> uuid \<times> uuid" where
  "run_key r = (rr_tenant r, rr_id r)"

definition run_claimable :: "uuid \<times> uuid \<Rightarrow> instant \<Rightarrow> retention_run \<Rightarrow> bool" where
  "run_claimable job now r \<longleftrightarrow> (rr_tenant r, rr_id r) = job
     \<and> (rr_status r \<in> {RUN_REQUESTED, RUN_FAILED} \<and> rr_next r \<le> now
        \<or> rr_status r = RUN_PROCESSING \<and> (case rr_lease_expires r of Some x \<Rightarrow> x \<le> now | None \<Rightarrow> False))"

definition start_run :: "uuid \<Rightarrow> instant \<Rightarrow> retention_run \<Rightarrow> retention_run" where
  "start_run lease now r = r\<lparr>rr_status := RUN_PROCESSING, rr_lease := Some lease, rr_lease_expires := Some (now + 5 * 60000),
     rr_error := None, rr_completed := None\<rparr>"

definition run_owned :: "uuid \<times> uuid \<Rightarrow> uuid \<Rightarrow> retention_run \<Rightarrow> bool" where
  "run_owned job lease r \<longleftrightarrow> (rr_tenant r, rr_id r) = job \<and> rr_status r = RUN_PROCESSING \<and> rr_lease r = Some lease"

datatype run_outcome = Completed "retention_entry list" | Run_failed

fun write_run :: "instant \<times> run_outcome \<Rightarrow> retention_run \<Rightarrow> retention_run" where
  "write_run (now, Completed es) r = r\<lparr>rr_status := RUN_COMPLETED, rr_summary := Some es, rr_completed := Some now, rr_lease := None,
     rr_lease_expires := None, rr_error := None\<rparr>"
| "write_run (now, Run_failed) r = r\<lparr>rr_status := RUN_FAILED, rr_error := Some ''RETENTION_DRY_RUN_FAILED'', rr_next := now + 5 * 60000,
     rr_lease := None, rr_lease_expires := None\<rparr>"

definition processing_lease :: "retention_run \<Rightarrow> uuid option" where
  "processing_lease r = (if rr_status r = RUN_PROCESSING then rr_lease r else None)"

lemma write_run_simps [simp]:
  "rr_tenant (write_run out r) = rr_tenant r" "rr_id (write_run out r) = rr_id r" "rr_lease (write_run out r) = None"
  by (cases "(out, r)" rule: write_run.cases; simp)+

interpretation rr: lease_queue run_key run_claimable processing_lease start_run write_run
  by unfold_locales (auto simp: run_key_def run_claimable_def processing_lease_def start_run_def)

definition update_run :: "(retention_run \<Rightarrow> bool) \<Rightarrow> (retention_run \<Rightarrow> retention_run) \<Rightarrow> bool dbtx" where
  "update_run = update_one retention_runs (\<lambda>rows d. d\<lparr>retention_runs := rows\<rparr>)"

text \<open>\<open>env\<close>: what others commit while the rows are counted.\<close>

definition process_retention :: "(retention_category \<Rightarrow> instant \<Rightarrow> (nat \<times> instant option) option) \<Rightarrow> uuid \<times> uuid \<Rightarrow> uuid \<Rightarrow> instant \<Rightarrow>
    (db \<Rightarrow> db) \<Rightarrow> (run_status \<times> retention_entry list) option dbservice" where
  "process_retention other job lease now env =
     svc_bind (run_tx (update_run (run_claimable job now) (start_run lease now))) (\<lambda>claimed.
       if \<not> claimed then svc_return None
       else (\<lambda>d. svc_try (svc_bind (summarize_policies other (fst job) now retention_policies) (\<lambda>es.
           svc_bind (run_tx (update_run (run_owned job lease) (write_run (now, Completed es)))) (\<lambda>completed.
           svc_return (if completed then Some (RUN_COMPLETED, es) else None))))
         (\<lambda>_. svc_bind (run_tx (update_run (run_owned job lease) (write_run (now, Run_failed)))) (\<lambda>_.
           svc_return (Some (RUN_FAILED, [])))) (env d)))"

definition worker_due_retention_dry_runs :: "instant \<Rightarrow> nat \<Rightarrow> db \<Rightarrow> (uuid \<times> uuid) list" where
  "worker_due_retention_dry_runs now limit d = map run_key (take (min (max limit 1) 50)
     (sort_key (\<lambda>r. (rr_next r, rr_id r)) (filter (\<lambda>r. rr_status r \<in> {RUN_REQUESTED, RUN_FAILED} \<and> rr_next r \<le> now
        \<or> rr_status r = RUN_PROCESSING \<and> (case rr_lease_expires r of Some x \<Rightarrow> x \<le> now | None \<Rightarrow> False)) (retention_runs d))))"

definition reconcileRetention :: "(uuid \<times> uuid \<Rightarrow> bool) \<Rightarrow> instant \<Rightarrow> (nat \<times> nat \<times> nat) dbservice" where
  "reconcileRetention queue now = svc_bind (run_tx (tx_read (worker_due_retention_dry_runs now 50))) (\<lambda>jobs.
     svc_return (length jobs, length (filter queue jobs), length (filter (\<lambda>j. \<not> queue j) jobs)))"

end
