(* ===== verification/Lifecycle_Props.thy ===== *)
theory Lifecycle_Props
  imports Lifecycle Preserve
begin

text \<open>
  Properties of the requests to export and delete a tenant: what a request goes through
  under any commits, when a tenant is frozen, what an export that is ready guarantees, and
  what becomes of the archive.
\<close>

section \<open>The machine of a request\<close>

inductive request_step :: "lifecycle_request \<Rightarrow> lifecycle_request \<Rightarrow> bool" where
  stays: "request_step r r"
| cancels: "lr_status r \<in> {LC_REQUESTED, LC_FAILED, LC_EXPORT_READY} \<Longrightarrow> request_step r (cancel_request now r)"
| retries: "lr_status r = LC_FAILED \<Longrightarrow> request_step r (retry_request now r)"
| starts: "lc_claimable job now r \<Longrightarrow> request_step r (start_export lease now r)"
| finishes: "lc_owned job lease r \<Longrightarrow> request_step r (write_export out r)"
| clears: "lr_status r = LC_EXPORT_READY \<Longrightarrow> request_step r (clear_artifact r)"

inductive_cases request_stepE: "request_step r r'"

text \<open>The commits that others make, each one a transaction.\<close>

inductive lifecycle_commit :: "db \<Rightarrow> db \<Rightarrow> bool" where
  created: "api_platform_create_tenant_lifecycle_request admin t kind reason key hash now d = Inr (res, d') \<Longrightarrow> lifecycle_commit d d'"
| cancelled: "api_platform_cancel_tenant_lifecycle_request admin rid now d = Inr (rows, d') \<Longrightarrow> lifecycle_commit d d'"
| retried: "api_platform_retry_tenant_lifecycle_request admin rid now d = Inr (rows, d') \<Longrightarrow> lifecycle_commit d d'"
| claimed: "lc_claim job lease now d = Inr (att, d') \<Longrightarrow> lifecycle_commit d d'"
| published: "lc_publish job lease k p now d = Inr (n, d') \<Longrightarrow> lifecycle_commit d d'"
| failed: "lc_fail job lease att code now d = Inr (u, d') \<Longrightarrow> lifecycle_commit d d'"
| cleared: "lc_clear job k expires d = Inr (n, d') \<Longrightarrow> lifecycle_commit d d'"
| others: "lifecycle_requests d' = lifecycle_requests d \<Longrightarrow> next_id d \<le> next_id d' \<Longrightarrow> lifecycle_commit d d'"

abbreviation lifecycle_run :: "db \<Rightarrow> db \<Rightarrow> bool" where
  "lifecycle_run \<equiv> lifecycle_commit\<^sup>*\<^sup>*"

text \<open>A commit takes every request a step and adds at most a fresh one.\<close>

definition fresh_request :: "db \<Rightarrow> lifecycle_request \<Rightarrow> bool" where
  "fresh_request d r \<longleftrightarrow> (\<exists>t kind reason key hash now. r = new_request (next_id d) t kind reason key hash now
     \<and> \<not> any_row (\<lambda>x. lr_tenant x = t \<and> lr_key x = key) (lifecycle_requests d)
     \<and> \<not> (kind = DELETE \<and> any_row (active_deletion t) (lifecycle_requests d)))"

lemma updated_rows:
  assumes "\<And>r. P r \<Longrightarrow> request_step r (f r)"
  shows "\<exists>g. update_where P f rows = map g rows \<and> (\<forall>r. request_step r (g r))"
  using assms by (intro exI[of _ "\<lambda>r. if P r then f r else r"]) (auto simp: update_where_def intro: stays)

lemma update_request_Inr: "update_request P f d = Inr (n, d') \<longleftrightarrow>
    n = count_where P (lifecycle_requests d) \<and> d' = d\<lparr>lifecycle_requests := update_where P f (lifecycle_requests d)\<rparr>"
  by (auto simp: update_request_def)

lemma update_requests_Inr: "update_requests P f d = Inr (rows, d') \<longleftrightarrow>
    rows = map f (filter P (lifecycle_requests d)) \<and> d' = d\<lparr>lifecycle_requests := update_where P f (lifecycle_requests d)\<rparr>"
  by (auto simp: update_requests_def)

lemma claim_rows:
  "lc_claim job lease now d = Inr (att, d') \<Longrightarrow>
     d' = d\<lparr>lifecycle_requests := update_where (lc_claimable job now) (start_export lease now) (lifecycle_requests d)\<rparr>"
  by (auto simp: lc_claim_def tx_iff update_request_def split: if_splits option.splits)

lemma commit_rows:
  assumes "lifecycle_commit d d'"
  shows "(\<exists>g. lifecycle_requests d' = map g (lifecycle_requests d) \<and> (\<forall>r. request_step r (g r))) \<and> next_id d \<le> next_id d'
     \<or> (\<exists>r. fresh_request d r \<and> lifecycle_requests d' = lifecycle_requests d @ [r] \<and> next_id d' = next_id d + 1)"
  using assms
proof cases
  case (created admin t kind reason key hash now res)
  show ?thesis
  proof (cases "lifecycle_requests d' = lifecycle_requests d \<and> next_id d' = next_id d")
    case True
    then show ?thesis by (intro disjI1 conjI exI[of _ id]) (simp_all add: stays)
  next
    case False
    then show ?thesis using created
      by (intro disjI2 exI[of _ "new_request (next_id d) t kind reason key hash now"])
        (fastforce simp: api_platform_create_tenant_lifecycle_request_def fresh_request_def Let_def any_row_def find_None_iff
          split: if_splits option.splits)
  qed
next
  case (cancelled admin rid now rows)
  show ?thesis using cancelled
    by (simp add: api_platform_cancel_tenant_lifecycle_request_def update_requests_Inr, intro disjI1 updated_rows) (auto intro: cancels)
next
  case (retried admin rid now rows)
  show ?thesis using retried
    by (simp add: api_platform_retry_tenant_lifecycle_request_def update_requests_Inr, intro disjI1 updated_rows) (auto intro: retries)
next
  case (claimed job lease now att)
  show ?thesis unfolding claim_rows[OF claimed] by (simp, intro disjI1 updated_rows) (rule starts)
next
  case (published job lease k p now n)
  show ?thesis using published by (simp add: lc_publish_def update_request_Inr, intro disjI1 updated_rows) (rule finishes)
next
  case (failed job lease att code now u)
  show ?thesis using failed by (simp add: lc_fail_def tx_iff update_request_Inr, intro disjI1 updated_rows) (rule finishes)
next
  case (cleared job k expires n)
  show ?thesis using cleared by (simp add: lc_clear_def update_request_Inr, intro disjI1 updated_rows) (auto intro: clears)
next
  case others
  then show ?thesis by (intro disjI1 conjI exI[of _ id]) (simp_all add: stays)
qed

section \<open>Invariants\<close>

definition request_ok :: "lifecycle_request \<Rightarrow> bool" where
  "request_ok r \<longleftrightarrow> (lr_frozen_at r \<noteq> None \<longleftrightarrow> lr_kind r = DELETE \<and> lr_status r \<noteq> LC_CANCELLED)
     \<and> (lr_lease r \<noteq> None \<longleftrightarrow> lr_status r = LC_EXPORTING) \<and> (lr_lease_expires r \<noteq> None \<longleftrightarrow> lr_status r = LC_EXPORTING)
     \<and> (lr_artifact r \<noteq> None \<longrightarrow> lr_status r \<in> {LC_EXPORT_READY, LC_CANCELLED} \<and> lr_sha r \<noteq> None \<and> lr_size r \<noteq> None
          \<and> lr_manifest r \<noteq> None \<and> lr_ready_at r \<noteq> None \<and> lr_expires_at r \<noteq> None)"

definition lc_inv :: "db \<Rightarrow> bool" where
  "lc_inv d \<longleftrightarrow> distinct (map lr_id (lifecycle_requests d)) \<and> (\<forall>r\<in>set (lifecycle_requests d). lr_id r < next_id d \<and> request_ok r)
     \<and> distinct (map (\<lambda>r. (lr_tenant r, lr_key r)) (lifecycle_requests d))
     \<and> (\<forall>t. count_where (active_deletion t) (lifecycle_requests d) \<le> 1)"

lemmas request_effects = cancel_request_def retry_request_def start_export_def clear_artifact_def

lemma step_identity:
  "request_step r r' \<Longrightarrow> lr_id r' = lr_id r \<and> lr_tenant r' = lr_tenant r \<and> lr_kind r' = lr_kind r \<and> lr_key r' = lr_key r"
  by (elim request_stepE) (simp_all add: request_effects)

lemma request_step_ok: "request_step r r' \<Longrightarrow> request_ok r \<Longrightarrow> request_ok r'"
proof (elim request_stepE, goal_cases)
  case (5 job lease out)
  then show ?case by (cases out) (auto simp: request_ok_def lc_owned_def)
qed (auto simp: request_ok_def request_effects lc_claimable_def)

lemma step_final: "request_step r r' \<Longrightarrow> lr_status r = LC_CANCELLED \<Longrightarrow> r' = r"
  by (elim request_stepE) (auto simp: lc_claimable_def lc_owned_def)

lemma step_status:
  "request_step r r' \<Longrightarrow> lr_status r' = lr_status r \<or> lr_status r' \<in> set (lifecycle_next (lr_status r))
     \<or> lr_status r = LC_FAILED \<and> lr_status r' = LC_REQUESTED"
proof (elim request_stepE, goal_cases)
  case (5 job lease out)
  then show ?case by (cases out) (auto simp: lc_owned_def)
qed (auto simp: request_effects lc_claimable_def)

lemma step_active: "request_step r r' \<Longrightarrow> active_deletion t r' \<Longrightarrow> active_deletion t r"
  using step_identity[of r r'] step_final[of r r'] by (cases "lr_status r") (auto simp: active_deletion_def)

lemma count_map_le:
  assumes "\<And>r. P (g r) \<Longrightarrow> P r"
  shows "count_where P (map g rows) \<le> count_where P rows"
  using assms by (induction rows) (auto simp: le_SucI)

lemma count_any: "count_where P rows = 0 \<longleftrightarrow> \<not> any_row P rows"
  by (simp add: count_where_0_iff any_row_def)

lemma commit_inv:
  assumes "lifecycle_commit d d'" and "lc_inv d"
  shows "lc_inv d'"
  using commit_rows[OF assms(1)]
proof (elim disjE conjE exE)
  fix g assume g: "lifecycle_requests d' = map g (lifecycle_requests d)" "\<forall>r. request_step r (g r)" "next_id d \<le> next_id d'"
  have keys: "lr_id (g r) = lr_id r" "lr_tenant (g r) = lr_tenant r" "lr_key (g r) = lr_key r" for r
    using step_identity g(2) by blast+
  have "request_ok (g r)" if "request_ok r" for r using request_step_ok g(2) that by blast
  moreover have "count_where (active_deletion t) (map g (lifecycle_requests d)) \<le> 1" for t
    using count_map_le[of "active_deletion t" g "lifecycle_requests d"] step_active g(2) assms(2)
    by (meson lc_inv_def le_trans)
  ultimately show ?thesis using assms(2) g(3) by (fastforce simp: lc_inv_def g(1) comp_def keys)
next
  fix r assume r: "fresh_request d r" "lifecycle_requests d' = lifecycle_requests d @ [r]" "next_id d' = next_id d + 1"
  obtain t kind reason key hash now where new: "r = new_request (next_id d) t kind reason key hash now"
    "\<not> any_row (\<lambda>x. lr_tenant x = t \<and> lr_key x = key) (lifecycle_requests d)"
    "\<not> (kind = DELETE \<and> any_row (active_deletion t) (lifecycle_requests d))"
    using r(1) by (auto simp: fresh_request_def)
  have "request_ok r" by (simp add: new(1) request_ok_def new_request_def)
  moreover have "count_where (active_deletion t') [r] = 0 \<or> count_where (active_deletion t') (lifecycle_requests d) = 0
      \<and> count_where (active_deletion t') [r] = 1" for t'
    using new(3) unfolding count_any by (auto simp: new(1) active_deletion_def new_request_def)
  moreover have "count_where P (xs @ ys) = count_where P xs + count_where P ys" for P :: "lifecycle_request \<Rightarrow> bool" and xs ys
    by (induction xs) simp_all
  moreover have "count_where (active_deletion t') (lifecycle_requests d) \<le> 1" for t' using assms(2) by (simp add: lc_inv_def)
  ultimately have active: "count_where (active_deletion t') (lifecycle_requests d @ [r]) \<le> 1" for t'
    by (metis add.commute add_0 le_refl)
  have id: "lr_id r = next_id d" "lr_tenant r = t" "lr_key r = key" by (simp_all add: new(1) new_request_def)
  have old: "distinct (map lr_id (lifecycle_requests d))" "\<And>x. x \<in> set (lifecycle_requests d) \<Longrightarrow> lr_id x < next_id d \<and> request_ok x"
    "distinct (map (\<lambda>x. (lr_tenant x, lr_key x)) (lifecycle_requests d))"
    using assms(2) by (simp_all add: lc_inv_def)
  have "distinct (map lr_id (lifecycle_requests d @ [r]))" using old(1,2) by (force simp: id)
  moreover have "distinct (map (\<lambda>x. (lr_tenant x, lr_key x)) (lifecycle_requests d @ [r]))"
    using old(3) new(2) by (force simp: id any_row_def)
  moreover have "\<forall>x\<in>set (lifecycle_requests d @ [r]). lr_id x < next_id d' \<and> request_ok x"
    using old(2) \<open>request_ok r\<close> by (fastforce simp: id r(3))
  ultimately show ?thesis using active unfolding lc_inv_def r(2) by blast
qed

lemma run_inv: "lifecycle_run d d' \<Longrightarrow> lc_inv d \<Longrightarrow> lc_inv d'"
  by (induction rule: rtranclp_induct) (auto intro: commit_inv)

lemma commit_request:
  assumes "lifecycle_commit d d'" and "r \<in> set (lifecycle_requests d)"
  shows "\<exists>r'\<in>set (lifecycle_requests d'). request_step r r'"
  using commit_rows[OF assms(1)] assms(2) by (auto intro: stays)

lemma run_request:
  assumes "lifecycle_run d d'" and "r \<in> set (lifecycle_requests d)"
  shows "\<exists>r'\<in>set (lifecycle_requests d'). request_step\<^sup>*\<^sup>* r r'"
  using assms
proof (induction rule: rtranclp_induct)
  case (step y z)
  then obtain r' where "r' \<in> set (lifecycle_requests y)" "request_step\<^sup>*\<^sup>* r r'" by auto
  moreover from this obtain r'' where "r'' \<in> set (lifecycle_requests z)" "request_step r' r''"
    using commit_request[OF step(2)] by blast
  ultimately show ?case by (meson rtranclp.rtrancl_into_rtrancl)
qed auto

lemma steps_identity:
  "request_step\<^sup>*\<^sup>* r r' \<Longrightarrow> lr_id r' = lr_id r \<and> lr_tenant r' = lr_tenant r \<and> lr_kind r' = lr_kind r \<and> lr_key r' = lr_key r"
  by (induction rule: rtranclp_induct) (auto dest: step_identity)

lemma steps_final: "request_step\<^sup>*\<^sup>* r r' \<Longrightarrow> lr_status r = LC_CANCELLED \<Longrightarrow> r' = r"
  by (induction rule: rtranclp_induct) (auto dest: step_final)

lemma same_request:
  "lc_inv d \<Longrightarrow> r \<in> set (lifecycle_requests d) \<Longrightarrow> r' \<in> set (lifecycle_requests d) \<Longrightarrow> lr_id r = lr_id r' \<Longrightarrow> r = r'"
  by (auto simp: lc_inv_def distinct_map inj_on_def)

lemma frozen_active:
  assumes "lc_inv d"
  shows "tenant_frozen t d \<longleftrightarrow> any_row (active_deletion t) (lifecycle_requests d)"
  using assms by (fastforce simp: tenant_frozen_def any_row_def active_deletion_def lc_inv_def request_ok_def)

lemma frozen_count:
  assumes "lc_inv d"
  shows "tenant_frozen t d \<longleftrightarrow> count_where (active_deletion t) (lifecycle_requests d) = 1"
proof -
  have "count_where (active_deletion t) (lifecycle_requests d) \<le> 1" using assms by (simp add: lc_inv_def)
  moreover have "any_row (active_deletion t) (lifecycle_requests d) \<longleftrightarrow> count_where (active_deletion t) (lifecycle_requests d) \<noteq> 0"
    using count_any[of "active_deletion t" "lifecycle_requests d"] by metis
  ultimately show ?thesis unfolding frozen_active[OF assms] by linarith
qed

section \<open>Freezing\<close>

lemma still_frozen:
  assumes "lc_inv d" and "lifecycle_run d d'" and "r \<in> set (lifecycle_requests d)" and "active_deletion t r"
  shows "tenant_frozen t d' \<or> (\<exists>r'\<in>set (lifecycle_requests d'). lr_id r' = lr_id r \<and> lr_status r' = LC_CANCELLED)"
proof -
  obtain r' where r': "r' \<in> set (lifecycle_requests d')" "request_step\<^sup>*\<^sup>* r r'" using run_request[OF assms(2,3)] by blast
  note id = steps_identity[OF r'(2)]
  show ?thesis
  proof (cases "lr_status r' = LC_CANCELLED")
    case False
    then have "active_deletion t r'" using id assms(4) by (cases "lr_status r'") (simp_all add: active_deletion_def)
    then show ?thesis
      using r'(1) unfolding frozen_active[OF run_inv[OF assms(2,1)]] any_row_def list_ex_iff by blast
  qed (use r'(1) id in blast)
qed

lemma create_lifecycle_cases:
  assumes "api_platform_create_tenant_lifecycle_request admin t kind reason key hash now d = Inr (res, d')"
  obtains (refused) "res = None" "d' = d"
  | (replayed) r where "res = Some (r, True)" "d' = d" "admin" "r \<in> set (lifecycle_requests d)" "lr_tenant r = t" "lr_kind r = kind"
  | (new) r where "res = Some (r, False)" "admin" "r = new_request (next_id d) t kind reason key hash now"
      "lifecycle_requests d' = lifecycle_requests d @ [r]"
proof (cases "admin \<and> any_row (\<lambda>x. tn_id x = t) (tenants d)")
  case False
  then have "api_platform_create_tenant_lifecycle_request admin t kind reason key hash now d = Inr (None, d)"
    unfolding api_platform_create_tenant_lifecycle_request_def by (simp only: de_Morgan_conj if_True)
  then show ?thesis using assms by (intro refused) simp_all
next
  case ok: True
  show ?thesis
  proof (cases "List.find (\<lambda>r. lr_tenant r = t \<and> lr_key r = key) (lifecycle_requests d)")
    case None
    then show ?thesis using assms ok
      by (intro new[of "new_request (next_id d) t kind reason key hash now"])
        (auto simp: api_platform_create_tenant_lifecycle_request_def Let_def split: if_splits)
  next
    case (Some r)
    then show ?thesis using assms ok find_some_set[OF Some] find_some_prop[OF Some]
      by (intro replayed[of r]) (auto simp: api_platform_create_tenant_lifecycle_request_def split: if_splits)
  qed
qed

lemma run_tx_create:
  "run_tx (api_platform_create_tenant_lifecycle_request admin t kind reason key hash now) d = (r, d') \<Longrightarrow> lifecycle_run d d'"
  unfolding run_tx_def by (auto split: sum.splits intro: created)

definition lifecycle_sample :: db where
  "lifecycle_sample = empty_db\<lparr>tenants := [\<lparr>tn_id = 7, tn_name = ''Shop'', tn_active = True\<rparr>],
     lifecycle_requests := [(new_request 40 7 EXPORT ''CONTROLLER_REQUEST'' 1 ''h'' 0)\<lparr>lr_status := LC_FAILED\<rparr>], next_id := 50\<rparr>"

lemma lifecycle_sample_inv: "lc_inv lifecycle_sample"
  by (simp add: lc_inv_def lifecycle_sample_def empty_db_def new_request_def request_ok_def active_deletion_def)

text \<open>C18.
  Under every commit a request moves along at most one edge of the table of the
  transitions, except that a retry takes a failed request back to \<open>REQUESTED\<close>, which the
  table does not have; its tenant, kind and key never change, and a cancelled request is
  never written again.\<close>

theorem lifecycle_table:
  assumes "lc_inv d" and "lifecycle_commit d d'" and "r \<in> set (lifecycle_requests d)"
  shows "lc_inv d' \<and> (\<exists>r'\<in>set (lifecycle_requests d'). lr_id r' = lr_id r \<and> lr_tenant r' = lr_tenant r \<and> lr_kind r' = lr_kind r
     \<and> lr_key r' = lr_key r \<and> (lr_status r = LC_CANCELLED \<longrightarrow> r' = r)
     \<and> (lr_status r' = lr_status r \<or> assertLifecycleTransition (lr_status r) (Target (lr_status r')) = Inr ()
        \<or> lr_status r = LC_FAILED \<and> lr_status r' = LC_REQUESTED))"
proof -
  obtain r' where r': "r' \<in> set (lifecycle_requests d')" "request_step r r'" using commit_request[OF assms(2,3)] by blast
  then show ?thesis
    using commit_inv[OF assms(2,1)] step_identity[OF r'(2)] step_final[OF r'(2)] step_status[OF r'(2)]
    by (intro conjI bexI[of _ r']) (auto simp: assertLifecycleTransition_def)
qed

theorem lifecycle_table_witness:
  "\<exists>d'. lifecycle_commit lifecycle_sample d' \<and> (\<exists>r'\<in>set (lifecycle_requests d'). lr_id r' = 40
     \<and> assertLifecycleTransition LC_FAILED (Target LC_REQUESTED) \<noteq> Inr () \<and> lr_status r' = LC_REQUESTED)"
proof -
  let ?r = "(new_request 40 7 EXPORT ''CONTROLLER_REQUEST'' 1 ''h'' 0)\<lparr>lr_status := LC_FAILED\<rparr>"
  obtain rows d' where run: "api_platform_retry_tenant_lifecycle_request True 40 9 lifecycle_sample = Inr (rows, d')"
    by (simp add: api_platform_retry_tenant_lifecycle_request_def update_requests_def)
  have commit: "lifecycle_commit lifecycle_sample d'" by (rule retried[OF run])
  have "?r \<in> set (lifecycle_requests lifecycle_sample)" by (simp add: lifecycle_sample_def)
  from lifecycle_table[OF lifecycle_sample_inv commit this]
  obtain r' where r': "r' \<in> set (lifecycle_requests d')" "lr_id r' = 40" by (auto simp: new_request_def)
  moreover have "lr_status r' = LC_REQUESTED" using run r'(1)
    by (auto simp: api_platform_retry_tenant_lifecycle_request_def update_requests_def lifecycle_sample_def empty_db_def new_request_def
        retry_request_def)
  ultimately show ?thesis using commit by (auto simp: assertLifecycleTransition_def)
qed

text \<open>C19.
  A request to delete the tenant freezes it: when it is accepted, and even when only the
  queue refuses the job, the tenant is frozen, and it stays frozen under any commits
  until that request is cancelled; a replay of a cancelled request freezes nothing.  It
  takes a platform administrator with a valid step-up token, and any other failure
  leaves the store as it was.\<close>

theorem deletion_freezes:
  assumes "lc_inv d" and "createDeletion verified admin queued t reason key hash now d = (res, d')"
  shows "lc_inv d' \<and> (case res of
       Inr r \<Rightarrow> verified \<and> admin \<and> r \<in> set (lifecycle_requests d') \<and> lr_kind r = DELETE \<and> lr_tenant r = t
         \<and> (lr_status r \<noteq> LC_CANCELLED \<longrightarrow> (\<forall>d''. lifecycle_run d' d'' \<longrightarrow> tenant_frozen t d''
              \<or> (\<exists>r''\<in>set (lifecycle_requests d''). lr_id r'' = lr_id r \<and> lr_status r'' = LC_CANCELLED)))
     | Inl e \<Rightarrow> d' = d \<or> \<not> queued \<and> tenant_frozen t d')"
proof (cases verified)
  case False
  then show ?thesis using assms by (auto simp: createDeletion_def svc_throw_def)
next
  case True
  let ?m = "api_platform_create_tenant_lifecycle_request admin t DELETE reason key hash now"
  have run: "create_lifecycle admin queued t DELETE reason key hash now d = (res, d')"
    using assms(2) True by (simp add: createDeletion_def)
  show ?thesis
  proof (cases "?m d")
    case (Inl e)
    then have "d' = d \<and> (\<exists>e'. res = Inl e')" using run
      by (auto simp: create_lifecycle_def svc_bind_def svc_try_def run_tx_def svc_throw_def)
    then show ?thesis using assms(1) by auto
  next
    case (Inr p)
    then obtain rows d1 where m: "?m d = Inr (rows, d1)" by (cases p) auto
    have inv: "lc_inv d1" using commit_inv[OF created[OF m] assms(1)] .
    have active: "tenant_frozen t d1" if "r \<in> set (lifecycle_requests d1)" "lr_kind r = DELETE" "lr_tenant r = t" "lr_status r \<noteq> LC_CANCELLED" for r
    proof -
      have "active_deletion t r" using that by (cases "lr_status r") (simp_all add: active_deletion_def)
      then show ?thesis using that(1) unfolding frozen_active[OF inv] any_row_def list_ex_iff by blast
    qed
    from m show ?thesis
    proof (cases rule: create_lifecycle_cases)
      case refused
      then show ?thesis using run m inv by (auto simp: create_lifecycle_def svc_bind_def svc_try_def run_tx_def svc_throw_def)
    next
      case (replayed r)
      have res: "res = Inr r" "d' = d1"
        using run m replayed by (auto simp: create_lifecycle_def svc_bind_def svc_try_def run_tx_def svc_return_def)
      have r: "r \<in> set (lifecycle_requests d1)" using replayed by simp
      show ?thesis
        using inv replayed True r res still_frozen[OF inv _ r] by (cases "lr_status r") (auto simp: active_deletion_def)
    next
      case (new r)
      have r: "r \<in> set (lifecycle_requests d1)" "lr_kind r = DELETE" "lr_tenant r = t" "lr_status r = LC_REQUESTED" "active_deletion t r"
        using new by (simp_all add: new_request_def active_deletion_def)
      have res: "d' = d1" "res = (if queued then Inr r else Inl (Plain ''QUEUE_UNAVAILABLE''))"
        using run m new by (auto simp: create_lifecycle_def svc_bind_def svc_try_def run_tx_def svc_return_def svc_throw_def queueRequest_def
            split: if_splits)
      show ?thesis
        using inv new(2) True r res still_frozen[OF inv _ r(1,5)] active[OF r(1,2,3)] by auto
    qed
  qed
qed

theorem deletion_freezes_witness:
  "\<exists>d'. createDeletion True True False 7 ''CONTRACT_TERMINATION'' 2 ''h'' 9 lifecycle_sample = (Inl (Plain ''QUEUE_UNAVAILABLE''), d')
     \<and> tenant_frozen 7 d' \<and> \<not> tenant_frozen 7 lifecycle_sample"
proof -
  obtain res d' where run: "createDeletion True True False 7 ''CONTRACT_TERMINATION'' 2 ''h'' 9 lifecycle_sample = (res, d')" by fastforce
  have "res = Inl (Plain ''QUEUE_UNAVAILABLE'')" "d' \<noteq> lifecycle_sample"
    using run by (auto simp: createDeletion_def create_lifecycle_def api_platform_create_tenant_lifecycle_request_def lifecycle_sample_def
        empty_db_def any_row_def new_request_def request_reasons_def active_deletion_def svc_bind_def svc_try_def run_tx_def Let_def
        queueRequest_def svc_throw_def)
  then show ?thesis using run deletion_freezes[OF lifecycle_sample_inv run]
    by (auto simp: tenant_frozen_def lifecycle_sample_def empty_db_def new_request_def)
qed

section \<open>Exports\<close>

lemma run_on_db: "on_db m (d, objects) = (case run_tx m d of (r, d') \<Rightarrow> (r, (d', objects)))"
  by (simp add: on_db_def)

lemma lc_fail_run: "run_tx (lc_fail job lease att code fin) d = (Inr (),
    d\<lparr>lifecycle_requests := update_where (lc_owned job lease) (write_export (Retry_at (fin + retry_ms att) code)) (lifecycle_requests d)\<rparr>)"
  by (simp add: lc_fail_def run_tx_def tx_bind_def tx_return_def update_request_def)

lemma lc_publish_run: "run_tx (lc_publish job lease k p fin) d = (Inr (count_where (lc_owned job lease) (lifecycle_requests d)),
    d\<lparr>lifecycle_requests := update_where (lc_owned job lease) (write_export (Publish k p fin)) (lifecycle_requests d)\<rparr>)"
  by (simp add: lc_publish_def run_tx_def update_request_def)

lemma export_failed_run: "export_failed F job lease att up code fin (d, objects) = (Inr E_FAILED,
    (d\<lparr>lifecycle_requests := update_where (lc_owned job lease) (write_export (Retry_at (fin + retry_ms att) code)) (lifecycle_requests d)\<rparr>,
     if up \<and> ef_delete F then delete_object (object_key job lease) objects else objects))"
  by (simp add: export_failed_def svc_bind_def svc_return_def on_objects_def run_on_db lc_fail_run)

lemma objects_simps [simp]:
  "map_of (put_object k a objects) = (map_of objects)(k \<mapsto> a)"
  "map_of (delete_object k objects) = (map_of objects)(k := None)"
  by (simp_all add: put_object_def delete_object_def update_conv' delete_conv')

lemma written_rows:
  "\<not> (\<exists>r\<in>set (update_where (lc_owned job lease) (write_export out) rows). lc_owned job lease r)"
proof -
  have "\<not> lc_owned job lease (write_export out r)" for r by (simp add: lc_owned_def)
  then show ?thesis by (auto simp: set_update_where)
qed

text \<open>The end of an export by its own commit: a failure, a publication or none.\<close>

lemma publish_export_cases:
  assumes "publish_export F job lease att p fin (d, objects) = (res, (d', objects'))"
  obtains (failed) code where "res = Inr E_FAILED"
      "d' = d\<lparr>lifecycle_requests := update_where (lc_owned job lease) (write_export (Retry_at (fin + retry_ms att) code)) (lifecycle_requests d)\<rparr>"
      "\<And>k. k \<noteq> object_key job lease \<Longrightarrow> map_of objects' k = map_of objects k"
      "ef_delete F \<Longrightarrow> map_of objects (object_key job lease) = None \<Longrightarrow> map_of objects' (object_key job lease) = None"
    | (overtaken) "res = Inr E_IGNORED" "d' = d" "\<And>r. r \<in> set (lifecycle_requests d) \<Longrightarrow> \<not> lc_owned job lease r"
      "\<And>k. k \<noteq> object_key job lease \<Longrightarrow> map_of objects' k = map_of objects k" "map_of objects' (object_key job lease) = None"
    | (ready) "res = Inr E_READY" "\<exists>r\<in>set (lifecycle_requests d). lc_owned job lease r"
      "d' = d\<lparr>lifecycle_requests := update_where (lc_owned job lease) (write_export (Publish (object_key job lease) p fin)) (lifecycle_requests d)\<rparr>"
      "\<And>k. k \<noteq> object_key job lease \<Longrightarrow> map_of objects' k = map_of objects k" "map_of objects' (object_key job lease) = Some (artifact_of p)"
proof -
  let ?k = "object_key job lease" and ?a = "artifact_of p"
  let ?n = "count_where (lc_owned job lease) (lifecycle_requests d)"
  show ?thesis
  proof (cases "ef_put F \<and> ef_head F ?a = Some ?a \<and> ef_publish F")
    case False
    then have "\<exists>up code. publish_export F job lease att p fin (d, objects)
        = export_failed F job lease att up code fin (d, if up then put_object ?k ?a objects else objects)"
      by (auto simp: publish_export_def svc_bind_def on_objects_def intro: exI[of _ True] exI[of _ False])
    then obtain up code where u: "publish_export F job lease att p fin (d, objects)
        = export_failed F job lease att up code fin (d, if up then put_object ?k ?a objects else objects)" by blast
    have "res = Inr E_FAILED"
      "d' = d\<lparr>lifecycle_requests := update_where (lc_owned job lease) (write_export (Retry_at (fin + retry_ms att) code)) (lifecycle_requests d)\<rparr>"
      "map_of objects' = (if up then (if ef_delete F then (map_of objects)(?k := None) else (map_of objects)(?k \<mapsto> ?a)) else map_of objects)"
      using assms u by (auto simp: export_failed_run)
    then show ?thesis by (intro failed[of code]) auto
  next
    case True
    then have run: "publish_export F job lease att p fin (d, objects) =
       svc_bind (on_db (lc_publish job lease ?k p fin)) (\<lambda>n.
          if n \<noteq> 0 then svc_return E_READY
          else if ef_delete F then svc_bind (on_objects (delete_object ?k)) (\<lambda>_. svc_return E_IGNORED)
          else export_failed F job lease att True ''TENANT_EXPORT_FAILED'' fin) (d, put_object ?k ?a objects)"
      by (simp add: publish_export_def svc_bind_def on_objects_def)
    show ?thesis
    proof (cases "?n = 0")
      case none: True
      then have free: "\<not> lc_owned job lease r" if "r \<in> set (lifecycle_requests d)" for r using that by (simp add: count_where_0_iff)
      then have "update_where (lc_owned job lease) (write_export out) (lifecycle_requests d) = lifecycle_requests d" for out
        by (simp add: update_where_none)
      then have "publish_export F job lease att p fin (d, objects) =
         (if ef_delete F then (Inr E_IGNORED, (d, delete_object ?k (put_object ?k ?a objects)))
          else export_failed F job lease att True ''TENANT_EXPORT_FAILED'' fin (d, put_object ?k ?a objects))"
        unfolding run by (simp add: svc_bind_def run_on_db lc_publish_run none svc_return_def on_objects_def)
      note run' = this
      show ?thesis
      proof (cases "ef_delete F")
        case True
        then show ?thesis using assms free run' by (intro overtaken) auto
      next
        case False
        then show ?thesis using assms free run' by (intro failed[of "''TENANT_EXPORT_FAILED''"]) (auto simp: export_failed_run)
      qed
    next
      case False
      then have "publish_export F job lease att p fin (d, objects) =
         (Inr E_READY, (d\<lparr>lifecycle_requests := update_where (lc_owned job lease) (write_export (Publish ?k p fin)) (lifecycle_requests d)\<rparr>,
            put_object ?k ?a objects))"
        unfolding run by (simp add: svc_bind_def run_on_db lc_publish_run svc_return_def)
      then show ?thesis using assms False by (intro ready) (auto simp: count_where_0_iff)
    qed
  qed
qed


text \<open>The claim.\<close>

lemma claim_cases:
  assumes "lc_inv d"
  obtains (refused) "run_tx (lc_claim job lease now) d = (Inr None, d)"
    | (claimed) att d1 where "run_tx (lc_claim job lease now) d = (Inr (Some att), d1)" "lifecycle_commit d d1"
        "\<exists>r\<in>set (lifecycle_requests d1). lc_owned job lease r"
proof (cases "count_where (lc_claimable job now) (lifecycle_requests d) = 0")
  case True
  then have "update_where (lc_claimable job now) (start_export lease now) (lifecycle_requests d) = lifecycle_requests d"
    by (simp add: count_where_0_iff update_where_none)
  then show ?thesis using True by (intro refused) (simp add: lc_claim_def run_tx_def tx_bind_def tx_return_def update_request_def)
next
  case False
  then obtain r where r: "r \<in> set (lifecycle_requests d)" "lc_claimable job now r" by (auto simp: count_where_0_iff)
  let ?d1 = "d\<lparr>lifecycle_requests := update_where (lc_claimable job now) (start_export lease now) (lifecycle_requests d)\<rparr>"
  let ?r = "start_export lease now r"
  have in1: "?r \<in> set (lifecycle_requests ?d1)" using r by (auto simp: set_update_where)
  have own: "lc_owned job lease ?r" using r(2) by (simp add: lc_owned_def lc_claimable_def start_export_def)
  obtain x where x: "List.find (\<lambda>r. request_key r = job \<and> lr_lease r = Some lease) (lifecycle_requests ?d1) = Some x"
    using in1 own by (cases "List.find (\<lambda>r. request_key r = job \<and> lr_lease r = Some lease) (lifecycle_requests ?d1)")
      (fastforce simp: find_None_iff lc_owned_def request_key_def)+
  have claim: "lc_claim job lease now d = Inr (Some (lr_attempts x), ?d1)"
    using False x by (simp add: lc_claim_def tx_bind_def tx_return_def tx_read_def update_request_def)
  show ?thesis
    by (rule claimed[of "lr_attempts x" ?d1]) (use claim in1 own lifecycle_commit.claimed[OF claim] in \<open>auto simp: run_tx_def\<close>)
qed

lemma process_cases:
  assumes "lc_inv d"
  obtains (refused) "process_lifecycle F job lease now fin env (d, objects) = (Inr E_IGNORED, (d, objects))"
    | (started) att d1 where "lifecycle_commit d d1" "process_lifecycle F job lease now fin env (d, objects) = (case ef_written F of
        None \<Rightarrow> export_failed F job lease att False ''TENANT_EXPORT_FAILED'' fin (env d1, objects)
      | Some p \<Rightarrow> publish_export F job lease att p fin (env d1, objects))"
  using assms
proof (cases rule: claim_cases[of d job lease now])
  case refused
  show ?thesis
    by (rule that(1)) (simp add: process_lifecycle_def svc_bind_def run_on_db refused svc_return_def del: run_tx_Inr_iff)
next
  case (claimed att d1)
  show ?thesis
    by (rule that(2)[of d1 att, OF claimed(2)])
      (simp add: process_lifecycle_def svc_bind_def run_on_db claimed(1) del: run_tx_Inr_iff split: option.split)
qed

lemma object_key_non_empty: "non_empty (Some (object_key job lease)) = Some (object_key job lease)"
  by (simp add: non_empty_def object_key_def)

lemma download_ready:
  assumes "lc_inv d" and "r \<in> set (lifecycle_requests d)" and "lr_status r = LC_EXPORT_READY" and "lr_artifact r = Some (object_key job lease)"
    and "lr_sha r = Some (pe_hex p)" and "lr_size r = Some (pe_size p)" and "lr_expires_at r = Some expires"
    and "map_of objects (object_key job lease) = Some (artifact_of p)"
    and "hex (pe_base64 p) = pe_hex p" and "pe_base64 p \<noteq> []" and "pe_hex p \<noteq> []"
  shows "createDownload hex True True True (lr_id r) now (d, objects) =
    (if now < expires then Inr (artifact_of p, object_key job lease) else Inl (Conflict ''TENANT_LIFECYCLE_ARTIFACT_EXPIRED''), (d, objects))"
proof -
  have "List.find (\<lambda>x. lr_id x = lr_id r) (lifecycle_requests d) = Some r"
    using assms(1,2) by (intro find_row_unique) (simp_all add: lc_inv_def)
  moreover have "non_empty (Some (pe_hex p)) = Some (pe_hex p)" using assms(11) by (simp add: non_empty_def)
  ultimately show ?thesis
    using assms(3-10) object_key_non_empty[of job lease]
    by (simp add: createDownload_def svc_throw_def svc_return_def artifact_of_def)
qed

definition export_served :: "(uuid \<times> uuid) \<Rightarrow> uuid \<Rightarrow> prepared \<Rightarrow> instant \<Rightarrow> db \<times> object_store \<Rightarrow> bool" where
  "export_served job lease p fin s \<longleftrightarrow> (\<forall>hex now. hex (pe_base64 p) = pe_hex p \<longrightarrow> pe_base64 p \<noteq> [] \<longrightarrow> pe_hex p \<noteq> [] \<longrightarrow>
     createDownload hex True True True (snd job) now s = (if now < fin + artifact_ttl_ms
        then Inr (artifact_of p, object_key job lease) else Inl (Conflict ''TENANT_LIFECYCLE_ARTIFACT_EXPIRED''), s))"


definition export_faultless :: "prepared \<Rightarrow> export_faults" where
  "export_faultless p = \<lparr>ef_written = Some p, ef_put = True, ef_head = Some, ef_publish = True, ef_delete = True\<rparr>"

definition sample_archive :: prepared where
  "sample_archive = \<lparr>pe_size = 3, pe_base64 = ''b'', pe_hex = ''x'', pe_manifest = 1\<rparr>"


section \<open>Cleaning up\<close>

text \<open>An archive that has expired is deleted and forgotten.\<close>

lemma expired_archive_removed:
  assumes "lc_inv d" and "r \<in> set (lifecycle_requests d)" and "expired_artifact now r" and "lr_artifact r = Some k" and "k \<noteq> []"
  shows "\<exists>d' objects'. cleanup_one True now (request_key r) (\<lambda>d. d) (d, objects) = (Inr True, (d', objects')) \<and> map_of objects' k = None
     \<and> clear_artifact r \<in> set (lifecycle_requests d')"
proof -
  have key: "distinct (map request_key (lifecycle_requests d))"
    using assms(1) by (auto simp: lc_inv_def request_key_def distinct_map inj_on_def)
  have unique: "x = r" if "x \<in> set (lifecycle_requests d)" "request_key x = request_key r" for x
    using that assms(2) key by (auto simp: distinct_map inj_on_def)
  have found: "List.find (\<lambda>x. request_key x = request_key r \<and> expired_artifact now x) (lifecycle_requests d) = Some r"
  proof (cases "List.find (\<lambda>x. request_key x = request_key r \<and> expired_artifact now x) (lifecycle_requests d)")
    case None
    then show ?thesis using assms(2,3) by (auto simp: find_None_iff)
  next
    case (Some x)
    have "x = r" by (rule unique[OF find_some_set[OF Some]]) (use find_some_prop[OF Some] in simp)
    then show ?thesis using Some by simp
  qed
  let ?P = "\<lambda>x. request_key x = request_key r \<and> lr_status x = LC_EXPORT_READY \<and> lr_artifact x = Some k \<and> lr_expires_at x = lr_expires_at r"
  have P: "?P r" using assms(3,4) by (simp add: expired_artifact_def)
  then have "count_where ?P (lifecycle_requests d) \<noteq> 0" unfolding count_where_0_iff using assms(2) by blast
  moreover have "clear_artifact r \<in> set (update_where ?P clear_artifact (lifecycle_requests d))"
    using P assms(2) by (auto simp: set_update_where intro!: image_eqI[of _ _ r])
  moreover have "non_empty (Some k) = Some k" using assms(5) by (simp add: non_empty_def)
  ultimately show ?thesis
    by (simp add: cleanup_one_def found assms(4) lc_clear_def run_on_db run_tx_def tx_bind_def tx_return_def update_request_def del: count_where_Cons)
qed

definition cleanup_passes :: "((uuid \<times> uuid \<Rightarrow> bool) \<times> instant) list \<Rightarrow> db \<times> object_store \<Rightarrow> db \<times> object_store" where
  "cleanup_passes ps s = fold (\<lambda>(deletes, now) s. snd (cleanupExpired deletes now s)) ps s"

definition orphaned :: "string \<Rightarrow> artifact option \<Rightarrow> db \<times> object_store \<Rightarrow> bool" where
  "orphaned k v s \<longleftrightarrow> (\<forall>r\<in>set (lifecycle_requests (fst s)). lr_artifact r = Some k \<longrightarrow> lr_status r = LC_CANCELLED) \<and> map_of (snd s) k = v"

lemma orphaned_on_db: "stable (orphaned k v) (on_db m)"
  if "\<And>d a d'. m d = Inr (a, d') \<Longrightarrow> lifecycle_requests d' = lifecycle_requests d \<or> (\<exists>P. lifecycle_requests d' = update_where P clear_artifact (lifecycle_requests d))"
  unfolding stable_def
proof (intro allI impI)
  fix s assume s: "orphaned k v s"
  obtain d objects where ds: "s = (d, objects)" by fastforce
  show "orphaned k v (snd (on_db m s))"
  proof (cases "m d")
    case (Inr p)
    obtain a d' where p: "p = (a, d')" by fastforce
    have "snd (on_db m s) = (d', objects)" using Inr by (simp add: ds run_on_db run_tx_def p)
    then show ?thesis
      using that[of d a d'] Inr s by (auto simp: p orphaned_def ds set_update_where clear_artifact_def)
  qed (use s in \<open>simp add: ds run_on_db run_tx_def\<close>)
qed

lemma orphaned_cleanup_one: "stable (orphaned k v) (cleanup_one deletes now job (\<lambda>d. d))"
  unfolding stable_def
proof (intro allI impI)
  fix s assume s: "orphaned k v s"
  obtain d objects where ds: "s = (d, objects)" by fastforce
  show "orphaned k v (snd (cleanup_one deletes now job (\<lambda>d. d) s))"
  proof (cases "List.find (\<lambda>r. request_key r = job \<and> expired_artifact now r) (lifecycle_requests d)")
    case (Some r)
    note r = find_some_set[OF Some] find_some_prop[OF Some]
    show ?thesis
    proof (cases "non_empty (lr_artifact r) = None \<or> \<not> deletes")
      case True
      then show ?thesis using s Some by (auto simp: cleanup_one_def ds split: option.splits)
    next
      case False
      then obtain k' where k': "non_empty (lr_artifact r) = Some k'" "deletes" by auto
      have "lr_artifact r = Some k'" using k'(1) by (simp add: non_empty_def split: if_splits option.splits)
      then have "k' \<noteq> k" using r s by (auto simp: orphaned_def ds expired_artifact_def)
      then have "orphaned k v (d, delete_object k' objects)" using s by (simp add: orphaned_def ds)
      then have "orphaned k v (snd (on_db (tx_bind (lc_clear job k' (lr_expires_at r)) (\<lambda>n. tx_return (0 < n))) (d, delete_object k' objects)))"
        by (rule orphaned_on_db[unfolded stable_def, rule_format, rotated]) (auto simp: tx_iff lc_clear_def update_request_def)
      then show ?thesis using k' Some by (simp add: cleanup_one_def ds)
    qed
  qed (use s in \<open>simp add: cleanup_one_def ds\<close>)
qed

lemma orphaned_cleanup_all: "stable (orphaned k v) (cleanup_all deletes now jobs)"
proof (induction jobs)
  case Nil
  then show ?case by (simp add: keeps)
next
  case (Cons job jobs)
  show ?case
    unfolding stable_def
  proof (intro allI impI)
    fix s assume s: "orphaned k v s"
    obtain r s' where one: "cleanup_one (deletes job) now job (\<lambda>d. d) s = (r, s')" by (metis surj_pair)
    have s': "orphaned k v s'" using stableD[OF orphaned_cleanup_one s one] .
    have keep: "orphaned k v (snd (svc_bind (cleanup_all deletes now jobs) f s'))" if "\<And>x. stable (orphaned k v) (f x)" for f :: "nat \<times> nat \<Rightarrow> (nat \<times> nat) lc_service"
      by (rule stable_bind[OF Cons that, unfolded stable_def, rule_format, OF s'])
    show "orphaned k v (snd (cleanup_all deletes now (job # jobs) s))"
      using one by (cases r) (auto simp: case_prod_unfold intro!: keep keeps)
  qed
qed

lemma orphaned_cleanup: "stable (orphaned k v) (cleanupExpired deletes now)"
  unfolding cleanupExpired_def
  by (intro keeps orphaned_on_db orphaned_cleanup_all) (auto simp: tx_iff)

lemma orphaned_passes: "orphaned k v s \<Longrightarrow> orphaned k v (cleanup_passes ps s)"
  unfolding cleanup_passes_def
proof (induction ps arbitrary: s)
  case (Cons p ps)
  have "orphaned k v (snd (cleanupExpired (fst p) (snd p) s))"
    by (rule orphaned_cleanup[unfolded stable_def, rule_format, OF Cons.prems])
  then show ?case using Cons.IH by (simp add: case_prod_unfold)
qed simp

text \<open>The archive of an export that was cancelled after it had become ready is never cleaned
  up: cancelling keeps the reference and the object, and the clean-up only looks at
  requests that are ready, so that no number of passes, at any times, removes the
  object.\<close>

theorem cancelled_archive_kept:
  assumes "cancel_lifecycle True rid now d = (Inr r, d')" and "lr_artifact r = Some k" and "lc_inv d"
    and "\<forall>x\<in>set (lifecycle_requests d). lr_artifact x = Some k \<longrightarrow> lr_id x = rid"
  shows "map_of (snd (cleanup_passes ps (d', objects))) k = map_of objects k"
proof -
  have d': "lifecycle_requests d' = update_where (\<lambda>x. lr_id x = rid \<and> lr_status x \<in> {LC_REQUESTED, LC_FAILED, LC_EXPORT_READY})
      (cancel_request now) (lifecycle_requests d)" and r: "r \<in> set (lifecycle_requests d')" "lr_status r = LC_CANCELLED" "lr_id r = rid"
    using assms(1)
    by (auto simp: cancel_lifecycle_def api_platform_cancel_tenant_lifecycle_request_def update_requests_def svc_bind_def run_tx_def
        svc_return_def svc_throw_def set_update_where cancel_request_def dest!: filter_eq_ConsD split: list.splits)
  have inv: "lc_inv d'"
    using assms(1,3) commit_inv[OF cancelled[of True rid now d]]
    by (auto simp: cancel_lifecycle_def svc_bind_def run_tx_def svc_return_def svc_throw_def split: sum.splits list.splits)
  have "orphaned k (map_of objects k) (d', objects)"
    unfolding orphaned_def fst_conv snd_conv
  proof (intro conjI ballI impI refl)
    fix x assume x: "x \<in> set (lifecycle_requests d')" "lr_artifact x = Some k"
    then have "lr_id x = rid" using assms(4) unfolding d' by (auto simp: set_update_where cancel_request_def)
    then have "x = r" using same_request[OF inv x(1) r(1)] r(3) by simp
    then show "lr_status x = LC_CANCELLED" using r(2) by simp
  qed
  from orphaned_passes[OF this, of ps] show ?thesis by (simp add: orphaned_def)
qed

definition ready_sample_request :: lifecycle_request where
  "ready_sample_request = (new_request 41 7 EXPORT ''CONTROLLER_REQUEST'' 3 ''h'' 0)\<lparr>lr_status := LC_EXPORT_READY, lr_artifact := Some ''k'',
     lr_sha := Some ''x'', lr_size := Some 3, lr_manifest := Some 1, lr_ready_at := Some 5, lr_expires_at := Some 9\<rparr>"

theorem cancelled_archive_kept_witness:
  "map_of (snd (cleanup_passes [(\<lambda>_. True, 10), (\<lambda>_. True, 1000)]
     (lifecycle_sample\<lparr>lifecycle_requests := [cancel_request 6 ready_sample_request]\<rparr>, [(''k'', artifact_of sample_archive)]))) ''k'' = Some (artifact_of sample_archive)"
proof -
  let ?d = "lifecycle_sample\<lparr>lifecycle_requests := [ready_sample_request]\<rparr>"
  have run: "cancel_lifecycle True 41 6 ?d = (Inr (cancel_request 6 ready_sample_request), lifecycle_sample\<lparr>lifecycle_requests := [cancel_request 6 ready_sample_request]\<rparr>)"
    by (simp add: cancel_lifecycle_def api_platform_cancel_tenant_lifecycle_request_def update_requests_def svc_bind_def run_tx_def
        svc_return_def ready_sample_request_def new_request_def)
  have "lc_inv ?d"
    by (simp add: lc_inv_def lifecycle_sample_def empty_db_def ready_sample_request_def new_request_def request_ok_def active_deletion_def)
  then show ?thesis
    using cancelled_archive_kept[OF run, of "''k''" "[(\<lambda>_. True, 10), (\<lambda>_. True, 1000)]" "[(''k'', artifact_of sample_archive)]"]
    by (simp add: ready_sample_request_def new_request_def cancel_request_def)
qed

end
