(* ===== verification/Json.thy ===== *)
theory Json
  imports Store
begin

text \<open>
  JSON values as the code reads them: the tests that the readers of payloads make, and the
  canonical form of the lines of an export.  Numbers are whole; an object is the list of its
  properties.
\<close>

datatype json = JNull | JBool bool | JNum int | JText string | JArray "json list" | JObject "(string \<times> json) list"

fun sortValue :: "json \<Rightarrow> json" where
  "sortValue (JArray vs) = JArray (map sortValue vs)"
| "sortValue (JObject fs) = JObject (map (\<lambda>(k, v). (k, sortValue v)) (sort_key fst fs))"
| "sortValue v = v"

section \<open>Reading\<close>

text \<open>\<open>value.key\<close>; a key that is not there is \<open>undefined\<close>.\<close>

fun property :: "string \<Rightarrow> json \<Rightarrow> json option" where
  "property k (JObject fs) = map_of fs k"
| "property k _ = None"

definition isRecord :: "json option \<Rightarrow> bool" where
  "isRecord v = (case v of Some (JObject fs) \<Rightarrow> True | _ \<Rightarrow> False)"

definition field :: "string \<Rightarrow> json option \<Rightarrow> json option" where
  "field k v = Option.bind v (property k)"

definition text_of :: "json option \<Rightarrow> string option" where
  "text_of v = (case v of Some (JText s) \<Rightarrow> Some s | _ \<Rightarrow> None)"

definition number_of :: "json option \<Rightarrow> int option" where
  "number_of v = (case v of Some (JNum n) \<Rightarrow> Some n | _ \<Rightarrow> None)"

definition array_of :: "json option \<Rightarrow> json list option" where
  "array_of v = (case v of Some (JArray vs) \<Rightarrow> Some vs | _ \<Rightarrow> None)"

end
