(* ===== verification/Export_Archive.thy ===== *)
theory Export_Archive
  imports Lifecycle Json
begin

text \<open>
  The archive of an export (\<open>apps/worker/src/tenant-lifecycle/tenant-export-writer.ts\<close>
  and \<open>tenant-export-datasets.ts\<close>): what is selected, how a table is read page by page, the
  canonical form of a line, the manifest of the objects, the files of the archive.  The
  tables, the checksum of a file and the store of objects are parameters; files are lists
  of JSON lines, the texts of JSON are not modelled.
\<close>

section \<open>Datasets\<close>

definition identity_fields :: "string list" where
  "identity_fields = [''id'', ''tenantId'', ''createdAt'']"

text \<open>The name of a dataset and the fields it selects; \<open>user\<close> of a membership is nested.\<close>

definition export_datasets :: "(string \<times> string list) list" where
  "export_datasets = [
     (''tenants'', [''id'', ''key'', ''name'', ''status'', ''createdAt'']),
     (''conversations'', identity_fields @ [''channel'', ''externalConversationId'', ''participantId'', ''profileId'', ''displayName'',
        ''lastMessageAt'', ''updatedAt'', ''workflowStatus'', ''statusVersion'', ''statusChangedAt'',
        ''statusChangedByUserId'']),
     (''instagram-customer-profiles'', identity_fields @ [''participantId'', ''displayName'', ''username'', ''avatarChecksum'', ''avatarContentType'',
        ''status'', ''lastRefreshedAt'', ''updatedAt'']),
     (''messages'', identity_fields @ [''conversationId'', ''channel'', ''externalMessageId'', ''direction'', ''senderId'', ''text'',
        ''sourceTimestamp'', ''sentByUserId'', ''providerMessageId'', ''deliveryStatus'']),
     (''orders'', identity_fields @ [''publicNumber'', ''conversationId'', ''triggerMessageId'', ''status'', ''extraction'',
        ''validationIssues'', ''overallConfidence'', ''approvedAt'', ''approvedBy'',
        ''procurementHandedOffAt'', ''procurementHandedOffBy'', ''updatedAt'']),
     (''order-items'', identity_fields @ [''orderId'', ''catalogId'', ''originalText'', ''quantity'', ''color'', ''size'', ''confidence'',
        ''unitPriceSnapshot'', ''currencySnapshot'', ''lineTotalSnapshot'', ''priceSourceSku'',
        ''procurementStatus'', ''procurementSource'', ''procurementReason'', ''stockAtDecision'',
        ''availableAtDecision'', ''procurementUpdatedAt'']),
     (''products'', identity_fields @ [''sku'', ''name'', ''description'', ''price'', ''currency'', ''stockQuantity'', ''category'',
        ''brand'', ''aliases'', ''color'', ''size'', ''imageUrls'', ''attributes'', ''imageUrl'',
        ''active'', ''sourceId'', ''sourceRowKey'', ''sourceUpdatedAt'', ''updatedAt'']),
     (''payments'', identity_fields @ [''orderId'', ''amount'', ''currency'', ''method'', ''receivedAt'', ''bankAccountId'', ''carrier'',
        ''note'', ''createdBy'', ''cancelledAt'', ''cancelledBy'', ''cancellationReason'']),
     (''shipments'', identity_fields @ [''orderId'', ''connectionId'', ''createdByUserId'', ''provider'', ''status'', ''senderSnapshot'',
        ''recipientSnapshot'', ''destinationSnapshot'', ''parcels'', ''payer'', ''declaredValue'',
        ''codAmount'', ''description'', ''providerDocumentId'', ''trackingNumber'', ''cost'', ''currency'',
        ''providerCreatedAt'', ''acceptedAt'', ''deliveredAt'', ''cancelledAt'', ''updatedAt'']),
     (''delivery-events'', identity_fields @ [''shipmentId'', ''status'', ''providerCode'', ''providerEventKey'', ''providerOccurredAt'',
        ''occurredAt'', ''mappingVersion'']),
     (''tenant-settings'', identity_fields @ [''intentDetectionMode'', ''approvalMode'', ''autoApprovalThreshold'', ''promptVersion'',
        ''triggerPhrases'', ''updatedAt'']),
     (''tenant-reply-styles'', identity_fields @ [''enabled'', ''companyName'', ''tone'', ''addressForm'', ''guidance'', ''updatedAt'']),
     (''ai-reply-drafts'', identity_fields @ [''conversationId'', ''anchorMessageId'', ''createdByUserId'', ''status'', ''outcome'',
        ''generatedText'', ''finalText'', ''sourceSnapshot'', ''promptVersion'', ''schemaVersion'',
        ''modelVersion'', ''providerLatencyMs'', ''inputTokens'', ''outputTokens'', ''errorCode'',
        ''outboundMessageId'', ''usedAt'', ''updatedAt'']),
     (''ai-provider-usage-attempts'', [''id'', ''tenantId'', ''purpose'', ''operationId'', ''provider'', ''requestedModel'',
        ''returnedModel'', ''startedAt'', ''finalizedAt'', ''outcome'', ''inputTokens'', ''outputTokens'',
        ''cachedInputTokens'', ''errorCategory'']),
     (''memberships'', identity_fields @ [''userId'', ''role'', ''status'', ''updatedAt'', ''user'']),
     (''instagram-connections'', identity_fields @ [''externalAccountId'', ''displayName'', ''status'', ''lastVerifiedAt'', ''lastErrorCode'',
        ''disconnectedAt'', ''updatedAt'']),
     (''google-connections'', identity_fields @ [''googleSubject'', ''accountEmail'', ''status'', ''lastVerifiedAt'', ''lastErrorCode'',
        ''disconnectedAt'', ''updatedAt'']),
     (''telegram-bindings'', [''id'', ''tenantId'', ''userId'', ''telegramUserId'', ''privateChatId'', ''displayName'',
        ''username'', ''linkedAt'', ''revokedAt'', ''updatedAt'']),
     (''delivery-connections'', identity_fields @ [''provider'', ''status'', ''accountLabel'', ''connectedByUserId'', ''lastVerifiedAt'',
        ''lastErrorCode'', ''disconnectedAt'', ''updatedAt'']),
     (''legal-entities'', identity_fields @ [''displayName'', ''legalName'', ''type'', ''registrationId'', ''active'', ''isDefault'',
        ''updatedAt'']),
     (''bank-accounts'', identity_fields @ [''legalEntityId'', ''label'', ''iban'', ''bankName'', ''currency'', ''active'', ''isDefault'',
        ''updatedAt''])]"

definition exported_user_fields :: "string list" where
  "exported_user_fields = [''id'', ''email'', ''name'', ''phone'', ''locale'', ''status'', ''createdAt'']"

text \<open>\<open>findMany\<close> in the order of the identifiers, after a cursor.\<close>

definition dataset_page :: "('r \<Rightarrow> uuid) \<Rightarrow> 'r list \<Rightarrow> uuid option \<Rightarrow> nat \<Rightarrow> 'r list" where
  "dataset_page key rows after n = take n (case after of
       None \<Rightarrow> sort_key key rows
     | Some c \<Rightarrow> tl (dropWhile (\<lambda>r. key r \<noteq> c) (sort_key key rows)))"

text \<open>The loop of \<open>writeDataset\<close>: what has been written and counted so far.\<close>

partial_function (option) write_pages ::
    "('r \<Rightarrow> uuid) \<Rightarrow> nat \<Rightarrow> 'r list \<Rightarrow> uuid option \<Rightarrow> 'r list \<Rightarrow> nat \<Rightarrow> (string + 'r list \<times> nat) option" where
  "write_pages key n rows after written counted =
     (if length (dataset_page key rows after n) < n
      then Some (Inr (written @ dataset_page key rows after n, counted + length (dataset_page key rows after n)))
      else if dataset_page key rows after n = [] \<or> Some (key (last (dataset_page key rows after n))) = after
      then Some (Inl ''TENANT_EXPORT_CURSOR_INVALID'')
      else write_pages key n rows (Some (key (last (dataset_page key rows after n)))) (written @ dataset_page key rows after n)
             (counted + length (dataset_page key rows after n)))"

definition export_page_size :: nat where
  "export_page_size = 500"

definition writeDataset :: "('r \<Rightarrow> uuid) \<Rightarrow> 'r list \<Rightarrow> (string + 'r list \<times> nat) option" where
  "writeDataset key rows = write_pages key export_page_size rows None [] 0"

section \<open>The objects\<close>

text \<open>A purpose and a key; \<open>unique\<close> keeps the first of equal references.\<close>

type_synonym object_reference = "string \<times> string"

definition keys_with :: "string \<Rightarrow> string option list \<Rightarrow> object_reference list" where
  "keys_with purpose ks = List.map_filter (\<lambda>k. map_option (Pair purpose) (non_empty k)) ks"

fun unique_references :: "object_reference list \<Rightarrow> object_reference list" where
  "unique_references [] = []"
| "unique_references (r # rs) = r # unique_references (filter (\<lambda>x. x \<noteq> r) rs)"

definition sort_references :: "object_reference list \<Rightarrow> object_reference list" where
  "sort_references = sort_key (\<lambda>(purpose, k). (k, purpose))"

definition listTenantObjectReferences ::
    "string option list \<Rightarrow> string option list \<Rightarrow> string option list \<Rightarrow> string option list \<Rightarrow> string option list \<Rightarrow> object_reference list" where
  "listTenantObjectReferences attachment_keys customer_avatars user_avatars source_keys snapshot_keys =
     sort_references (unique_references (keys_with ''attachment'' attachment_keys @ keys_with ''customer_avatar'' customer_avatars
       @ keys_with ''user_avatar'' user_avatars @ keys_with ''catalogue_source'' source_keys
       @ keys_with ''catalogue_snapshot'' snapshot_keys))"

text \<open>\<open>getStream\<close>: the type, the declared length and the sizes of the chunks; \<open>hash\<close> is the
  checksum of the object.\<close>

record stored_stream =
  st_type :: string
  st_length :: nat
  st_chunks :: "nat list"
  st_hash :: string

definition manifest_line :: "object_reference \<Rightarrow> stored_stream \<Rightarrow> json" where
  "manifest_line r s = sortValue (JObject [(''key'', JText (snd r)), (''purpose'', JText (fst r)), (''contentType'', JText (st_type s)),
     (''sizeBytes'', JNum (int (sum_list (st_chunks s)))), (''sha256'', JText (st_hash s))])"

fun writeObjectManifest :: "(string \<Rightarrow> stored_stream option) \<Rightarrow> object_reference list \<Rightarrow> string + json list" where
  "writeObjectManifest streams [] = Inr []"
| "writeObjectManifest streams (r # rs) = (case streams (snd r) of
      None \<Rightarrow> Inl ''OBJECT_NOT_FOUND''
    | Some s \<Rightarrow>
        if sum_list (st_chunks s) \<noteq> st_length s then Inl ''TENANT_EXPORT_OBJECT_SIZE_MISMATCH''
        else (case writeObjectManifest streams rs of Inl e \<Rightarrow> Inl e | Inr ls \<Rightarrow> Inr (manifest_line r s # ls)))"

section \<open>The archive\<close>

record prepared_file =
  xf_name :: string
  xf_lines :: "json list"
  xf_count :: "nat option"

definition data_file :: "string \<Rightarrow> string" where
  "data_file ds = ''data/'' @ ds @ ''.jsonl''"

text \<open>\<open>tables\<close> are the rows of the tenant in the snapshot, \<open>encode\<close> makes a row a record
  of JSON.\<close>

fun write_datasets :: "(string \<Rightarrow> 'r list) \<Rightarrow> ('r \<Rightarrow> uuid) \<Rightarrow> ('r \<Rightarrow> json) \<Rightarrow> string list \<Rightarrow> (string + prepared_file list) option" where
  "write_datasets tables key encode [] = Some (Inr [])"
| "write_datasets tables key encode (ds # names) = (case writeDataset key (tables ds) of
      None \<Rightarrow> None
    | Some (Inl e) \<Rightarrow> Some (Inl e)
    | Some (Inr (rows, counted)) \<Rightarrow> (case write_datasets tables key encode names of
        None \<Rightarrow> None
      | Some (Inl e) \<Rightarrow> Some (Inl e)
      | Some (Inr files) \<Rightarrow> Some (Inr (\<lparr>xf_name = data_file ds, xf_lines = map (sortValue \<circ> encode) rows, xf_count = Some counted\<rparr> # files))))"

definition excluded_categories :: "string list" where
  "excluded_categories = [''provider_credentials'', ''password_hashes'', ''sessions'', ''authentication_tokens'', ''oauth_state'',
     ''internal_leases'', ''platform_security_evidence'']"

text \<open>\<open>digest\<close>: the checksum and the size of a file.\<close>

definition file_entry :: "(json list \<Rightarrow> string \<times> nat) \<Rightarrow> prepared_file \<Rightarrow> json" where
  "file_entry digest f = JObject [(''name'', JText (xf_name f)),
     (''count'', case xf_count f of Some n \<Rightarrow> JNum (int n) | None \<Rightarrow> JNull),
     (''sha256'', JText (fst (digest (xf_lines f)))), (''sizeBytes'', JNum (int (snd (digest (xf_lines f)))))]"

definition export_manifest :: "(json list \<Rightarrow> string \<times> nat) \<Rightarrow> string \<Rightarrow> string \<Rightarrow> string \<Rightarrow> prepared_file list \<Rightarrow> nat \<Rightarrow> prepared_file \<Rightarrow> json" where
  "export_manifest digest tenant request snapshot files n objects = sortValue (JObject [(''manifestVersion'', JNum 1), (''tenantId'', JText tenant),
     (''requestId'', JText request), (''snapshotAt'', JText snapshot), (''datasets'', JArray (map (file_entry digest) files)),
     (''objectManifest'', JObject [(''name'', JText (xf_name objects)), (''count'', JNum (int n)),
        (''sha256'', JText (fst (digest (xf_lines objects)))), (''sizeBytes'', JNum (int (snd (digest (xf_lines objects)))))]),
     (''excludedCategories'', JArray (map JText excluded_categories))])"

definition export_readme :: json where
  "export_readme = sortValue (JObject [(''format'', JText ''sales-aito-tenant-export''), (''manifestVersion'', JNum 1),
     (''encoding'', JText ''UTF-8 JSON Lines''), (''binaryObjectsIncluded'', JBool False),
     (''excludedCategories'', JArray (map JText excluded_categories))])"

text \<open>The files in the order of the archive, and the number of objects.\<close>

definition writeTenantExport :: "(string \<Rightarrow> 'r list) \<Rightarrow> ('r \<Rightarrow> uuid) \<Rightarrow> ('r \<Rightarrow> json) \<Rightarrow> (json list \<Rightarrow> string \<times> nat) \<Rightarrow>
    (string \<Rightarrow> stored_stream option) \<Rightarrow> object_reference list \<Rightarrow> string \<Rightarrow> string \<Rightarrow> string \<Rightarrow> (string + prepared_file list \<times> nat) option" where
  "writeTenantExport tables key encode digest streams refs tenant request snapshot =
     (case write_datasets tables key encode (sort (map fst export_datasets)) of
       None \<Rightarrow> None
     | Some (Inl e) \<Rightarrow> Some (Inl e)
     | Some (Inr files) \<Rightarrow> Some (case writeObjectManifest streams (sort_references refs) of
         Inl e \<Rightarrow> Inl e
       | Inr ls \<Rightarrow>
           (let objects = \<lparr>xf_name = ''objects/manifest.jsonl'', xf_lines = ls, xf_count = None\<rparr>;
                manifest = \<lparr>xf_name = ''manifest.json'', xf_lines = [export_manifest digest tenant request snapshot files (length refs) objects], xf_count = None\<rparr>;
                readme = \<lparr>xf_name = ''README.json'', xf_lines = [export_readme], xf_count = None\<rparr>
            in Inr (sort_key xf_name (files @ [objects, manifest, readme]), length refs))))"

section \<open>Pages\<close>

lemma drop_after_key:
  assumes "distinct (map key xs)" and "0 < m" and "m \<le> length xs"
  shows "tl (dropWhile (\<lambda>r. key r \<noteq> key (xs ! (m - 1))) xs) = drop m xs"
  using assms
proof (induction xs arbitrary: m)
  case (Cons x xs)
  show ?case
  proof (cases "m = 1")
    case False
    then have "xs ! (m - 2) \<in> set xs" using Cons.prems by (intro nth_mem) auto
    then have "key x \<noteq> key ((x # xs) ! (m - 1))" using Cons.prems False by (auto simp: nth_Cons' numeral_2_eq_2)
    moreover have "(x # xs) ! (m - 1) = xs ! (m - 1 - 1)" using False Cons.prems by (simp add: nth_Cons')
    ultimately show ?thesis using Cons.IH[of "m - 1"] Cons.prems False by (cases m) auto
  qed (use Cons.prems in simp)
qed simp

text \<open>The cursor after \<open>m\<close> rows.\<close>

definition cursor :: "('r \<Rightarrow> uuid) \<Rightarrow> 'r list \<Rightarrow> nat \<Rightarrow> uuid option" where
  "cursor key xs m = (if m = 0 then None else Some (key (xs ! (m - 1))))"

lemma page_at:
  assumes "distinct (map key rows)" and "m \<le> length rows"
  shows "dataset_page key rows (cursor key (sort_key key rows) m) n = take n (drop m (sort_key key rows))"
  using assms drop_after_key[of key "sort_key key rows" m] by (simp add: dataset_page_def cursor_def)

lemma write_pages_all:
  assumes "distinct (map key rows)" and "0 < n" and "m \<le> length rows"
  shows "write_pages key n rows (cursor key (sort_key key rows) m) (take m (sort_key key rows)) m
    = Some (Inr (sort_key key rows, length rows))"
  using assms(3)
proof (induction "length rows - m" arbitrary: m rule: less_induct)
  case less
  let ?xs = "sort_key key rows" and ?p = "take n (drop m (sort_key key rows))"
  have page: "dataset_page key rows (cursor key ?xs m) n = ?p" using page_at[OF assms(1) less.prems] .
  have written: "take m ?xs @ ?p = take (m + n) ?xs" by (simp add: take_add)
  show ?case
  proof (cases "length ?p < n")
    case True
    then show ?thesis using less.prems page written by (subst write_pages.simps) simp
  next
    case False
    then have mn: "m + n \<le> length rows" using less.prems by simp
    have len: "length ?p = n" using mn by simp
    then have "?p \<noteq> []" using assms(2) by auto
    moreover have last: "last ?p = ?xs ! (m + n - 1)"
      using assms(2) mn len \<open>?p \<noteq> []\<close> by (simp add: last_conv_nth)
    moreover have "Some (key (?xs ! (m + n - 1))) \<noteq> cursor key ?xs m"
    proof (cases "m = 0")
      case False
      have "map key ?xs ! (m + n - 1) \<noteq> map key ?xs ! (m - 1)"
        using assms False mn by (subst nth_eq_iff_index_eq) auto
      then show ?thesis using False mn assms(2) by (simp add: cursor_def)
    qed (simp add: cursor_def)
    moreover have "cursor key ?xs (m + n) = Some (key (last ?p))" using last assms(2) by (simp add: cursor_def)
    ultimately show ?thesis
      using less.hyps[of "m + n"] mn assms(2) len by (subst write_pages.simps) (simp add: page written)
  qed
qed

lemma writeDataset_all:
  "distinct (map key rows) \<Longrightarrow> writeDataset key rows = Some (Inr (sort_key key rows, length rows))"
  using write_pages_all[of key rows export_page_size 0] by (simp add: writeDataset_def cursor_def export_page_size_def)

lemma write_datasets_all:
  assumes "\<And>ds. distinct (map key (tables ds))"
  shows "write_datasets tables key encode names = Some (Inr (map (\<lambda>ds. \<lparr>xf_name = data_file ds,
     xf_lines = map (sortValue \<circ> encode) (sort_key key (tables ds)), xf_count = Some (length (tables ds))\<rparr>) names))"
  using assms by (induction names) (simp_all add: writeDataset_all)

section \<open>Canonical lines\<close>

text \<open>The same value, up to the order of the fields of the records in it.\<close>

inductive json_same :: "json \<Rightarrow> json \<Rightarrow> bool" where
  same_refl: "json_same v v"
| same_array: "list_all2 json_same vs ws \<Longrightarrow> json_same (JArray vs) (JArray ws)"
| same_object: "list_all2 (\<lambda>f g. fst f = fst g \<and> json_same (snd f) (snd g)) fs gs \<Longrightarrow> distinct (map fst fs) \<Longrightarrow> mset hs = mset gs
    \<Longrightarrow> json_same (JObject fs) (JObject hs)"

lemma sort_key_unique:
  assumes "mset xs = mset ys" and "distinct (map k xs)"
  shows "sort_key k xs = sort_key k ys"
  using assms by (intro sort_key_inj_key_eq) (simp_all add: distinct_map)

lemma map_insort: "(\<And>x. k (g x) = k x) \<Longrightarrow> map g (insort_key k x xs) = insort_key k (g x) (map g xs)"
  by (induction xs) auto

lemma map_sort_key: "(\<And>x. k (g x) = k x) \<Longrightarrow> map g (sort_key k xs) = sort_key k (map g xs)"
  by (induction xs) (simp_all add: map_insort)

lemma sorted_fields:
  "sortValue (JObject fs) = JObject (sort_key fst (map (\<lambda>f. (fst f, sortValue (snd f))) fs))"
  by (simp add: case_prod_unfold map_sort_key)

lemma sortValue_same: "json_same v w \<Longrightarrow> sortValue v = sortValue w"
proof (induction rule: json_same.induct)
  case (same_array vs ws)
  then have "map sortValue vs = map sortValue ws" by (induction rule: list_all2_induct) simp_all
  then show ?case by simp
next
  case (same_object fs gs hs)
  let ?s = "\<lambda>f. (fst f, sortValue (snd f))"
  have "map ?s fs = map ?s gs" using same_object(1) by (induction rule: list_all2_induct) simp_all
  moreover have "sort_key fst (map ?s gs) = sort_key fst (map ?s hs)"
  proof (rule sort_key_unique)
    show "mset (map ?s gs) = mset (map ?s hs)" using same_object(3) by simp
    show "distinct (map fst (map ?s gs))" using same_object(2) calculation[symmetric] by (simp add: comp_def)
  qed
  ultimately show ?case unfolding sorted_fields by simp
qed simp

lemma sortValue_idem: "sortValue (sortValue v) = sortValue v"
proof (induction v rule: sortValue.induct)
  case (2 fs)
  let ?s = "\<lambda>f. (fst f, sortValue (snd f))"
  have eq: "map (?s \<circ> ?s) fs = map ?s fs"
    using 2 by (intro map_cong) (auto simp: case_prod_unfold)
  have "map ?s (sort_key fst (map ?s fs)) = sort_key fst (map (?s \<circ> ?s) fs)"
    by (subst map_sort_key) simp_all
  then show ?case unfolding sorted_fields eq by (simp add: sort_key_id_if_sorted)
qed simp_all

text \<open>A line of the archive is canonical: two records with the same fields, at every level
  and in whatever order, are written the same, and writing a canonical value again
  changes nothing.\<close>

theorem canonical_line:
  "(json_same v w \<longrightarrow> sortValue v = sortValue w) \<and> sortValue (sortValue v) = sortValue v"
  by (simp add: sortValue_same sortValue_idem)

lemma canonical_line_witness:
  "sortValue (JObject [(''b'', JNum 1), (''a'', JNull)]) = sortValue (JObject [(''a'', JNull), (''b'', JNum 1)])"
proof -
  have "json_same (JObject [(''b'', JNum 1), (''a'', JNull)]) (JObject [(''a'', JNull), (''b'', JNum 1)])"
    by (rule same_object[of "[(''b'', JNum 1), (''a'', JNull)]" "[(''b'', JNum 1), (''a'', JNull)]"]) (auto intro: same_refl)
  then show ?thesis using canonical_line by blast
qed

section \<open>Objects and files\<close>

lemma objects_bad:
  "writeObjectManifest streams refs = Inl e \<Longrightarrow>
     \<exists>r\<in>set refs. streams (snd r) = None \<or> (\<exists>s. streams (snd r) = Some s \<and> sum_list (st_chunks s) \<noteq> st_length s)"
  by (induction refs) (auto split: option.splits if_splits sum.splits)

lemma set_unique_references [simp]: "set (unique_references rs) = set rs"
  by (induction rs rule: unique_references.induct) auto

lemma distinct_unique_references: "distinct (unique_references rs)"
  by (induction rs rule: unique_references.induct) auto

lemma distinct_object_references: "distinct (listTenantObjectReferences as cs us ss zs)"
  by (simp add: listTenantObjectReferences_def sort_references_def distinct_unique_references)

text \<open>Fields of the schema that hold credentials or internal keys.\<close>

definition secret_fields :: "string list" where
  "secret_fields = [''passwordHash'', ''tokenHash'', ''encryptedAccessToken'', ''encryptedRefreshToken'', ''encryptedCredential'',
     ''leaseId'', ''requestHash'', ''idempotencyKey'', ''clientIdempotencyKey'', ''credentialGenerationId'']"

lemma export_selects: "\<forall>(ds, fs)\<in>set export_datasets. ''id'' \<in> set fs \<and> list_all (\<lambda>x. x \<notin> set secret_fields) fs"
  by code_simp

lemma export_names: "distinct (map fst export_datasets)"
  by code_simp

text \<open>C21.
  An export is complete: with tables whose rows have distinct identifiers, the writer
  comes to a result; it fails only over an object that cannot be read or whose size is
  not the declared one, and otherwise the archive has, for every dataset, a file with
  each row of the tenant exactly once, in the order of the identifiers and in canonical
  form, and the count of the rows; the files are in the order of their names.\<close>

theorem export_complete:
  assumes "\<And>ds. distinct (map key (tables ds))"
  shows "\<exists>res. writeTenantExport tables key encode digest streams refs tenant request snapshot = Some res \<and>
     (case res of
        Inl e \<Rightarrow> \<exists>r\<in>set refs. streams (snd r) = None \<or> (\<exists>s. streams (snd r) = Some s \<and> sum_list (st_chunks s) \<noteq> st_length s)
      | Inr (files, n) \<Rightarrow> n = length refs \<and> sorted (map xf_name files)
          \<and> (\<forall>(ds, fs)\<in>set export_datasets. \<exists>f\<in>set files. xf_name f = data_file ds \<and> xf_count f = Some (length (tables ds))
               \<and> xf_lines f = map (sortValue \<circ> encode) (sort_key key (tables ds))))"
proof (cases "writeObjectManifest streams (sort_references refs)")
  case (Inl e)
  have "set (sort_references refs) = set refs" by (simp add: sort_references_def)
  then show ?thesis
    using objects_bad[OF Inl] by (simp add: writeTenantExport_def write_datasets_all[OF assms] Inl)
next
  case (Inr ls)
  let ?D = "\<lambda>ds. \<lparr>xf_name = data_file ds, xf_lines = map (sortValue \<circ> encode) (sort_key key (tables ds)),
     xf_count = Some (length (tables ds))\<rparr>"
  obtain x y z where w: "writeTenantExport tables key encode digest streams refs tenant request snapshot
      = Some (Inr (sort_key xf_name (map ?D (sort (map fst export_datasets)) @ [x, y, z]), length refs))"
    by (rule that) (simp only: writeTenantExport_def write_datasets_all[OF assms] Inr Let_def option.case sum.case)
  have "\<exists>f\<in>set (sort_key xf_name (map ?D (sort (map fst export_datasets)) @ [x, y, z])). xf_name f = data_file ds
      \<and> xf_count f = Some (length (tables ds)) \<and> xf_lines f = map (sortValue \<circ> encode) (sort_key key (tables ds))"
    if "(ds, fs) \<in> set export_datasets" for ds fs
    using that by (intro bexI[of _ "?D ds"]) (auto simp: image_iff intro!: bexI[of _ "(ds, fs)"])
  then show ?thesis unfolding w by auto
qed

theorem export_complete_witness:
  "\<exists>files. writeTenantExport (\<lambda>_. [3, 1, 2::nat]) id (JNum \<circ> int) (\<lambda>_. (''h'', 0)) (\<lambda>_. None) [] ''t'' ''r'' ''s'' = Some (Inr (files, 0))
     \<and> (\<exists>f\<in>set files. xf_name f = data_file ''orders'' \<and> xf_lines f = [JNum 1, JNum 2, JNum 3])"
proof -
  have "\<exists>fs. (''orders'', fs) \<in> set export_datasets" by (simp add: export_datasets_def)
  then show ?thesis
    using export_complete[of id "\<lambda>_. [3, 1, 2::nat]" "JNum \<circ> int" "\<lambda>_. (''h'', 0)" "\<lambda>_. None" "[]" "''t''" "''r''" "''s''"]
    by (fastforce split: sum.splits)
qed

end
