(* ===== verification/Conversations.thy ===== *)
theory Conversations
  imports Messages
begin

text \<open>
  The conversations of the API, \<open>apps/api/src/conversations/conversations.service.ts\<close>: the
  list and its cursors, the status of a conversation, starting an order by hand, sending a
  reply and retrying one.  The switch of the TikTok channel is a parameter; jobs that a
  method hands to the queue are a part of its result, since a queue that fails is only logged.
  A cursor is the pair that its text encodes.
\<close>

section \<open>Writing rows\<close>

definition fresh_id :: "uuid dbtx" where
  "fresh_id = (\<lambda>d. Inr (next_id d, d\<lparr>next_id := next_id d + 1\<rparr>))"

text \<open>The unique indexes of messages, and the check that a message has an event or a key.\<close>

definition same_message :: "message \<Rightarrow> message \<Rightarrow> bool" where
  "same_message m x \<longleftrightarrow> m_id x = m_id m
     \<or> m_tenant x = m_tenant m \<and> m_client_key m \<noteq> None \<and> m_client_key x = m_client_key m
     \<or> (m_tenant x, m_channel x, m_external x) = (m_tenant m, m_channel m, m_external m)"

definition create_message :: "message \<Rightarrow> unit dbtx" where
  "create_message m = (\<lambda>d.
     if any_row (same_message m) (messages d) then Inl UniqueViolation
     else if m_event m = None \<and> m_client_key m = None then Inl CheckViolation
     else Inr ((), d\<lparr>messages := messages d @ [m]\<rparr>))"

definition update_conversation :: "uuid \<Rightarrow> (conversation \<Rightarrow> conversation) \<Rightarrow> unit dbtx" where
  "update_conversation cid f = (\<lambda>d.
     if any_row (\<lambda>c. cv_id c = cid) (conversations d)
     then Inr ((), d\<lparr>conversations := update_where (\<lambda>c. cv_id c = cid) f (conversations d)\<rparr>)
     else Inl RecordNotFound)"

definition update_draft :: "uuid \<Rightarrow> (reply_draft \<Rightarrow> reply_draft) \<Rightarrow> unit dbtx" where
  "update_draft rid f = (\<lambda>d.
     if any_row (\<lambda>r. rd_id r = rid) (reply_drafts d)
     then Inr ((), d\<lparr>reply_drafts := update_where (\<lambda>r. rd_id r = rid) f (reply_drafts d)\<rparr>)
     else Inl RecordNotFound)"

section \<open>The list\<close>

record conversation_query =
  cq_limit :: nat
  cq_cursor :: "(instant \<times> uuid) option"
  cq_status :: "workflow_status option"

record conversation_summary =
  su_id :: uuid
  su_workflow :: workflow_status
  su_version :: nat
  su_channel :: social_channel
  su_name :: "string option"
  su_username :: "string option"
  su_last :: instant

definition participantName :: "(string option \<times> string option) option \<Rightarrow> string option \<Rightarrow> string option" where
  "participantName profile legacyDisplayName = (case profile of
       None \<Rightarrow> legacyDisplayName
     | Some (displayName, username) \<Rightarrow> or_else displayName (if truthy username then None else legacyDisplayName))"

definition conversation_summary_of :: "uuid \<Rightarrow> db \<Rightarrow> conversation \<Rightarrow> conversation_summary" where
  "conversation_summary_of t d c = (let names = map_option pf_names (find_profile t d c) in
     \<lparr>su_id = cv_id c, su_workflow = cv_workflow c, su_version = cv_status_version c, su_channel = cv_channel c,
      su_name = participantName names (cv_display_name c), su_username = Option.bind names snd, su_last = cv_last_message c\<rparr>)"

definition cursor_key :: "conversation \<Rightarrow> instant \<times> uuid" where
  "cursor_key c = (cv_last_message c, cv_id c)"

definition after_cursor :: "(instant \<times> uuid) option \<Rightarrow> conversation \<Rightarrow> bool" where
  "after_cursor cursor c = (case cursor of
       None \<Rightarrow> True
     | Some (lastMessageAt, i) \<Rightarrow> cv_last_message c < lastMessageAt \<or> cv_last_message c = lastMessageAt \<and> cv_id c < i)"

text \<open>Newest first.\<close>

definition newest_first :: "conversation list \<Rightarrow> conversation list" where
  "newest_first rows = sort_key (\<lambda>c. (- cv_last_message c, - int (cv_id c))) rows"

definition listed :: "uuid \<Rightarrow> workflow_status option \<Rightarrow> conversation \<Rightarrow> bool" where
  "listed t status c \<longleftrightarrow> cv_tenant c = t \<and> (case status of None \<Rightarrow> True | Some s \<Rightarrow> cv_workflow c = s)"

definition conversation_page :: "uuid \<Rightarrow> conversation_query \<Rightarrow> db \<Rightarrow> conversation list \<times> (instant \<times> uuid) option" where
  "conversation_page t q d =
     (let limit = min (cq_limit q) 50;
          rows = take (limit + 1) (newest_first (filter (\<lambda>c. listed t (cq_status q) c \<and> after_cursor (cq_cursor q) c) (conversations d)));
          hasMore = limit < length rows;
          page = (if hasMore then take limit rows else rows)
      in (page, if hasMore \<and> page \<noteq> [] then Some (cursor_key (last page)) else None))"

definition list_conversations :: "uuid \<Rightarrow> conversation_query \<Rightarrow> (conversation_summary list \<times> (instant \<times> uuid) option) dbtx" where
  "list_conversations t q = tx_read (\<lambda>d. let (page, cursor) = conversation_page t q d
     in (map (conversation_summary_of t d) page, cursor))"

definition statusCounts :: "uuid \<Rightarrow> db \<Rightarrow> workflow_status \<Rightarrow> nat" where
  "statusCounts t d s = count_where (\<lambda>c. cv_tenant c = t \<and> cv_workflow c = s) (conversations d)"

section \<open>The status of a conversation\<close>

record status_change =
  sc_status :: workflow_status
  sc_expected :: nat

type_synonym status_view = "workflow_status \<times> nat \<times> instant option"

definition status_of :: "conversation \<Rightarrow> status_view" where
  "status_of c = (cv_workflow c, cv_status_version c, cv_status_changed c)"

definition set_status :: "workflow_status \<Rightarrow> instant \<Rightarrow> uuid option \<Rightarrow> conversation \<Rightarrow> conversation" where
  "set_status s now actor c = c\<lparr>cv_workflow := s, cv_status_version := cv_status_version c + 1,
     cv_status_changed := Some now, cv_status_by := actor\<rparr>"

definition changeStatus :: "uuid \<Rightarrow> uuid \<Rightarrow> uuid \<Rightarrow> status_change \<Rightarrow> instant \<Rightarrow> status_view dbtx" where
  "changeStatus t user cid input now =
     tx_seq (assertTenantAcceptingMutations t CONVERSATION_TRIAGE)
    (tx_bind (tx_read (find_conversation t cid)) (\<lambda>found. case found of
         None \<Rightarrow> tx_throw (NotFound ''Conversation not found'')
       | Some current \<Rightarrow>
           tx_seq (tx_when (cv_status_version current \<noteq> sc_expected input) (Conflict ''CONVERSATION_STATUS_CHANGED''))
          (if cv_workflow current = sc_status input then tx_return (status_of current)
           else tx_seq (update_conversation cid (set_status (sc_status input) now (Some user)))
                (tx_return (status_of (set_status (sc_status input) now (Some user) current))))))"

section \<open>Orders of a conversation\<close>

definition orderState :: "uuid \<Rightarrow> uuid \<Rightarrow> (uuid \<times> order_status) option dbtx" where
  "orderState t cid =
     tx_bind (tx_read (find_conversation t cid)) (\<lambda>c. case c of
         None \<Rightarrow> tx_throw (NotFound ''Conversation not found'')
       | Some _ \<Rightarrow> tx_read (\<lambda>d. map_option (\<lambda>r. (o_id r, o_status r))
           (find_sorted (\<lambda>r. (- o_created_at r, - int (o_id r))) (\<lambda>r. o_tenant r = t \<and> o_conversation r = cid) (orders d))))"

definition latest_message :: "(message \<Rightarrow> bool) \<Rightarrow> uuid \<Rightarrow> uuid \<Rightarrow> db \<Rightarrow> message option" where
  "latest_message P t cid d = find_sorted (\<lambda>m. (- m_source_at m, - int (m_id m)))
     (\<lambda>m. m_tenant m = t \<and> m_conversation m = cid \<and> m_direction m = INBOUND \<and> P m) (messages d)"

text \<open>The order that was already started, or the message to queue.\<close>

definition create_order_by_hand :: "uuid \<Rightarrow> uuid \<Rightarrow> (uuid option \<times> uuid option) dbtx" where
  "create_order_by_hand t cid =
     tx_bind (tx_read (find_conversation t cid)) (\<lambda>c. case c of
         None \<Rightarrow> tx_throw (NotFound ''Conversation not found'')
       | Some _ \<Rightarrow> tx_bind (tx_read (latest_message (\<lambda>m. m_text m \<noteq> None) t cid)) (\<lambda>latest. case latest of
             None \<Rightarrow> tx_throw (BadRequest ''Conversation has no messages'')
           | Some m \<Rightarrow> tx_bind (tx_read (\<lambda>d. List.find (\<lambda>r. o_trigger r = m_id m \<and> o_tenant r = t \<and> o_conversation r = cid) (orders d)))
               (\<lambda>existing. case existing of
                   Some r \<Rightarrow> tx_return (Some (o_id r), None)
                 | None \<Rightarrow> tx_seq (assertTenantAcceptingMutations t ORDER_RECOGNITION) (tx_return (None, Some (m_id m))))))"

section \<open>Whether a reply may be sent\<close>

record reply_capability =
  rp_enabled :: bool
  rp_draft :: bool
  rp_reason :: "string option"

definition isDeliveryConnectionActive :: "instagram_connection option \<Rightarrow> instant \<Rightarrow> bool" where
  "isDeliveryConnectionActive connection now = (case connection of
       None \<Rightarrow> False
     | Some c \<Rightarrow> ic_status c = IG_ACTIVE \<and> truthy (ic_token c)
         \<and> (case ic_expires c of Some x \<Rightarrow> now < x | None \<Rightarrow> False))"

definition refused :: "string \<Rightarrow> reply_capability" where
  "refused reason = \<lparr>rp_enabled = False, rp_draft = False, rp_reason = Some reason\<rparr>"

definition replyCapability :: "instagram_connection option \<Rightarrow> instant \<Rightarrow> instant option \<Rightarrow> reply_capability" where
  "replyCapability connection now lastInboundAt =
     (if isDeliveryConnectionActive connection now then
        (let mode = metaInstagramReplyMode lastInboundAt now in
         if mode = EXPIRED then refused ''REPLY_WINDOW_EXPIRED''
         else \<lparr>rp_enabled = True, rp_draft = (mode = STANDARD), rp_reason = None\<rparr>)
      else refused (if connection \<noteq> None then ''RECONNECT_REQUIRED'' else ''NOT_CONNECTED''))"

definition tikTokReplyCapability :: "tiktok_connection option \<Rightarrow> instant \<Rightarrow> instant option \<Rightarrow> reply_capability" where
  "tikTokReplyCapability connection now lastInboundAt = (case connection of
       None \<Rightarrow> refused ''NOT_CONNECTED''
     | Some c \<Rightarrow>
         if tk_status c = TK_INBOUND_ONLY \<or> \<not> tk_send_text c then refused ''TIKTOK_CAPABILITY_UNAVAILABLE''
         else if tk_status c \<noteq> TK_ACTIVE \<or> \<not> truthy (tk_access c) \<or> \<not> truthy (tk_refresh c) \<or> tk_generation c = None
           \<or> (case tk_refresh_expires c of None \<Rightarrow> True | Some x \<Rightarrow> x \<le> now) then refused ''RECONNECT_REQUIRED''
         else if \<not> withinReplyWindow lastInboundAt now then refused ''TIKTOK_REPLY_NOT_PERMITTED''
         else \<lparr>rp_enabled = True, rp_draft = True, rp_reason = None\<rparr>)"

definition ig_connection :: "uuid \<Rightarrow> db \<Rightarrow> instagram_connection option" where
  "ig_connection t d = List.find (\<lambda>c. ic_tenant c = t) (instagram_connections d)"

text \<open>\<open>PlatformChannelDeploymentUnavailableError\<close> is a \<open>PlatformChannelDisabledError\<close>.\<close>

definition assertChannelEnabled :: "channel_error + unit \<Rightarrow> social_channel \<Rightarrow> app_error + unit" where
  "assertChannelEnabled gate channel =
     (if channel = INSTAGRAM then Inr ()
      else case gate of Inl _ \<Rightarrow> Inl (BadRequest ''TIKTOK_CHANNEL_DISABLED'') | Inr _ \<Rightarrow> Inr ())"

definition find_reply_conversation :: "uuid \<Rightarrow> uuid \<Rightarrow> db \<Rightarrow> conversation option" where
  "find_reply_conversation t cid d =
     List.find (\<lambda>c. cv_id c = cid \<and> cv_tenant c = t \<and> cv_channel c \<in> {INSTAGRAM, TIKTOK}) (conversations d)"

section \<open>Views of messages\<close>

text \<open>The kind of an attachment that the reader sees, and its address; the protocol of an
  address is what the URL parser of the platform says.\<close>

record attachment_view =
  va_id :: uuid
  va_type :: attachment_type
  va_url :: "string option"
  va_copy :: copy_status

definition mapAttachment :: "(string \<Rightarrow> string option) \<Rightarrow> attachment \<Rightarrow> attachment_view" where
  "mapAttachment protocol a =
     (if at_type a \<in> {IMAGE, VIDEO} then
        \<lparr>va_id = at_id a, va_type = at_type a, va_url = Some (''/api/media/'' @ uuid_text (at_id a)), va_copy = at_copy a\<rparr>
      else if at_type a = LINK \<and> protocol (at_url a) \<in> {Some ''https:'', Some ''http:''} then
        \<lparr>va_id = at_id a, va_type = LINK, va_url = Some (at_url a), va_copy = at_copy a\<rparr>
      else \<lparr>va_id = at_id a, va_type = UNSUPPORTED, va_url = None, va_copy = at_copy a\<rparr>)"

definition delivery_error_codes :: "string list" where
  "delivery_error_codes = [''INSTAGRAM_RECONNECT_REQUIRED'', ''INSTAGRAM_RATE_LIMITED'', ''INSTAGRAM_SEND_FAILED'',
     ''INSTAGRAM_DELIVERY_UNKNOWN'', ''INSTAGRAM_REPLY_WINDOW_EXPIRED'', ''INSTAGRAM_HUMAN_AGENT_UNAVAILABLE'',
     ''TIKTOK_RECONNECT_REQUIRED'', ''TIKTOK_RATE_LIMITED'', ''TIKTOK_SEND_FAILED'', ''TIKTOK_DELIVERY_UNKNOWN'',
     ''TIKTOK_REPLY_NOT_PERMITTED'']"

definition rate_limited :: "message \<Rightarrow> bool" where
  "rate_limited m \<longleftrightarrow> m_error m \<in> {Some ''INSTAGRAM_RATE_LIMITED'', Some ''TIKTOK_RATE_LIMITED''}"

record delivery_view =
  vd_status :: outbound_status
  vd_attempts :: nat
  vd_error :: "string option"
  vd_retry :: bool

record message_view =
  vm_id :: uuid
  vm_direction :: direction
  vm_sender :: string
  vm_text :: "string option"
  vm_at :: instant
  vm_delivery :: "delivery_view option"

definition mapMessage :: "message \<Rightarrow> bool \<Rightarrow> message_view" where
  "mapMessage m connectionActive = \<lparr>vm_id = m_id m, vm_direction = m_direction m, vm_sender = m_sender m, vm_text = m_text m,
     vm_at = m_source_at m, vm_delivery = (case m_status m of
         None \<Rightarrow> None
       | Some s \<Rightarrow> if m_direction m \<noteq> OUTBOUND then None
           else Some \<lparr>vd_status = s, vd_attempts = m_attempts m,
             vd_error = (case m_error m of Some e \<Rightarrow> if e \<in> set delivery_error_codes then Some e else None | None \<Rightarrow> None),
             vd_retry = (connectionActive \<and> s = OD_FAILED \<and> rate_limited m)\<rparr>)\<rparr>"

text \<open>\<open>detail\<close>: the conversation, its capability, its messages; an attachment is a part of
  the view of its message in the code.\<close>

record conversation_detail =
  cd_conversation :: conversation
  cd_capability :: reply_capability
  cd_messages :: "message_view list"
  cd_attachments :: "attachment_view list"
  cd_drafts :: "reply_draft list"

definition oldest_first :: "message list \<Rightarrow> message list" where
  "oldest_first ms = sort_key (\<lambda>m. (m_source_at m, m_id m)) ms"

definition latestInboundAt :: "message list \<Rightarrow> instant option" where
  "latestInboundAt ms = map_option m_source_at (List.find (\<lambda>m. m_direction m = INBOUND) (rev ms))"

definition conversation_detail_of :: "(string \<Rightarrow> string option) \<Rightarrow> uuid \<Rightarrow> instant \<Rightarrow> db \<Rightarrow> conversation \<Rightarrow> conversation_detail" where
  "conversation_detail_of protocol t now d c =
     (let ms = oldest_first (filter (\<lambda>m. m_tenant m = t \<and> m_conversation m = cv_id c) (messages d));
          lastInboundAt = latestInboundAt ms;
          tiktok = tikTokReplyCapability (tt_connection t d) now lastInboundAt;
          connectionActive = (if cv_channel c = INSTAGRAM then isDeliveryConnectionActive (ig_connection t d) now
             else cv_channel c = TIKTOK \<and> rp_enabled tiktok)
      in \<lparr>cd_conversation = c,
          cd_capability = (case cv_channel c of INSTAGRAM \<Rightarrow> replyCapability (ig_connection t d) now lastInboundAt
             | TIKTOK \<Rightarrow> tiktok | FACEBOOK \<Rightarrow> refused ''CHANNEL_READ_ONLY''),
          cd_messages = map (\<lambda>m. mapMessage m connectionActive) ms,
          cd_attachments = map (mapAttachment protocol)
             (concat (map (\<lambda>m. filter (\<lambda>a. at_message a = m_id m) (attachments d)) ms)),
          cd_drafts = take 5 (sort_key (\<lambda>r. (- rd_created r, - int (rd_id r)))
             (filter (\<lambda>r. rd_tenant r = t \<and> rd_conversation r = cv_id c) (reply_drafts d)))\<rparr>)"

definition detail_conversation :: "(string \<Rightarrow> string option) \<Rightarrow> uuid \<Rightarrow> uuid \<Rightarrow> instant \<Rightarrow> conversation_detail dbtx" where
  "detail_conversation protocol t cid now = tx_bind (tx_read (find_conversation t cid)) (\<lambda>c. case c of
       None \<Rightarrow> tx_throw (NotFound ''Conversation not found'')
     | Some c \<Rightarrow> tx_read (\<lambda>d. conversation_detail_of protocol t now d c))"

section \<open>Sending a reply\<close>

record outbound_input =
  oi_text :: string
  oi_key :: uuid
  oi_draft :: "uuid option"

text \<open>The account that sends, and for TikTok the credential.\<close>

definition reply_sender :: "uuid \<Rightarrow> social_channel \<Rightarrow> message option \<Rightarrow> bool \<Rightarrow> instant \<Rightarrow> db \<Rightarrow> app_error + string \<times> uuid option" where
  "reply_sender t channel anchor drafted now d =
     (if channel = INSTAGRAM then
        (case ig_connection t d of
           Some c \<Rightarrow>
             if \<not> isDeliveryConnectionActive (Some c) now then Inl (BadRequest ''Instagram connection is not ready for replies'')
             else let mode = metaInstagramReplyMode (map_option m_source_at anchor) now in
               if mode = EXPIRED then Inl (BadRequest ''Instagram reply window expired'')
               else if drafted \<and> mode \<noteq> STANDARD then Inl (Conflict ''AI draft requires the standard Instagram reply window'')
               else Inr (ic_account c, None)
         | None \<Rightarrow> Inl (BadRequest ''Instagram connection is not ready for replies''))
      else
        (case tt_connection t d of
           Some c \<Rightarrow>
             if \<not> rp_enabled (tikTokReplyCapability (Some c) now (map_option m_source_at anchor)) \<or> tk_generation c = None
             then Inl (BadRequest ''TikTok connection is not ready for replies'')
             else Inr (tk_account c, tk_generation c)
         | None \<Rightarrow> Inl (BadRequest ''TikTok connection is not ready for replies'')))"

definition find_by_key :: "uuid \<Rightarrow> uuid \<Rightarrow> db \<Rightarrow> message option" where
  "find_by_key t key d = List.find (\<lambda>m. m_tenant m = t \<and> m_client_key m = Some key) (messages d)"

definition replay_reply :: "uuid \<Rightarrow> uuid \<Rightarrow> outbound_input \<Rightarrow> string \<Rightarrow> message \<Rightarrow> db \<Rightarrow> app_error + message" where
  "replay_reply t cid input txt existing d =
     (if m_conversation existing \<noteq> cid \<or> m_text existing \<noteq> Some txt then Inl (BadRequest ''Idempotency key was already used'')
      else if map_option rd_id (List.find (\<lambda>r. rd_tenant r = t \<and> rd_outbound r = Some (m_id existing)) (reply_drafts d)) \<noteq> oi_draft input
      then Inl (BadRequest ''Idempotency key was already used for another reply'')
      else Inr existing)"

text \<open>The products a draft was made from are as they were.\<close>

definition sourcesCurrent :: "uuid \<Rightarrow> (uuid \<times> instant) list \<Rightarrow> db \<Rightarrow> bool" where
  "sourcesCurrent t sources d = list_all (\<lambda>(pid, updatedAt).
     case List.find (\<lambda>p. pr_tenant p = t \<and> pr_id p = pid) (products d) of
       None \<Rightarrow> False | Some p \<Rightarrow> pr_active p \<and> pr_updated p = updatedAt) sources"

definition stale_reason :: "uuid \<Rightarrow> message option \<Rightarrow> db \<Rightarrow> reply_draft \<Rightarrow> string option" where
  "stale_reason t anchor d r =
     (if Some (rd_anchor r) \<noteq> map_option m_id anchor then Some ''NEW_MESSAGE''
      else case rd_sources r of
          None \<Rightarrow> Some ''SOURCE_CHANGED''
        | Some sources \<Rightarrow> if 8 < length sources \<or> \<not> sourcesCurrent t sources d then Some ''SOURCE_CHANGED'' else None)"

definition mark_stale :: "string \<Rightarrow> reply_draft \<Rightarrow> reply_draft" where
  "mark_stale reason r = r\<lparr>rd_status := RD_STALE, rd_error := Some reason\<rparr>"

definition find_style :: "uuid \<Rightarrow> db \<Rightarrow> reply_style option" where
  "find_style t d = List.find (\<lambda>s. ry_tenant s = t) (reply_styles d)"

definition style_enabled :: "uuid \<Rightarrow> db \<Rightarrow> bool" where
  "style_enabled t d = (case find_style t d of None \<Rightarrow> False | Some s \<Rightarrow> ry_enabled s)"

text \<open>The draft of a reply that is about to be sent: nothing, or why it is stale.\<close>

definition check_draft :: "uuid \<Rightarrow> uuid \<Rightarrow> message option \<Rightarrow> uuid \<Rightarrow> string option dbtx" where
  "check_draft t cid anchor draftId =
     tx_bind (tx_read (style_enabled t)) (\<lambda>enabled.
     tx_seq (tx_when (\<not> enabled) (Conflict ''AI drafts are disabled''))
    (tx_bind (tx_read (\<lambda>d. List.find (\<lambda>r. rd_id r = draftId \<and> rd_tenant r = t \<and> rd_conversation r = cid) (reply_drafts d))) (\<lambda>found.
       case found of
         None \<Rightarrow> tx_throw (Conflict ''AI draft is no longer ready for this conversation'')
       | Some r \<Rightarrow>
           tx_seq (tx_when (rd_status r \<noteq> RD_READY) (Conflict ''AI draft is no longer ready for this conversation''))
          (tx_bind (tx_read (\<lambda>d. stale_reason t anchor d r)) (\<lambda>reason. case reason of
               None \<Rightarrow> tx_return None
             | Some why \<Rightarrow> tx_seq (update_draft (rd_id r) (mark_stale why)) (tx_return (Some why)))))))"

definition new_reply :: "uuid \<Rightarrow> uuid \<Rightarrow> uuid \<Rightarrow> uuid \<Rightarrow> social_channel \<Rightarrow> string \<Rightarrow> uuid option \<Rightarrow> string \<Rightarrow> uuid \<Rightarrow> instant \<Rightarrow> message" where
  "new_reply mid t actor cid channel senderId generation txt key now = \<lparr>m_id = mid, m_tenant = t, m_conversation = cid,
     m_channel = channel, m_direction = OUTBOUND, m_text = Some txt, m_source_at = now, m_sent_by = Some actor,
     m_provider_message = None, m_status = Some OD_PENDING, m_attempts = 0, m_lease = None, m_lease_expires = None,
     m_next_attempt = Some now, m_last_attempt = None, m_error = None, m_generation = generation, m_created = now,
     m_event = None, m_external = ''local:'' @ uuid_text mid, m_sender = senderId, m_client_key = Some key\<rparr>"

definition use_draft :: "uuid \<Rightarrow> uuid \<Rightarrow> uuid \<Rightarrow> uuid option \<Rightarrow> string \<Rightarrow> uuid \<Rightarrow> instant \<Rightarrow> unit dbtx" where
  "use_draft t cid draftId anchor txt mid now =
     (let P = (\<lambda>r. rd_id r = draftId \<and> rd_tenant r = t \<and> rd_conversation r = cid \<and> rd_status r = RD_READY \<and> Some (rd_anchor r) = anchor)
      in tx_bind (tx_read (\<lambda>d. count_where P (reply_drafts d))) (\<lambda>n.
         tx_seq (tx_write (\<lambda>d. d\<lparr>reply_drafts := update_where P
             (\<lambda>r. r\<lparr>rd_status := RD_USED, rd_final := Some txt, rd_outbound := Some mid, rd_used := Some now\<rparr>) (reply_drafts d)\<rparr>))
           (tx_when (n \<noteq> 1) (Conflict ''AI draft was already used or changed''))))"

definition reply_window_count :: "uuid \<Rightarrow> uuid \<Rightarrow> instant \<Rightarrow> db \<Rightarrow> nat" where
  "reply_window_count t actor now d = count_where
     (\<lambda>m. m_tenant m = t \<and> m_sent_by m = Some actor \<and> m_direction m = OUTBOUND \<and> now - 60000 \<le> m_created m) (messages d)"

text \<open>From the rate limit on.\<close>

definition accept_reply :: "uuid \<Rightarrow> uuid \<Rightarrow> uuid \<Rightarrow> social_channel \<Rightarrow> message option \<Rightarrow> string \<times> uuid option \<Rightarrow> outbound_input \<Rightarrow> string \<Rightarrow>
    instant \<Rightarrow> message dbtx" where
  "accept_reply t actor cid channel anchor sender input txt now =
     tx_bind (tx_read (reply_window_count t actor now)) (\<lambda>acceptedInWindow.
     tx_seq (tx_when (30 \<le> acceptedInWindow) (TooManyRequests ''Conversation reply rate limit exceeded''))
    (tx_bind fresh_id (\<lambda>mid.
       let m = new_reply mid t actor cid channel (fst sender) (snd sender) txt (oi_key input) now in
       tx_seq (create_message m)
      (tx_seq (case oi_draft input of None \<Rightarrow> tx_return ()
          | Some draftId \<Rightarrow> use_draft t cid draftId (map_option m_id anchor) txt mid now)
      (tx_seq (update_conversation cid (\<lambda>c. c\<lparr>cv_last_message := now\<rparr>))
         (tx_return m))))))"

text \<open>\<open>Inl\<close>: the draft is stale, which is committed; \<open>Inr\<close>: the message and whether it is new.\<close>

definition send_tx :: "channel_error + unit \<Rightarrow> uuid \<Rightarrow> uuid \<Rightarrow> uuid \<Rightarrow> outbound_input \<Rightarrow> instant \<Rightarrow> (string + message \<times> bool) dbtx" where
  "send_tx gate t actor cid input now =
     (let txt = trim (oi_text input) in
     tx_seq (assertTenantAcceptingMutations t CONVERSATION_REPLY)
    (tx_bind (tx_read (find_reply_conversation t cid)) (\<lambda>found. case found of
        None \<Rightarrow> tx_throw (NotFound ''Conversation not found'')
      | Some conv \<Rightarrow>
     tx_bind (tx_read (latest_message (\<lambda>m. True) t cid)) (\<lambda>anchor.
     tx_seq (tx_when (oi_draft input \<noteq> None \<and> anchor = None) (Conflict ''AI draft has no current inbound message''))
    (tx_bind (tx_result (\<lambda>d. assertChannelEnabled gate (cv_channel conv))) (\<lambda>_.
     tx_bind (tx_result (reply_sender t (cv_channel conv) anchor (oi_draft input \<noteq> None) now)) (\<lambda>sender.
     tx_bind (tx_read (find_by_key t (oi_key input))) (\<lambda>existing. case existing of
         Some m \<Rightarrow> tx_bind (tx_result (replay_reply t cid input txt m)) (\<lambda>m'. tx_return (Inr (m', False)))
       | None \<Rightarrow>
           tx_bind (case oi_draft input of None \<Rightarrow> tx_return None | Some draftId \<Rightarrow> check_draft t cid anchor draftId) (\<lambda>stale.
             case stale of
               Some why \<Rightarrow> tx_return (Inl why)
             | None \<Rightarrow> tx_bind (accept_reply t actor cid (cv_channel conv) anchor sender input txt now)
                 (\<lambda>m. tx_return (Inr (m, True))))))))))))"

text \<open>The view of the message, and the job that is queued for the worker.\<close>

definition send :: "channel_error + unit \<Rightarrow> uuid \<Rightarrow> uuid \<Rightarrow> uuid \<Rightarrow> outbound_input \<Rightarrow> instant \<Rightarrow>
    (message_view \<times> (uuid \<times> uuid) option) dbservice" where
  "send gate t actor cid input now = svc_bind (run_tx (send_tx gate t actor cid input now)) (\<lambda>result. case result of
       Inl why \<Rightarrow> svc_throw (Conflict (''AI draft is stale: '' @ why))
     | Inr (m, created) \<Rightarrow> svc_return (mapMessage m True, if created then Some (t, m_id m) else None))"

section \<open>Retrying a reply\<close>

definition retry_code :: "social_channel \<Rightarrow> string" where
  "retry_code channel = (if channel = INSTAGRAM then ''INSTAGRAM_RATE_LIMITED'' else ''TIKTOK_RATE_LIMITED'')"

definition retry_connection :: "uuid \<Rightarrow> social_channel \<Rightarrow> message option \<Rightarrow> instant \<Rightarrow> db \<Rightarrow> app_error + uuid option" where
  "retry_connection t channel anchor now d =
     (if channel = INSTAGRAM then
        if isDeliveryConnectionActive (ig_connection t d) now then Inr None
        else Inl (BadRequest ''Instagram connection is not ready for replies'')
      else (case tt_connection t d of
           Some c \<Rightarrow>
             if \<not> rp_enabled (tikTokReplyCapability (Some c) now (map_option m_source_at anchor)) \<or> tk_generation c = None
             then Inl (BadRequest ''TikTok connection is not ready for replies'')
             else Inr (tk_generation c)
         | None \<Rightarrow> Inl (BadRequest ''TikTok connection is not ready for replies'')))"

definition retryable :: "social_channel \<Rightarrow> uuid option \<Rightarrow> message \<Rightarrow> bool" where
  "retryable channel generation m \<longleftrightarrow> m_status m = Some OD_FAILED \<and> m_error m = Some (retry_code channel)
     \<and> (channel = TIKTOK \<longrightarrow> m_generation m = generation)"

definition requeue :: "instant \<Rightarrow> message \<Rightarrow> message" where
  "requeue now m = m\<lparr>m_status := Some OD_PENDING, m_error := None, m_lease := None, m_lease_expires := None,
     m_next_attempt := Some now\<rparr>"

definition retry_tx :: "channel_error + unit \<Rightarrow> uuid \<Rightarrow> uuid \<Rightarrow> uuid \<Rightarrow> instant \<Rightarrow> message dbtx" where
  "retry_tx gate t cid mid now =
     tx_seq (assertTenantAcceptingMutations t CONVERSATION_REPLY)
    (tx_bind (tx_read (find_reply_conversation t cid)) (\<lambda>found. case found of
        None \<Rightarrow> tx_throw (NotFound ''Conversation not found'')
      | Some conv \<Rightarrow>
     tx_bind (tx_result (\<lambda>d. assertChannelEnabled gate (cv_channel conv))) (\<lambda>_.
     tx_bind (tx_read (latest_message (\<lambda>m. True) t cid)) (\<lambda>anchor.
     tx_bind (tx_result (retry_connection t (cv_channel conv) anchor now)) (\<lambda>generation.
     tx_bind (tx_read (\<lambda>d. List.find (\<lambda>m. m_id m = mid \<and> m_tenant m = t \<and> m_conversation m = cid
         \<and> m_channel m = cv_channel conv \<and> m_direction m = OUTBOUND) (messages d))) (\<lambda>existing. case existing of
         None \<Rightarrow> tx_throw (BadRequest ''Message cannot be safely retried'')
       | Some m \<Rightarrow>
           tx_seq (tx_when (\<not> retryable (cv_channel conv) generation m) (BadRequest ''Message cannot be safely retried''))
          (tx_seq (tx_write (\<lambda>d. d\<lparr>messages := update_where (\<lambda>x. m_id x = mid) (requeue now) (messages d)\<rparr>))
             (tx_return (requeue now m)))))))))"

definition retry :: "channel_error + unit \<Rightarrow> uuid \<Rightarrow> uuid \<Rightarrow> uuid \<Rightarrow> instant \<Rightarrow> (message_view \<times> uuid \<times> uuid) dbservice" where
  "retry gate t cid mid now = svc_bind (run_tx (retry_tx gate t cid mid now)) (\<lambda>m.
     svc_return (mapMessage m True, t, m_id m))"

end
