(* ===== verification/Normalizers.thy ===== *)
theory Normalizers
  imports Tenancy Json Money
begin

text \<open>
  The readers of webhook payloads: \<open>instagram-normalizer.ts\<close>, \<open>facebook-normalizer.ts\<close>
  and \<open>tiktok-normalizer.ts\<close> of \<open>apps/worker\<close>.  A payload is a JSON value; the parser of
  addresses, the parser of the nested text of TikTok and the text of a reference to a medium
  are parameters.  An event is read as a whole or refused as a whole.
\<close>

record normalized =
  nm_channel :: social_channel
  nm_external :: string
  nm_conversation :: string
  nm_participant :: string
  nm_sender :: string
  nm_direction :: direction
  nm_text :: "string option"
  nm_at :: instant
  nm_attachments :: "(attachment_type \<times> string) list"

text \<open>\<open>new URL(value).protocol\<close>, if the address can be parsed; \<open>JSON.parse\<close>; the text of a
  reference to a medium of TikTok.\<close>

record reader =
  jr_protocol :: "string \<Rightarrow> string option"
  jr_parse :: "string \<Rightarrow> json option"
  jr_encode :: "json \<Rightarrow> string"

definition malformed :: "string \<Rightarrow> app_error" where
  "malformed what = Plain what"

section \<open>Required values\<close>

definition requiredString :: "string \<Rightarrow> json option \<Rightarrow> app_error + string" where
  "requiredString message v = (case non_empty (text_of v) of Some s \<Rightarrow> Inr s | None \<Rightarrow> Inl (malformed message))"

definition requiredNestedId :: "string \<Rightarrow> json option \<Rightarrow> app_error + string" where
  "requiredNestedId message v = (if isRecord v then requiredString message (field ''id'' v) else Inl (malformed message))"

definition safe_char :: "char \<Rightarrow> bool" where
  "safe_char c \<longleftrightarrow> CHR ''a'' \<le> c \<and> c \<le> CHR ''z'' \<or> CHR ''0'' \<le> c \<and> c \<le> CHR ''9'' \<or> c = CHR ''_'' \<or> c = CHR ''-''"

definition safeType :: "string \<Rightarrow> string" where
  "safeType v = (let s = take 40 (filter safe_char (map lower_char v)) in if s = [] then ''unknown'' else s)"

definition unsupportedAttachment :: "string \<Rightarrow> string \<Rightarrow> attachment_type \<times> string" where
  "unsupportedAttachment provider providerType = (UNSUPPORTED, provider @ '':'' @ safeType providerType)"

text \<open>\<open>timestamp\<close>: a number other than zero.\<close>

definition event_timestamp :: "json option \<Rightarrow> app_error + instant" where
  "event_timestamp v = (case number_of v of
       None \<Rightarrow> Inl (malformed ''Supported message requires timestamp'')
     | Some n \<Rightarrow> if n = 0 then Inl (malformed ''Supported message requires timestamp'') else Inr n)"

section \<open>Addresses\<close>

definition isSafeWebUrl :: "reader \<Rightarrow> string \<Rightarrow> bool" where
  "isSafeWebUrl R v \<longleftrightarrow> jr_protocol R v \<in> {Some ''https:'', Some ''http:''}"

text \<open>\<open>/^data:image\/(?:jpeg|png|webp);base64,/i\<close>\<close>

definition starts_with :: "string \<Rightarrow> string \<Rightarrow> bool" where
  "starts_with p s \<longleftrightarrow> take (length p) s = p"

definition data_image :: "string \<Rightarrow> bool" where
  "data_image v \<longleftrightarrow> list_ex (\<lambda>t. starts_with (''data:image/'' @ t @ '';base64,'') (map lower_char v)) [''jpeg'', ''png'', ''webp'']"

definition isSafeImageSource :: "reader \<Rightarrow> string \<Rightarrow> bool" where
  "isSafeImageSource R v \<longleftrightarrow> isSafeWebUrl R v \<or> data_image v"

section \<open>Instagram\<close>

text \<open>\<open>if (raw && test raw) kind else unsupported\<close>\<close>

definition checked :: "(string \<Rightarrow> bool) \<Rightarrow> string option \<Rightarrow> attachment_type \<Rightarrow> attachment_type \<times> string \<Rightarrow> attachment_type \<times> string" where
  "checked test raw kind other = (case non_empty raw of Some url \<Rightarrow> if test url then (kind, url) else other | None \<Rightarrow> other)"

definition provider_type :: "json \<Rightarrow> string" where
  "provider_type a = (case text_of (property ''type'' a) of Some s \<Rightarrow> s | None \<Rightarrow> ''unknown'')"

definition payload_url :: "string \<Rightarrow> json \<Rightarrow> string option" where
  "payload_url key a = text_of (field key (property ''payload'' a))"

definition instagram_attachment :: "reader \<Rightarrow> json \<Rightarrow> attachment_type \<times> string" where
  "instagram_attachment R a =
     (let providerType = provider_type a;
          rawUrl = (case payload_url ''url'' a of Some u \<Rightarrow> Some u | None \<Rightarrow> payload_url ''story_media_url'' a);
          other = unsupportedAttachment ''instagram'' providerType
      in if providerType \<in> {''image'', ''ig_post'', ''story_mention''} then checked (isSafeImageSource R) rawUrl IMAGE other
         else checked (isSafeWebUrl R) rawUrl LINK other)"

definition read_attachments :: "(json \<Rightarrow> attachment_type \<times> string) \<Rightarrow> json option \<Rightarrow> (attachment_type \<times> string) list" where
  "read_attachments f v = (case array_of v of None \<Rightarrow> [] | Some vs \<Rightarrow> map f (filter (\<lambda>a. isRecord (Some a)) vs))"

text \<open>One event of a conversation; \<open>continue\<close> is \<open>None\<close>.\<close>

definition instagram_event :: "reader \<Rightarrow> json \<Rightarrow> app_error + normalized option" where
  "instagram_event R event =
     (let message = property ''message'' event in
      if \<not> isRecord message then Inr None
      else case requiredString ''Supported message requires message.mid'' (field ''mid'' message) of Inl e \<Rightarrow> Inl e
      | Inr mid \<Rightarrow> (case requiredNestedId ''Supported message requires sender.id'' (property ''sender'' event) of Inl e \<Rightarrow> Inl e
      | Inr senderId \<Rightarrow> (case requiredNestedId ''Supported message requires recipient.id'' (property ''recipient'' event) of Inl e \<Rightarrow> Inl e
      | Inr recipientId \<Rightarrow>
         let dir = (if field ''is_echo'' message = Some (JBool True) then OUTBOUND else INBOUND);
             conv = (if dir = INBOUND then senderId else recipientId)
         in (case event_timestamp (property ''timestamp'' event) of Inl e \<Rightarrow> Inl e
         | Inr timestamp \<Rightarrow> Inr (Some \<lparr>nm_channel = INSTAGRAM, nm_external = mid, nm_conversation = conv, nm_participant = conv,
             nm_sender = senderId, nm_direction = dir, nm_text = text_of (field ''text'' message), nm_at = timestamp,
             nm_attachments = read_attachments (instagram_attachment R) (field ''attachments'' message)\<rparr>)))))"

section \<open>The loops over entries and events\<close>

fun read_events :: "(json \<Rightarrow> app_error + normalized option) \<Rightarrow> json list \<Rightarrow> app_error + normalized list" where
  "read_events f [] = Inr []"
| "read_events f (v # vs) =
     (case (if isRecord (Some v) then f v else Inr None) of
        Inl e \<Rightarrow> Inl e
      | Inr n \<Rightarrow> (case read_events f vs of Inl e \<Rightarrow> Inl e
          | Inr ns \<Rightarrow> Inr ((case n of None \<Rightarrow> [] | Some x \<Rightarrow> [x]) @ ns)))"

definition entry_events :: "json \<Rightarrow> json list" where
  "entry_events entry = (case array_of (property ''messaging'' entry) of None \<Rightarrow> [] | Some vs \<Rightarrow> vs)"

definition read_payload :: "string \<Rightarrow> string \<Rightarrow> (json \<Rightarrow> app_error + normalized option) \<Rightarrow> json \<Rightarrow> app_error + normalized list" where
  "read_payload kind message f payload =
     (case array_of (property ''entry'' payload) of
        Some entries \<Rightarrow>
          if property ''object'' payload = Some (JText kind) then read_events f (concat (map entry_events entries))
          else Inl (malformed message)
      | None \<Rightarrow> Inl (malformed message))"

definition normalizeInstagramEvent :: "reader \<Rightarrow> json \<Rightarrow> app_error + normalized list" where
  "normalizeInstagramEvent R = read_payload ''instagram'' ''Expected a persisted Instagram webhook payload'' (instagram_event R)"

section \<open>Facebook\<close>

definition facebook_attachment :: "reader \<Rightarrow> json \<Rightarrow> attachment_type \<times> string" where
  "facebook_attachment R a =
     (let providerType = provider_type a; rawUrl = payload_url ''url'' a;
          other = unsupportedAttachment ''facebook'' providerType
      in if providerType = ''image'' then checked (isSafeImageSource R) rawUrl IMAGE other
         else if providerType = ''video'' then checked (isSafeWebUrl R) rawUrl VIDEO other
         else if providerType \<in> {''fallback'', ''share''} then checked (isSafeWebUrl R) rawUrl LINK other
         else other)"

definition facebook_event :: "reader \<Rightarrow> json \<Rightarrow> app_error + normalized option" where
  "facebook_event R event =
     (let message = property ''message'' event in
      if \<not> isRecord message \<or> field ''is_echo'' message = Some (JBool True) then Inr None
      else case requiredNestedId ''Supported message requires sender.id'' (property ''sender'' event) of Inl e \<Rightarrow> Inl e
      | Inr senderId \<Rightarrow> (case requiredNestedId ''Supported message requires recipient.id'' (property ''recipient'' event) of Inl e \<Rightarrow> Inl e
      | Inr _ \<Rightarrow> (case event_timestamp (property ''timestamp'' event) of Inl e \<Rightarrow> Inl e
      | Inr timestamp \<Rightarrow> (case requiredString ''Supported message requires message.mid'' (field ''mid'' message) of Inl e \<Rightarrow> Inl e
      | Inr mid \<Rightarrow> Inr (Some \<lparr>nm_channel = FACEBOOK, nm_external = mid, nm_conversation = senderId, nm_participant = senderId,
             nm_sender = senderId, nm_direction = INBOUND, nm_text = text_of (field ''text'' message), nm_at = timestamp,
             nm_attachments = read_attachments (facebook_attachment R) (field ''attachments'' message)\<rparr>)))))"

definition normalizeFacebookEvent :: "reader \<Rightarrow> json \<Rightarrow> app_error + normalized list" where
  "normalizeFacebookEvent R = read_payload ''page'' ''Expected a persisted Facebook Page webhook payload'' (facebook_event R)"

section \<open>TikTok\<close>

record media_reference =
  mf_account :: string
  mf_conversation :: string
  mf_message :: string
  mf_media :: string
  mf_type :: attachment_type

definition media_prefix :: string where
  "media_prefix = ''tiktok-media:''"

definition media_type_text :: "attachment_type \<Rightarrow> string" where
  "media_type_text t = (if t = IMAGE then ''IMAGE'' else ''VIDEO'')"

definition encodeMediaSource :: "reader \<Rightarrow> media_reference \<Rightarrow> string" where
  "encodeMediaSource R m = media_prefix @ jr_encode R (JObject [(''accountId'', JText (mf_account m)),
     (''conversationId'', JText (mf_conversation m)), (''messageId'', JText (mf_message m)),
     (''mediaId'', JText (mf_media m)), (''mediaType'', JText (media_type_text (mf_type m)))])"

text \<open>\<open>decode\<close> reads what \<open>jr_encode\<close> writes, base64url of the text of a JSON value.\<close>

definition decodeTikTokMediaSource :: "(string \<Rightarrow> json option) \<Rightarrow> string \<Rightarrow> app_error + media_reference" where
  "decodeTikTokMediaSource decode url =
     (let bad = Inl (Plain ''Invalid TikTok media reference'');
          v = (if starts_with media_prefix url then decode (drop (length media_prefix) url) else None);
          part = (\<lambda>k. non_empty (text_of (field k v)))
      in case (part ''accountId'', part ''conversationId'', part ''messageId'', part ''mediaId'', text_of (field ''mediaType'' v)) of
           (Some account, Some conv, Some msg, Some media, Some kind) \<Rightarrow>
             if kind = ''IMAGE'' then Inr \<lparr>mf_account = account, mf_conversation = conv, mf_message = msg, mf_media = media, mf_type = IMAGE\<rparr>
             else if kind = ''VIDEO'' then Inr \<lparr>mf_account = account, mf_conversation = conv, mf_message = msg, mf_media = media, mf_type = VIDEO\<rparr>
             else bad
         | _ \<Rightarrow> bad)"

definition tiktok_attachments :: "reader \<Rightarrow> string \<Rightarrow> string \<Rightarrow> string \<Rightarrow> string \<Rightarrow> json option \<Rightarrow> app_error + (attachment_type \<times> string) list" where
  "tiktok_attachments R account conv msg kind content =
     (if kind \<in> {''image'', ''video''} then
        let media = field kind content in
        if \<not> isRecord media then Inl (malformed (''TikTok '' @ kind @ '' message requires media''))
        else let mediaType = (if kind = ''image'' then IMAGE else VIDEO) in
          (case requiredString (''TikTok message requires '' @ kind @ ''.media_id'') (field ''media_id'' media) of
             Inl e \<Rightarrow> Inl e
           | Inr mediaId \<Rightarrow> Inr [(mediaType, encodeMediaSource R \<lparr>mf_account = account, mf_conversation = conv, mf_message = msg,
               mf_media = mediaId, mf_type = mediaType\<rparr>)])
      else if kind = ''share_post'' then
        (case text_of (field ''embed_url'' (field ''share_post'' content)) of
           None \<Rightarrow> Inl (malformed ''TikTok shared post requires an HTTPS URL'')
         | Some url \<Rightarrow> if jr_protocol R url = Some ''https:'' then Inr [(LINK, url)]
             else Inl (malformed ''TikTok shared post requires an HTTPS URL''))
      else if kind = ''text'' then Inr []
      else Inr [unsupportedAttachment ''tiktok'' kind])"

definition participantId :: "json option \<Rightarrow> app_error + string" where
  "participantId content = (case non_empty (text_of (field ''unique_identifier'' content)) of
       Some s \<Rightarrow> Inr s
     | None \<Rightarrow> (case non_empty (text_of (field ''id'' (field ''from_user'' content))) of
           Some s \<Rightarrow> Inr s
         | None \<Rightarrow> requiredString ''TikTok message requires from'' (field ''from'' content)))"

text \<open>A safe integer that a date can hold.\<close>

definition requiredTimestamp :: "json option \<Rightarrow> app_error + instant" where
  "requiredTimestamp v = (case number_of v of
       None \<Rightarrow> Inl (malformed ''TikTok message requires a timestamp'')
     | Some n \<Rightarrow> if n \<le> 0 \<or> 2 ^ 53 \<le> n then Inl (malformed ''TikTok message requires a timestamp'')
         else if 8640000000000000 < n then Inl (malformed ''TikTok timestamp is invalid'')
         else Inr n)"

definition tiktok_message :: "reader \<Rightarrow> string \<Rightarrow> json option \<Rightarrow> app_error + normalized" where
  "tiktok_message R account content =
     (case requiredString ''TikTok message requires message_id'' (field ''message_id'' content) of Inl e \<Rightarrow> Inl e
      | Inr messageId \<Rightarrow> (case requiredString ''TikTok message requires conversation_id'' (field ''conversation_id'' content) of Inl e \<Rightarrow> Inl e
      | Inr conversationId \<Rightarrow> (case participantId content of Inl e \<Rightarrow> Inl e
      | Inr senderId \<Rightarrow> (case requiredTimestamp (field ''timestamp'' content) of Inl e \<Rightarrow> Inl e
      | Inr timestamp \<Rightarrow> (case requiredString ''TikTok message requires type'' (field ''type'' content) of Inl e \<Rightarrow> Inl e
      | Inr kind \<Rightarrow> (case tiktok_attachments R account conversationId messageId (map lower_char kind) content of Inl e \<Rightarrow> Inl e
      | Inr atts \<Rightarrow> Inr \<lparr>nm_channel = TIKTOK, nm_external = messageId, nm_conversation = conversationId,
          nm_participant = senderId, nm_sender = senderId, nm_direction = INBOUND,
          nm_text = text_of (field ''body'' (field ''text'' content)), nm_at = timestamp, nm_attachments = atts\<rparr>))))))"

definition normalizeTikTokEvent :: "reader \<Rightarrow> json \<Rightarrow> app_error + normalized list" where
  "normalizeTikTokEvent R payload =
     (case text_of (property ''event'' payload) of
        None \<Rightarrow> Inl (malformed ''Expected a persisted TikTok webhook payload'')
      | Some event \<Rightarrow>
          if event \<notin> {''im_receive_msg'', ''im_receive_msg_eu''} then Inr []
          else (case (text_of (property ''user_openid'' payload), text_of (property ''content'' payload)) of
              (Some account, Some txt) \<Rightarrow> (case jr_parse R txt of
                  None \<Rightarrow> Inl (malformed ''TikTok message content must be valid JSON'')
                | Some content \<Rightarrow>
                    if \<not> isRecord (Some content) then Inl (malformed ''TikTok message content must be an object'')
                    else (case tiktok_message R account (Some content) of Inl e \<Rightarrow> Inl e | Inr n \<Rightarrow> Inr [n]))
            | _ \<Rightarrow> Inl (malformed ''TikTok message requires account and content'')))"

end
