(* ===== verification/Ingestion.thy ===== *)
theory Ingestion
  imports Conversations Normalizers Recognition
begin

text \<open>
  Incoming messages, \<open>apps/worker/src/social/social-inbound-ingestion.service.ts\<close>: the
  transaction that stores a message of a webhook event, with the search for the reply an
  echo belongs to, the copying of media, and the processing of an event.  The copier, the
  scheduler of drafts and the evaluation of orders are parameters.
\<close>

section \<open>Rows of a message\<close>

definition upsert_profile :: "uuid \<Rightarrow> string \<Rightarrow> uuid dbtx" where
  "upsert_profile t participant = (\<lambda>d.
     case List.find (\<lambda>p. pf_tenant p = t \<and> pf_participant p = participant) (profiles d) of
       Some p \<Rightarrow> Inr (pf_id p, d)
     | None \<Rightarrow> Inr (next_id d, d\<lparr>profiles := profiles d @ [\<lparr>pf_id = next_id d, pf_tenant = t, pf_participant = participant,
          pf_names = (None, None)\<rparr>], next_id := next_id d + 1\<rparr>))"

definition conversation_key :: "conversation \<Rightarrow> uuid \<times> social_channel \<times> string" where
  "conversation_key c = (cv_tenant c, cv_channel c, cv_external c)"

definition normalized_key :: "uuid \<Rightarrow> normalized \<Rightarrow> uuid \<times> social_channel \<times> string" where
  "normalized_key t n = (t, nm_channel n, nm_conversation n)"

definition new_conversation :: "uuid \<Rightarrow> uuid \<Rightarrow> normalized \<Rightarrow> uuid option \<Rightarrow> conversation" where
  "new_conversation cid t n profile = \<lparr>cv_id = cid, cv_tenant = t, cv_channel = nm_channel n, cv_external = nm_conversation n,
     cv_participant = nm_participant n, cv_display_name = None, cv_profile = profile, cv_last_message = nm_at n,
     cv_workflow = WF_ACTIVE, cv_status_version = 0, cv_status_changed = None, cv_status_by = None\<rparr>"

definition upsert_conversation :: "uuid \<Rightarrow> normalized \<Rightarrow> uuid option \<Rightarrow> uuid dbtx" where
  "upsert_conversation t n profile = (\<lambda>d.
     case List.find (\<lambda>c. conversation_key c = normalized_key t n) (conversations d) of
       Some c \<Rightarrow> Inr (cv_id c, d\<lparr>conversations := update_where (\<lambda>c. conversation_key c = normalized_key t n)
          (\<lambda>c. c\<lparr>cv_participant := nm_participant n, cv_profile := profile\<rparr>) (conversations d)\<rparr>)
     | None \<Rightarrow> Inr (next_id d, d\<lparr>conversations := conversations d @ [new_conversation (next_id d) t n profile],
          next_id := next_id d + 1\<rparr>))"

definition bump_conversation :: "uuid \<Rightarrow> instant \<Rightarrow> unit dbtx" where
  "bump_conversation cid ts = tx_write (\<lambda>d. d\<lparr>conversations := update_where
     (\<lambda>c. cv_id c = cid \<and> cv_last_message c < ts) (\<lambda>c. c\<lparr>cv_last_message := ts\<rparr>) (conversations d)\<rparr>)"

text \<open>A message of the customer opens a conversation again that was left or closed before.\<close>

definition reactivatable :: "uuid \<Rightarrow> uuid \<Rightarrow> instant \<Rightarrow> conversation \<Rightarrow> bool" where
  "reactivatable t cid ts c \<longleftrightarrow> cv_id c = cid \<and> cv_tenant c = t \<and> cv_workflow c \<noteq> WF_ACTIVE
     \<and> (case cv_status_changed c of Some x \<Rightarrow> x < ts | None \<Rightarrow> False)"

definition reactivate_conversation :: "uuid \<Rightarrow> uuid \<Rightarrow> instant \<Rightarrow> instant \<Rightarrow> unit dbtx" where
  "reactivate_conversation t cid ts now = tx_write (\<lambda>d. d\<lparr>conversations := update_where
     (reactivatable t cid ts) (set_status WF_ACTIVE now None) (conversations d)\<rparr>)"

section \<open>The reply an echo belongs to\<close>

definition normalizeEchoText :: "text_ops \<Rightarrow> string \<Rightarrow> string" where
  "normalizeEchoText T v = trim (squeeze False white_space (uc_nfkc T v))"

definition echo_window_ms :: int where
  "echo_window_ms = 30000"

definition provider_match :: "uuid \<Rightarrow> uuid \<Rightarrow> string \<Rightarrow> message \<Rightarrow> bool" where
  "provider_match t cid providerId m \<longleftrightarrow> m_tenant m = t \<and> m_conversation m = cid \<and> m_direction m = OUTBOUND
     \<and> m_provider_message m = Some providerId"

definition echo_candidate :: "uuid \<Rightarrow> uuid \<Rightarrow> instant \<Rightarrow> message \<Rightarrow> bool" where
  "echo_candidate t cid ts m \<longleftrightarrow> m_tenant m = t \<and> m_conversation m = cid \<and> m_direction m = OUTBOUND
     \<and> m_client_key m \<noteq> None \<and> m_provider_message m = None
     \<and> ts - echo_window_ms \<le> m_source_at m \<and> m_source_at m \<le> ts + echo_window_ms"

text \<open>At most three candidates are read, before their texts are compared.\<close>

definition findOutboundEchoCandidate :: "text_ops \<Rightarrow> uuid \<Rightarrow> uuid \<Rightarrow> normalized \<Rightarrow> db \<Rightarrow> message option" where
  "findOutboundEchoCandidate T t cid n d =
     (case List.find (provider_match t cid (nm_external n)) (messages d) of
        Some m \<Rightarrow> Some m
      | None \<Rightarrow> (case nm_text n of
          None \<Rightarrow> None
        | Some txt \<Rightarrow>
            (case filter (\<lambda>m. map_option (normalizeEchoText T) (m_text m) = Some (normalizeEchoText T txt))
                (take 3 (filter (echo_candidate t cid (nm_at n)) (messages d))) of
               [m] \<Rightarrow> Some m
             | _ \<Rightarrow> None)))"

definition settle_echo :: "uuid \<Rightarrow> string \<Rightarrow> message \<Rightarrow> message" where
  "settle_echo event providerId m = m\<lparr>m_event := Some event, m_provider_message := Some providerId, m_status := Some OD_SENT,
     m_error := None, m_lease := None, m_lease_expires := None, m_next_attempt := None\<rparr>"

section \<open>Storing a message\<close>

definition new_inbound :: "uuid \<Rightarrow> uuid \<Rightarrow> uuid \<Rightarrow> uuid \<Rightarrow> normalized \<Rightarrow> instant \<Rightarrow> message" where
  "new_inbound mid t cid event n now = \<lparr>m_id = mid, m_tenant = t, m_conversation = cid, m_channel = nm_channel n,
     m_direction = nm_direction n, m_text = nm_text n, m_source_at = nm_at n, m_sent_by = None, m_provider_message = None,
     m_status = None, m_attempts = 0, m_lease = None, m_lease_expires = None, m_next_attempt = None, m_last_attempt = None,
     m_error = None, m_generation = None, m_created = now, m_event = Some event, m_external = nm_external n,
     m_sender = nm_sender n, m_client_key = None\<rparr>"

definition message_index :: "message \<Rightarrow> uuid \<times> social_channel \<times> string" where
  "message_index m = (m_tenant m, m_channel m, m_external m)"

text \<open>\<open>createMany({ skipDuplicates })\<close> and the read of the row that is there then.\<close>

definition store_message :: "uuid \<Rightarrow> uuid \<Rightarrow> uuid \<Rightarrow> normalized \<Rightarrow> instant \<Rightarrow> (uuid \<times> bool) dbtx" where
  "store_message t cid event n now =
     tx_bind (\<lambda>d. let m = new_inbound (next_id d) t cid event n now in
         if any_row (same_message m) (messages d) then Inr (False, d)
         else Inr (True, d\<lparr>messages := messages d @ [m], next_id := next_id d + 1\<rparr>)) (\<lambda>created.
     tx_bind (tx_read (\<lambda>d. List.find (\<lambda>m. message_index m = (t, nm_channel n, nm_external n)) (messages d))) (\<lambda>found.
       case found of None \<Rightarrow> tx_throw RecordNotFound | Some m \<Rightarrow> tx_return (m_id m, created)))"

definition settle_message :: "uuid \<Rightarrow> normalized \<Rightarrow> message \<Rightarrow> (uuid \<times> bool) dbtx" where
  "settle_message event n m = tx_seq
     (tx_write (\<lambda>d. d\<lparr>messages := update_where (\<lambda>x. m_id x = m_id m) (settle_echo event (nm_external n)) (messages d)\<rparr>))
     (tx_return (m_id m, False))"

section \<open>Attachments\<close>

definition initial_copy :: "attachment_type \<Rightarrow> copy_status" where
  "initial_copy kind = (if kind \<in> {IMAGE, VIDEO} then CP_PENDING else CP_NOT_REQUIRED)"

definition new_attachment :: "uuid \<Rightarrow> uuid \<Rightarrow> attachment_type \<times> string \<Rightarrow> attachment" where
  "new_attachment aid mid a = \<lparr>at_id = aid, at_message = mid, at_type = fst a, at_url = snd a, at_key = None, at_checksum = None,
     at_copy = initial_copy (fst a), at_failure = None\<rparr>"

text \<open>\<open>createMany({ skipDuplicates })\<close> at the index of message, type and address.\<close>

definition same_attachment :: "uuid \<Rightarrow> attachment_type \<times> string \<Rightarrow> attachment \<Rightarrow> bool" where
  "same_attachment mid a x \<longleftrightarrow> at_message x = mid \<and> at_type x = fst a \<and> at_url x = snd a"

fun create_attachments :: "uuid \<Rightarrow> (attachment_type \<times> string) list \<Rightarrow> unit dbtx" where
  "create_attachments mid [] = tx_return ()"
| "create_attachments mid (a # as) =
     tx_seq (tx_write (\<lambda>d. if any_row (same_attachment mid a) (attachments d) then d
         else d\<lparr>attachments := attachments d @ [new_attachment (next_id d) mid a], next_id := next_id d + 1\<rparr>))
       (create_attachments mid as)"

definition store_attachments :: "uuid \<Rightarrow> (attachment_type \<times> string) list \<Rightarrow> unit dbtx" where
  "store_attachments mid as =
     (if as = [] then tx_return ()
      else tx_bind (tx_read (\<lambda>d. map at_url (filter (\<lambda>x. at_message x = mid \<and> at_url x \<in> set (map snd as)) (attachments d))))
        (\<lambda>existing. create_attachments mid (filter (\<lambda>a. snd a \<notin> set existing) as)))"

definition to_copy :: "uuid \<Rightarrow> attachment \<Rightarrow> bool" where
  "to_copy mid a \<longleftrightarrow> at_message a = mid \<and> at_type a \<in> {IMAGE, VIDEO}
     \<and> (at_copy a \<in> {CP_PENDING, CP_RETRYABLE}
        \<or> at_copy a = CP_FAILED \<and> at_failure a \<in> {Some ''Unsupported media type: video/mp4'',
             Some ''Media exceeds the configured byte ceiling''})"

section \<open>The transaction of a message\<close>

definition link_profile :: "uuid \<Rightarrow> normalized \<Rightarrow> uuid option dbtx" where
  "link_profile t n = (if nm_channel n = INSTAGRAM then tx_bind (upsert_profile t (nm_participant n)) (\<lambda>p. tx_return (Some p))
     else tx_return None)"

text \<open>From the search for an echo on, in the conversation \<open>cid\<close>.\<close>

definition put_message :: "text_ops \<Rightarrow> uuid \<Rightarrow> uuid \<Rightarrow> uuid \<Rightarrow> normalized \<Rightarrow> instant \<Rightarrow> (uuid \<times> bool) dbtx" where
  "put_message T t cid event n now =
     tx_bind (tx_read (\<lambda>d. if nm_direction n = OUTBOUND then findOutboundEchoCandidate T t cid n d else None)) (\<lambda>reconciled.
       case reconciled of Some m \<Rightarrow> settle_message event n m | None \<Rightarrow> store_message t cid event n now)"

definition persist_in :: "text_ops \<Rightarrow> uuid \<Rightarrow> uuid \<Rightarrow> normalized \<Rightarrow> instant \<Rightarrow> uuid \<Rightarrow> (uuid \<times> bool \<times> attachment list) dbtx" where
  "persist_in T t event n now cid =
     tx_bind (put_message T t cid event n now) (\<lambda>(mid, wasCreated).
     tx_seq (if wasCreated \<and> nm_direction n = INBOUND then reactivate_conversation t cid (nm_at n) now else tx_return ())
    (tx_seq (store_attachments mid (nm_attachments n))
    (tx_read (\<lambda>d. (mid, wasCreated, filter (to_copy mid) (attachments d))))))"

definition persist_message :: "text_ops \<Rightarrow> uuid \<Rightarrow> uuid \<Rightarrow> normalized \<Rightarrow> instant \<Rightarrow> (uuid \<times> bool \<times> attachment list) dbtx" where
  "persist_message T t event n now =
     tx_seq (assertTenantAcceptingMutations t ORDER_RECOGNITION)
    (tx_bind (link_profile t n) (\<lambda>profile.
     tx_bind (upsert_conversation t n profile) (\<lambda>cid.
     tx_seq (bump_conversation cid (nm_at n))
       (persist_in T t event n now cid))))"

section \<open>Copying media\<close>

record copied =
  cp_key :: string
  cp_checksum :: string
  cp_type :: string

text \<open>A copy that failed: whether it may be retried, and the message of the error.  The
  services of the worker: the copier, the scheduler of drafts, the evaluation of orders, and
  the messages of errors.\<close>

record ingest_services =
  in_copy :: "uuid \<Rightarrow> string \<Rightarrow> social_channel \<Rightarrow> bool \<times> string + copied"
  in_drafts :: "uuid \<Rightarrow> uuid \<Rightarrow> unit dbservice"
  in_orders :: "uuid \<Rightarrow> uuid \<Rightarrow> unit dbservice"
  in_message :: "app_error \<Rightarrow> string"

definition summarizeError :: "string \<Rightarrow> string" where
  "summarizeError message = take 500 message"

definition update_attachment :: "uuid \<Rightarrow> (attachment \<Rightarrow> attachment) \<Rightarrow> unit dbtx" where
  "update_attachment aid f = (\<lambda>d.
     if any_row (\<lambda>a. at_id a = aid) (attachments d)
     then Inr ((), d\<lparr>attachments := update_where (\<lambda>a. at_id a = aid) f (attachments d)\<rparr>)
     else Inl RecordNotFound)"

definition write_copy :: "copied \<Rightarrow> attachment \<Rightarrow> attachment" where
  "write_copy c a = a\<lparr>at_type := (if cp_type c = ''video/mp4'' then VIDEO else IMAGE), at_copy := CP_COPIED,
     at_key := Some (cp_key c), at_checksum := Some (cp_checksum c), at_failure := None\<rparr>"

definition write_copy_failure :: "bool \<Rightarrow> string \<Rightarrow> attachment \<Rightarrow> attachment" where
  "write_copy_failure again message a = a\<lparr>at_copy := (if again then CP_RETRYABLE else CP_FAILED),
     at_failure := Some (summarizeError message)\<rparr>"

text \<open>The handler of the \<open>catch\<close>: the failure is stored, and thrown again if it may pass.\<close>

definition copy_failed :: "uuid \<Rightarrow> bool \<Rightarrow> string \<Rightarrow> app_error \<Rightarrow> unit dbservice" where
  "copy_failed aid again message e = svc_bind (run_tx (update_attachment aid (write_copy_failure again message)))
     (\<lambda>_. if again then svc_throw e else svc_return ())"

definition copy_attachment :: "ingest_services \<Rightarrow> uuid \<Rightarrow> social_channel \<Rightarrow> attachment \<Rightarrow> unit dbservice" where
  "copy_attachment S t ch a = (\<lambda>d.
     case run_tx (assertTenantAcceptingMutations t ORDER_RECOGNITION) d of
       (Inl e, d1) \<Rightarrow> copy_failed (at_id a) True (in_message S e) e d1
     | (Inr _, d1) \<Rightarrow>
         (case in_copy S t (at_url a) ch of
            Inl (again, message) \<Rightarrow> copy_failed (at_id a) again message (Plain message) d1
          | Inr c \<Rightarrow>
              (case run_tx (update_attachment (at_id a) (write_copy c)) d1 of
                 (Inl e, d2) \<Rightarrow> copy_failed (at_id a) True (in_message S e) e d2
               | (Inr _, d2) \<Rightarrow> (Inr (), d2))))"

fun copy_attachments :: "ingest_services \<Rightarrow> uuid \<Rightarrow> social_channel \<Rightarrow> attachment list \<Rightarrow> unit dbservice" where
  "copy_attachments S t ch [] = svc_return ()"
| "copy_attachments S t ch (a # as) = svc_bind (copy_attachment S t ch a) (\<lambda>_. copy_attachments S t ch as)"

section \<open>An event\<close>

definition shouldEvaluateOrder :: "normalized \<Rightarrow> bool \<Rightarrow> bool" where
  "shouldEvaluateOrder n wasCreated =
     (if nm_direction n = INBOUND then (case nm_text n of Some txt \<Rightarrow> trim txt \<noteq> [] | None \<Rightarrow> False)
      else wasCreated \<or> nm_channel n = INSTAGRAM)"

definition ingest_message :: "ingest_services \<Rightarrow> text_ops \<Rightarrow> uuid \<Rightarrow> uuid \<Rightarrow> instant \<Rightarrow> normalized \<Rightarrow> unit dbservice" where
  "ingest_message S T t event now n =
     svc_bind (run_tx (persist_message T t event n now)) (\<lambda>(mid, wasCreated, as).
     svc_bind (if nm_direction n = INBOUND then in_drafts S t mid else svc_return ()) (\<lambda>_.
     svc_bind (copy_attachments S t (nm_channel n) as) (\<lambda>_.
       if shouldEvaluateOrder n wasCreated
       then svc_bind (run_tx (assertTenantAcceptingMutations t ORDER_RECOGNITION)) (\<lambda>_. in_orders S t mid)
       else svc_return ())))"

fun ingest_messages :: "ingest_services \<Rightarrow> text_ops \<Rightarrow> uuid \<Rightarrow> uuid \<Rightarrow> instant \<Rightarrow> normalized list \<Rightarrow> unit dbservice" where
  "ingest_messages S T t event now [] = svc_return ()"
| "ingest_messages S T t event now (n # ns) =
     svc_bind (ingest_message S T t event now n) (\<lambda>_. ingest_messages S T t event now ns)"

definition mark_processed :: "uuid \<Rightarrow> uuid \<Rightarrow> instant \<Rightarrow> db \<Rightarrow> db" where
  "mark_processed t event now d = d\<lparr>webhook_events := update_where (\<lambda>e. we_id e = event \<and> we_tenant e = t)
     (\<lambda>e. e\<lparr>we_processed := Some now\<rparr>) (webhook_events d)\<rparr>"

definition find_event :: "uuid \<Rightarrow> uuid \<Rightarrow> webhook_event dbtx" where
  "find_event t event = tx_bind (tx_read (\<lambda>d. List.find (\<lambda>e. we_id e = event \<and> we_tenant e = t) (webhook_events d))) (\<lambda>found.
     case found of None \<Rightarrow> tx_throw RecordNotFound | Some e \<Rightarrow> tx_return e)"

definition finish_event :: "uuid \<Rightarrow> uuid \<Rightarrow> instant \<Rightarrow> unit dbtx" where
  "finish_event t event now = tx_bind (find_event t event) (\<lambda>_. tx_write (mark_processed t event now))"

definition processAccepted :: "ingest_services \<Rightarrow> text_ops \<Rightarrow> (string \<Rightarrow> app_error + normalized list) \<Rightarrow> uuid \<Rightarrow> uuid \<Rightarrow> instant \<Rightarrow> unit dbservice" where
  "processAccepted S T read t event now =
     svc_bind (run_tx (tx_seq (assertTenantAcceptingMutations t ORDER_RECOGNITION) (find_event t event))) (\<lambda>e.
       case read (we_payload e) of
         Inl err \<Rightarrow> svc_throw err
       | Inr ns \<Rightarrow> svc_bind (ingest_messages S T t event now ns) (\<lambda>_. run_tx (finish_event t event now)))"

datatype ingest_result = PROCESSED | IGNORED_FROZEN

definition process_event :: "ingest_services \<Rightarrow> text_ops \<Rightarrow> (string \<Rightarrow> app_error + normalized list) \<Rightarrow> uuid \<Rightarrow> uuid \<Rightarrow> instant \<Rightarrow> ingest_result dbservice" where
  "process_event S T read t event now = (\<lambda>d.
     case processAccepted S T read t event now d of
       (Inr _, d') \<Rightarrow> (Inr PROCESSED, d')
     | (Inl e, d') \<Rightarrow> (case e of
           TenantLifecycleFrozen _ \<Rightarrow> (Inr IGNORED_FROZEN, mark_processed t event now d')
         | _ \<Rightarrow> (Inl e, d')))"

text \<open>The processors of the three channels; the payload of an event is the text of a JSON value.\<close>

definition stored_payload :: "reader \<Rightarrow> string \<Rightarrow> json" where
  "stored_payload R payload = (case jr_parse R payload of Some v \<Rightarrow> v | None \<Rightarrow> JNull)"

definition process_social :: "ingest_services \<Rightarrow> text_ops \<Rightarrow> reader \<Rightarrow> social_channel \<Rightarrow> uuid \<Rightarrow> uuid \<Rightarrow> instant \<Rightarrow> ingest_result dbservice" where
  "process_social S T R ch = process_event S T (\<lambda>payload. (case ch of INSTAGRAM \<Rightarrow> normalizeInstagramEvent R
     | FACEBOOK \<Rightarrow> normalizeFacebookEvent R | TIKTOK \<Rightarrow> normalizeTikTokEvent R) (stored_payload R payload))"

end
