(* ===== verification/Ingestion_Props.thy ===== *)
theory Ingestion_Props
  imports Ingestion
begin

text \<open>
  What holds of incoming messages: a message that is delivered again changes nothing, an
  echo and the receipt of the worker agree on one message, a message of the customer defeats
  a change of status that did not see it, and an event that is processed has its media.
\<close>

section \<open>A message that is delivered again\<close>

lemma find_append_none: "List.find P xs = None \<Longrightarrow> List.find P (xs @ ys) = List.find P ys"
  by (induction xs) (auto split: if_splits)

lemma upsert_profile_again:
  assumes "upsert_profile t p d = Inr (i, d1)" and "profiles d2 = profiles d1"
  shows "upsert_profile t p d2 = Inr (i, d2)"
proof (cases "List.find (\<lambda>q. pf_tenant q = t \<and> pf_participant q = p) (profiles d)")
  case (Some q)
  then show ?thesis using assms by (auto simp: upsert_profile_def)
next
  case None
  then show ?thesis using assms by (auto simp: upsert_profile_def find_append_none)
qed

text \<open>The conversation of a message has its participant, its profile and its time.\<close>

definition in_conversation :: "uuid \<Rightarrow> normalized \<Rightarrow> uuid option \<Rightarrow> uuid \<Rightarrow> conversation list \<Rightarrow> bool" where
  "in_conversation t n profile cid cs \<longleftrightarrow>
     map_option cv_id (List.find (\<lambda>c. conversation_key c = normalized_key t n) cs) = Some cid
     \<and> (\<forall>c\<in>set cs. conversation_key c = normalized_key t n \<longrightarrow> cv_participant c = nm_participant n \<and> cv_profile c = profile)"

lemma find_key_update:
  assumes "\<And>x. k (f x) = k x"
  shows "map_option k (List.find (\<lambda>x. Q (k x)) (update_where P f xs)) = map_option k (List.find (\<lambda>x. Q (k x)) xs)"
  using assms by (induction xs) auto

lemma in_conversation_update:
  assumes "\<And>c. (conversation_key (f c), cv_id (f c), cv_participant (f c), cv_profile (f c)) =
      (conversation_key c, cv_id c, cv_participant c, cv_profile c)"
    and "in_conversation t n p cid cs"
  shows "in_conversation t n p cid (update_where P f cs)"
proof -
  let ?k = "\<lambda>c. (conversation_key c, cv_id c)"
  have keys: "?k (f c) = ?k c" for c using assms(1)[of c] by simp
  have "map_option ?k (List.find (\<lambda>x. (\<lambda>y. fst y = normalized_key t n) (?k x)) (update_where P f cs)) =
      map_option ?k (List.find (\<lambda>x. (\<lambda>y. fst y = normalized_key t n) (?k x)) cs)"
    by (rule find_key_update) (rule keys)
  then have "map_option snd (map_option ?k (List.find (\<lambda>c. conversation_key c = normalized_key t n) (update_where P f cs))) =
      map_option snd (map_option ?k (List.find (\<lambda>c. conversation_key c = normalized_key t n) cs))" by simp
  then have "map_option cv_id (List.find (\<lambda>c. conversation_key c = normalized_key t n) (update_where P f cs)) =
      map_option cv_id (List.find (\<lambda>c. conversation_key c = normalized_key t n) cs)"
    by (simp add: option.map_comp comp_def)
  then show ?thesis using assms unfolding in_conversation_def by (auto simp: set_update_where)
qed

lemma upsert_conversation_in:
  assumes "upsert_conversation t n p d = Inr (cid, d1)"
  shows "in_conversation t n p cid (conversations d1)"
proof (cases "List.find (\<lambda>c. conversation_key c = normalized_key t n) (conversations d)")
  case None
  then have none: "conversation_key c \<noteq> normalized_key t n" if "c \<in> set (conversations d)" for c
    using that by (auto simp: find_None_iff)
  have new: "conversation_key (new_conversation (next_id d) t n p) = normalized_key t n"
    by (simp add: new_conversation_def conversation_key_def normalized_key_def)
  have d1: "cid = next_id d" "conversations d1 = conversations d @ [new_conversation (next_id d) t n p]"
    using assms None by (auto simp: upsert_conversation_def)
  show ?thesis unfolding in_conversation_def d1 using new none
    by (auto simp: find_append_none[OF None] new_conversation_def)
next
  case (Some c)
  let ?f = "\<lambda>c. c\<lparr>cv_participant := nm_participant n, cv_profile := p\<rparr>"
  let ?P = "\<lambda>c. conversation_key c = normalized_key t n"
  have d1: "cid = cv_id c" "conversations d1 = update_where ?P ?f (conversations d)"
    using assms Some by (auto simp: upsert_conversation_def)
  let ?k = "\<lambda>c. (conversation_key c, cv_id c)"
  have "map_option ?k (List.find (\<lambda>x. (\<lambda>y. fst y = normalized_key t n) (?k x)) (update_where ?P ?f (conversations d))) =
      map_option ?k (List.find (\<lambda>x. (\<lambda>y. fst y = normalized_key t n) (?k x)) (conversations d))"
    by (rule find_key_update) (simp add: conversation_key_def)
  then have "map_option cv_id (List.find ?P (update_where ?P ?f (conversations d))) = Some (cv_id c)"
    using Some by auto
  then show ?thesis unfolding in_conversation_def d1 by (auto simp: set_update_where option.map_comp comp_def conversation_key_def)
qed

lemma upsert_conversation_again:
  assumes "in_conversation t n p cid (conversations d)"
  shows "upsert_conversation t n p d = Inr (cid, d)"
proof -
  obtain c where c: "List.find (\<lambda>c. conversation_key c = normalized_key t n) (conversations d) = Some c" "cv_id c = cid"
    using assms by (auto simp: in_conversation_def)
  have "update_where (\<lambda>c. conversation_key c = normalized_key t n)
      (\<lambda>c. c\<lparr>cv_participant := nm_participant n, cv_profile := p\<rparr>) (conversations d) = conversations d"
    using assms by (intro update_where_id) (auto simp: in_conversation_def)
  then show ?thesis using c by (simp add: upsert_conversation_def)
qed

lemma upsert_conversation_frame:
  "upsert_conversation t n p d = Inr (cid, d1) \<Longrightarrow> messages d1 = messages d \<and> profiles d1 = profiles d
     \<and> lifecycle_requests d1 = lifecycle_requests d \<and> attachments d1 = attachments d"
  by (auto simp: upsert_conversation_def split: option.splits)

lemma upsert_profile_frame:
  "upsert_profile t p d = Inr (i, d1) \<Longrightarrow> messages d1 = messages d \<and> conversations d1 = conversations d
     \<and> lifecycle_requests d1 = lifecycle_requests d \<and> attachments d1 = attachments d"
  by (auto simp: upsert_profile_def split: option.splits)

lemma bump_again:
  assumes "bump_conversation cid ts d = Inr ((), d1)"
    and "conversations d2 = update_where P f (conversations d1)" and "\<And>c. cv_last_message (f c) = cv_last_message c"
    and "\<And>c. cv_id (f c) = cv_id c"
  shows "bump_conversation cid ts d2 = Inr ((), d2)"
proof -
  let ?P = "\<lambda>c. cv_id c = cid \<and> cv_last_message c < ts"
  have d1: "conversations d1 = update_where ?P (\<lambda>c. c\<lparr>cv_last_message := ts\<rparr>) (conversations d)"
    using assms(1) by (auto simp: bump_conversation_def tx_defs)
  have "\<not> ?P c" if c: "c \<in> set (conversations d2)" for c
  proof -
    obtain x where x: "x \<in> set (conversations d1)" "c = (if P x then f x else x)"
      using c unfolding assms(2) set_update_where by auto
    obtain y where y: "x = (if ?P y then y\<lparr>cv_last_message := ts\<rparr> else y)"
      using x(1) unfolding d1 set_update_where by (elim imageE)
    have "\<not> ?P x" unfolding y by simp
    then show ?thesis using x(2) assms(3,4) by simp
  qed
  then have "update_where ?P (\<lambda>c. c\<lparr>cv_last_message := ts\<rparr>) (conversations d2) = conversations d2"
    by (rule update_where_none)
  then show ?thesis by (simp add: bump_conversation_def tx_defs)
qed

section \<open>The row of a message\<close>

lemma find_first_update:
  assumes "List.find Q xs = Some m" and "\<And>x. P x \<Longrightarrow> k x = k m" and "\<And>x. P x \<Longrightarrow> Q (f x)"
    and "\<And>x. k (f x) = k x"
  shows "\<exists>m'. List.find Q (update_where P f xs) = Some m' \<and> k m' = k m"
  using assms(1)
proof (induction xs)
  case (Cons x xs)
  show ?case
  proof (cases "P x")
    case True
    then show ?thesis using assms(2-4) by (auto simp: assms(3))
  next
    case False
    then show ?thesis using Cons by (cases "Q x") auto
  qed
qed simp

lemma settle_echo_again: "settle_echo e i (settle_echo e i m) = settle_echo e i m"
  by (simp add: settle_echo_def)

lemma settle_again:
  assumes "settle_message e n m d = Inr (r, d1)" and "messages d2 = messages d1" and "m_id m' = m_id m"
  shows "settle_message e n m' d2 = Inr (r, d2)"
proof -
  have "update_where (\<lambda>x. m_id x = m_id m) (settle_echo e (nm_external n)) (messages d1) = messages d1"
    using assms(1) by (intro update_where_id) (auto simp: settle_message_def tx_iff set_update_where settle_echo_again)
  then show ?thesis using assms by (auto simp: settle_message_def tx_iff)
qed

lemma new_inbound_index: "message_index (new_inbound mid t cid e n now) = (t, nm_channel n, nm_external n)"
  by (simp add: message_index_def new_inbound_def)

lemma same_message_index: "message_index x = message_index m \<Longrightarrow> same_message m x"
  by (auto simp: same_message_def message_index_def)

lemma store_message_facts:
  assumes "store_message t cid e n now d = Inr ((mid, created), d1)"
  shows "map_option m_id (List.find (\<lambda>m. message_index m = (t, nm_channel n, nm_external n)) (messages d1)) = Some mid"
    and "messages d1 = messages d @ (if created then [new_inbound (next_id d) t cid e n now] else [])"
    and "conversations d1 = conversations d" and "attachments d1 = attachments d" and "profiles d1 = profiles d"
    and "lifecycle_requests d1 = lifecycle_requests d"
  using assms by (auto simp: store_message_def tx_iff Let_def split: option.splits if_splits)

lemma store_message_again:
  assumes "store_message t cid e n now d = Inr ((mid, created), d1)" and "messages d2 = messages d1"
  shows "store_message t cid e n now2 d2 = Inr ((mid, False), d2)"
proof -
  obtain m where m: "List.find (\<lambda>m. message_index m = (t, nm_channel n, nm_external n)) (messages d1) = Some m" "m_id m = mid"
    using store_message_facts(1)[OF assms(1)] by auto
  have "m \<in> set (messages d1)" "message_index m = (t, nm_channel n, nm_external n)"
    using find_some_set[OF m(1)] find_some_prop[OF m(1)] by auto
  moreover have "same_message (new_inbound (next_id d2) t cid e n now2) m"
    by (rule same_message_index) (simp add: new_inbound_index calculation)
  ultimately have "\<exists>x\<in>set (messages d1). same_message (new_inbound (next_id d2) t cid e n now2) x"
    by blast
  then show ?thesis using m assms(2) by (simp add: store_message_def tx_bind_def tx_defs Let_def)
qed

section \<open>The echo that is found again\<close>

lemma find_updated:
  assumes "List.find Q xs = Some m \<or> List.find Q xs = None \<and> m \<in> set xs" and "P m" and "Q (f m)"
  shows "\<exists>x. P x \<and> List.find Q (update_where P f xs) = Some (f x)"
  using assms(1)
proof (induction xs)
  case (Cons x xs)
  show ?case
  proof (cases "P x")
    case True
    then show ?thesis using Cons assms(2,3) by (cases "Q (f x)") (auto split: if_splits)
  next
    case False
    then have "List.find Q xs = Some m \<or> List.find Q xs = None \<and> m \<in> set xs" and "\<not> Q x"
      using Cons.prems assms(2) by (auto split: if_splits)
    then show ?thesis using Cons.IH False by simp
  qed
qed simp

lemma filter_eq_in: "filter P xs = [m] \<Longrightarrow> m \<in> set xs"
  by (metis filter_is_subset list.set_intros(1) subsetD)

lemma echo_candidate_facts:
  assumes "findOutboundEchoCandidate T t cid n d = Some m"
  shows "m \<in> set (messages d)" and "m_tenant m = t" and "m_conversation m = cid" and "m_direction m = OUTBOUND"
    and "List.find (provider_match t cid (nm_external n)) (messages d) = Some m
      \<or> List.find (provider_match t cid (nm_external n)) (messages d) = None \<and> m \<in> set (messages d)"
proof -
  let ?Q = "provider_match t cid (nm_external n)"
  have one: "m \<in> set (messages d) \<and> m_tenant m = t \<and> m_conversation m = cid \<and> m_direction m = OUTBOUND
      \<and> (List.find ?Q (messages d) = Some m \<or> List.find ?Q (messages d) = None)"
  proof (cases "List.find ?Q (messages d)")
    case (Some x)
    then have "x = m" using assms by (simp add: findOutboundEchoCandidate_def)
    then show ?thesis using Some find_some_set[OF Some] find_some_prop[OF Some] by (simp add: provider_match_def)
  next
    case None
    then obtain s where "filter (\<lambda>m. map_option (normalizeEchoText T) (m_text m) = Some (normalizeEchoText T s))
        (take 3 (filter (echo_candidate t cid (nm_at n)) (messages d))) = [m]"
      using assms by (auto simp: findOutboundEchoCandidate_def split: option.splits list.splits)
    then have "m \<in> set (take 3 (filter (echo_candidate t cid (nm_at n)) (messages d)))"
      by (rule filter_eq_in)
    then have "m \<in> set (filter (echo_candidate t cid (nm_at n)) (messages d))" by (rule in_set_takeD)
    then show ?thesis using None by (simp add: echo_candidate_def)
  qed
  then show "m \<in> set (messages d)" "m_tenant m = t" "m_conversation m = cid" "m_direction m = OUTBOUND"
    "List.find ?Q (messages d) = Some m \<or> List.find ?Q (messages d) = None \<and> m \<in> set (messages d)" by auto
qed

lemma echo_again_settled:
  assumes "findOutboundEchoCandidate T t cid n d = Some m" and "settle_message e n m d = Inr (r, d1)" and "messages d2 = messages d1"
  shows "\<exists>m'. findOutboundEchoCandidate T t cid n d2 = Some m' \<and> m_id m' = m_id m"
proof -
  let ?Q = "provider_match t cid (nm_external n)" and ?P = "\<lambda>x. m_id x = m_id m" and ?f = "settle_echo e (nm_external n)"
  have d2: "messages d2 = update_where ?P ?f (messages d)"
    using assms(2,3) by (auto simp: settle_message_def tx_iff)
  have "?Q (?f m)" using echo_candidate_facts(2-4)[OF assms(1)] by (simp add: provider_match_def settle_echo_def)
  then obtain x where "m_id x = m_id m" "List.find ?Q (messages d2) = Some (?f x)"
    using find_updated[OF echo_candidate_facts(5)[OF assms(1)], of ?P ?f] unfolding d2 by auto
  then show ?thesis by (simp add: findOutboundEchoCandidate_def settle_echo_def)
qed

lemma echo_again_none:
  assumes "findOutboundEchoCandidate T t cid n d = None" and "store_message t cid e n now d = Inr (r, d1)"
    and "messages d2 = messages d1"
  shows "findOutboundEchoCandidate T t cid n d2 = None"
proof -
  obtain mid created where r: "r = (mid, created)" by (cases r)
  let ?new = "new_inbound (next_id d) t cid e n now"
  have "\<not> provider_match t cid (nm_external n) ?new" "\<not> echo_candidate t cid (nm_at n) ?new"
    by (simp_all add: provider_match_def echo_candidate_def new_inbound_def)
  moreover have none: "List.find (provider_match t cid (nm_external n)) (messages d) = None"
    using assms(1) by (simp add: findOutboundEchoCandidate_def split: option.splits)
  ultimately have "List.find (provider_match t cid (nm_external n)) (messages d2) = None"
    and "filter (echo_candidate t cid (nm_at n)) (messages d2) = filter (echo_candidate t cid (nm_at n)) (messages d)"
    using store_message_facts(2)[OF assms(2)[unfolded r]] by (auto simp: assms(3) find_append_none)
  then show ?thesis using assms(1) none unfolding findOutboundEchoCandidate_def by metis
qed

section \<open>Attachments\<close>

lemma create_attachments_facts:
  assumes "create_attachments mid as d = Inr ((), d1)"
  shows "(\<forall>a\<in>set (attachments d). a \<in> set (attachments d1))
    \<and> (\<forall>a\<in>set as. \<exists>x\<in>set (attachments d1). same_attachment mid a x)
    \<and> messages d1 = messages d \<and> conversations d1 = conversations d \<and> profiles d1 = profiles d
    \<and> lifecycle_requests d1 = lifecycle_requests d"
  using assms
proof (induction as arbitrary: d)
  case (Cons a as)
  let ?w = "\<lambda>d. if any_row (same_attachment mid a) (attachments d) then d
         else d\<lparr>attachments := attachments d @ [new_attachment (next_id d) mid a], next_id := next_id d + 1\<rparr>"
  have rest: "create_attachments mid as (?w d) = Inr ((), d1)"
    using Cons.prems by (auto simp: tx_iff)
  have "\<exists>x\<in>set (attachments (?w d)). same_attachment mid a x"
    by (auto simp: same_attachment_def new_attachment_def)
  moreover have "\<forall>a\<in>set (attachments d). a \<in> set (attachments (?w d))" by auto
  moreover have "messages (?w d) = messages d \<and> conversations (?w d) = conversations d \<and> profiles (?w d) = profiles d
      \<and> lifecycle_requests (?w d) = lifecycle_requests d" by simp
  ultimately show ?case using Cons.IH[OF rest] by (auto simp del: any_row_iff)
qed simp

lemma store_attachments_facts:
  assumes "store_attachments mid as d = Inr ((), d1)"
  shows "\<forall>a\<in>set as. \<exists>x\<in>set (attachments d1). at_message x = mid \<and> at_url x = snd a"
    and "messages d1 = messages d \<and> conversations d1 = conversations d \<and> profiles d1 = profiles d
       \<and> lifecycle_requests d1 = lifecycle_requests d"
proof -
  show "messages d1 = messages d \<and> conversations d1 = conversations d \<and> profiles d1 = profiles d
       \<and> lifecycle_requests d1 = lifecycle_requests d"
    using assms create_attachments_facts by (auto simp: store_attachments_def tx_iff split: if_splits)
  show "\<forall>a\<in>set as. \<exists>x\<in>set (attachments d1). at_message x = mid \<and> at_url x = snd a"
  proof
    fix a assume a: "a \<in> set as"
    let ?ex = "map at_url (filter (\<lambda>x. at_message x = mid \<and> at_url x \<in> set (map snd as)) (attachments d))"
    have c: "create_attachments mid (filter (\<lambda>a. snd a \<notin> set ?ex) as) d = Inr ((), d1)"
      using assms a by (auto simp: store_attachments_def tx_iff split: if_splits)
    show "\<exists>x\<in>set (attachments d1). at_message x = mid \<and> at_url x = snd a"
    proof (cases "snd a \<in> set ?ex")
      case True
      then show ?thesis using create_attachments_facts[OF c] by auto
    next
      case False
      then have "a \<in> set (filter (\<lambda>a. snd a \<notin> set ?ex) as)" using a by simp
      then show ?thesis using create_attachments_facts[OF c] unfolding same_attachment_def by blast
    qed
  qed
qed

lemma store_attachments_again:
  assumes "\<forall>a\<in>set as. \<exists>x\<in>set (attachments d). at_message x = mid \<and> at_url x = snd a"
  shows "store_attachments mid as d = Inr ((), d)"
proof (cases "as = []")
  case False
  let ?ex = "map at_url (filter (\<lambda>x. at_message x = mid \<and> at_url x \<in> set (map snd as)) (attachments d))"
  have "snd a \<in> set ?ex" if a: "a \<in> set as" for a
  proof -
    obtain x where x: "x \<in> set (attachments d)" "at_message x = mid" "at_url x = snd a" using bspec[OF assms a] by auto
    then have "x \<in> set (filter (\<lambda>x. at_message x = mid \<and> at_url x \<in> set (map snd as)) (attachments d))" using a by simp
    then have "at_url x \<in> set ?ex" unfolding set_map[of at_url] by (rule imageI)
    then show ?thesis unfolding x(3) .
  qed
  then have "filter (\<lambda>a. snd a \<notin> set ?ex) as = []" unfolding filter_empty_conv by blast
  then show ?thesis using False by (simp add: store_attachments_def tx_run)
qed (simp add: store_attachments_def tx_run)

section \<open>The stages of the transaction\<close>

definition reopen :: "uuid \<Rightarrow> uuid \<Rightarrow> normalized \<Rightarrow> bool \<Rightarrow> instant \<Rightarrow> db \<Rightarrow> db" where
  "reopen t cid n created now d = (if created \<and> nm_direction n = INBOUND
     then d\<lparr>conversations := update_where (reactivatable t cid (nm_at n)) (set_status WF_ACTIVE now None) (conversations d)\<rparr>
     else d)"

lemma persist_in_stages:
  "persist_in T t e n now cid d = Inr ((mid, created, copies), d') \<longleftrightarrow>
    (\<exists>d4. put_message T t cid e n now d = Inr ((mid, created), d4)
      \<and> store_attachments mid (nm_attachments n) (reopen t cid n created now d4) = Inr ((), d')
      \<and> copies = filter (to_copy mid) (attachments d'))"
proof -
  have "(if c then reactivate_conversation t cid (nm_at n) now else tx_return ()) s = Inr ((), s') \<longleftrightarrow>
      s' = (if c then s\<lparr>conversations := update_where (reactivatable t cid (nm_at n)) (set_status WF_ACTIVE now None) (conversations s)\<rparr> else s)"
    for c s s' by (auto simp: reactivate_conversation_def tx_defs)
  then show ?thesis unfolding persist_in_def reopen_def by (auto simp: tx_iff simp del: if_split)
qed

lemma persist_stages:
  "persist_message T t e n now d = Inr ((mid, created, copies), d') \<longleftrightarrow> \<not> tenant_frozen t d \<and>
    (\<exists>profile d1 cid d2 d3 d4. link_profile t n d = Inr (profile, d1) \<and> upsert_conversation t n profile d1 = Inr (cid, d2)
      \<and> bump_conversation cid (nm_at n) d2 = Inr ((), d3) \<and> put_message T t cid e n now d3 = Inr ((mid, created), d4)
      \<and> store_attachments mid (nm_attachments n) (reopen t cid n created now d4) = Inr ((), d')
      \<and> copies = filter (to_copy mid) (attachments d'))"
  unfolding persist_message_def by (auto simp: tx_iff persist_in_stages)

lemma put_message_cases:
  assumes "put_message T t cid e n now d = Inr (r, d1)"
  obtains (settled) m where "nm_direction n = OUTBOUND" and "findOutboundEchoCandidate T t cid n d = Some m"
      and "settle_message e n m d = Inr (r, d1)"
  | (stored) "nm_direction n = OUTBOUND \<longrightarrow> findOutboundEchoCandidate T t cid n d = None" and "store_message t cid e n now d = Inr (r, d1)"
  using assms by (auto simp: put_message_def tx_run split: if_splits option.splits)

lemma put_message_frame:
  assumes "put_message T t cid e n now d = Inr (r, d1)"
  shows "conversations d1 = conversations d \<and> profiles d1 = profiles d \<and> attachments d1 = attachments d
    \<and> lifecycle_requests d1 = lifecycle_requests d"
  using assms
proof (cases rule: put_message_cases)
  case (settled m)
  then show ?thesis by (auto simp: settle_message_def tx_iff)
next
  case stored
  then show ?thesis using store_message_facts(3-6) by (metis surj_pair)
qed

lemma put_message_again:
  assumes "put_message T t cid e n now d = Inr ((mid, created), d1)" and "messages d2 = messages d1"
  shows "put_message T t cid e n now2 d2 = Inr ((mid, False), d2)"
  using assms(1)
proof (cases rule: put_message_cases)
  case (settled m)
  obtain m' where m': "findOutboundEchoCandidate T t cid n d2 = Some m'" "m_id m' = m_id m"
    using echo_again_settled[OF settled(2,3) assms(2)] by blast
  have "created = False" using settled(3) by (auto simp: settle_message_def tx_iff)
  then show ?thesis using settle_again[OF settled(3) assms(2) m'(2)] m'(1) settled(1) by (simp add: put_message_def tx_run)
next
  case stored
  have "nm_direction n = OUTBOUND \<Longrightarrow> findOutboundEchoCandidate T t cid n d2 = None"
    using stored echo_again_none[OF _ stored(2) assms(2)] by blast
  then show ?thesis using store_message_again[OF stored(2) assms(2)] by (simp add: put_message_def tx_run)
qed

lemma link_profile_again:
  assumes "link_profile t n d = Inr (p, d1)" and "profiles d2 = profiles d1"
  shows "link_profile t n d2 = Inr (p, d2)"
proof (cases "nm_channel n = INSTAGRAM")
  case True
  then obtain i where i: "upsert_profile t (nm_participant n) d = Inr (i, d1)" "p = Some i"
    using assms(1) by (auto simp: link_profile_def tx_iff)
  show ?thesis using upsert_profile_again[OF i(1) assms(2)] i(2) True by (simp add: link_profile_def tx_bind_def tx_defs)
qed (use assms in \<open>auto simp: link_profile_def tx_run\<close>)

lemma link_profile_frame:
  "link_profile t n d = Inr (p, d1) \<Longrightarrow> messages d1 = messages d \<and> conversations d1 = conversations d
     \<and> lifecycle_requests d1 = lifecycle_requests d \<and> attachments d1 = attachments d"
  by (auto simp: link_profile_def tx_iff split: if_splits dest: upsert_profile_frame)

text \<open>C22.
  A message of a webhook event that is stored is stored once: delivered again, at any time, it
  finds the same row, creates nothing and leaves the store exactly as it was, for an incoming
  message, for an echo of a reply and for one that no reply fits.\<close>

theorem persist_again:
  assumes "persist_message T t e n now d = Inr ((mid, created, copies), d')"
  shows "persist_message T t e n now2 d' = Inr ((mid, False, copies), d')"
proof -
  obtain p d1 cid d2 d3 d4 where s: "\<not> tenant_frozen t d" "link_profile t n d = Inr (p, d1)"
    "upsert_conversation t n p d1 = Inr (cid, d2)" "bump_conversation cid (nm_at n) d2 = Inr ((), d3)"
    "put_message T t cid e n now d3 = Inr ((mid, created), d4)"
    "store_attachments mid (nm_attachments n) (reopen t cid n created now d4) = Inr ((), d')"
    "copies = filter (to_copy mid) (attachments d')"
    using assms unfolding persist_stages by blast
  have d3: "messages d3 = messages d2" "profiles d3 = profiles d2" "lifecycle_requests d3 = lifecycle_requests d2"
    "conversations d3 = update_where (\<lambda>c. cv_id c = cid \<and> cv_last_message c < nm_at n) (\<lambda>c. c\<lparr>cv_last_message := nm_at n\<rparr>) (conversations d2)"
    using s(4) by (auto simp: bump_conversation_def tx_defs)
  note frames = link_profile_frame[OF s(2)] upsert_conversation_frame[OF s(3)] put_message_frame[OF s(5)]
    store_attachments_facts(2)[OF s(6)]
  let ?P = "\<lambda>c. (created \<and> nm_direction n = INBOUND) \<and> reactivatable t cid (nm_at n) c"
  let ?f = "set_status WF_ACTIVE now None"
  have d': "conversations d' = update_where ?P ?f (conversations d3)" "messages d' = messages d4" "profiles d' = profiles d1"
    "\<not> tenant_frozen t d'"
    using frames d3 s(1) by (auto simp: reopen_def tenant_frozen_def update_where_def)
  have "in_conversation t n p cid (conversations d2)" using upsert_conversation_in[OF s(3)] .
  then have "in_conversation t n p cid (conversations d3)"
    unfolding d3(4) by (rule in_conversation_update[rotated]) (simp add: conversation_key_def)
  then have "in_conversation t n p cid (conversations d')"
    unfolding d'(1) by (rule in_conversation_update[rotated]) (simp add: conversation_key_def set_status_def)
  then have conv: "upsert_conversation t n p d' = Inr (cid, d')" by (rule upsert_conversation_again)
  have bump: "bump_conversation cid (nm_at n) d' = Inr ((), d')"
    using bump_again[OF s(4) d'(1)] by (simp add: set_status_def)
  have atts: "store_attachments mid (nm_attachments n) d' = Inr ((), d')"
    using store_attachments_again store_attachments_facts(1)[OF s(6)] by blast
  show ?thesis
    unfolding persist_stages
    using d'(4) link_profile_again[OF s(2) d'(3)] conv bump put_message_again[OF s(5) d'(2)] atts s(7)
    by (auto simp: reopen_def)
qed

text \<open>A tenant with a conversation that was closed, and a reply that is being sent.\<close>

definition plain_text :: text_ops where
  "plain_text = \<lparr>uc_lower = id, uc_nfkc = id, uc_word = (\<lambda>c. True), uc_cross = (\<lambda>c. False), uc_rank = (\<lambda>s. 0)\<rparr>"

definition reply_sample :: message where
  "reply_sample = \<lparr>m_id = 70, m_tenant = 7, m_conversation = 60, m_channel = INSTAGRAM, m_direction = OUTBOUND,
     m_text = Some ''Yes  we do'', m_source_at = 1000, m_sent_by = Some 3, m_provider_message = None, m_status = Some OD_SENDING,
     m_attempts = 1, m_lease = Some 8, m_lease_expires = Some 61000, m_next_attempt = None, m_last_attempt = Some 1000,
     m_error = None, m_generation = None, m_created = 1000, m_event = None, m_external = ''local:70'', m_sender = ''shop'',
     m_client_key = Some 9\<rparr>"

definition inbox_db :: db where
  "inbox_db = empty_db\<lparr>messages := [reply_sample], conversations := [\<lparr>cv_id = 60, cv_tenant = 7, cv_channel = INSTAGRAM,
     cv_external = ''anna'', cv_participant = ''anna'', cv_display_name = None, cv_profile = None, cv_last_message = 500,
     cv_workflow = WF_CLOSED, cv_status_version = 2, cv_status_changed = Some 600, cv_status_by = Some 3\<rparr>], next_id := 100\<rparr>"

definition echo_sample :: normalized where
  "echo_sample = \<lparr>nm_channel = INSTAGRAM, nm_external = ''mid.1'', nm_conversation = ''anna'', nm_participant = ''anna'',
     nm_sender = ''shop'', nm_direction = OUTBOUND, nm_text = Some ''Yes we do'', nm_at = 1200, nm_attachments = []\<rparr>"

definition question_sample :: normalized where
  "question_sample = \<lparr>nm_channel = INSTAGRAM, nm_external = ''mid.2'', nm_conversation = ''anna'', nm_participant = ''anna'',
     nm_sender = ''anna'', nm_direction = INBOUND, nm_text = Some ''Is it there'', nm_at = 2000, nm_attachments = [(IMAGE, ''u'')]\<rparr>"

lemmas inbox_simps = inbox_db_def reply_sample_def echo_sample_def question_sample_def plain_text_def empty_db_def

lemmas persist_simps = persist_message_def persist_in_def put_message_def link_profile_def upsert_profile_def upsert_conversation_def
  bump_conversation_def reactivate_conversation_def store_message_def settle_message_def store_attachments_def
  assertTenantAcceptingMutations_def tenant_frozen_def tx_bind_def tx_seq_def tx_defs

lemma persist_echo_sample:
  "persist_message plain_text 7 50 echo_sample 3000 inbox_db = Inr ((70, False, []), snd (projr (persist_message plain_text 7 50 echo_sample 3000 inbox_db)))"
  by (simp add: persist_simps inbox_simps conversation_key_def normalized_key_def findOutboundEchoCandidate_def provider_match_def
      echo_candidate_def echo_window_ms_def normalizeEchoText_def trim_def white_space_def settle_echo_def)

theorem persist_again_witness:
  "let d' = snd (projr (persist_message plain_text 7 50 echo_sample 3000 inbox_db)) in
     persist_message plain_text 7 50 echo_sample 9000 d' = Inr ((70, False, []), d')"
  using persist_again[OF persist_echo_sample] by (simp add: Let_def)

section \<open>An echo and the receipt of the worker\<close>

lemma link_profile_total: "\<exists>p d1. link_profile t n d = Inr (p, d1)"
  by (auto simp: link_profile_def upsert_profile_def tx_bind_def tx_defs split: option.splits)

lemma upsert_conversation_total: "\<exists>cid d1. upsert_conversation t n p d = Inr (cid, d1)"
  by (auto simp: upsert_conversation_def split: option.splits)

lemma create_attachments_total: "\<exists>d'. create_attachments mid as d = Inr ((), d')"
proof (induction as arbitrary: d)
  case (Cons a as)
  show ?case unfolding create_attachments.simps tx_run_steps by (rule Cons.IH)
qed (simp add: tx_defs)

lemma store_attachments_total: "\<exists>d'. store_attachments mid as d = Inr ((), d')"
  using create_attachments_total by (auto simp: store_attachments_def tx_run)

lemma link_profile_messages:
  "link_profile t n d = Inr (p, d1) \<Longrightarrow> link_profile t n (d\<lparr>messages := ms\<rparr>) = Inr (p, d1\<lparr>messages := ms\<rparr>)"
  by (auto simp: link_profile_def upsert_profile_def tx_bind_def tx_defs split: option.splits if_splits)

lemma upsert_conversation_messages:
  "upsert_conversation t n p d = Inr (cid, d1) \<Longrightarrow> upsert_conversation t n p (d\<lparr>messages := ms\<rparr>) = Inr (cid, d1\<lparr>messages := ms\<rparr>)"
  by (auto simp: upsert_conversation_def split: option.splits)

lemma bump_messages:
  "bump_conversation cid ts d = Inr ((), d1) \<Longrightarrow> bump_conversation cid ts (d\<lparr>messages := ms\<rparr>) = Inr ((), d1\<lparr>messages := ms\<rparr>)"
  by (auto simp: bump_conversation_def tx_defs)

text \<open>A message and the echo that belongs to it alone.\<close>

definition echo_of :: "text_ops \<Rightarrow> uuid \<Rightarrow> normalized \<Rightarrow> message \<Rightarrow> db \<Rightarrow> bool" where
  "echo_of T t n m d \<longleftrightarrow> nm_direction n = OUTBOUND \<and> distinct (map m_id (messages d))
     \<and> map_option cv_id (List.find (\<lambda>c. conversation_key c = normalized_key t n) (conversations d)) = Some (m_conversation m)
     \<and> List.find (provider_match t (m_conversation m) (nm_external n)) (messages d) = None
     \<and> filter (echo_candidate t (m_conversation m) (nm_at n)) (messages d) = [m]
     \<and> map_option (normalizeEchoText T) (m_text m) = map_option (normalizeEchoText T) (nm_text n) \<and> nm_text n \<noteq> None"

lemma echo_of_in:
  assumes "echo_of T t n m d"
  shows "m \<in> set (messages d)" and "echo_candidate t (m_conversation m) (nm_at n) m"
proof -
  have "m \<in> set (filter (echo_candidate t (m_conversation m) (nm_at n)) (messages d))" using assms by (simp add: echo_of_def)
  then show "m \<in> set (messages d)" "echo_candidate t (m_conversation m) (nm_at n) m" by auto
qed

lemma echo_found:
  assumes "echo_of T t n m d"
  shows "findOutboundEchoCandidate T t (m_conversation m) n d = Some m"
  using assms by (auto simp: echo_of_def findOutboundEchoCandidate_def)

text \<open>After the receipt the provider's identifier leads to the same message.\<close>

lemma unique_id: "distinct (map m_id ms) \<Longrightarrow> m \<in> set ms \<Longrightarrow> x \<in> set ms \<Longrightarrow> m_id x = m_id m \<Longrightarrow> x = m"
  by (auto simp: distinct_map inj_on_def)

lemma update_at_id:
  assumes "distinct (map m_id ms)" and "m \<in> set ms" and "P m" and "\<And>x. P x \<Longrightarrow> m_id x = m_id m"
  shows "update_where P f ms = update_where (\<lambda>x. m_id x = m_id m) f ms"
proof -
  have "P x \<longleftrightarrow> m_id x = m_id m" if x: "x \<in> set ms" for x
  proof
    assume "m_id x = m_id m"
    then have "x = m" by (rule unique_id[OF assms(1,2) x])
    then show "P x" using assms(3) by simp
  qed (rule assms(4))
  then show ?thesis unfolding update_where_def by (intro map_cong refl) simp
qed

lemma echo_found_received:
  assumes "echo_of T t n m d" and "m_provider_message m' = Some (nm_external n)"
    and "m_id m' = m_id m \<and> m_tenant m' = m_tenant m \<and> m_conversation m' = m_conversation m \<and> m_direction m' = m_direction m"
    and "messages d2 = update_where (\<lambda>x. m_id x = m_id m) (\<lambda>_. m') (messages d)"
  shows "findOutboundEchoCandidate T t (m_conversation m) n d2 = Some m'"
proof -
  let ?Q = "provider_match t (m_conversation m) (nm_external n)"
  have m: "m \<in> set (messages d)" "echo_candidate t (m_conversation m) (nm_at n) m" using echo_of_in[OF assms(1)] by auto
  have "?Q m'" using m(2) assms(2,3) by (simp add: echo_candidate_def provider_match_def)
  moreover have "List.find ?Q (messages d) = Some m \<or> List.find ?Q (messages d) = None \<and> m \<in> set (messages d)"
    using assms(1) m(1) by (simp add: echo_of_def)
  ultimately have "List.find ?Q (messages d2) = Some m'"
    using find_updated[of ?Q "messages d" m "\<lambda>x. m_id x = m_id m" "\<lambda>_. m'"] unfolding assms(4) by blast
  then show ?thesis by (simp add: findOutboundEchoCandidate_def)
qed

lemma settle_receipt: "settle_echo e i (write_outcome (sent_outcome i) m) = settle_echo e i m"
  by (simp add: settle_echo_def write_outcome_def sent_outcome_def)

lemma put_message_settles:
  assumes "nm_direction n = OUTBOUND" and "findOutboundEchoCandidate T t cid n d = Some m"
  shows "put_message T t cid e n now d = Inr ((m_id m, False),
    d\<lparr>messages := update_where (\<lambda>x. m_id x = m_id m) (settle_echo e (nm_external n)) (messages d)\<rparr>)"
  using assms by (simp add: put_message_def settle_message_def tx_run)

lemma update_where_twice:
  assumes "\<And>x. P x \<Longrightarrow> P (f x)"
  shows "update_where P g (update_where P f xs) = update_where P (\<lambda>x. g (f x)) xs"
  using assms by (induction xs) auto

lemma update_where_eq:
  assumes "\<And>x. x \<in> set xs \<Longrightarrow> P x \<Longrightarrow> f x = g x"
  shows "update_where P f xs = update_where P g xs"
  using assms by (induction xs) auto

lemma update_at:
  assumes "distinct (map m_id ms)" and "m \<in> set ms"
  shows "update_where (\<lambda>x. m_id x = m_id m) f ms = update_where (\<lambda>x. m_id x = m_id m) (\<lambda>_. f m) ms"
proof (rule update_where_eq)
  fix x assume "x \<in> set ms" "m_id x = m_id m"
  then have "x = m" by (rule unique_id[OF assms])
  then show "f x = f m" by simp
qed

text \<open>What the transaction of an echo writes, when it finds its reply.\<close>

lemma persist_echo:
  assumes "\<not> tenant_frozen t d" and "echo_of T t n m d"
  shows "\<exists>copies d1. persist_message T t e n now d = Inr ((m_id m, False, copies), d1)
    \<and> messages d1 = update_where (\<lambda>x. m_id x = m_id m) (settle_echo e (nm_external n)) (messages d)
    \<and> (\<forall>d2 m'. messages d2 = update_where (\<lambda>x. m_id x = m_id m) (\<lambda>_. m') (messages d) \<longrightarrow> d2\<lparr>messages := messages d\<rparr> = d \<longrightarrow>
      m_provider_message m' = Some (nm_external n) \<longrightarrow> settle_echo e (nm_external n) m' = settle_echo e (nm_external n) m \<longrightarrow>
      m_id m' = m_id m \<and> m_tenant m' = m_tenant m \<and> m_conversation m' = m_conversation m \<and> m_direction m' = m_direction m \<longrightarrow>
      persist_message T t e n now d2 = Inr ((m_id m, False, copies), d1))"
proof -
  let ?P = "\<lambda>x. m_id x = m_id m" and ?s = "settle_echo e (nm_external n)"
  have out: "nm_direction n = OUTBOUND" and ids: "distinct (map m_id (messages d))" using assms(2) by (simp_all add: echo_of_def)
  obtain p d1 where 1: "link_profile t n d = Inr (p, d1)" using link_profile_total by blast
  obtain cid d2 where 2: "upsert_conversation t n p d1 = Inr (cid, d2)" using upsert_conversation_total by blast
  have cid: "cid = m_conversation m"
    using 2 assms(2) link_profile_frame[OF 1] by (auto simp: echo_of_def upsert_conversation_def split: option.splits)
  obtain d3 where 3: "bump_conversation cid (nm_at n) d2 = Inr ((), d3)" by (simp add: bump_conversation_def tx_defs)
  have d3: "messages d3 = messages d"
    using 3 link_profile_frame[OF 1] upsert_conversation_frame[OF 2] by (auto simp: bump_conversation_def tx_defs)
  have found: "findOutboundEchoCandidate T t cid n s = findOutboundEchoCandidate T t cid n s'" if "messages s = messages s'" for s s'
    unfolding findOutboundEchoCandidate_def that ..
  let ?ms = "update_where ?P ?s (messages d)"
  have "findOutboundEchoCandidate T t cid n d3 = Some m" using echo_found[OF assms(2)] found[OF d3] cid by simp
  then have 4: "put_message T t cid e n now d3 = Inr ((m_id m, False), d3\<lparr>messages := ?ms\<rparr>)"
    using put_message_settles[OF out] d3 by simp
  obtain d5 where 5: "store_attachments (m_id m) (nm_attachments n) (d3\<lparr>messages := ?ms\<rparr>) = Inr ((), d5)"
    using store_attachments_total by blast
  let ?copies = "filter (to_copy (m_id m)) (attachments d5)"
  have one: "persist_message T t e n now d = Inr ((m_id m, False, ?copies), d5)"
    unfolding persist_stages using assms(1) 1 2 3 4 5 by (auto simp: reopen_def)
  have two: "messages d5 = ?ms" using store_attachments_facts(2)[OF 5] by simp
  have three: "persist_message T t e n now s = Inr ((m_id m, False, ?copies), d5)"
    if s: "messages s = update_where ?P (\<lambda>_. m') (messages d)" "s\<lparr>messages := messages d\<rparr> = d"
      and m': "m_provider_message m' = Some (nm_external n)" "?s m' = ?s m"
        "m_id m' = m_id m \<and> m_tenant m' = m_tenant m \<and> m_conversation m' = m_conversation m \<and> m_direction m' = m_direction m"
    for s m'
  proof -
    have "s\<lparr>messages := messages d\<rparr>\<lparr>messages := messages s\<rparr> = s" by simp
    then have sd: "s = d\<lparr>messages := messages s\<rparr>" unfolding s(2) by simp
    have f: "findOutboundEchoCandidate T t cid n (d3\<lparr>messages := messages s\<rparr>) = Some m'"
      using echo_found_received[OF assms(2) m'(1,3), of "d3\<lparr>messages := messages s\<rparr>"] s(1) cid by simp
    have "update_where ?P ?s (messages s) = update_where ?P (\<lambda>_. ?s m) (messages d)"
      unfolding s(1) using m'(2,3) by (subst update_where_twice) auto
    also have "\<dots> = ?ms" by (rule update_at[symmetric]) (rule ids, rule echo_of_in(1)[OF assms(2)])
    finally have ms: "update_where ?P ?s (messages s) = ?ms" .
    have 4: "put_message T t cid e n now (d3\<lparr>messages := messages s\<rparr>) = Inr ((m_id m, False), d3\<lparr>messages := ?ms\<rparr>)"
      using put_message_settles[OF out f] ms m'(3) by simp
    have "\<not> tenant_frozen t s" using assms(1) by (subst sd) (simp add: tenant_frozen_def)
    then show ?thesis
      unfolding persist_stages
      using link_profile_messages[OF 1, of "messages s"] upsert_conversation_messages[OF 2, of "messages s"]
        bump_messages[OF 3, of "messages s"] 4 5 sd[symmetric] by (auto simp: reopen_def)
  qed
  show ?thesis using one two three by blast
qed

lemma owned_finish_run:
  assumes "distinct (map m_id (messages d))" and "m \<in> set (messages d)" and "ig_owned (t, m_id m) lease m"
  shows "run_tx (ig_finish (t, m_id m) lease out) d =
    (Inr True, d\<lparr>messages := update_where (\<lambda>x. m_id x = m_id m) (\<lambda>_. write_outcome out m) (messages d)\<rparr>)"
proof -
  let ?P = "ig_owned (t, m_id m) lease"
  have p: "\<And>x. ?P x \<Longrightarrow> m_id x = m_id m" by (simp add: ig_owned_def)
  have "count_where ?P (messages d) = (if \<exists>r\<in>set (messages d). ?P r then 1 else 0)"
    by (rule count_key[OF assms(1)]) (rule p)
  then have "count_where ?P (messages d) = 1" using assms(2,3) by auto
  moreover have "update_where ?P (write_outcome out) (messages d) = update_where (\<lambda>x. m_id x = m_id m) (\<lambda>_. write_outcome out m) (messages d)"
    by (rule trans[OF update_at_id[OF assms(1,2), of ?P, OF assms(3) p] update_at[OF assms(1,2)]])
  ultimately show ?thesis by (simp add: ig_finish_def update_message_def update_one_def run_tx_def)
qed

lemma update_message_none:
  "(\<And>m. m \<in> set (messages d) \<Longrightarrow> \<not> P m) \<Longrightarrow> run_tx (update_message P f) d = (Inr False, d)"
  using count_where_0_iff[of P "messages d"] by (simp add: update_message_def update_one_def run_tx_def update_where_none)



section \<open>Media\<close>

text \<open>A medium that needs no further copy.\<close>

definition media_settled :: "attachment \<Rightarrow> bool" where
  "media_settled a \<longleftrightarrow> at_type a \<in> {IMAGE, VIDEO} \<longrightarrow> at_copy a \<notin> {CP_PENDING, CP_RETRYABLE}"

lemma copy_attachment_done:
  assumes "copy_attachment S t ch a d = (Inr (), d')"
  shows "\<exists>f. attachments d' = update_where (\<lambda>x. at_id x = at_id a) f (attachments d)
    \<and> (\<forall>x. media_settled (f x) \<and> at_id (f x) = at_id x \<and> at_message (f x) = at_message x) \<and> messages d' = messages d"
proof -
  have upd: "update_attachment i g s = Inr ((), s') \<Longrightarrow>
      attachments s' = update_where (\<lambda>x. at_id x = i) g (attachments s) \<and> messages s' = messages s" for i g s s'
    by (auto simp: update_attachment_def split: if_splits)
  have failed: "copy_failed (at_id a) again msg e s = (Inr (), s') \<Longrightarrow> \<not> again \<and>
      attachments s' = update_where (\<lambda>x. at_id x = at_id a) (write_copy_failure again msg) (attachments s) \<and> messages s' = messages s"
    for again msg e s s'
    unfolding copy_failed_def svc_bind_def by (auto simp: svc_throw_def svc_return_def split: prod.splits sum.splits if_splits dest: upd)
  have f: "media_settled (write_copy c x)" "media_settled (write_copy_failure False msg x)"
    "at_id (write_copy c x) = at_id x \<and> at_message (write_copy c x) = at_message x"
    "at_id (write_copy_failure b msg x) = at_id x \<and> at_message (write_copy_failure b msg x) = at_message x" for c msg x b
    by (simp_all add: media_settled_def write_copy_def write_copy_failure_def)
  obtain r d1 where 1: "run_tx (assertTenantAcceptingMutations t ORDER_RECOGNITION) d = (r, d1)" "d1 = d"
    by (cases "tenant_frozen t d") (simp_all add: run_tx_def assertTenantAcceptingMutations_def)
  show ?thesis
  proof (cases r)
    case (Inl e)
    then show ?thesis using assms 1 by (auto simp: copy_attachment_def dest!: failed)
  next
    case (Inr u)
    show ?thesis
    proof (cases "in_copy S t (at_url a) ch")
      case (Inl q)
      then obtain again msg where "copy_failed (at_id a) again msg (Plain msg) d = (Inr (), d')"
        using assms 1 Inr by (cases q) (auto simp: copy_attachment_def)
      from failed[OF this] show ?thesis using f(2,4) by (intro exI[of _ "write_copy_failure again msg"]) auto
    next
      case (Inr c)
      then have "update_attachment (at_id a) (write_copy c) d = Inr ((), d')"
        using assms 1 \<open>r = Inr u\<close> by (auto simp: copy_attachment_def run_tx_def split: sum.splits prod.splits dest!: failed)
      from upd[OF this] show ?thesis using f(1,3) by (intro exI[of _ "write_copy c"]) auto
    qed
  qed
qed

lemma media_settled_update:
  assumes "\<forall>x. media_settled (f x) \<and> at_id (f x) = at_id x \<and> at_message (f x) = at_message x"
    and "a' \<in> set (update_where P f as)"
  shows "\<exists>a\<in>set as. at_id a = at_id a' \<and> at_message a = at_message a' \<and> (media_settled a' \<or> a' = a \<and> \<not> P a)"
  using assms by (auto simp: set_update_where split: if_splits)

lemma copy_attachments_done:
  assumes "copy_attachments S t ch as d = (Inr (), d')"
  shows "messages d' = messages d \<and> (\<forall>a'\<in>set (attachments d'). media_settled a' \<or>
    a' \<in> set (attachments d) \<and> at_id a' \<notin> at_id ` set as)"
  using assms
proof (induction as arbitrary: d)
  case (Cons a as)
  obtain d1 where d1: "copy_attachment S t ch a d = (Inr (), d1)" "copy_attachments S t ch as d1 = (Inr (), d')"
    using Cons.prems by (auto simp: svc_bind_def split: prod.splits sum.splits)
  obtain f where f: "attachments d1 = update_where (\<lambda>x. at_id x = at_id a) f (attachments d)"
    "\<forall>x. media_settled (f x) \<and> at_id (f x) = at_id x \<and> at_message (f x) = at_message x" "messages d1 = messages d"
    using copy_attachment_done[OF d1(1)] by blast
  show ?case
  proof (intro conjI ballI)
    fix a' assume a': "a' \<in> set (attachments d')"
    show "media_settled a' \<or> a' \<in> set (attachments d) \<and> at_id a' \<notin> at_id ` set (a # as)"
    proof (cases "media_settled a'")
      case False
      then have in1: "a' \<in> set (attachments d1)" "at_id a' \<notin> at_id ` set as" using Cons.IH[OF d1(2)] a' by auto
      then show ?thesis using media_settled_update[OF f(2), of a'] False f(1) by fastforce
    qed simp
  qed (use Cons.IH[OF d1(2)] f(3) in simp)
qed (simp add: svc_return_def)

text \<open>A service that leaves the messages and their attachments alone.\<close>

definition keeps_media :: "(uuid \<Rightarrow> uuid \<Rightarrow> unit dbservice) \<Rightarrow> bool" where
  "keeps_media f \<longleftrightarrow> (\<forall>t mid d. messages (snd (f t mid d)) = messages d \<and> attachments (snd (f t mid d)) = attachments d)"

text \<open>The message of a channel and an identifier is there, with its media settled.\<close>

definition received :: "uuid \<Rightarrow> normalized \<Rightarrow> db \<Rightarrow> bool" where
  "received t n d \<longleftrightarrow> (\<exists>m\<in>set (messages d). message_index m = (t, nm_channel n, nm_external n)
     \<and> (\<forall>a\<in>set (attachments d). at_message a = m_id m \<longrightarrow> media_settled a))"

lemma ingest_message_cases:
  assumes "ingest_message S T t e now n d = (Inr (), d')" and "keeps_media (in_drafts S)" and "keeps_media (in_orders S)"
  obtains mid created copies d1 d2 d3 where
    "persist_message T t e n now d = Inr ((mid, created, copies), d1)"
    "messages d2 = messages d1" "attachments d2 = attachments d1"
    "copy_attachments S t (nm_channel n) copies d2 = (Inr (), d3)"
    "messages d' = messages d3" "attachments d' = attachments d3"
proof -
  obtain mid created copies d1 where 1: "persist_message T t e n now d = Inr ((mid, created, copies), d1)"
    and r: "svc_bind (if nm_direction n = INBOUND then in_drafts S t mid else svc_return ()) (\<lambda>_.
     svc_bind (copy_attachments S t (nm_channel n) copies) (\<lambda>_.
       if shouldEvaluateOrder n created
       then svc_bind (run_tx (assertTenantAcceptingMutations t ORDER_RECOGNITION)) (\<lambda>_. in_orders S t mid)
       else svc_return ())) d1 = (Inr (), d')"
    using assms(1) unfolding ingest_message_def svc_bind_def[of "run_tx (persist_message T t e n now)"]
    by (auto simp: run_tx_def split: sum.splits prod.splits)
  let ?drafts = "if nm_direction n = INBOUND then in_drafts S t mid else svc_return ()"
  obtain d2 where 2: "?drafts d1 = (Inr (), d2)" and r2: "svc_bind (copy_attachments S t (nm_channel n) copies) (\<lambda>_.
       if shouldEvaluateOrder n created
       then svc_bind (run_tx (assertTenantAcceptingMutations t ORDER_RECOGNITION)) (\<lambda>_. in_orders S t mid)
       else svc_return ()) d2 = (Inr (), d')"
    using r unfolding svc_bind_def[of ?drafts] by (auto split: sum.splits prod.splits)
  have d2: "messages d2 = messages d1" "attachments d2 = attachments d1"
    using 2 assms(2)[unfolded keeps_media_def, rule_format, of t mid d1] by (auto simp: svc_return_def split: if_splits)
  obtain d3 where 3: "copy_attachments S t (nm_channel n) copies d2 = (Inr (), d3)" and r3: "(if shouldEvaluateOrder n created
       then svc_bind (run_tx (assertTenantAcceptingMutations t ORDER_RECOGNITION)) (\<lambda>_. in_orders S t mid)
       else svc_return ()) d3 = (Inr (), d')"
    using r2 unfolding svc_bind_def[of "copy_attachments S t (nm_channel n) copies"] by (auto split: sum.splits prod.splits)
  have "messages d' = messages d3" "attachments d' = attachments d3"
    using r3 assms(3)[unfolded keeps_media_def, rule_format, of t mid d3]
    by (auto simp: svc_return_def svc_bind_def run_tx_def assertTenantAcceptingMutations_def split: if_splits)
  then show ?thesis using that[OF 1 d2 3] by blast
qed

definition message_ids :: "db \<Rightarrow> (uuid \<times> uuid \<times> social_channel \<times> string) set" where
  "message_ids d = (\<lambda>m. (m_id m, message_index m)) ` set (messages d)"

lemma create_attachments_new:
  "create_attachments mid as d = Inr ((), d') \<Longrightarrow> a \<in> set (attachments d') \<Longrightarrow> a \<in> set (attachments d) \<or> at_message a = mid"
proof (induction as arbitrary: d)
  case (Cons x as)
  then show ?case by (auto simp: tx_run new_attachment_def split: if_splits) fastforce+
qed simp

lemma store_attachments_new:
  "store_attachments mid as d = Inr ((), d') \<Longrightarrow> a \<in> set (attachments d') \<Longrightarrow> a \<in> set (attachments d) \<or> at_message a = mid"
  using create_attachments_new by (auto simp: store_attachments_def tx_run split: if_splits)

lemma put_message_ids:
  assumes "put_message T t cid e n now d = Inr ((mid, created), d1)"
  shows "message_ids d \<subseteq> message_ids d1"
    and "nm_direction n = INBOUND \<Longrightarrow> (mid, t, nm_channel n, nm_external n) \<in> message_ids d1"
proof -
  have upd: "message_ids (d\<lparr>messages := update_where P (settle_echo e i) (messages d)\<rparr>) = message_ids d" for P i
  proof -
    have "map (\<lambda>m. (m_id m, message_index m)) (update_where P (settle_echo e i) (messages d)) = map (\<lambda>m. (m_id m, message_index m)) (messages d)"
      by (rule map_update_where) (simp add: settle_echo_def message_index_def)
    from arg_cong[OF this, of set] show ?thesis by (simp add: message_ids_def)
  qed
  show "message_ids d \<subseteq> message_ids d1" using assms
  proof (cases rule: put_message_cases)
    case (settled m)
    then show ?thesis using upd by (auto simp: settle_message_def tx_iff)
  next
    case stored
    then show ?thesis using store_message_facts(2)[OF stored(2)] by (auto simp: message_ids_def)
  qed
  show "(mid, t, nm_channel n, nm_external n) \<in> message_ids d1" if "nm_direction n = INBOUND" using assms
  proof (cases rule: put_message_cases)
    case (settled m)
    then show ?thesis using that by simp
  next
    case stored
    then obtain m where m: "List.find (\<lambda>m. message_index m = (t, nm_channel n, nm_external n)) (messages d1) = Some m" "m_id m = mid"
      using store_message_facts(1)[OF stored(2)] by auto
    show ?thesis using find_some_set[OF m(1)] find_some_prop[OF m(1)] m(2) by (force simp: message_ids_def)
  qed
qed

lemma ingest_message_step:
  assumes "ingest_message S T t e now n d = (Inr (), d')" and "keeps_media (in_drafts S)" and "keeps_media (in_orders S)"
  shows "\<exists>mid. message_ids d \<subseteq> message_ids d' \<and> (nm_direction n = INBOUND \<longrightarrow> (mid, t, nm_channel n, nm_external n) \<in> message_ids d')
    \<and> (\<forall>a\<in>set (attachments d'). media_settled a \<or> a \<in> set (attachments d) \<and> at_message a \<noteq> mid)"
proof -
  obtain mid created copies d1 d2 d3 where 1: "persist_message T t e n now d = Inr ((mid, created, copies), d1)"
    and 2: "messages d2 = messages d1" "attachments d2 = attachments d1"
    and 3: "copy_attachments S t (nm_channel n) copies d2 = (Inr (), d3)"
    and 4: "messages d' = messages d3" "attachments d' = attachments d3"
    using ingest_message_cases[OF assms] .
  obtain p s1 cid s2 s3 s4 where s: "link_profile t n d = Inr (p, s1)" "upsert_conversation t n p s1 = Inr (cid, s2)"
    "bump_conversation cid (nm_at n) s2 = Inr ((), s3)" "put_message T t cid e n now s3 = Inr ((mid, created), s4)"
    "store_attachments mid (nm_attachments n) (reopen t cid n created now s4) = Inr ((), d1)" "copies = filter (to_copy mid) (attachments d1)"
    using 1 unfolding persist_stages by blast
  note frames = link_profile_frame[OF s(1)] upsert_conversation_frame[OF s(2)] put_message_frame[OF s(4)] store_attachments_facts(2)[OF s(5)]
  have s3: "messages s3 = messages s2" "attachments s3 = attachments s2" using s(3) by (auto simp: bump_conversation_def tx_defs)
  have ids: "message_ids d' = message_ids s4" "message_ids s3 = message_ids d"
    using frames s3 2 4 copy_attachments_done[OF 3] by (auto simp: message_ids_def reopen_def)
  have fresh: "a \<in> set (attachments d) \<or> at_message a = mid" if "a \<in> set (attachments d1)" for a
    using store_attachments_new[OF s(5) that] frames s3(2) by (simp add: reopen_def split: if_splits)
  have "media_settled a \<or> a \<in> set (attachments d) \<and> at_message a \<noteq> mid" if a: "a \<in> set (attachments d')" for a
  proof (cases "media_settled a")
    case False
    then have a1: "a \<in> set (attachments d1)" "at_id a \<notin> at_id ` set copies"
      using copy_attachments_done[OF 3] a 2 4 by auto
    then have "a \<notin> set copies" by auto
    then have "\<not> to_copy mid a" using a1(1) s(6) by simp
    then have "at_message a \<noteq> mid" using False by (auto simp: to_copy_def media_settled_def)
    then show ?thesis using fresh[OF a1(1)] by simp
  qed simp
  then show ?thesis using put_message_ids[OF s(4)] ids by (intro exI[of _ mid]) auto
qed

lemma received_step:
  assumes "message_ids d \<subseteq> message_ids d'" and "\<forall>a\<in>set (attachments d'). media_settled a \<or> a \<in> set (attachments d)"
    and "received t n d"
  shows "received t n d'"
proof -
  obtain m where m: "m \<in> set (messages d)" "message_index m = (t, nm_channel n, nm_external n)"
    "\<forall>a\<in>set (attachments d). at_message a = m_id m \<longrightarrow> media_settled a"
    using assms(3) by (auto simp: received_def)
  have "(m_id m, message_index m) \<in> message_ids d" unfolding message_ids_def using m(1) by (rule imageI)
  then have "(m_id m, message_index m) \<in> message_ids d'" using assms(1) by blast
  then obtain m' where "m' \<in> set (messages d')" "m_id m' = m_id m" "message_index m' = message_index m"
    unfolding message_ids_def by auto
  then show ?thesis unfolding received_def using m(2,3) assms(2) by (intro bexI[of _ m']) auto
qed

lemma ingest_messages_received:
  assumes "ingest_messages S T t e now ns d = (Inr (), d')" and "keeps_media (in_drafts S)" and "keeps_media (in_orders S)"
  shows "(\<forall>n. received t n d \<longrightarrow> received t n d') \<and> (\<forall>n\<in>set ns. nm_direction n = INBOUND \<longrightarrow> received t n d')"
  using assms(1)
proof (induction ns arbitrary: d)
  case (Cons n ns)
  obtain d1 where d1: "ingest_message S T t e now n d = (Inr (), d1)" "ingest_messages S T t e now ns d1 = (Inr (), d')"
    using Cons.prems by (auto simp: svc_bind_def split: prod.splits sum.splits)
  obtain mid where mid: "message_ids d \<subseteq> message_ids d1" "nm_direction n = INBOUND \<longrightarrow> (mid, t, nm_channel n, nm_external n) \<in> message_ids d1"
    "\<forall>a\<in>set (attachments d1). media_settled a \<or> a \<in> set (attachments d) \<and> at_message a \<noteq> mid"
    using ingest_message_step[OF d1(1) assms(2,3)] by blast
  have step: "received t x d \<Longrightarrow> received t x d1" for x using received_step[OF mid(1)] mid(3) by blast
  have "received t n d1" if inbound: "nm_direction n = INBOUND"
  proof -
    obtain m where "m \<in> set (messages d1)" "m_id m = mid" "message_index m = (t, nm_channel n, nm_external n)"
      using mid(2)[rule_format, OF inbound] by (auto simp: message_ids_def)
    then show ?thesis using mid(3) by (auto simp: received_def)
  qed
  then show ?case using Cons.IH[OF d1(2)] step by auto
qed (simp add: svc_return_def)

lemma find_event_Inr:
  "find_event t e d = Inr (ev, d') \<longleftrightarrow> List.find (\<lambda>x. we_id x = e \<and> we_tenant x = t) (webhook_events d) = Some ev \<and> d' = d"
  by (auto simp: find_event_def tx_run split: option.splits)

lemma marked_rows:
  "\<forall>ev\<in>set (webhook_events (mark_processed t e now d)). we_id ev = e \<and> we_tenant ev = t \<longrightarrow> we_processed ev = Some now"
proof -
  have "\<forall>ev\<in>set (update_where (\<lambda>x. we_id x = e \<and> we_tenant x = t) (\<lambda>x. x\<lparr>we_processed := Some now\<rparr>) rows).
      we_id ev = e \<and> we_tenant ev = t \<longrightarrow> we_processed ev = Some now" for rows
    by (induction rows) (simp_all, blast)
  then show ?thesis by (simp add: mark_processed_def)
qed

text \<open>C24.
  An event that is reported as processed is complete: every incoming message it carries is
  in the store, and none of their images and videos waits to be copied or copied again; the
  event itself is marked, so that it is not taken up a second time.\<close>

theorem processed_event_complete:
  assumes "process_event S T read t e now d = (Inr PROCESSED, d')"
    and "keeps_media (in_drafts S)" and "keeps_media (in_orders S)"
  shows "\<exists>ev ns. List.find (\<lambda>x. we_id x = e \<and> we_tenant x = t) (webhook_events d) = Some ev \<and> read (we_payload ev) = Inr ns
    \<and> (\<forall>n\<in>set ns. nm_direction n = INBOUND \<longrightarrow> received t n d')
    \<and> (\<forall>ev\<in>set (webhook_events d'). we_id ev = e \<and> we_tenant ev = t \<longrightarrow> we_processed ev = Some now)"
proof -
  have acc: "processAccepted S T read t e now d = (Inr (), d')"
    using assms(1) by (auto simp: process_event_def split: prod.splits sum.splits app_error.splits)
  then obtain ev ns d1 where ev: "List.find (\<lambda>x. we_id x = e \<and> we_tenant x = t) (webhook_events d) = Some ev"
    and ns: "read (we_payload ev) = Inr ns" and d1: "ingest_messages S T t e now ns d = (Inr (), d1)"
    and fin: "finish_event t e now d1 = Inr ((), d')"
    unfolding processAccepted_def svc_bind_def
    by (auto simp: run_tx_def tx_iff find_event_Inr svc_throw_def split: prod.splits sum.splits)
  have d': "d' = mark_processed t e now d1" using fin by (auto simp: finish_event_def tx_bind_Inr find_event_Inr)
  then have keep: "received t n d1 \<Longrightarrow> received t n d'" for n by (simp add: mark_processed_def received_def)
  have marked: "\<forall>ev\<in>set (webhook_events d'). we_id ev = e \<and> we_tenant ev = t \<longrightarrow> we_processed ev = Some now"
    unfolding d' by (rule marked_rows)
  have all: "\<forall>n\<in>set ns. nm_direction n = INBOUND \<longrightarrow> received t n d'"
    using ingest_messages_received[OF d1 assms(2,3)] keep by simp
  show ?thesis by (intro exI conjI, rule ev, rule ns, rule all, rule marked)
qed

definition quiet_services :: ingest_services where
  "quiet_services = \<lparr>in_copy = (\<lambda>t u ch. Inr \<lparr>cp_key = ''k'', cp_checksum = ''c'', cp_type = ''image/png''\<rparr>),
     in_drafts = (\<lambda>t mid. svc_return ()), in_orders = (\<lambda>t mid. svc_return ()), in_message = (\<lambda>e. [])\<rparr>"

definition event_db :: db where
  "event_db = inbox_db\<lparr>webhook_events := [\<lparr>we_id = 50, we_tenant = 7, we_payload = ''p'', we_received = 1, we_processed = None\<rparr>]\<rparr>"

lemma process_sample:
  "process_event quiet_services plain_text (\<lambda>p. Inr [question_sample]) 7 50 3000 event_db =
    (Inr PROCESSED, snd (process_event quiet_services plain_text (\<lambda>p. Inr [question_sample]) 7 50 3000 event_db))"
  by (simp add: process_event_def processAccepted_def svc_bind_def svc_return_def run_tx_def find_event_def finish_event_def ingest_message_def
      persist_simps event_db_def inbox_simps conversation_key_def normalized_key_def same_message_def new_inbound_def message_index_def
      reactivatable_def set_status_def same_attachment_def new_attachment_def initial_copy_def to_copy_def quiet_services_def
      copy_attachment_def update_attachment_def write_copy_def shouldEvaluateOrder_def trim_def white_space_def mark_processed_def)

theorem processed_event_complete_witness:
  "received 7 question_sample (snd (process_event quiet_services plain_text (\<lambda>p. Inr [question_sample]) 7 50 3000 event_db))"
proof -
  have "keeps_media (in_drafts quiet_services)" "keeps_media (in_orders quiet_services)"
    by (simp_all add: keeps_media_def quiet_services_def svc_return_def)
  moreover have "nm_direction question_sample = INBOUND" by (simp add: question_sample_def)
  ultimately show ?thesis using processed_event_complete[OF process_sample] by auto
qed

text \<open>A tenant that is being deleted ingests nothing.\<close>

lemma frozen_event_ignored:
  "tenant_frozen t d \<Longrightarrow> process_event S T read t e now d = (Inr IGNORED_FROZEN, mark_processed t e now d)"
  by (simp add: process_event_def processAccepted_def svc_bind_def run_tx_def guarded_frozen)

end
