(* ===== verification/Inbox_Props.thy ===== *)
theory Inbox_Props
  imports Ingestion_Props
begin

text \<open>
  What holds of conversations: what sending a reply does on each branch, how often it may be
  done, and that a change of status never overwrites one that its author did not see, whatever
  else is committed in between.
\<close>

section \<open>Sending a reply, branch by branch\<close>

definition used_draft :: "uuid \<Rightarrow> uuid \<Rightarrow> uuid \<Rightarrow> uuid option \<Rightarrow> reply_draft \<Rightarrow> bool" where
  "used_draft t cid draftId anchor r \<longleftrightarrow> rd_id r = draftId \<and> rd_tenant r = t \<and> rd_conversation r = cid \<and> rd_status r = RD_READY
     \<and> Some (rd_anchor r) = anchor"

definition mark_used :: "string \<Rightarrow> uuid \<Rightarrow> instant \<Rightarrow> reply_draft \<Rightarrow> reply_draft" where
  "mark_used s mid now r = r\<lparr>rd_status := RD_USED, rd_final := Some s, rd_outbound := Some mid, rd_used := Some now\<rparr>"

lemma use_draft_Inr:
  "use_draft t cid draftId anchor s mid now d = Inr ((), d') \<longleftrightarrow>
     count_where (used_draft t cid draftId anchor) (reply_drafts d) = 1
     \<and> d' = d\<lparr>reply_drafts := update_where (used_draft t cid draftId anchor) (mark_used s mid now) (reply_drafts d)\<rparr>"
proof -
  have P: "(\<lambda>r. rd_id r = draftId \<and> rd_tenant r = t \<and> rd_conversation r = cid \<and> rd_status r = RD_READY \<and> Some (rd_anchor r) = anchor)
      = used_draft t cid draftId anchor" by (rule ext) (simp add: used_draft_def)
  show ?thesis unfolding use_draft_def Let_def P by (auto simp: tx_iff mark_used_def[abs_def])
qed

lemma accept_reply_Inr:
  assumes "accept_reply t actor cid ch anchor sender input s now d = Inr (m, d')"
  shows "reply_window_count t actor now d < 30"
    and "m = new_reply (next_id d) t actor cid ch (fst sender) (snd sender) s (oi_key input) now"
    and "\<not> any_row (same_message m) (messages d)"
    and "messages d' = messages d @ [m]" and "next_id d' = next_id d + 1"
    and "conversations d' = update_where (\<lambda>c. cv_id c = cid) (\<lambda>c. c\<lparr>cv_last_message := now\<rparr>) (conversations d)"
    and "reply_drafts d' = (case oi_draft input of None \<Rightarrow> reply_drafts d
      | Some x \<Rightarrow> update_where (used_draft t cid x (map_option m_id anchor)) (mark_used s (m_id m) now) (reply_drafts d))"
    and "oi_draft input = Some x \<Longrightarrow> count_where (used_draft t cid x (map_option m_id anchor)) (reply_drafts d) = 1"
    and "lifecycle_requests d' = lifecycle_requests d"
proof -
  let ?m = "new_reply (next_id d) t actor cid ch (fst sender) (snd sender) s (oi_key input) now"
  obtain d1 d2 where 1: "create_message ?m (d\<lparr>next_id := next_id d + 1\<rparr>) = Inr ((), d1)" "reply_window_count t actor now d < 30"
    and 2: "(case oi_draft input of None \<Rightarrow> tx_return () | Some x \<Rightarrow> use_draft t cid x (map_option m_id anchor) s (next_id d) now) d1 = Inr ((), d2)"
    and 3: "update_conversation cid (\<lambda>c. c\<lparr>cv_last_message := now\<rparr>) d2 = Inr ((), d')" and m: "m = ?m"
    using assms unfolding accept_reply_def Let_def fresh_id_def by (auto simp: tx_iff not_le)
  have d1: "d1 = d\<lparr>next_id := next_id d + 1, messages := messages d @ [?m]\<rparr>" "\<not> any_row (same_message ?m) (messages d)"
    using 1 by (simp_all add: create_message_def split: if_splits)
  have rd: "reply_drafts d1 = reply_drafts d" unfolding d1(1) by simp
  have d2: "d2 = d1\<lparr>reply_drafts := (case oi_draft input of None \<Rightarrow> reply_drafts d1
      | Some x \<Rightarrow> update_where (used_draft t cid x (map_option m_id anchor)) (mark_used s (m_id m) now) (reply_drafts d1))\<rparr>"
    and one: "oi_draft input = Some x \<Longrightarrow> count_where (used_draft t cid x (map_option m_id anchor)) (reply_drafts d1) = 1" for x
    using 2 m by (auto simp: use_draft_Inr new_reply_def split: option.splits)
  have d': "d' = d2\<lparr>conversations := update_where (\<lambda>c. cv_id c = cid) (\<lambda>c. c\<lparr>cv_last_message := now\<rparr>) (conversations d2)\<rparr>"
    using 3 by (simp add: update_conversation_def split: if_splits)
  show "reply_window_count t actor now d < 30" "m = ?m" "\<not> any_row (same_message m) (messages d)"
    "messages d' = messages d @ [m]" "next_id d' = next_id d + 1"
    "conversations d' = update_where (\<lambda>c. cv_id c = cid) (\<lambda>c. c\<lparr>cv_last_message := now\<rparr>) (conversations d)"
    "reply_drafts d' = (case oi_draft input of None \<Rightarrow> reply_drafts d
      | Some x \<Rightarrow> update_where (used_draft t cid x (map_option m_id anchor)) (mark_used s (m_id m) now) (reply_drafts d))"
    "lifecycle_requests d' = lifecycle_requests d"
    using 1(2) d1 d2[unfolded rd] d' m by (simp_all del: any_row_iff)
  show "oi_draft input = Some x \<Longrightarrow> count_where (used_draft t cid x (map_option m_id anchor)) (reply_drafts d) = 1"
    using one d1(1) by simp
qed

text \<open>A draft that is sent is ready and fresh; one that is stale is marked.\<close>

lemma check_draft_Inr:
  assumes "check_draft t cid anchor x d = Inr (reason, d')"
  obtains r where "style_enabled t d" "r \<in> set (reply_drafts d)" "rd_id r = x" "rd_tenant r = t" "rd_conversation r = cid"
    "rd_status r = RD_READY" "reason = stale_reason t anchor d r"
    "d' = (case reason of None \<Rightarrow> d | Some why \<Rightarrow> d\<lparr>reply_drafts := update_where (\<lambda>r. rd_id r = x) (mark_stale why) (reply_drafts d)\<rparr>)"
proof -
  obtain r where e: "style_enabled t d"
    and r: "List.find (\<lambda>r. rd_id r = x \<and> rd_tenant r = t \<and> rd_conversation r = cid) (reply_drafts d) = Some r" "rd_status r = RD_READY"
    and rest: "(case stale_reason t anchor d r of None \<Rightarrow> tx_return None
       | Some why \<Rightarrow> tx_seq (update_draft (rd_id r) (mark_stale why)) (tx_return (Some why))) d = Inr (reason, d')"
    using assms unfolding check_draft_def by (auto simp: tx_iff split: option.splits)
  have keys: "r \<in> set (reply_drafts d)" "rd_id r = x" "rd_tenant r = t" "rd_conversation r = cid"
    using find_some_set[OF r(1)] find_some_prop[OF r(1)] by auto
  have "reason = stale_reason t anchor d r"
    "d' = (case reason of None \<Rightarrow> d | Some why \<Rightarrow> d\<lparr>reply_drafts := update_where (\<lambda>r. rd_id r = x) (mark_stale why) (reply_drafts d)\<rparr>)"
    using rest keys(2) by (auto simp: tx_iff update_draft_def split: option.splits if_splits)
  then show ?thesis using that e keys r(2) by blast
qed

lemma tx_result_Inr: "tx_result f d = Inr (a, d') \<longleftrightarrow> f d = Inr a \<and> d' = d"
  by (auto simp: tx_result_def split: sum.splits)

lemma send_tx_cases:
  assumes "send_tx gate t actor cid input now d = Inr (result, d')"
  obtains (replayed) m where "find_by_key t (oi_key input) d = Some m" "replay_reply t cid input (trim (oi_text input)) m d = Inr m"
      "result = Inr (m, False)" "d' = d"
  | (stale) x anchor why where "find_by_key t (oi_key input) d = None" "oi_draft input = Some x"
      "check_draft t cid anchor x d = Inr (Some why, d')" "result = Inl why"
  | (accepted) conv anchor sender m where "find_by_key t (oi_key input) d = None" "\<not> tenant_frozen t d"
      "find_reply_conversation t cid d = Some conv" "anchor = latest_message (\<lambda>m. True) t cid d"
      "reply_sender t (cv_channel conv) anchor (oi_draft input \<noteq> None) now d = Inr sender"
      "\<And>x. oi_draft input = Some x \<Longrightarrow> check_draft t cid anchor x d = Inr (None, d)"
      "accept_reply t actor cid (cv_channel conv) anchor sender input (trim (oi_text input)) now d = Inr (m, d')"
      "result = Inr (m, True)"
proof -
  let ?s = "trim (oi_text input)"
  let ?anchor = "latest_message (\<lambda>m. True) t cid d"
  obtain conv sender where open': "\<not> tenant_frozen t d" and conv: "find_reply_conversation t cid d = Some conv"
    and sender: "reply_sender t (cv_channel conv) ?anchor (oi_draft input \<noteq> None) now d = Inr sender"
    and rest: "(case find_by_key t (oi_key input) d of
         Some m \<Rightarrow> tx_bind (tx_result (replay_reply t cid input ?s m)) (\<lambda>m'. tx_return (Inr (m', False)))
       | None \<Rightarrow> tx_bind (case oi_draft input of None \<Rightarrow> tx_return None | Some draftId \<Rightarrow> check_draft t cid ?anchor draftId) (\<lambda>stale.
             case stale of
               Some why \<Rightarrow> tx_return (Inl why)
             | None \<Rightarrow> tx_bind (accept_reply t actor cid (cv_channel conv) ?anchor sender input ?s now)
                 (\<lambda>m. tx_return (Inr (m, True))))) d = Inr (result, d')"
    using assms unfolding send_tx_def Let_def by (auto simp: tx_iff tx_result_Inr split: option.splits)
  show ?thesis
  proof (cases "find_by_key t (oi_key input) d")
    case (Some m)
    then show ?thesis using rest replayed by (auto simp: tx_iff tx_result_Inr replay_reply_def split: if_splits)
  next
    case None
    obtain reason d1 where r: "(case oi_draft input of None \<Rightarrow> tx_return None | Some x \<Rightarrow> check_draft t cid ?anchor x) d = Inr (reason, d1)"
      and r2: "(case reason of Some why \<Rightarrow> tx_return (Inl why)
             | None \<Rightarrow> tx_bind (accept_reply t actor cid (cv_channel conv) ?anchor sender input ?s now)
                 (\<lambda>m. tx_return (Inr (m, True)))) d1 = Inr (result, d')"
      using rest None by (auto simp: tx_bind_Inr)
    show ?thesis
    proof (cases reason)
      case (Some why)
      then show ?thesis using r r2 None stale by (auto split: option.splits)
    next
      case n: None
      then have d1: "d1 = d" "\<And>x. oi_draft input = Some x \<Longrightarrow> check_draft t cid ?anchor x d = Inr (None, d)"
        using r by (auto split: option.splits elim!: check_draft_Inr)
      then show ?thesis using r2 n None accepted[OF None open' conv refl sender] by (auto simp: tx_iff)
    qed
  qed
qed

section \<open>Tables that grow\<close>

text \<open>Rows keep their place and change only as \<open>R\<close> allows; new ones come at the end.\<close>

definition grows :: "('r \<Rightarrow> 'r \<Rightarrow> bool) \<Rightarrow> 'r list \<Rightarrow> 'r list \<Rightarrow> bool" where
  "grows R xs ys \<longleftrightarrow> (\<exists>zs. list_all2 R xs (take (length xs) ys) \<and> ys = take (length xs) ys @ zs)"

locale row_order =
  fixes R :: "'r \<Rightarrow> 'r \<Rightarrow> bool"
  assumes row_refl: "R r r"
    and row_trans: "R a b \<Longrightarrow> R b c \<Longrightarrow> R a c"
begin

lemma grows_update_append:
  assumes "\<And>r. r \<in> set rows \<Longrightarrow> P r \<Longrightarrow> R r (f r)"
  shows "grows R rows (update_where P f rows @ zs)"
proof -
  have "list_all2 R rows (update_where P f rows)"
    using assms row_refl by (induction rows) auto
  then show ?thesis by (simp add: grows_def)
qed

lemma grows_update: "(\<And>r. r \<in> set rows \<Longrightarrow> P r \<Longrightarrow> R r (f r)) \<Longrightarrow> grows R rows (update_where P f rows)"
  using grows_update_append[of rows P f "[]"] by simp

lemma grows_append: "grows R rows (rows @ zs)"
  using grows_update_append[of rows "\<lambda>_. False" id zs] by (simp add: update_where_none)

lemma grows_refl: "grows R rows rows"
  using grows_append[of rows "[]"] by simp

lemma grows_trans:
  assumes "grows R xs ys" and "grows R ys zs"
  shows "grows R xs zs"
proof -
  let ?n = "length xs"
  have len: "?n \<le> length ys" "length ys \<le> length zs"
    using assms by (auto simp: grows_def dest!: list_all2_lengthD)
  have 1: "list_all2 R xs (take ?n ys)" and 2: "list_all2 R ys (take (length ys) zs)"
    using assms by (auto simp: grows_def)
  have "list_all2 R (take ?n ys) (take ?n (take (length ys) zs))" using 2 by (rule list_all2_takeI)
  then have "list_all2 R (take ?n ys) (take ?n zs)" using len by (simp add: min_absorb1)
  note list_all2_trans[OF row_trans 1 this]
  then show ?thesis unfolding grows_def by (intro exI[of _ "drop ?n zs"]) simp
qed

lemma grows_find:
  assumes "grows R xs ys" and key: "\<And>a b. R a b \<Longrightarrow> Q b = Q a" and "List.find Q xs = Some r"
  shows "\<exists>r'. List.find Q ys = Some r' \<and> R r r'"
proof -
  have "list_all2 R xs ys' \<Longrightarrow> List.find Q xs = Some r \<Longrightarrow> \<exists>r'. List.find Q (ys' @ zs) = Some r' \<and> R r r'" for ys' zs
  proof (induction rule: list_all2_induct)
    case (Cons x xs y ys)
    then show ?case using key by (auto split: if_splits)
  qed simp
  then show ?thesis using assms(1,3) unfolding grows_def by metis
qed

end

section \<open>What may happen to an inbox\<close>

text \<open>Everything that writes conversations and messages: the methods of the API, the arrival of
  messages and their media, and the workers that send replies.\<close>

inductive inbox_step :: "db \<Rightarrow> db \<Rightarrow> bool" where
  status: "changeStatus t u cid input now d = Inr (v, d') \<Longrightarrow> inbox_step d d'"
| reply: "send_tx gate t actor cid reply_input now d = Inr (r, d') \<Longrightarrow> inbox_step d d'"
| again: "retry_tx gate t cid mid now d = Inr (m, d') \<Longrightarrow> inbox_step d d'"
| arrival: "persist_message T t e n now d = Inr (p, d') \<Longrightarrow> inbox_step d d'"
| media: "update_attachment aid f d = Inr ((), d') \<Longrightarrow> inbox_step d d'"
| event: "inbox_step d (mark_processed t e now d)"
| ig_take: "ig_claim job lease now d = Inr (b, d') \<Longrightarrow> inbox_step d d'"
| ig_end: "ig_finish job lease out d = Inr (b, d') \<Longrightarrow> inbox_step d d'"
| tt_take: "tt_claim job lease now d = Inr (b, d') \<Longrightarrow> inbox_step d d'"
| tt_end: "tt_finish job lease out d = Inr (b, d') \<Longrightarrow> inbox_step d d'"
| tt_refuse: "tt_fail_pending job d = Inr (b, d') \<Longrightarrow> inbox_step d d'"
| tt_sweep: "worker_mark_stale_tiktok_messages_unknown now limit d = Inr (k, d') \<Longrightarrow> inbox_step d d'"

text \<open>A conversation as it was seen, and later: its status is the same while its version is.\<close>

definition conv_le :: "conversation \<Rightarrow> conversation \<Rightarrow> bool" where
  "conv_le c c' \<longleftrightarrow> cv_id c' = cv_id c \<and> cv_tenant c' = cv_tenant c \<and> cv_status_version c \<le> cv_status_version c'
     \<and> (cv_status_version c' = cv_status_version c \<longrightarrow> status_of c' = status_of c)"

text \<open>A message keeps its tenant, identifier and key; a key is used once.\<close>

definition message_row :: "message \<Rightarrow> uuid \<times> uuid \<times> uuid option" where
  "message_row m = (m_tenant m, m_id m, m_client_key m)"

definition rows_le :: "message list \<Rightarrow> message list \<Rightarrow> bool" where
  "rows_le ms ms' \<longleftrightarrow> (\<exists>new. map message_row ms' = map message_row ms @ map message_row new
     \<and> (\<forall>m\<in>set new. m_client_key m \<noteq> None \<longrightarrow> (\<forall>x\<in>set ms. (m_tenant x, m_client_key x) \<noteq> (m_tenant m, m_client_key m)))
     \<and> length new \<le> 1)"

lemma conv_le_refl [simp]: "conv_le c c"
  by (simp add: conv_le_def)

lemma conv_le_trans: "conv_le a b \<Longrightarrow> conv_le b c \<Longrightarrow> conv_le a c"
  by (auto simp: conv_le_def)

interpretation conv_rows: row_order conv_le
  by unfold_locales (auto intro: conv_le_trans)

lemma convs_le_update: "(\<And>c. P c \<Longrightarrow> conv_le c (f c)) \<Longrightarrow> grows conv_le cs (update_where P f cs)"
  by (rule conv_rows.grows_update)

lemma convs_le_find:
  assumes "grows conv_le xs ys" and "List.find (\<lambda>c. cv_id c = cid \<and> cv_tenant c = t) xs = Some c"
  shows "\<exists>c'. List.find (\<lambda>c. cv_id c = cid \<and> cv_tenant c = t) ys = Some c' \<and> conv_le c c'"
  by (rule conv_rows.grows_find[OF assms(1) _ assms(2)]) (simp add: conv_le_def)

lemmas convs_le_simps [simp] = conv_rows.grows_refl conv_rows.grows_append
lemmas convs_le_trans = conv_rows.grows_trans

text \<open>Each operation respects both.\<close>

definition inbox_le :: "db \<Rightarrow> db \<Rightarrow> bool" where
  "inbox_le d d' \<longleftrightarrow> grows conv_le (conversations d) (conversations d') \<and> rows_le (messages d) (messages d')"

lemma rows_le_refl [simp]: "rows_le ms ms"
  by (auto simp: rows_le_def intro: exI[of _ "[]"])

lemma rows_le_update:
  assumes "\<And>m. P m \<Longrightarrow> message_row (f m) = message_row m"
  shows "rows_le ms (update_where P f ms)"
  using map_update_where[of P message_row f ms] assms by (auto simp: rows_le_def intro: exI[of _ "[]"])

lemma rows_le_create:
  assumes "\<not> any_row (same_message m) ms"
  shows "rows_le ms (ms @ [m])"
  using assms unfolding rows_le_def by (intro exI[of _ "[m]"]) (auto simp: same_message_def)

lemma set_status_le: "conv_le c (set_status s now a c)"
  by (simp add: conv_le_def set_status_def)

lemma changeStatus_le:
  assumes "changeStatus t u cid input now d = Inr (v, d')"
  shows "inbox_le d d'"
proof -
  have "d' = d \<or> d' = d\<lparr>conversations := update_where (\<lambda>c. cv_id c = cid) (set_status (sc_status input) now (Some u)) (conversations d)\<rparr>"
    using assms by (auto simp: changeStatus_def tx_iff update_conversation_def split: option.splits if_splits)
  then show ?thesis using convs_le_update set_status_le by (auto simp: inbox_le_def)
qed

lemma last_message_le: "conv_le c (c\<lparr>cv_last_message := now\<rparr>)"
  by (simp add: conv_le_def status_of_def)

lemma send_tx_le:
  assumes "send_tx gate t actor cid input now d = Inr (r, d')"
  shows "inbox_le d d'"
  using assms
proof (cases rule: send_tx_cases)
  case (stale x anchor why)
  then show ?thesis by (auto simp: inbox_le_def elim!: check_draft_Inr split: option.splits)
next
  case (accepted conv anchor sender m)
  note a = accept_reply_Inr[OF accepted(7)]
  show ?thesis unfolding inbox_le_def a(4,6) using rows_le_create[OF a(3)] convs_le_update last_message_le by auto
qed (simp add: inbox_le_def)

lemma retry_tx_Inr:
  assumes "retry_tx gate t cid mid now d = Inr (m, d')"
  shows "d' = d\<lparr>messages := update_where (\<lambda>x. m_id x = mid) (requeue now) (messages d)\<rparr>"
  using assms by (auto simp: retry_tx_def tx_iff tx_result_Inr split: option.splits)

lemma put_message_rows:
  assumes "put_message T t cid e n now d = Inr (r, d1)"
  shows "rows_le (messages d) (messages d1)"
  using assms
proof (cases rule: put_message_cases)
  case (settled m)
  then have "messages d1 = update_where (\<lambda>x. m_id x = m_id m) (settle_echo e (nm_external n)) (messages d)"
    by (auto simp: settle_message_def tx_iff)
  then show ?thesis using rows_le_update by (simp add: message_row_def settle_echo_def)
next
  case stored
  then have "messages d1 = messages d \<or> (\<exists>m. messages d1 = messages d @ [m] \<and> \<not> any_row (same_message m) (messages d))"
    by (auto simp: store_message_def tx_iff Let_def split: option.splits if_splits)
  then show ?thesis using rows_le_create rows_le_refl by metis
qed

lemma persist_message_le:
  assumes "persist_message T t e n now d = Inr (p, d')"
  shows "inbox_le d d'"
proof -
  obtain mid created copies where p: "p = (mid, created, copies)" by (cases p)
  obtain profile d1 cid d2 d3 d4 where s: "link_profile t n d = Inr (profile, d1)" "upsert_conversation t n profile d1 = Inr (cid, d2)"
    "bump_conversation cid (nm_at n) d2 = Inr ((), d3)" "put_message T t cid e n now d3 = Inr ((mid, created), d4)"
    "store_attachments mid (nm_attachments n) (reopen t cid n created now d4) = Inr ((), d')"
    using assms unfolding p persist_stages by blast
  note frames = link_profile_frame[OF s(1)] upsert_conversation_frame[OF s(2)] put_message_frame[OF s(4)]
    store_attachments_facts(2)[OF s(5)]
  have 3: "messages d3 = messages d" using s(3) frames by (auto simp: bump_conversation_def tx_defs)
  have "messages d' = messages d4" using frames by (simp add: reopen_def)
  then have rows: "rows_le (messages d) (messages d')" using put_message_rows[OF s(4)] 3 by simp
  have a: "grows conv_le (conversations d) (conversations d2)"
  proof -
    have "conv_le c (c\<lparr>cv_participant := x, cv_profile := y\<rparr>)" for c x y by (simp add: conv_le_def status_of_def)
    then show ?thesis using s(2) frames convs_le_update
      by (auto simp: upsert_conversation_def split: option.splits)
  qed
  have b: "grows conv_le (conversations d2) (conversations d3)"
    using s(3) convs_le_update last_message_le by (auto simp: bump_conversation_def tx_defs)
  have c: "grows conv_le (conversations d3) (conversations d')"
    using frames convs_le_update set_status_le by (auto simp: reopen_def)
  show ?thesis using convs_le_trans[OF a convs_le_trans[OF b c]] rows by (simp add: inbox_le_def)
qed

lemma update_message_le:
  assumes "update_message P f d = Inr (b, d')" and "\<And>m. message_row (f m) = message_row m"
  shows "inbox_le d d'"
  using assms rows_le_update by (auto simp: update_message_def update_one_def tx_iff inbox_le_def)

lemma inbox_step_le: "inbox_step d d' \<Longrightarrow> inbox_le d d'"
proof (induction rule: inbox_step.induct)
  case (tt_sweep now limit d k d')
  then have "messages d' = update_where (\<lambda>m. m_id m \<in> set (stale_ids now limit d)) mark_unknown (messages d)" "conversations d' = conversations d"
    by (auto simp: worker_mark_stale_tiktok_messages_unknown_def tx_iff Let_def)
  then show ?case using rows_le_update by (simp add: inbox_le_def message_row_def mark_unknown_def)
next
  case (media aid f d d')
  then show ?case by (auto simp: update_attachment_def inbox_le_def split: if_splits)
next
  case (again gate t cid mid now d m d')
  show ?case using retry_tx_Inr[OF again] rows_le_update by (simp add: inbox_le_def message_row_def requeue_def)
next
  case (event d t e now)
  show ?case by (simp add: inbox_le_def mark_processed_def)
qed (auto intro: changeStatus_le send_tx_le persist_message_le simp: tx_iff
  ig_claim_def ig_finish_def tt_claim_def tt_finish_def tt_fail_pending_def message_row_def start_sending_def write_outcome_def
  dest!: update_message_le)

lemma inbox_steps_convs: "inbox_step\<^sup>*\<^sup>* d d' \<Longrightarrow> grows conv_le (conversations d) (conversations d')"
proof (induction rule: rtranclp_induct)
  case (step y z)
  then show ?case using convs_le_trans inbox_step_le unfolding inbox_le_def by blast
qed simp

definition key_ids :: "uuid \<Rightarrow> uuid \<Rightarrow> message list \<Rightarrow> uuid list" where
  "key_ids t key ms = map m_id (filter (\<lambda>m. m_tenant m = t \<and> m_client_key m = Some key) ms)"

lemma key_ids_rows: "key_ids t key ms = map (fst \<circ> snd) (filter (\<lambda>(a, i, k). a = t \<and> k = Some key) (map message_row ms))"
  by (induction ms) (auto simp: key_ids_def message_row_def)

lemma key_ids_step:
  assumes "rows_le ms ms'" and "key_ids t key ms \<noteq> []"
  shows "key_ids t key ms' = key_ids t key ms"
proof -
  obtain new where new: "map message_row ms' = map message_row ms @ map message_row new"
    "\<forall>m\<in>set new. m_client_key m \<noteq> None \<longrightarrow> (\<forall>x\<in>set ms. (m_tenant x, m_client_key x) \<noteq> (m_tenant m, m_client_key m))"
    using assms(1) by (auto simp: rows_le_def)
  obtain x where x: "x \<in> set ms" "m_tenant x = t" "m_client_key x = Some key"
    using assms(2) by (auto simp: key_ids_def filter_empty_conv)
  have "key_ids t key new = []" using new(2) x by (auto simp: key_ids_def filter_empty_conv)
  then show ?thesis unfolding key_ids_rows new(1) by (simp add: comp_def)
qed

lemma inbox_steps_key:
  "inbox_step\<^sup>*\<^sup>* d d' \<Longrightarrow> key_ids t key (messages d) \<noteq> [] \<Longrightarrow> key_ids t key (messages d') = key_ids t key (messages d)"
proof (induction rule: rtranclp_induct)
  case (step y z)
  then have "rows_le (messages y) (messages z)" using inbox_step_le unfolding inbox_le_def by blast
  then show ?case using key_ids_step[of "messages y" "messages z" t key] step.IH step.prems by simp
qed simp

lemma find_by_key_ids: "map_option m_id (find_by_key t key d) = (case key_ids t key (messages d) of [] \<Rightarrow> None | i # _ \<Rightarrow> Some i)"
proof -
  have "map_option m_id (List.find P ms) = (case map m_id (filter P ms) of [] \<Rightarrow> None | i # _ \<Rightarrow> Some i)" for P ms
    by (induction ms) auto
  then show ?thesis by (simp add: find_by_key_def key_ids_def)
qed

section \<open>The status of a conversation\<close>

lemma changeStatus_Inr:
  assumes "changeStatus t u cid input now d = Inr (v, d')"
  obtains c where "find_conversation t cid d = Some c" "cv_status_version c = sc_expected input"
    "if cv_workflow c = sc_status input then v = status_of c \<and> d' = d
     else v = status_of (set_status (sc_status input) now (Some u) c)
       \<and> d' = d\<lparr>conversations := update_where (\<lambda>c. cv_id c = cid) (set_status (sc_status input) now (Some u)) (conversations d)\<rparr>"
proof -
  obtain c where c: "find_conversation t cid d = Some c"
    using assms by (auto simp: changeStatus_def tx_iff split: option.splits)
  show ?thesis by (rule that[OF c]) (use assms c in \<open>auto simp: changeStatus_def tx_iff update_conversation_def split: if_splits\<close>)
qed

text \<open>C25.
  A change of the status of a conversation never overwrites one that its author did not see.
  Whatever is committed between the moment a member of the staff reads a conversation and the
  moment the change is made with the version that was read, the change succeeds only if the
  status is still the one that was read, and then either it is that status or it becomes the
  wanted one under the next version.\<close>

theorem status_change_informed:
  assumes "find_conversation t cid d = Some seen" and "inbox_step\<^sup>*\<^sup>* d d1"
    and "changeStatus t u cid \<lparr>sc_status = s, sc_expected = cv_status_version seen\<rparr> now d1 = Inr (v, d2)"
  shows "(\<exists>c. find_conversation t cid d1 = Some c \<and> status_of c = status_of seen)
    \<and> (if cv_workflow seen = s then d2 = d1 \<and> v = status_of seen
       else v = (s, cv_status_version seen + 1, Some now)
         \<and> (\<exists>c. find_conversation t cid d2 = Some c \<and> status_of c = v \<and> cv_status_by c = Some u))"
proof -
  obtain c where c: "find_conversation t cid d1 = Some c" "cv_status_version c = cv_status_version seen"
    "if cv_workflow c = s then v = status_of c \<and> d2 = d1
     else v = status_of (set_status s now (Some u) c)
       \<and> d2 = d1\<lparr>conversations := update_where (\<lambda>c. cv_id c = cid) (set_status s now (Some u)) (conversations d1)\<rparr>"
    using changeStatus_Inr[OF assms(3)] by (metis status_change.select_convs)
  have "conv_le seen c" using convs_le_find[OF inbox_steps_convs[OF assms(2)], of cid t seen] assms(1) c(1)
    by (auto simp: find_conversation_def)
  then have same: "status_of c = status_of seen" using c(2) by (simp add: conv_le_def)
  then have w: "cv_workflow c = cv_workflow seen" by (simp add: status_of_def)
  have "find_conversation t cid (d1\<lparr>conversations := update_where (\<lambda>c. cv_id c = cid) (set_status s now (Some u)) (conversations d1)\<rparr>)
      = Some (set_status s now (Some u) c)"
  proof -
    have "cv_id c = cid" using find_some_prop[OF c(1)[unfolded find_conversation_def]] by simp
    then show ?thesis using c(1) find_row_update[of "\<lambda>c. (cv_id c, cv_tenant c)" "set_status s now (Some u)" "(cid, t)" "\<lambda>c. cv_id c = cid" "conversations d1"]
      by (simp add: find_conversation_def set_status_def)
  qed
  then show ?thesis using c same w by (auto simp: status_of_def set_status_def)
qed

definition echoed_db :: db where
  "echoed_db = snd (projr (persist_message plain_text 7 50 echo_sample 3000 inbox_db))"

lemma echoed_step: "inbox_step inbox_db echoed_db"
  unfolding echoed_db_def by (rule inbox_step.arrival[OF persist_echo_sample])

lemma echoed_conversations: "conversations echoed_db = update_where (\<lambda>c. True) (\<lambda>c. c\<lparr>cv_profile := Some 100, cv_last_message := 1200\<rparr>) (conversations inbox_db)"
  "lifecycle_requests echoed_db = []"
  unfolding echoed_db_def
  by (simp_all add: persist_simps inbox_simps conversation_key_def normalized_key_def findOutboundEchoCandidate_def provider_match_def
      echo_candidate_def echo_window_ms_def normalizeEchoText_def trim_def white_space_def settle_echo_def)

theorem status_change_informed_witness:
  "\<exists>c d2. changeStatus 7 3 60 \<lparr>sc_status = WF_ACTIVE, sc_expected = 2\<rparr> 5000 echoed_db = Inr ((WF_ACTIVE, 3, Some 5000), d2)
    \<and> find_conversation 7 60 d2 = Some c \<and> status_of c = (WF_ACTIVE, 3, Some 5000)"
proof -
  obtain seen where seen: "find_conversation 7 60 inbox_db = Some seen" "cv_status_version seen = 2" "cv_workflow seen = WF_CLOSED"
    by (simp add: find_conversation_def inbox_simps)
  have "\<exists>v d2. changeStatus 7 3 60 \<lparr>sc_status = WF_ACTIVE, sc_expected = 2\<rparr> 5000 echoed_db = Inr (v, d2)"
    by (simp add: changeStatus_def assertTenantAcceptingMutations_def tenant_frozen_def tx_bind_def tx_seq_def tx_defs find_conversation_def
        echoed_conversations inbox_db_def update_conversation_def status_of_def set_status_def)
  then obtain v d2 where c: "changeStatus 7 3 60 \<lparr>sc_status = WF_ACTIVE, sc_expected = 2\<rparr> 5000 echoed_db = Inr (v, d2)" by blast
  have "inbox_step\<^sup>*\<^sup>* inbox_db echoed_db" using echoed_step by blast
  from status_change_informed[OF seen(1) this, of 3 WF_ACTIVE 5000 v d2] c seen show ?thesis by auto
qed

lemma find_conversation_update:
  assumes "List.find (\<lambda>c. cv_id c = cid \<and> cv_tenant c = t) cs = Some c" and "\<And>c. (cv_id (f c), cv_tenant (f c)) = (cv_id c, cv_tenant c)"
  shows "List.find (\<lambda>c. cv_id c = cid \<and> cv_tenant c = t) (update_where P f cs) = Some (if P c then f c else c)"
  using find_row_update[of "\<lambda>c. (cv_id c, cv_tenant c)" f "(cid, t)" P cs] assms by simp

text \<open>C26.
  A message of the customer opens a conversation again that was closed or left before it was
  sent.  Nobody who has only seen the conversation as it was can change its status from then
  on, whatever else is committed.\<close>

theorem customer_reopens:
  assumes "persist_message T t e n now d = Inr ((mid, True, copies), d1)" and "nm_direction n = INBOUND"
    and "List.find (\<lambda>c. conversation_key c = normalized_key t n) (conversations d) = Some c"
    and "find_conversation t (cv_id c) d = Some c"
    and "cv_workflow c \<noteq> WF_ACTIVE" and "cv_status_changed c = Some x" and "x < nm_at n"
  shows "(\<exists>c'. find_conversation t (cv_id c) d1 = Some c' \<and> status_of c' = (WF_ACTIVE, cv_status_version c + 1, Some now)
      \<and> cv_last_message c' = max (cv_last_message c) (nm_at n))
    \<and> (\<forall>d2 u s now2 v d3. inbox_step\<^sup>*\<^sup>* d1 d2 \<longrightarrow>
        changeStatus t u (cv_id c) \<lparr>sc_status = s, sc_expected = cv_status_version c\<rparr> now2 d2 \<noteq> Inr (v, d3))"
proof -
  obtain profile da cid db dc dd where s: "link_profile t n d = Inr (profile, da)" "upsert_conversation t n profile da = Inr (cid, db)"
    "bump_conversation cid (nm_at n) db = Inr ((), dc)" "put_message T t cid e n now dc = Inr ((mid, True), dd)"
    "store_attachments mid (nm_attachments n) (reopen t cid n True now dd) = Inr ((), d1)"
    using assms(1) unfolding persist_stages by blast
  note frames = link_profile_frame[OF s(1)] put_message_frame[OF s(4)] store_attachments_facts(2)[OF s(5)]
  let ?Q = "\<lambda>x. cv_id x = cv_id c \<and> cv_tenant x = t"
  have q0: "List.find ?Q (conversations da) = Some c" using assms(4) frames by (simp add: find_conversation_def)
  have key: "conversation_key c = normalized_key t n" using find_some_prop[OF assms(3)] .
  have cid: "cid = cv_id c" and db: "conversations db = update_where (\<lambda>c. conversation_key c = normalized_key t n)
      (\<lambda>c. c\<lparr>cv_participant := nm_participant n, cv_profile := profile\<rparr>) (conversations da)"
    using s(2) assms(3) frames by (auto simp: upsert_conversation_def)
  have dc: "conversations dc = update_where (\<lambda>c. cv_id c = cid \<and> cv_last_message c < nm_at n) (\<lambda>c. c\<lparr>cv_last_message := nm_at n\<rparr>) (conversations db)"
    using s(3) by (auto simp: bump_conversation_def tx_defs)
  have d1: "conversations d1 = update_where (reactivatable t cid (nm_at n)) (set_status WF_ACTIVE now None) (conversations dc)"
    using frames assms(2) by (simp add: reopen_def)
  have 1: "List.find ?Q (conversations db) = Some (c\<lparr>cv_participant := nm_participant n, cv_profile := profile\<rparr>)" (is "_ = Some ?c1")
    unfolding db using find_conversation_update[OF q0] key by simp
  let ?c2 = "if cv_last_message c < nm_at n then ?c1\<lparr>cv_last_message := nm_at n\<rparr> else ?c1"
  have 2: "List.find ?Q (conversations dc) = Some ?c2" unfolding dc using find_conversation_update[OF 1] cid by simp
  have "cv_tenant c = t" using find_some_prop[OF q0] by simp
  then have "reactivatable t cid (nm_at n) ?c2" using cid assms(5-7) by (simp add: reactivatable_def)
  then have 3: "List.find ?Q (conversations d1) = Some (set_status WF_ACTIVE now None ?c2)"
    unfolding d1 using find_conversation_update[OF 2, of "set_status WF_ACTIVE now None"] by (simp add: set_status_def)
  let ?c3 = "set_status WF_ACTIVE now None ?c2"
  have "status_of ?c3 = (WF_ACTIVE, cv_status_version c + 1, Some now)" "cv_last_message ?c3 = max (cv_last_message c) (nm_at n)"
    by (simp_all add: status_of_def set_status_def max_def)
  moreover have "changeStatus t u (cv_id c) \<lparr>sc_status = s, sc_expected = cv_status_version c\<rparr> now2 d2 \<noteq> Inr (v, d3)"
    if steps: "inbox_step\<^sup>*\<^sup>* d1 d2" for d2 u s now2 v d3
  proof
    assume change: "changeStatus t u (cv_id c) \<lparr>sc_status = s, sc_expected = cv_status_version c\<rparr> now2 d2 = Inr (v, d3)"
    obtain y where y: "List.find ?Q (conversations d2) = Some y" "conv_le ?c3 y"
      using convs_le_find[OF inbox_steps_convs[OF steps] 3] by blast
    have "cv_status_version y = cv_status_version c"
      by (rule changeStatus_Inr[OF change]) (use y(1) in \<open>simp add: find_conversation_def\<close>)
    moreover have "cv_status_version c < cv_status_version y" using y(2) by (simp add: conv_le_def set_status_def split: if_splits)
    ultimately show False by simp
  qed
  ultimately show ?thesis using 3 by (auto simp: find_conversation_def)
qed

theorem customer_reopens_witness:
  "\<exists>mid copies d1 c. persist_message plain_text 7 50 question_sample 3000 inbox_db = Inr ((mid, True, copies), d1)
    \<and> find_conversation 7 60 d1 = Some c \<and> status_of c = (WF_ACTIVE, 3, Some 3000)"
proof -
  have "\<exists>mid copies d1. persist_message plain_text 7 50 question_sample 3000 inbox_db = Inr ((mid, True, copies), d1)"
    by (simp add: persist_simps inbox_simps conversation_key_def normalized_key_def same_message_def new_inbound_def message_index_def
        reactivatable_def set_status_def same_attachment_def new_attachment_def initial_copy_def to_copy_def)
  then obtain mid copies d1 where p: "persist_message plain_text 7 50 question_sample 3000 inbox_db = Inr ((mid, True, copies), d1)"
    by blast
  let ?c = "hd (conversations inbox_db)"
  have h: "nm_direction question_sample = INBOUND" "List.find (\<lambda>c. conversation_key c = normalized_key 7 question_sample) (conversations inbox_db) = Some ?c"
    "find_conversation 7 (cv_id ?c) inbox_db = Some ?c" "cv_workflow ?c \<noteq> WF_ACTIVE" "cv_status_changed ?c = Some 600"
    "600 < nm_at question_sample" and c: "cv_id ?c = 60" "cv_status_version ?c = 2"
    by (simp_all add: inbox_simps conversation_key_def normalized_key_def find_conversation_def)
  show ?thesis using customer_reopens[OF p h] p c by auto
qed

section \<open>Replies\<close>

definition claimable_by_worker :: "uuid \<Rightarrow> instant \<Rightarrow> message \<Rightarrow> bool" where
  "claimable_by_worker t now m \<longleftrightarrow> (case m_channel m of INSTAGRAM \<Rightarrow> ig_claimable (t, m_id m) now m
     | TIKTOK \<Rightarrow> tt_claimable (t, m_id m) now m | FACEBOOK \<Rightarrow> False)"

lemma new_reply_claimable:
  "ch \<in> {INSTAGRAM, TIKTOK} \<Longrightarrow> claimable_by_worker t now (new_reply mid t actor cid ch s g v key now)"
  by (auto simp: claimable_by_worker_def new_reply_def ig_claimable_def tt_claimable_def due_def)

lemma used_draft_row:
  assumes "count_where (used_draft t cid x a) rs = 1"
  shows "\<exists>r\<in>set (update_where (used_draft t cid x a) (mark_used s i now) rs).
    rd_id r = x \<and> rd_status r = RD_USED \<and> rd_final r = Some s \<and> rd_outbound r = Some i"
proof -
  have "count_where (used_draft t cid x a) rs \<noteq> 0" using assms by simp
  then obtain r where "r \<in> set rs" "used_draft t cid x a r" by (auto simp: count_where_0_iff)
  then show ?thesis unfolding set_update_where
    by (intro bexI[of _ "mark_used s i now r"]) (auto simp: image_iff mark_used_def used_draft_def intro!: bexI[of _ r])
qed

text \<open>C27.
  A reply is accepted once.  When a send makes a message, its author has sent fewer than
  thirty in the last minute, the message waits for the worker of its channel with its text
  trimmed, and a draft it was made from was ready, made for the last message of the customer
  from products that have not changed, and is used up.  From then on the key belongs to that
  message: every later send with it, whoever makes it and whatever was committed in between,
  either fails or returns that message and changes nothing.\<close>

theorem reply_accepted_once:
  assumes "send_tx gate t actor cid input now d = Inr (Inr (m, True), d1)"
  shows "\<not> tenant_frozen t d \<and> reply_window_count t actor now d < 30
    \<and> messages d1 = messages d @ [m] \<and> m_text m = Some (trim (oi_text input)) \<and> m_conversation m = cid \<and> claimable_by_worker t now m
    \<and> (\<forall>x. oi_draft input = Some x \<longrightarrow>
        (\<exists>r\<in>set (reply_drafts d). rd_id r = x \<and> rd_status r = RD_READY \<and> stale_reason t (latest_message (\<lambda>m. True) t cid d) d r = None)
        \<and> (\<exists>r\<in>set (reply_drafts d1). rd_id r = x \<and> rd_status r = RD_USED \<and> rd_outbound r = Some (m_id m)))
    \<and> (\<forall>d2 gate2 actor2 cid2 input2 now2 r d3. inbox_step\<^sup>*\<^sup>* d1 d2 \<longrightarrow> oi_key input2 = oi_key input \<longrightarrow>
        send_tx gate2 t actor2 cid2 input2 now2 d2 = Inr (r, d3) \<longrightarrow> d3 = d2 \<and> (\<exists>m2. r = Inr (m2, False) \<and> m_id m2 = m_id m))"
  using assms
proof (cases rule: send_tx_cases)
  case (accepted conv anchor sender m')
  then have m: "m' = m" by simp
  note a = accept_reply_Inr[OF accepted(7)[unfolded m]]
  have ch: "cv_channel conv \<in> {INSTAGRAM, TIKTOK}"
    using find_some_prop[OF accepted(3)[unfolded find_reply_conversation_def]] by blast
  have row: "m_text m = Some (trim (oi_text input))" "m_conversation m = cid" "m_tenant m = t" "m_client_key m = Some (oi_key input)"
    unfolding a(2) by (simp_all add: new_reply_def)
  have work: "claimable_by_worker t now m" unfolding a(2) by (rule new_reply_claimable[OF ch])
  have draft: "(\<exists>r\<in>set (reply_drafts d). rd_id r = x \<and> rd_status r = RD_READY \<and> stale_reason t (latest_message (\<lambda>m. True) t cid d) d r = None)
      \<and> (\<exists>r\<in>set (reply_drafts d1). rd_id r = x \<and> rd_status r = RD_USED \<and> rd_outbound r = Some (m_id m))"
    if x: "oi_draft input = Some x" for x
  proof
    show "\<exists>r\<in>set (reply_drafts d). rd_id r = x \<and> rd_status r = RD_READY \<and> stale_reason t (latest_message (\<lambda>m. True) t cid d) d r = None"
      by (rule check_draft_Inr[OF accepted(6)[OF x]]) (use accepted(4) in auto)
    show "\<exists>r\<in>set (reply_drafts d1). rd_id r = x \<and> rd_status r = RD_USED \<and> rd_outbound r = Some (m_id m)"
      using used_draft_row[OF a(8)[OF x], of "trim (oi_text input)" "m_id m" now] unfolding a(7) x by auto
  qed
  have "key_ids t (oi_key input) (messages d) = []"
    using find_by_key_ids[of t "oi_key input" d] accepted(1) by (simp split: list.splits)
  then have key: "key_ids t (oi_key input) (messages d1) = [m_id m]"
    using row unfolding a(4) by (simp add: key_ids_def)
  have later: "d3 = d2 \<and> (\<exists>m2. r = Inr (m2, False) \<and> m_id m2 = m_id m)"
    if steps: "inbox_step\<^sup>*\<^sup>* d1 d2" and k: "oi_key input2 = oi_key input"
      and sent: "send_tx gate2 t actor2 cid2 input2 now2 d2 = Inr (r, d3)" for d2 gate2 actor2 cid2 input2 now2 r d3
  proof -
    have "key_ids t (oi_key input) (messages d2) = [m_id m]" using inbox_steps_key[OF steps] key by simp
    then have found: "map_option m_id (find_by_key t (oi_key input2) d2) = Some (m_id m)" using find_by_key_ids k by simp
    show ?thesis using sent by (cases rule: send_tx_cases) (use found in auto)
  qed
  show ?thesis using accepted(2) a(1,4) row(1,2) work draft later by blast
qed auto

text \<open>A shop with a question to answer and a draft of the answer.\<close>

definition asked_db :: db where
  "asked_db = inbox_db\<lparr>messages := [new_inbound 71 7 60 50 question_sample 2000],
     instagram_connections := [\<lparr>ic_id = 1, ic_tenant = 7, ic_account = ''shop'', ic_status = IG_ACTIVE, ic_token = Some ''t'',
       ic_generation = None, ic_expires = Some 900000, ic_verified = None, ic_error = None\<rparr>],
     reply_styles := [\<lparr>ry_tenant = 7, ry_enabled = True, ry_company = [], ry_tone = [], ry_address = [], ry_guidance = []\<rparr>],
     reply_drafts := [\<lparr>rd_id = 80, rd_tenant = 7, rd_conversation = 60, rd_anchor = 71, rd_creator = None, rd_key = 81,
       rd_trigger = TR_AUTOMATIC, rd_available = 2000, rd_status = RD_READY, rd_outcome = Some ANSWER, rd_text = Some ''Yes'',
       rd_final = None, rd_sources = Some [], rd_lease = None, rd_lease_expires = None, rd_model_started = None, rd_attempts = 1,
       rd_error = None, rd_outbound = None, rd_created = 2000, rd_used = None\<rparr>]\<rparr>"

definition answer_sample :: outbound_input where
  "answer_sample = \<lparr>oi_text = ''Yes '', oi_key = 82, oi_draft = Some 80\<rparr>"

lemma send_sample:
  "\<exists>m d1. send_tx (Inr ()) 7 3 60 answer_sample 5000 asked_db = Inr (Inr (m, True), d1)"
  by (simp add: send_tx_def asked_db_def inbox_simps answer_sample_def assertTenantAcceptingMutations_def tenant_frozen_def tx_bind_def tx_seq_def
      tx_defs find_reply_conversation_def latest_message_def find_sorted_def new_inbound_def tx_result_def assertChannelEnabled_def
      reply_sender_def ig_connection_def isDeliveryConnectionActive_def truthy_def metaInstagramReplyMode_def standard_reply_window_ms_def
      find_by_key_def check_draft_def style_enabled_def find_style_def stale_reason_def sourcesCurrent_def accept_reply_def
      reply_window_count_def fresh_id_def create_message_def same_message_def new_reply_def use_draft_def update_conversation_def Let_def non_empty_def)

theorem reply_accepted_once_witness:
  "\<exists>m d1. send_tx (Inr ()) 7 3 60 answer_sample 5000 asked_db = Inr (Inr (m, True), d1) \<and> m_text m = Some ''Yes''
    \<and> (\<exists>r\<in>set (reply_drafts d1). rd_id r = 80 \<and> rd_status r = RD_USED)"
proof -
  obtain m d1 where s: "send_tx (Inr ()) 7 3 60 answer_sample 5000 asked_db = Inr (Inr (m, True), d1)" using send_sample by blast
  have "trim (oi_text answer_sample) = ''Yes''" "oi_draft answer_sample = Some 80"
    by (simp_all add: answer_sample_def trim_def white_space_def)
  then show ?thesis using reply_accepted_once[OF s] s by auto
qed

end
