(* ===== verification/Claims.thy ===== *)
theory Claims
  imports Conversations Recognition
begin

text \<open>
  What a generated reply may say, \<open>apps/worker/src/reply-drafts/claim-validator.ts\<close>, and the
  replies that are made without the model, at the end of \<open>reply-draft.processor.ts\<close>.  The
  regular expressions over words of two languages, the folding of letters and the texts in
  Ukrainian are parameters; numbers of a text are found and read here.  \<open>Number\<close> is read
  exactly, where the platform rounds to the nearest double.
\<close>

section \<open>Numbers in texts\<close>

text \<open>\<open>/\d+(?:[.,]\d+)?/gu\<close>\<close>

definition number_length :: "string \<Rightarrow> nat" where
  "number_length s = (let w = takeWhile digit_char s in
     case dropWhile digit_char s of
       [] \<Rightarrow> length w
     | p # rest \<Rightarrow> let f = takeWhile digit_char rest in
         if (p = CHR ''.'' \<or> p = CHR '','') \<and> f \<noteq> [] then length w + 1 + length f else length w)"

lemma number_length_pos: "digit_char c \<Longrightarrow> 0 < number_length (c # s)"
  by (simp add: number_length_def Let_def split: list.splits)

function number_spans :: "nat \<Rightarrow> string \<Rightarrow> (nat \<times> nat) list" where
  "number_spans i [] = []"
| "number_spans i (c # s) =
     (if digit_char c then (i, i + number_length (c # s)) # number_spans (i + number_length (c # s)) (drop (number_length (c # s)) (c # s))
      else number_spans (i + 1) s)"
  by pat_completeness auto
termination by (relation "measure (length \<circ> snd)") (auto simp: number_length_pos intro: diff_less)

text \<open>\<open>Number(value)\<close>, \<open>None\<close> for \<open>NaN\<close> and for \<open>Infinity\<close>.\<close>

definition read_mantissa :: "string \<Rightarrow> (rat \<times> string) option" where
  "read_mantissa s = (let w = takeWhile digit_char s in
     case dropWhile digit_char s of
       [] \<Rightarrow> if w = [] then None else Some (of_nat (digits_value w), [])
     | p # rest \<Rightarrow>
         if p = CHR ''.'' then
           (let f = takeWhile digit_char rest in
            if w = [] \<and> f = [] then None
            else Some (of_nat (digits_value (w @ f)) / 10 ^ length f, dropWhile digit_char rest))
         else if w = [] then None else Some (of_nat (digits_value w), p # rest))"

definition read_digits :: "string \<Rightarrow> nat option" where
  "read_digits s = (if s \<noteq> [] \<and> list_all digit_char s then Some (digits_value s) else None)"

fun read_exponent :: "string \<Rightarrow> rat option" where
  "read_exponent [] = Some 1"
| "read_exponent (e # s) =
     (if e \<noteq> CHR ''e'' \<and> e \<noteq> CHR ''E'' then None
      else case s of
          [] \<Rightarrow> None
        | c # rest \<Rightarrow>
            if c = CHR ''-'' then map_option (\<lambda>n. 1 / 10 ^ n) (read_digits rest)
            else map_option (\<lambda>n. 10 ^ n) (read_digits (if c = CHR ''+'' then rest else s)))"

definition read_decimal :: "string \<Rightarrow> rat option" where
  "read_decimal s = (case read_mantissa s of None \<Rightarrow> None | Some (m, rest) \<Rightarrow> map_option ((*) m) (read_exponent rest))"

definition radix_digit :: "char \<Rightarrow> nat" where
  "radix_digit c = (if digit_char c then digit_value c
     else if CHR ''a'' \<le> lower_char c \<and> lower_char c \<le> CHR ''f'' then of_char (lower_char c) - 87 else 99)"

definition read_radix :: "nat \<Rightarrow> string \<Rightarrow> rat option" where
  "read_radix b s = (if s \<noteq> [] \<and> list_all (\<lambda>c. radix_digit c < b) s
     then Some (of_nat (foldl (\<lambda>v c. b * v + radix_digit c) 0 s)) else None)"

definition js_number :: "string \<Rightarrow> rat option" where
  "js_number s =
     (if s = [] then Some 0
      else case map lower_char (take 2 s) of
          [a, b] \<Rightarrow>
            if a = CHR ''0'' \<and> b = CHR ''x'' then read_radix 16 (drop 2 s)
            else if a = CHR ''0'' \<and> b = CHR ''o'' then read_radix 8 (drop 2 s)
            else if a = CHR ''0'' \<and> b = CHR ''b'' then read_radix 2 (drop 2 s)
            else if a = CHR ''-'' then map_option uminus (read_decimal (tl s))
            else if a = CHR ''+'' then read_decimal (tl s)
            else read_decimal s
        | _ \<Rightarrow> read_decimal s)"

fun comma_to_point :: "string \<Rightarrow> string" where
  "comma_to_point [] = []"
| "comma_to_point (c # s) = (if c = CHR '','' then CHR ''.'' # s else c # comma_to_point s)"

definition numberValue :: "string \<Rightarrow> rat option" where
  "numberValue v = js_number (comma_to_point (filter (\<lambda>c. \<not> white_space c) v))"

text \<open>\<open>===\<close> on numbers: \<open>NaN\<close> equals nothing.\<close>

definition same_number :: "rat option \<Rightarrow> rat option \<Rightarrow> bool" where
  "same_number a b \<longleftrightarrow> a \<noteq> None \<and> a = b"

section \<open>Sources and claims\<close>

record reply_source =
  so_product :: uuid
  so_sku :: string
  so_name :: string
  so_variants :: "(string \<times> string) list"
  so_price :: "string option"
  so_currency :: "string option"
  so_stock :: "nat option"
  so_updated :: instant

datatype claim_type = NAME | SKU | VARIANT | PRICE | CURRENCY | STOCK | AVAILABILITY

record claim =
  cl_start :: nat
  cl_end :: nat
  cl_text :: string
  cl_type :: claim_type
  cl_field :: string
  cl_product :: uuid

record generated_reply =
  gr_outcome :: draft_outcome
  gr_text :: string
  gr_products :: "uuid list"
  gr_claims :: "claim list"

text \<open>Two languages: letters in lower case; what a reply must not promise; where it speaks of
  money and of availability, and how; whether a text is Ukrainian, what it asks for, what it
  names; the Ukrainian for an English text.\<close>

record reply_language =
  rl_lower :: "string \<Rightarrow> string"
  rl_unverified :: "string \<Rightarrow> bool"
  rl_spans :: "string \<Rightarrow> (nat \<times> nat) list"
  rl_negative :: "string \<Rightarrow> bool"
  rl_positive :: "string \<Rightarrow> bool"
  rl_currencies :: "string \<Rightarrow> string list"
  rl_cyrillic :: "string \<Rightarrow> bool"
  rl_shipping :: "string \<Rightarrow> bool"
  rl_stock :: "string \<Rightarrow> string list \<Rightarrow> bool"
  rl_price :: "string \<Rightarrow> bool"
  rl_exact :: "reply_source \<Rightarrow> string \<Rightarrow> string list \<Rightarrow> bool"
  rl_models :: "reply_source list \<Rightarrow> string \<Rightarrow> string list \<Rightarrow> reply_source list"
  rl_ukrainian :: "string \<Rightarrow> string"
  rl_bullet :: string
  rl_dash :: string
  rl_redact :: "string \<Rightarrow> string"

definition currencyMatches :: "reply_language \<Rightarrow> string \<Rightarrow> string \<Rightarrow> bool" where
  "currencyMatches L txt currency =
     (let code = map upper_char currency; name = map lower_char currency in
      txt \<in> set (if code \<in> {''UAH'', ''USD'', ''EUR''} then name # rl_currencies L code else [name]))"

definition matchesSource :: "reply_language \<Rightarrow> claim \<Rightarrow> reply_source \<Rightarrow> bool" where
  "matchesSource L c s =
     (let txt = rl_lower L (trim (cl_text c)) in
      case cl_type c of
        NAME \<Rightarrow> cl_field c = ''name'' \<and> txt = rl_lower L (so_name s)
      | SKU \<Rightarrow> cl_field c = ''sku'' \<and> txt = rl_lower L (so_sku s)
      | VARIANT \<Rightarrow> (case map_of (so_variants s) (cl_field c) of Some v \<Rightarrow> txt = rl_lower L v | None \<Rightarrow> False)
      | PRICE \<Rightarrow> cl_field c = ''price'' \<and> so_currency s \<noteq> None
          \<and> (case so_price s of Some p \<Rightarrow> same_number (numberValue txt) (numberValue p) | None \<Rightarrow> False)
      | CURRENCY \<Rightarrow> cl_field c = ''currency'' \<and> (case so_currency s of Some k \<Rightarrow> currencyMatches L txt k | None \<Rightarrow> False)
      | STOCK \<Rightarrow> cl_field c = ''stockQuantity''
          \<and> (case so_stock s of Some n \<Rightarrow> same_number (numberValue txt) (Some (of_nat n)) | None \<Rightarrow> False)
      | AVAILABILITY \<Rightarrow> cl_field c = ''stockQuantity''
          \<and> (case so_stock s of None \<Rightarrow> False
             | Some n \<Rightarrow> if n = 0 then rl_negative L txt else rl_positive L txt \<and> \<not> rl_negative L txt))"

section \<open>The validator\<close>

text \<open>The schema, of a value of the right shape; the text is trimmed.\<close>

definition parse_reply :: "generated_reply option \<Rightarrow> generated_reply option" where
  "parse_reply v = (case v of None \<Rightarrow> None | Some r \<Rightarrow>
     let r' = r\<lparr>gr_text := trim (gr_text r)\<rparr> in
     if gr_text r' \<noteq> [] \<and> length (gr_text r') \<le> 1000 \<and> length (gr_products r') \<le> 8 \<and> length (gr_claims r') \<le> 32
       \<and> list_all (\<lambda>c. 1 \<le> cl_end c \<and> cl_text c \<noteq> [] \<and> length (cl_text c) \<le> 300 \<and> cl_field c \<noteq> [] \<and> length (cl_field c) \<le> 80) (gr_claims r')
     then Some r' else None)"

definition source_by_id :: "reply_source list \<Rightarrow> uuid \<Rightarrow> reply_source option" where
  "source_by_id sources pid = List.find (\<lambda>s. so_product s = pid) (rev sources)"

definition overlaps :: "claim \<Rightarrow> nat \<times> nat \<Rightarrow> bool" where
  "overlaps c piece \<longleftrightarrow> cl_start c < snd piece \<and> fst piece < cl_end c"

definition slice :: "string \<Rightarrow> nat \<Rightarrow> nat \<Rightarrow> string" where
  "slice s a b = take (b - a) (drop a s)"

definition claim_ok :: "reply_language \<Rightarrow> reply_source list \<Rightarrow> generated_reply \<Rightarrow> claim \<Rightarrow> bool" where
  "claim_ok L sources r c = (case source_by_id sources (cl_product c) of
       None \<Rightarrow> False
     | Some s \<Rightarrow> cl_product c \<in> set (gr_products r) \<and> cl_start c < cl_end c
         \<and> slice (gr_text r) (cl_start c) (cl_end c) = cl_text c \<and> matchesSource L c s)"

fun check_claims :: "reply_language \<Rightarrow> reply_source list \<Rightarrow> generated_reply \<Rightarrow> (nat \<times> nat) list \<Rightarrow> claim list \<Rightarrow> (nat \<times> nat) list option" where
  "check_claims L sources r spans [] = Some spans"
| "check_claims L sources r spans (c # cs) =
     (if \<not> claim_ok L sources r c \<or> list_ex (overlaps c) spans then None
      else check_claims L sources r (spans @ [(cl_start c, cl_end c)]) cs)"

definition covered :: "(nat \<times> nat) list \<Rightarrow> nat \<times> nat \<Rightarrow> bool" where
  "covered spans piece \<longleftrightarrow> list_ex (\<lambda>(a, b). a \<le> fst piece \<and> snd piece \<le> b) spans"

text \<open>\<open>indexOf(fact, start)\<close>, and the loop over what it finds; a fact has three letters or more.\<close>

definition index_from :: "string \<Rightarrow> string \<Rightarrow> nat \<Rightarrow> nat option" where
  "index_from needle hay i = List.find (\<lambda>j. take (length needle) (drop j hay) = needle) [i ..< length hay]"

lemma index_from_range: "index_from needle hay i = Some j \<Longrightarrow> i \<le> j \<and> j < length hay"
  by (auto simp: index_from_def dest!: find_some_set)

function occurrences :: "nat \<Rightarrow> string \<Rightarrow> string \<Rightarrow> nat \<Rightarrow> nat list" where
  "occurrences n needle hay i = (if n = 0 then [] else case index_from needle hay i of
       None \<Rightarrow> [] | Some j \<Rightarrow> j # occurrences n needle hay (j + n))"
  by pat_completeness auto
termination by (relation "measure (\<lambda>(n, needle, hay, i). length hay - i)") (auto dest!: index_from_range)

declare occurrences.simps [simp del]

definition source_facts :: "reply_source \<Rightarrow> string list" where
  "source_facts s = filter (\<lambda>f. 3 \<le> length f) (so_sku s # so_name s # map snd (so_variants s))"

definition facts_covered :: "reply_language \<Rightarrow> (nat \<times> nat) list \<Rightarrow> string \<Rightarrow> reply_source \<Rightarrow> bool" where
  "facts_covered L spans txt s \<longleftrightarrow> list_all (\<lambda>fact. list_all (\<lambda>i. covered spans (i, i + length fact))
     (occurrences (length fact) (rl_lower L fact) (rl_lower L txt) 0)) (source_facts s)"

text \<open>\<open>None\<close>: the reply is blocked as \<open>UNGROUNDED_CLAIM\<close>.\<close>

definition validateReplyDraft :: "reply_language \<Rightarrow> generated_reply option \<Rightarrow> reply_source list \<Rightarrow> generated_reply option" where
  "validateReplyDraft L v sources = (case parse_reply v of None \<Rightarrow> None | Some r \<Rightarrow>
     if gr_outcome r = ANSWER \<and> (sources = [] \<or> gr_claims r = []) then None
     else if list_ex (\<lambda>pid. source_by_id sources pid = None) (gr_products r) then None
     else if rl_unverified L (gr_text r) then None
     else case check_claims L sources r [] (gr_claims r) of None \<Rightarrow> None | Some spans \<Rightarrow>
       if list_all (covered spans) (number_spans 0 (gr_text r) @ rl_spans L (gr_text r))
         \<and> list_all (facts_covered L spans (gr_text r)) sources
       then Some r else None)"

section \<open>Replies without the model\<close>

definition in_language :: "reply_language \<Rightarrow> string \<Rightarrow> string \<Rightarrow> string" where
  "in_language L inbound english = (if rl_cyrillic L inbound then rl_ukrainian L english else english)"

definition clarification :: "string \<Rightarrow> generated_reply" where
  "clarification txt = \<lparr>gr_outcome = CLARIFY, gr_text = txt, gr_products = [], gr_claims = []\<rparr>"

definition safeAutomaticShippingClarification :: "reply_language \<Rightarrow> string \<Rightarrow> generated_reply" where
  "safeAutomaticShippingClarification L inbound =
     clarification (in_language L inbound ''I cannot confirm the dispatch date yet; it needs to be checked.'')"

definition safeAutomaticClarification :: "reply_language \<Rightarrow> string \<Rightarrow> generated_reply" where
  "safeAutomaticClarification L inbound =
     (if rl_shipping L inbound then safeAutomaticShippingClarification L inbound
      else clarification (in_language L inbound ''Please clarify which product or model you are interested in.''))"

definition safeAutomaticStockClarification :: "reply_language \<Rightarrow> string \<Rightarrow> generated_reply" where
  "safeAutomaticStockClarification L inbound =
     clarification (in_language L inbound ''I cannot confirm availability yet; the current stock needs to be checked.'')"

text \<open>The English text has a typographic apostrophe.\<close>

definition safeAutomaticPriceClarification :: "reply_language \<Rightarrow> string \<Rightarrow> generated_reply" where
  "safeAutomaticPriceClarification L inbound =
     clarification (in_language L inbound ''I cannot confirm this product's price yet; it needs to be checked.'')"

definition needsPriceCheck :: "reply_language \<Rightarrow> string \<Rightarrow> string list \<Rightarrow> reply_source list \<Rightarrow> bool" where
  "needsPriceCheck L inbound recent sources \<longleftrightarrow> rl_price L inbound \<and> list_ex (\<lambda>s. so_price s = None \<and> rl_exact L s inbound recent) sources"

definition in_stock :: "reply_source \<Rightarrow> bool" where
  "in_stock s = (case so_stock s of Some n \<Rightarrow> 0 < n | None \<Rightarrow> False)"

definition newline :: string where
  "newline = [CHR 0x0A]"

fun list_options :: "reply_language \<Rightarrow> string \<Rightarrow> bool \<Rightarrow> string \<Rightarrow> reply_source list \<Rightarrow> string \<times> claim list" where
  "list_options L available stock txt [] = (txt, [])"
| "list_options L available stock txt (s # ss) =
     (let t1 = txt @ rl_bullet L; t2 = t1 @ so_name s;
          named = \<lparr>cl_start = length t1, cl_end = length t2, cl_text = so_name s, cl_type = NAME, cl_field = ''name'', cl_product = so_product s\<rparr>;
          t3 = t2 @ (if stock then rl_dash L else []);
          t4 = t3 @ (if stock then available else []);
          offered = (if stock then [\<lparr>cl_start = length t3, cl_end = length t4, cl_text = available, cl_type = AVAILABILITY,
             cl_field = ''stockQuantity'', cl_product = so_product s\<rparr>] else []);
          (t5, cs) = list_options L available stock (t4 @ newline) ss
      in (t5, named # offered @ cs))"

definition safeAutomaticCatalogueOptions :: "reply_language \<Rightarrow> string \<Rightarrow> string list \<Rightarrow> reply_source list \<Rightarrow> generated_reply option" where
  "safeAutomaticCatalogueOptions L inbound recent sources =
     (let stock = rl_stock L inbound recent;
          options = rl_models L (if stock then filter in_stock sources else sources) inbound recent;
          one = length options = 1;
          opening = in_language L inbound (if one then ''I found this catalogue option:'' else ''I can offer these options:'') @ newline;
          (txt, cs) = list_options L (in_language L inbound ''in stock'') stock opening options;
          closing = in_language L inbound (if one then ''Does this option work for you?'' else ''Which option works for you?'');
          reply = \<lparr>gr_outcome = ANSWER, gr_text = txt @ closing, gr_products = map so_product options, gr_claims = cs\<rparr>
      in if options = [] then None
         else if validateReplyDraft L (Some reply) sources = None then None else Some reply)"

definition safeAutomaticResponse :: "reply_language \<Rightarrow> string \<Rightarrow> string list \<Rightarrow> reply_source list \<Rightarrow> generated_reply" where
  "safeAutomaticResponse L inbound recent sources =
     (if rl_shipping L inbound then safeAutomaticShippingClarification L inbound
      else case safeAutomaticCatalogueOptions L inbound recent sources of
          Some r \<Rightarrow> r
        | None \<Rightarrow>
            if needsPriceCheck L inbound recent sources then safeAutomaticPriceClarification L inbound
            else if rl_stock L inbound recent then safeAutomaticStockClarification L inbound
            else safeAutomaticClarification L inbound)"

end
