(* ===== verification/Claims_Props.thy ===== *)
theory Claims_Props
  imports Claims
begin

text \<open>
  What holds of a reply that the validator accepts: every number in it and every name, article
  number or variant of a product it was made from stands in a claim, claims do not overlap, and
  each says of its product what the catalogue says.
\<close>

section \<open>Numbers\<close>

lemma number_spans_complete:
  "k < length s \<Longrightarrow> digit_char (s ! k) \<Longrightarrow> \<exists>(a, b)\<in>set (number_spans i s). a \<le> i + k \<and> i + k < b"
proof (induction i s arbitrary: k rule: number_spans.induct)
  case (2 i c s)
  let ?n = "number_length (c # s)"
  show ?case
  proof (cases "digit_char c")
    case True
    show ?thesis
    proof (cases "k < ?n")
      case False
      then have "k - ?n < length (drop ?n (c # s))" "digit_char (drop ?n (c # s) ! (k - ?n))"
        using 2(3,4) by (auto simp: nth_drop)
      then obtain a b where ab: "(a, b) \<in> set (number_spans (i + ?n) (drop ?n (c # s)))" "a \<le> i + ?n + (k - ?n)" "i + ?n + (k - ?n) < b"
        using 2(1)[OF True, of "k - ?n"] by blast
      have "i + ?n + (k - ?n) = i + k" using False by simp
      then show ?thesis using ab True by (auto intro!: bexI[of _ "(a, b)"])
    qed (use True in auto)
  next
    case False
    then obtain j where j: "k = Suc j" using 2(4) by (cases k) auto
    have "j < length s" "digit_char (s ! j)" using 2(3,4) j by simp_all
    then obtain a b where "(a, b) \<in> set (number_spans (i + 1) s)" "a \<le> i + 1 + j" "i + 1 + j < b"
      using 2(2)[OF False] by blast
    then show ?thesis using False j by (auto intro!: bexI[of _ "(a, b)"])
  qed
qed simp

section \<open>Names of products\<close>

lemma index_from_first:
  assumes "i0 \<le> i" and "i < length hay" and "take (length needle) (drop i hay) = needle"
  obtains j where "index_from needle hay i0 = Some j" and "j \<le> i"
proof -
  let ?P = "\<lambda>j. take (length needle) (drop j hay) = needle"
  have "\<exists>j\<le>i. List.find ?P [i0 ..< length hay] = Some j"
  proof -
    have "List.find ?P [i0 ..< length hay] \<noteq> None" using assms by (auto simp: find_None_iff)
    then obtain j where j: "List.find ?P [i0 ..< length hay] = Some j" by blast
    then obtain k where k: "k < length [i0 ..< length hay]" "j = [i0 ..< length hay] ! k" "\<forall>l<k. \<not> ?P ([i0 ..< length hay] ! l)"
      by (auto simp: find_Some_iff)
    have "j \<le> i"
    proof (rule ccontr)
      assume "\<not> j \<le> i"
      then have "i - i0 < k" using k(1,2) assms(1) by simp
      then have "\<not> ?P ([i0 ..< length hay] ! (i - i0))" using k(3) by blast
      then show False using assms by simp
    qed
    then show ?thesis using j by blast
  qed
  then show ?thesis using that by (auto simp: index_from_def)
qed

lemma occurrences_complete:
  "0 < n \<Longrightarrow> i0 \<le> i \<Longrightarrow> i < length hay \<Longrightarrow> take (length needle) (drop i hay) = needle \<Longrightarrow>
    \<exists>j\<in>set (occurrences n needle hay i0). j \<le> i \<and> i < j + n"
proof (induction n needle hay i0 rule: occurrences.induct)
  case (1 n needle hay i0)
  obtain j where j: "index_from needle hay i0 = Some j" "j \<le> i" using index_from_first[OF 1(3,4,5)] .
  show ?case
  proof (cases "i < j + n")
    case True
    then show ?thesis using j 1(2) by (subst occurrences.simps) auto
  next
    case False
    then obtain k where "k \<in> set (occurrences n needle hay (j + n))" "k \<le> i" "i < k + n"
      using 1(1)[OF _ j(1)] 1(2,4,5) by auto
    then show ?thesis using j 1(2) by (subst occurrences.simps) auto
  qed
qed

section \<open>Claims\<close>

lemma check_claims_Some:
  "check_claims L sources r spans cs = Some out \<Longrightarrow>
    out = spans @ map (\<lambda>c. (cl_start c, cl_end c)) cs \<and> (\<forall>c\<in>set cs. claim_ok L sources r c)
    \<and> (\<forall>c\<in>set cs. \<forall>p\<in>set spans. \<not> overlaps c p)
    \<and> sorted_wrt (\<lambda>a b. \<not> overlaps b (cl_start a, cl_end a)) cs"
proof (induction cs arbitrary: spans)
  case (Cons c cs)
  then have rest: "check_claims L sources r (spans @ [(cl_start c, cl_end c)]) cs = Some out"
    and c: "claim_ok L sources r c" "\<not> list_ex (overlaps c) spans"
    by (auto split: if_splits)
  note ih = Cons.IH[OF rest]
  have "\<forall>x\<in>set cs. \<not> overlaps x (cl_start c, cl_end c)" "\<forall>x\<in>set cs. \<forall>p\<in>set spans. \<not> overlaps x p"
    using ih by auto
  then show ?case using ih c by (auto simp: list_ex_iff)
qed auto

text \<open>The claims of a reply are about its sources and do not overlap; a number or the name of
  a fact begins in a claim.\<close>

definition stands_in_claim :: "generated_reply \<Rightarrow> nat \<Rightarrow> bool" where
  "stands_in_claim r i \<longleftrightarrow> (\<exists>c\<in>set (gr_claims r). cl_start c \<le> i \<and> i < cl_end c)"

definition grounded :: "reply_language \<Rightarrow> reply_source list \<Rightarrow> generated_reply \<Rightarrow> bool" where
  "grounded L sources r \<longleftrightarrow>
     (gr_outcome r = ANSWER \<longrightarrow> gr_claims r \<noteq> [])
     \<and> (\<forall>c\<in>set (gr_claims r). cl_product c \<in> set (gr_products r)
         \<and> slice (gr_text r) (cl_start c) (cl_end c) = cl_text c
         \<and> (\<exists>s\<in>set sources. so_product s = cl_product c \<and> matchesSource L c s))
     \<and> sorted_wrt (\<lambda>a b. cl_end a \<le> cl_start b \<or> cl_end b \<le> cl_start a) (gr_claims r)
     \<and> (\<forall>i<length (gr_text r). digit_char (gr_text r ! i) \<longrightarrow> stands_in_claim r i)
     \<and> (\<forall>s\<in>set sources. \<forall>fact\<in>set (source_facts s). \<forall>i<length (rl_lower L (gr_text r)).
         take (length (rl_lower L fact)) (drop i (rl_lower L (gr_text r))) = rl_lower L fact \<longrightarrow> stands_in_claim r i)"

lemma source_by_id_in: "source_by_id sources pid = Some s \<Longrightarrow> s \<in> set sources \<and> so_product s = pid"
  using find_some_set[of _ "rev sources"] find_some_prop[of _ "rev sources"] by (fastforce simp: source_by_id_def)

lemma covered_claims:
  "covered (map (\<lambda>c. (cl_start c, cl_end c)) cs) (a, b) \<longleftrightarrow> (\<exists>c\<in>set cs. cl_start c \<le> a \<and> b \<le> cl_end c)"
  by (auto simp: covered_def list_ex_iff)

lemma validate_cases:
  assumes "validateReplyDraft L v sources = Some r"
  obtains spans where "parse_reply v = Some r" "gr_outcome r = ANSWER \<Longrightarrow> gr_claims r \<noteq> []"
    "check_claims L sources r [] (gr_claims r) = Some spans" "\<not> rl_unverified L (gr_text r)"
    "\<forall>p\<in>set (number_spans 0 (gr_text r)). covered spans p" "\<forall>p\<in>set (rl_spans L (gr_text r)). covered spans p"
    "\<forall>s\<in>set sources. facts_covered L spans (gr_text r) s"
  using assms by (auto simp: validateReplyDraft_def list_all_iff list_ex_iff split: option.splits if_splits)

lemma validated_grounded:
  assumes "validateReplyDraft L v sources = Some r"
  shows "grounded L sources r"
proof -
  obtain spans where s: "gr_outcome r = ANSWER \<Longrightarrow> gr_claims r \<noteq> []" "check_claims L sources r [] (gr_claims r) = Some spans"
    "\<forall>p\<in>set (number_spans 0 (gr_text r)). covered spans p" "\<forall>s\<in>set sources. facts_covered L spans (gr_text r) s"
    using validate_cases[OF assms] by metis
  note cs = check_claims_Some[OF s(2)]
  have spans: "spans = map (\<lambda>c. (cl_start c, cl_end c)) (gr_claims r)" using cs by simp
  have claims: "\<forall>c\<in>set (gr_claims r). cl_product c \<in> set (gr_products r)
      \<and> slice (gr_text r) (cl_start c) (cl_end c) = cl_text c
      \<and> (\<exists>s\<in>set sources. so_product s = cl_product c \<and> matchesSource L c s)"
    using cs source_by_id_in by (fastforce simp: claim_ok_def split: option.splits)
  have apart: "sorted_wrt (\<lambda>a b. cl_end a \<le> cl_start b \<or> cl_end b \<le> cl_start a) (gr_claims r)"
    by (rule sorted_wrt_mono_rel[of _ "\<lambda>a b. \<not> overlaps b (cl_start a, cl_end a)"]) (use cs in \<open>auto simp: overlaps_def\<close>)
  have numbers: "stands_in_claim r i" if i: "i < length (gr_text r)" "digit_char (gr_text r ! i)" for i
  proof -
    obtain a b where ab: "(a, b) \<in> set (number_spans 0 (gr_text r))" "a \<le> i" "i < b"
      using number_spans_complete[OF i, of 0] by auto
    have "covered spans (a, b)" using bspec[OF s(3) ab(1)] .
    then obtain c where "c \<in> set (gr_claims r)" "cl_start c \<le> a" "b \<le> cl_end c"
      unfolding spans covered_claims by blast
    then show ?thesis using ab(2,3) unfolding stands_in_claim_def by (intro bexI[of _ c]) auto
  qed
  have facts: "stands_in_claim r i"
    if f: "x \<in> set sources" "fact \<in> set (source_facts x)" "i < length (rl_lower L (gr_text r))"
      "take (length (rl_lower L fact)) (drop i (rl_lower L (gr_text r))) = rl_lower L fact" for x fact i
  proof -
    have "3 \<le> length fact" using f(2) unfolding source_facts_def set_filter by blast
    then have pos: "0 < length fact" by linarith
    obtain j where j: "j \<in> set (occurrences (length fact) (rl_lower L fact) (rl_lower L (gr_text r)) 0)" "j \<le> i" "i < j + length fact"
      using occurrences_complete[OF pos le0 f(3,4)] by blast
    have "facts_covered L spans (gr_text r) x" using bspec[OF s(4) f(1)] .
    then have "covered spans (j, j + length fact)" using f(2) j(1) by (auto simp: facts_covered_def list_all_iff)
    then obtain c where "c \<in> set (gr_claims r)" "cl_start c \<le> j" "j + length fact \<le> cl_end c"
      unfolding spans covered_claims by blast
    then show ?thesis using j(2,3) unfolding stands_in_claim_def by (intro bexI[of _ c]) auto
  qed
  show ?thesis unfolding grounded_def using s(1) claims apart numbers facts by blast
qed

text \<open>A reply that asks back is grounded when it has no numbers and names no product.\<close>

lemma options_grounded: "safeAutomaticCatalogueOptions L inbound recent sources = Some r \<Longrightarrow>
    \<exists>r'. validateReplyDraft L (Some r) sources = Some r' \<and> gr_text r' = trim (gr_text r) \<and> grounded L sources r'"
proof -
  assume o: "safeAutomaticCatalogueOptions L inbound recent sources = Some r"
  then obtain r' where r': "validateReplyDraft L (Some r) sources = Some r'"
    by (auto simp: safeAutomaticCatalogueOptions_def Let_def split: if_splits prod.splits)
  then have "parse_reply (Some r) = Some r'" using validate_cases by metis
  then have "gr_text r' = trim (gr_text r)" by (auto simp: parse_reply_def Let_def split: if_splits)
  then show ?thesis using r' validated_grounded[OF r'] by blast
qed

end
