(* ===== verification/Reply_Drafts.thy ===== *)
theory Reply_Drafts
  imports Claims
begin

text \<open>
  Drafts of replies: \<open>automatic-reply-draft.scheduler.ts\<close>, \<open>reply-draft.processor.ts\<close> and
  \<open>reply-draft.reconciler.ts\<close> of \<open>apps/worker/src/reply-drafts\<close>, the two functions of the
  database the reconciler calls, and \<open>reply-drafts.service.ts\<close> of the API.  The model that writes
  replies and the search of the catalogue are parameters; of what the provider reports about
  the use of the model nothing is kept.
\<close>

section \<open>Rows\<close>

definition active_draft :: "reply_draft \<Rightarrow> bool" where
  "active_draft r \<longleftrightarrow> rd_status r \<in> {RD_QUEUED, RD_PROCESSING}"

text \<open>The unique indexes: the key of a draft, and one active draft for a message.\<close>

definition same_draft :: "reply_draft \<Rightarrow> reply_draft \<Rightarrow> bool" where
  "same_draft r x \<longleftrightarrow> rd_id x = rd_id r
     \<or> (rd_tenant x, rd_conversation x, rd_anchor x) = (rd_tenant r, rd_conversation r, rd_anchor r)
       \<and> (rd_key x = rd_key r \<or> active_draft x \<and> active_draft r)"

definition create_draft :: "reply_draft \<Rightarrow> reply_draft dbtx" where
  "create_draft r = (\<lambda>d.
     if any_row (same_draft r) (reply_drafts d) then Inl UniqueViolation
     else Inr (r, d\<lparr>reply_drafts := reply_drafts d @ [r]\<rparr>))"

definition new_draft :: "uuid \<Rightarrow> uuid \<Rightarrow> uuid \<Rightarrow> uuid \<Rightarrow> uuid option \<Rightarrow> uuid \<Rightarrow> draft_trigger \<Rightarrow> instant \<Rightarrow> instant \<Rightarrow> reply_draft" where
  "new_draft rid t cid anchor creator key trigger available now = \<lparr>rd_id = rid, rd_tenant = t, rd_conversation = cid, rd_anchor = anchor,
     rd_creator = creator, rd_key = key, rd_trigger = trigger, rd_available = available, rd_status = RD_QUEUED, rd_outcome = None,
     rd_text = None, rd_final = None, rd_sources = None, rd_lease = None, rd_lease_expires = None, rd_model_started = None,
     rd_attempts = 0, rd_error = None, rd_outbound = None, rd_created = now, rd_used = None\<rparr>"

definition end_draft :: "draft_status \<Rightarrow> string option \<Rightarrow> reply_draft \<Rightarrow> reply_draft" where
  "end_draft s e r = r\<lparr>rd_status := s, rd_error := e, rd_lease := None, rd_lease_expires := None\<rparr>"

definition outdated :: "uuid \<Rightarrow> uuid \<Rightarrow> uuid \<Rightarrow> reply_draft \<Rightarrow> bool" where
  "outdated t cid anchor r \<longleftrightarrow> rd_tenant r = t \<and> rd_conversation r = cid \<and> rd_anchor r \<noteq> anchor
     \<and> rd_status r \<in> {RD_QUEUED, RD_PROCESSING, RD_READY}"

definition mark_outdated :: "uuid \<Rightarrow> uuid \<Rightarrow> uuid \<Rightarrow> unit dbtx" where
  "mark_outdated t cid anchor = tx_write (\<lambda>d. d\<lparr>reply_drafts := update_where (outdated t cid anchor)
     (end_draft RD_STALE (Some ''NEW_MESSAGE'')) (reply_drafts d)\<rparr>)"

definition drafts_since :: "uuid \<Rightarrow> instant \<Rightarrow> db \<Rightarrow> nat" where
  "drafts_since t since d = count_where (\<lambda>r. rd_tenant r = t \<and> since \<le> rd_created r) (reply_drafts d)"

definition active_drafts :: "uuid \<Rightarrow> db \<Rightarrow> nat" where
  "active_drafts t d = count_where (\<lambda>r. rd_tenant r = t \<and> active_draft r) (reply_drafts d)"

definition latest_text :: "uuid \<Rightarrow> uuid \<Rightarrow> db \<Rightarrow> message option" where
  "latest_text t cid d = latest_message (\<lambda>m. m_text m \<noteq> None) t cid d"

section \<open>Scheduling a draft for a message\<close>

definition quiet_period_ms :: int where
  "quiet_period_ms = 10000"

definition automatic_draft :: "uuid \<Rightarrow> uuid \<Rightarrow> uuid \<Rightarrow> reply_draft \<Rightarrow> bool" where
  "automatic_draft t anchor key r \<longleftrightarrow> rd_tenant r = t \<and> rd_anchor r = anchor \<and> rd_key r = key \<and> rd_trigger r = TR_AUTOMATIC"

text \<open>From the look for a draft that is there on; the result is a draft and whether it was there.\<close>

definition place_draft :: "uuid \<Rightarrow> message \<Rightarrow> instant \<Rightarrow> (reply_draft \<times> bool) option dbtx" where
  "place_draft t m now =
     tx_bind (tx_read (\<lambda>d. List.find (\<lambda>r. automatic_draft t (m_id m) (m_id m) r \<and> rd_conversation r = m_conversation m) (reply_drafts d))) (\<lambda>replay.
       case replay of
         Some r \<Rightarrow> tx_return (Some (r, True))
       | None \<Rightarrow>
           tx_seq (mark_outdated t (m_conversation m) (m_id m))
          (tx_bind (tx_read (\<lambda>d. 30 \<le> drafts_since t (now - 60000) d \<or> 3 \<le> active_drafts t d)) (\<lambda>many.
             if many then tx_return None
             else tx_bind fresh_id (\<lambda>rid. tx_bind
                (create_draft (new_draft rid t (m_conversation m) (m_id m) None (m_id m) TR_AUTOMATIC (now + quiet_period_ms) now)) (\<lambda>r.
                tx_return (Some (r, False)))))))"

definition schedule_tx :: "uuid \<Rightarrow> uuid \<Rightarrow> instant \<Rightarrow> (reply_draft \<times> bool) option dbtx" where
  "schedule_tx t mid now =
     tx_seq (assertTenantAcceptingMutations t CONVERSATION_REPLY)
    (tx_bind (tx_read (\<lambda>d. List.find (\<lambda>m. m_id m = mid \<and> m_tenant m = t \<and> m_direction m = INBOUND) (messages d))) (\<lambda>found.
       case found of
         None \<Rightarrow> tx_return None
       | Some m \<Rightarrow>
           if (case m_text m of Some s \<Rightarrow> trim s = [] | None \<Rightarrow> True) then tx_return None
           else tx_bind (tx_read (style_enabled t)) (\<lambda>enabled.
             if \<not> enabled then tx_return None
             else tx_bind (tx_read (latest_text t (m_conversation m))) (\<lambda>newest.
               if map_option m_id newest \<noteq> Some (m_id m) then tx_return None
               else place_draft t m now))))"

datatype schedule_result = SCHEDULED | REPLAYED | SKIPPED

text \<open>The draft and the delay of its job are a part of the result.\<close>

definition schedule :: "uuid \<Rightarrow> uuid \<Rightarrow> instant \<Rightarrow> (schedule_result \<times> (uuid \<times> int) option) dbservice" where
  "schedule t mid now = (\<lambda>d.
     let answer = (\<lambda>r d'. (Inr (case r of None \<Rightarrow> (SKIPPED, None)
           | Some (x, replayed) \<Rightarrow> (if replayed then REPLAYED else SCHEDULED, Some (rd_id x, max 0 (rd_available x - now)))), d'))
     in case run_tx (schedule_tx t mid now) d of
          (Inr r, d') \<Rightarrow> answer r d'
        | (Inl e, d') \<Rightarrow>
            if e \<noteq> UniqueViolation then (Inl e, d')
            else (case List.find (automatic_draft t mid mid) (reply_drafts d') of
                Some x \<Rightarrow> answer (Some (x, True)) d'
              | None \<Rightarrow> (Inl e, d')))"

section \<open>Drafts of the API\<close>

definition request_draft :: "uuid \<Rightarrow> uuid \<Rightarrow> uuid \<Rightarrow> uuid \<Rightarrow> uuid \<Rightarrow> instant \<Rightarrow> reply_draft dbtx" where
  "request_draft t actor cid anchor key now =
     tx_seq (mark_outdated t cid anchor)
    (tx_bind (tx_read (\<lambda>d. List.find (\<lambda>r. rd_tenant r = t \<and> rd_conversation r = cid \<and> rd_anchor r = anchor \<and> rd_key r = key) (reply_drafts d)))
       (\<lambda>replay. case replay of
         Some r \<Rightarrow> tx_return r
       | None \<Rightarrow>
     tx_bind (tx_read (\<lambda>d. List.find (\<lambda>r. rd_tenant r = t \<and> rd_conversation r = cid \<and> rd_anchor r = anchor \<and> active_draft r) (reply_drafts d)))
       (\<lambda>active. case active of
         Some r \<Rightarrow> tx_return r
       | None \<Rightarrow>
     tx_bind (tx_read (\<lambda>d. 5 \<le> count_where (\<lambda>r. rd_tenant r = t \<and> rd_creator r = Some actor \<and> now - 60000 \<le> rd_created r) (reply_drafts d)
         \<or> 30 \<le> drafts_since t (now - 60000) d \<or> 3 \<le> active_drafts t d)) (\<lambda>many.
       tx_seq (tx_when many (TooManyRequests ''AI draft rate limit exceeded''))
      (tx_bind fresh_id (\<lambda>rid. create_draft (new_draft rid t cid anchor (Some actor) key TR_MANUAL now now)))))))"

definition create_draft_tx :: "uuid \<Rightarrow> uuid \<Rightarrow> uuid \<Rightarrow> uuid \<Rightarrow> instant \<Rightarrow> reply_draft dbtx" where
  "create_draft_tx t actor cid key now =
     tx_seq (assertTenantAcceptingMutations t CONVERSATION_REPLY)
    (tx_bind (tx_read (find_conversation t cid)) (\<lambda>c.
     tx_seq (tx_when (c = None) (NotFound ''Conversation not found''))
    (tx_bind (tx_read (style_enabled t)) (\<lambda>enabled.
     tx_seq (tx_when (\<not> enabled) (Conflict ''AI drafts are disabled''))
    (tx_bind (tx_read (latest_message (\<lambda>m. True) t cid)) (\<lambda>anchor. case anchor of
         None \<Rightarrow> tx_throw (Conflict ''Conversation has no inbound message'')
       | Some m \<Rightarrow> request_draft t actor cid (m_id m) key now))))))"

definition safe_errors :: "string list" where
  "safe_errors = [''NO_SAFE_CANDIDATES'', ''UNGROUNDED_CLAIM'', ''SOURCE_CHANGED'', ''NEW_MESSAGE'', ''PROVIDER_UNAVAILABLE'',
     ''INVALID_RESPONSE'', ''FEATURE_DISABLED'', ''TENANT_FROZEN'', ''CATALOGUE_MODEL_OVERFLOW'', ''CATALOGUE_RETRIEVAL_FAILED'']"

text \<open>What the reader sees of a row.\<close>

definition toReplyDraftSummary :: "reply_draft \<Rightarrow> reply_draft" where
  "toReplyDraftSummary r = r\<lparr>rd_error := (case rd_error r of Some e \<Rightarrow> if e \<in> set safe_errors then Some e else None | None \<Rightarrow> None),
     rd_sources := Some (case rd_sources r of Some s \<Rightarrow> s | None \<Rightarrow> [])\<rparr>"

text \<open>The draft that another request made, when a unique index refuses this one.\<close>

definition raced_draft :: "uuid \<Rightarrow> uuid \<Rightarrow> uuid \<Rightarrow> db \<Rightarrow> reply_draft option" where
  "raced_draft t cid key d = (case latest_message (\<lambda>m. True) t cid d of
       None \<Rightarrow> None
     | Some m \<Rightarrow> find_sorted (\<lambda>r. (- rd_created r, - int (rd_id r)))
         (\<lambda>r. rd_tenant r = t \<and> rd_conversation r = cid \<and> rd_anchor r = m_id m \<and> (rd_key r = key \<or> active_draft r)) (reply_drafts d))"

definition create_reply_draft :: "uuid \<Rightarrow> uuid \<Rightarrow> uuid \<Rightarrow> uuid \<Rightarrow> instant \<Rightarrow> (reply_draft \<times> (uuid \<times> int) option) dbservice" where
  "create_reply_draft t actor cid key now = (\<lambda>d.
     let answer = (\<lambda>r d'. (Inr (toReplyDraftSummary r, if rd_status r = RD_QUEUED then Some (rd_id r, max 0 (rd_available r - now)) else None), d'))
     in case run_tx (create_draft_tx t actor cid key now) d of
          (Inr r, d') \<Rightarrow> answer r d'
        | (Inl e, d') \<Rightarrow>
            if e \<noteq> UniqueViolation then (Inl e, d')
            else (case raced_draft t cid key d' of Some r \<Rightarrow> answer r d' | None \<Rightarrow> (Inl e, d')))"

definition list_drafts :: "uuid \<Rightarrow> uuid \<Rightarrow> reply_draft list dbtx" where
  "list_drafts t cid = tx_read (\<lambda>d. map toReplyDraftSummary (take 5 (sort_key (\<lambda>r. (- rd_created r, - int (rd_id r)))
     (filter (\<lambda>r. rd_tenant r = t \<and> rd_conversation r = cid) (reply_drafts d)))))"

section \<open>The worker: claiming a draft\<close>

definition sanitize :: "reply_language \<Rightarrow> nat \<Rightarrow> string \<Rightarrow> string" where
  "sanitize L n v = trim (take n (rl_redact L v))"

definition last_three :: "'a list \<Rightarrow> 'a list" where
  "last_three xs = drop (length xs - 3) xs"

definition buildSafeReplyInput :: "reply_language \<Rightarrow> string \<Rightarrow> string list \<Rightarrow> string \<times> string list" where
  "buildSafeReplyInput L inbound recent = (sanitize L 600 inbound, map (sanitize L 300) (last_three recent))"

definition draft_key :: "reply_draft \<Rightarrow> uuid \<times> uuid" where
  "draft_key r = (rd_tenant r, rd_id r)"

definition update_reply_draft :: "(reply_draft \<Rightarrow> bool) \<Rightarrow> (reply_draft \<Rightarrow> reply_draft) \<Rightarrow> bool dbtx" where
  "update_reply_draft = update_one reply_drafts (\<lambda>rows d. d\<lparr>reply_drafts := rows\<rparr>)"

definition draft_lease :: "reply_draft \<Rightarrow> uuid option" where
  "draft_lease r = (if rd_status r = RD_PROCESSING then rd_lease r else None)"

definition draft_owned :: "uuid \<times> uuid \<Rightarrow> uuid \<Rightarrow> reply_draft \<Rightarrow> bool" where
  "draft_owned job lease r \<longleftrightarrow> draft_key r = job \<and> rd_status r = RD_PROCESSING \<and> rd_lease r = Some lease"

definition finish_draft :: "uuid \<times> uuid \<Rightarrow> uuid \<Rightarrow> (reply_draft \<Rightarrow> reply_draft) \<Rightarrow> bool dbtx" where
  "finish_draft job lease f = update_reply_draft (draft_owned job lease) f"

definition finish_with :: "uuid \<times> uuid \<Rightarrow> uuid \<Rightarrow> (reply_draft \<Rightarrow> reply_draft) \<Rightarrow> 'a \<Rightarrow> 'a dbtx" where
  "finish_with job lease f res = tx_bind (finish_draft job lease f) (\<lambda>_. tx_return res)"

definition draft_claimable :: "uuid \<times> uuid \<Rightarrow> instant \<Rightarrow> reply_draft \<Rightarrow> bool" where
  "draft_claimable job now r \<longleftrightarrow> draft_key r = job \<and> rd_attempts r < 3
     \<and> (rd_status r = RD_QUEUED \<and> rd_available r \<le> now
        \<or> rd_status r = RD_PROCESSING \<and> rd_model_started r = None \<and> (case rd_lease_expires r of Some x \<Rightarrow> x \<le> now | None \<Rightarrow> False))"

definition start_draft :: "uuid \<Rightarrow> instant \<Rightarrow> reply_draft \<Rightarrow> reply_draft" where
  "start_draft lease now r = r\<lparr>rd_status := RD_PROCESSING, rd_lease := Some lease, rd_lease_expires := Some (now + 300000),
     rd_attempts := rd_attempts r + 1\<rparr>"

record draft_context =
  dx_conversation :: uuid
  dx_anchor :: uuid
  dx_trigger :: draft_trigger
  dx_inbound :: string
  dx_recent :: "string list"
  dx_style :: reply_style

datatype claim_result = DC_SKIPPED | DC_DEFERRED | DC_PROCESS draft_context

definition text_or_empty :: "message \<Rightarrow> string" where
  "text_or_empty m = (case m_text m of Some s \<Rightarrow> s | None \<Rightarrow> [])"

definition recent_texts :: "uuid \<Rightarrow> uuid \<Rightarrow> uuid \<Rightarrow> db \<Rightarrow> string list" where
  "recent_texts t cid anchor d = map text_or_empty (rev (take 3 (sort_key (\<lambda>m. (- m_source_at m, - int (m_id m)))
     (filter (\<lambda>m. m_tenant m = t \<and> m_conversation m = cid \<and> m_id m \<noteq> anchor \<and> m_text m \<noteq> None) (messages d)))))"

definition draft_context_of :: "reply_language \<Rightarrow> reply_style \<Rightarrow> reply_draft \<Rightarrow> message \<Rightarrow> db \<Rightarrow> draft_context" where
  "draft_context_of L style r anchor d =
     (let (inbound, recent) = buildSafeReplyInput L (text_or_empty anchor) (recent_texts (rd_tenant r) (rd_conversation r) (m_id anchor) d)
      in \<lparr>dx_conversation = rd_conversation r, dx_anchor = rd_anchor r, dx_trigger = rd_trigger r, dx_inbound = inbound,
          dx_recent = recent, dx_style = style\<lparr>ry_guidance := fst (buildSafeReplyInput L (ry_guidance style) [])\<rparr>\<rparr>)"

text \<open>What follows a claim that went through, in the same transaction.\<close>

definition draft_claimed :: "reply_language \<Rightarrow> uuid \<times> uuid \<Rightarrow> uuid \<Rightarrow> reply_draft \<Rightarrow> claim_result dbtx" where
  "draft_claimed L job lease r =
     tx_bind (tx_read (find_style (fst job))) (\<lambda>style.
       case style of
         Some s \<Rightarrow> if ry_enabled s then
             tx_bind (tx_read (latest_text (fst job) (rd_conversation r))) (\<lambda>anchor.
               case anchor of
                 Some m \<Rightarrow> if m_id m = rd_anchor r then tx_read (\<lambda>d. DC_PROCESS (draft_context_of L s r m d))
                   else finish_with job lease (end_draft RD_STALE (Some ''NEW_MESSAGE'')) DC_SKIPPED
               | None \<Rightarrow> finish_with job lease (end_draft RD_STALE (Some ''NEW_MESSAGE'')) DC_SKIPPED)
           else finish_with job lease (end_draft RD_BLOCKED (Some ''FEATURE_DISABLED'')) DC_SKIPPED
       | None \<Rightarrow> finish_with job lease (end_draft RD_BLOCKED (Some ''FEATURE_DISABLED'')) DC_SKIPPED)"

definition claim_draft :: "reply_language \<Rightarrow> uuid \<times> uuid \<Rightarrow> uuid \<Rightarrow> instant \<Rightarrow> claim_result dbtx" where
  "claim_draft L job lease now =
     tx_seq (assertTenantAcceptingMutations (fst job) CONVERSATION_REPLY)
    (tx_bind (tx_read (\<lambda>d. List.find (\<lambda>r. draft_key r = job) (reply_drafts d))) (\<lambda>found.
       case found of
         None \<Rightarrow> tx_return DC_SKIPPED
       | Some r \<Rightarrow>
           if \<not> active_draft r \<or> 3 \<le> rd_attempts r then tx_return DC_SKIPPED
           else if rd_status r = RD_QUEUED \<and> now < rd_available r then tx_return DC_DEFERRED
           else tx_bind (update_reply_draft (draft_claimable job now) (start_draft lease now)) (\<lambda>claimed.
             if claimed then draft_claimed L job lease r else tx_return DC_SKIPPED)))"

section \<open>The worker: looking for products\<close>

datatype candidates = RetrievalFailed | ModelOverflow | Candidates "reply_source list"

datatype generator_failure = InvalidResponse | ProviderUnavailable

text \<open>The search of the catalogue with what it selects, and the model.\<close>

record draft_services =
  ds_candidates :: "uuid \<Rightarrow> string \<Rightarrow> string list \<Rightarrow> db \<Rightarrow> candidates"
  ds_generate :: "string \<Rightarrow> string list \<Rightarrow> reply_style \<Rightarrow> reply_source list \<Rightarrow> generator_failure + generated_reply option"

datatype draft_result = DR_READY | DR_BLOCKED | DR_STALE | DR_FAILED | DR_SKIPPED | DR_DEFERRED

datatype recall_result = RC_DONE draft_result | RC_PROCESS "reply_source list"

definition retrieval_error :: app_error where
  "retrieval_error = Plain ''Catalogue retrieval failed''"

definition source_snapshot :: "reply_source list \<Rightarrow> (uuid \<times> instant) list" where
  "source_snapshot sources = map (\<lambda>s. (so_product s, so_updated s)) sources"

definition set_reply :: "generated_reply \<Rightarrow> reply_draft \<Rightarrow> reply_draft" where
  "set_reply g r = (end_draft RD_READY None r)\<lparr>rd_outcome := Some (gr_outcome g), rd_text := Some (gr_text g)\<rparr>"

definition block_draft :: "string \<Rightarrow> reply_draft \<Rightarrow> reply_draft" where
  "block_draft e r = (end_draft RD_BLOCKED (Some e) r)\<lparr>rd_outcome := None, rd_text := None\<rparr>"

text \<open>More products of the model that was asked for than can be listed.\<close>

definition overflow_draft :: "reply_language \<Rightarrow> draft_context \<Rightarrow> reply_draft \<Rightarrow> reply_draft" where
  "overflow_draft L ctx r =
     (if dx_trigger ctx = TR_AUTOMATIC then set_reply (safeAutomaticClarification L (dx_inbound ctx)) r
      else block_draft ''CATALOGUE_MODEL_OVERFLOW'' r)\<lparr>rd_sources := Some []\<rparr>"

definition recall_products :: "reply_language \<Rightarrow> draft_services \<Rightarrow> uuid \<times> uuid \<Rightarrow> uuid \<Rightarrow> draft_context \<Rightarrow> recall_result dbtx" where
  "recall_products L S job lease ctx =
     tx_bind (tx_read (ds_candidates S (fst job) (dx_inbound ctx) (dx_recent ctx))) (\<lambda>found. case found of
         RetrievalFailed \<Rightarrow> tx_throw retrieval_error
       | ModelOverflow \<Rightarrow> finish_with job lease (overflow_draft L ctx) (RC_DONE (if dx_trigger ctx = TR_AUTOMATIC then DR_READY else DR_BLOCKED))
       | Candidates sources \<Rightarrow> finish_with job lease (\<lambda>r. r\<lparr>rd_sources := Some (source_snapshot sources)\<rparr>) (RC_PROCESS sources))"

definition recall_draft :: "reply_language \<Rightarrow> draft_services \<Rightarrow> uuid \<times> uuid \<Rightarrow> uuid \<Rightarrow> draft_context \<Rightarrow> recall_result dbtx" where
  "recall_draft L S job lease ctx =
     tx_seq (assertTenantAcceptingMutations (fst job) CONVERSATION_REPLY)
    (tx_bind (tx_read (\<lambda>d. any_row (draft_owned job lease) (reply_drafts d))) (\<lambda>mine.
     tx_bind (tx_read (latest_text (fst job) (dx_conversation ctx))) (\<lambda>newest.
     tx_bind (tx_read (style_enabled (fst job))) (\<lambda>enabled.
       if \<not> mine then tx_return (RC_DONE DR_SKIPPED)
       else if map_option m_id newest \<noteq> Some (dx_anchor ctx) then
         finish_with job lease (end_draft RD_STALE (Some ''NEW_MESSAGE'')) (RC_DONE DR_STALE)
       else if \<not> enabled then
         finish_with job lease (end_draft RD_BLOCKED (Some ''FEATURE_DISABLED'')) (RC_DONE DR_BLOCKED)
       else recall_products L S job lease ctx))))"

section \<open>The worker: the reply\<close>

text \<open>The one request to the model that a draft has.\<close>

definition start_model :: "uuid \<times> uuid \<Rightarrow> uuid \<Rightarrow> instant \<Rightarrow> bool dbtx" where
  "start_model job lease now = update_reply_draft (\<lambda>r. draft_owned job lease r \<and> rd_model_started r = None)
     (\<lambda>r. r\<lparr>rd_model_started := Some now\<rparr>)"

text \<open>A product that is offered is in stock, as far as the catalogue says.\<close>

definition offers_unconfirmed :: "reply_source list \<Rightarrow> generated_reply \<Rightarrow> bool" where
  "offers_unconfirmed sources g \<longleftrightarrow> gr_outcome g = ANSWER
     \<and> (gr_products g = [] \<or> list_ex (\<lambda>pid. \<not> list_ex (\<lambda>s. so_product s = pid \<and> in_stock s) sources) (gr_products g))"

definition safe_fallback :: "reply_language \<Rightarrow> string \<Rightarrow> string list \<Rightarrow> reply_source list \<Rightarrow> generated_reply option \<Rightarrow> generated_reply" where
  "safe_fallback L inbound recent sources options =
     (if rl_shipping L inbound then safeAutomaticShippingClarification L inbound
      else case options of
          Some g \<Rightarrow> g
        | None \<Rightarrow>
            if needsPriceCheck L inbound recent sources then safeAutomaticPriceClarification L inbound
            else if rl_stock L inbound recent then safeAutomaticStockClarification L inbound
            else safeAutomaticClarification L inbound)"

definition arbitrary_product :: "reply_language \<Rightarrow> string \<Rightarrow> string list \<Rightarrow> reply_source list \<Rightarrow> generated_reply \<Rightarrow> bool" where
  "arbitrary_product L inbound recent sources g \<longleftrightarrow> gr_outcome g = ANSWER \<and> 1 < length sources
     \<and> (case gr_products g of [pid] \<Rightarrow> \<not> list_ex (\<lambda>s. so_product s = pid \<and> rl_exact L s inbound recent) sources | _ \<Rightarrow> False)"

definition choose_reply :: "reply_language \<Rightarrow> draft_trigger \<Rightarrow> string \<Rightarrow> string list \<Rightarrow> reply_source list \<Rightarrow>
    generated_reply option \<Rightarrow> generated_reply option" where
  "choose_reply L trigger inbound recent sources v =
     (let automatic = trigger = TR_AUTOMATIC;
          shipping = rl_shipping L inbound;
          stock = rl_stock L inbound recent;
          options = (if automatic \<and> \<not> shipping then safeAutomaticCatalogueOptions L inbound recent sources else None);
          fallback = safe_fallback L inbound recent sources options
      in case validateReplyDraft L v sources of
           None \<Rightarrow> if automatic then Some fallback else None
         | Some g \<Rightarrow>
             let unconfirmed = stock \<and> offers_unconfirmed sources g in
             if \<not> automatic then (if unconfirmed then None else Some g)
             else if shipping \<or> needsPriceCheck L inbound recent sources \<or> stock \<and> gr_outcome g \<noteq> ANSWER \<or> unconfirmed
               \<or> options = None \<and> arbitrary_product L inbound recent sources g
               \<or> options \<noteq> None \<and> gr_outcome g = CLARIFY \<and> gr_products g = []
             then Some fallback
             else Some g)"

definition write_reply :: "generated_reply option \<Rightarrow> reply_draft \<Rightarrow> reply_draft" where
  "write_reply g = (case g of Some x \<Rightarrow> set_reply x | None \<Rightarrow> block_draft ''UNGROUNDED_CLAIM'')"

definition publish_draft :: "reply_language \<Rightarrow> uuid \<times> uuid \<Rightarrow> uuid \<Rightarrow> draft_context \<Rightarrow> reply_source list \<Rightarrow> generated_reply option \<Rightarrow> draft_result dbtx" where
  "publish_draft L job lease ctx sources v =
     tx_bind (tx_read (\<lambda>d. List.find (draft_owned job lease) (reply_drafts d))) (\<lambda>current.
     tx_bind (tx_read (tenant_frozen (fst job))) (\<lambda>frozen.
     tx_bind (tx_read (style_enabled (fst job))) (\<lambda>enabled.
     tx_bind (tx_read (latest_text (fst job) (dx_conversation ctx))) (\<lambda>newest.
     tx_bind (tx_read (sourcesCurrent (fst job) (source_snapshot sources))) (\<lambda>fresh.
       case current of
         None \<Rightarrow> tx_return DR_SKIPPED
       | Some r \<Rightarrow>
           if frozen then finish_with job lease (end_draft RD_BLOCKED (Some ''TENANT_FROZEN'')) DR_BLOCKED
           else if \<not> enabled then finish_with job lease (end_draft RD_BLOCKED (Some ''FEATURE_DISABLED'')) DR_BLOCKED
           else if map_option m_id newest \<noteq> Some (dx_anchor ctx) then finish_with job lease (end_draft RD_STALE (Some ''NEW_MESSAGE'')) DR_STALE
           else if \<not> fresh then finish_with job lease (end_draft RD_STALE (Some ''SOURCE_CHANGED'')) DR_STALE
           else let g = choose_reply L (rd_trigger r) (dx_inbound ctx) (dx_recent ctx) sources v
             in finish_with job lease (write_reply g) (if g = None then DR_BLOCKED else DR_READY))))))"

definition fail_draft :: "uuid \<times> uuid \<Rightarrow> uuid \<Rightarrow> string \<Rightarrow> draft_result dbservice" where
  "fail_draft job lease e = svc_bind (run_tx (finish_draft job lease (end_draft RD_FAILED (Some e)))) (\<lambda>_. svc_return DR_FAILED)"

text \<open>\<open>w\<close> is what others commit between the transactions of the worker.\<close>

definition generate_draft :: "reply_language \<Rightarrow> draft_services \<Rightarrow> uuid \<times> uuid \<Rightarrow> uuid \<Rightarrow> instant \<Rightarrow> (nat \<Rightarrow> db \<Rightarrow> db) \<Rightarrow>
    draft_context \<Rightarrow> reply_source list \<Rightarrow> draft_result dbservice" where
  "generate_draft L S job lease now w ctx sources =
     svc_bind (run_tx (start_model job lease now)) (\<lambda>started d.
       if \<not> started then (Inr DR_SKIPPED, d)
       else (case ds_generate S (dx_inbound ctx) (dx_recent ctx) (dx_style ctx) sources of
           Inr v \<Rightarrow> run_tx (publish_draft L job lease ctx sources v) (w 2 d)
         | Inl failure \<Rightarrow>
             if failure = InvalidResponse \<and> dx_trigger ctx = TR_AUTOMATIC
             then run_tx (publish_draft L job lease ctx sources
               (Some (safeAutomaticResponse L (dx_inbound ctx) (dx_recent ctx) sources))) (w 2 d)
             else fail_draft job lease (if failure = InvalidResponse then ''INVALID_RESPONSE'' else ''PROVIDER_UNAVAILABLE'') (w 2 d)))"

definition recall_step :: "reply_language \<Rightarrow> draft_services \<Rightarrow> uuid \<times> uuid \<Rightarrow> uuid \<Rightarrow> instant \<Rightarrow> (nat \<Rightarrow> db \<Rightarrow> db) \<Rightarrow>
    draft_context \<Rightarrow> draft_result dbservice" where
  "recall_step L S job lease now w ctx = (\<lambda>d.
     case run_tx (recall_draft L S job lease ctx) d of
       (Inr (RC_DONE res), d') \<Rightarrow> (Inr res, d')
     | (Inr (RC_PROCESS sources), d') \<Rightarrow> generate_draft L S job lease now w ctx sources (w 1 d')
     | (Inl e, d') \<Rightarrow>
         if e = retrieval_error then fail_draft job lease ''CATALOGUE_RETRIEVAL_FAILED'' d'
         else (case e of
             TenantLifecycleFrozen _ \<Rightarrow> svc_bind (run_tx (finish_draft job lease (end_draft RD_BLOCKED (Some ''TENANT_FROZEN''))))
               (\<lambda>_. svc_return DR_BLOCKED) d'
           | _ \<Rightarrow> (Inl e, d')))"

definition process_draft :: "reply_language \<Rightarrow> draft_services \<Rightarrow> uuid \<times> uuid \<Rightarrow> uuid \<Rightarrow> instant \<Rightarrow> instant \<Rightarrow> (nat \<Rightarrow> db \<Rightarrow> db) \<Rightarrow>
    draft_result dbservice" where
  "process_draft L S job lease now1 now2 w = (\<lambda>d.
     case run_tx (claim_draft L job lease now1) d of
       (Inr (DC_PROCESS ctx), d') \<Rightarrow> recall_step L S job lease now2 w ctx (w 0 d')
     | (Inr DC_SKIPPED, d') \<Rightarrow> (Inr DR_SKIPPED, d')
     | (Inr DC_DEFERRED, d') \<Rightarrow> (Inr DR_DEFERRED, d')
     | (Inl e, d') \<Rightarrow> (case e of TenantLifecycleFrozen _ \<Rightarrow> (Inr DR_SKIPPED, d') | _ \<Rightarrow> (Inl e, d')))"

section \<open>The reconciler\<close>

definition draft_due :: "instant \<Rightarrow> db \<Rightarrow> reply_draft \<Rightarrow> bool" where
  "draft_due now d r \<longleftrightarrow> draft_claimable (draft_key r) now r \<and> style_enabled (rd_tenant r) d \<and> \<not> tenant_frozen (rd_tenant r) d"

definition worker_due_ai_reply_drafts :: "instant \<Rightarrow> nat \<Rightarrow> db \<Rightarrow> reply_draft list" where
  "worker_due_ai_reply_drafts now limit d = take (sql_limit limit)
     (sort_key (\<lambda>r. (rd_available r, rd_created r, rd_id r)) (filter (draft_due now d) (reply_drafts d)))"

definition draft_expired :: "instant \<Rightarrow> reply_draft \<Rightarrow> bool" where
  "draft_expired now r \<longleftrightarrow>
     rd_status r = RD_PROCESSING \<and> (case rd_lease_expires r of Some x \<Rightarrow> x \<le> now | None \<Rightarrow> False)
       \<and> (rd_model_started r \<noteq> None \<or> 3 \<le> rd_attempts r)
     \<or> rd_status r = RD_QUEUED \<and> 3 \<le> rd_attempts r"

definition expired_ids :: "instant \<Rightarrow> nat \<Rightarrow> db \<Rightarrow> uuid list" where
  "expired_ids now limit d = map rd_id (take (sql_limit limit)
     (sort_key (\<lambda>r. (when_or_last (rd_lease_expires r), rd_id r)) (filter (draft_expired now) (reply_drafts d))))"

definition worker_fail_expired_ai_reply_drafts :: "instant \<Rightarrow> nat \<Rightarrow> nat dbtx" where
  "worker_fail_expired_ai_reply_drafts now limit = (\<lambda>d.
     let ids = expired_ids now limit d
     in Inr (count_where (\<lambda>r. rd_id r \<in> set ids) (reply_drafts d),
             d\<lparr>reply_drafts := update_where (\<lambda>r. rd_id r \<in> set ids) (end_draft RD_FAILED (Some ''PROVIDER_UNAVAILABLE'')) (reply_drafts d)\<rparr>))"

text \<open>How many were failed, tried and queued; the queue may refuse.\<close>

definition reconcile_drafts :: "(uuid \<times> uuid \<Rightarrow> bool) \<Rightarrow> instant \<Rightarrow> (nat \<times> nat \<times> nat) dbservice" where
  "reconcile_drafts queue now = svc_bind (run_tx (worker_fail_expired_ai_reply_drafts now 50)) (\<lambda>failed d.
     let rows = worker_due_ai_reply_drafts now 50 d in (Inr (failed, length rows, count_where (\<lambda>r. queue (draft_key r)) rows), d))"

end
