(* ===== verification/Reply_Drafts_Props.thy ===== *)
theory Reply_Drafts_Props
  imports Claims_Props Reply_Drafts Inbox_Props Procurement_Props
begin

text \<open>
  What holds of drafts of replies: a draft only moves forward, the model is asked once for it,
  what is offered to the staff is grounded in the catalogue as it is, and a message of the
  customer has one automatic draft within the limits of its tenant.
\<close>

section \<open>A draft moves forward\<close>

fun draft_rank :: "draft_status \<Rightarrow> nat" where
  "draft_rank RD_QUEUED = 0"
| "draft_rank RD_PROCESSING = 1"
| "draft_rank RD_READY = 2"
| "draft_rank RD_USED = 3"
| "draft_rank RD_STALE = 3"
| "draft_rank RD_BLOCKED = 3"
| "draft_rank RD_FAILED = 3"

definition draft_le :: "reply_draft \<Rightarrow> reply_draft \<Rightarrow> bool" where
  "draft_le r r' \<longleftrightarrow> (rd_id r', rd_tenant r', rd_conversation r', rd_anchor r') = (rd_id r, rd_tenant r, rd_conversation r, rd_anchor r)
     \<and> (rd_status r' = rd_status r \<or> draft_rank (rd_status r) < draft_rank (rd_status r'))
     \<and> (rd_status r = RD_READY \<longrightarrow> rd_status r' \<in> {RD_READY, RD_USED, RD_STALE})
     \<and> (rd_model_started r \<noteq> None \<longrightarrow> rd_model_started r' = rd_model_started r)
     \<and> rd_attempts r \<le> rd_attempts r' \<and> (rd_attempts r \<le> 3 \<longrightarrow> rd_attempts r' \<le> 3)
     \<and> (2 \<le> draft_rank (rd_status r) \<longrightarrow> rd_text r' = rd_text r \<and> rd_outcome r' = rd_outcome r \<and> rd_sources r' = rd_sources r)"

lemma draft_le_refl [simp]: "draft_le r r"
  by (simp add: draft_le_def)

lemma draft_le_trans:
  assumes "draft_le a b" and "draft_le b c"
  shows "draft_le a c"
proof -
  have ranks: "draft_rank (rd_status a) \<le> draft_rank (rd_status b)" using assms(1) by (auto simp: draft_le_def)
  have status: "rd_status c = rd_status a \<or> draft_rank (rd_status a) < draft_rank (rd_status c)"
    using assms ranks unfolding draft_le_def by (metis le_less_trans less_le_trans order_refl)
  have kept: "2 \<le> draft_rank (rd_status a) \<Longrightarrow> rd_text c = rd_text a \<and> rd_outcome c = rd_outcome a \<and> rd_sources c = rd_sources a"
    using assms ranks unfolding draft_le_def by simp
  have started: "rd_model_started a \<noteq> None \<Longrightarrow> rd_model_started c = rd_model_started a"
    using assms unfolding draft_le_def by simp
  have "draft_rank s \<le> 3" for s by (cases s) simp_all
  then have "rd_status b \<in> {RD_USED, RD_STALE} \<Longrightarrow> rd_status c = rd_status b"
    using assms(2) by (auto simp: draft_le_def not_less[symmetric])
  then have ready: "rd_status a = RD_READY \<Longrightarrow> rd_status c \<in> {RD_READY, RD_USED, RD_STALE}"
    using assms unfolding draft_le_def by (metis insertE insertI1 insertI2 singletonD)
  show ?thesis using assms status kept started ready unfolding draft_le_def by simp
qed

interpretation draft_rows: row_order draft_le
  by unfold_locales (auto intro: draft_le_trans)

text \<open>What a commit does to the table: rows change in place, or one is added.\<close>

inductive draft_move :: "reply_draft list \<Rightarrow> reply_draft list \<Rightarrow> bool" where
  change: "(\<And>r. r \<in> set rows \<Longrightarrow> P r \<Longrightarrow> draft_le r (f r)) \<Longrightarrow> draft_move rows (update_where P f rows)"
| create: "\<not> any_row (same_draft r) rows \<Longrightarrow> draft_move rows (rows @ [r])"

definition draft_ids :: "db \<Rightarrow> bool" where
  "draft_ids d \<longleftrightarrow> distinct (map rd_id (reply_drafts d))"

lemma draft_move_grows: "draft_move rows rows' \<Longrightarrow> grows draft_le rows rows'"
  by (induction rule: draft_move.induct) (rule draft_rows.grows_update, blast, rule draft_rows.grows_append)

lemma draft_move_ids:
  assumes "draft_move rows rows'" and "distinct (map rd_id rows)"
  shows "distinct (map rd_id rows')"
  using assms
proof (induction rule: draft_move.induct)
  case (change rows P f)
  have "map rd_id (update_where P f rows) = map rd_id rows"
    using change(1) by (induction rows) (auto simp: draft_le_def)
  then show ?case using change(2) by simp
next
  case (create r rows)
  then show ?case by (auto simp: same_draft_def)
qed

lemma end_draft_le: "draft_rank (rd_status r) < draft_rank s \<Longrightarrow> rd_status r \<noteq> RD_READY \<or> s = RD_STALE \<Longrightarrow> draft_le r (end_draft s e r)"
  by (auto simp: draft_le_def end_draft_def)

lemma draft_owned_rank: "draft_owned job lease r \<Longrightarrow> rd_status r = RD_PROCESSING"
  by (simp add: draft_owned_def)

lemma finish_draft_Inr: "finish_draft job lease f d = Inr (b, d') \<Longrightarrow>
    reply_drafts d' = update_where (draft_owned job lease) f (reply_drafts d) \<and> b = (count_where (draft_owned job lease) (reply_drafts d) = 1)
    \<and> messages d' = messages d \<and> reply_styles d' = reply_styles d \<and> lifecycle_requests d' = lifecycle_requests d \<and> products d' = products d"
  by (auto simp: finish_draft_def update_reply_draft_def update_one_def)

lemma finish_with_Inr: "finish_with job lease f x d = Inr (y, d') \<Longrightarrow> y = x
    \<and> reply_drafts d' = update_where (draft_owned job lease) f (reply_drafts d)
    \<and> messages d' = messages d \<and> reply_styles d' = reply_styles d \<and> lifecycle_requests d' = lifecycle_requests d \<and> products d' = products d"
  by (auto simp: finish_with_def tx_iff dest!: finish_draft_Inr)

text \<open>The writes of an owner.\<close>

lemma finish_with_move:
  assumes "finish_with job lease f x d = Inr (y, d')" and "\<And>r. rd_status r = RD_PROCESSING \<Longrightarrow> draft_le r (f r)"
  shows "draft_move (reply_drafts d) (reply_drafts d')"
  unfolding finish_with_Inr[OF assms(1), THEN conjunct2, THEN conjunct1]
  by (rule draft_move.change) (auto intro: assms(2) dest: draft_owned_rank)

lemma owner_writes_le:
  fixes r :: reply_draft
  assumes "rd_status r = RD_PROCESSING"
  shows "s \<notin> {RD_QUEUED, RD_PROCESSING} \<Longrightarrow> draft_le r (end_draft s e r)"
    and "draft_le r (set_reply g r)" and "draft_le r (block_draft c r)" and "draft_le r (overflow_draft L ctx r)"
    and "draft_le r (write_reply h r)" and "draft_le r (r\<lparr>rd_sources := x\<rparr>)"
proof -
  show "s \<notin> {RD_QUEUED, RD_PROCESSING} \<Longrightarrow> draft_le r (end_draft s e r)"
    using assms by (cases s) (simp_all add: draft_le_def end_draft_def)
  show set: "draft_le r (set_reply g r)" for g using assms by (simp add: draft_le_def end_draft_def set_reply_def)
  show block: "draft_le r (block_draft c r)" for c using assms by (simp add: draft_le_def end_draft_def block_draft_def)
  show "draft_le r (overflow_draft L ctx r)"
    using assms by (simp add: draft_le_def end_draft_def block_draft_def set_reply_def overflow_draft_def)
  show "draft_le r (write_reply h r)" using set block by (simp add: write_reply_def split: option.splits)
  show "draft_le r (r\<lparr>rd_sources := x\<rparr>)" using assms by (simp add: draft_le_def)
qed

section \<open>Every writer\<close>

abbreviation draft_moves :: "reply_draft list \<Rightarrow> reply_draft list \<Rightarrow> bool" where
  "draft_moves \<equiv> draft_move\<^sup>*\<^sup>*"

lemma mark_outdated_move: "mark_outdated t cid anchor d = Inr ((), d') \<Longrightarrow> draft_moves (reply_drafts d) (reply_drafts d')"
proof -
  assume "mark_outdated t cid anchor d = Inr ((), d')"
  then have "reply_drafts d' = update_where (outdated t cid anchor) (end_draft RD_STALE (Some ''NEW_MESSAGE'')) (reply_drafts d)"
    by (auto simp: mark_outdated_def tx_defs)
  moreover have "draft_le r (end_draft RD_STALE e r)" if "outdated t cid anchor r" for e r
    by (rule end_draft_le) (use that in \<open>auto simp: outdated_def\<close>)
  ultimately show ?thesis by (metis draft_move.change r_into_rtranclp)
qed

lemma create_draft_Inr: "create_draft r d = Inr (r', d') \<longleftrightarrow> r' = r \<and> \<not> any_row (same_draft r) (reply_drafts d)
    \<and> d' = d\<lparr>reply_drafts := reply_drafts d @ [r]\<rparr>"
  by (auto simp: create_draft_def)

lemma fresh_create_move:
  "tx_bind fresh_id (\<lambda>rid. create_draft (f rid)) d = Inr (r, d') \<Longrightarrow> draft_move (reply_drafts d) (reply_drafts d')"
  by (auto simp: fresh_id_def tx_bind_def create_draft_def simp del: any_row_iff split: if_splits intro: draft_move.create)

lemma place_draft_cases:
  assumes "place_draft t m now d = Inr (res, d')"
  obtains (replay) r where "res = Some (r, True)" "d' = d" "r \<in> set (reply_drafts d)"
      "List.find (\<lambda>r. automatic_draft t (m_id m) (m_id m) r \<and> rd_conversation r = m_conversation m) (reply_drafts d) = Some r"
  | (many) "res = None" "mark_outdated t (m_conversation m) (m_id m) d = Inr ((), d')"
  | (new) r d1 where "res = Some (r, False)" "mark_outdated t (m_conversation m) (m_id m) d = Inr ((), d1)"
      "drafts_since t (now - 60000) d1 < 30" "active_drafts t d1 < 3"
      "r = new_draft (next_id d1) t (m_conversation m) (m_id m) None (m_id m) TR_AUTOMATIC (now + quiet_period_ms) now"
      "\<not> any_row (same_draft r) (reply_drafts d1)"
      "d' = d1\<lparr>next_id := next_id d1 + 1, reply_drafts := reply_drafts d1 @ [r]\<rparr>"
proof (cases "List.find (\<lambda>r. automatic_draft t (m_id m) (m_id m) r \<and> rd_conversation r = m_conversation m) (reply_drafts d)")
  case (Some r)
  then show ?thesis using assms replay[of r] find_some_set[OF Some] by (auto simp: place_draft_def tx_iff)
next
  case None
  obtain d1 where d1: "mark_outdated t (m_conversation m) (m_id m) d = Inr ((), d1)"
    and rest: "(if 30 \<le> drafts_since t (now - 60000) d1 \<or> 3 \<le> active_drafts t d1 then tx_return None
        else tx_bind fresh_id (\<lambda>rid. tx_bind
           (create_draft (new_draft rid t (m_conversation m) (m_id m) None (m_id m) TR_AUTOMATIC (now + quiet_period_ms) now)) (\<lambda>r.
           tx_return (Some (r, False))))) d1 = Inr (res, d')"
    using assms None by (auto simp: place_draft_def tx_iff)
  show ?thesis
  proof (cases "30 \<le> drafts_since t (now - 60000) d1 \<or> 3 \<le> active_drafts t d1")
    case True
    then show ?thesis using rest d1 many by (auto simp: tx_defs)
  next
    case False
    then show ?thesis using rest d1 new by (auto simp: tx_iff fresh_id_def create_draft_Inr)
  qed
qed

lemma place_draft_moves:
  assumes "place_draft t m now d = Inr (res, d')"
  shows "draft_moves (reply_drafts d) (reply_drafts d')"
  using assms
proof (cases rule: place_draft_cases)
  case (new r d1)
  have "draft_move (reply_drafts d1) (reply_drafts d1 @ [r])" using new(6) by (rule draft_move.create)
  then show ?thesis using mark_outdated_move[OF new(2)] new(7) by (simp add: rtranclp.rtrancl_into_rtrancl)
qed (auto intro: mark_outdated_move)

lemma schedule_tx_cases:
  assumes "schedule_tx t mid now d = Inr (res, d')"
  obtains (skip) "res = None" "d' = d"
  | (place) m where "\<not> tenant_frozen t d" "List.find (\<lambda>m. m_id m = mid \<and> m_tenant m = t \<and> m_direction m = INBOUND) (messages d) = Some m"
      "style_enabled t d" "map_option m_id (latest_text t (m_conversation m) d) = Some (m_id m)" "place_draft t m now d = Inr (res, d')"
  using assms by (auto simp: schedule_tx_def tx_iff split: option.splits if_splits)

lemma schedule_tx_moves:
  assumes "schedule_tx t mid now d = Inr (res, d')"
  shows "draft_moves (reply_drafts d) (reply_drafts d')"
  using assms by (cases rule: schedule_tx_cases) (auto intro: place_draft_moves)

lemma create_draft_tx_moves:
  assumes "create_draft_tx t actor cid key now d = Inr (r, d')"
  shows "draft_moves (reply_drafts d) (reply_drafts d')"
proof -
  obtain anchor where req: "request_draft t actor cid anchor key now d = Inr (r, d')"
    using assms by (auto simp: create_draft_tx_def tx_iff split: option.splits)
  obtain d1 where d1: "mark_outdated t cid anchor d = Inr ((), d1)"
    and cases: "d' = d1 \<or> tx_bind fresh_id (\<lambda>rid. create_draft (new_draft rid t cid anchor (Some actor) key TR_MANUAL now now)) d1 = Inr (r, d')"
    using req unfolding request_draft_def by (auto simp: tx_iff split: option.splits)
  show ?thesis using cases mark_outdated_move[OF d1] fresh_create_move[of _ d1 r d'] by (auto intro: rtranclp.rtrancl_into_rtrancl)
qed

lemma start_draft_le: "draft_claimable job now r \<Longrightarrow> draft_le r (start_draft lease now r)"
  by (auto simp: draft_claimable_def draft_le_def start_draft_def)

lemma finish_with_moves:
  "finish_with job lease f x d = Inr (y, d') \<Longrightarrow> (\<And>r. rd_status r = RD_PROCESSING \<Longrightarrow> draft_le r (f r)) \<Longrightarrow>
    draft_moves (reply_drafts d) (reply_drafts d')"
  using finish_with_move by (rule r_into_rtranclp)

lemma draft_claimed_moves:
  assumes "draft_claimed L job lease r d = Inr (x, d')"
  shows "draft_moves (reply_drafts d) (reply_drafts d')"
  using assms by (auto simp: draft_claimed_def tx_iff split: option.splits if_splits elim!: finish_with_moves intro: owner_writes_le)

lemma claim_draft_cases:
  assumes "claim_draft L job lease now d = Inr (x, d')"
  obtains (idle) "d' = d" "x \<in> {DC_SKIPPED, DC_DEFERRED}"
  | (refused) "x = DC_SKIPPED" "update_reply_draft (draft_claimable job now) (start_draft lease now) d = Inr (False, d')"
  | (claimed) r d1 where "List.find (\<lambda>r. draft_key r = job) (reply_drafts d) = Some r" "active_draft r" "\<not> tenant_frozen (fst job) d"
      "update_reply_draft (draft_claimable job now) (start_draft lease now) d = Inr (True, d1)" "draft_claimed L job lease r d1 = Inr (x, d')"
  using assms by (auto simp: claim_draft_def tx_iff split: option.splits if_splits)

lemma update_reply_draft_Inr: "update_reply_draft P f d = Inr (b, d') \<longleftrightarrow>
    b = (count_where P (reply_drafts d) = 1) \<and> d' = d\<lparr>reply_drafts := update_where P f (reply_drafts d)\<rparr>"
  by (auto simp: update_reply_draft_def update_one_def)

lemma claim_move:
  assumes "update_reply_draft (draft_claimable job now) (start_draft lease now) d = Inr (b, d')"
  shows "draft_moves (reply_drafts d) (reply_drafts d')"
proof -
  have "reply_drafts d' = update_where (draft_claimable job now) (start_draft lease now) (reply_drafts d)"
    using assms by (auto simp: update_reply_draft_Inr)
  then show ?thesis using draft_move.change[of "reply_drafts d" "draft_claimable job now" "start_draft lease now"] start_draft_le by auto
qed

lemma claim_draft_moves:
  assumes "claim_draft L job lease now d = Inr (x, d')"
  shows "draft_moves (reply_drafts d) (reply_drafts d')"
  using assms
proof (cases rule: claim_draft_cases)
  case (claimed r d1)
  show ?thesis using claim_move[OF claimed(4)] draft_claimed_moves[OF claimed(5)] by (rule rtranclp_trans)
qed (auto intro: claim_move)

lemma recall_draft_moves:
  assumes "recall_draft L S job lease ctx d = Inr (x, d')"
  shows "draft_moves (reply_drafts d) (reply_drafts d')"
  using assms by (auto simp: recall_draft_def recall_products_def tx_iff split: candidates.splits if_splits elim!: finish_with_moves intro: owner_writes_le)

lemma publish_draft_moves:
  assumes "publish_draft L job lease ctx sources v d = Inr (x, d')"
  shows "draft_moves (reply_drafts d) (reply_drafts d')"
  using assms by (auto simp: publish_draft_def Let_def tx_iff split: option.splits if_splits elim!: finish_with_moves intro: owner_writes_le)

lemma start_model_move:
  assumes "start_model job lease now d = Inr (b, d')"
  shows "draft_move (reply_drafts d) (reply_drafts d')"
proof -
  have d': "reply_drafts d' = update_where (\<lambda>r. draft_owned job lease r \<and> rd_model_started r = None) (\<lambda>r. r\<lparr>rd_model_started := Some now\<rparr>) (reply_drafts d)"
    using assms by (auto simp: start_model_def update_reply_draft_Inr)
  show ?thesis unfolding d' by (rule draft_move.change) (auto simp: draft_le_def draft_owned_def)
qed

lemma sweep_move:
  assumes "worker_fail_expired_ai_reply_drafts now limit d = Inr (n, d')" and "draft_ids d"
  shows "draft_move (reply_drafts d) (reply_drafts d')"
proof -
  have d': "reply_drafts d' = update_where (\<lambda>r. rd_id r \<in> set (expired_ids now limit d)) (end_draft RD_FAILED (Some ''PROVIDER_UNAVAILABLE'')) (reply_drafts d)"
    using assms(1) by (auto simp: worker_fail_expired_ai_reply_drafts_def Let_def)
  show ?thesis unfolding d'
  proof (rule draft_move.change)
    fix r assume r: "r \<in> set (reply_drafts d)" "rd_id r \<in> set (expired_ids now limit d)"
    then obtain x where x: "rd_id x = rd_id r" "x \<in> set (reply_drafts d)" "draft_expired now x"
      by (auto simp: expired_ids_def dest!: in_set_takeD)
    have "x = r" using assms(2) x(1,2) r(1) by (auto simp: draft_ids_def distinct_map inj_on_def)
    then show "draft_le r (end_draft RD_FAILED (Some ''PROVIDER_UNAVAILABLE'') r)"
      using x(3) by (intro end_draft_le) (auto simp: draft_expired_def)
  qed
qed

lemma send_tx_moves:
  assumes "send_tx gate t actor cid input now d = Inr (res, d')" and "draft_ids d"
  shows "draft_moves (reply_drafts d) (reply_drafts d')"
  using assms(1)
proof (cases rule: send_tx_cases)
  case (stale x anchor why)
  show ?thesis
  proof (rule check_draft_Inr[OF stale(3)])
    fix r assume r: "r \<in> set (reply_drafts d)" "rd_id r = x" "rd_status r = RD_READY"
      and d': "d' = (case Some why of None \<Rightarrow> d | Some w \<Rightarrow> d\<lparr>reply_drafts := update_where (\<lambda>r. rd_id r = x) (mark_stale w) (reply_drafts d)\<rparr>)"
    have "draft_move (reply_drafts d) (update_where (\<lambda>r. rd_id r = x) (mark_stale why) (reply_drafts d))"
    proof (rule draft_move.change)
      fix q assume q: "q \<in> set (reply_drafts d)" "rd_id q = x"
      have "q = r" using assms(2) q r(1,2) by (auto simp: draft_ids_def distinct_map inj_on_def)
      then show "draft_le q (mark_stale why q)" using r(3) by (simp add: draft_le_def mark_stale_def)
    qed
    then show ?thesis using d' by auto
  qed
next
  case (accepted conv anchor sender m)
  have used: "draft_move rs (update_where (used_draft t cid x a) (mark_used s i now) rs)" for x a s i rs
    by (rule draft_move.change) (auto simp: used_draft_def mark_used_def draft_le_def)
  show ?thesis using accept_reply_Inr(7)[OF accepted(7)] used by (auto split: option.splits)
qed auto

text \<open>Everything that happens to drafts: the methods of the API, the scheduler, the
  transactions of any number of workers, the reconciler, and what leaves the table alone.\<close>

inductive draft_step :: "db \<Rightarrow> db \<Rightarrow> bool" where
  scheduled: "schedule_tx t mid now d = Inr (x, d') \<Longrightarrow> draft_step d d'"
| requested: "create_draft_tx t actor cid key now d = Inr (r, d') \<Longrightarrow> draft_step d d'"
| claimed: "claim_draft L job lease now d = Inr (c, d') \<Longrightarrow> draft_step d d'"
| recalled: "recall_draft L S job lease ctx d = Inr (q, d') \<Longrightarrow> draft_step d d'"
| asked: "start_model job lease now d = Inr (b, d') \<Longrightarrow> draft_step d d'"
| published: "publish_draft L job lease ctx sources v d = Inr (res, d') \<Longrightarrow> draft_step d d'"
| given_up: "s \<in> {RD_FAILED, RD_BLOCKED} \<Longrightarrow> finish_draft job lease (end_draft s e) d = Inr (b, d') \<Longrightarrow> draft_step d d'"
| swept: "worker_fail_expired_ai_reply_drafts now limit d = Inr (n, d') \<Longrightarrow> draft_step d d'"
| replied: "send_tx gate t actor cid input now d = Inr (out, d') \<Longrightarrow> draft_step d d'"
| other: "reply_drafts d' = reply_drafts d \<Longrightarrow> draft_step d d'"

lemma finish_draft_moves:
  assumes "finish_draft job lease f d = Inr (b, d')" and "\<And>r. rd_status r = RD_PROCESSING \<Longrightarrow> draft_le r (f r)"
  shows "draft_moves (reply_drafts d) (reply_drafts d')"
proof -
  have "finish_with job lease f () d = Inr ((), d')" using assms(1) by (simp add: finish_with_def tx_bind_def tx_defs)
  then show ?thesis using assms(2) by (rule finish_with_moves)
qed

lemma draft_step_moves: "draft_step d d' \<Longrightarrow> draft_ids d \<Longrightarrow> draft_moves (reply_drafts d) (reply_drafts d')"
proof (induction rule: draft_step.induct)
  case (given_up s job lease e d b d')
  show ?case by (rule finish_draft_moves[OF given_up(2)]) (use given_up(1) in \<open>auto intro: owner_writes_le\<close>)
next
  case (asked job lease now d b d')
  then show ?case using start_model_move by blast
next
  case (swept now limit d n d')
  then show ?case using sweep_move by blast
qed (auto intro: schedule_tx_moves create_draft_tx_moves claim_draft_moves recall_draft_moves publish_draft_moves send_tx_moves)

lemma draft_moves_grow: "draft_moves rows rows' \<Longrightarrow> grows draft_le rows rows'"
proof (induction rule: rtranclp_induct)
  case (step y z)
  show ?case using step.IH draft_move_grows[OF step.hyps(2)] by (rule draft_rows.grows_trans)
qed (rule draft_rows.grows_refl)

lemma draft_moves_ids: "draft_moves rows rows' \<Longrightarrow> distinct (map rd_id rows) \<Longrightarrow> distinct (map rd_id rows')"
  by (induction rule: rtranclp_induct) (auto intro: draft_move_ids)

lemma draft_steps:
  assumes "draft_step\<^sup>*\<^sup>* d d'" and "draft_ids d"
  shows "grows draft_le (reply_drafts d) (reply_drafts d') \<and> draft_ids d'"
  using assms(1)
proof (induction rule: rtranclp_induct)
  case (step y z)
  have "draft_moves (reply_drafts y) (reply_drafts z)" using draft_step_moves[OF step.hyps(2)] step.IH by blast
  then show ?case using step.IH draft_moves_grow draft_moves_ids draft_rows.grows_trans unfolding draft_ids_def by blast
qed (use assms(2) draft_rows.grows_refl in auto)

lemma draft_of_id:
  assumes "draft_step\<^sup>*\<^sup>* d d'" and "draft_ids d" and "r \<in> set (reply_drafts d)"
  shows "\<exists>r'\<in>set (reply_drafts d'). draft_le r r' \<and> (\<forall>x\<in>set (reply_drafts d'). rd_id x = rd_id r \<longrightarrow> x = r')"
proof -
  have g: "grows draft_le (reply_drafts d) (reply_drafts d')" "draft_ids d'" using draft_steps[OF assms(1,2)] by auto
  have "List.find (\<lambda>x. rd_id x = rd_id r) (reply_drafts d) = Some r"
    using find_row_unique[of rd_id "reply_drafts d" r] assms(2,3) by (simp add: draft_ids_def)
  then obtain r' where r': "List.find (\<lambda>x. rd_id x = rd_id r) (reply_drafts d') = Some r'" "draft_le r r'"
    using draft_rows.grows_find[OF g(1), of "\<lambda>x. rd_id x = rd_id r"] by (auto simp: draft_le_def)
  have "r' \<in> set (reply_drafts d')" "rd_id r' = rd_id r" using find_some_set[OF r'(1)] find_some_prop[OF r'(1)] by auto
  moreover have "\<forall>x\<in>set (reply_drafts d'). rd_id x = rd_id r \<longrightarrow> x = r'"
    using g(2) calculation by (auto simp: draft_ids_def distinct_map inj_on_def)
  ultimately show ?thesis using r'(2) by blast
qed

text \<open>A draft that a worker holds, one that waits, and a product they are about.\<close>

definition draft_sample :: "draft_trigger \<Rightarrow> draft_status \<Rightarrow> uuid option \<Rightarrow> reply_draft" where
  "draft_sample trigger s lease = \<lparr>rd_id = 80, rd_tenant = 7, rd_conversation = 60, rd_anchor = 71, rd_creator = Some 3, rd_key = 81,
     rd_trigger = trigger, rd_available = 2000, rd_status = s, rd_outcome = None, rd_text = None, rd_final = None, rd_sources = None,
     rd_lease = lease, rd_lease_expires = None, rd_model_started = None, rd_attempts = 0, rd_error = None, rd_outbound = None,
     rd_created = 2000, rd_used = None\<rparr>"

definition drafts_db :: "reply_draft list \<Rightarrow> db" where
  "drafts_db rows = asked_db\<lparr>reply_drafts := rows\<rparr>"

lemmas draft_simps = drafts_db_def draft_sample_def asked_db_def inbox_simps new_inbound_def

text \<open>C30.
  The model is asked at most once for a draft.  Once a worker has recorded that it asks, no
  worker records it again, whatever happens in between, under whatever lease: not even after
  the first one died, when the draft is only given up.\<close>

theorem model_asked_once:
  assumes "draft_ids d" and "start_model job lease now d = Inr (True, d1)" and "draft_step\<^sup>*\<^sup>* d1 d2"
  shows "start_model job lease2 now2 d2 = Inr (False, d2)
    \<and> (\<forall>L now3 ctx d3. claim_draft L job lease2 now3 d2 \<noteq> Inr (DC_PROCESS ctx, d3))"
proof -
  let ?P = "\<lambda>r. draft_owned job lease r \<and> rd_model_started r = None"
  let ?f = "\<lambda>r. r\<lparr>rd_model_started := Some now\<rparr>"
  have s: "count_where ?P (reply_drafts d) = 1" "reply_drafts d1 = update_where ?P ?f (reply_drafts d)"
    using assms(2) by (auto simp: start_model_def update_reply_draft_Inr)
  obtain r where r: "r \<in> set (reply_drafts d)" "?P r"
    using s(1) count_where_0_iff[of ?P "reply_drafts d"] by force
  have r1: "?f r \<in> set (reply_drafts d1)" unfolding s(2) set_update_where using r by (intro image_eqI[of _ _ r]) auto
  have ids: "draft_ids d1" using draft_step_moves[OF draft_step.asked[OF assms(2)] assms(1)] draft_moves_ids assms(1) by (auto simp: draft_ids_def)
  obtain r2 where r2: "r2 \<in> set (reply_drafts d2)" "draft_le (?f r) r2" "\<forall>x\<in>set (reply_drafts d2). rd_id x = rd_id (?f r) \<longrightarrow> x = r2"
    using draft_of_id[OF assms(3) ids r1] by blast
  have job: "rd_id r = snd job" using r(2) by (auto simp: draft_owned_def draft_key_def)
  have started: "rd_model_started r2 = Some now" using r2(2) by (simp add: draft_le_def)
  have only: "rd_model_started x = Some now \<and> rd_status x \<noteq> RD_QUEUED" if "x \<in> set (reply_drafts d2)" "draft_key x = job" for x
  proof -
    have "x = r2" using r2(3) that job by (auto simp: draft_key_def)
    moreover have "rd_status r2 \<noteq> RD_QUEUED" using r2(2) r(2) by (auto simp: draft_le_def draft_owned_def)
    ultimately show ?thesis using started by simp
  qed
  have none: "\<not> (draft_owned job lease2 x \<and> rd_model_started x = None)" if "x \<in> set (reply_drafts d2)" for x
    using only[OF that] by (auto simp: draft_owned_def)
  then have "start_model job lease2 now2 d2 = Inr (False, d2)"
    using count_where_0_iff[of "\<lambda>x. draft_owned job lease2 x \<and> rd_model_started x = None" "reply_drafts d2"]
      update_where_none[of "reply_drafts d2" "\<lambda>x. draft_owned job lease2 x \<and> rd_model_started x = None"]
    by (simp add: start_model_def update_reply_draft_def update_one_def)
  moreover have "claim_draft L job lease2 now3 d2 \<noteq> Inr (DC_PROCESS ctx, d3)" for L now3 ctx d3
  proof
    assume "claim_draft L job lease2 now3 d2 = Inr (DC_PROCESS ctx, d3)"
    then show False
    proof (cases rule: claim_draft_cases)
      case (claimed q d4)
      have "\<not> draft_claimable job now3 x" if "x \<in> set (reply_drafts d2)" for x
        using only[OF that] by (auto simp: draft_claimable_def)
      then have "count_where (draft_claimable job now3) (reply_drafts d2) = 0" by (simp add: count_where_0_iff)
      then show False using claimed(4) by (simp add: update_reply_draft_Inr)
    qed auto
  qed
  ultimately show ?thesis by blast
qed

theorem model_asked_once_witness:
  "\<exists>d1. start_model (7, 80) 5 4000 (drafts_db [draft_sample TR_MANUAL RD_PROCESSING (Some 5)]) = Inr (True, d1)
    \<and> start_model (7, 80) 5 9000 d1 = Inr (False, d1)"
proof -
  let ?d = "drafts_db [draft_sample TR_MANUAL RD_PROCESSING (Some 5)]"
  have "draft_ids ?d" by (simp add: draft_ids_def drafts_db_def)
  moreover obtain d1 where d1: "start_model (7, 80) 5 4000 ?d = Inr (True, d1)"
    by (simp add: start_model_def update_reply_draft_def update_one_def draft_owned_def draft_key_def draft_simps)
  ultimately show ?thesis using model_asked_once[of ?d "(7, 80)" 5 4000 d1 d1 5 9000] by blast
qed

text \<open>C31.
  A draft only moves forward, whatever the API, the workers and the reconciler do: it stays the
  draft of its message, one that is ready keeps its text and its sources until it is used or
  outdated, one that is over is over, and it is tried at most three times.\<close>

theorem drafts_move_forward:
  assumes "draft_ids d" and "draft_step\<^sup>*\<^sup>* d d'" and "r \<in> set (reply_drafts d)"
  shows "\<exists>r'\<in>set (reply_drafts d'). (rd_id r', rd_tenant r', rd_conversation r', rd_anchor r') = (rd_id r, rd_tenant r, rd_conversation r, rd_anchor r)
    \<and> (rd_status r' = rd_status r \<or> draft_rank (rd_status r) < draft_rank (rd_status r'))
    \<and> (rd_status r = RD_READY \<longrightarrow> rd_text r' = rd_text r \<and> rd_sources r' = rd_sources r \<and> rd_status r' \<in> {RD_READY, RD_USED, RD_STALE})
    \<and> (rd_attempts r \<le> 3 \<longrightarrow> rd_attempts r' \<le> 3)
    \<and> (\<forall>x\<in>set (reply_drafts d'). rd_id x = rd_id r \<longrightarrow> x = r')"
proof -
  obtain r' where r': "r' \<in> set (reply_drafts d')" "draft_le r r'" "\<forall>x\<in>set (reply_drafts d'). rd_id x = rd_id r \<longrightarrow> x = r'"
    using draft_of_id[OF assms(2,1,3)] by blast
  show ?thesis by (rule bexI[OF _ r'(1)]) (use r'(2,3) in \<open>simp add: draft_le_def\<close>)
qed

theorem drafts_move_forward_witness:
  "\<exists>d' r'. start_model (7, 80) 5 4000 (drafts_db [draft_sample TR_MANUAL RD_PROCESSING (Some 5)]) = Inr (True, d')
    \<and> r' \<in> set (reply_drafts d') \<and> rd_id r' = 80 \<and> rd_anchor r' = 71 \<and> rd_attempts r' \<le> 3"
proof -
  let ?r = "draft_sample TR_MANUAL RD_PROCESSING (Some 5)"
  let ?d = "drafts_db [?r]"
  have ids: "draft_ids ?d" and row: "?r \<in> set (reply_drafts ?d)" by (simp_all add: draft_ids_def drafts_db_def)
  obtain d' where d': "start_model (7, 80) 5 4000 ?d = Inr (True, d')"
    by (simp add: start_model_def update_reply_draft_def update_one_def draft_owned_def draft_key_def draft_simps)
  have "draft_step\<^sup>*\<^sup>* ?d d'" using draft_step.asked[OF d'] by blast
  from drafts_move_forward[OF ids this row] show ?thesis using d' by (auto simp: draft_sample_def)
qed

section \<open>What is offered to the staff\<close>

text \<open>A reply that only asks back; a reply that may be offered.\<close>

definition asks_back :: "reply_language \<Rightarrow> string \<Rightarrow> generated_reply \<Rightarrow> bool" where
  "asks_back L inbound g \<longleftrightarrow> g \<in> {safeAutomaticShippingClarification L inbound, safeAutomaticClarification L inbound,
     safeAutomaticStockClarification L inbound, safeAutomaticPriceClarification L inbound}"

definition sound_reply :: "reply_language \<Rightarrow> string \<Rightarrow> string list \<Rightarrow> reply_source list \<Rightarrow> generated_reply \<Rightarrow> bool" where
  "sound_reply L inbound recent sources g \<longleftrightarrow>
     (asks_back L inbound g \<or> (\<exists>g0. grounded L sources g0 \<and> gr_text g0 \<in> {gr_text g, trim (gr_text g)} \<and> gr_products g0 = gr_products g))
     \<and> (rl_stock L inbound recent \<and> gr_outcome g = ANSWER \<longrightarrow>
         (\<forall>pid\<in>set (gr_products g). \<exists>s\<in>set sources. so_product s = pid \<and> in_stock s))"

lemma asks_back_sound:
  assumes "asks_back L inbound g"
  shows "sound_reply L inbound recent sources g"
proof -
  have "gr_outcome g = CLARIFY" using assms
    by (auto simp: asks_back_def safeAutomaticClarification_def safeAutomaticShippingClarification_def
        safeAutomaticStockClarification_def safeAutomaticPriceClarification_def clarification_def split: if_splits)
  then show ?thesis using assms by (simp add: sound_reply_def)
qed

lemma options_sound:
  assumes "safeAutomaticCatalogueOptions L inbound recent sources = Some g"
    and "\<And>ss i r. set (rl_models L ss i r) \<subseteq> set ss"
  shows "sound_reply L inbound recent sources g"
proof -
  obtain r' where r': "validateReplyDraft L (Some g) sources = Some r'" "gr_text r' = trim (gr_text g)" "grounded L sources r'"
    using options_grounded[OF assms(1)] by blast
  then have "parse_reply (Some g) = Some r'" using validate_cases by metis
  then have "gr_products r' = gr_products g" by (auto simp: parse_reply_def Let_def split: if_splits)
  moreover have "\<forall>pid\<in>set (gr_products g). \<exists>s\<in>set sources. so_product s = pid \<and> in_stock s" if stock: "rl_stock L inbound recent"
  proof -
    have "gr_products g = map so_product (rl_models L (filter in_stock sources) inbound recent)"
      using assms(1) stock by (auto simp: safeAutomaticCatalogueOptions_def Let_def split: if_splits prod.splits)
    then show ?thesis using assms(2)[of "filter in_stock sources" inbound recent] by auto
  qed
  ultimately show ?thesis using r'(2,3) unfolding sound_reply_def by blast
qed

lemma fallback_sound:
  assumes "options = None \<or> options = safeAutomaticCatalogueOptions L inbound recent sources"
    and "\<And>ss i r. set (rl_models L ss i r) \<subseteq> set ss"
  shows "sound_reply L inbound recent sources (safe_fallback L inbound recent sources options)"
proof (cases "asks_back L inbound (safe_fallback L inbound recent sources options)")
  case True
  then show ?thesis by (rule asks_back_sound)
next
  case False
  then obtain g where g: "options = Some g" "safe_fallback L inbound recent sources options = g"
    by (cases options) (auto simp: safe_fallback_def asks_back_def split: if_splits)
  then show ?thesis using options_sound assms by auto
qed

lemma validated_sound:
  assumes "validateReplyDraft L v sources = Some g" and "\<not> (rl_stock L inbound recent \<and> offers_unconfirmed sources g)"
  shows "sound_reply L inbound recent sources g"
  using validated_grounded[OF assms(1)] assms(2) unfolding sound_reply_def offers_unconfirmed_def list_ex_iff by blast

lemma choose_reply_sound:
  assumes "choose_reply L trigger inbound recent sources v = Some g" and "\<And>ss i r. set (rl_models L ss i r) \<subseteq> set ss"
  shows "sound_reply L inbound recent sources g"
proof -
  let ?options = "if trigger = TR_AUTOMATIC \<and> \<not> rl_shipping L inbound then safeAutomaticCatalogueOptions L inbound recent sources else None"
  have "g = safe_fallback L inbound recent sources ?options
      \<or> validateReplyDraft L v sources = Some g \<and> \<not> (rl_stock L inbound recent \<and> offers_unconfirmed sources g)"
    using assms(1) unfolding choose_reply_def Let_def
    by (cases "validateReplyDraft L v sources") (simp_all del: if_split add: if_distrib split: if_split_asm)
  then show ?thesis
  proof
    assume "g = safe_fallback L inbound recent sources ?options"
    then show ?thesis using fallback_sound[of ?options L inbound recent sources] assms(2) by auto
  qed (rule validated_sound, auto)
qed

lemma draft_claimed_process:
  assumes "draft_claimed L job lease r d = Inr (DC_PROCESS ctx, d')"
  shows "dx_conversation ctx = rd_conversation r \<and> dx_anchor ctx = rd_anchor r"
  using assms by (auto simp: draft_claimed_def tx_iff draft_context_of_def Let_def split: option.splits if_splits prod.splits
      dest!: finish_with_Inr)

lemma claim_draft_process:
  assumes "claim_draft L job lease now d = Inr (DC_PROCESS ctx, d')"
  shows "\<exists>r\<in>set (reply_drafts d). draft_key r = job \<and> dx_conversation ctx = rd_conversation r \<and> dx_anchor ctx = rd_anchor r"
  using assms
proof (cases rule: claim_draft_cases)
  case (claimed r d1)
  then show ?thesis using draft_claimed_process[OF claimed(5)] find_some_set[OF claimed(1)] find_some_prop[OF claimed(1)] by auto
qed auto

text \<open>The state in which a draft became ready.\<close>

definition ready_in :: "reply_language \<Rightarrow> uuid \<times> uuid \<Rightarrow> draft_context \<Rightarrow> db \<Rightarrow> bool" where
  "ready_in L job ctx d \<longleftrightarrow> (\<exists>r\<in>set (reply_drafts d). \<exists>sources g. draft_key r = job \<and> rd_status r = RD_READY
     \<and> rd_text r = Some (gr_text g) \<and> rd_outcome r = Some (gr_outcome g)
     \<and> map_option m_id (latest_text (fst job) (dx_conversation ctx) d) = Some (dx_anchor ctx)
     \<and> sound_reply L (dx_inbound ctx) (dx_recent ctx) sources g \<and> sourcesCurrent (fst job) (source_snapshot sources) d
     \<and> style_enabled (fst job) d \<and> \<not> tenant_frozen (fst job) d)"

lemma finished_row:
  assumes "finish_with job lease f x d = Inr (y, d')" and "r \<in> set (reply_drafts d)" and "draft_owned job lease r"
  shows "f r \<in> set (reply_drafts d')"
  using finish_with_Inr[OF assms(1)] assms(2,3) by (auto simp: set_update_where intro!: image_eqI[of _ _ r])

lemma finish_with_frame:
  assumes "finish_with job lease f x d = Inr (y, d')"
  shows "latest_text t cid d' = latest_text t cid d" and "style_enabled t d' = style_enabled t d"
    and "tenant_frozen t d' = tenant_frozen t d" and "sourcesCurrent t ss d' = sourcesCurrent t ss d"
  using finish_with_Inr[OF assms]
  by (simp_all add: latest_text_def latest_message_def style_enabled_def find_style_def tenant_frozen_def sourcesCurrent_def)

lemma publish_ready:
  assumes "publish_draft L job lease ctx sources v d = Inr (DR_READY, d')" and "\<And>ss i r. set (rl_models L ss i r) \<subseteq> set ss"
  shows "ready_in L job ctx d'"
proof -
  obtain r g where r: "List.find (draft_owned job lease) (reply_drafts d) = Some r"
    and g: "choose_reply L (rd_trigger r) (dx_inbound ctx) (dx_recent ctx) sources v = Some g"
    and st: "\<not> tenant_frozen (fst job) d" "style_enabled (fst job) d" "map_option m_id (latest_text (fst job) (dx_conversation ctx) d) = Some (dx_anchor ctx)"
      "sourcesCurrent (fst job) (source_snapshot sources) d"
    and fin: "finish_with job lease (write_reply (Some g)) DR_READY d = Inr (DR_READY, d')"
    using assms(1) by (auto simp: publish_draft_def tx_iff Let_def split: option.splits if_splits dest: finish_with_Inr)
  have row: "r \<in> set (reply_drafts d)" "draft_owned job lease r" using find_some_set[OF r] find_some_prop[OF r] by auto
  have "write_reply (Some g) r \<in> set (reply_drafts d')" by (rule finished_row[OF fin row])
  moreover have "draft_key (write_reply (Some g) r) = job \<and> rd_status (write_reply (Some g) r) = RD_READY
      \<and> rd_text (write_reply (Some g) r) = Some (gr_text g) \<and> rd_outcome (write_reply (Some g) r) = Some (gr_outcome g)"
    using row(2) by (simp add: write_reply_def set_reply_def end_draft_def draft_key_def draft_owned_def)
  ultimately show ?thesis
    using st choose_reply_sound[OF g assms(2)] unfolding ready_in_def finish_with_frame[OF fin] by blast
qed

lemma recall_ready:
  assumes "recall_draft L S job lease ctx d = Inr (RC_DONE DR_READY, d')"
  shows "ready_in L job ctx d'"
proof -
  obtain r where r: "r \<in> set (reply_drafts d)" "draft_owned job lease r"
    and st: "\<not> tenant_frozen (fst job) d" "style_enabled (fst job) d" "map_option m_id (latest_text (fst job) (dx_conversation ctx) d) = Some (dx_anchor ctx)"
    and auto: "dx_trigger ctx = TR_AUTOMATIC"
    and fin: "finish_with job lease (overflow_draft L ctx) (RC_DONE DR_READY) d = Inr (RC_DONE DR_READY, d')"
    using assms by (auto simp: recall_draft_def recall_products_def tx_iff split: option.splits if_splits candidates.splits dest: finish_with_Inr)
  let ?g = "safeAutomaticClarification L (dx_inbound ctx)"
  let ?r = "overflow_draft L ctx r"
  have "?r \<in> set (reply_drafts d')" by (rule finished_row[OF fin r])
  moreover have "draft_key ?r = job \<and> rd_status ?r = RD_READY \<and> rd_text ?r = Some (gr_text ?g) \<and> rd_outcome ?r = Some (gr_outcome ?g)"
    using r(2) auto by (simp add: overflow_draft_def set_reply_def end_draft_def draft_key_def draft_owned_def)
  moreover have "sound_reply L (dx_inbound ctx) (dx_recent ctx) [] ?g" by (rule asks_back_sound) (simp add: asks_back_def)
  moreover have "sourcesCurrent (fst job) (source_snapshot []) d" by (simp add: sourcesCurrent_def source_snapshot_def)
  ultimately show ?thesis using st unfolding ready_in_def finish_with_frame[OF fin] by blast
qed

lemma fail_draft_result: "fail_draft job lease e d = (Inr res, d') \<Longrightarrow> res = DR_FAILED"
  by (auto simp: fail_draft_def svc_bind_def svc_return_def split: prod.splits sum.splits)

lemma generate_ready:
  assumes "generate_draft L S job lease now w ctx sources d = (Inr DR_READY, d')"
  obtains d1 v where "start_model job lease now d = Inr (True, d1)" "publish_draft L job lease ctx sources v (w 2 d1) = Inr (DR_READY, d')"
proof -
  obtain d1 where d1: "start_model job lease now d = Inr (True, d1)"
    and rest: "(case ds_generate S (dx_inbound ctx) (dx_recent ctx) (dx_style ctx) sources of
           Inr v \<Rightarrow> run_tx (publish_draft L job lease ctx sources v) (w 2 d1)
         | Inl failure \<Rightarrow>
             if failure = InvalidResponse \<and> dx_trigger ctx = TR_AUTOMATIC
             then run_tx (publish_draft L job lease ctx sources
               (Some (safeAutomaticResponse L (dx_inbound ctx) (dx_recent ctx) sources))) (w 2 d1)
             else fail_draft job lease (if failure = InvalidResponse then ''INVALID_RESPONSE'' else ''PROVIDER_UNAVAILABLE'') (w 2 d1))
        = (Inr DR_READY, d')"
    using assms by (auto simp: generate_draft_def svc_bind_def run_tx_def split: prod.splits sum.splits if_splits)
  show ?thesis
  proof (cases "ds_generate S (dx_inbound ctx) (dx_recent ctx) (dx_style ctx) sources")
    case (Inr v)
    then show ?thesis using rest that[OF d1] by (simp add: run_tx_Inr_iff)
  next
    case (Inl failure)
    then show ?thesis using rest that[OF d1] by (auto simp: run_tx_Inr_iff split: if_splits dest: fail_draft_result)
  qed
qed


text \<open>A shop whose customer asks for a price, and a model that answers it.\<close>

definition plain_language :: reply_language where
  "plain_language = \<lparr>rl_lower = id, rl_unverified = (\<lambda>s. False), rl_spans = (\<lambda>s. []), rl_negative = (\<lambda>s. False), rl_positive = (\<lambda>s. False),
     rl_currencies = (\<lambda>c. []), rl_cyrillic = (\<lambda>s. False), rl_shipping = (\<lambda>s. False), rl_stock = (\<lambda>s r. False), rl_price = (\<lambda>s. False),
     rl_exact = (\<lambda>x s r. True), rl_models = (\<lambda>ss s r. []), rl_ukrainian = id, rl_bullet = ''* '', rl_dash = '' - '', rl_redact = id\<rparr>"

definition dress_source :: reply_source where
  "dress_source = \<lparr>so_product = 5, so_sku = ''D1'', so_name = ''Dress'', so_variants = [], so_price = Some ''10.00'', so_currency = Some ''UAH'',
     so_stock = Some 3, so_updated = 0\<rparr>"

definition dress_reply :: generated_reply where
  "dress_reply = \<lparr>gr_outcome = ANSWER, gr_text = ''Dress costs 10'', gr_products = [5], gr_claims =
     [\<lparr>cl_start = 0, cl_end = 5, cl_text = ''Dress'', cl_type = NAME, cl_field = ''name'', cl_product = 5\<rparr>,
      \<lparr>cl_start = 12, cl_end = 14, cl_text = ''10'', cl_type = PRICE, cl_field = ''price'', cl_product = 5\<rparr>]\<rparr>"

definition dress_services :: draft_services where
  "dress_services = \<lparr>ds_candidates = (\<lambda>t s r d. Candidates [dress_source]), ds_generate = (\<lambda>s r y ss. Inr (Some dress_reply))\<rparr>"

definition dress_db :: db where
  "dress_db = drafts_db [draft_sample TR_MANUAL RD_QUEUED None]\<lparr>products := [sample_product 5 7 ''D1'' (Some 3)]\<rparr>"

lemma dress_reply_valid: "validateReplyDraft plain_language (Some dress_reply) [dress_source] = Some dress_reply"
proof -
  have trims: "trim ''Dress costs 10'' = ''Dress costs 10''" "trim ''Dress'' = ''Dress''" "trim ''10'' = ''10''"
    by (simp_all add: trim_def white_space_def)
  have occ: "occurrences (Suc (Suc (Suc (Suc (Suc 0))))) ''Dress'' ''Dress costs 10'' 0 = [0]"
    by (simp add: occurrences.simps index_from_def upt_rec)
  have spans: "number_spans 0 ''Dress costs 10'' = [(12, 14)]"
    by (simp add: digit_char_def number_length_def)
  have number: "numberValue ''10'' = Some 10" "numberValue ''10.00'' = Some 10"
    by (simp_all add: numberValue_def white_space_def js_number_def lower_char_def read_decimal_def read_mantissa_def digit_char_def
        digits_value_def digit_value_def)
  show ?thesis
    by (simp add: validateReplyDraft_def parse_reply_def dress_reply_def dress_source_def source_by_id_def claim_ok_def matchesSource_def
        overlaps_def slice_def covered_def facts_covered_def source_facts_def plain_language_def same_number_def trims occ spans number Let_def
        del: number_spans.simps)
qed

text \<open>C28.
  A reply that the validator accepts says nothing about products that the catalogue does not
  say.  Every claim is about a product the reply was made from, has the words of the text and
  agrees with that product; claims do not overlap; every digit of the text, and every place
  where the name, the article number or a variant of such a product is mentioned, stands in a
  claim; an answer makes at least one.\<close>

theorem validated_reply_grounded:
  assumes "validateReplyDraft L v sources = Some g"
  shows "(\<forall>c\<in>set (gr_claims g). cl_product c \<in> set (gr_products g) \<and> slice (gr_text g) (cl_start c) (cl_end c) = cl_text c
        \<and> (\<exists>s\<in>set sources. so_product s = cl_product c \<and> matchesSource L c s))
    \<and> sorted_wrt (\<lambda>a b. cl_end a \<le> cl_start b \<or> cl_end b \<le> cl_start a) (gr_claims g)
    \<and> (\<forall>i<length (gr_text g). digit_char (gr_text g ! i) \<longrightarrow> (\<exists>c\<in>set (gr_claims g). cl_start c \<le> i \<and> i < cl_end c))
    \<and> (\<forall>s\<in>set sources. \<forall>fact\<in>set (source_facts s). \<forall>i<length (rl_lower L (gr_text g)).
        take (length (rl_lower L fact)) (drop i (rl_lower L (gr_text g))) = rl_lower L fact \<longrightarrow>
        (\<exists>c\<in>set (gr_claims g). cl_start c \<le> i \<and> i < cl_end c))
    \<and> (gr_outcome g = ANSWER \<longrightarrow> gr_claims g \<noteq> [])"
  using validated_grounded[OF assms] unfolding grounded_def stands_in_claim_def by blast

theorem validated_reply_grounded_witness:
  "validateReplyDraft plain_language (Some dress_reply) [dress_source] = Some dress_reply
    \<and> (\<exists>c\<in>set (gr_claims dress_reply). cl_start c \<le> 12 \<and> 12 < cl_end c)"
proof -
  have "12 < length (gr_text dress_reply)" and "digit_char (gr_text dress_reply ! 12)"
    by (simp_all add: dress_reply_def digit_char_def)
  then have "\<exists>c\<in>set (gr_claims dress_reply). cl_start c \<le> 12 \<and> 12 < cl_end c"
    using validated_reply_grounded[OF dress_reply_valid] by blast
  then show ?thesis using dress_reply_valid by simp
qed

lemma dress_fields: "so_product dress_source = 5" "so_updated dress_source = 0"
  by (simp_all add: dress_source_def)

lemma dress_ready:
  "\<exists>d'. process_draft plain_language dress_services (7, 80) 5 3000 3100 (\<lambda>k d. d) dress_db = (Inr DR_READY, d')"
proof -
  have choose: "choose_reply plain_language TR_MANUAL i r [dress_source] (Some dress_reply) = Some dress_reply" for i r
    using dress_reply_valid by (simp add: choose_reply_def plain_language_def)
  show ?thesis
    by (simp add: process_draft_def claim_draft_def run_tx_def assertTenantAcceptingMutations_def tenant_frozen_def tx_seq_def tx_bind_def tx_defs
        dress_db_def draft_simps draft_key_def active_draft_def update_reply_draft_def update_one_def draft_claimable_def start_draft_def
        draft_claimed_def find_style_def latest_text_def latest_message_def find_sorted_def draft_context_of_def buildSafeReplyInput_def
        Let_def recall_step_def recall_draft_def recall_products_def draft_owned_def style_enabled_def dress_services_def finish_with_def
        finish_draft_def generate_draft_def svc_bind_def start_model_def publish_draft_def sourcesCurrent_def source_snapshot_def dress_fields
        sample_product_def choose)
qed


section \<open>The draft of a message\<close>

lemma mark_outdated_Inr: "mark_outdated t cid anchor d = Inr ((), d') \<longleftrightarrow>
    d' = d\<lparr>reply_drafts := update_where (outdated t cid anchor) (end_draft RD_STALE (Some ''NEW_MESSAGE'')) (reply_drafts d)\<rparr>"
  by (auto simp: mark_outdated_def tx_defs)

lemma end_draft_fields: "rd_tenant (end_draft s e r) = rd_tenant r" "rd_conversation (end_draft s e r) = rd_conversation r"
  "rd_anchor (end_draft s e r) = rd_anchor r" "rd_status (end_draft s e r) = s" "rd_key (end_draft s e r) = rd_key r"
  "rd_trigger (end_draft s e r) = rd_trigger r" "rd_created (end_draft s e r) = rd_created r" "rd_id (end_draft s e r) = rd_id r"
  by (simp_all add: end_draft_def)

lemma count_where_snoc: "count_where P (rows @ [r]) = (if P r then Suc (count_where P rows) else count_where P rows)"
  by (simp add: count_where_def)

lemma find_snoc_none: "List.find P rows = None \<Longrightarrow> P r \<Longrightarrow> List.find P (rows @ [r]) = Some r"
  by (induction rows) (auto split: if_splits)

lemma find_update_none: "List.find P rows = None \<Longrightarrow> (\<And>r. P (f r) = P r) \<Longrightarrow> List.find P (update_where Q f rows) = None"
  by (induction rows) (auto split: if_splits)

text \<open>C32.
  A message of the customer gets one automatic draft.  It is made only for the last message
  with a text, when drafts are on; then the tenant has at most three drafts being made and
  thirty in a minute, every older draft of the conversation that was not used is outdated, a
  worker may take the draft after ten seconds, and scheduling the message again finds it.\<close>

theorem automatic_draft_placed:
  assumes "schedule_tx t mid now d = Inr (Some (r, False), d')"
  shows "r \<in> set (reply_drafts d') \<and> rd_anchor r = mid \<and> rd_trigger r = TR_AUTOMATIC \<and> rd_status r = RD_QUEUED
    \<and> map_option m_id (latest_text t (rd_conversation r) d) = Some mid
    \<and> drafts_since t (now - 60000) d' \<le> 30 \<and> active_drafts t d' \<le> 3
    \<and> (\<forall>x\<in>set (reply_drafts d'). rd_tenant x = t \<and> rd_conversation x = rd_conversation r \<and> rd_anchor x \<noteq> mid \<longrightarrow>
        rd_status x \<notin> {RD_QUEUED, RD_PROCESSING, RD_READY})
    \<and> (\<forall>later\<ge>now + quiet_period_ms. draft_due later d' r)
    \<and> (\<forall>now2. schedule_tx t mid now2 d' = Inr (Some (r, True), d'))"
  using assms
proof (cases rule: schedule_tx_cases)
  case (place m)
  have m: "m_id m = mid" using find_some_prop[OF place(2)] by simp
  show ?thesis using place(5)
  proof (cases rule: place_draft_cases)
    case (new x d1)
    then have x: "x = r" by simp
    let ?cid = "m_conversation m"
    have d1: "d1 = d\<lparr>reply_drafts := update_where (outdated t ?cid mid) (end_draft RD_STALE (Some ''NEW_MESSAGE'')) (reply_drafts d)\<rparr>"
      using new(2) m by (simp add: mark_outdated_Inr)
    have r: "r = new_draft (next_id d1) t ?cid mid None mid TR_AUTOMATIC (now + quiet_period_ms) now" using new(5) x m by simp
    have rs: "reply_drafts d' = reply_drafts d1 @ [r]" using new(7) x by simp
    have same: "messages d' = messages d" "reply_styles d' = reply_styles d" "lifecycle_requests d' = lifecycle_requests d"
      using new(7) d1 by simp_all
    have fields: "rd_anchor r = mid" "rd_tenant r = t" "rd_conversation r = ?cid" "rd_trigger r = TR_AUTOMATIC" "rd_status r = RD_QUEUED"
      "rd_key r = mid" "rd_available r = now + quiet_period_ms" "rd_attempts r = 0"
      unfolding r by (simp_all add: new_draft_def)
    have limits: "drafts_since t (now - 60000) d' \<le> 30" "active_drafts t d' \<le> 3"
      using new(3,4) by (simp_all add: drafts_since_def active_drafts_def rs count_where_snoc)
    have stale: "rd_status y \<notin> {RD_QUEUED, RD_PROCESSING, RD_READY}"
      if y: "y \<in> set (reply_drafts d')" "rd_tenant y = t \<and> rd_conversation y = ?cid \<and> rd_anchor y \<noteq> mid" for y
    proof -
      have "y \<in> set (reply_drafts d1)" using y fields(1) rs by auto
      then have "y \<in> (\<lambda>z. if outdated t ?cid mid z then end_draft RD_STALE (Some ''NEW_MESSAGE'') z else z) ` set (reply_drafts d)"
        unfolding d1 by (simp add: set_update_where)
      then obtain z where z: "y = (if outdated t ?cid mid z then end_draft RD_STALE (Some ''NEW_MESSAGE'') z else z)"
        by (elim imageE)
      show ?thesis
      proof (cases "outdated t ?cid mid z")
        case True
        then show ?thesis using z by (simp add: end_draft_fields)
      next
        case False
        then show ?thesis using z y(2) by (auto simp: outdated_def)
      qed
    qed
    have "List.find (\<lambda>r. automatic_draft t mid mid r \<and> rd_conversation r = ?cid) (reply_drafts d) = None"
    proof (rule ccontr)
      assume "\<not> ?thesis"
      then obtain q where "List.find (\<lambda>r. automatic_draft t mid mid r \<and> rd_conversation r = ?cid) (reply_drafts d) = Some q" by blast
      then show False using place(5) m by (auto simp: place_draft_def tx_iff)
    qed
    then have "List.find (\<lambda>r. automatic_draft t mid mid r \<and> rd_conversation r = ?cid) (reply_drafts d1) = None"
      unfolding d1 by (simp add: find_update_none automatic_draft_def end_draft_fields)
    then have found: "List.find (\<lambda>r. automatic_draft t mid mid r \<and> rd_conversation r = ?cid) (reply_drafts d') = Some r"
      unfolding rs by (rule find_snoc_none) (simp add: automatic_draft_def fields)
    have "latest_text t ?cid d' = latest_text t ?cid d" by (simp add: latest_text_def latest_message_def same)
    moreover have on: "style_enabled t d'" "\<not> tenant_frozen t d'"
      using place(1,3) same by (simp_all add: style_enabled_def find_style_def tenant_frozen_def)
    moreover have "\<not> (case m_text m of None \<Rightarrow> True | Some s \<Rightarrow> trim s = [])"
      using assms place(2) by (auto simp: schedule_tx_def tx_iff split: option.splits if_splits)
    ultimately have replay: "schedule_tx t mid now2 d' = Inr (Some (r, True), d')" for now2
      using place(2,4) found m same
      by (auto simp: schedule_tx_def place_draft_def tx_seq_def tx_bind_def tx_defs assertTenantAcceptingMutations_def split: option.splits)
    have due: "draft_due later d' r" if "now + quiet_period_ms \<le> later" for later
      using that on fields by (simp add: draft_due_def draft_claimable_def)
    show ?thesis using rs fields limits stale replay due place(4) m by auto
  qed auto
qed auto

text \<open>C33.
  The scheduler collides with the staff.  While a draft that a member of the staff asked for is
  being made for a message, scheduling that message for the first time runs into the index of
  active drafts, finds no automatic draft to answer with and throws; nothing is committed.\<close>

theorem schedule_collides:
  assumes "\<not> tenant_frozen t d" and "style_enabled t d"
    and "List.find (\<lambda>m. m_id m = mid \<and> m_tenant m = t \<and> m_direction m = INBOUND) (messages d) = Some m"
    and "m_text m = Some s" and "trim s \<noteq> []" and "map_option m_id (latest_text t (m_conversation m) d) = Some mid"
    and "\<forall>x\<in>set (reply_drafts d). \<not> automatic_draft t mid mid x"
    and "r \<in> set (reply_drafts d)" and "rd_tenant r = t" and "rd_conversation r = m_conversation m" and "rd_anchor r = mid"
    and "active_draft r" and "drafts_since t (now - 60000) d < 30" and "active_drafts t d < 3"
  shows "schedule t mid now d = (Inl UniqueViolation, d)"
proof -
  let ?cid = "m_conversation m"
  have m: "m_id m = mid" using find_some_prop[OF assms(3)] by simp
  let ?f = "end_draft RD_STALE (Some ''NEW_MESSAGE'')"
  let ?d1 = "d\<lparr>reply_drafts := update_where (outdated t ?cid mid) ?f (reply_drafts d)\<rparr>"
  have none: "List.find (automatic_draft t mid mid) (reply_drafts d) = None"
    using assms(7) by (simp add: find_None_iff)
  have none2: "List.find (\<lambda>r. automatic_draft t mid mid r \<and> rd_conversation r = ?cid) (reply_drafts d) = None"
    using assms(7) by (auto simp: find_None_iff)
  have "count_where (\<lambda>r. rd_tenant r = t \<and> since \<le> rd_created r) (update_where P ?f rows) = count_where (\<lambda>r. rd_tenant r = t \<and> since \<le> rd_created r) rows"
    for P rows since by (induction rows) (simp_all add: end_draft_fields)
  then have since: "drafts_since t (now - 60000) ?d1 < 30" using assms(13) by (simp add: drafts_since_def)
  have fewer: "count_where (\<lambda>r. rd_tenant r = t \<and> active_draft r) (update_where P ?f rows) \<le> count_where (\<lambda>r. rd_tenant r = t \<and> active_draft r) rows"
    for P rows by (induction rows) (auto simp: end_draft_fields active_draft_def)
  have active: "active_drafts t ?d1 < 3"
    using le_less_trans[OF fewer assms(14)[unfolded active_drafts_def]] by (simp add: active_drafts_def)
  let ?new = "new_draft (next_id d) t ?cid mid None mid TR_AUTOMATIC (now + quiet_period_ms) now"
  have "\<not> outdated t ?cid mid r" using assms(11) by (simp add: outdated_def)
  then have "r \<in> set (reply_drafts ?d1)" using assms(8) by (auto simp: set_update_where intro!: image_eqI[of _ _ r])
  moreover have "same_draft ?new r"
    using assms(9-12) by (simp add: same_draft_def new_draft_def active_draft_def)
  ultimately have clash: "any_row (same_draft ?new) (reply_drafts ?d1)" by auto
  have "place_draft t m now d = Inl UniqueViolation"
    using none2 m since active clash
    by (simp add: place_draft_def mark_outdated_def tx_defs tx_bind_def tx_seq_def fresh_id_def create_draft_def del: any_row_iff)
  then have "schedule_tx t mid now d = Inl UniqueViolation"
    using assms(1-6) m by (simp add: schedule_tx_def tx_seq_def tx_bind_def tx_defs assertTenantAcceptingMutations_def)
  then show ?thesis using none by (simp add: schedule_def run_tx_def Let_def)
qed

theorem schedule_collides_witness:
  "schedule 7 71 3000 (drafts_db [draft_sample TR_MANUAL RD_PROCESSING (Some 5)]) =
    (Inl UniqueViolation, drafts_db [draft_sample TR_MANUAL RD_PROCESSING (Some 5)])"
  by (rule schedule_collides[where m = "new_inbound 71 7 60 50 question_sample 2000" and s = "''Is it there''"
        and r = "draft_sample TR_MANUAL RD_PROCESSING (Some 5)"])
    (simp_all add: draft_simps tenant_frozen_def style_enabled_def find_style_def latest_text_def latest_message_def find_sorted_def
      trim_def white_space_def automatic_draft_def active_draft_def drafts_since_def active_drafts_def)

theorem automatic_draft_placed_witness:
  "\<exists>r d'. schedule_tx 7 71 3000 (drafts_db []) = Inr (Some (r, False), d') \<and> active_drafts 7 d' \<le> 3
    \<and> schedule_tx 7 71 4000 d' = Inr (Some (r, True), d')"
proof -
  have "\<exists>r d'. schedule_tx 7 71 3000 (drafts_db []) = Inr (Some (r, False), d')"
    by (simp add: schedule_tx_def place_draft_def assertTenantAcceptingMutations_def tenant_frozen_def tx_seq_def tx_bind_def tx_defs draft_simps
        trim_def white_space_def style_enabled_def find_style_def latest_text_def latest_message_def find_sorted_def mark_outdated_def
        drafts_since_def active_drafts_def fresh_id_def create_draft_def)
  then show ?thesis using automatic_draft_placed by blast
qed

end
