(* ===== verification/Catalogue.thy ===== *)
theory Catalogue
  imports Claims Payments
begin

text \<open>
  The import of a table of products, \<open>packages/database/src/catalogue-import-engine.ts\<close>: how a
  row is read under a mapping of columns, the plan of an import, and the transaction that writes
  the products under the lease of their source.  Operations of the runtime on Unicode text, the
  text of a number, the digest, the parsers of addresses and of JSON are parameters.
\<close>

section \<open>Cells\<close>

datatype cell = CText string | CNumber rat | CBool bool | CNull

record sheet_language =
  sl_nfkc :: "string \<Rightarrow> string"
  sl_lower :: "string \<Rightarrow> string"
  sl_upper :: "string \<Rightarrow> string"
  sl_number :: "rat \<Rightarrow> string"
  sl_digest :: "uuid \<Rightarrow> string \<Rightarrow> string \<Rightarrow> string"
    \<comment> \<open>the hexadecimal digest of three texts with zero characters between them\<close>
  sl_http :: "string \<Rightarrow> bool"
  sl_object :: "string \<Rightarrow> string option"
    \<comment> \<open>the JSON object that a text is\<close>

definition normalizeHeader :: "sheet_language \<Rightarrow> string \<Rightarrow> string" where
  "normalizeHeader L v = sl_lower L (squeeze False white_space (trim (sl_nfkc L v)))"

fun cell_text :: "sheet_language \<Rightarrow> cell \<Rightarrow> string" where
  "cell_text L (CText s) = s"
| "cell_text L (CNumber q) = sl_number L q"
| "cell_text L (CBool b) = (if b then ''true'' else ''false'')"
| "cell_text L CNull = []"

definition textValue :: "sheet_language \<Rightarrow> cell option \<Rightarrow> string option" where
  "textValue L v = (case v of None \<Rightarrow> None | Some c \<Rightarrow> let s = trim (cell_text L c) in if s = [] then None else Some s)"

definition nonEmpty :: "sheet_language \<Rightarrow> cell option \<Rightarrow> bool" where
  "nonEmpty L v \<longleftrightarrow> textValue L v \<noteq> None"

subsection \<open>Numbers in the notation of either locale\<close>

definition last_index :: "char \<Rightarrow> string \<Rightarrow> int" where
  "last_index c s = (if c \<in> set s then int (length s) - 1 - int (length (takeWhile (\<lambda>x. x \<noteq> c) (rev s))) else - 1)"

definition decimal_text :: "string \<Rightarrow> string" where
  "decimal_text s =
     (let comma = last_index (CHR '','') s; dot = last_index (CHR ''.'') s in
      if 0 \<le> comma \<and> 0 \<le> dot then
        (if dot < comma then comma_to_point (filter (\<lambda>c. c \<noteq> CHR ''.'') s) else filter (\<lambda>c. c \<noteq> CHR '','') s)
      else if 0 \<le> comma then comma_to_point s
      else s)"

text \<open>\<open>/^-?(?:\d+|\d*\.\d+)$/\<close>\<close>

definition plain_decimal :: "string \<Rightarrow> bool" where
  "plain_decimal s =
     (let u = (case s of [] \<Rightarrow> [] | c # rest \<Rightarrow> if c = CHR ''-'' then rest else s) in
      case dropWhile digit_char u of
        [] \<Rightarrow> u \<noteq> []
      | p # rest \<Rightarrow> p = CHR ''.'' \<and> rest \<noteq> [] \<and> list_all digit_char rest)"

text \<open>The numbers that round to a finite one.\<close>

definition finite_number :: "rat \<Rightarrow> bool" where
  "finite_number q \<longleftrightarrow> \<bar>q\<bar> < 2 ^ 1024 - 2 ^ 970"

definition parseLocaleNumber :: "sheet_language \<Rightarrow> cell option \<Rightarrow> rat option" where
  "parseLocaleNumber L v = (case v of
       Some (CNumber q) \<Rightarrow> Some q
     | _ \<Rightarrow> (case textValue L v of
           None \<Rightarrow> None
         | Some s \<Rightarrow> let n = decimal_text (filter (\<lambda>c. \<not> white_space c) s) in
             if plain_decimal n then (case js_number n of Some q \<Rightarrow> if finite_number q then Some q else None | None \<Rightarrow> None) else None))"

definition whole :: "rat \<Rightarrow> bool" where
  "whole q \<longleftrightarrow> snd (quotient_of q) = 1"

subsection \<open>Lists, flags and objects\<close>

fun split_where :: "(char \<Rightarrow> bool) \<Rightarrow> string \<Rightarrow> string list" where
  "split_where P [] = [[]]"
| "split_where P (c # s) = (if P c then [] # split_where P s else (c # hd (split_where P s)) # tl (split_where P s))"

text \<open>\<open>[...new Set(items)]\<close>: the first of equal items stays.\<close>

definition first_of_each :: "'a list \<Rightarrow> 'a list" where
  "first_of_each xs = rev (remdups (rev xs))"

definition splitList :: "sheet_language \<Rightarrow> cell option \<Rightarrow> string list" where
  "splitList L v = (case textValue L v of None \<Rightarrow> []
     | Some s \<Rightarrow> first_of_each (filter (\<lambda>item. item \<noteq> []) (map trim (split_where (\<lambda>c. c \<in> set '';,|'' \<or> c = CHR 0x0A) s))))"

definition parseBoolean :: "sheet_language \<Rightarrow> cell option \<Rightarrow> bool option" where
  "parseBoolean L v = (case v of
       Some (CBool b) \<Rightarrow> Some b
     | _ \<Rightarrow> (let s = (case textValue L v of None \<Rightarrow> [] | Some s \<Rightarrow> map lower_char s) in
         if s \<in> {''true'', ''1'', ''yes''} then Some True else if s \<in> {''false'', ''0'', ''no''} then Some False else None))"

definition parseAttributes :: "sheet_language \<Rightarrow> cell option \<Rightarrow> string option" where
  "parseAttributes L v = sl_object L (case textValue L v of None \<Rightarrow> [] | Some s \<Rightarrow> s)"

section \<open>Rows\<close>

record import_product =
  ip_sku :: string
  ip_name :: string
  ip_description :: "string option"
  ip_price :: "rat option"
  ip_currency :: "string option"
  ip_stock :: "int option"
  ip_category :: "string option"
  ip_brand :: "string option"
  ip_aliases :: "string list"
  ip_color :: "string option"
  ip_size :: "string option"
  ip_images :: "string list"
  ip_attributes :: string
  ip_active :: bool

datatype import_code = EMPTY_ROW | CATEGORY_ROW | NAME_REQUIRED | PRICE_INVALID | STOCK_INVALID | IMAGE_URLS_INVALID
  | ACTIVE_INVALID | ATTRIBUTES_INVALID | SKU_DUPLICATE

text \<open>A message, or the one about the other row with the same article number.\<close>

datatype import_error = Told string | DuplicateOf "nat option"

record import_row =
  ir_number :: nat
  ir_product :: "import_product option"
  ir_errors :: "import_error list"
  ir_codes :: "import_code list"
  ir_present :: "target list"

text \<open>A row while it is read: the product so far and what was found wrong.\<close>

record reading =
  rw_product :: import_product
  rw_found :: "(import_error \<times> import_code) list"
  rw_targets :: "target list"

definition reject :: "string \<Rightarrow> import_code \<Rightarrow> reading \<Rightarrow> reading" where
  "reject e c w = w\<lparr>rw_found := rw_found w @ [(Told e, c)]\<rparr>"

definition accept :: "target \<Rightarrow> (import_product \<Rightarrow> import_product) \<Rightarrow> reading \<Rightarrow> reading" where
  "accept t f w = w\<lparr>rw_product := f (rw_product w), rw_targets := rw_targets w @ [t]\<rparr>"

type_synonym mapped_row = "(target \<times> cell option) list"

definition mapped_cell :: "mapped_row \<Rightarrow> target \<Rightarrow> cell option" where
  "mapped_cell m t = Option.bind (map_of m t) id"

text \<open>\<open>value === null || value === undefined || value === ''\<close>\<close>

definition absent :: "cell option \<Rightarrow> bool" where
  "absent v \<longleftrightarrow> v \<in> {None, Some CNull, Some (CText [])}"

definition row_cell :: "(string \<times> nat) list \<Rightarrow> cell list \<Rightarrow> string \<Rightarrow> cell option" where
  "row_cell indexes vals source = (case map_of indexes source of
     Some i \<Rightarrow> if i < length vals then Some (vals ! i) else None | None \<Rightarrow> None)"

definition map_cells :: "(string \<times> nat) list \<Rightarrow> (string \<times> target) list \<Rightarrow> cell list \<Rightarrow> mapped_row" where
  "map_cells indexes mapping vals = foldl (\<lambda>m (source, t). if t = T_IGNORE then m else jsmap_set t (row_cell indexes vals source) m) [] mapping"

definition generatedSku :: "sheet_language \<Rightarrow> uuid \<Rightarrow> string \<Rightarrow> string option \<Rightarrow> string" where
  "generatedSku L source name discriminator = ''AUTO-'' @ map upper_char (take 12
     (sl_digest L source (normalizeHeader L name) (case discriminator of None \<Rightarrow> [] | Some s \<Rightarrow> trim s)))"

definition new_product :: "string \<Rightarrow> string \<Rightarrow> import_product" where
  "new_product sku name = \<lparr>ip_sku = sku, ip_name = name, ip_description = None, ip_price = None, ip_currency = None, ip_stock = None,
     ip_category = None, ip_brand = None, ip_aliases = [], ip_color = None, ip_size = None, ip_images = [], ip_attributes = ''{}'', ip_active = True\<rparr>"

fun clear_target :: "target \<Rightarrow> import_product \<Rightarrow> import_product" where
  "clear_target T_DESCRIPTION p = p\<lparr>ip_description := None\<rparr>"
| "clear_target T_PRICE p = p\<lparr>ip_price := None\<rparr>"
| "clear_target T_CURRENCY p = p\<lparr>ip_currency := None\<rparr>"
| "clear_target T_STOCK p = p\<lparr>ip_stock := None\<rparr>"
| "clear_target T_CATEGORY p = p\<lparr>ip_category := None\<rparr>"
| "clear_target T_BRAND p = p\<lparr>ip_brand := None\<rparr>"
| "clear_target T_ALIASES p = p\<lparr>ip_aliases := []\<rparr>"
| "clear_target T_COLOR p = p\<lparr>ip_color := None\<rparr>"
| "clear_target T_SIZE p = p\<lparr>ip_size := None\<rparr>"
| "clear_target T_IMAGES p = p\<lparr>ip_images := []\<rparr>"
| "clear_target T_ATTRIBUTES p = p\<lparr>ip_attributes := ''{}''\<rparr>"
| "clear_target t p = p"

definition applyExplicitClears :: "sheet_language \<Rightarrow> mapped_row \<Rightarrow> target list \<Rightarrow> reading \<Rightarrow> reading" where
  "applyExplicitClears L m clears w = foldl (\<lambda>w t. if nonEmpty L (mapped_cell m t) then w else accept t (clear_target t) w) w clears"

definition assignText :: "sheet_language \<Rightarrow> mapped_row \<Rightarrow> target \<Rightarrow> (string \<Rightarrow> import_product \<Rightarrow> import_product) \<Rightarrow> reading \<Rightarrow> reading" where
  "assignText L m t f w = (case textValue L (mapped_cell m t) of None \<Rightarrow> w | Some s \<Rightarrow> accept t (f s) w)"

definition read_texts :: "sheet_language \<Rightarrow> mapped_row \<Rightarrow> reading \<Rightarrow> reading" where
  "read_texts L m w =
     assignText L m T_CURRENCY (\<lambda>s p. p\<lparr>ip_currency := Some (sl_upper L s)\<rparr>)
    (assignText L m T_SIZE (\<lambda>s p. p\<lparr>ip_size := Some s\<rparr>)
    (assignText L m T_COLOR (\<lambda>s p. p\<lparr>ip_color := Some s\<rparr>)
    (assignText L m T_BRAND (\<lambda>s p. p\<lparr>ip_brand := Some s\<rparr>)
    (assignText L m T_CATEGORY (\<lambda>s p. p\<lparr>ip_category := Some s\<rparr>)
    (assignText L m T_DESCRIPTION (\<lambda>s p. p\<lparr>ip_description := Some s\<rparr>) w)))))"

definition read_price :: "sheet_language \<Rightarrow> mapped_row \<Rightarrow> reading \<Rightarrow> reading" where
  "read_price L m w = (let v = mapped_cell m T_PRICE in
     if \<not> nonEmpty L v then w
     else case parseLocaleNumber L v of
         Some q \<Rightarrow> if q < 0 then reject ''Price must be a non-negative number'' PRICE_INVALID w else accept T_PRICE (\<lambda>p. p\<lparr>ip_price := Some q\<rparr>) w
       | None \<Rightarrow> reject ''Price must be a non-negative number'' PRICE_INVALID w)"

definition read_stock :: "sheet_language \<Rightarrow> mapped_row \<Rightarrow> reading \<Rightarrow> reading" where
  "read_stock L m w = (let v = mapped_cell m T_STOCK in
     if \<not> nonEmpty L v then w
     else case parseLocaleNumber L v of
         Some q \<Rightarrow> if whole q then accept T_STOCK (\<lambda>p. p\<lparr>ip_stock := Some \<lfloor>q\<rfloor>\<rparr>) w else reject ''Stock quantity must be an integer'' STOCK_INVALID w
       | None \<Rightarrow> reject ''Stock quantity must be an integer'' STOCK_INVALID w)"

definition read_lists :: "sheet_language \<Rightarrow> mapped_row \<Rightarrow> reading \<Rightarrow> reading" where
  "read_lists L m w =
     (let w1 = (if nonEmpty L (mapped_cell m T_ALIASES) then accept T_ALIASES (\<lambda>p. p\<lparr>ip_aliases := splitList L (mapped_cell m T_ALIASES)\<rparr>) w else w);
          urls = splitList L (mapped_cell m T_IMAGES) in
      if \<not> nonEmpty L (mapped_cell m T_IMAGES) then w1
      else if list_ex (\<lambda>u. \<not> sl_http L u) urls then reject ''Image URLs must be valid HTTP URLs'' IMAGE_URLS_INVALID w1
      else accept T_IMAGES (\<lambda>p. p\<lparr>ip_images := urls\<rparr>) w1)"

definition read_flags :: "sheet_language \<Rightarrow> mapped_row \<Rightarrow> reading \<Rightarrow> reading" where
  "read_flags L m w =
     (let w1 = (if \<not> nonEmpty L (mapped_cell m T_ACTIVE) then w
                else case parseBoolean L (mapped_cell m T_ACTIVE) of
                    None \<Rightarrow> reject ''Active must be a boolean'' ACTIVE_INVALID w
                  | Some b \<Rightarrow> accept T_ACTIVE (\<lambda>p. p\<lparr>ip_active := b\<rparr>) w) in
      if \<not> nonEmpty L (mapped_cell m T_ATTRIBUTES) then w1
      else case parseAttributes L (mapped_cell m T_ATTRIBUTES) of
          None \<Rightarrow> reject ''Attributes must be a JSON object'' ATTRIBUTES_INVALID w1
        | Some s \<Rightarrow> accept T_ATTRIBUTES (\<lambda>p. p\<lparr>ip_attributes := s\<rparr>) w1)"

definition skipped_row :: "nat \<Rightarrow> import_code \<Rightarrow> import_row" where
  "skipped_row n c = \<lparr>ir_number = n, ir_product = None, ir_errors = [], ir_codes = [c], ir_present = []\<rparr>"

definition read_row :: "sheet_language \<Rightarrow> uuid \<Rightarrow> bool \<Rightarrow> mapped_row \<Rightarrow> target list \<Rightarrow> reading" where
  "read_row L source priced m clears =
     (let name = textValue L (mapped_cell m T_NAME);
          supplied = map_option (sl_upper L) (textValue L (mapped_cell m T_SKU));
          discriminator = (if priced then textValue L (mapped_cell m T_PRICE) else None);
          sku = (case supplied of Some s \<Rightarrow> s | None \<Rightarrow> (case name of Some n \<Rightarrow> generatedSku L source n discriminator | None \<Rightarrow> []));
          w = \<lparr>rw_product = new_product sku (case name of Some n \<Rightarrow> n | None \<Rightarrow> []), rw_found = [], rw_targets = []\<rparr> in
      read_flags L m (read_lists L m (read_stock L m (read_price L m (read_texts L m (applyExplicitClears L m clears
        (if name = None then reject ''Name is required'' NAME_REQUIRED w else w)))))))"

definition mapRow :: "sheet_language \<Rightarrow> cell list \<Rightarrow> nat \<Rightarrow> uuid \<Rightarrow> (string \<times> nat) list \<Rightarrow> (string \<times> target) list \<Rightarrow> target list \<Rightarrow> import_row" where
  "mapRow L vals n source indexes mapping clears =
     (let m = map_cells indexes mapping vals;
          priced = T_PRICE \<in> snd ` set mapping in
      if list_all (absent \<circ> snd) m then skipped_row n EMPTY_ROW
      else if T_SKU \<notin> snd ` set mapping \<and> priced \<and> \<not> nonEmpty L (mapped_cell m T_PRICE) then skipped_row n CATEGORY_ROW
      else let w = read_row L source priced m clears in
        \<lparr>ir_number = n, ir_product = (if rw_found w = [] then Some (rw_product w) else None),
         ir_errors = map fst (rw_found w), ir_codes = map snd (rw_found w), ir_present = rw_targets w\<rparr>)"

section \<open>The plan\<close>

record table_input =
  ti_tenant :: uuid
  ti_source :: uuid
  ti_reassign :: bool
  ti_lease :: "(uuid \<times> nat) option"
  ti_headers :: "string list"
  ti_rows :: "cell list list"
  ti_numbers :: "nat list option"
  ti_mapping :: "(string \<times> target) list"
  ti_clear :: "target list"

definition row_number :: "nat list option \<Rightarrow> nat \<Rightarrow> nat" where
  "row_number numbers i = (case numbers of Some ns \<Rightarrow> if i < length ns then ns ! i else i + 2 | None \<Rightarrow> i + 2)"

text \<open>\<open>new Map(entries)\<close>: the last entry of a key counts, and \<open>map_of\<close> takes the first.\<close>

definition header_index :: "sheet_language \<Rightarrow> string list \<Rightarrow> (string \<times> nat) list" where
  "header_index L headers = rev (map (\<lambda>(i, h). (normalizeHeader L h, i)) (enumerate 0 headers))"

definition mapped_rows :: "sheet_language \<Rightarrow> table_input \<Rightarrow> import_row list" where
  "mapped_rows L input = map (\<lambda>(i, vals). mapRow L vals (row_number (ti_numbers input) i) (ti_source input) (header_index L (ti_headers input))
     (map (\<lambda>(source, t). (normalizeHeader L source, t)) (ti_mapping input)) (ti_clear input)) (enumerate 0 (ti_rows input))"

definition row_sku :: "import_row \<Rightarrow> string option" where
  "row_sku r = (case ir_product r of Some p \<Rightarrow> if ip_sku p = [] then None else Some (ip_sku p) | None \<Rightarrow> None)"

definition sku_rows :: "import_row list \<Rightarrow> string \<Rightarrow> nat list" where
  "sku_rows rows sku = map ir_number (filter (\<lambda>r. row_sku r = Some sku) rows)"

definition mark_duplicate :: "import_row list \<Rightarrow> import_row \<Rightarrow> import_row" where
  "mark_duplicate rows r = (case row_sku r of
       None \<Rightarrow> r
     | Some sku \<Rightarrow> if length (sku_rows rows sku) < 2 then r
         else r\<lparr>ir_errors := ir_errors r @ [DuplicateOf (List.find (\<lambda>n. n \<noteq> ir_number r) (sku_rows rows sku))],
                ir_codes := ir_codes r @ [SKU_DUPLICATE], ir_product := None\<rparr>)"

definition plan_rows :: "sheet_language \<Rightarrow> table_input \<Rightarrow> import_row list" where
  "plan_rows L input = (let rows = mapped_rows L input in map (mark_duplicate rows) rows)"

definition valid_row :: "import_row \<Rightarrow> bool" where
  "valid_row r \<longleftrightarrow> ir_product r \<noteq> None \<and> ir_errors r = []"

definition skipped :: "import_row \<Rightarrow> bool" where
  "skipped r \<longleftrightarrow> EMPTY_ROW \<in> set (ir_codes r) \<or> CATEGORY_ROW \<in> set (ir_codes r)"

definition failed_row :: "import_row \<Rightarrow> bool" where
  "failed_row r \<longleftrightarrow> ir_errors r \<noteq> []"

definition known_skus :: "uuid \<Rightarrow> string list \<Rightarrow> db \<Rightarrow> string list" where
  "known_skus t skus d = map pr_sku (filter (\<lambda>p. pr_tenant p = t \<and> pr_sku p \<in> set skus) (products d))"

record import_plan =
  pl_rows :: "import_row list"
  pl_created :: nat
  pl_updated :: nat
  pl_skipped :: nat
  pl_failed :: nat

definition buildCatalogueImportPlan :: "sheet_language \<Rightarrow> table_input \<Rightarrow> db \<Rightarrow> import_plan" where
  "buildCatalogueImportPlan L input d =
     (let rows = plan_rows L input;
          sku = (\<lambda>r. ip_sku (the (ir_product r)));
          known = known_skus (ti_tenant input) (map sku (filter valid_row rows)) d in
      \<lparr>pl_rows = rows,
       pl_created = count_where (\<lambda>r. valid_row r \<and> sku r \<notin> set known) rows,
       pl_updated = count_where (\<lambda>r. valid_row r \<and> sku r \<in> set known) rows,
       pl_skipped = count_where skipped rows,
       pl_failed = count_where failed_row rows\<rparr>)"

section \<open>The transaction\<close>

text \<open>What a column can hold: \<open>Decimal(12, 2)\<close>, rounded half away from zero, \<open>VarChar(3)\<close> and
  \<open>Int\<close>.\<close>

definition column_price :: "rat \<Rightarrow> money" where
  "column_price q = (if q < 0 then - \<lfloor>- q * 100 + 1 / 2\<rfloor> else \<lfloor>q * 100 + 1 / 2\<rfloor>)"

definition fits :: "import_product \<Rightarrow> bool" where
  "fits p \<longleftrightarrow>
     (case ip_price p of None \<Rightarrow> True | Some q \<Rightarrow> \<bar>column_price q\<bar> < 10 ^ 12)
   \<and> (case ip_currency p of None \<Rightarrow> True | Some s \<Rightarrow> length s \<le> 3)
   \<and> (case ip_stock p of None \<Rightarrow> True | Some n \<Rightarrow> - (2 ^ 31) \<le> n \<and> n < 2 ^ 31)"

abbreviation out_of_column :: app_error where
  "out_of_column \<equiv> Plain ''P2000''"

definition productCreate :: "sheet_language \<Rightarrow> uuid \<Rightarrow> uuid \<Rightarrow> uuid \<Rightarrow> instant \<Rightarrow> nat \<Rightarrow> import_product \<Rightarrow> product" where
  "productCreate L pid t source now n p = \<lparr>pr_id = pid, pr_tenant = t, pr_sku = ip_sku p, pr_name = ip_name p,
     pr_price = map_option column_price (ip_price p), pr_currency = ip_currency p, pr_stock = ip_stock p, pr_active = ip_active p,
     pr_aliases = ip_aliases p, pr_description = ip_description p, pr_category = ip_category p, pr_brand = ip_brand p,
     pr_color = ip_color p, pr_size = ip_size p, pr_images = ip_images p, pr_attributes = ip_attributes p,
     pr_source = Some source, pr_row_key = Some (sl_number L (of_nat n)), pr_updated = now\<rparr>"

fun put_target :: "import_product \<Rightarrow> target \<Rightarrow> product \<Rightarrow> product" where
  "put_target p T_DESCRIPTION r = r\<lparr>pr_description := ip_description p\<rparr>"
| "put_target p T_PRICE r = r\<lparr>pr_price := map_option column_price (ip_price p)\<rparr>"
| "put_target p T_CURRENCY r = r\<lparr>pr_currency := ip_currency p\<rparr>"
| "put_target p T_STOCK r = r\<lparr>pr_stock := ip_stock p\<rparr>"
| "put_target p T_CATEGORY r = r\<lparr>pr_category := ip_category p\<rparr>"
| "put_target p T_BRAND r = r\<lparr>pr_brand := ip_brand p\<rparr>"
| "put_target p T_ALIASES r = r\<lparr>pr_aliases := ip_aliases p\<rparr>"
| "put_target p T_COLOR r = r\<lparr>pr_color := ip_color p\<rparr>"
| "put_target p T_SIZE r = r\<lparr>pr_size := ip_size p\<rparr>"
| "put_target p T_IMAGES r = r\<lparr>pr_images := ip_images p\<rparr>"
| "put_target p T_ACTIVE r = r\<lparr>pr_active := ip_active p\<rparr>"
| "put_target p T_ATTRIBUTES r = r\<lparr>pr_attributes := ip_attributes p\<rparr>"
| "put_target p t r = r"

definition productUpdate :: "sheet_language \<Rightarrow> uuid \<Rightarrow> instant \<Rightarrow> nat \<Rightarrow> import_product \<Rightarrow> target list \<Rightarrow> product \<Rightarrow> product" where
  "productUpdate L source now n p present r = foldl (\<lambda>r t. put_target p t r)
     (r\<lparr>pr_source := Some source, pr_row_key := Some (sl_number L (of_nat n)), pr_name := ip_name p, pr_updated := now\<rparr>) present"

definition product_at :: "uuid \<Rightarrow> string \<Rightarrow> product \<Rightarrow> bool" where
  "product_at t sku r \<longleftrightarrow> pr_tenant r = t \<and> pr_sku r = sku"

text \<open>A row with its product and the targets that it has.\<close>

type_synonym write_row = "nat \<times> import_product \<times> target list"

fun upsert_product :: "sheet_language \<Rightarrow> uuid \<Rightarrow> uuid \<Rightarrow> instant \<Rightarrow> write_row \<Rightarrow> unit dbtx" where
  "upsert_product L t source now (n, p, present) =
     tx_seq (tx_when (\<not> fits p) out_of_column)
    (tx_bind (tx_read (\<lambda>d. any_row (product_at t (ip_sku p)) (products d))) (\<lambda>known.
       if known then tx_write (\<lambda>d. d\<lparr>products := update_where (product_at t (ip_sku p)) (productUpdate L source now n p present) (products d)\<rparr>)
       else tx_bind fresh_id (\<lambda>pid. tx_write (\<lambda>d. d\<lparr>products := products d @ [productCreate L pid t source now n p]\<rparr>))))"

primrec write_products :: "sheet_language \<Rightarrow> uuid \<Rightarrow> uuid \<Rightarrow> instant \<Rightarrow> write_row list \<Rightarrow> unit dbtx" where
  "write_products L t source now [] = tx_return ()"
| "write_products L t source now (r # rows) = tx_seq (upsert_product L t source now r) (write_products L t source now rows)"

definition lease_owned :: "uuid \<Rightarrow> uuid \<Rightarrow> uuid \<times> nat \<Rightarrow> instant \<Rightarrow> catalogue_source \<Rightarrow> bool" where
  "lease_owned t source lease now s \<longleftrightarrow> cs_id s = source \<and> cs_tenant s = t \<and> cs_type s = GOOGLE_SHEETS \<and> cs_lease s = Some (fst lease)
     \<and> cs_version s = snd lease \<and> (\<exists>e. cs_lease_expires s = Some e \<and> now < e)"

abbreviation lease_lost :: app_error where
  "lease_lost \<equiv> Plain ''Catalogue synchronization lease was lost''"

abbreviation foreign_sku :: app_error where
  "foreign_sku \<equiv> Plain ''Catalogue SKU belongs to another source''"

definition assertImportLeaseOwned :: "uuid \<Rightarrow> uuid \<Rightarrow> (uuid \<times> nat) option \<Rightarrow> instant \<Rightarrow> unit dbtx" where
  "assertImportLeaseOwned t source lease now = (case lease of None \<Rightarrow> tx_return ()
     | Some l \<Rightarrow> tx_bind (tx_read (\<lambda>d. any_row (lease_owned t source l now) (catalogue_sources d))) (\<lambda>owned. tx_when (\<not> owned) lease_lost))"

definition fenceImportLease :: "uuid \<Rightarrow> uuid \<Rightarrow> (uuid \<times> nat) option \<Rightarrow> instant \<Rightarrow> unit dbtx" where
  "fenceImportLease t source lease now = (case lease of None \<Rightarrow> tx_return ()
     | Some l \<Rightarrow> tx_bind (tx_read (\<lambda>d. count_where (lease_owned t source l now) (catalogue_sources d))) (\<lambda>n.
         tx_seq (tx_write (\<lambda>d. d\<lparr>catalogue_sources := update_where (lease_owned t source l now) (\<lambda>s. s\<lparr>cs_lease := Some (fst l)\<rparr>) (catalogue_sources d)\<rparr>))
           (tx_when (n \<noteq> 1) lease_lost)))"

definition foreign_product :: "uuid \<Rightarrow> uuid \<Rightarrow> string list \<Rightarrow> product \<Rightarrow> bool" where
  "foreign_product t source skus p \<longleftrightarrow> pr_tenant p = t \<and> pr_sku p \<in> set skus \<and> pr_source p \<noteq> None \<and> pr_source p \<noteq> Some source"

definition upsert_tx :: "sheet_language \<Rightarrow> table_input \<Rightarrow> write_row list \<Rightarrow> instant \<Rightarrow> instant \<Rightarrow> unit dbtx" where
  "upsert_tx L input rows now later =
     (let t = ti_tenant input; source = ti_source input; lease = ti_lease input in
      tx_seq (assertImportLeaseOwned t source lease now)
     (tx_bind (tx_read (\<lambda>d. any_row (foreign_product t source (map (ip_sku \<circ> fst \<circ> snd) rows)) (products d))) (\<lambda>foreign.
      tx_seq (tx_when (\<not> ti_reassign input \<and> foreign) foreign_sku)
     (tx_seq (write_products L t source now rows)
      (fenceImportLease t source lease later)))))"

definition upsertCatalogueProducts :: "sheet_language \<Rightarrow> table_input \<Rightarrow> write_row list \<Rightarrow> (nat \<Rightarrow> bool) \<Rightarrow> instant \<Rightarrow> instant \<Rightarrow> unit dbservice" where
  "upsertCatalogueProducts L input rows conflict now later = serializable conflict (upsert_tx L input rows now later)"

record import_counts =
  ic_total :: nat
  ic_valid :: nat
  ic_created :: nat
  ic_updated :: nat
  ic_skipped :: nat
  ic_failed :: nat
  ic_errors :: "(nat \<times> import_code list) list"

definition write_rows :: "import_row list \<Rightarrow> write_row list" where
  "write_rows rows = map (\<lambda>r. (ir_number r, the (ir_product r), ir_present r)) (filter valid_row rows)"

definition import_result :: "import_plan \<Rightarrow> import_counts" where
  "import_result plan = \<lparr>ic_total = length (pl_rows plan), ic_valid = length (filter valid_row (pl_rows plan)),
     ic_created = pl_created plan, ic_updated = pl_updated plan, ic_skipped = pl_skipped plan, ic_failed = pl_failed plan,
     ic_errors = take 100 (map (\<lambda>r. (ir_number r, ir_codes r)) (filter (\<lambda>r. ir_codes r \<noteq> []) (pl_rows plan)))\<rparr>"

definition importCatalogueTable ::
  "sheet_language \<Rightarrow> table_input \<Rightarrow> (db \<Rightarrow> db) \<Rightarrow> (nat \<Rightarrow> bool) \<Rightarrow> instant \<Rightarrow> instant \<Rightarrow> import_counts dbservice" where
  "importCatalogueTable L input env conflict now later d =
     (let plan = buildCatalogueImportPlan L input d in
      case upsertCatalogueProducts L input (write_rows (pl_rows plan)) conflict now later (env d) of
        (Inl e, d') \<Rightarrow> (Inl e, d')
      | (Inr _, d') \<Rightarrow> (Inr (import_result plan), d'))"

end
