(* ===== verification/Sheet_Rows.thy ===== *)
theory Sheet_Rows
  imports Catalogue
begin

text \<open>
  The rows of a sheet, \<open>apps/worker/src/catalogue/catalogue-row-classifier.ts\<close>: under a proposal
  for the structure of the sheet every row is a product, is left out, or is undecided; decisions
  on the undecided rows end the classification.  The confidences of a proposal are left out.
\<close>

record column =
  co_index :: nat
  co_label :: string
  co_target :: target

record proposal =
  pp_header_start :: nat
  pp_header_end :: nat
  pp_data_start :: nat
  pp_columns :: "column list"

type_synonym sheet_row = "nat \<times> cell list"

text \<open>\<open>tableStructureProposalSchema\<close>\<close>

definition proposal_ok :: "proposal \<Rightarrow> bool" where
  "proposal_ok p \<longleftrightarrow> 0 < pp_header_start p \<and> 0 < pp_header_end p \<and> 0 < pp_data_start p
     \<and> 1 \<le> length (pp_columns p) \<and> length (pp_columns p) \<le> 500
     \<and> list_all (\<lambda>c. co_index c \<le> 499 \<and> 1 \<le> length (co_label c) \<and> length (co_label c) \<le> 300) (pp_columns p)
     \<and> pp_header_start p \<le> pp_header_end p \<and> pp_header_end p - pp_header_start p \<le> 2 \<and> pp_header_end p < pp_data_start p"

definition validateProposalAgainstMatrix :: "sheet_row list \<Rightarrow> proposal \<Rightarrow> app_error + unit" where
  "validateProposalAgainstMatrix rows p =
     (if \<not> {pp_header_start p, pp_header_end p, pp_data_start p} \<subseteq> set (map fst rows) then Inl (Plain ''Structure rows do not exist in the source matrix'')
      else let width = foldl (\<lambda>m r. max m (length (snd r))) 0 rows in
        if list_ex (\<lambda>c. width \<le> co_index c) (pp_columns p) then Inl (Plain ''Structure column does not exist in the source matrix'') else Inr ())"

definition hasValue :: "cell \<Rightarrow> bool" where
  "hasValue c = (case c of CNull \<Rightarrow> False | CText s \<Rightarrow> trim s \<noteq> [] | _ \<Rightarrow> True)"

definition cell_at :: "cell list \<Rightarrow> nat \<Rightarrow> cell" where
  "cell_at cells i = (if i < length cells then cells ! i else CNull)"

fun join_labels :: "string list \<Rightarrow> string" where
  "join_labels [] = []"
| "join_labels [s] = s"
| "join_labels (s # t # ss) = s @ '' / '' @ join_labels (t # ss)"

definition header_label :: "sheet_language \<Rightarrow> sheet_row list \<Rightarrow> nat \<Rightarrow> nat \<Rightarrow> string" where
  "header_label L rows i n = (case List.find (\<lambda>r. fst r = n) rows of None \<Rightarrow> [] | Some r \<Rightarrow> trim (cell_text L (cell_at (snd r) i)))"

definition combinedHeader :: "sheet_language \<Rightarrow> sheet_row list \<Rightarrow> proposal \<Rightarrow> nat \<Rightarrow> string \<Rightarrow> string" where
  "combinedHeader L rows p i fallback =
     (let labels = foldl (\<lambda>ls n. let s = header_label L rows i n in
            if s \<noteq> [] \<and> \<not> list_ex (\<lambda>l. normalizeHeader L l = normalizeHeader L s) ls then ls @ [s] else ls) [] [pp_header_start p..<Suc (pp_header_end p)];
          s = join_labels labels in
      if s = [] then fallback else s)"

definition matchesHeaders :: "sheet_language \<Rightarrow> cell list \<Rightarrow> string list \<Rightarrow> bool" where
  "matchesHeaders L cells headers =
     (let filled = filter (hasValue \<circ> fst) (zip cells headers) in
      filled \<noteq> [] \<and> list_all (\<lambda>(c, h). normalizeHeader L (cell_text L c) = normalizeHeader L h) filled)"

record classification =
  cf_headers :: "string list"
  cf_products :: "sheet_row list"
  cf_ambiguous :: "sheet_row list"
  cf_skipped :: "nat list"

definition target_cell :: "column list \<Rightarrow> cell list \<Rightarrow> target \<Rightarrow> cell" where
  "target_cell cols cells t = (case map_of (rev (zip (map co_target cols) cells)) t of None \<Rightarrow> CNull | Some c \<Rightarrow> c)"

definition add_product :: "sheet_row \<Rightarrow> classification \<Rightarrow> classification" where
  "add_product r c = c\<lparr>cf_products := cf_products c @ [r]\<rparr>"

definition add_ambiguous :: "sheet_row \<Rightarrow> classification \<Rightarrow> classification" where
  "add_ambiguous r c = c\<lparr>cf_ambiguous := cf_ambiguous c @ [r]\<rparr>"

definition add_skipped :: "nat \<Rightarrow> classification \<Rightarrow> classification" where
  "add_skipped n c = c\<lparr>cf_skipped := cf_skipped c @ [n]\<rparr>"

definition classify_row :: "sheet_language \<Rightarrow> proposal \<Rightarrow> column list \<Rightarrow> classification \<Rightarrow> sheet_row \<Rightarrow> classification" where
  "classify_row L p cols c r =
     (let n = fst r; cells = map (\<lambda>col. cell_at (snd r) (co_index col)) cols;
          named = hasValue (target_cell cols cells T_NAME);
          evident = list_ex (\<lambda>t. hasValue (target_cell cols cells t)) [T_SKU, T_PRICE, T_STOCK] in
      if n = pp_header_start p then c
      else if n < pp_data_start p then (if pp_header_start p < n then add_skipped n c else c)
      else if list_all (\<lambda>x. \<not> hasValue x) cells \<or> matchesHeaders L cells (cf_headers c) then add_skipped n c
      else if named \<and> evident then add_product (n, cells) c
      else if named \<and> 1 < length cols \<and> length (filter hasValue cells) = 1 then add_skipped n c
      else add_ambiguous (n, cells) c)"

definition normalizeCatalogueRows :: "sheet_language \<Rightarrow> sheet_row list \<Rightarrow> proposal \<Rightarrow> app_error + classification" where
  "normalizeCatalogueRows L rows p =
     (if \<not> proposal_ok p then Inl (Plain ''ZodError'')
      else case validateProposalAgainstMatrix rows p of
          Inl e \<Rightarrow> Inl e
        | Inr _ \<Rightarrow> let cols = filter (\<lambda>c. co_target c \<noteq> T_IGNORE) (pp_columns p) in
            Inr (foldl (classify_row L p cols)
              \<lparr>cf_headers = map (\<lambda>c. combinedHeader L rows p (co_index c) (co_label c)) cols, cf_products = [], cf_ambiguous = [], cf_skipped = []\<rparr> rows))"

text \<open>A decision: the number of the row and whether it is a product.\<close>

fun decide_rows :: "(nat \<times> bool) list \<Rightarrow> sheet_row list \<Rightarrow> classification \<Rightarrow> app_error + classification" where
  "decide_rows decisions [] c = Inr c"
| "decide_rows decisions (r # rows) c = (case map_of (rev decisions) (fst r) of
       None \<Rightarrow> Inl (Plain ''Missing decision for source row'')
     | Some True \<Rightarrow> decide_rows decisions rows (add_product r c)
     | Some False \<Rightarrow> decide_rows decisions rows (add_skipped (fst r) c))"

definition applyAmbiguousDecisions :: "classification \<Rightarrow> (nat \<times> bool) list \<Rightarrow> app_error + classification" where
  "applyAmbiguousDecisions c decisions = (case decide_rows decisions (cf_ambiguous c) c of
       Inl e \<Rightarrow> Inl e
     | Inr c' \<Rightarrow> Inr (c'\<lparr>cf_products := sort_key fst (cf_products c'), cf_ambiguous := [], cf_skipped := sort (cf_skipped c')\<rparr>))"

section \<open>Properties\<close>

definition classified :: "classification \<Rightarrow> nat multiset" where
  "classified c = mset (map fst (cf_products c)) + mset (map fst (cf_ambiguous c)) + mset (cf_skipped c)"

lemma classify_row_counts:
  assumes "proposal_ok p"
  shows "classified (classify_row L p cols c r) = classified c + (if pp_header_start p < fst r then {#fst r#} else {#})
    \<and> cf_headers (classify_row L p cols c r) = cf_headers c"
  using assms by (auto simp: classify_row_def Let_def classified_def add_product_def add_ambiguous_def add_skipped_def proposal_ok_def)

lemma classify_rows_counts:
  assumes "proposal_ok p"
  shows "classified (foldl (classify_row L p cols) c rows) = classified c + mset (filter (\<lambda>n. pp_header_start p < n) (map fst rows))
    \<and> cf_headers (foldl (classify_row L p cols) c rows) = cf_headers c"
  using classify_row_counts[OF assms] by (induction rows arbitrary: c) auto

lemma classify_row_width:
  assumes "\<forall>r\<in>set (cf_products c) \<union> set (cf_ambiguous c). length (snd r) = length cols"
  shows "\<forall>r\<in>set (cf_products (classify_row L p cols c r)) \<union> set (cf_ambiguous (classify_row L p cols c r)). length (snd r) = length cols"
  using assms by (auto simp: classify_row_def Let_def add_product_def add_ambiguous_def add_skipped_def)

lemma classify_rows_width:
  assumes "\<forall>r\<in>set (cf_products c) \<union> set (cf_ambiguous c). length (snd r) = length cols"
  shows "\<forall>r\<in>set (cf_products (foldl (classify_row L p cols) c rows)) \<union> set (cf_ambiguous (foldl (classify_row L p cols) c rows)). length (snd r) = length cols"
  using assms
proof (induction rows arbitrary: c)
  case (Cons r rows)
  show ?case using Cons.IH[OF classify_row_width[OF Cons.prems]] by simp
qed simp

lemma decide_rows_run:
  "decide_rows decisions rows c =
     (if \<exists>r\<in>set rows. map_of (rev decisions) (fst r) = None then Inl (Plain ''Missing decision for source row'')
      else Inr (c\<lparr>cf_products := cf_products c @ filter (\<lambda>r. map_of (rev decisions) (fst r) = Some True) rows,
                   cf_skipped := cf_skipped c @ map fst (filter (\<lambda>r. map_of (rev decisions) (fst r) = Some False) rows)\<rparr>))"
proof (induction rows arbitrary: c)
  case (Cons r rows)
  show ?case
  proof (cases "map_of (rev decisions) (fst r)")
    case (Some b)
    then show ?thesis by (cases b) (simp_all add: Cons.IH add_product_def add_skipped_def)
  qed simp
qed simp

text \<open>C38.
  No row of a sheet is lost or counted twice: after a proposal that fits the sheet and decisions
  on the undecided rows, the rows below the first header row are the products together with the
  rows left out, each as often as it is in the sheet; products are in the order of their numbers
  and as wide as the columns that count, and an undecided row is a product exactly when it was
  decided so.\<close>

theorem rows_classified:
  assumes "normalizeCatalogueRows L rows p = Inr c" and "\<forall>r\<in>set (cf_ambiguous c). fst r \<in> fst ` set decisions"
  shows "\<exists>c'. applyAmbiguousDecisions c decisions = Inr c'
    \<and> mset (map fst (cf_products c')) + mset (cf_skipped c') = mset (filter (\<lambda>n. pp_header_start p < n) (map fst rows))
    \<and> sorted (map fst (cf_products c')) \<and> sorted (cf_skipped c') \<and> cf_ambiguous c' = []
    \<and> (\<forall>r\<in>set (cf_products c'). length (snd r) = length (cf_headers c'))
    \<and> set (cf_products c') = set (cf_products c) \<union> {r \<in> set (cf_ambiguous c). map_of (rev decisions) (fst r) = Some True}"
proof -
  let ?cols = "filter (\<lambda>c. co_target c \<noteq> T_IGNORE) (pp_columns p)"
  let ?c0 = "\<lparr>cf_headers = map (\<lambda>c. combinedHeader L rows p (co_index c) (co_label c)) ?cols, cf_products = [], cf_ambiguous = [], cf_skipped = []\<rparr>"
  have ok: "proposal_ok p" and c: "c = foldl (classify_row L p ?cols) ?c0 rows"
    using assms(1) by (auto simp: normalizeCatalogueRows_def Let_def split: if_splits sum.splits)
  have all: "classified c = mset (filter (\<lambda>n. pp_header_start p < n) (map fst rows))" and headers: "cf_headers c = cf_headers ?c0"
    using classify_rows_counts[OF ok, of L ?cols ?c0 rows] unfolding c[symmetric] by (simp_all add: classified_def)
  have width: "\<forall>r\<in>set (cf_products c) \<union> set (cf_ambiguous c). length (snd r) = length (cf_headers c)"
    using classify_rows_width[of ?c0 ?cols L p rows] unfolding headers unfolding c by simp
  have "map_of (rev decisions) n \<noteq> None" if "n \<in> fst ` set decisions" for n using that by (auto simp: map_of_eq_None_iff)
  then have none: "\<not> (\<exists>r\<in>set (cf_ambiguous c). map_of (rev decisions) (fst r) = None)" using assms(2) by blast
  let ?P = "\<lambda>b r. map_of (rev decisions) (fst r) = Some b"
  let ?c' = "c\<lparr>cf_products := sort_key fst (cf_products c @ filter (?P True) (cf_ambiguous c)), cf_ambiguous := [],
    cf_skipped := sort (cf_skipped c @ map fst (filter (?P False) (cf_ambiguous c)))\<rparr>"
  have run: "applyAmbiguousDecisions c decisions = Inr ?c'"
    unfolding applyAmbiguousDecisions_def decide_rows_run if_not_P[OF none] by simp
  have split: "mset (map fst (filter (?P True) rs)) + mset (map fst (filter (?P False) rs)) = mset (map fst rs)"
    if "\<forall>r\<in>set rs. map_of (rev decisions) (fst r) \<noteq> None" for rs :: "sheet_row list"
    using that by (induction rs) auto
  have "mset (map fst (cf_products ?c')) + mset (cf_skipped ?c') = classified c"
    using split[of "cf_ambiguous c"] none by (simp add: classified_def union_assoc)
  then have "mset (map fst (cf_products ?c')) + mset (cf_skipped ?c') = mset (filter (\<lambda>n. pp_header_start p < n) (map fst rows))" using all by simp
  then show ?thesis using run width by (intro exI[of _ ?c']) auto
qed


text \<open>A sheet with a heading, a product, a row that only has a name, and one with a price alone.\<close>

definition sheet_sample :: "sheet_row list" where
  "sheet_sample = [(1, [CText ''Name'', CText ''Price'']), (2, [CText ''Dress'', CNumber 10]), (3, [CText ''Coats'', CNull]), (4, [CNull, CNumber 5])]"

definition proposal_sample :: proposal where
  "proposal_sample = \<lparr>pp_header_start = 1, pp_header_end = 1, pp_data_start = 2, pp_columns =
     [\<lparr>co_index = 0, co_label = ''Name'', co_target = T_NAME\<rparr>, \<lparr>co_index = 1, co_label = ''Price'', co_target = T_PRICE\<rparr>]\<rparr>"

definition plain_sheet :: sheet_language where
  "plain_sheet = \<lparr>sl_nfkc = id, sl_lower = id, sl_upper = id, sl_number = (\<lambda>q. ''n''), sl_digest = (\<lambda>s n p. ''0''), sl_http = (\<lambda>u. True),
     sl_object = (\<lambda>s. None)\<rparr>"

lemma plain_sheet_ops [simp]:
  "sl_nfkc plain_sheet = id" "sl_lower plain_sheet = id" "sl_upper plain_sheet = id"
  by (simp_all add: plain_sheet_def)

lemma sheet_sample_rows:
  "normalizeCatalogueRows plain_sheet sheet_sample proposal_sample = Inr \<lparr>cf_headers = [''Name'', ''Price''],
     cf_products = [(2, [CText ''Dress'', CNumber 10])], cf_ambiguous = [(4, [CNull, CNumber 5])], cf_skipped = [3]\<rparr>"
proof -
  have ok: "proposal_ok proposal_sample" by (simp add: proposal_ok_def proposal_sample_def)
  have trims: "trim ''Dress'' = ''Dress''" "trim ''Name'' = ''Name''" "trim ''Price'' = ''Price''" "trim ''Coats'' = ''Coats''" by (simp_all add: trim_def white_space_def)
  have header: "combinedHeader plain_sheet sheet_sample proposal_sample 0 ''Name'' = ''Name''" "combinedHeader plain_sheet sheet_sample proposal_sample 1 ''Price'' = ''Price''"
    by (simp_all add: combinedHeader_def proposal_sample_def header_label_def sheet_sample_def cell_at_def trims Let_def)
  have valid: "validateProposalAgainstMatrix sheet_sample proposal_sample = Inr ()"
    by (simp add: validateProposalAgainstMatrix_def sheet_sample_def proposal_sample_def Let_def)
  have norm: "normalizeHeader plain_sheet ''Dress'' = ''Dress''" "normalizeHeader plain_sheet ''Coats'' = ''Coats''" "normalizeHeader plain_sheet ''Name'' = ''Name''"
    "normalizeHeader plain_sheet ''Price'' = ''Price''" "normalizeHeader plain_sheet (sl_number plain_sheet q) = ''n''" for q
    by (simp_all add: normalizeHeader_def trim_def white_space_def plain_sheet_def)
  let ?cols = "[\<lparr>co_index = 0, co_label = ''Name'', co_target = T_NAME\<rparr>, \<lparr>co_index = 1, co_label = ''Price'', co_target = T_PRICE\<rparr>]"
  have cols: "filter (\<lambda>c. co_target c \<noteq> T_IGNORE) (pp_columns proposal_sample) = ?cols" by (simp add: proposal_sample_def)
  have starts: "pp_header_start proposal_sample = 1" "pp_data_start proposal_sample = 2" by (simp_all add: proposal_sample_def)
  have rows: "classify_row plain_sheet proposal_sample ?cols c (1, [CText ''Name'', CText ''Price'']) = c"
    "classify_row plain_sheet proposal_sample ?cols c (2, [CText ''Dress'', CNumber 10]) = add_product (2, [CText ''Dress'', CNumber 10]) c"
    "classify_row plain_sheet proposal_sample ?cols c (3, [CText ''Coats'', CNull]) = add_skipped 3 c"
    "classify_row plain_sheet proposal_sample ?cols c (4, [CNull, CNumber 5]) = add_ambiguous (4, [CNull, CNumber 5]) c"
    if "cf_headers c = [''Name'', ''Price'']" for c
    using that by (simp_all add: classify_row_def Let_def starts cell_at_def target_cell_def hasValue_def trims matchesHeaders_def norm)
  have fold: "foldl f z sheet_sample = f (f (f (f z (1, [CText ''Name'', CText ''Price''])) (2, [CText ''Dress'', CNumber 10])) (3, [CText ''Coats'', CNull])) (4, [CNull, CNumber 5])"
    for f and z :: classification
    by (simp add: sheet_sample_def)
  show ?thesis
    unfolding normalizeCatalogueRows_def valid cols Let_def fold using ok
    by (simp add: header[unfolded One_nat_def] rows[unfolded One_nat_def] add_product_def add_skipped_def add_ambiguous_def)
qed

theorem rows_classified_witness:
  "\<exists>c c'. normalizeCatalogueRows plain_sheet sheet_sample proposal_sample = Inr c \<and> applyAmbiguousDecisions c [(4, True)] = Inr c'
    \<and> mset (map fst (cf_products c')) + mset (cf_skipped c') = {#2, 3, 4#} \<and> (4, [CNull, CNumber 5]) \<in> set (cf_products c')"
  using rows_classified[OF sheet_sample_rows, of "[(4, True)]"] sheet_sample_rows
  by (force simp: sheet_sample_def proposal_sample_def)

end
