(* ===== verification/Catalogue_Props.thy ===== *)
theory Catalogue_Props
  imports Sheet_Rows Procurement_Props Payments_Props
begin

text \<open>
  What holds of an import of products: the rows of a plan, what the transaction has written when
  it commits, that a second import of the same table changes nothing, and that it is all or
  nothing.
\<close>

section \<open>Reading a row\<close>

text \<open>What is true of a row at every moment while it is read: it keeps its article number and its
  name, what was accepted is in order, and what was found wrong is an error.\<close>

definition product_ok :: "sheet_language \<Rightarrow> import_product \<Rightarrow> bool" where
  "product_ok L p \<longleftrightarrow> (\<forall>q. ip_price p = Some q \<longrightarrow> 0 \<le> q) \<and> list_all (sl_http L) (ip_images p)
     \<and> distinct (ip_aliases p) \<and> [] \<notin> set (ip_aliases p)"

definition in_order :: "sheet_language \<Rightarrow> string \<Rightarrow> string \<Rightarrow> reading \<Rightarrow> bool" where
  "in_order L sku name w \<longleftrightarrow> ip_sku (rw_product w) = sku \<and> ip_name (rw_product w) = name \<and> product_ok L (rw_product w)
     \<and> (\<forall>x\<in>set (rw_found w). snd x \<notin> {EMPTY_ROW, CATEGORY_ROW})"

lemma in_order_reject: "in_order L sku name w \<Longrightarrow> c \<notin> {EMPTY_ROW, CATEGORY_ROW} \<Longrightarrow> in_order L sku name (reject e c w)"
  by (auto simp: in_order_def reject_def)

lemma in_order_accept:
  "in_order L sku name w \<Longrightarrow> ip_sku (f (rw_product w)) = ip_sku (rw_product w) \<Longrightarrow> ip_name (f (rw_product w)) = ip_name (rw_product w) \<Longrightarrow>
    (product_ok L (rw_product w) \<Longrightarrow> product_ok L (f (rw_product w))) \<Longrightarrow> in_order L sku name (accept t f w)"
  by (simp add: in_order_def accept_def)

lemma found_accept [simp]: "rw_found (accept t f w) = rw_found w"
  by (simp add: accept_def)

lemma found_reject [simp]: "rw_found (reject e c w) = rw_found w @ [(Told e, c)]"
  by (simp add: reject_def)

lemma distinct_first_of_each [simp]: "distinct (first_of_each xs)"
  by (simp add: first_of_each_def)

lemma set_first_of_each [simp]: "set (first_of_each xs) = set xs"
  by (simp add: first_of_each_def)

lemma splitList_items: "distinct (splitList L v) \<and> [] \<notin> set (splitList L v)"
  by (simp add: splitList_def split: option.splits)

lemma clear_target_fields:
  "ip_sku (clear_target t p) = ip_sku p" "ip_name (clear_target t p) = ip_name p" "product_ok L p \<Longrightarrow> product_ok L (clear_target t p)"
  by (cases t; simp add: product_ok_def)+

lemma in_order_clears: "in_order L sku name w \<Longrightarrow> in_order L sku name (applyExplicitClears L m clears w)"
  unfolding applyExplicitClears_def
proof (induction clears arbitrary: w)
  case (Cons t clears)
  then show ?case by (simp add: in_order_accept clear_target_fields)
qed simp

lemma in_order_text:
  assumes "in_order L sku name w"
    and "\<And>s p. ip_sku (f s p) = ip_sku p \<and> ip_name (f s p) = ip_name p \<and> (product_ok L p \<longrightarrow> product_ok L (f s p))"
  shows "in_order L sku name (assignText L m t f w)"
  using assms by (auto simp: assignText_def intro!: in_order_accept split: option.splits)

lemma in_order_texts: "in_order L sku name w \<Longrightarrow> in_order L sku name (read_texts L m w)"
  unfolding read_texts_def by (intro in_order_text; simp add: product_ok_def)

lemma in_order_price: "in_order L sku name w \<Longrightarrow> in_order L sku name (read_price L m w)"
  by (auto simp: read_price_def Let_def product_ok_def intro!: in_order_reject in_order_accept split: option.splits)

lemma in_order_stock: "in_order L sku name w \<Longrightarrow> in_order L sku name (read_stock L m w)"
  by (auto simp: read_stock_def Let_def product_ok_def intro!: in_order_reject in_order_accept split: option.splits)

lemma in_order_lists: "in_order L sku name w \<Longrightarrow> in_order L sku name (read_lists L m w)"
  using splitList_items[of L] by (auto simp: read_lists_def Let_def product_ok_def list_ex_iff list_all_iff intro!: in_order_reject in_order_accept)

lemma in_order_flags: "in_order L sku name w \<Longrightarrow> in_order L sku name (read_flags L m w)"
  by (auto simp: read_flags_def Let_def product_ok_def intro!: in_order_reject in_order_accept split: option.splits)

definition supplied_sku :: "sheet_language \<Rightarrow> uuid \<Rightarrow> bool \<Rightarrow> mapped_row \<Rightarrow> string" where
  "supplied_sku L source priced m = (case textValue L (mapped_cell m T_SKU) of Some s \<Rightarrow> sl_upper L s
     | None \<Rightarrow> (case textValue L (mapped_cell m T_NAME) of
         Some n \<Rightarrow> generatedSku L source n (if priced then textValue L (mapped_cell m T_PRICE) else None) | None \<Rightarrow> []))"

lemma read_row_in_order:
  "in_order L (supplied_sku L source priced m) (case textValue L (mapped_cell m T_NAME) of Some n \<Rightarrow> n | None \<Rightarrow> []) (read_row L source priced m clears)"
proof -
  let ?name = "case textValue L (mapped_cell m T_NAME) of Some n \<Rightarrow> n | None \<Rightarrow> []"
  let ?w = "\<lparr>rw_product = new_product (supplied_sku L source priced m) ?name, rw_found = [], rw_targets = []\<rparr>"
  have "in_order L (supplied_sku L source priced m) ?name
      (if textValue L (mapped_cell m T_NAME) = None then reject ''Name is required'' NAME_REQUIRED ?w else ?w)"
    by (simp add: in_order_def reject_def new_product_def product_ok_def)
  then have "in_order L (supplied_sku L source priced m) ?name (read_flags L m (read_lists L m (read_stock L m (read_price L m (read_texts L m (applyExplicitClears L m clears
      (if textValue L (mapped_cell m T_NAME) = None then reject ''Name is required'' NAME_REQUIRED ?w else ?w)))))))"
    by (intro in_order_flags in_order_lists in_order_stock in_order_price in_order_texts in_order_clears)
  also have "read_flags L m (read_lists L m (read_stock L m (read_price L m (read_texts L m (applyExplicitClears L m clears
      (if textValue L (mapped_cell m T_NAME) = None then reject ''Name is required'' NAME_REQUIRED ?w else ?w)))))) = read_row L source priced m clears"
    by (cases "textValue L (mapped_cell m T_SKU)"; cases "textValue L (mapped_cell m T_NAME)")
      (simp_all add: read_row_def supplied_sku_def Let_def)
  finally show ?thesis .
qed

text \<open>What is found wrong stays found, so that a row without a name fails.\<close>

lemma found_texts [simp]: "rw_found (read_texts L m w) = rw_found w"
  by (simp add: read_texts_def assignText_def split: option.splits)

lemma found_clears [simp]: "rw_found (applyExplicitClears L m clears w) = rw_found w"
  unfolding applyExplicitClears_def by (induction clears arbitrary: w) simp_all

lemma found_grows:
  "set (rw_found w) \<subseteq> set (rw_found (read_price L m w))" "set (rw_found w) \<subseteq> set (rw_found (read_stock L m w))"
  "set (rw_found w) \<subseteq> set (rw_found (read_lists L m w))" "set (rw_found w) \<subseteq> set (rw_found (read_flags L m w))"
  by (auto simp: read_price_def read_stock_def read_lists_def read_flags_def Let_def split: option.splits)

lemma read_row_named:
  assumes "rw_found (read_row L source priced m clears) = []"
  shows "textValue L (mapped_cell m T_NAME) \<noteq> None"
proof
  assume n: "textValue L (mapped_cell m T_NAME) = None"
  define w where "w = applyExplicitClears L m clears (reject ''Name is required'' NAME_REQUIRED
    \<lparr>rw_product = new_product (supplied_sku L source priced m) [], rw_found = [], rw_targets = []\<rparr>)"
  have "read_row L source priced m clears = read_flags L m (read_lists L m (read_stock L m (read_price L m (read_texts L m w))))"
    using n by (cases "textValue L (mapped_cell m T_SKU)") (simp_all add: read_row_def supplied_sku_def w_def Let_def)
  moreover have "(Told ''Name is required'', NAME_REQUIRED) \<in> set (rw_found (read_texts L m w))" by (simp add: w_def)
  moreover have "set (rw_found u) \<subseteq> set (rw_found (read_flags L m (read_lists L m (read_stock L m (read_price L m u)))))" for u
    by (rule order_trans[OF found_grows(1) order_trans[OF found_grows(2) order_trans[OF found_grows(3) found_grows(4)]]])
  ultimately show False using assms by fastforce
qed


section \<open>The rows of a plan\<close>

definition upper_keeps :: "sheet_language \<Rightarrow> bool" where
  "upper_keeps L \<longleftrightarrow> (\<forall>s. s \<noteq> [] \<longrightarrow> sl_upper L s \<noteq> [])"

definition good_product :: "sheet_language \<Rightarrow> import_product \<Rightarrow> bool" where
  "good_product L p \<longleftrightarrow> ip_sku p \<noteq> [] \<and> ip_name p \<noteq> [] \<and> product_ok L p"

definition good_row :: "sheet_language \<Rightarrow> import_row \<Rightarrow> bool" where
  "good_row L r \<longleftrightarrow>
     (ir_codes r \<in> {[EMPTY_ROW], [CATEGORY_ROW]} \<and> ir_product r = None \<and> ir_errors r = [])
   \<or> (set (ir_codes r) \<inter> {EMPTY_ROW, CATEGORY_ROW} = {} \<and> ir_codes r \<noteq> [] \<and> ir_product r = None \<and> ir_errors r \<noteq> [])
   \<or> (ir_codes r = [] \<and> ir_errors r = [] \<and> (\<exists>p. ir_product r = Some p \<and> good_product L p))"

lemma textValue_some: "textValue L v = Some s \<Longrightarrow> s \<noteq> []"
  by (auto simp: textValue_def Let_def split: option.splits if_splits)

lemma supplied_sku_some:
  assumes "upper_keeps L" and "textValue L (mapped_cell m T_NAME) \<noteq> None"
  shows "supplied_sku L source priced m \<noteq> []"
proof (cases "textValue L (mapped_cell m T_SKU)")
  case None
  then show ?thesis using assms(2) by (auto simp: supplied_sku_def generatedSku_def)
next
  case (Some s)
  then show ?thesis using assms(1) textValue_some[OF Some] by (simp add: supplied_sku_def upper_keeps_def)
qed

lemma read_row_good:
  assumes "upper_keeps L" and "rw_found (read_row L source priced m clears) = []"
  shows "good_product L (rw_product (read_row L source priced m clears))"
proof -
  obtain n where n: "textValue L (mapped_cell m T_NAME) = Some n" using read_row_named[OF assms(2)] by blast
  show ?thesis
    using read_row_in_order[of L source priced m clears] supplied_sku_some[OF assms(1), of m source priced] textValue_some[OF n] n
    by (simp add: good_product_def in_order_def)
qed

lemma mapRow_good:
  assumes "upper_keeps L"
  shows "good_row L (mapRow L vals n source indexes mapping clears)"
proof -
  define m where "m = map_cells indexes mapping vals"
  define w where "w = read_row L source (T_PRICE \<in> snd ` set mapping) m clears"
  have codes: "set (map snd (rw_found w)) \<inter> {EMPTY_ROW, CATEGORY_ROW} = {}"
    using read_row_in_order[of L source "T_PRICE \<in> snd ` set mapping" m clears] by (auto simp: in_order_def w_def)
  have "good_product L (rw_product w)" if "rw_found w = []" using read_row_good[OF assms] that unfolding w_def by blast
  then show ?thesis
    using codes unfolding mapRow_def Let_def m_def[symmetric] w_def[symmetric] good_row_def skipped_row_def
    by (cases "rw_found w = []") (simp_all del: set_map)
qed

lemma mapRow_number [simp]: "ir_number (mapRow L vals n source indexes mapping clears) = n"
  by (simp add: mapRow_def Let_def skipped_row_def)

lemma mark_duplicate_good: "good_row L r \<Longrightarrow> good_row L (mark_duplicate rows r)"
  by (auto simp: mark_duplicate_def good_row_def row_sku_def Let_def split: option.splits)

lemma mark_duplicate_number [simp]: "ir_number (mark_duplicate rows r) = ir_number r"
  by (simp add: mark_duplicate_def Let_def split: option.splits)

lemma plan_rows_good: "upper_keeps L \<Longrightarrow> r \<in> set (plan_rows L input) \<Longrightarrow> good_row L r"
  by (auto simp: plan_rows_def mapped_rows_def Let_def intro!: mark_duplicate_good mapRow_good)

lemma plan_rows_numbers: "map ir_number (plan_rows L input) = map (row_number (ti_numbers input)) [0..<length (ti_rows input)]"
proof -
  have "map ir_number (plan_rows L input) = map (row_number (ti_numbers input) \<circ> fst) (enumerate 0 (ti_rows input))"
    by (simp add: plan_rows_def mapped_rows_def Let_def case_prod_unfold)
  also have "\<dots> = map (row_number (ti_numbers input)) (map fst (enumerate 0 (ti_rows input)))" by (simp only: map_map)
  finally show ?thesis by (simp only: map_fst_enumerate add_0)
qed

text \<open>Each row is one of three.\<close>

lemma good_row_kinds:
  assumes "good_row L r"
  shows "valid_row r \<and> \<not> skipped r \<and> \<not> failed_row r \<or> \<not> valid_row r \<and> skipped r \<and> \<not> failed_row r \<or> \<not> valid_row r \<and> \<not> skipped r \<and> failed_row r"
  using assms by (auto simp: good_row_def valid_row_def skipped_def failed_row_def)

lemma count_kinds:
  assumes "\<And>r. r \<in> set rows \<Longrightarrow> good_row L r"
  shows "count_where (\<lambda>r. valid_row r \<and> \<not> P r) rows + count_where (\<lambda>r. valid_row r \<and> P r) rows + count_where skipped rows + count_where failed_row rows = length rows"
  using assms
proof (induction rows)
  case (Cons r rows)
  then show ?case using good_row_kinds[of L r] by (cases "P r") auto
qed simp

text \<open>The article numbers of the rows that are left are distinct.\<close>

definition sku_of :: "import_row \<Rightarrow> string" where
  "sku_of r = ip_sku (the (ir_product r))"

lemma valid_mark_duplicate:
  assumes "good_row L r" and "valid_row (mark_duplicate rows r)"
  shows "mark_duplicate rows r = r \<and> valid_row r \<and> row_sku r = Some (sku_of r) \<and> length (sku_rows rows (sku_of r)) < 2"
  using assms by (auto simp: mark_duplicate_def valid_row_def good_row_def good_product_def row_sku_def sku_of_def Let_def split: option.splits if_splits)

lemma distinct_by_counts:
  assumes "\<And>x. x \<in> set xs \<Longrightarrow> length (filter (\<lambda>y. f y = f x) xs) < 2"
  shows "distinct (map f xs)"
  using assms
proof (induction xs)
  case (Cons a xs)
  have "filter (\<lambda>y. f y = f a) xs = []" using Cons.prems[of a] by (cases "filter (\<lambda>y. f y = f a) xs") auto
  then have "f a \<notin> f ` set xs" by (auto simp: filter_empty_conv)
  moreover have "length (filter (\<lambda>y. f y = f x) xs) < 2" if "x \<in> set xs" for x
    using Cons.prems[of x] that by (simp split: if_splits)
  ultimately show ?case using Cons.IH by simp
qed simp

lemma plan_skus_distinct:
  assumes "upper_keeps L"
  shows "distinct (map sku_of (filter valid_row (plan_rows L input)))"
proof (rule distinct_by_counts)
  define rows where "rows = mapped_rows L input"
  have good: "good_row L r" if "r \<in> set rows" for r
    using that mapRow_good[OF assms] by (auto simp: rows_def mapped_rows_def)
  have sub: "filter (\<lambda>y. valid_row (mark_duplicate rows y) \<and> sku_of (mark_duplicate rows y) = s) rows
      = filter (\<lambda>y. valid_row (mark_duplicate rows y) \<and> row_sku y = Some s) rows" for s
    using valid_mark_duplicate[OF good] by (intro filter_cong refl) fastforce
  have fewer: "length (filter (\<lambda>y. P y \<and> Q y) zs) \<le> length (filter Q zs)" for P Q and zs :: "import_row list"
    by (induction zs) auto
  fix x assume "x \<in> set (filter valid_row (plan_rows L input))"
  then obtain r where r: "r \<in> set rows" "x = mark_duplicate rows r" "valid_row x"
    by (auto simp: plan_rows_def rows_def Let_def)
  then have v: "sku_of x = sku_of r" "length (sku_rows rows (sku_of r)) < 2" using valid_mark_duplicate[OF good] by (metis, metis)
  have "length (filter (\<lambda>y. sku_of y = sku_of x) (filter valid_row (plan_rows L input)))
      = length (filter (\<lambda>y. valid_row (mark_duplicate rows y) \<and> sku_of (mark_duplicate rows y) = sku_of r) rows)"
    unfolding v(1) by (simp add: plan_rows_def rows_def Let_def filter_map o_def conj_commute)
  also have "\<dots> \<le> length (filter (\<lambda>y. row_sku y = Some (sku_of r)) rows)" unfolding sub by (rule fewer)
  also have "\<dots> < 2" using v(2) by (simp add: sku_rows_def)
  finally show "length (filter (\<lambda>y. sku_of y = sku_of x) (filter valid_row (plan_rows L input))) < 2" .
qed


section \<open>What is written\<close>

lemma put_targets: "foldl (\<lambda>r t. put_target p t r) r ts = r\<lparr>
    pr_price := (if T_PRICE \<in> set ts then map_option column_price (ip_price p) else pr_price r),
    pr_currency := (if T_CURRENCY \<in> set ts then ip_currency p else pr_currency r),
    pr_stock := (if T_STOCK \<in> set ts then ip_stock p else pr_stock r),
    pr_active := (if T_ACTIVE \<in> set ts then ip_active p else pr_active r),
    pr_aliases := (if T_ALIASES \<in> set ts then ip_aliases p else pr_aliases r),
    pr_description := (if T_DESCRIPTION \<in> set ts then ip_description p else pr_description r),
    pr_category := (if T_CATEGORY \<in> set ts then ip_category p else pr_category r),
    pr_brand := (if T_BRAND \<in> set ts then ip_brand p else pr_brand r),
    pr_color := (if T_COLOR \<in> set ts then ip_color p else pr_color r),
    pr_size := (if T_SIZE \<in> set ts then ip_size p else pr_size r),
    pr_images := (if T_IMAGES \<in> set ts then ip_images p else pr_images r),
    pr_attributes := (if T_ATTRIBUTES \<in> set ts then ip_attributes p else pr_attributes r)\<rparr>"
proof (induction ts arbitrary: r)
  case (Cons t ts)
  show ?case by (cases t) (simp_all add: Cons.IH)
qed simp

lemma productUpdate_fields [simp]:
  "pr_id (productUpdate L s now n p ts r) = pr_id r" "pr_tenant (productUpdate L s now n p ts r) = pr_tenant r"
  "pr_sku (productUpdate L s now n p ts r) = pr_sku r" "pr_source (productUpdate L s now n p ts r) = Some s"
  "pr_name (productUpdate L s now n p ts r) = ip_name p" "pr_updated (productUpdate L s now n p ts r) = now"
  by (simp_all add: productUpdate_def put_targets)

lemma productCreate_fields [simp]:
  "pr_id (productCreate L i t s now n p) = i" "pr_tenant (productCreate L i t s now n p) = t" "pr_sku (productCreate L i t s now n p) = ip_sku p"
  "pr_source (productCreate L i t s now n p) = Some s" "pr_name (productCreate L i t s now n p) = ip_name p" "pr_updated (productCreate L i t s now n p) = now"
  by (simp_all add: productCreate_def)

text \<open>Writing a row over what it has written changes the time alone.\<close>

lemma productUpdate_again:
  "productUpdate L s now' n p ts (productUpdate L s now n p ts r) = (productUpdate L s now n p ts r)\<lparr>pr_updated := now'\<rparr>"
  "productUpdate L s now' n p ts (productCreate L i t s now n p) = (productCreate L i t s now n p)\<lparr>pr_updated := now'\<rparr>"
  by (simp_all add: productUpdate_def productCreate_def put_targets)

lemma put_target_done: "t \<in> set ts \<Longrightarrow> put_target p t (productUpdate L s now n p ts r) = productUpdate L s now n p ts r"
  "put_target p t (productCreate L i tn s now n p) = productCreate L i tn s now n p"
  by (cases t; simp add: productUpdate_def productCreate_def put_targets)+

fun put_row :: "sheet_language \<Rightarrow> uuid \<Rightarrow> uuid \<Rightarrow> instant \<Rightarrow> write_row \<Rightarrow> db \<Rightarrow> db" where
  "put_row L t source now (n, p, present) d =
     (if any_row (product_at t (ip_sku p)) (products d)
      then d\<lparr>products := update_where (product_at t (ip_sku p)) (productUpdate L source now n p present) (products d)\<rparr>
      else d\<lparr>products := products d @ [productCreate L (next_id d) t source now n p], next_id := next_id d + 1\<rparr>)"

definition write_sku :: "write_row \<Rightarrow> string" where
  "write_sku r = ip_sku (fst (snd r))"

lemma upsert_product_run:
  "upsert_product L t source now r d = (if fits (fst (snd r)) then Inr ((), put_row L t source now r d) else Inl out_of_column)"
  by (cases r) (simp add: tx_run fresh_id_def tx_bind_def tx_seq_def tx_defs del: any_row_iff)

lemma write_products_run:
  "write_products L t source now rows d =
     (if \<forall>r\<in>set rows. fits (fst (snd r)) then Inr ((), fold (put_row L t source now) rows d) else Inl out_of_column)"
  by (induction rows arbitrary: d) (simp_all add: upsert_product_run tx_seq_def tx_bind_def tx_defs del: upsert_product.simps)

lemma put_row_frame: "\<exists>ps n. put_row L t source now r d = d\<lparr>products := ps, next_id := n\<rparr>"
proof (cases r)
  case (fields n p present)
  show ?thesis
  proof (cases "any_row (product_at t (ip_sku p)) (products d)")
    case True
    then have "put_row L t source now r d = d\<lparr>products := update_where (product_at t (ip_sku p)) (productUpdate L source now n p present) (products d), next_id := next_id d\<rparr>"
      by (simp add: fields del: any_row_iff)
    then show ?thesis by blast
  next
    case False
    then show ?thesis by (auto simp: fields simp del: any_row_iff)
  qed
qed

lemma put_rows_frame: "\<exists>ps n. fold (put_row L t source now) rows d = d\<lparr>products := ps, next_id := n\<rparr>"
proof (induction rows arbitrary: d)
  case Nil
  have "fold (put_row L t source now) [] d = d\<lparr>products := products d, next_id := next_id d\<rparr>" by simp
  then show ?case by blast
next
  case (Cons r rows)
  obtain ps n where 1: "put_row L t source now r d = d\<lparr>products := ps, next_id := n\<rparr>" using put_row_frame by blast
  obtain ps' n' where 2: "fold (put_row L t source now) rows (d\<lparr>products := ps, next_id := n\<rparr>) = d\<lparr>products := ps, next_id := n\<rparr>\<lparr>products := ps', next_id := n'\<rparr>"
    using Cons.IH[of "d\<lparr>products := ps, next_id := n\<rparr>"] by blast
  show ?case using 2 by (auto simp: 1 simp del: put_row.simps)
qed

text \<open>The products that no row is about stay, and the keys stay distinct.\<close>

definition product_key :: "product \<Rightarrow> uuid \<times> string" where
  "product_key x = (pr_tenant x, pr_sku x)"

lemma product_at_key: "product_at t sku x \<longleftrightarrow> product_key x = (t, sku)"
  by (auto simp: product_at_def product_key_def)

lemma put_row_others: "\<not> P (t, write_sku r) \<Longrightarrow>
    filter (\<lambda>x. P (product_key x)) (products (put_row L t source now r d)) = filter (\<lambda>x. P (product_key x)) (products d)"
proof (cases r)
  case (fields n p present)
  assume P: "\<not> P (t, write_sku r)"
  have "filter (\<lambda>x. P (product_key x)) (update_where (product_at t (ip_sku p)) (productUpdate L source now n p present) (products d))
      = filter (\<lambda>x. P (product_key x)) (products d)"
    using P by (intro filter_update_where_other) (auto simp: fields write_sku_def product_key_def product_at_def)
  then show ?thesis using P by (simp add: fields write_sku_def product_key_def)
qed

lemma put_rows_others: "\<forall>r\<in>set rows. \<not> P (t, write_sku r) \<Longrightarrow>
    filter (\<lambda>x. P (product_key x)) (products (fold (put_row L t source now) rows d)) = filter (\<lambda>x. P (product_key x)) (products d)"
  by (induction rows arbitrary: d) (simp_all add: put_row_others del: put_row.simps)

lemma put_row_keys: "distinct (map product_key (products d)) \<Longrightarrow> distinct (map product_key (products (put_row L t source now r d)))"
proof (cases r)
  case (fields n p present)
  assume d: "distinct (map product_key (products d))"
  have "map product_key (update_where P (productUpdate L source now n p present) (products d)) = map product_key (products d)" for P
    by (rule map_update_where) (simp add: product_key_def)
  moreover have "product_key (productCreate L i t source now n p) = (t, ip_sku p)" for i by (simp add: product_key_def)
  ultimately show ?thesis using d by (auto simp: fields product_at_key)
qed

lemma put_rows_keys: "distinct (map product_key (products d)) \<Longrightarrow> distinct (map product_key (products (fold (put_row L t source now) rows d)))"
  by (induction rows arbitrary: d) (simp_all add: put_row_keys del: put_row.simps)

text \<open>What a row leaves: the product that was there with the columns of the table, or a new one.\<close>

definition row_written :: "sheet_language \<Rightarrow> uuid \<Rightarrow> uuid \<Rightarrow> instant \<Rightarrow> write_row \<Rightarrow> product list \<Rightarrow> product \<Rightarrow> bool" where
  "row_written L t source now r old x \<longleftrightarrow>
     (\<exists>x0\<in>set old. product_at t (write_sku r) x0 \<and> x = productUpdate L source now (fst r) (fst (snd r)) (snd (snd r)) x0)
   \<or> ((\<forall>x0\<in>set old. \<not> product_at t (write_sku r) x0) \<and> (\<exists>i. x = productCreate L i t source now (fst r) (fst (snd r))))"

lemma written_at: "row_written L t source now r old x \<Longrightarrow> product_at t (write_sku r) x"
  by (auto simp: row_written_def product_at_def write_sku_def)

lemma written_cong:
  "\<forall>x. product_at t (write_sku r) x \<longrightarrow> (x \<in> set old \<longleftrightarrow> x \<in> set old') \<Longrightarrow> row_written L t source now r old = row_written L t source now r old'"
  unfolding row_written_def fun_eq_iff by blast

lemma put_written: "\<exists>x\<in>set (products (put_row L t source now r d)). row_written L t source now r (products d) x"
proof (cases r)
  case (fields n p present)
  show ?thesis
  proof (cases "\<exists>x0\<in>set (products d). product_at t (ip_sku p) x0")
    case True
    then show ?thesis by (auto simp: fields row_written_def write_sku_def set_update_where)
  next
    case False
    then show ?thesis by (auto simp: fields row_written_def write_sku_def)
  qed
qed

lemma filter_set_iff: "x \<in> set (filter P xs) \<longleftrightarrow> x \<in> set xs \<and> P x"
  by auto

lemma filter_at_set: "filter P xs = filter P ys \<Longrightarrow> P x \<Longrightarrow> x \<in> set xs \<longleftrightarrow> x \<in> set ys"
  by (metis (mono_tags, lifting) filter_set_iff)

lemma put_rows_written:
  assumes "distinct (map write_sku rows)" and "r \<in> set rows"
  shows "\<exists>x\<in>set (products (fold (put_row L t source now) rows d)). row_written L t source now r (products d) x"
  using assms
proof (induction rows arbitrary: d)
  case (Cons a rows)
  let ?d = "put_row L t source now a d"
  show ?case
  proof (cases "r = a")
    case True
    obtain x where x: "x \<in> set (products ?d)" "row_written L t source now r (products d) x" using put_written True by blast
    have "filter (\<lambda>x. product_key x = (t, write_sku r)) (products (fold (put_row L t source now) rows ?d)) = filter (\<lambda>x. product_key x = (t, write_sku r)) (products ?d)"
      using Cons.prems(1) True by (intro put_rows_others) (simp, metis rev_image_eqI)
    moreover have "product_key x = (t, write_sku r)" using written_at[OF x(2)] by (simp add: product_at_key)
    ultimately have "x \<in> set (products (fold (put_row L t source now) rows ?d))" using x(1) filter_at_set by fast
    then show ?thesis using x(2) by auto
  next
    case False
    then have r: "r \<in> set rows" using Cons.prems(2) by simp
    moreover have "write_sku a \<notin> write_sku ` set rows" using Cons.prems(1) by simp
    ultimately have r: "r \<in> set rows" "write_sku r \<noteq> write_sku a" by (blast, metis rev_image_eqI)
    have "filter (\<lambda>x. product_key x = (t, write_sku r)) (products ?d) = filter (\<lambda>x. product_key x = (t, write_sku r)) (products d)"
      using r(2) by (intro put_row_others) simp
    then have "row_written L t source now r (products ?d) = row_written L t source now r (products d)"
      by (intro written_cong) (auto simp: product_at_key dest: filter_at_set)
    moreover have "\<exists>x\<in>set (products (fold (put_row L t source now) rows ?d)). row_written L t source now r (products ?d) x"
      using Cons.prems(1) r(1) by (intro Cons.IH) simp_all
    ultimately show ?thesis by simp
  qed
qed simp


section \<open>The import\<close>

lemma upsert_tx_run:
  "upsert_tx L input rows now later d =
     (if \<exists>l. ti_lease input = Some l \<and> \<not> any_row (lease_owned (ti_tenant input) (ti_source input) l now) (catalogue_sources d) then Inl lease_lost
      else if \<not> ti_reassign input \<and> any_row (foreign_product (ti_tenant input) (ti_source input) (map write_sku rows)) (products d) then Inl foreign_sku
      else if \<exists>r\<in>set rows. \<not> fits (fst (snd r)) then Inl out_of_column
      else if \<exists>l. ti_lease input = Some l \<and> count_where (lease_owned (ti_tenant input) (ti_source input) l later) (catalogue_sources d) \<noteq> 1 then Inl lease_lost
      else Inr ((), fold (put_row L (ti_tenant input) (ti_source input) now) rows d))"
proof -
  obtain ps n where f: "fold (put_row L (ti_tenant input) (ti_source input) now) rows d = d\<lparr>products := ps, next_id := n\<rparr>"
    using put_rows_frame by blast
  have same: "update_where (lease_owned t s l u) (\<lambda>x. x\<lparr>cs_lease := Some (fst l)\<rparr>) xs = xs" for t s l u xs
    by (intro update_where_id) (simp add: lease_owned_def)
  have sku: "ip_sku \<circ> fst \<circ> snd = write_sku" by (auto simp: write_sku_def)
  show ?thesis
  proof (cases "ti_lease input")
    case None
    then show ?thesis
      by (simp add: upsert_tx_def Let_def assertImportLeaseOwned_def fenceImportLease_def write_products_run sku tx_seq_def tx_bind_def tx_defs
          del: any_row_iff)
  next
    case (Some l)
    then show ?thesis
      by (auto simp: upsert_tx_def Let_def assertImportLeaseOwned_def fenceImportLease_def write_products_run sku f same tx_seq_def tx_bind_def tx_defs
          simp del: any_row_iff)
  qed
qed

lemma import_run:
  "importCatalogueTable L input env conflict now later d =
     (if conflict 1 \<and> conflict 2 \<and> conflict 3 then (Inl WriteConflict, env d)
      else case upsert_tx L input (write_rows (plan_rows L input)) now later (env d) of
          Inl e \<Rightarrow> (Inl e, env d)
        | Inr (_, d') \<Rightarrow> (Inr (import_result (buildCatalogueImportPlan L input d)), d'))"
  by (simp add: importCatalogueTable_def upsertCatalogueProducts_def serializable_eq run_tx_def buildCatalogueImportPlan_def Let_def split: sum.splits)

lemma import_Inr:
  assumes "importCatalogueTable L input env conflict now later d = (Inr counts, d')"
  shows "counts = import_result (buildCatalogueImportPlan L input d)"
    and "d' = fold (put_row L (ti_tenant input) (ti_source input) now) (write_rows (plan_rows L input)) (env d)"
    and "\<forall>r\<in>set (write_rows (plan_rows L input)). fits (fst (snd r))"
    and "ti_reassign input \<or> \<not> any_row (foreign_product (ti_tenant input) (ti_source input) (map write_sku (write_rows (plan_rows L input)))) (products (env d))"
    and "\<forall>l. ti_lease input = Some l \<longrightarrow> any_row (lease_owned (ti_tenant input) (ti_source input) l now) (catalogue_sources (env d))
        \<and> count_where (lease_owned (ti_tenant input) (ti_source input) l later) (catalogue_sources (env d)) = 1"
  using assms unfolding import_run upsert_tx_run by (auto split: if_splits simp del: any_row_iff)

text \<open>A product that a row of the plan is about.\<close>

definition in_table :: "sheet_language \<Rightarrow> table_input \<Rightarrow> product \<Rightarrow> bool" where
  "in_table L input x \<longleftrightarrow> pr_tenant x = ti_tenant input \<and> pr_sku x \<in> sku_of ` set (filter valid_row (plan_rows L input))"

lemma write_rows_skus: "map write_sku (write_rows rows) = map sku_of (filter valid_row rows)"
  by (simp add: write_rows_def write_sku_def sku_of_def)

lemma wf_product_keys: "wf_store d \<Longrightarrow> distinct (map product_key (products d))"
  by (simp add: wf_store_def product_key_def[abs_def])


text \<open>C34.
  The plan of an import has one row for each row of the table, with its number.  A row is either
  left out (it is empty or a heading), or refused with a code, or it has a product with a name,
  an article number, a price that is not negative and addresses of images that the parser
  accepts; article numbers of the products are distinct, and the four totals add up to the
  number of rows.\<close>

theorem import_plan_sound:
  assumes "\<forall>s. s \<noteq> [] \<longrightarrow> sl_upper L s \<noteq> []"
  shows "map ir_number (pl_rows (buildCatalogueImportPlan L input d)) = map (row_number (ti_numbers input)) [0..<length (ti_rows input)]
    \<and> (\<forall>r\<in>set (pl_rows (buildCatalogueImportPlan L input d)).
        (ir_product r = None \<and> ir_codes r \<noteq> [] \<and> (ir_errors r = [] \<longleftrightarrow> ir_codes r \<in> {[EMPTY_ROW], [CATEGORY_ROW]}))
      \<or> (\<exists>p. ir_product r = Some p \<and> ir_codes r = [] \<and> ir_errors r = [] \<and> ip_name p \<noteq> [] \<and> ip_sku p \<noteq> []
           \<and> (\<forall>q. ip_price p = Some q \<longrightarrow> 0 \<le> q) \<and> list_all (sl_http L) (ip_images p) \<and> distinct (ip_aliases p)))
    \<and> distinct (map sku_of (filter valid_row (pl_rows (buildCatalogueImportPlan L input d))))
    \<and> pl_created (buildCatalogueImportPlan L input d) + pl_updated (buildCatalogueImportPlan L input d)
      + pl_skipped (buildCatalogueImportPlan L input d) + pl_failed (buildCatalogueImportPlan L input d) = length (ti_rows input)"
proof -
  have L: "upper_keeps L" using assms by (simp add: upper_keeps_def)
  have rows: "pl_rows (buildCatalogueImportPlan L input d) = plan_rows L input" by (simp add: buildCatalogueImportPlan_def Let_def)
  have good: "good_row L r" if "r \<in> set (plan_rows L input)" for r using plan_rows_good[OF L that] .
  have kinds: "(ir_product r = None \<and> ir_codes r \<noteq> [] \<and> (ir_errors r = [] \<longleftrightarrow> ir_codes r \<in> {[EMPTY_ROW], [CATEGORY_ROW]}))
      \<or> (\<exists>p. ir_product r = Some p \<and> ir_codes r = [] \<and> ir_errors r = [] \<and> ip_name p \<noteq> [] \<and> ip_sku p \<noteq> []
           \<and> (\<forall>q. ip_price p = Some q \<longrightarrow> 0 \<le> q) \<and> list_all (sl_http L) (ip_images p) \<and> distinct (ip_aliases p))"
    if "r \<in> set (plan_rows L input)" for r
    using good[OF that] unfolding good_row_def good_product_def product_ok_def by auto
  have "length (plan_rows L input) = length (ti_rows input)" using arg_cong[OF plan_rows_numbers, of length] by simp
  then have "pl_created (buildCatalogueImportPlan L input d) + pl_updated (buildCatalogueImportPlan L input d)
      + pl_skipped (buildCatalogueImportPlan L input d) + pl_failed (buildCatalogueImportPlan L input d) = length (ti_rows input)"
    using count_kinds[OF good, of "plan_rows L input"
        "\<lambda>r. ip_sku (the (ir_product r)) \<in> set (known_skus (ti_tenant input) (map (\<lambda>r. ip_sku (the (ir_product r))) (filter valid_row (plan_rows L input))) d)"]
    by (simp add: buildCatalogueImportPlan_def Let_def)
  then show ?thesis using kinds plan_rows_numbers plan_skus_distinct[OF L] unfolding rows by blast
qed

text \<open>C35.
  An import writes what its plan says and nothing else: it commits only under a lease that is
  its own before and after, and from a source that fences only when no product of the table
  belongs to another source; then every valid row has exactly one product, with the name, the
  source and the columns of the table, products that no row is about and all other tables are
  as they were.  When it throws, nothing has been written.\<close>

theorem import_effect:
  assumes "\<forall>s. s \<noteq> [] \<longrightarrow> sl_upper L s \<noteq> []" and "wf_store (env d)"
  shows "case importCatalogueTable L input env conflict now later d of
      (Inl e, d') \<Rightarrow> d' = env d
    | (Inr counts, d') \<Rightarrow>
        (\<forall>l. ti_lease input = Some l \<longrightarrow> (\<exists>s\<in>set (catalogue_sources (env d)). lease_owned (ti_tenant input) (ti_source input) l now s)
            \<and> (\<exists>s\<in>set (catalogue_sources (env d)). lease_owned (ti_tenant input) (ti_source input) l later s))
        \<and> (ti_reassign input \<or> (\<forall>x\<in>set (products (env d)). in_table L input x \<longrightarrow> pr_source x \<in> {None, Some (ti_source input)}))
        \<and> (\<forall>r\<in>set (filter valid_row (plan_rows L input)). \<exists>!x. x \<in> set (products d') \<and> product_at (ti_tenant input) (sku_of r) x
            \<and> pr_name x = ip_name (the (ir_product r)) \<and> pr_source x = Some (ti_source input)
            \<and> (\<forall>t\<in>set (ir_present r). put_target (the (ir_product r)) t x = x))
        \<and> filter (\<lambda>x. \<not> in_table L input x) (products d') = filter (\<lambda>x. \<not> in_table L input x) (products (env d))
        \<and> (\<exists>ps n. d' = (env d)\<lparr>products := ps, next_id := n\<rparr>)"
proof (cases "importCatalogueTable L input env conflict now later d")
  case (Pair res d')
  have L: "upper_keeps L" using assms(1) by (simp add: upper_keeps_def)
  let ?t = "ti_tenant input" and ?rows = "write_rows (plan_rows L input)"
  show ?thesis
  proof (cases res)
    case (Inl e)
    then show ?thesis using Pair by (auto simp: import_run split: if_splits sum.splits)
  next
    case (Inr counts)
    note i = import_Inr[OF Pair[unfolded Inr]]
    have table: "in_table L input x \<longleftrightarrow> pr_tenant x = ?t \<and> pr_sku x \<in> set (map write_sku ?rows)" for x
      unfolding in_table_def write_rows_skus by simp
    have others: "filter (\<lambda>x. \<not> in_table L input x) (products d') = filter (\<lambda>x. \<not> in_table L input x) (products (env d))"
      using put_rows_others[of ?rows "\<lambda>k. \<not> (fst k = ?t \<and> snd k \<in> set (map write_sku ?rows))" ?t L "ti_source input" now "env d"]
      unfolding i(2) table by (simp add: product_key_def)
    have keys: "distinct (map product_key (products d'))"
      unfolding i(2) by (rule put_rows_keys[OF wf_product_keys[OF assms(2)]])
    have one: "\<exists>!x. x \<in> set (products d') \<and> product_at ?t (sku_of r) x
            \<and> pr_name x = ip_name (the (ir_product r)) \<and> pr_source x = Some (ti_source input)
            \<and> (\<forall>t\<in>set (ir_present r). put_target (the (ir_product r)) t x = x)"
      if r: "r \<in> set (filter valid_row (plan_rows L input))" for r
    proof -
      let ?w = "(ir_number r, the (ir_product r), ir_present r)"
      have w: "?w \<in> set ?rows" using r by (auto simp: write_rows_def)
      have "distinct (map write_sku ?rows)" unfolding write_rows_skus by (rule plan_skus_distinct[OF L])
      from put_rows_written[OF this w] obtain x where x: "x \<in> set (products d')" "row_written L ?t (ti_source input) now ?w (products (env d)) x"
        unfolding i(2) by blast
      have at: "product_at ?t (sku_of r) x" using written_at[OF x(2)] by (simp add: write_sku_def sku_of_def)
      moreover have "pr_name x = ip_name (the (ir_product r)) \<and> pr_source x = Some (ti_source input) \<and> (\<forall>t\<in>set (ir_present r). put_target (the (ir_product r)) t x = x)"
        using x(2) by (auto simp: row_written_def put_target_done)
      moreover have "y = x" if "y \<in> set (products d')" "product_at ?t (sku_of r) y" for y
        using inj_onD[of product_key "set (products d')" y x] keys that x(1) at by (simp add: product_at_key distinct_map)
      ultimately show ?thesis using x(1) by blast
    qed
    have lease: "\<forall>l. ti_lease input = Some l \<longrightarrow> (\<exists>s\<in>set (catalogue_sources (env d)). lease_owned ?t (ti_source input) l now s)
            \<and> (\<exists>s\<in>set (catalogue_sources (env d)). lease_owned ?t (ti_source input) l later s)"
      using i(5) by (metis any_row_iff count_where_0_iff zero_neq_one)
    have fence: "ti_reassign input \<or> (\<forall>x\<in>set (products (env d)). in_table L input x \<longrightarrow> pr_source x \<in> {None, Some (ti_source input)})"
      using i(4) unfolding table by (auto simp: foreign_product_def)
    have frame: "\<exists>ps n. d' = (env d)\<lparr>products := ps, next_id := n\<rparr>" unfolding i(2) by (rule put_rows_frame)
    show ?thesis unfolding Pair Inr prod.case sum.case using lease fence one others frame by blast
  qed
qed


section \<open>Importing again\<close>

lemma productUpdate_time: "productUpdate L s now n p ts (x\<lparr>pr_updated := u\<rparr>) = productUpdate L s now n p ts x"
  by (simp add: productUpdate_def)

text \<open>A store in which every row has been written.\<close>

definition rows_settled :: "sheet_language \<Rightarrow> uuid \<Rightarrow> uuid \<Rightarrow> instant \<Rightarrow> write_row list \<Rightarrow> product list \<Rightarrow> bool" where
  "rows_settled L t source now rows ps \<longleftrightarrow> (\<forall>r\<in>set rows. (\<exists>x\<in>set ps. product_at t (write_sku r) x)
     \<and> (\<forall>x\<in>set ps. product_at t (write_sku r) x \<longrightarrow> productUpdate L source now (fst r) (fst (snd r)) (snd (snd r)) x = x\<lparr>pr_updated := now\<rparr>))"

lemma settled_update:
  assumes "rows_settled L t source now rows ps"
  shows "rows_settled L t source now rows (update_where P (\<lambda>x. x\<lparr>pr_updated := now\<rparr>) ps)"
proof -
  let ?f = "\<lambda>x. x\<lparr>pr_updated := now\<rparr>"
  have at: "product_at t sku (if P x then ?f x else x) = product_at t sku x" for sku x by (simp add: product_at_def)
  have upd: "productUpdate L source now n p ts (if P x then ?f x else x) = ?f (if P x then ?f x else x)"
    if "productUpdate L source now n p ts x = ?f x" for n p ts x
    using that by (simp add: productUpdate_time)
  show ?thesis
    using assms unfolding rows_settled_def set_update_where ball_simps bex_simps at using upd by meson
qed

lemma put_row_settled:
  assumes "rows_settled L t source now [r] (products d)"
  shows "put_row L t source now r d = d\<lparr>products := update_where (product_at t (write_sku r)) (\<lambda>x. x\<lparr>pr_updated := now\<rparr>) (products d)\<rparr>"
proof (cases r)
  case (fields n p present)
  have "update_where (product_at t (ip_sku p)) (productUpdate L source now n p present) (products d)
      = update_where (product_at t (ip_sku p)) (\<lambda>x. x\<lparr>pr_updated := now\<rparr>) (products d)"
    using assms by (auto simp: update_where_def rows_settled_def fields write_sku_def)
  then show ?thesis using assms by (auto simp: fields write_sku_def rows_settled_def)
qed

lemma put_settled:
  assumes "rows_settled L t source now rows (products d)"
  shows "fold (put_row L t source now) rows d =
    d\<lparr>products := update_where (\<lambda>x. pr_tenant x = t \<and> pr_sku x \<in> write_sku ` set rows) (\<lambda>x. x\<lparr>pr_updated := now\<rparr>) (products d)\<rparr>"
  using assms
proof (induction rows arbitrary: d)
  case Nil
  then show ?case by (simp add: update_where_none)
next
  case (Cons r rows)
  let ?f = "\<lambda>x::product. x\<lparr>pr_updated := now\<rparr>"
  let ?d = "d\<lparr>products := update_where (product_at t (write_sku r)) ?f (products d)\<rparr>"
  have r: "put_row L t source now r d = ?d" using Cons.prems by (intro put_row_settled) (simp add: rows_settled_def)
  have "rows_settled L t source now rows (products d)" using Cons.prems by (simp add: rows_settled_def)
  then have "rows_settled L t source now rows (products ?d)" by (simp add: settled_update)
  note IH = Cons.IH[OF this]
  have "update_where (\<lambda>x. pr_tenant x = t \<and> pr_sku x \<in> write_sku ` set rows) ?f (update_where (product_at t (write_sku r)) ?f (products d))
      = update_where (\<lambda>x. pr_tenant x = t \<and> pr_sku x \<in> write_sku ` set (r # rows)) ?f (products d)"
    by (auto simp: update_where_def product_at_def)
  then show ?case by (simp add: r IH del: put_row.simps)
qed

lemma imported_settled:
  assumes "upper_keeps L" and "wf_store d"
  shows "rows_settled L t source now' (write_rows (plan_rows L input)) (products (fold (put_row L t source now) (write_rows (plan_rows L input)) d))"
proof -
  let ?rows = "write_rows (plan_rows L input)"
  let ?ps = "products (fold (put_row L t source now) ?rows d)"
  have keys: "distinct (map product_key ?ps)" by (rule put_rows_keys[OF wf_product_keys[OF assms(2)]])
  have skus: "distinct (map write_sku ?rows)" unfolding write_rows_skus by (rule plan_skus_distinct[OF assms(1)])
  have "(\<exists>x\<in>set ?ps. product_at t (write_sku r) x)
     \<and> (\<forall>x\<in>set ?ps. product_at t (write_sku r) x \<longrightarrow> productUpdate L source now' (fst r) (fst (snd r)) (snd (snd r)) x = x\<lparr>pr_updated := now'\<rparr>)"
    if r: "r \<in> set ?rows" for r
  proof -
    obtain x where x: "x \<in> set ?ps" "row_written L t source now r (products d) x" using put_rows_written[OF skus r] by blast
    have upd: "productUpdate L source now' (fst r) (fst (snd r)) (snd (snd r)) x = x\<lparr>pr_updated := now'\<rparr>"
      using x(2) by (auto simp: row_written_def productUpdate_again)
    have at: "product_at t (write_sku r) x" by (rule written_at[OF x(2)])
    have "y = x" if "y \<in> set ?ps" "product_at t (write_sku r) y" for y
      using inj_onD[of product_key "set ?ps" y x] keys that x(1) at by (simp add: product_at_key distinct_map)
    then show ?thesis using x(1) at upd by blast
  qed
  then show ?thesis unfolding rows_settled_def by blast
qed

lemma settled_source:
  assumes "rows_settled L t source now rows ps" and "x \<in> set ps" and "pr_tenant x = t" and "pr_sku x \<in> set (map write_sku rows)"
  shows "pr_source x = Some source"
proof -
  obtain r where r: "r \<in> set rows" "pr_sku x = write_sku r" using assms(4) by auto
  then have "productUpdate L source now (fst r) (fst (snd r)) (snd (snd r)) x = x\<lparr>pr_updated := now\<rparr>"
    using assms(1-3) unfolding rows_settled_def product_at_def by blast
  then have "pr_source (productUpdate L source now (fst r) (fst (snd r)) (snd (snd r)) x) = pr_source (x\<lparr>pr_updated := now\<rparr>)" by simp
  then show ?thesis by simp
qed

text \<open>C36.
  Importing the same table again creates nothing and changes nothing but the times of its
  products, and counts every valid row as an update; it can fail only because the lease is lost
  or over conflicts of transactions, and then leaves the store as it was.\<close>

theorem import_again:
  assumes "\<forall>s. s \<noteq> [] \<longrightarrow> sl_upper L s \<noteq> []" and "wf_store (env d)"
    and "importCatalogueTable L input env conflict now later d = (Inr counts, d1)"
  shows "case importCatalogueTable L input (\<lambda>d. d) conflict' now' later' d1 of
      (Inl e, d2) \<Rightarrow> d2 = d1 \<and> e \<in> {WriteConflict, lease_lost}
    | (Inr counts', d2) \<Rightarrow> ic_created counts' = 0 \<and> ic_updated counts' = ic_valid counts' \<and> ic_valid counts' = ic_valid counts
        \<and> d2 = d1\<lparr>products := map (\<lambda>x. if in_table L input x then x\<lparr>pr_updated := now'\<rparr> else x) (products d1)\<rparr>"
proof -
  have L: "upper_keeps L" using assms(1) by (simp add: upper_keeps_def)
  let ?t = "ti_tenant input" and ?rows = "write_rows (plan_rows L input)"
  note i = import_Inr[OF assms(3)]
  have table: "in_table L input x \<longleftrightarrow> pr_tenant x = ?t \<and> pr_sku x \<in> set (map write_sku ?rows)" for x
    unfolding in_table_def write_rows_skus by simp
  have rows_settled: "rows_settled L ?t (ti_source input) now' ?rows (products d1)" unfolding i(2) by (rule imported_settled[OF L assms(2)])
  have fold: "fold (put_row L ?t (ti_source input) now') ?rows d1
      = d1\<lparr>products := map (\<lambda>x. if in_table L input x then x\<lparr>pr_updated := now'\<rparr> else x) (products d1)\<rparr>"
    unfolding put_settled[OF rows_settled] table by (simp add: update_where_def)
  have own: "\<not> any_row (foreign_product ?t (ti_source input) (map write_sku ?rows)) (products d1)"
    using settled_source[OF rows_settled] unfolding any_row_iff foreign_product_def by blast
  have fits: "\<not> (\<exists>r\<in>set ?rows. \<not> fits (fst (snd r)))" using i(3) by blast
  have run: "upsert_tx L input ?rows now' later' d1 = Inl lease_lost
      \<or> upsert_tx L input ?rows now' later' d1 = Inr ((), fold (put_row L ?t (ti_source input) now') ?rows d1)"
    unfolding upsert_tx_run if_not_P[OF fits] using own by auto
  have known: "ip_sku (the (ir_product r)) \<in> set (known_skus ?t (map (\<lambda>r. ip_sku (the (ir_product r))) (filter valid_row (plan_rows L input))) d1)"
    if r: "r \<in> set (plan_rows L input)" "valid_row r" for r
  proof -
    have w: "(ir_number r, the (ir_product r), ir_present r) \<in> set ?rows" using r by (auto simp: write_rows_def)
    have "\<exists>x\<in>set (products d1). product_at ?t (write_sku (ir_number r, the (ir_product r), ir_present r)) x"
      using rows_settled w unfolding rows_settled_def by blast
    then show ?thesis using r by (auto simp: known_skus_def product_at_def write_sku_def image_iff)
  qed
  have created: "pl_created (buildCatalogueImportPlan L input d1) = 0"
    using known by (auto simp: buildCatalogueImportPlan_def Let_def count_where_0_iff)
  have updated: "pl_updated (buildCatalogueImportPlan L input d1) = length (filter valid_row (plan_rows L input))"
    using known by (auto simp: buildCatalogueImportPlan_def Let_def count_where_def intro!: arg_cong[where f = length] filter_cong)
  have rows: "pl_rows (buildCatalogueImportPlan L input d') = plan_rows L input" for d' by (simp add: buildCatalogueImportPlan_def Let_def)
  show ?thesis
    unfolding import_run using run created updated by (auto simp: fold import_result_def i(1) rows)
qed

text \<open>C37.
  A row with a currency of more than three letters, an amount in stock beyond 32 bits or a price
  beyond ten digits counts as valid, in the preview too; but with such a row the whole import
  throws, and nothing of the table is stored.\<close>

theorem import_unfit_row:
  assumes "r \<in> set (pl_rows (buildCatalogueImportPlan L input d))" and "valid_row r" and "\<not> fits (the (ir_product r))"
  shows "(\<exists>e. importCatalogueTable L input env conflict now later d = (Inl e, env d))
    \<and> 0 < pl_created (buildCatalogueImportPlan L input d) + pl_updated (buildCatalogueImportPlan L input d)"
proof -
  have r: "r \<in> set (plan_rows L input)" using assms(1) by (simp add: buildCatalogueImportPlan_def Let_def)
  have "(ir_number r, the (ir_product r), ir_present r) \<in> set (write_rows (plan_rows L input))" using r assms(2) by (auto simp: write_rows_def)
  then have "\<exists>r\<in>set (write_rows (plan_rows L input)). \<not> fits (fst (snd r))" using assms(3) by force
  then have "\<exists>e. importCatalogueTable L input env conflict now later d = (Inl e, env d)"
    unfolding import_run upsert_tx_run by simp
  moreover have "0 < count_where (\<lambda>r. valid_row r \<and> \<not> P r) (plan_rows L input) + count_where (\<lambda>r. valid_row r \<and> P r) (plan_rows L input)" for P
    using r assms(2) by (cases "P r") (auto simp: count_where_0_iff simp flip: neq0_conv)
  ultimately show ?thesis unfolding buildCatalogueImportPlan_def Let_def by simp
qed


section \<open>Samples\<close>

definition dress_table :: "string \<Rightarrow> table_input" where
  "dress_table money_name = \<lparr>ti_tenant = 7, ti_source = 40, ti_reassign = False, ti_lease = None, ti_headers = [''sku'', ''name'', ''price'', ''currency''],
     ti_rows = [[CText ''A1'', CText ''Dress'', CText ''10,5'', CText money_name], [CNull, CNull, CNull, CText []]],
     ti_numbers = None, ti_mapping = [(''sku'', T_SKU), (''name'', T_NAME), (''price'', T_PRICE), (''currency'', T_CURRENCY)], ti_clear = []\<rparr>"

lemma plain_upper: "\<forall>s. s \<noteq> [] \<longrightarrow> sl_upper plain_sheet s \<noteq> []"
  by (simp add: plain_sheet_def)

lemma wf_empty: "wf_store empty_db"
  by (simp add: wf_store_def empty_db_def)

lemma plain_text_value [simp]: "textValue plain_sheet (Some (CText s)) = (if trim s = [] then None else Some (trim s))"
  by (simp add: textValue_def Let_def)

lemma textValue_none [simp]: "textValue L None = None"
  by (simp add: textValue_def)

lemma dress_texts:
  "trim ''A1'' = ''A1''" "trim ''Dress'' = ''Dress''" "trim ''10,5'' = ''10,5''" "trim ''UAH'' = ''UAH''" "trim ''EURO'' = ''EURO''"
  "trim ''sku'' = ''sku''" "trim ''name'' = ''name''" "trim ''price'' = ''price''" "trim ''currency'' = ''currency''"
  by (simp_all add: trim_def white_space_def)

lemma dress_price: "parseLocaleNumber plain_sheet (Some (CText ''10,5'')) = Some (21 / 2)"
  by (simp add: parseLocaleNumber_def dress_texts white_space_def decimal_text_def last_index_def Let_def plain_decimal_def digit_char_def
      js_number_def lower_char_def read_decimal_def read_mantissa_def digits_value_def digit_value_def finite_number_def)

definition dress_cells :: "string \<Rightarrow> mapped_row" where
  "dress_cells m = [(T_SKU, Some (CText ''A1'')), (T_NAME, Some (CText ''Dress'')), (T_PRICE, Some (CText ''10,5'')), (T_CURRENCY, Some (CText m))]"

definition dress_read :: "string \<Rightarrow> import_product" where
  "dress_read m = (new_product ''A1'' ''Dress'')\<lparr>ip_currency := Some m, ip_price := Some (21 / 2)\<rparr>"

lemma dress_reading:
  assumes "m \<in> {''UAH'', ''EURO''}"
  shows "read_row plain_sheet 40 True (dress_cells m) [] = \<lparr>rw_product = dress_read m, rw_found = [], rw_targets = [T_CURRENCY, T_PRICE]\<rparr>"
proof -
  have m: "trim m = m" "m \<noteq> []" using assms dress_texts by auto
  show ?thesis
    by (simp add: read_row_def dress_cells_def mapped_cell_def dress_texts m Let_def applyExplicitClears_def read_texts_def assignText_def
        read_price_def read_stock_def read_lists_def read_flags_def nonEmpty_def dress_price accept_def dress_read_def)
qed

lemma dress_rows:
  assumes "m \<in> {''UAH'', ''EURO''}"
  shows "plan_rows plain_sheet (dress_table m) =
    [\<lparr>ir_number = 2, ir_product = Some (dress_read m), ir_errors = [], ir_codes = [], ir_present = [T_CURRENCY, T_PRICE]\<rparr>, skipped_row 3 EMPTY_ROW]"
proof -
  have m: "m \<noteq> []" using assms by auto
  have header: "normalizeHeader plain_sheet ''sku'' = ''sku''" "normalizeHeader plain_sheet ''name'' = ''name''"
    "normalizeHeader plain_sheet ''price'' = ''price''" "normalizeHeader plain_sheet ''currency'' = ''currency''"
    by (simp_all add: normalizeHeader_def dress_texts white_space_def)
  have "mapped_rows plain_sheet (dress_table m) =
    [\<lparr>ir_number = 2, ir_product = Some (dress_read m), ir_errors = [], ir_codes = [], ir_present = [T_CURRENCY, T_PRICE]\<rparr>, skipped_row 3 EMPTY_ROW]"
    using dress_reading[OF assms] m
    by (simp add: mapped_rows_def dress_table_def mapRow_def row_number_def header_index_def header map_cells_def row_cell_def absent_def Let_def
        dress_cells_def numeral_2_eq_2 numeral_3_eq_3)
  then show ?thesis
    by (simp add: plan_rows_def mark_duplicate_def row_sku_def sku_rows_def skipped_row_def dress_read_def new_product_def)
qed

theorem import_plan_sound_witness:
  "pl_created (buildCatalogueImportPlan plain_sheet (dress_table ''UAH'') empty_db) + pl_updated (buildCatalogueImportPlan plain_sheet (dress_table ''UAH'') empty_db)
    + pl_skipped (buildCatalogueImportPlan plain_sheet (dress_table ''UAH'') empty_db) + pl_failed (buildCatalogueImportPlan plain_sheet (dress_table ''UAH'') empty_db) = 2"
  using import_plan_sound[OF plain_upper, of "dress_table ''UAH''" empty_db] by (simp add: dress_table_def)

lemma dress_fits: "fits (dress_read ''UAH'')" "\<not> fits (dress_read ''EURO'')"
  by (simp_all add: fits_def dress_read_def new_product_def column_price_def)

lemma dress_input [simp]:
  "ti_tenant (dress_table m) = 7" "ti_source (dress_table m) = 40" "ti_lease (dress_table m) = None" "\<not> ti_reassign (dress_table m)"
  by (simp_all add: dress_table_def)

lemma dress_imported:
  "\<exists>counts d'. importCatalogueTable plain_sheet (dress_table ''UAH'') (\<lambda>d. d) (\<lambda>i. False) 5 6 empty_db = (Inr counts, d')"
  unfolding import_run upsert_tx_run
  by (simp add: dress_rows write_rows_def valid_row_def skipped_row_def dress_fits foreign_product_def empty_db_def)

theorem import_effect_witness:
  "\<exists>counts d' x. importCatalogueTable plain_sheet (dress_table ''UAH'') (\<lambda>d. d) (\<lambda>i. False) 5 6 empty_db = (Inr counts, d')
    \<and> x \<in> set (products d') \<and> pr_name x = ''Dress'' \<and> pr_source x = Some 40 \<and> pr_price x = Some 1050"
proof -
  let ?r = "\<lparr>ir_number = 2, ir_product = Some (dress_read ''UAH''), ir_errors = [], ir_codes = [], ir_present = [T_CURRENCY, T_PRICE]\<rparr>"
  obtain counts d' where i: "importCatalogueTable plain_sheet (dress_table ''UAH'') (\<lambda>d. d) (\<lambda>i. False) 5 6 empty_db = (Inr counts, d')"
    using dress_imported by blast
  have "?r \<in> set (filter valid_row (plan_rows plain_sheet (dress_table ''UAH'')))" by (simp add: dress_rows valid_row_def)
  moreover have "\<forall>r\<in>set (filter valid_row (plan_rows plain_sheet (dress_table ''UAH''))). \<exists>!x. x \<in> set (products d') \<and> product_at 7 (sku_of r) x
            \<and> pr_name x = ip_name (the (ir_product r)) \<and> pr_source x = Some 40 \<and> (\<forall>t\<in>set (ir_present r). put_target (the (ir_product r)) t x = x)"
    using import_effect[OF plain_upper, where env = "\<lambda>d. d" and d = empty_db and input = "dress_table ''UAH''" and conflict = "\<lambda>i. False" and now = 5 and later = 6,
        OF wf_empty] unfolding i prod.case sum.case dress_input by (elim conjE)
  ultimately have "\<exists>x. x \<in> set (products d') \<and> product_at 7 (sku_of ?r) x
            \<and> pr_name x = ip_name (the (ir_product ?r)) \<and> pr_source x = Some 40 \<and> (\<forall>t\<in>set (ir_present ?r). put_target (the (ir_product ?r)) t x = x)"
    by (blast dest: ex1_implies_ex)
  then obtain x where x: "x \<in> set (products d')" "pr_name x = ip_name (dress_read ''UAH'')" "pr_source x = Some 40" "put_target (dress_read ''UAH'') T_PRICE x = x"
    by auto
  have "pr_price x = pr_price (put_target (dress_read ''UAH'') T_PRICE x)" using x(4) by simp
  then have "pr_price x = Some 1050" by (simp add: dress_read_def column_price_def floor_eq_iff)
  then show ?thesis using i x by (auto simp: dress_read_def new_product_def)
qed

theorem import_again_witness:
  "\<exists>counts d1 counts' d2. importCatalogueTable plain_sheet (dress_table ''UAH'') (\<lambda>d. d) (\<lambda>i. False) 5 6 empty_db = (Inr counts, d1)
    \<and> importCatalogueTable plain_sheet (dress_table ''UAH'') (\<lambda>d. d) (\<lambda>i. i = 1) 8 9 d1 = (Inr counts', d2) \<and> ic_created counts' = 0"
proof -
  obtain counts d1 where i: "importCatalogueTable plain_sheet (dress_table ''UAH'') (\<lambda>d. d) (\<lambda>i. False) 5 6 empty_db = (Inr counts, d1)"
    using dress_imported by blast
  obtain res d2 where j: "importCatalogueTable plain_sheet (dress_table ''UAH'') (\<lambda>d. d) (\<lambda>i. i = 1) 8 9 d1 = (res, d2)" by fastforce
  note again = import_again[OF plain_upper, where env = "\<lambda>d. d" and d = empty_db, OF wf_empty i, where conflict' = "\<lambda>i. i = 1" and now' = 8 and later' = 9, unfolded j prod.case]
  show ?thesis
  proof (cases res)
    case (Inl e)
    then have e: "e \<in> {WriteConflict, lease_lost}" using again by simp
    have "upsert_tx plain_sheet (dress_table ''UAH'') rows 8 9 d1 \<noteq> Inl lease_lost" for rows
      unfolding upsert_tx_run by (simp add: dress_table_def)
    then show ?thesis using j Inl e by (auto simp: import_run upsert_tx_run split: sum.splits if_splits)
  next
    case (Inr c)
    then show ?thesis using i j again by auto
  qed
qed

theorem import_unfit_row_witness:
  "\<exists>e. importCatalogueTable plain_sheet (dress_table ''EURO'') (\<lambda>d. d) (\<lambda>i. False) 5 6 empty_db = (Inl e, empty_db)"
proof -
  let ?r = "\<lparr>ir_number = 2, ir_product = Some (dress_read ''EURO''), ir_errors = [], ir_codes = [], ir_present = [T_CURRENCY, T_PRICE]\<rparr>"
  have "?r \<in> set (pl_rows (buildCatalogueImportPlan plain_sheet (dress_table ''EURO'') empty_db))"
    by (simp add: buildCatalogueImportPlan_def Let_def dress_rows)
  moreover have "valid_row ?r" by (simp add: valid_row_def)
  ultimately show ?thesis using import_unfit_row[where env = "\<lambda>d. d"] dress_fits(2) by fastforce
qed

end
