(* ===== verification/Catalogue_Runs.thy ===== *)
theory Catalogue_Runs
  imports Catalogue Conversations
begin

text \<open>
  Runs of an import of the catalogue, \<open>apps/api/src/catalogue-import/catalogue-import.service.ts\<close>:
  the upload of a file, the mapping of its columns, the preview, and the confirmation, which
  claims the run, imports the table under the lease of a live source, and ends the run.  The
  store of objects, the parsers of files and the state of the heartbeat are parameters;
  notifications are left out, and the job that an upload queues is retried by a reconciler.
\<close>

record parsed_table =
  pt_headers :: "string list"
  pt_rows :: "cell list list"
  pt_fingerprint :: string
  pt_numbers :: "nat list option"

text \<open>Objects by their key, and the parsers of a snapshot and of a file.\<close>

record 'o files =
  fl_get :: "string \<Rightarrow> 'o option"
  fl_snapshot :: "'o \<Rightarrow> parsed_table option"
  fl_source :: "'o \<Rightarrow> parsed_table option"

definition loadTable :: "'o files \<Rightarrow> string option \<Rightarrow> source_type \<Rightarrow> string option \<Rightarrow> app_error + parsed_table" where
  "loadTable F object type snapshot = (case (case snapshot of Some k \<Rightarrow> Some k | None \<Rightarrow> object) of
       None \<Rightarrow> Inl (Conflict ''Catalogue source file is unavailable'')
     | Some k \<Rightarrow> (case fl_get F k of
           None \<Rightarrow> Inl (Plain ''Catalogue source file is temporarily unavailable'')
         | Some obj \<Rightarrow> (case (if snapshot \<noteq> None then fl_snapshot F obj else if type = GOOGLE_SHEETS then None else fl_source F obj) of
               None \<Rightarrow> Inl (Plain ''Stored catalogue source is unreadable'')
             | Some table \<Rightarrow> Inr table)))"

section \<open>Rows\<close>

definition find_run :: "uuid \<Rightarrow> uuid \<Rightarrow> db \<Rightarrow> import_run option" where
  "find_run t rid d = List.find (\<lambda>r. ru_id r = rid \<and> ru_tenant r = t) (import_runs d)"

definition find_source :: "uuid \<Rightarrow> uuid \<Rightarrow> db \<Rightarrow> catalogue_source option" where
  "find_source t sid d = List.find (\<lambda>s. cs_id s = sid \<and> cs_tenant s = t) (catalogue_sources d)"

definition find_mapping :: "uuid \<Rightarrow> uuid option \<Rightarrow> db \<Rightarrow> catalogue_mapping option" where
  "find_mapping t mid d = (case mid of None \<Rightarrow> None | Some i \<Rightarrow> List.find (\<lambda>m. cm_id m = i \<and> cm_tenant m = t) (catalogue_mappings d))"

text \<open>\<open>updateMany\<close> with its count.\<close>

definition update_runs :: "(import_run \<Rightarrow> bool) \<Rightarrow> (import_run \<Rightarrow> import_run) \<Rightarrow> nat dbtx" where
  "update_runs P f = tx_bind (tx_read (\<lambda>d. count_where P (import_runs d))) (\<lambda>n.
     tx_seq (tx_write (\<lambda>d. d\<lparr>import_runs := update_where P f (import_runs d)\<rparr>)) (tx_return n))"

definition update_sources :: "(catalogue_source \<Rightarrow> bool) \<Rightarrow> (catalogue_source \<Rightarrow> catalogue_source) \<Rightarrow> nat dbtx" where
  "update_sources P f = tx_bind (tx_read (\<lambda>d. count_where P (catalogue_sources d))) (\<lambda>n.
     tx_seq (tx_write (\<lambda>d. d\<lparr>catalogue_sources := update_where P f (catalogue_sources d)\<rparr>)) (tx_return n))"

text \<open>The unique index on the tenant and the key of a run.\<close>

definition same_run_key :: "import_run \<Rightarrow> import_run \<Rightarrow> bool" where
  "same_run_key r x \<longleftrightarrow> ru_tenant x = ru_tenant r \<and> ru_key x = ru_key r \<and> ru_id x \<noteq> ru_id r"

section \<open>Upload\<close>

record upload_file =
  uf_name :: string
  uf_media :: string
  uf_size :: nat
  uf_digest :: string
    \<comment> \<open>SHA-256 of the content\<close>
  uf_parsed :: "(nat \<times> string) option"
    \<comment> \<open>the number of rows and the fingerprint that the parser finds\<close>

definition max_catalogue_upload_bytes :: nat where
  "max_catalogue_upload_bytes = 5 * 1024 * 1024"

text \<open>\<open>extname\<close> of a name without separators.\<close>

definition extname :: "string \<Rightarrow> string" where
  "extname name = (let tail = takeWhile (\<lambda>c. c \<noteq> CHR ''.'') (rev name) in
     if length name \<le> length tail + 1 then [] else CHR ''.'' # rev tail)"

definition supported_type :: "string \<Rightarrow> string \<Rightarrow> source_type option" where
  "supported_type extension media =
     (if extension = ''.csv'' \<and> media \<in> {''text/csv'', ''application/csv''} then Some CSV_UPLOAD
      else if extension = ''.xlsx'' \<and> media = ''application/vnd.openxmlformats-officedocument.spreadsheetml.sheet'' then Some XLSX_UPLOAD
      else None)"

definition run_by_key :: "uuid \<Rightarrow> import_key \<Rightarrow> db \<Rightarrow> import_run option" where
  "run_by_key t key d = List.find (\<lambda>r. ru_tenant r = t \<and> ru_key r = key) (import_runs d)"

definition new_run :: "uuid \<Rightarrow> uuid \<Rightarrow> uuid \<Rightarrow> uuid \<Rightarrow> string \<Rightarrow> nat \<Rightarrow> import_run" where
  "new_run rid t source user revision n = \<lparr>ru_id = rid, ru_tenant = t, ru_source = source, ru_mapping = None, ru_requested_by = Some user,
     ru_status = IM_UPLOADED, ru_key = UploadKey revision, ru_revision = Some revision, ru_snapshot = None, ru_sync_version = None,
     ru_total = n, ru_valid = 0, ru_created = 0, ru_updated = 0, ru_skipped = 0, ru_failed = 0, ru_errors = [], ru_started = None, ru_completed = None\<rparr>"

definition new_source :: "uuid \<Rightarrow> uuid \<Rightarrow> source_type \<Rightarrow> string \<Rightarrow> string \<Rightarrow> catalogue_source" where
  "new_source sid t type object fingerprint = \<lparr>cs_id = sid, cs_tenant = t, cs_type = type, cs_status = SRC_PENDING, cs_object = Some object,
     cs_schedule = None, cs_fingerprint = Some fingerprint, cs_synced = None, cs_next_sync = None, cs_error = None, cs_lease = None,
     cs_lease_expires = None, cs_version = 0\<rparr>"

definition create_run :: "import_run \<Rightarrow> import_run dbtx" where
  "create_run r = tx_bind (tx_read (\<lambda>d. any_row (same_run_key r) (import_runs d))) (\<lambda>dup.
     tx_seq (tx_when dup UniqueViolation)
    (tx_seq (tx_write (\<lambda>d. d\<lparr>import_runs := import_runs d @ [r]\<rparr>)) (tx_return r)))"

definition upload_tx :: "uuid \<Rightarrow> uuid \<Rightarrow> upload_file \<Rightarrow> source_type \<Rightarrow> string \<Rightarrow> nat \<Rightarrow> string \<Rightarrow> import_run dbtx" where
  "upload_tx t user file type object n fingerprint =
     tx_seq (assertTenantAcceptingMutations t CATALOGUE)
    (tx_bind fresh_id (\<lambda>sid.
     tx_seq (tx_write (\<lambda>d. d\<lparr>catalogue_sources := catalogue_sources d @ [new_source sid t type object fingerprint]\<rparr>))
    (tx_bind fresh_id (\<lambda>rid. create_run (new_run rid t sid user (uf_digest file) n)))))"

text \<open>A run that is there, with the fingerprint of its source.\<close>

definition known_upload :: "uuid \<Rightarrow> upload_file \<Rightarrow> string \<Rightarrow> db \<Rightarrow> (import_run \<times> string) option" where
  "known_upload t file fingerprint d = map_option (\<lambda>r. (r, case Option.bind (find_source t (ru_source r) d) cs_fingerprint of
     Some f \<Rightarrow> f | None \<Rightarrow> fingerprint)) (run_by_key t (UploadKey (uf_digest file)) d)"

abbreviation import_unavailable :: app_error where
  "import_unavailable \<equiv> Plain ''Catalogue import is temporarily unavailable''"

definition upload_failed :: "uuid \<Rightarrow> upload_file \<Rightarrow> string \<Rightarrow> app_error \<Rightarrow> (import_run \<times> string) dbservice" where
  "upload_failed t file fingerprint e d = (case e of
       TenantLifecycleFrozen s \<Rightarrow> (Inl e, d)
     | UniqueViolation \<Rightarrow> (case known_upload t file fingerprint d of Some x \<Rightarrow> (Inr x, d) | None \<Rightarrow> (Inl import_unavailable, d))
     | _ \<Rightarrow> (Inl import_unavailable, d))"

text \<open>\<open>stored\<close>: whether the object was stored; \<open>env\<close>: what others commit between the search for a
  run of the same content and the transaction.\<close>

definition upload :: "uuid \<Rightarrow> uuid \<Rightarrow> upload_file \<Rightarrow> string \<Rightarrow> bool \<Rightarrow> (db \<Rightarrow> db) \<Rightarrow> (import_run \<times> string) dbservice" where
  "upload t user file object stored env d =
     (if CHR ''/'' \<in> set (uf_name file) \<or> uf_size file = 0 \<or> max_catalogue_upload_bytes < uf_size file
      then (Inl (BadRequest ''Invalid catalogue upload''), d)
      else case supported_type (map lower_char (extname (uf_name file))) (uf_media file) of
          None \<Rightarrow> (Inl (BadRequest ''Unsupported catalogue upload''), d)
        | Some type \<Rightarrow> (case uf_parsed file of
              None \<Rightarrow> (Inl (BadRequest ''Invalid catalogue source''), d)
            | Some (n, fingerprint) \<Rightarrow> (case known_upload t file fingerprint d of
                  Some x \<Rightarrow> (Inr x, d)
                | None \<Rightarrow> if \<not> stored then (Inl import_unavailable, env d)
                    else case run_tx (upload_tx t user file type object n fingerprint) (env d) of
                        (Inl e, d') \<Rightarrow> upload_failed t file fingerprint e d'
                      | (Inr r, d') \<Rightarrow> (Inr (r, fingerprint), d'))))"

section \<open>Preview\<close>

definition table_of :: "'o files \<Rightarrow> import_run \<Rightarrow> catalogue_source \<Rightarrow> app_error + parsed_table" where
  "table_of F r s = loadTable F (cs_object s) (cs_type s) (ru_snapshot r)"

text \<open>\<open>loadRun\<close>; a run has its source.\<close>

definition loadRun :: "uuid \<Rightarrow> uuid \<Rightarrow> db \<Rightarrow> app_error + import_run \<times> catalogue_source \<times> catalogue_mapping option" where
  "loadRun t rid d = (case find_run t rid d of
       None \<Rightarrow> Inl (NotFound ''Catalogue import not found'')
     | Some r \<Rightarrow> (case find_source t (ru_source r) d of
           None \<Rightarrow> Inl (NotFound ''Catalogue import not found'')
         | Some s \<Rightarrow> Inr (r, s, find_mapping t (ru_mapping r) d)))"

definition run_input :: "uuid \<Rightarrow> import_run \<Rightarrow> bool \<Rightarrow> (uuid \<times> nat) option \<Rightarrow> catalogue_mapping \<Rightarrow> parsed_table \<Rightarrow> table_input" where
  "run_input t r reassign lease m table = \<lparr>ti_tenant = t, ti_source = ru_source r, ti_reassign = reassign, ti_lease = lease,
     ti_headers = pt_headers table, ti_rows = pt_rows table, ti_numbers = pt_numbers table, ti_mapping = cm_columns m, ti_clear = cm_clear m\<rparr>"

text \<open>The table of a run under its mapping, whose headers must be the ones that were mapped.\<close>

definition mapped_table :: "'o files \<Rightarrow> import_run \<Rightarrow> catalogue_source \<Rightarrow> catalogue_mapping option \<Rightarrow> app_error + catalogue_mapping \<times> parsed_table" where
  "mapped_table F r s mapping = (case mapping of
       None \<Rightarrow> Inl (Conflict ''Catalogue mapping is not confirmed'')
     | Some m \<Rightarrow> (case table_of F r s of
           Inl e \<Rightarrow> Inl e
         | Inr table \<Rightarrow> if pt_fingerprint table \<noteq> cm_fingerprint m then Inl (Conflict ''Catalogue headers changed'') else Inr (m, table)))"

definition preview :: "sheet_language \<Rightarrow> 'o files \<Rightarrow> uuid \<Rightarrow> uuid \<Rightarrow> db \<Rightarrow> app_error + import_plan" where
  "preview L F t rid d = (case loadRun t rid d of
       Inl e \<Rightarrow> Inl e
     | Inr (r, s, mapping) \<Rightarrow> (case mapped_table F r s mapping of
           Inl e \<Rightarrow> Inl e
         | Inr (m, table) \<Rightarrow> Inr (buildCatalogueImportPlan L (run_input t r False None m table) d)))"

section \<open>Mapping\<close>

definition remappable :: "import_status \<Rightarrow> bool" where
  "remappable s \<longleftrightarrow> s \<in> {IM_UPLOADED, IM_MAPPING, IM_MAPPING_REVIEW, IM_PREVIEW_READY}"

definition validateMapping :: "sheet_language \<Rightarrow> (string \<times> target) list \<Rightarrow> string list \<Rightarrow> app_error + (string \<times> target) list" where
  "validateMapping L columns headers =
     (if columns = [] then Inl (BadRequest ''Catalogue mapping is empty'')
      else let normalized = map (\<lambda>(s, t). (sl_lower L (trim s), t)) columns;
               targets = filter (\<lambda>t. t \<noteq> T_IGNORE) (map snd normalized) in
        if \<not> distinct (map fst normalized) then Inl (BadRequest ''Mapped source columns must be unique'')
        else if list_ex (\<lambda>c. fst c \<notin> set headers) normalized then Inl (BadRequest ''Mapped source column is missing'')
        else if \<not> distinct targets \<or> T_NAME \<notin> set targets then Inl (BadRequest ''Name mapping is required and targets must be unique'')
        else Inr normalized)"

definition clearable :: "target \<Rightarrow> bool" where
  "clearable t \<longleftrightarrow> t \<notin> {T_SKU, T_NAME, T_ACTIVE, T_IGNORE}"

definition validateClearFields :: "target list \<Rightarrow> (string \<times> target) list \<Rightarrow> app_error + target list" where
  "validateClearFields clears columns =
     (if \<not> distinct clears \<or> list_ex (\<lambda>t. \<not> clearable t \<or> t \<notin> snd ` set columns) clears
      then Inl (BadRequest ''Clear fields must be unique, clearable mapped targets'') else Inr clears)"

definition throwRemapConflict :: "uuid \<Rightarrow> uuid \<Rightarrow> unit dbtx" where
  "throwRemapConflict t rid = tx_bind (tx_read (find_run t rid)) (\<lambda>r.
     tx_throw (if r = None then NotFound ''Catalogue import not found'' else Conflict ''Catalogue import cannot be remapped''))"

definition tx_sum :: "app_error + 'a \<Rightarrow> 'a dbtx" where
  "tx_sum x = (case x of Inl e \<Rightarrow> tx_throw e | Inr a \<Rightarrow> tx_return a)"

definition latest_version :: "uuid \<Rightarrow> uuid \<Rightarrow> db \<Rightarrow> nat" where
  "latest_version t source d = foldl max 0 (map cm_version (filter (\<lambda>m. cm_tenant m = t \<and> cm_source m = source) (catalogue_mappings d)))"

definition create_mapping :: "catalogue_mapping \<Rightarrow> unit dbtx" where
  "create_mapping m = tx_bind (tx_read (\<lambda>d. any_row (\<lambda>x. cm_source x = cm_source m \<and> cm_version x = cm_version m) (catalogue_mappings d))) (\<lambda>dup.
     tx_seq (tx_when dup UniqueViolation) (tx_write (\<lambda>d. d\<lparr>catalogue_mappings := catalogue_mappings d @ [m]\<rparr>)))"

text \<open>The key of the run is that of its mapping from now on, if the run has a revision.\<close>

definition assigned_key :: "import_run \<Rightarrow> nat \<Rightarrow> import_key" where
  "assigned_key r version = (case ru_revision r of Some revision \<Rightarrow> MappingKey (ru_source r) revision version | None \<Rightarrow> ru_key r)"

definition assign_mapping :: "uuid \<Rightarrow> import_run \<Rightarrow> uuid \<Rightarrow> nat \<Rightarrow> unit dbtx" where
  "assign_mapping t r mid version =
     tx_bind (tx_read (\<lambda>d. any_row (same_run_key (r\<lparr>ru_key := assigned_key r version\<rparr>)) (import_runs d))) (\<lambda>dup.
     tx_seq (tx_when dup UniqueViolation)
    (tx_bind (update_runs (\<lambda>x. ru_id x = ru_id r \<and> ru_tenant x = t \<and> ru_status x = IM_MAPPING)
       (\<lambda>x. x\<lparr>ru_mapping := Some mid, ru_status := IM_PREVIEW_READY, ru_key := assigned_key r version\<rparr>)) (\<lambda>n.
     tx_when (n \<noteq> 1) (Conflict ''Catalogue import cannot be remapped''))))"

definition map_columns_tx ::
  "sheet_language \<Rightarrow> 'o files \<Rightarrow> uuid \<Rightarrow> uuid \<Rightarrow> (string \<times> target) list \<Rightarrow> target list \<Rightarrow> instant \<Rightarrow> unit dbtx" where
  "map_columns_tx L F t rid columns clears now =
     tx_seq (assertTenantAcceptingMutations t CATALOGUE)
    (tx_bind (update_runs (\<lambda>x. ru_id x = rid \<and> ru_tenant x = t \<and> remappable (ru_status x)) (\<lambda>x. x\<lparr>ru_status := IM_MAPPING\<rparr>)) (\<lambda>n.
     tx_seq (if n \<noteq> 1 then throwRemapConflict t rid else tx_return ())
    (tx_bind (tx_read (loadRun t rid)) (\<lambda>loaded. tx_bind (tx_sum loaded) (\<lambda>(r, s, _).
     tx_bind (tx_sum (table_of F r s)) (\<lambda>table.
     tx_bind (tx_sum (validateMapping L columns (pt_headers table))) (\<lambda>cols.
     tx_bind (tx_sum (validateClearFields clears cols)) (\<lambda>cl.
     tx_bind (tx_read (latest_version t (ru_source r))) (\<lambda>latest.
     tx_bind fresh_id (\<lambda>mid.
     tx_seq (create_mapping \<lparr>cm_id = mid, cm_tenant = t, cm_source = ru_source r, cm_version = latest + 1, cm_fingerprint = pt_fingerprint table,
          cm_columns = cols, cm_clear = cl, cm_confirmed = Some now\<rparr>)
       (assign_mapping t r mid (latest + 1))))))))))))"

definition updateMapping ::
  "sheet_language \<Rightarrow> 'o files \<Rightarrow> uuid \<Rightarrow> uuid \<Rightarrow> (string \<times> target) list \<Rightarrow> target list \<Rightarrow> instant \<Rightarrow> (db \<Rightarrow> db) \<Rightarrow> (db \<Rightarrow> db) \<Rightarrow> import_plan dbservice" where
  "updateMapping L F t rid columns clears now env1 env2 d =
     (case run_tx (map_columns_tx L F t rid columns clears now) d of
        (Inl e, d1) \<Rightarrow> (Inl e, d1)
      | (Inr _, d1) \<Rightarrow> (case preview L F t rid (env1 d1) of
            Inl e \<Rightarrow> (Inl e, env1 d1)
          | Inr plan \<Rightarrow> (case run_tx (update_runs (\<lambda>x. ru_id x = rid \<and> ru_tenant x = t) (\<lambda>x. x\<lparr>ru_total := length (pl_rows plan),
                ru_valid := pl_created plan + pl_updated plan, ru_skipped := pl_skipped plan, ru_failed := pl_failed plan\<rparr>)) (env2 (env1 d1)) of
              (Inl e, d2) \<Rightarrow> (Inl e, d2)
            | (Inr _, d2) \<Rightarrow> (Inr plan, d2))))"

section \<open>Confirmation\<close>

definition source_lease_ms :: int where
  "source_lease_ms = 5 * 60000"

text \<open>A live source at the version that was read, which nobody holds.\<close>

definition source_claimable :: "uuid \<Rightarrow> uuid \<Rightarrow> nat \<Rightarrow> instant \<Rightarrow> catalogue_source \<Rightarrow> bool" where
  "source_claimable t sid version now s \<longleftrightarrow> cs_id s = sid \<and> cs_tenant s = t \<and> cs_type s = GOOGLE_SHEETS \<and> cs_version s = version
     \<and> (cs_lease s = None \<or> (\<exists>e. cs_lease_expires s = Some e \<and> e \<le> now))"

definition lease_source :: "uuid \<Rightarrow> instant \<Rightarrow> catalogue_source \<Rightarrow> catalogue_source" where
  "lease_source l now s = s\<lparr>cs_lease := Some l, cs_lease_expires := Some (now + source_lease_ms), cs_version := cs_version s + 1\<rparr>"

definition run_ready :: "uuid \<Rightarrow> uuid \<Rightarrow> import_run \<Rightarrow> bool" where
  "run_ready t rid r \<longleftrightarrow> ru_id r = rid \<and> ru_tenant r = t \<and> ru_status r = IM_PREVIEW_READY"

definition begin_run :: "uuid \<Rightarrow> instant \<Rightarrow> import_run \<Rightarrow> import_run" where
  "begin_run user now r = r\<lparr>ru_status := IM_PROCESSING, ru_requested_by := Some user, ru_started := Some now\<rparr>"

datatype confirmation = AlreadyDone import_run | Claimed uuid "(uuid \<times> nat) option"

abbreviation not_confirmable :: app_error where
  "not_confirmable \<equiv> Conflict ''Catalogue import cannot be confirmed''"

abbreviation source_changed :: app_error where
  "source_changed \<equiv> Conflict ''Catalogue source changed after this preview''"

definition claim_file :: "uuid \<Rightarrow> uuid \<Rightarrow> import_run \<Rightarrow> instant \<Rightarrow> confirmation dbtx" where
  "claim_file t user r now =
     tx_bind (update_runs (run_ready t (ru_id r)) (begin_run user now)) (\<lambda>n.
     tx_seq (tx_when (n \<noteq> 1) not_confirmable) (tx_return (Claimed (ru_source r) None)))"

definition claim_live :: "uuid \<Rightarrow> uuid \<Rightarrow> import_run \<Rightarrow> nat \<Rightarrow> uuid \<Rightarrow> instant \<Rightarrow> confirmation dbtx" where
  "claim_live t user r version l now =
     tx_bind (update_sources (source_claimable t (ru_source r) version now) (lease_source l now)) (\<lambda>n.
     tx_seq (tx_when (n \<noteq> 1) source_changed)
    (tx_bind (update_runs (\<lambda>x. run_ready t (ru_id r) x \<and> ru_sync_version x = Some version)
       (\<lambda>x. (begin_run user now x)\<lparr>ru_sync_version := Some (version + 1)\<rparr>)) (\<lambda>m.
     tx_seq (tx_when (m \<noteq> 1) not_confirmable) (tx_return (Claimed (ru_source r) (Some (l, version + 1)))))))"

definition claimConfirmation :: "uuid \<Rightarrow> uuid \<Rightarrow> uuid \<Rightarrow> uuid \<Rightarrow> instant \<Rightarrow> confirmation dbtx" where
  "claimConfirmation t user rid l now =
     tx_seq (assertTenantAcceptingMutations t CATALOGUE)
    (tx_bind (tx_read (loadRun t rid)) (\<lambda>loaded. tx_bind (tx_sum loaded) (\<lambda>(r, s, _).
       if ru_status r = IM_COMPLETED then tx_return (AlreadyDone r)
       else tx_seq (tx_when (ru_status r \<noteq> IM_PREVIEW_READY) not_confirmable)
        (if cs_type s \<noteq> GOOGLE_SHEETS then claim_file t user r now
         else case ru_sync_version r of
             None \<Rightarrow> tx_throw source_changed
           | Some v \<Rightarrow> tx_seq (tx_when (v \<noteq> cs_version s) source_changed) (claim_live t user r v l now)))))"

text \<open>The run of a claim while it is processed.\<close>

definition run_claimed :: "uuid \<Rightarrow> uuid \<Rightarrow> (uuid \<times> nat) option \<Rightarrow> import_run \<Rightarrow> bool" where
  "run_claimed t rid lease r \<longleftrightarrow> ru_id r = rid \<and> ru_tenant r = t \<and> ru_status r = IM_PROCESSING
     \<and> (case lease of None \<Rightarrow> True | Some (l, v) \<Rightarrow> ru_sync_version r = Some v)"

definition nextSyncAt :: "string option \<Rightarrow> instant \<Rightarrow> instant option" where
  "nextSyncAt schedule now = (if schedule = Some ''HOURLY'' then Some (now + 60 * 60000)
     else if schedule = Some ''DAILY'' then Some (now + 24 * 60 * 60000) else None)"

fun code_name :: "import_code \<Rightarrow> string" where
  "code_name EMPTY_ROW = ''EMPTY_ROW''"
| "code_name CATEGORY_ROW = ''CATEGORY_ROW''"
| "code_name NAME_REQUIRED = ''NAME_REQUIRED''"
| "code_name PRICE_INVALID = ''PRICE_INVALID''"
| "code_name STOCK_INVALID = ''STOCK_INVALID''"
| "code_name IMAGE_URLS_INVALID = ''IMAGE_URLS_INVALID''"
| "code_name ACTIVE_INVALID = ''ACTIVE_INVALID''"
| "code_name ATTRIBUTES_INVALID = ''ATTRIBUTES_INVALID''"
| "code_name SKU_DUPLICATE = ''SKU_DUPLICATE''"

definition complete_run :: "import_counts \<Rightarrow> instant \<Rightarrow> import_run \<Rightarrow> import_run" where
  "complete_run c now r = r\<lparr>ru_status := IM_COMPLETED, ru_total := ic_total c, ru_valid := ic_valid c, ru_created := ic_created c,
     ru_updated := ic_updated c, ru_skipped := ic_skipped c, ru_failed := ic_failed c,
     ru_errors := map (\<lambda>(n, cs). (Some n, map code_name cs)) (ic_errors c), ru_completed := Some now\<rparr>"

definition activate_source :: "string option \<Rightarrow> instant \<Rightarrow> catalogue_source \<Rightarrow> catalogue_source" where
  "activate_source schedule now s = s\<lparr>cs_status := SRC_ACTIVE, cs_synced := Some now, cs_next_sync := nextSyncAt schedule now, cs_error := None,
     cs_lease := None, cs_lease_expires := None\<rparr>"

definition completeConfirmation ::
  "uuid \<Rightarrow> uuid \<Rightarrow> uuid \<Rightarrow> string option \<Rightarrow> import_counts \<Rightarrow> (uuid \<times> nat) option \<Rightarrow> instant \<Rightarrow> import_run dbtx" where
  "completeConfirmation t rid source schedule counts lease now =
     tx_seq (case lease of
         None \<Rightarrow> tx_return ()
       | Some l \<Rightarrow> tx_bind (update_sources (lease_owned t source l now) (activate_source schedule now)) (\<lambda>n. tx_when (n \<noteq> 1) lease_lost))
    (tx_bind (update_runs (run_claimed t rid lease) (complete_run counts now)) (\<lambda>n.
     tx_seq (tx_when (n \<noteq> 1) lease_lost)
    (tx_bind (tx_read (find_run t rid)) (\<lambda>r. case r of Some x \<Rightarrow> tx_return x | None \<Rightarrow> tx_throw RecordNotFound))))"

definition fail_run :: "instant \<Rightarrow> import_run \<Rightarrow> import_run" where
  "fail_run now r = r\<lparr>ru_status := IM_FAILED, ru_errors := [(None, [''IMPORT_FAILED''])], ru_completed := Some now\<rparr>"

definition held_source :: "uuid \<Rightarrow> uuid \<Rightarrow> uuid \<times> nat \<Rightarrow> catalogue_source \<Rightarrow> bool" where
  "held_source t source l s \<longleftrightarrow> cs_id s = source \<and> cs_tenant s = t \<and> cs_lease s = Some (fst l) \<and> cs_version s = snd l"

definition fail_source :: "catalogue_source \<Rightarrow> catalogue_source" where
  "fail_source s = s\<lparr>cs_status := SRC_ERROR, cs_error := Some ''IMPORT_FAILED'', cs_lease := None, cs_lease_expires := None\<rparr>"

definition failConfirmation :: "uuid \<Rightarrow> uuid \<Rightarrow> uuid \<Rightarrow> (uuid \<times> nat) option \<Rightarrow> instant \<Rightarrow> unit dbtx" where
  "failConfirmation t rid source lease now =
     tx_bind (update_runs (run_claimed t rid lease) (fail_run now)) (\<lambda>_.
       case lease of None \<Rightarrow> tx_return ()
       | Some l \<Rightarrow> tx_bind (update_sources (held_source t source l) fail_source) (\<lambda>_. tx_return ()))"

text \<open>The clock at the claim, at both ends of the import, and at the end.\<close>

record clock =
  at_claim :: instant
  at_import :: instant
  at_fence :: instant
  at_end :: instant

text \<open>\<open>env i\<close>: what others commit before the i-th transaction after the claim; \<open>lost i\<close>: the heartbeat
  says at its i-th check that the lease is lost.\<close>

definition import_claimed ::
  "sheet_language \<Rightarrow> 'o files \<Rightarrow> uuid \<Rightarrow> uuid \<Rightarrow> uuid \<Rightarrow> (uuid \<times> nat) option \<Rightarrow> clock \<Rightarrow> (nat \<Rightarrow> bool) \<Rightarrow> (nat \<Rightarrow> bool) \<Rightarrow> (nat \<Rightarrow> db \<Rightarrow> db)
    \<Rightarrow> import_run dbservice" where
  "import_claimed L F t rid source lease c conflict lost env d =
     (case loadRun t rid d of
        Inl e \<Rightarrow> (Inl e, d)
      | Inr (r, s, mapping) \<Rightarrow> (case mapped_table F r s mapping of
            Inl e \<Rightarrow> (Inl e, d)
          | Inr (m, table) \<Rightarrow>
              if lease \<noteq> None \<and> lost 0 then (Inl lease_lost, d)
              else case importCatalogueTable L (run_input t r (cs_type s \<noteq> GOOGLE_SHEETS) lease m table) (env 2) conflict
                  (at_import c) (at_fence c) (env 1 d) of
                (Inl e, d1) \<Rightarrow> (Inl e, d1)
              | (Inr counts, d1) \<Rightarrow>
                  if lease \<noteq> None \<and> lost 1 then (Inl lease_lost, d1)
                  else run_tx (completeConfirmation t rid (ru_source r) (cs_schedule s) counts lease (at_end c)) (env 3 d1)))"

definition confirm ::
  "sheet_language \<Rightarrow> 'o files \<Rightarrow> uuid \<Rightarrow> uuid \<Rightarrow> uuid \<Rightarrow> uuid \<Rightarrow> clock \<Rightarrow> (nat \<Rightarrow> bool) \<Rightarrow> (nat \<Rightarrow> bool) \<Rightarrow> (nat \<Rightarrow> db \<Rightarrow> db) \<Rightarrow> import_run dbservice" where
  "confirm L F t user rid l c conflict lost env d =
     (case run_tx (claimConfirmation t user rid l (at_claim c)) d of
        (Inl e, d0) \<Rightarrow> (Inl e, d0)
      | (Inr (AlreadyDone r), d0) \<Rightarrow> (Inr r, d0)
      | (Inr (Claimed source lease), d0) \<Rightarrow>
          (case import_claimed L F t rid source lease c conflict lost env (env 0 d0) of
             (Inr r, d1) \<Rightarrow> (Inr r, d1)
           | (Inl e, d1) \<Rightarrow> (case run_tx (failConfirmation t rid source lease (at_end c)) (env 4 d1) of
                 (Inl e', d2) \<Rightarrow> (Inl e', d2)
               | (Inr _, d2) \<Rightarrow> (Inl e, d2))))"

end
