(* ===== verification/Catalogue_Runs_Props.thy ===== *)
theory Catalogue_Runs_Props
  imports Catalogue_Runs Catalogue_Props
begin

text \<open>
  What holds of runs of an import: a confirmation always ends its run and releases its source,
  and a run that was mapped again is no longer found by the content of its file.
\<close>

section \<open>Transactions\<close>

lemma update_runs_Inr: "update_runs P f d = Inr (n, d') \<longleftrightarrow> n = count_where P (import_runs d) \<and> d' = d\<lparr>import_runs := update_where P f (import_runs d)\<rparr>"
  by (auto simp: update_runs_def tx_iff)

lemma update_sources_Inr: "update_sources P f d = Inr (n, d') \<longleftrightarrow> n = count_where P (catalogue_sources d) \<and> d' = d\<lparr>catalogue_sources := update_where P f (catalogue_sources d)\<rparr>"
  by (auto simp: update_sources_def tx_iff)

lemma tx_sum_Inr [simp]: "tx_sum x d = Inr r \<longleftrightarrow> (\<exists>a. x = Inr a \<and> r = (a, d))"
  by (cases x) (auto simp: tx_sum_def)

lemma tx_bind_sum: "tx_bind (tx_sum x) f d = Inr r \<longleftrightarrow> (\<exists>a. x = Inr a \<and> f a d = Inr r)"
  by (auto simp: tx_bind_Inr)

definition run_ids :: "db \<Rightarrow> bool" where
  "run_ids d \<longleftrightarrow> distinct (map ru_id (import_runs d)) \<and> distinct (map cs_id (catalogue_sources d))"

lemma find_run_some: "find_run t rid d = Some r \<Longrightarrow> r \<in> set (import_runs d) \<and> ru_id r = rid \<and> ru_tenant r = t"
  unfolding find_run_def using find_some_set find_some_prop by fast

lemma find_source_some: "find_source t sid d = Some s \<Longrightarrow> s \<in> set (catalogue_sources d) \<and> cs_id s = sid \<and> cs_tenant s = t"
  unfolding find_source_def using find_some_set find_some_prop by fast

lemma find_run_updated:
  assumes "run_ids d" and "r \<in> set (import_runs d)" and "P r" and "\<And>x. ru_id (f x) = ru_id x \<and> ru_tenant (f x) = ru_tenant x"
    and "import_runs d' = update_where P f (import_runs d)"
  shows "find_run (ru_tenant r) (ru_id r) d' = Some (f r)"
proof -
  have "map ru_id (import_runs d') = map ru_id (import_runs d)" unfolding assms(5) by (rule map_update_where) (simp add: assms(4))
  then have ids: "distinct (map ru_id (import_runs d'))" using assms(1) by (simp add: run_ids_def)
  have "f r \<in> set (import_runs d')" unfolding assms(5) set_update_where using assms(2,3) by (intro image_eqI[of _ _ r]) simp_all
  then show ?thesis unfolding find_run_def using assms(4) by (intro find_distinct_key[OF ids]) auto
qed

section \<open>Confirmation\<close>

text \<open>What a confirmation has once it has claimed its run: the run is being processed, and a live
  source is leased to it.\<close>

definition claim_holds :: "uuid \<Rightarrow> uuid \<Rightarrow> uuid \<Rightarrow> (uuid \<times> nat) option \<Rightarrow> db \<Rightarrow> bool" where
  "claim_holds t rid source lease d \<longleftrightarrow> run_ids d \<and> (\<exists>r\<in>set (import_runs d). run_claimed t rid lease r \<and> ru_source r = source)
     \<and> (\<exists>s\<in>set (catalogue_sources d). cs_id s = source \<and> cs_tenant s = t
          \<and> (case lease of None \<Rightarrow> cs_type s \<noteq> GOOGLE_SHEETS | Some l \<Rightarrow> held_source t source l s))"

text \<open>Others may do anything but to the runs and the sources, where heartbeats extend a lease.\<close>

definition untimed :: "catalogue_source \<Rightarrow> catalogue_source" where
  "untimed s = s\<lparr>cs_lease_expires := None\<rparr>"

definition leaves_runs :: "(db \<Rightarrow> db) \<Rightarrow> bool" where
  "leaves_runs f \<longleftrightarrow> (\<forall>d. import_runs (f d) = import_runs d \<and> map untimed (catalogue_sources (f d)) = map untimed (catalogue_sources d))"

lemma untimed_sources:
  assumes "map untimed xs = map untimed ys" and "s \<in> set ys"
  shows "\<exists>s'\<in>set xs. untimed s' = untimed s"
proof -
  have "untimed s \<in> untimed ` set xs" using arg_cong[OF assms(1), of set] assms(2) by auto
  then show ?thesis by auto
qed

lemma untimed_ids: "map untimed xs = map untimed ys \<Longrightarrow> map cs_id xs = map cs_id ys"
proof -
  assume "map untimed xs = map untimed ys"
  then have "map (cs_id \<circ> untimed) xs = map (cs_id \<circ> untimed) ys" by (metis map_map)
  moreover have "cs_id \<circ> untimed = cs_id" by (auto simp: untimed_def)
  ultimately show ?thesis by simp
qed

lemma untimed_fields:
  assumes "untimed s' = untimed s"
  shows "cs_id s' = cs_id s" "cs_tenant s' = cs_tenant s" "cs_type s' = cs_type s" "held_source t sid l s' = held_source t sid l s"
proof -
  have "cs_id (untimed s') = cs_id (untimed s)" "cs_tenant (untimed s') = cs_tenant (untimed s)" "cs_type (untimed s') = cs_type (untimed s)"
    "held_source t sid l (untimed s') = held_source t sid l (untimed s)" using assms by simp_all
  then show "cs_id s' = cs_id s" "cs_tenant s' = cs_tenant s" "cs_type s' = cs_type s" "held_source t sid l s' = held_source t sid l s"
    by (simp_all add: untimed_def held_source_def)
qed

lemma claim_holds_env:
  assumes "claim_holds t rid source lease d" and "import_runs d' = import_runs d" and "map untimed (catalogue_sources d') = map untimed (catalogue_sources d)"
  shows "claim_holds t rid source lease d'"
proof -
  obtain s where s: "s \<in> set (catalogue_sources d)" "cs_id s = source" "cs_tenant s = t" "case lease of None \<Rightarrow> cs_type s \<noteq> GOOGLE_SHEETS | Some l \<Rightarrow> held_source t source l s"
    using assms(1) unfolding claim_holds_def by blast
  obtain s' where s': "s' \<in> set (catalogue_sources d')" "untimed s' = untimed s" using untimed_sources[OF assms(3) s(1)] by blast
  have "run_ids d'" using assms(1) untimed_ids[OF assms(3)] assms(2) by (simp add: claim_holds_def run_ids_def)
  moreover have "cs_id s' = source \<and> cs_tenant s' = t \<and> (case lease of None \<Rightarrow> cs_type s' \<noteq> GOOGLE_SHEETS | Some l \<Rightarrow> held_source t source l s')"
    using s(2-4) untimed_fields[OF s'(2)] by (cases lease) simp_all
  moreover have "\<exists>r\<in>set (import_runs d'). run_claimed t rid lease r \<and> ru_source r = source" using assms(1,2) by (simp add: claim_holds_def)
  ultimately show ?thesis unfolding claim_holds_def using s'(1) by (intro conjI bexI[of _ s']) simp_all
qed

text \<open>The run has ended and no live source is left leased.\<close>

definition run_ended :: "uuid \<Rightarrow> uuid \<Rightarrow> uuid \<Rightarrow> import_status \<Rightarrow> db \<Rightarrow> bool" where
  "run_ended t rid source st d \<longleftrightarrow> (\<exists>r. find_run t rid d = Some r \<and> ru_status r = st \<and> ru_source r = source)
     \<and> (\<forall>s\<in>set (catalogue_sources d). cs_id s = source \<and> cs_type s = GOOGLE_SHEETS \<longrightarrow> cs_lease s = None)"

lemma one_source:
  assumes "distinct (map cs_id xs)" and "s \<in> set xs" and "s' \<in> set xs" and "cs_id s' = cs_id s"
  shows "s' = s"
  using assms by (auto simp: distinct_map dest: inj_onD)

lemma ended_by_update:
  assumes "claim_holds t rid source lease d"
    and "import_runs d' = update_where (run_claimed t rid lease) f (import_runs d)"
    and f: "\<And>x. ru_id (f x) = ru_id x \<and> ru_tenant (f x) = ru_tenant x \<and> ru_source (f x) = ru_source x \<and> ru_status (f x) = st"
    and "case lease of None \<Rightarrow> catalogue_sources d' = catalogue_sources d
      | Some l \<Rightarrow> \<exists>P g. catalogue_sources d' = update_where P g (catalogue_sources d) \<and> (\<forall>s. cs_id (g s) = cs_id s \<and> cs_lease (g s) = None)
          \<and> (\<forall>s\<in>set (catalogue_sources d). cs_id s = source \<longrightarrow> P s)"
  shows "run_ended t rid source st d'"
proof -
  obtain r where r: "r \<in> set (import_runs d)" "run_claimed t rid lease r" "ru_source r = source" using assms(1) unfolding claim_holds_def by blast
  have ids: "run_ids d" using assms(1) by (simp add: claim_holds_def)
  have "find_run t rid d' = Some (f r)"
    using find_run_updated[OF ids r(1) r(2) _ assms(2)] f r(2) by (simp add: run_claimed_def)
  moreover have "cs_lease s = None" if s: "s \<in> set (catalogue_sources d')" "cs_id s = source" "cs_type s = GOOGLE_SHEETS" for s
  proof (cases lease)
    case None
    then obtain s0 where "s0 \<in> set (catalogue_sources d)" "cs_id s0 = source" "cs_type s0 \<noteq> GOOGLE_SHEETS"
      using assms(1) by (auto simp: claim_holds_def)
    then show ?thesis using one_source[of "catalogue_sources d" s0 s] ids s assms(4) None by (auto simp: run_ids_def)
  next
    case (Some l)
    then obtain P g where "catalogue_sources d' = update_where P g (catalogue_sources d)" "\<forall>s. cs_id (g s) = cs_id s \<and> cs_lease (g s) = None"
      "\<forall>s\<in>set (catalogue_sources d). cs_id s = source \<longrightarrow> P s" using assms(4) by auto
    then show ?thesis using s(1,2) by (auto simp: set_update_where split: if_splits)
  qed
  ultimately show ?thesis using f r(3) by (auto simp: run_ended_def)
qed

lemma sole_source:
  assumes "claim_holds t rid source (Some l) d" and "s \<in> set (catalogue_sources d)" and "cs_id s = source"
  shows "held_source t source l s"
proof -
  obtain s' where "s' \<in> set (catalogue_sources d)" "cs_id s' = source" "held_source t source l s'" using assms(1) by (auto simp: claim_holds_def)
  then show ?thesis using one_source[of "catalogue_sources d" s' s] assms by (auto simp: claim_holds_def run_ids_def)
qed

lemma fail_ends:
  assumes "claim_holds t rid source lease d"
  shows "\<exists>d'. failConfirmation t rid source lease now d = Inr ((), d') \<and> run_ended t rid source IM_FAILED d'"
proof (cases lease)
  case None
  let ?d = "d\<lparr>import_runs := update_where (run_claimed t rid lease) (fail_run now) (import_runs d)\<rparr>"
  have "run_ended t rid source IM_FAILED ?d"
    by (rule ended_by_update[OF assms, where f = "fail_run now"]) (simp_all add: fail_run_def None)
  then show ?thesis by (auto simp: failConfirmation_def None tx_iff update_runs_Inr)
next
  case (Some l)
  let ?d = "d\<lparr>import_runs := update_where (run_claimed t rid lease) (fail_run now) (import_runs d),
    catalogue_sources := update_where (held_source t source l) fail_source (catalogue_sources d)\<rparr>"
  have "\<forall>s\<in>set (catalogue_sources d). cs_id s = source \<longrightarrow> held_source t source l s" using sole_source assms Some by blast
  then have "\<exists>P g. catalogue_sources ?d = update_where P g (catalogue_sources d) \<and> (\<forall>s. cs_id (g s) = cs_id s \<and> cs_lease (g s) = None)
          \<and> (\<forall>s\<in>set (catalogue_sources d). cs_id s = source \<longrightarrow> P s)"
    by (intro exI[of _ "held_source t source l"] exI[of _ fail_source]) (simp add: fail_source_def)
  then have "run_ended t rid source IM_FAILED ?d"
    by (intro ended_by_update[OF assms, where f = "fail_run now"]) (simp_all add: fail_run_def Some)
  then show ?thesis by (auto simp: failConfirmation_def Some tx_iff update_runs_Inr update_sources_Inr)
qed

lemma complete_ends:
  assumes "claim_holds t rid source lease d" and "completeConfirmation t rid source schedule counts lease now d = Inr (r, d')"
  shows "run_ended t rid source IM_COMPLETED d' \<and> find_run t rid d' = Some r"
proof (cases lease)
  case None
  have d': "d' = d\<lparr>import_runs := update_where (run_claimed t rid lease) (complete_run counts now) (import_runs d)\<rparr>" and r: "find_run t rid d' = Some r"
    using assms(2) by (auto simp: completeConfirmation_def None tx_iff update_runs_Inr split: option.splits)
  have "run_ended t rid source IM_COMPLETED d'"
    unfolding d' by (rule ended_by_update[OF assms(1), where f = "complete_run counts now"]) (simp_all add: complete_run_def None)
  then show ?thesis using r by simp
next
  case (Some l)
  have d': "d' = d\<lparr>import_runs := update_where (run_claimed t rid lease) (complete_run counts now) (import_runs d),
      catalogue_sources := update_where (lease_owned t source l now) (activate_source schedule now) (catalogue_sources d)\<rparr>"
    and r: "find_run t rid d' = Some r" and n: "count_where (lease_owned t source l now) (catalogue_sources d) = 1"
    using assms(2) by (auto simp: completeConfirmation_def Some tx_iff update_runs_Inr update_sources_Inr split: option.splits)
  have "\<not> (\<forall>s\<in>set (catalogue_sources d). \<not> lease_owned t source l now s)" using n count_where_0_iff[of "lease_owned t source l now" "catalogue_sources d"] by simp
  then obtain s where s: "s \<in> set (catalogue_sources d)" "lease_owned t source l now s" by blast
  have "lease_owned t source l now x" if "x \<in> set (catalogue_sources d)" "cs_id x = source" for x
    using one_source[of "catalogue_sources d" s x] s that assms(1) by (auto simp: claim_holds_def run_ids_def lease_owned_def)
  then have "\<exists>P g. catalogue_sources d' = update_where P g (catalogue_sources d) \<and> (\<forall>s. cs_id (g s) = cs_id s \<and> cs_lease (g s) = None)
          \<and> (\<forall>s\<in>set (catalogue_sources d). cs_id s = source \<longrightarrow> P s)"
    unfolding d' by (intro exI[of _ "lease_owned t source l now"] exI[of _ "activate_source schedule now"]) (simp add: activate_source_def)
  then have "run_ended t rid source IM_COMPLETED d'"
    using d' by (intro ended_by_update[OF assms(1), where f = "complete_run counts now"]) (simp_all add: complete_run_def Some)
  then show ?thesis using r by simp
qed


lemma loadRun_Inr:
  assumes "loadRun t rid d = Inr (r, s, m)"
  shows "r \<in> set (import_runs d) \<and> ru_id r = rid \<and> ru_tenant r = t \<and> s \<in> set (catalogue_sources d) \<and> cs_id s = ru_source r \<and> cs_tenant s = t"
  using assms by (auto simp: loadRun_def dest!: find_run_some find_source_some split: option.splits)

lemma one_run: "run_ids d \<Longrightarrow> r \<in> set (import_runs d) \<Longrightarrow> r' \<in> set (import_runs d) \<Longrightarrow> ru_id r' = ru_id r \<Longrightarrow> r' = r"
  by (auto simp: run_ids_def distinct_map dest: inj_onD)

lemma run_ids_update:
  assumes "run_ids d" and "\<And>x. ru_id (f x) = ru_id x" and "\<And>x. cs_id (g x) = cs_id x"
  shows "run_ids (d\<lparr>import_runs := update_where P f (import_runs d)\<rparr>)" 
    and "run_ids (d\<lparr>catalogue_sources := update_where Q g (catalogue_sources d), import_runs := update_where P f (import_runs d)\<rparr>)"
  using assms by (simp_all add: run_ids_def map_update_where)

lemma claim_file_holds:
  assumes "run_ids d" and "loadRun t rid d = Inr (r, s, m)" and "cs_type s \<noteq> GOOGLE_SHEETS" and "claim_file t user r now d = Inr (c, d')"
  shows "c = Claimed (ru_source r) None \<and> claim_holds t rid (ru_source r) None d'"
proof -
  note l = loadRun_Inr[OF assms(2)]
  let ?P = "run_ready t (ru_id r)"
  have d': "d' = d\<lparr>import_runs := update_where ?P (begin_run user now) (import_runs d)\<rparr>" and c: "c = Claimed (ru_source r) None"
    and n: "count_where ?P (import_runs d) = 1"
    using assms(4) by (auto simp: claim_file_def tx_iff update_runs_Inr)
  then obtain x where x: "x \<in> set (import_runs d)" "?P x" using count_where_0_iff[of ?P "import_runs d"] by fastforce
  then have "x = r" using one_run[OF assms(1), of r x] l by (simp add: run_ready_def)
  then have "begin_run user now r \<in> set (import_runs d')" using x unfolding d' by (auto simp: set_update_where intro!: image_eqI[of _ _ r])
  moreover have "run_claimed t rid None (begin_run user now r) \<and> ru_source (begin_run user now r) = ru_source r" using l by (simp add: run_claimed_def begin_run_def)
  moreover have "run_ids d'" unfolding d' by (rule run_ids_update(1)[OF assms(1)]) (simp_all add: begin_run_def)
  moreover have "s \<in> set (catalogue_sources d')" using l by (simp add: d')
  ultimately show ?thesis using l assms(3) c unfolding claim_holds_def by auto
qed

lemma claim_live_holds:
  assumes "run_ids d" and "loadRun t rid d = Inr (r, s, m)" and "cs_type s = GOOGLE_SHEETS" and "claim_live t user r v l now d = Inr (c, d')"
  shows "c = Claimed (ru_source r) (Some (l, v + 1)) \<and> claim_holds t rid (ru_source r) (Some (l, v + 1)) d'"
proof -
  note a = loadRun_Inr[OF assms(2)]
  let ?P = "\<lambda>x. run_ready t (ru_id r) x \<and> ru_sync_version x = Some v" and ?f = "\<lambda>x. (begin_run user now x)\<lparr>ru_sync_version := Some (v + 1)\<rparr>"
  let ?Q = "source_claimable t (ru_source r) v now"
  have d': "d' = d\<lparr>catalogue_sources := update_where ?Q (lease_source l now) (catalogue_sources d), import_runs := update_where ?P ?f (import_runs d)\<rparr>"
    and c: "c = Claimed (ru_source r) (Some (l, v + 1))" and n: "count_where ?P (import_runs d) = 1" "count_where ?Q (catalogue_sources d) = 1"
    using assms(4) by (auto simp: claim_live_def tx_iff update_runs_Inr update_sources_Inr)
  obtain x where x: "x \<in> set (import_runs d)" "?P x" using n(1) count_where_0_iff[of ?P "import_runs d"] by fastforce
  obtain y where y: "y \<in> set (catalogue_sources d)" "?Q y" using n(2) count_where_0_iff[of ?Q "catalogue_sources d"] by fastforce
  have "x = r" using one_run[OF assms(1), of r x] a x by (simp add: run_ready_def)
  then have "?f r \<in> set (import_runs d')" using x unfolding d' by (auto simp: set_update_where intro!: image_eqI[of _ _ r])
  moreover have "run_claimed t rid (Some (l, v + 1)) (?f r) \<and> ru_source (?f r) = ru_source r" using a by (simp add: run_claimed_def begin_run_def)
  moreover have "run_ids d'" unfolding d' by (rule run_ids_update(2)[OF assms(1)]) (simp_all add: begin_run_def lease_source_def)
  moreover have "lease_source l now y \<in> set (catalogue_sources d')" using y unfolding d' by (auto simp: set_update_where intro!: image_eqI[of _ _ y])
  moreover have "held_source t (ru_source r) (l, v + 1) (lease_source l now y)" using y(2) by (simp add: held_source_def lease_source_def source_claimable_def)
  ultimately have "claim_holds t rid (ru_source r) (Some (l, v + 1)) d'"
    unfolding claim_holds_def by (auto simp: held_source_def simp del: One_nat_def)
  then show ?thesis using c by simp
qed

lemma confirm_claim_cases:
  assumes "run_ids d" and "claimConfirmation t user rid l now d = Inr (c, d')"
  obtains (finished) r where "c = AlreadyDone r" "d' = d" "find_run t rid d = Some r" "ru_status r = IM_COMPLETED"
  | (claimed) source lease where "c = Claimed source lease" "claim_holds t rid source lease d'"
proof -
  obtain r s m d0 where a: "assertTenantAcceptingMutations t CATALOGUE d = Inr ((), d0)" "loadRun t rid d0 = Inr (r, s, m)"
    and b: "(if ru_status r = IM_COMPLETED then tx_return (AlreadyDone r)
       else tx_seq (tx_when (ru_status r \<noteq> IM_PREVIEW_READY) not_confirmable)
        (if cs_type s \<noteq> GOOGLE_SHEETS then claim_file t user r now
         else case ru_sync_version r of
             None \<Rightarrow> tx_throw source_changed
           | Some v \<Rightarrow> tx_seq (tx_when (v \<noteq> cs_version s) source_changed) (claim_live t user r v l now))) d0 = Inr (c, d')"
    using assms(2) unfolding claimConfirmation_def tx_seq_Inr tx_bind_Inr tx_read_Inr tx_sum_Inr by (auto simp only: prod.case prod.inject)
  have d0: "d0 = d" using a(1) by (auto simp: assertTenantAcceptingMutations_def tx_iff split: if_splits)
  show ?thesis
  proof (cases "ru_status r = IM_COMPLETED")
    case True
    then have "c = AlreadyDone r" "d' = d" using b d0 by simp_all
    moreover have "find_run t rid d = Some r" using a(2) d0 by (auto simp: loadRun_def split: option.splits)
    ultimately show ?thesis using finished True by blast
  next
    case False
    note b' = b[unfolded if_not_P[OF False] tx_seq_Inr]
    show ?thesis
    proof (cases "cs_type s = GOOGLE_SHEETS")
      case True
      then obtain v where "claim_live t user r v l now d = Inr (c, d')" using b' d0 by (auto simp: tx_iff split: option.splits)
      then show ?thesis using claim_live_holds[OF assms(1) a(2)[unfolded d0] True] claimed by blast
    next
      case False
      then have "claim_file t user r now d = Inr (c, d')" using b' d0 by auto
      then show ?thesis using claim_file_holds[OF assms(1) a(2)[unfolded d0] False] claimed by blast
    qed
  qed
qed

lemma import_keeps_runs:
  assumes "importCatalogueTable L input env conflict now later d = (res, d')"
  shows "import_runs d' = import_runs (env d) \<and> catalogue_sources d' = catalogue_sources (env d)"
proof -
  obtain ps n where f: "fold (put_row L (ti_tenant input) (ti_source input) now) (write_rows (plan_rows L input)) (env d) = (env d)\<lparr>products := ps, next_id := n\<rparr>"
    using put_rows_frame by blast
  then show ?thesis using assms unfolding import_run upsert_tx_run by (auto simp: f split: if_splits simp del: any_row_iff)
qed

lemma import_claimed_ends:
  assumes "claim_holds t rid source lease d" and env: "\<And>i. leaves_runs (env i)"
    and "import_claimed L F t rid source lease c conflict lost env d = (res, d')"
  shows "case res of Inl e \<Rightarrow> claim_holds t rid source lease d' | Inr r \<Rightarrow> run_ended t rid source IM_COMPLETED d' \<and> find_run t rid d' = Some r"
proof -
  have keep: "claim_holds t rid source lease (env i d)" if "claim_holds t rid source lease d" for i d
    using env that claim_holds_env unfolding leaves_runs_def by blast
  show ?thesis
  proof (cases "loadRun t rid d")
    case (Inl e)
    then show ?thesis using assms(1,3) by (auto simp: import_claimed_def)
  next
    case (Inr x)
    then obtain r s mapping where l: "loadRun t rid d = Inr (r, s, mapping)" by (cases x) auto
    have src: "ru_source r = source"
      using assms(1) loadRun_Inr[OF l] one_run[of d] by (auto simp: claim_holds_def run_claimed_def)
    show ?thesis
    proof (cases "mapped_table F r s mapping")
      case (Inl e)
      then show ?thesis using assms(1,3) l by (auto simp: import_claimed_def)
    next
      case (Inr mt)
      then obtain m table where mt: "mapped_table F r s mapping = Inr (m, table)" by (cases mt) auto
      show ?thesis
      proof (cases "lease \<noteq> None \<and> lost 0")
        case True
        then show ?thesis using assms(1,3) l mt by (auto simp: import_claimed_def)
      next
        case go: False
        obtain out d1 where i: "importCatalogueTable L (run_input t r (cs_type s \<noteq> GOOGLE_SHEETS) lease m table) (env 2) conflict (at_import c) (at_fence c) (env 1 d) = (out, d1)"
          by fastforce
        have d1: "claim_holds t rid source lease d1"
          using claim_holds_env[OF keep[OF keep[OF assms(1)]]] import_keeps_runs[OF i] by metis
        show ?thesis
        proof (cases out)
          case (Inl e)
          then show ?thesis using assms(3) l mt go i d1 by (auto simp: import_claimed_def)
        next
          case (Inr counts)
          have run: "(if lease \<noteq> None \<and> lost 1 then (Inl lease_lost, d1)
              else run_tx (completeConfirmation t rid source (cs_schedule s) counts lease (at_end c)) (env 3 d1)) = (res, d')"
            using assms(3) unfolding import_claimed_def l mt sum.case prod.case if_not_P[OF go] i Inr src by assumption
          show ?thesis
          proof (cases "lease \<noteq> None \<and> lost 1")
            case True
            then show ?thesis using run d1 by auto
          next
            case False
            then have "run_tx (completeConfirmation t rid source (cs_schedule s) counts lease (at_end c)) (env 3 d1) = (res, d')" using run by (simp only: if_False)
            then show ?thesis using keep[OF d1] complete_ends[OF keep[OF d1]] by (cases res) auto
          qed
        qed
      qed
    qed
  qed
qed



section \<open>Mapping again\<close>

lemma map_columns_done:
  assumes "map_columns_tx L F t rid columns clears now d = Inr ((), d')"
  obtains r s m d1 mid version where "loadRun t rid d1 = Inr (r, s, m)"
    "d1 = d\<lparr>import_runs := update_where (\<lambda>x. ru_id x = rid \<and> ru_tenant x = t \<and> remappable (ru_status x)) (\<lambda>x. x\<lparr>ru_status := IM_MAPPING\<rparr>) (import_runs d)\<rparr>"
    "import_runs d' = update_where (\<lambda>x. ru_id x = ru_id r \<and> ru_tenant x = t \<and> ru_status x = IM_MAPPING)
       (\<lambda>x. x\<lparr>ru_mapping := Some mid, ru_status := IM_PREVIEW_READY, ru_key := assigned_key r version\<rparr>) (import_runs d1)"
    "\<not> any_row (same_run_key (r\<lparr>ru_key := assigned_key r version\<rparr>)) (import_runs d1)"
    "count_where (\<lambda>x. ru_id x = rid \<and> ru_tenant x = t \<and> remappable (ru_status x)) (import_runs d) = 1"
    "catalogue_sources d' = catalogue_sources d" "lifecycle_requests d' = lifecycle_requests d" "\<not> tenant_frozen t d"
proof -
  have frozen: "\<not> tenant_frozen t d" using assms by (auto simp: map_columns_tx_def tx_iff assertTenantAcceptingMutations_def split: if_splits)
  let ?P = "\<lambda>x. ru_id x = rid \<and> ru_tenant x = t \<and> remappable (ru_status x)" and ?f = "\<lambda>x. x\<lparr>ru_status := IM_MAPPING\<rparr>"
  let ?d1 = "d\<lparr>import_runs := update_where ?P ?f (import_runs d)\<rparr>"
  have n: "count_where ?P (import_runs d) = 1"
    using assms frozen by (auto simp: map_columns_tx_def tx_iff assertTenantAcceptingMutations_def update_runs_Inr throwRemapConflict_def split: if_splits)
  let ?store = "\<lambda>(r::import_run) (table::parsed_table) cols cl latest. tx_bind fresh_id (\<lambda>mid.
     tx_seq (create_mapping \<lparr>cm_id = mid, cm_tenant = t, cm_source = ru_source r, cm_version = latest + 1, cm_fingerprint = pt_fingerprint table,
          cm_columns = cols, cm_clear = cl, cm_confirmed = Some now\<rparr>)
       (assign_mapping t r mid (latest + 1)))"
  obtain r s m where l: "loadRun t rid ?d1 = Inr (r, s, m)" and rest: "tx_bind (tx_sum (table_of F r s)) (\<lambda>table.
     tx_bind (tx_sum (validateMapping L columns (pt_headers table))) (\<lambda>cols.
     tx_bind (tx_sum (validateClearFields clears cols)) (\<lambda>cl.
     tx_bind (tx_read (latest_version t (ru_source r))) (?store r table cols cl)))) ?d1 = Inr ((), d')"
  proof -
    have "\<exists>p d2. tx_read (loadRun t rid) ?d1 = Inr (p, d2) \<and> tx_bind (tx_sum p) (\<lambda>(r, s, _). tx_bind (tx_sum (table_of F r s)) (\<lambda>table.
     tx_bind (tx_sum (validateMapping L columns (pt_headers table))) (\<lambda>cols.
     tx_bind (tx_sum (validateClearFields clears cols)) (\<lambda>cl.
     tx_bind (tx_read (latest_version t (ru_source r))) (?store r table cols cl))))) d2 = Inr ((), d')"
      using assms frozen n unfolding map_columns_tx_def assertTenantAcceptingMutations_def
      by (auto simp: tx_seq_Inr[of _ "tx_bind (update_runs _ _) _"] tx_bind_Inr[of "update_runs _ _"] tx_seq_Inr[of _ "tx_bind (tx_read (loadRun t rid)) _"]
          tx_bind_Inr[of "tx_read (loadRun t rid)"] update_runs_Inr)
    then show thesis using that by (auto simp: tx_bind_Inr[of "tx_sum (Inr _)"] tx_bind_Inr[of "tx_sum (loadRun _ _ _)"])
  qed
  from rest obtain table cols cl where "?store r table cols cl (latest_version t (ru_source r) ?d1) ?d1 = Inr ((), d')"
    unfolding tx_bind_sum tx_run_steps(1) by blast
  then obtain mid d2 where d2: "import_runs d2 = import_runs ?d1" "catalogue_sources d2 = catalogue_sources d" "lifecycle_requests d2 = lifecycle_requests d"
    "assign_mapping t r mid (latest_version t (ru_source r) ?d1 + 1) d2 = Inr ((), d')"
    by (auto simp: tx_iff fresh_id_def create_mapping_def simp del: One_nat_def) (erule that[rotated 3]; simp)
  show ?thesis
    by (rule that[OF l refl]) (use d2 n frozen in \<open>auto simp: assign_mapping_def tx_iff update_runs_Inr\<close>)
qed


lemma set_update_one:
  assumes "x \<in> set xs" and "P x" and "\<And>y. y \<in> set xs \<Longrightarrow> P y \<Longrightarrow> y = x"
  shows "set (update_where P f xs) = insert (f x) (set xs - {x})"
proof -
  have "P y \<longleftrightarrow> y = x" if "y \<in> set xs" for y using assms that by blast
  then have "(\<lambda>y. if P y then f y else y) ` set xs = (\<lambda>y. if y = x then f x else y) ` set xs" by (intro image_cong refl) auto
  also have "\<dots> = insert (f x) (set xs - {x})" using assms(1) by auto
  finally show ?thesis by (simp add: set_update_where)
qed

text \<open>C40.
  A file that is uploaded again is found by its content, until its run is mapped: mapping gives
  the run of an upload the key of a live source, so that the same file then makes a second
  source and a second run.\<close>

theorem remap_forgets_upload:
  assumes "distinct (map ru_id (import_runs d))" and "distinct (map (\<lambda>r. (ru_tenant r, ru_key r)) (import_runs d))"
    and "find_run t rid d = Some r" and "ru_key r = UploadKey (uf_digest file)" and "ru_revision r = Some (uf_digest file)"
    and "CHR ''/'' \<notin> set (uf_name file)" and "0 < uf_size file" and "uf_size file \<le> max_catalogue_upload_bytes"
    and "supported_type (map lower_char (extname (uf_name file))) (uf_media file) \<noteq> None" and "uf_parsed file = Some (n, fingerprint)"
    and "run_tx (map_columns_tx L F t rid columns clears now) d = (Inr (), d')"
  shows "(\<exists>f. upload t user file object True (\<lambda>d. d) d = (Inr (r, f), d))
    \<and> (\<exists>r' d''. upload t user file object True (\<lambda>d. d) d' = (Inr (r', fingerprint), d'') \<and> import_runs d'' = import_runs d' @ [r']
        \<and> length (catalogue_sources d'') = length (catalogue_sources d') + 1
        \<and> ru_revision r' = Some (uf_digest file) \<and> (\<exists>x\<in>set (import_runs d'). ru_id x = rid \<and> ru_revision x = Some (uf_digest file) \<and> ru_status x = IM_PREVIEW_READY))"
proof -
  let ?key = "UploadKey (uf_digest file)"
  obtain type where type: "supported_type (map lower_char (extname (uf_name file))) (uf_media file) = Some type" using assms(9) by blast
  note r = find_run_some[OF assms(3)]
  have "run_by_key t ?key d = Some r" unfolding run_by_key_def
    using r assms(4) by (intro find_distinct_key[OF assms(2)]) simp_all
  then have before: "\<exists>f. upload t user file object True (\<lambda>d. d) d = (Inr (r, f), d)"
    using assms(6-8,10) type by (auto simp: upload_def known_upload_def split: option.splits)
  have "map_columns_tx L F t rid columns clears now d = Inr ((), d')" using assms(11) by simp
  then obtain r1 s m d1 mid version where l: "loadRun t rid d1 = Inr (r1, s, m)"
    and d1: "d1 = d\<lparr>import_runs := update_where (\<lambda>x. ru_id x = rid \<and> ru_tenant x = t \<and> remappable (ru_status x)) (\<lambda>x. x\<lparr>ru_status := IM_MAPPING\<rparr>) (import_runs d)\<rparr>"
    and d': "import_runs d' = update_where (\<lambda>x. ru_id x = ru_id r1 \<and> ru_tenant x = t \<and> ru_status x = IM_MAPPING)
       (\<lambda>x. x\<lparr>ru_mapping := Some mid, ru_status := IM_PREVIEW_READY, ru_key := assigned_key r1 version\<rparr>) (import_runs d1)"
    and n: "count_where (\<lambda>x. ru_id x = rid \<and> ru_tenant x = t \<and> remappable (ru_status x)) (import_runs d) = 1"
    and life: "lifecycle_requests d' = lifecycle_requests d" "\<not> tenant_frozen t d"
    by (rule map_columns_done)
  let ?P = "\<lambda>x. ru_id x = rid \<and> ru_tenant x = t \<and> remappable (ru_status x)" and ?f = "\<lambda>x. x\<lparr>ru_status := IM_MAPPING\<rparr>"
  obtain x where x: "x \<in> set (import_runs d)" "?P x" using n count_where_0_iff[of ?P "import_runs d"] by fastforce
  have one: "y = r" if "y \<in> set (import_runs d)" "ru_id y = rid" for y
    using that r assms(1) by (auto simp: distinct_map dest: inj_onD)
  then have P: "?P r" using x by blast
  have "r1 \<in> set (import_runs d1)" "ru_id r1 = rid" using loadRun_Inr[OF l] by simp_all
  then have r1: "r1 = ?f r" using one P unfolding d1 by (auto simp: set_update_where split: if_splits)
  let ?r2 = "(?f r)\<lparr>ru_mapping := Some mid, ru_status := IM_PREVIEW_READY, ru_key := assigned_key r1 version\<rparr>"
  have rows: "set (import_runs d') = insert ?r2 (set (import_runs d) - {r})"
  proof -
    have "set (update_where ?P ?f (import_runs d)) = insert (?f r) (set (import_runs d) - {r})"
      by (rule set_update_one) (use r P one in blast)+
    then have 1: "set (import_runs d1) = insert (?f r) (set (import_runs d) - {r})" by (simp add: d1)
    have 2: "ru_id y \<noteq> rid" if "y \<in> set (import_runs d) - {r}" for y using one that by blast
    have "set (import_runs d') = insert ?r2 (set (import_runs d1) - {?f r})"
      unfolding d' r1 by (rule set_update_one) (use 1 2 r in auto)
    moreover have "?f r \<notin> set (import_runs d) - {r}" using 2[of "?f r"] r by simp blast
    ultimately show ?thesis unfolding 1 by (metis Diff_insert_absorb)
  qed
  have "\<not> (ru_tenant y = t \<and> ru_key y = ?key)" if "y \<in> set (import_runs d')" for y
  proof (cases "y = ?r2")
    case True
    then show ?thesis using assms(5) by (simp add: assigned_key_def r1)
  next
    case False
    then have "y \<in> set (import_runs d)" "y \<noteq> r" using that rows by auto
    then show ?thesis using r assms(2,4) by (auto simp: distinct_map dest: inj_onD)
  qed
  then have none: "\<not> any_row (\<lambda>x. ru_tenant x = t \<and> ru_key x = ?key) (import_runs d')" by simp
  have "run_by_key t ?key d' = None" using none by (auto simp: run_by_key_def find_None_iff)
  moreover have "\<not> tenant_frozen t d'" using life by (simp add: tenant_frozen_def)
  ultimately have "\<exists>r' d''. upload t user file object True (\<lambda>d. d) d' = (Inr (r', fingerprint), d'') \<and> import_runs d'' = import_runs d' @ [r']
        \<and> length (catalogue_sources d'') = length (catalogue_sources d') + 1 \<and> ru_revision r' = Some (uf_digest file)"
    using assms(6-8,10) type none
    by (auto simp: upload_def known_upload_def run_tx_def upload_tx_def tx_seq_def tx_bind_def tx_defs assertTenantAcceptingMutations_def fresh_id_def
        create_run_def same_run_key_def new_run_def split: sum.splits)
  moreover have "\<exists>x\<in>set (import_runs d'). ru_id x = rid \<and> ru_revision x = Some (uf_digest file) \<and> ru_status x = IM_PREVIEW_READY"
    unfolding rows using r assms(5) by (intro bexI[of _ ?r2]) simp_all
  ultimately show ?thesis using before by blast
qed


section \<open>Samples\<close>

definition upload_sample :: upload_file where
  "upload_sample = \<lparr>uf_name = ''a.csv'', uf_media = ''text/csv'', uf_size = 10, uf_digest = ''c0'', uf_parsed = Some (1, ''f'')\<rparr>"

definition csv_files :: "unit files" where
  "csv_files = \<lparr>fl_get = (\<lambda>k. Some ()), fl_snapshot = (\<lambda>x. None),
     fl_source = (\<lambda>x. Some \<lparr>pt_headers = [''name''], pt_rows = [[CText ''Dress'']], pt_fingerprint = ''f'', pt_numbers = None\<rparr>)\<rparr>"

text \<open>A run in a state; its source is a file.\<close>

definition runs_db :: "import_status \<Rightarrow> db" where
  "runs_db st = empty_db\<lparr>catalogue_sources := [new_source 40 7 CSV_UPLOAD ''k'' ''f''], import_runs := [(new_run 90 7 40 1 ''c0'' 1)\<lparr>ru_status := st\<rparr>]\<rparr>"

definition noon :: clock where
  "noon = \<lparr>at_claim = 1, at_import = 2, at_fence = 3, at_end = 4\<rparr>"

lemma runs_db_rows:
  "find_run 7 90 (runs_db st) = Some ((new_run 90 7 40 1 ''c0'' 1)\<lparr>ru_status := st\<rparr>)"
  "catalogue_sources (runs_db st) = [new_source 40 7 CSV_UPLOAD ''k'' ''f'']" "import_runs (runs_db st) = [(new_run 90 7 40 1 ''c0'' 1)\<lparr>ru_status := st\<rparr>]"
  "lifecycle_requests (runs_db st) = []" "catalogue_mappings (runs_db st) = []"
  by (simp_all add: runs_db_def find_run_def new_run_def empty_db_def)

lemma sample_confirmed:
  "\<exists>e d'. confirm plain_sheet csv_files 7 2 90 5 noon (\<lambda>i. False) (\<lambda>i. False) (\<lambda>i d. d) (runs_db IM_PREVIEW_READY) = (Inl e, d')
    \<and> import_runs d' \<noteq> import_runs (runs_db IM_PREVIEW_READY)"
  by (simp add: confirm_def claimConfirmation_def run_tx_def tx_seq_def tx_bind_def tx_defs assertTenantAcceptingMutations_def tenant_frozen_def
      runs_db_rows update_runs_def loadRun_def find_run_def find_source_def new_source_def new_run_def tx_sum_def claim_file_def run_ready_def begin_run_def
      import_claimed_def find_mapping_def mapped_table_def failConfirmation_def run_claimed_def fail_run_def noon_def)


lemma sample_mapped:
  "\<exists>d'. run_tx (map_columns_tx plain_sheet csv_files 7 90 [(''name'', T_NAME)] [] 5) (runs_db IM_UPLOADED) = (Inr (), d')"
proof -
  have "trim ''name'' = ''name''" by (simp add: trim_def white_space_def)
  then show ?thesis
    by (simp add: map_columns_tx_def tx_seq_def tx_bind_def tx_defs assertTenantAcceptingMutations_def tenant_frozen_def runs_db_rows update_runs_def
        remappable_def new_run_def loadRun_def find_run_def find_source_def new_source_def tx_sum_def table_of_def loadTable_def csv_files_def
        validateMapping_def validateClearFields_def latest_version_def fresh_id_def create_mapping_def assign_mapping_def same_run_key_def Let_def)
qed

theorem remap_forgets_upload_witness:
  "\<exists>d' r' d''. run_tx (map_columns_tx plain_sheet csv_files 7 90 [(''name'', T_NAME)] [] 5) (runs_db IM_UPLOADED) = (Inr (), d')
    \<and> upload 7 1 upload_sample ''k2'' True (\<lambda>d. d) d' = (Inr (r', ''f''), d'') \<and> length (import_runs d'') = length (import_runs d') + 1"
proof -
  obtain d' where m: "run_tx (map_columns_tx plain_sheet csv_files 7 90 [(''name'', T_NAME)] [] 5) (runs_db IM_UPLOADED) = (Inr (), d')"
    using sample_mapped by blast
  have type: "supported_type (map lower_char (extname (uf_name upload_sample))) (uf_media upload_sample) \<noteq> None"
    by (simp add: upload_sample_def extname_def supported_type_def lower_char_def)
  show ?thesis
    using remap_forgets_upload[OF _ _ runs_db_rows(1) _ _ _ _ _ type _ m, of 1 "''f''" 1 "''k2''"] m
    by (fastforce simp: runs_db_rows new_run_def upload_sample_def max_catalogue_upload_bytes_def)
qed

end
