(* ===== verification/Catalogue_Edit.thy ===== *)
theory Catalogue_Edit
  imports Catalogue_Props
begin

text \<open>
  The catalogue as managers edit it, \<open>apps/api/src/catalogue/catalogue.service.ts\<close>: the list, new
  and changed products, and the clearing of the catalogue, with the foreign keys of the tables
  that refer to products.  The search without regard to case, the collation and upper case are
  parameters; the security audit is left out.
\<close>

section \<open>Products\<close>

text \<open>The fields of a request; \<open>None\<close> is \<open>undefined\<close>, and for a nullable field \<open>Some None\<close> is \<open>null\<close>.\<close>

record product_fields =
  pf_sku :: "string option"
  pf_name :: "string option"
  pf_description :: "string option option"
  pf_price :: "rat option option"
  pf_currency :: "string option option"
  pf_stock :: "int option option"
  pf_category :: "string option option"
  pf_brand :: "string option option"
  pf_aliases :: "string list option"
  pf_color :: "string option option"
  pf_size :: "string option option"
  pf_images :: "string list option"
  pf_attributes :: "string option"
  pf_active :: "bool option"

definition normalizeSku :: "(string \<Rightarrow> string) \<Rightarrow> string \<Rightarrow> string" where
  "normalizeSku upper sku = upper (trim sku)"

definition normalizedAliases :: "string list \<Rightarrow> app_error + string list" where
  "normalizedAliases aliases =
     (let normalized = map trim aliases in
      if [] \<in> set normalized \<or> \<not> distinct normalized then Inl (Conflict ''Catalogue aliases must be unique non-empty strings'')
      else Inr normalized)"

text \<open>\<open>if (input.field !== undefined) data.field = ...\<close>\<close>

definition given :: "'a option \<Rightarrow> 'a \<Rightarrow> 'a" where
  "given v old = (case v of Some x \<Rightarrow> x | None \<Rightarrow> old)"

definition write_fields :: "(string \<Rightarrow> string) \<Rightarrow> product_fields \<Rightarrow> string list option \<Rightarrow> instant \<Rightarrow> product \<Rightarrow> product" where
  "write_fields upper f aliases now p = p\<lparr>
     pr_sku := given (map_option (normalizeSku upper) (pf_sku f)) (pr_sku p),
     pr_name := given (map_option trim (pf_name f)) (pr_name p),
     pr_description := given (pf_description f) (pr_description p),
     pr_price := given (map_option (map_option column_price) (pf_price f)) (pr_price p),
     pr_currency := given (map_option (map_option (upper \<circ> trim)) (pf_currency f)) (pr_currency p),
     pr_stock := given (pf_stock f) (pr_stock p),
     pr_category := given (pf_category f) (pr_category p),
     pr_brand := given (pf_brand f) (pr_brand p),
     pr_aliases := given aliases (pr_aliases p),
     pr_color := given (pf_color f) (pr_color p),
     pr_size := given (pf_size f) (pr_size p),
     pr_images := given (pf_images f) (pr_images p),
     pr_attributes := given (pf_attributes f) (pr_attributes p),
     pr_active := given (pf_active f) (pr_active p),
     pr_updated := now\<rparr>"

text \<open>What the columns hold.\<close>

definition columns_hold :: "product \<Rightarrow> bool" where
  "columns_hold p \<longleftrightarrow>
     (case pr_price p of None \<Rightarrow> True | Some q \<Rightarrow> \<bar>q\<bar> < 10 ^ 12)
   \<and> (case pr_currency p of None \<Rightarrow> True | Some s \<Rightarrow> length s \<le> 3)
   \<and> (case pr_stock p of None \<Rightarrow> True | Some n \<Rightarrow> - (2 ^ 31) \<le> n \<and> n < 2 ^ 31)"

definition blank_product :: "uuid \<Rightarrow> uuid \<Rightarrow> product" where
  "blank_product pid t = \<lparr>pr_id = pid, pr_tenant = t, pr_sku = [], pr_name = [], pr_price = None, pr_currency = None, pr_stock = None,
     pr_active = True, pr_aliases = [], pr_description = None, pr_category = None, pr_brand = None, pr_color = None, pr_size = None,
     pr_images = [], pr_attributes = ''{}'', pr_source = None, pr_row_key = None, pr_updated = 0\<rparr>"

definition sku_taken :: "product \<Rightarrow> db \<Rightarrow> bool" where
  "sku_taken p d \<longleftrightarrow> any_row (\<lambda>x. pr_tenant x = pr_tenant p \<and> pr_sku x = pr_sku p \<and> pr_id x \<noteq> pr_id p) (products d)"

text \<open>\<open>throwUniqueSkuConflict\<close>\<close>

definition sku_conflict :: "app_error \<Rightarrow> app_error" where
  "sku_conflict e = (if e = UniqueViolation then Conflict ''Catalogue SKU already exists'' else e)"

definition create_product :: "(string \<Rightarrow> string) \<Rightarrow> uuid \<Rightarrow> product_fields \<Rightarrow> instant \<Rightarrow> product dbtx" where
  "create_product upper t f now =
     tx_seq (assertTenantAcceptingMutations t CATALOGUE)
    (case normalizedAliases (given (pf_aliases f) []) of
       Inl e \<Rightarrow> tx_throw e
     | Inr aliases \<Rightarrow> tx_bind fresh_id (\<lambda>pid.
         let p = write_fields upper f (Some aliases) now (blank_product pid t) in
         tx_seq (tx_when (\<not> columns_hold p) out_of_column)
        (tx_bind (tx_read (sku_taken p)) (\<lambda>taken.
         tx_seq (tx_when taken UniqueViolation)
        (tx_seq (tx_write (\<lambda>d. d\<lparr>products := products d @ [p]\<rparr>)) (tx_return p))))))"

definition update_product :: "(string \<Rightarrow> string) \<Rightarrow> uuid \<Rightarrow> uuid \<Rightarrow> product_fields \<Rightarrow> instant \<Rightarrow> product dbtx" where
  "update_product upper t pid f now =
     tx_seq (assertTenantAcceptingMutations t CATALOGUE)
    (case (case pf_aliases f of None \<Rightarrow> Inr None | Some a \<Rightarrow> map_sum id Some (normalizedAliases a)) of
       Inl e \<Rightarrow> tx_throw e
     | Inr aliases \<Rightarrow> tx_bind (tx_read (\<lambda>d. List.find (\<lambda>p. pr_id p = pid \<and> pr_tenant p = t) (products d))) (\<lambda>found.
         case found of
           None \<Rightarrow> tx_throw (NotFound ''Catalogue product not found'')
         | Some old \<Rightarrow> let p = write_fields upper f aliases now old in
             tx_seq (tx_when (\<not> columns_hold p) out_of_column)
            (tx_bind (tx_read (sku_taken p)) (\<lambda>taken.
             tx_seq (tx_when taken UniqueViolation)
            (tx_seq (tx_write (\<lambda>d. d\<lparr>products := update_where (\<lambda>x. pr_id x = pid \<and> pr_tenant x = t) (\<lambda>x. p) (products d)\<rparr>)) (tx_return p))))))"

definition catalogue_create :: "(string \<Rightarrow> string) \<Rightarrow> uuid \<Rightarrow> product_fields \<Rightarrow> instant \<Rightarrow> product dbservice" where
  "catalogue_create upper t f now = svc_try (run_tx (create_product upper t f now)) (\<lambda>e. svc_throw (sku_conflict e))"

definition catalogue_update :: "(string \<Rightarrow> string) \<Rightarrow> uuid \<Rightarrow> uuid \<Rightarrow> product_fields \<Rightarrow> instant \<Rightarrow> product dbservice" where
  "catalogue_update upper t pid f now = svc_try (run_tx (update_product upper t pid f now)) (\<lambda>e. svc_throw (sku_conflict e))"

text \<open>\<open>inventory_reservations\<close> refers to products with \<open>ON DELETE RESTRICT\<close>, whatever the status of
  the reservation.\<close>

abbreviation foreign_key :: app_error where
  "foreign_key \<equiv> Plain ''P2003''"

definition catalogue_clear :: "uuid \<Rightarrow> nat dbtx" where
  "catalogue_clear t =
     tx_seq (assertTenantAcceptingMutations t CATALOGUE)
    (tx_bind (tx_read (\<lambda>d. any_row (\<lambda>p. pr_tenant p = t \<and> any_row (\<lambda>r. rs_tenant r = t \<and> rs_product r = pr_id p) (reservations d)) (products d))) (\<lambda>referred.
     tx_seq (tx_when referred foreign_key)
    (tx_bind (tx_read (\<lambda>d. count_where (\<lambda>p. pr_tenant p = t) (products d))) (\<lambda>n.
     tx_seq (tx_write (\<lambda>d. d\<lparr>products := filter (\<lambda>p. pr_tenant p \<noteq> t) (products d)\<rparr>)) (tx_return n)))))"

section \<open>The list\<close>

datatype catalogue_sort = BY_SKU | BY_NAME | BY_PRICE | BY_STOCK | BY_STATUS

text \<open>\<open>nulls: 'last'\<close> in both directions; the identifier decides between equal rows.\<close>

definition catalogue_key :: "(string \<Rightarrow> int) \<Rightarrow> catalogue_sort \<Rightarrow> bool \<Rightarrow> product \<Rightarrow> nat \<times> int \<times> uuid" where
  "catalogue_key rank s ascending p =
     (let v = (case s of BY_SKU \<Rightarrow> Some (rank (pr_sku p)) | BY_NAME \<Rightarrow> Some (rank (pr_name p)) | BY_PRICE \<Rightarrow> pr_price p
            | BY_STOCK \<Rightarrow> pr_stock p | BY_STATUS \<Rightarrow> Some (if pr_active p then 1 else 0)) in
      case v of None \<Rightarrow> (1, 0, pr_id p) | Some n \<Rightarrow> (0, if ascending then n else - n, pr_id p))"

definition catalogue_matches :: "(string \<Rightarrow> string \<Rightarrow> bool) \<Rightarrow> uuid \<Rightarrow> string option \<Rightarrow> product \<Rightarrow> bool" where
  "catalogue_matches icontains t search p \<longleftrightarrow> pr_tenant p = t
     \<and> (case map_option trim search of None \<Rightarrow> True | Some s \<Rightarrow> s = [] \<or> icontains s (pr_sku p) \<or> icontains s (pr_name p) \<or> s \<in> set (pr_aliases p))"

definition catalogue_list ::
  "(string \<Rightarrow> string \<Rightarrow> bool) \<Rightarrow> (string \<Rightarrow> int) \<Rightarrow> uuid \<Rightarrow> string option \<Rightarrow> nat \<Rightarrow> nat \<Rightarrow> catalogue_sort \<Rightarrow> bool \<Rightarrow> db \<Rightarrow> product list \<times> nat" where
  "catalogue_list icontains rank t search page page_size s ascending d =
     (let rows = sort_key (catalogue_key rank s ascending) (filter (catalogue_matches icontains t search) (products d)) in
      (take page_size (drop ((page - 1) * page_size) rows), length rows))"

section \<open>Properties\<close>

text \<open>A catalogue can be cleared only while none of its products was ever reserved: a reservation
  that was released or used up long ago keeps its row, the row keeps its product, and then the
  clearing throws an error of the database and deletes nothing.\<close>

lemma clear_blocked:
  assumes "r \<in> set (reservations d)" and "rs_tenant r = t" and "p \<in> set (products d)" and "pr_tenant p = t" and "pr_id p = rs_product r"
    and "\<not> tenant_frozen t d"
  shows "run_tx (catalogue_clear t) d = (Inl foreign_key, d)"
proof -
  have "any_row (\<lambda>p. pr_tenant p = t \<and> any_row (\<lambda>r. rs_tenant r = t \<and> rs_product r = pr_id p) (reservations d)) (products d)"
    unfolding any_row_iff using assms(1-5) by (intro bexI[of _ p] conjI bexI[of _ r]) simp_all
  then show ?thesis
    using assms(6) by (simp add: catalogue_clear_def run_tx_def tx_seq_def tx_bind_def tx_defs assertTenantAcceptingMutations_def del: any_row_iff)
qed

lemma columns_hold_import: "columns_hold (productCreate L i t s now n p) \<longleftrightarrow> fits p"
  by (auto simp: columns_hold_def fits_def productCreate_def split: option.splits)

text \<open>A product that is created or changed keeps the catalogue keyed by tenant and article number.\<close>

lemma create_product_keys:
  assumes "distinct (map product_key (products d))" and "\<forall>x\<in>set (products d). pr_id x < next_id d" and "create_product upper t f now d = Inr (p, d')"
  shows "distinct (map product_key (products d')) \<and> p \<in> set (products d')"
proof -
  obtain aliases where al: "normalizedAliases (given (pf_aliases f) []) = Inr aliases"
    using assms(3) by (cases "normalizedAliases (given (pf_aliases f) [])") (auto simp: create_product_def tx_iff)
  then have p: "\<not> sku_taken p (d\<lparr>next_id := next_id d + 1\<rparr>)" "pr_id p = next_id d" "pr_tenant p = t" "products d' = products d @ [p]"
    using assms(3) by (auto simp: create_product_def tx_iff fresh_id_def Let_def assertTenantAcceptingMutations_def write_fields_def blank_product_def split: if_splits)
  then have "product_key p \<notin> product_key ` set (products d)"
    using assms(2) by (fastforce simp: sku_taken_def product_key_def)
  then show ?thesis using assms(1) p(4) by simp
qed

end
