(* ===== verification/Spec2Isabelle.thy ===== *)
theory Spec2Isabelle
  imports Procurement_Props Payments_Props Terms_Props Orders_Props Recognition_Props Messages_Props Telegram_Props Shipments_Props Lifecycle_Props Export_Archive Ingestion_Props Inbox_Props Reply_Drafts_Props
    Sheet_Rows Catalogue_Props Catalogue_Runs_Props Catalogue_Edit
begin

text \<open>
  AutoSale takes the messages of customers from Instagram, Facebook and TikTok, finds orders in
  them, and accompanies an order through terms, payments, procurement and delivery, for many
  tenants in one database.  This development models the services of its API (\<open>apps/api\<close>), its
  workers (\<open>apps/worker\<close>), the packages they share (\<open>packages/contracts\<close>, \<open>packages/database\<close>)
  and the functions of the database that the workers call (\<open>packages/database/prisma/migrations\<close>).
  All paths below are under \<open>src/\<close>.

  How the parts interact.  They share the database and nothing else: a service is a row of
  transactions, workers are woken by queues that carry identifiers, and reconcilers queue again
  what a lost job has left.  So the state of the model is one record of tables, \<open>db\<close> of theory
  \<open>Store\<close>; a transaction (\<open>'a dbtx\<close> of \<open>Base\<close>) is a function from it to an error or a result with a
  new store; \<open>run_tx\<close> commits it or, when it throws, keeps the old store.  A service (\<open>'a svc\<close>) is
  a composition of transactions, where what it has committed stays when it fails later.  What
  others commit between two transactions of a service is an argument, \<open>env\<close>, of services that
  wait for a provider or read before they write, or is a step of a relation
  (\<open>lifecycle_commit\<close>, \<open>inbox_step\<close>, \<open>draft_step\<close>) whose paths are all interleavings of
  transactions.  A concurrent transaction that breaks a unique index appears as the error
  \<open>UniqueViolation\<close>, and an update under a condition as a count of zero rows.

  Which theory models what.
  \<^item> \<open>Base\<close>: tables (\<open>updateMany\<close>, \<open>count\<close>, \<open>aggregate\<close>, \<open>findFirst\<close>), transactions, services.
    \<open>Store\<close>: the enumerations of \<open>packages/contracts\<close> and one record per table of
    \<open>schema.prisma\<close>; \<open>wf_store\<close> has its keys and unique indexes.  \<open>Preserve\<close>: what a composed
    transaction leaves alone.  \<open>Leases\<close>: work queues with leases.  \<open>Json\<close>: JSON values.
  \<^item> \<open>Tenancy\<close>: \<open>tenant-transaction.ts\<close>, \<open>tenant-lifecycle.ts\<close>, \<open>platform-channel-gate.ts\<close>.
  \<^item> \<open>Lifecycle\<close>, \<open>Export_Archive\<close>, \<open>Lifecycle_Props\<close>: export and deletion of a tenant:
    \<open>admin/tenant-lifecycle.service.ts\<close>, \<open>worker/src/tenant-lifecycle\<close>.
  \<^item> \<open>Money\<close>, \<open>Terms\<close>, \<open>Payments\<close> and their \<open>_Props\<close>: \<open>order-payments.ts\<close>, \<open>commercial-terms.ts\<close>,
    \<open>orders/commercial-terms.service.ts\<close>, \<open>orders/payments.service.ts\<close>.
  \<^item> \<open>Procurement\<close>, \<open>Procurement_Facts\<close>, \<open>Procurement_Props\<close>: \<open>procurement-store.ts\<close>,
    \<open>contracts/src/procurement.ts\<close>.
  \<^item> \<open>Order_Views\<close>, \<open>Orders\<close>, \<open>Orders_Props\<close>: \<open>orders/orders.service.ts\<close>.
  \<^item> \<open>Recognition\<close>, \<open>Recognition_Props\<close>: \<open>worker/src/orders\<close>: what in a conversation becomes an order.
  \<^item> \<open>Normalizers\<close>, \<open>Ingestion\<close>, \<open>Ingestion_Props\<close>: the readers of webhook payloads,
    \<open>social/social-inbound-ingestion.service.ts\<close>.
  \<^item> \<open>Conversations\<close>, \<open>Inbox_Props\<close>: \<open>conversations/conversations.service.ts\<close>.
  \<^item> \<open>Messages\<close>, \<open>Messages_Props\<close>: delivery of replies to Instagram, Facebook and TikTok.
  \<^item> \<open>Claims\<close>, \<open>Reply_Drafts\<close> and their \<open>_Props\<close>: \<open>worker/src/reply-drafts\<close>,
    \<open>conversations/reply-drafts.service.ts\<close>: replies that a language model proposes.
  \<^item> \<open>Catalogue\<close>, \<open>Sheet_Rows\<close>, \<open>Catalogue_Runs\<close>, \<open>Catalogue_Edit\<close> and their \<open>_Props\<close>: products from tables:
    \<open>catalogue-import-engine.ts\<close>, \<open>worker/src/catalogue/catalogue-row-classifier.ts\<close>,
    \<open>catalogue-import/catalogue-import.service.ts\<close>, \<open>catalogue/catalogue.service.ts\<close>.
  \<^item> \<open>Alerts\<close>, \<open>Supplier_Orders\<close>, \<open>Telegram\<close>, \<open>Telegram_Props\<close>: \<open>notifications\<close>,
    \<open>integrations/telegram.service.ts\<close>, \<open>worker/src/telegram\<close>.
  \<^item> \<open>Shipments\<close>, \<open>Shipments_Props\<close>: \<open>worker/src/delivery\<close>.

  Interfaces.  \<open>tenant_commands\<close> (\<open>Tenancy\<close>) is what a command promises: its invariant stays and
  rows of other tenants are not touched; the commands of payments and of procurement provide
  it.  \<open>status_machine\<close> is a table of allowed transitions with final states (the lifecycle of a
  tenant, the status of an item).  \<open>lease_queue\<close> (\<open>Leases\<close>) is a queue in a table: a worker that was
  overtaken writes nothing, and no two hold a row; deliveries of messages and of Telegram texts,
  shipments, exports and retention runs provide it.  \<open>row_order\<close> (\<open>Inbox_Props\<close>) is an order on
  rows that every commit respects; conversations and drafts provide it.

  What the lemmas show.
  \<^item> Stock is never promised twice, and a hand-off takes from stock what the order holds.
  \<^item> Approval, correction and cancellation do what they say on every table, or nothing.
  \<^item> A payment is recorded once under its key, whatever races; amounts are exact.
  \<^item> One message gives one order; only complete orders are approved without a person.
  \<^item> A TikTok message is sent again only after a definite refusal (refinement of an abstract
    machine of three phases); retries and delays are bounded.
  \<^item> A delivery to a supplier ends and moves its items; a due one is taken up; a frozen tenant
    leaves it stranded.
  \<^item> A creation of a shipment ends and agrees with its attempt; issued shipments stay issued.
  \<^item> The lifecycle follows its table under all commits; a ready export is complete and sound.
  \<^item> A message that is delivered again changes nothing; an echo and the receipt of the worker
    settle a message alike; a processed event has all its messages and media.
  \<^item> A status is never changed over one that its author did not see; replies keep their limits.
  \<^item> A reply that is offered is grounded in the catalogue; the model is asked once per draft.
  \<^item> An import writes what its plan says under its lease or nothing, and again changes nothing;
    no row of a sheet is lost; a confirmation ends its run and releases its source.

  Bounds and termination.  Loops over lists are structural.  \<open>serializable\<close> makes at most the
  three attempts of the code.  The loop over the pages of an export may not end when
  identifiers repeat, so it returns an option; \<open>export_complete\<close> proves that it ends.  Numbers
  of the language are integers: all are far below \<open>2^53\<close>, save the numbers in texts and
  cells that \<open>Claims\<close> and \<open>Catalogue\<close> read, which are exact fractions where the platform rounds.
  Amounts are hundredths.

  Parameters.  HTTP clients of messengers, of carriers and of the bot, language models, the
  cipher, SHA-256, the store of objects, the parser of addresses, regular expressions over
  words of Ukrainian and English, \<open>toLocaleLowerCase\<close>, the collation of the database, and the
  decimal library, the parsers of catalogue files.  Laws assumed of a parameter are hypotheses
  of the theorem that needs them, and its witness gives an instance.

  Not modelled.  The client that Prisma generates (most lines of the repository), the web
  interface, controllers and signature checks of webhooks, OAuth and connections of
  channels, enrichment of profiles, HTTP clients of carriers, sign-in and sessions: they
  are presentation, generated code or calls of external services.  The search of the catalogue
  for a reply, prompts and the accounting of their use, the workers that read Google Sheets and
  let a model propose a mapping, the parsers of files and the export to Google Sheets are large
  parts of their own; the rows that they leave to the modelled parts are in the store.
\<close>

end
